(* ===== verification/Go_Prelude.thy ===== *)
theory Go_Prelude
  imports "HOL-Library.Word" "HOL-Library.Char_ord" "HOL-Library.List_Lexorder"
    "HOL-Library.Sublist" "HOL-Library.AList"
begin

text \<open>
  What the components share: Go strings as byte lists (\<open>string\<close>, one \<open>char\<close> per byte) with
  the functions of Go's \<open>strings\<close>, \<open>strconv\<close> and \<open>sort\<close> packages the program calls, 64-bit
  integers, and the loop "trim, skip the empty, keep the first of each key" that the code
  writes out in a dozen places.

  White space is Unicode's, byte for byte as UTF-8 (\<open>go_spaces\<close>), so \<open>trim_space\<close> is
  \<open>strings.TrimSpace\<close> on every valid UTF-8 text. Letter case is that of the ASCII letters:
  a comparison of two texts that differ only in the case of a non-ASCII letter (or in one of the
  two compatibility letters U+212A and U+017F that Go folds to \<open>k\<close> and \<open>s\<close>) is outside
  the model.
\<close>

named_theorems go_string \<open>rewrite rules for the string functions\<close>
named_theorems go_inv \<open>introduction rules for well-formedness invariants\<close>

section \<open>Trimming\<close>

definition ascii_spaces :: "char list" where
  "ascii_spaces = [CHR '' '', CHR 0x09, CHR 0x0A, CHR 0x0B, CHR 0x0C, CHR 0x0D]"

text \<open>The runes of \<open>unicode.IsSpace\<close>: the six of ASCII, then U+0085, U+00A0, U+1680,
  U+2000 to U+200A, U+2028, U+2029, U+202F, U+205F and U+3000 in UTF-8.\<close>

definition go_spaces :: "string list" where
  "go_spaces = map (\<lambda>c. [c]) ascii_spaces
     @ [[CHR 0xC2, CHR 0x85], [CHR 0xC2, CHR 0xA0], [CHR 0xE1, CHR 0x9A, CHR 0x80]]
     @ map (\<lambda>c. [CHR 0xE2, CHR 0x80, c])
         [CHR 0x80, CHR 0x81, CHR 0x82, CHR 0x83, CHR 0x84, CHR 0x85, CHR 0x86, CHR 0x87,
          CHR 0x88, CHR 0x89, CHR 0x8A, CHR 0xA8, CHR 0xA9, CHR 0xAF]
     @ [[CHR 0xE2, CHR 0x81, CHR 0x9F], [CHR 0xE3, CHR 0x80, CHR 0x80]]"

text \<open>The length of the first of \<open>ws\<close> that starts \<open>s\<close>, 0 when none does.\<close>

fun lead_len :: "string list \<Rightarrow> string \<Rightarrow> nat" where
  "lead_len [] s = 0"
| "lead_len (w # ws) s = (if prefix w s then length w else lead_len ws s)"

lemma lead_len_le: "lead_len ws s \<le> length s"
  by (induction ws) (auto dest: prefix_length_le)

function strip_lead :: "string list \<Rightarrow> string \<Rightarrow> string" where
  "strip_lead ws s = (if lead_len ws s = 0 then s else strip_lead ws (drop (lead_len ws s) s))"
  by pat_completeness auto
termination
proof (relation "measure (\<lambda>(ws, s). length s)", simp_all)
  fix ws s
  assume "0 < lead_len ws s"
  moreover have "lead_len ws s \<le> length s" by (rule lead_len_le)
  ultimately show "length s - lead_len ws s < length s" by arith
qed

declare strip_lead.simps [simp del]

definition trim_left :: "string \<Rightarrow> string" where
  "trim_left s = strip_lead go_spaces s"

definition trim_right :: "string \<Rightarrow> string" where
  "trim_right s = rev (strip_lead (map rev go_spaces) (rev s))"

definition trim_space :: "string \<Rightarrow> string" where
  "trim_space s = trim_right (trim_left s)"

lemma strip_lead_fix: "lead_len ws s = 0 \<Longrightarrow> strip_lead ws s = s"
  by (simp add: strip_lead.simps [of ws s])

lemma strip_lead_lead: "lead_len ws (strip_lead ws s) = 0"
  by (induction ws s rule: strip_lead.induct) (metis strip_lead.simps)

lemma strip_lead_suffix: "suffix (strip_lead ws s) s"
proof (induction ws s rule: strip_lead.induct)
  case (1 ws s)
  show ?case
  proof (cases "lead_len ws s = 0")
    case True
    then show ?thesis by (simp add: strip_lead_fix)
  next
    case False
    with 1 have "suffix (strip_lead ws (drop (lead_len ws s) s)) (drop (lead_len ws s) s)"
      by simp
    with False show ?thesis
      by (metis strip_lead.simps suffix_drop suffix_order.trans)
  qed
qed

lemma lead_len_zero_prefix:
  "lead_len ws s = 0 \<Longrightarrow> [] \<notin> set ws \<Longrightarrow> prefix t s \<Longrightarrow> lead_len ws t = 0"
  by (induction ws) (auto split: if_splits dest: prefix_order.trans)

lemma go_spaces_nonempty: "[] \<notin> set go_spaces"
  by (auto simp: go_spaces_def)

lemma trim_right_prefix: "prefix (trim_right s) s"
  using strip_lead_suffix [of "map rev go_spaces" "rev s"]
  by (simp add: trim_right_def suffix_to_prefix)

lemma trim_left_trim_right_fix:
  assumes "trim_left s = s"
  shows "trim_left (trim_right s) = trim_right s"
proof -
  have "lead_len go_spaces s = 0"
    using assms strip_lead_lead [of go_spaces s] by (simp add: trim_left_def)
  then have "lead_len go_spaces (trim_right s) = 0"
    by (rule lead_len_zero_prefix [OF _ go_spaces_nonempty trim_right_prefix])
  then show ?thesis by (simp add: trim_left_def strip_lead_fix)
qed

lemma trim_left_idem [simp]: "trim_left (trim_left s) = trim_left s"
  by (simp add: trim_left_def strip_lead_fix strip_lead_lead)

lemma trim_right_idem [simp]: "trim_right (trim_right s) = trim_right s"
  by (simp add: trim_right_def strip_lead_fix strip_lead_lead)

lemma trim_space_idem [simp, go_string]: "trim_space (trim_space s) = trim_space s"
  by (simp add: trim_space_def trim_left_trim_right_fix)

lemma trim_space_Nil [simp, go_string]: "trim_space [] = []"
  by (simp add: trim_space_def trim_left_def trim_right_def strip_lead.simps [of _ "[]"]
      go_spaces_def ascii_spaces_def)

lemma length_trim_space: "length (trim_space s) \<le> length s"
proof -
  have "length (trim_left s) \<le> length s"
    unfolding trim_left_def by (rule suffix_length_le [OF strip_lead_suffix])
  moreover have "length (trim_right (trim_left s)) \<le> length (trim_left s)"
    by (rule prefix_length_le [OF trim_right_prefix])
  ultimately show ?thesis by (simp add: trim_space_def)
qed

text \<open>A text that begins and ends with a visible ASCII character is its own trimming; with
  this rule \<open>simp\<close> evaluates \<open>trim_space\<close> on the literals of the code.\<close>

fun graphic :: "char \<Rightarrow> bool" where
  "graphic (Char b0 b1 b2 b3 b4 b5 b6 b7) \<longleftrightarrow>
     \<not> b7 \<and> (b5 \<or> b6) \<and> (b6 \<or> b0 \<or> b1 \<or> b2 \<or> b3 \<or> b4)
       \<and> \<not> (b0 \<and> b1 \<and> b2 \<and> b3 \<and> b4 \<and> b5 \<and> b6)"

lemma graphic_lead: "w \<in> set go_spaces \<Longrightarrow> \<not> graphic (hd w) \<and> \<not> graphic (last w) \<and> w \<noteq> []"
  by (auto simp: go_spaces_def ascii_spaces_def)

lemma lead_len_no_prefix: "(\<And>w. w \<in> set ws \<Longrightarrow> \<not> prefix w s) \<Longrightarrow> lead_len ws s = 0"
  by (induction ws) auto

lemma graphic_no_prefix:
  "s \<noteq> [] \<Longrightarrow> graphic (hd s) \<Longrightarrow> (\<And>w. w \<in> set ws \<Longrightarrow> \<not> graphic (hd w) \<and> w \<noteq> [])
     \<Longrightarrow> strip_lead ws s = s"
  by (rule strip_lead_fix, rule lead_len_no_prefix) (metis hd_append2 prefixE)

lemma trim_plain [go_string]:
  assumes "s \<noteq> []" and "graphic (hd s)" and "graphic (last s)"
  shows "trim_space s = s"
proof -
  have "strip_lead go_spaces s = s"
    using assms graphic_lead by (intro graphic_no_prefix) auto
  moreover have "strip_lead (map rev go_spaces) (rev s) = rev s"
    using assms graphic_lead by (intro graphic_no_prefix) (auto simp: hd_rev)
  ultimately show ?thesis by (simp add: trim_space_def trim_left_def trim_right_def)
qed

lemma lead_len_prefix: "lead_len ws s \<noteq> 0 \<Longrightarrow> \<exists>w \<in> set ws. w \<noteq> [] \<and> prefix w s \<and> lead_len ws s = length w"
  by (induction ws) (auto split: if_splits)

lemma strip_lead_Nil: "strip_lead ws s = [] \<Longrightarrow> s \<noteq> [] \<Longrightarrow> \<exists>w \<in> set ws. w \<noteq> [] \<and> last w = last s"
proof (induction ws s rule: strip_lead.induct)
  case (1 ws s)
  have n: "lead_len ws s \<noteq> 0" using 1(2,3) by (metis strip_lead_fix)
  then obtain w where w: "w \<in> set ws" "w \<noteq> []" "prefix w s" "lead_len ws s = length w"
    using lead_len_prefix by blast
  then obtain t where t: "s = w @ t" by (auto elim: prefixE)
  show ?case
  proof (cases "t = []")
    case True
    with w t show ?thesis by auto
  next
    case False
    have "strip_lead ws t = []" using 1(2) n w(4) t strip_lead.simps [of ws s] by simp
    then have "\<exists>v \<in> set ws. v \<noteq> [] \<and> last v = last t" using 1(1) [OF n] False w(4) t by simp
    with False t show ?thesis by simp
  qed
qed

text \<open>A text that begins with a visible character is not blank.\<close>

lemma trim_space_visible: "s \<noteq> [] \<Longrightarrow> graphic (hd s) \<Longrightarrow> trim_space s \<noteq> []"
proof
  assume s: "s \<noteq> []" "graphic (hd s)" "trim_space s = []"
  have "trim_left s = s"
    using s(1,2) graphic_lead by (auto simp: trim_left_def intro!: graphic_no_prefix)
  with s(3) have "strip_lead (map rev go_spaces) (rev s) = []"
    by (simp add: trim_space_def trim_right_def)
  with s(1) obtain w where "w \<in> set go_spaces" "w \<noteq> []" "hd w = hd s"
    using strip_lead_Nil [of "map rev go_spaces" "rev s"] by (auto simp: last_rev)
  with graphic_lead [of w] s(2) show False by simp
qed

lemmas trim_literal = trim_plain

text \<open>A text is blank when \<open>strings.TrimSpace(s) == ""\<close>.\<close>

definition blank :: "string \<Rightarrow> bool" where
  "blank s \<longleftrightarrow> trim_space s = []"

lemma blank_Nil [simp]: "blank []"
  by (simp add: blank_def)

lemma blank_trim [simp]: "blank (trim_space s) = blank s"
  by (simp add: blank_def)

lemma not_blank_nonempty: "\<not> blank s \<Longrightarrow> s \<noteq> []"
  by auto

section \<open>Letter case\<close>

text \<open>An upper-case letter is a byte \<open>010\<close> followed by 1 to 26, a lower-case one \<open>011\<close>
  followed by 1 to 26: case mapping sets or clears bit 5. Written on the bits, it evaluates on
  character literals by rewriting alone.\<close>

definition letter_bits :: "bool \<Rightarrow> bool \<Rightarrow> bool \<Rightarrow> bool \<Rightarrow> bool \<Rightarrow> bool" where
  "letter_bits b0 b1 b2 b3 b4 \<longleftrightarrow>
     (b0 \<or> b1 \<or> b2 \<or> b3 \<or> b4) \<and> \<not> (b4 \<and> b3 \<and> (b2 \<or> (b1 \<and> b0)))"

fun lower_char :: "char \<Rightarrow> char" where
  "lower_char (Char b0 b1 b2 b3 b4 b5 b6 b7) =
     Char b0 b1 b2 b3 b4 (b5 \<or> (b6 \<and> \<not> b7 \<and> letter_bits b0 b1 b2 b3 b4)) b6 b7"

fun upper_char :: "char \<Rightarrow> char" where
  "upper_char (Char b0 b1 b2 b3 b4 b5 b6 b7) =
     Char b0 b1 b2 b3 b4 (b5 \<and> \<not> (b6 \<and> \<not> b7 \<and> letter_bits b0 b1 b2 b3 b4)) b6 b7"

definition to_lower :: "string \<Rightarrow> string" where
  "to_lower s = map lower_char s"

definition to_upper :: "string \<Rightarrow> string" where
  "to_upper s = map upper_char s"

definition equal_fold :: "string \<Rightarrow> string \<Rightarrow> bool" where
  "equal_fold s t \<longleftrightarrow> to_lower s = to_lower t"

lemma lower_char_idem [simp]: "lower_char (lower_char c) = lower_char c"
  by (cases c) auto

lemma to_lower_idem [simp, go_string]: "to_lower (to_lower s) = to_lower s"
  by (simp add: to_lower_def)

lemma to_lower_Nil [simp]: "to_lower [] = []"
  by (simp add: to_lower_def)

lemma to_lower_eq_Nil [simp]: "to_lower s = [] \<longleftrightarrow> s = []"
  by (simp add: to_lower_def)

lemma to_lower_append [simp]: "to_lower (s @ t) = to_lower s @ to_lower t"
  by (simp add: to_lower_def)

lemma length_to_lower [simp]: "length (to_lower s) = length s"
  by (simp add: to_lower_def)

lemma to_upper_Nil [simp]: "to_upper [] = []"
  by (simp add: to_upper_def)

lemma to_upper_eq_Nil [simp]: "to_upper s = [] \<longleftrightarrow> s = []"
  by (simp add: to_upper_def)

lemmas case_literal = to_lower_def to_upper_def letter_bits_def

lemma equal_fold_refl [simp]: "equal_fold s s"
  by (simp add: equal_fold_def)

lemma equal_fold_sym: "equal_fold s t = equal_fold t s"
  by (auto simp: equal_fold_def)

lemma equal_fold_trans: "equal_fold s t \<Longrightarrow> equal_fold t u \<Longrightarrow> equal_fold s u"
  by (simp add: equal_fold_def)

text \<open>Case mapping and trimming commute: no letter is a byte of a white-space rune.\<close>

definition space_bytes :: "char list" where
  "space_bytes = concat go_spaces"

lemma lower_char_space: "w \<in> set space_bytes \<Longrightarrow> lower_char c = w \<longleftrightarrow> c = w"
  by (cases c)
     (auto simp: space_bytes_def go_spaces_def ascii_spaces_def letter_bits_def)

lemma prefix_lower:
  "set w \<subseteq> set space_bytes \<Longrightarrow> prefix w (map lower_char s) = prefix w s"
proof (induction w arbitrary: s)
  case Nil
  then show ?case by simp
next
  case (Cons a w)
  then show ?case by (cases s) (auto simp: lower_char_space eq_commute [of a])
qed

lemma lead_len_lower:
  "(\<Union> (set ` set ws)) \<subseteq> set space_bytes \<Longrightarrow> lead_len ws (map lower_char s) = lead_len ws s"
  by (induction ws) (auto simp: prefix_lower)

lemma strip_lead_lower:
  assumes "(\<Union> (set ` set ws)) \<subseteq> set space_bytes"
  shows "strip_lead ws (map lower_char s) = map lower_char (strip_lead ws s)"
  using assms
proof (induction ws s rule: strip_lead.induct)
  case (1 ws s)
  then show ?case
    by (cases "lead_len ws s = 0")
       (simp_all add: strip_lead.simps [of ws s] strip_lead.simps [of ws "map lower_char s"]
          lead_len_lower drop_map)
qed

lemma trim_space_to_lower [go_string]: "trim_space (to_lower s) = to_lower (trim_space s)"
proof -
  have 1: "(\<Union> (set ` set go_spaces)) \<subseteq> set space_bytes"
    by (auto simp: space_bytes_def)
  have 2: "(\<Union> (set ` set (map rev go_spaces))) \<subseteq> set space_bytes"
    by (auto simp: space_bytes_def)
  show ?thesis
    by (simp add: trim_space_def trim_left_def trim_right_def to_lower_def
        strip_lead_lower [OF 1] strip_lead_lower [OF 2] rev_map)
qed

lemma blank_to_lower [simp]: "blank (to_lower s) = blank s"
  by (simp add: blank_def trim_space_to_lower)

lemma to_lower_to_upper [simp]: "to_lower (to_upper s) = to_lower s"
proof -
  have "lower_char (upper_char c) = lower_char c" for c
    by (cases c) (auto simp: letter_bits_def)
  then show ?thesis by (simp add: to_lower_def to_upper_def)
qed

lemma blank_to_upper [simp]: "blank (to_upper s) = blank s"
  by (metis blank_to_lower to_lower_to_upper)

section \<open>Splitting, joining, searching\<close>

fun join :: "string \<Rightarrow> string list \<Rightarrow> string" where
  "join sep [] = []"
| "join sep [s] = s"
| "join sep (s # t # ss) = s @ sep @ join sep (t # ss)"

text \<open>\<open>strings.Split(s, sep)\<close> for a separator of one byte.\<close>

fun split_on :: "char \<Rightarrow> string \<Rightarrow> string list" where
  "split_on c [] = [[]]"
| "split_on c (d # s) =
     (if d = c then [] # split_on c s
      else (case split_on c s of [] \<Rightarrow> [[d]] | p # ps \<Rightarrow> (d # p) # ps))"

text \<open>\<open>strings.Contains\<close>.\<close>

fun contains :: "string \<Rightarrow> string \<Rightarrow> bool" where
  "contains [] sub \<longleftrightarrow> sub = []"
| "contains (c # s) sub \<longleftrightarrow> prefix sub (c # s) \<or> contains s sub"

text \<open>\<open>strings.ReplaceAll\<close> of one byte by another.\<close>

definition replace_char :: "char \<Rightarrow> char \<Rightarrow> string \<Rightarrow> string" where
  "replace_char a b s = map (\<lambda>c. if c = a then b else c) s"

text \<open>\<open>strings.Trim(s, cutset)\<close> for a cutset of one byte.\<close>

definition trim_char :: "char \<Rightarrow> string \<Rightarrow> string" where
  "trim_char a s = rev (dropWhile (\<lambda>c. c = a) (rev (dropWhile (\<lambda>c. c = a) s)))"

text \<open>\<open>strings.Fields\<close>, on texts whose white space is ASCII.\<close>

fun fields_aux :: "string \<Rightarrow> string \<Rightarrow> string list" where
  "fields_aux acc [] = (if acc = [] then [] else [rev acc])"
| "fields_aux acc (c # s) =
     (if c \<in> set ascii_spaces
      then (if acc = [] then fields_aux [] s else rev acc # fields_aux [] s)
      else fields_aux (c # acc) s)"

definition go_fields :: "string \<Rightarrow> string list" where
  "go_fields s = fields_aux [] s"

lemma split_on_nonempty [simp]: "split_on c s \<noteq> []"
  by (induction s) (auto split: list.splits)

lemma join_split_on: "join [c] (split_on c s) = s"
proof (induction s)
  case Nil
  then show ?case by simp
next
  case (Cons d s)
  obtain p ps where ps: "split_on c s = p # ps"
    by (cases "split_on c s") auto
  with Cons show ?case by (cases ps) auto
qed

lemma split_on_join:
  "ss \<noteq> [] \<Longrightarrow> (\<And>s. s \<in> set ss \<Longrightarrow> c \<notin> set s) \<Longrightarrow> split_on c (join [c] ss) = ss"
proof (induction "[c]" ss rule: join.induct)
  case (2 s)
  then have "c \<notin> set s" by simp
  then show ?case by (induction s) auto
next
  case (3 s t ss)
  have IH: "split_on c (join [c] (t # ss)) = t # ss" using 3 by simp
  have "c \<notin> set s" using 3 by simp
  then have "split_on c (s @ c # join [c] (t # ss)) = s # t # ss"
    using IH by (induction s) auto
  then show ?case by simp
qed simp

lemma join_inj:
  assumes "\<And>s. s \<in> set ss \<Longrightarrow> c \<notin> set s" "\<And>s. s \<in> set ts \<Longrightarrow> c \<notin> set s"
    and "ss \<noteq> []" "ts \<noteq> []" and "join [c] ss = join [c] ts"
  shows "ss = ts"
  using split_on_join [of ss c] split_on_join [of ts c] assms by metis

section \<open>The trim-and-keep-first loop\<close>

text \<open>
  \<^verbatim>\<open>
  seen := map[string]struct{}{}
  for _, item := range items {
      t := strings.TrimSpace(item)
      if t == "" { continue }
      if _, ok := seen[key(t)]; ok { continue }
      seen[key(t)] = struct{}{}
      out = append(out, t)
  }
  \<close>
\<close>

fun trim_unique :: "(string \<Rightarrow> string) \<Rightarrow> string list \<Rightarrow> string list \<Rightarrow> string list" where
  "trim_unique key seen [] = []"
| "trim_unique key seen (item # items) =
     (let t = trim_space item in
      if t = [] then trim_unique key seen items
      else if key t \<in> set seen then trim_unique key seen items
      else t # trim_unique key (key t # seen) items)"

lemma trim_unique_keys_new:
  "x \<in> set (trim_unique key seen items) \<Longrightarrow> key x \<notin> set seen"
  by (induction key seen items rule: trim_unique.induct)
     (auto simp: Let_def split: if_splits)

lemma trim_unique_distinct_keys: "distinct (map key (trim_unique key seen items))"
proof (induction key seen items rule: trim_unique.induct)
  case (1 key seen)
  then show ?case by simp
next
  case (2 key seen item items)
  let ?t = "trim_space item"
  have "key ?t \<notin> key ` set (trim_unique key (key ?t # seen) items)"
    by (fastforce dest: trim_unique_keys_new)
  with 2 show ?case by (auto simp: Let_def)
qed

lemma trim_unique_distinct: "distinct (trim_unique key seen items)"
  using trim_unique_distinct_keys distinct_map by blast

lemma trim_unique_members:
  "x \<in> set (trim_unique key seen items) \<Longrightarrow> x \<in> trim_space ` set items \<and> x \<noteq> []"
  by (induction key seen items rule: trim_unique.induct)
     (auto simp: Let_def split: if_splits)

lemma trim_unique_trimmed:
  "x \<in> set (trim_unique key seen items) \<Longrightarrow> trim_space x = x"
  using trim_unique_members by fastforce

lemma trim_unique_keys:
  "key ` set (trim_unique key seen items)
     = key ` {t \<in> trim_space ` set items. t \<noteq> []} - set seen"
proof (induction key seen items rule: trim_unique.induct)
  case (1 key seen)
  then show ?case by simp
next
  case (2 key seen item items)
  have split: "{t \<in> trim_space ` set (item # items). t \<noteq> []}
    = (if trim_space item = [] then {} else {trim_space item})
        \<union> {t \<in> trim_space ` set items. t \<noteq> []}"
    by auto
  show ?case
    using 2 by (auto simp: Let_def split image_Un)
qed

lemma trim_unique_set_id:
  "set (trim_unique (\<lambda>t. t) [] items) = {t \<in> trim_space ` set items. t \<noteq> []}"
  using trim_unique_keys [of "\<lambda>t. t" "[]" items] by simp

lemma trim_unique_id:
  assumes "\<And>x. x \<in> set items \<Longrightarrow> trim_space x = x \<and> x \<noteq> []"
    and "distinct (map key items)" and "key ` set items \<inter> set seen = {}"
  shows "trim_unique key seen items = items"
  using assms
proof (induction key seen items rule: trim_unique.induct)
  case (2 key seen item items)
  have item: "trim_space item = item" "item \<noteq> []" "key item \<notin> set seen"
    using 2(4) 2(6) by auto
  have "trim_unique key (key item # seen) items = items"
  proof -
    have "\<And>x. x \<in> set items \<Longrightarrow> trim_space x = x \<and> x \<noteq> []" using 2(4) by simp
    moreover have "distinct (map key items)" using 2(5) by simp
    moreover have "key ` set items \<inter> set (key item # seen) = {}" using 2(5) 2(6) by auto
    ultimately show ?thesis using 2(3) item by simp
  qed
  with item show ?case by simp
qed simp

lemmas trim_unique_facts = trim_unique_distinct trim_unique_members trim_unique_trimmed
  trim_unique_set_id

text \<open>The other loop with a \<open>seen\<close> map: an item is skipped, or has a key and a value to keep
  when the key is new.\<close>

fun dedupe :: "('a \<Rightarrow> (string \<times> 'b) option) \<Rightarrow> string list \<Rightarrow> 'a list \<Rightarrow> 'b list" where
  "dedupe f seen [] = []"
| "dedupe f seen (x # xs) =
     (case f x of None \<Rightarrow> dedupe f seen xs
      | Some (k, v) \<Rightarrow> if k \<in> set seen then dedupe f seen xs else v # dedupe f (k # seen) xs)"

lemma dedupe_sound:
  "v \<in> set (dedupe f seen xs) \<Longrightarrow> \<exists>x \<in> set xs. \<exists>k. f x = Some (k, v) \<and> k \<notin> set seen"
proof (induction xs arbitrary: seen)
  case (Cons y ys)
  show ?case
  proof (cases "f y")
    case None
    with Cons show ?thesis by auto
  next
    case (Some kv)
    with Cons show ?thesis by (cases kv) (fastforce split: if_splits)
  qed
qed simp

lemma dedupe_complete:
  "\<lbrakk>x \<in> set xs; f x = Some (k, v); k \<notin> set seen\<rbrakk>
     \<Longrightarrow> \<exists>x' \<in> set xs. \<exists>v' \<in> set (dedupe f seen xs). f x' = Some (k, v')"
proof (induction xs arbitrary: seen)
  case (Cons y ys)
  show ?case
  proof (cases "f y")
    case None
    with Cons show ?thesis by auto
  next
    case (Some kv)
    obtain k' v' where kv: "kv = (k', v')" by force
    show ?thesis
    proof (cases "k = k' \<and> k' \<notin> set seen")
      case True
      with Some kv show ?thesis by auto
    next
      case False
      then have "x \<in> set ys" using Cons.prems Some kv by auto
      with False show ?thesis
        using Cons.IH [of seen] Cons.IH [of "k' # seen"] Cons.prems Some kv by auto
    qed
  qed
qed simp

lemma dedupe_set:
  assumes "\<And>x x' k v v'. \<lbrakk>x \<in> set xs; x' \<in> set xs; f x = Some (k, v); f x' = Some (k, v')\<rbrakk> \<Longrightarrow> v = v'"
  shows "set (dedupe f [] xs) = {v. \<exists>x \<in> set xs. \<exists>k. f x = Some (k, v)}"
proof (intro equalityI subsetI CollectI)
  fix v assume "v \<in> set (dedupe f [] xs)"
  then show "\<exists>x \<in> set xs. \<exists>k. f x = Some (k, v)" using dedupe_sound by fastforce
next
  fix v assume "v \<in> {v. \<exists>x \<in> set xs. \<exists>k. f x = Some (k, v)}"
  then obtain x k where "x \<in> set xs" "f x = Some (k, v)" by blast
  then show "v \<in> set (dedupe f [] xs)"
    using dedupe_complete [of x xs f k v "[]"] assms by fastforce
qed

lemma dedupe_distinct:
  assumes "\<And>x x' k k' v. \<lbrakk>x \<in> set xs; x' \<in> set xs; f x = Some (k, v); f x' = Some (k', v)\<rbrakk> \<Longrightarrow> k = k'"
  shows "distinct (dedupe f seen xs)"
  using assms
proof (induction xs arbitrary: seen)
  case (Cons y ys)
  have IH: "distinct (dedupe f seen' ys)" for seen'
    using Cons.prems by (intro Cons.IH) (meson list.set_intros(2))
  show ?case
  proof (cases "f y")
    case None
    with IH show ?thesis by simp
  next
    case (Some kv)
    obtain k v where kv: "kv = (k, v)" by force
    have "v \<notin> set (dedupe f (k # seen) ys)"
    proof
      assume "v \<in> set (dedupe f (k # seen) ys)"
      then obtain x k' where "x \<in> set ys" "f x = Some (k', v)" "k' \<noteq> k"
        using dedupe_sound by fastforce
      then show False using Cons.prems [of x y k' v k] Some kv by simp
    qed
    with IH Some kv show ?thesis by simp
  qed
qed simp

lemma separator_split:
  "\<lbrakk>c \<notin> set p; c \<notin> set q\<rbrakk> \<Longrightarrow> p @ c # u = q @ c # v \<longleftrightarrow> p = q \<and> u = v"
proof (induction p arbitrary: q)
  case Nil
  then show ?case by (cases q) auto
next
  case (Cons a p)
  then show ?case by (cases q) auto
qed

section \<open>Lists\<close>

lemma find_member: "find P xs = Some x \<Longrightarrow> x \<in> set xs \<and> P x"
  by (auto simp: find_Some_iff)

lemma find_filter: "find P xs = Some x \<Longrightarrow> \<exists>ys. filter P xs = x # ys"
  by (induction xs) (auto split: if_splits)

end
