(* ===== verification/Go_Numbers.thy ===== *)
theory Go_Numbers
  imports Go_Prelude
begin

text \<open>
  Go's 64-bit integers and their decimal texts. \<open>int\<close> and \<open>int64\<close> are HOL integers in
  the signed 64-bit range, with \<open>wrap64\<close> written where an operation can leave it; \<open>uint64\<close>
  is \<open>64 word\<close>. \<open>itoa\<close> is \<open>strconv.Itoa\<close> (and \<open>%d\<close>), \<open>parse_int\<close> is
  \<open>strconv.Atoi\<close> and \<open>strconv.ParseInt(s, 10, 64)\<close>, \<open>scan_uint\<close> is
  \<open>fmt.Sscanf(s, "%d", &u)\<close> for a \<open>uint64\<close>. The main facts are the round trips.
\<close>

section \<open>Ranges and wrap-around\<close>

abbreviation max_int64 :: int where
  "max_int64 \<equiv> 9223372036854775807"

abbreviation min_int64 :: int where
  "min_int64 \<equiv> - 9223372036854775808"

definition in_int64 :: "int \<Rightarrow> bool" where
  "in_int64 n \<longleftrightarrow> min_int64 \<le> n \<and> n \<le> max_int64"

definition wrap64 :: "int \<Rightarrow> int" where
  "wrap64 n = (n + 9223372036854775808) mod 18446744073709551616 - 9223372036854775808"

lemma wrap64_range: "in_int64 (wrap64 n)"
proof -
  have "0 \<le> (n + 9223372036854775808) mod 18446744073709551616"
    and "(n + 9223372036854775808) mod 18446744073709551616 < 18446744073709551616" by simp_all
  then show ?thesis unfolding in_int64_def wrap64_def by linarith
qed

lemma wrap64_id: "in_int64 n \<Longrightarrow> wrap64 n = n"
  by (simp add: in_int64_def wrap64_def)

text \<open>\<open>int64(u)\<close> and \<open>uint64(n)\<close>: the same 64 bits, read with and without a sign.\<close>

definition int64_of :: "64 word \<Rightarrow> int" where
  "int64_of u = sint u"

definition uint64_of :: "int \<Rightarrow> 64 word" where
  "uint64_of n = word_of_int n"

lemma uint64_of_int64_of [simp]: "uint64_of (int64_of u) = u"
  by (simp add: uint64_of_def int64_of_def)

lemma int64_of_range: "in_int64 (int64_of u)"
  using sint_ge [of u] sint_lt [of u] by (simp add: int64_of_def in_int64_def)

lemma int64_of_uint64_of: "in_int64 n \<Longrightarrow> int64_of (uint64_of n) = n"
  by (simp add: int64_of_def uint64_of_def sint_sbintrunc' signed_take_bit_int_eq_self in_int64_def)

lemma int64_of_nonneg: "0 \<le> int64_of u \<Longrightarrow> int64_of u = uint u"
proof -
  assume nonneg: "0 \<le> int64_of u"
  have "int64_of u \<le> max_int64" using int64_of_range by (simp add: in_int64_def)
  then have "uint (word_of_int (int64_of u) :: 64 word) = int64_of u"
    using nonneg by (simp add: uint_word_of_int)
  then show ?thesis by (simp add: int64_of_def)
qed

section \<open>Decimal texts\<close>

definition digit_char :: "nat \<Rightarrow> char" where
  "digit_char d = char_of (48 + d)"

definition digit_val :: "char \<Rightarrow> nat option" where
  "digit_val c = (let k = of_char c in if 48 \<le> k \<and> k \<le> 57 then Some (k - 48) else None)"

fun show_nat :: "nat \<Rightarrow> string" where
  "show_nat n = (if n < 10 then [digit_char n] else show_nat (n div 10) @ [digit_char (n mod 10)])"

declare show_nat.simps [simp del]

definition itoa :: "int \<Rightarrow> string" where
  "itoa n = (if n < 0 then CHR ''-'' # show_nat (nat (- n)) else show_nat (nat n))"

fun read_digits :: "nat \<Rightarrow> string \<Rightarrow> nat option" where
  "read_digits acc [] = Some acc"
| "read_digits acc (c # s) =
     (case digit_val c of None \<Rightarrow> None | Some d \<Rightarrow> read_digits (10 * acc + d) s)"

definition parse_nat :: "string \<Rightarrow> nat option" where
  "parse_nat s = (if s = [] then None else read_digits 0 s)"

text \<open>\<open>strconv.Atoi\<close>: an optional sign, at least one digit, and the signed 64-bit range.\<close>

definition parse_int :: "string \<Rightarrow> int option" where
  "parse_int s =
     (let neg = (s \<noteq> [] \<and> hd s = CHR ''-'');
          body = (if s \<noteq> [] \<and> (hd s = CHR ''-'' \<or> hd s = CHR ''+'') then tl s else s)
      in case parse_nat body of None \<Rightarrow> None
         | Some n \<Rightarrow> (let v = (if neg then - int n else int n)
                     in if in_int64 v then Some v else None))"

text \<open>\<open>fmt.Sscanf(s, "%d", &u)\<close>: leading blanks are skipped, the longest run of digits is
  read, what follows is ignored; no digit and a value past the 64-bit range are errors.\<close>

definition scan_uint :: "string \<Rightarrow> 64 word option" where
  "scan_uint s =
     (let ds = takeWhile (\<lambda>c. digit_val c \<noteq> None) (dropWhile (\<lambda>c. c \<in> set ascii_spaces) s)
      in case parse_nat ds of None \<Rightarrow> None
         | Some n \<Rightarrow> if n < 18446744073709551616 then Some (of_nat n) else None)"

lemma digit_val_digit_char [simp]: "d < 10 \<Longrightarrow> digit_val (digit_char d) = Some d"
  by (simp add: digit_val_def digit_char_def Let_def)

lemma read_digits_append:
  "read_digits acc (s @ t) =
     (case read_digits acc s of None \<Rightarrow> None | Some a \<Rightarrow> read_digits a t)"
  by (induction acc s rule: read_digits.induct) (auto split: option.splits)

lemma show_nat_nonempty [simp]: "show_nat n \<noteq> []"
  by (simp add: show_nat.simps [of n])

lemma read_digits_show_nat: "read_digits 0 (show_nat n) = Some n"
proof (induction n rule: show_nat.induct)
  case (1 n)
  then show ?case
    by (cases "n < 10") (auto simp: show_nat.simps [of n] read_digits_append)
qed

lemma show_nat_digits: "c \<in> set (show_nat n) \<Longrightarrow> digit_val c \<noteq> None"
proof (induction n rule: show_nat.induct)
  case (1 n)
  then show ?case
    by (cases "n < 10") (auto simp: show_nat.simps [of n])
qed

lemma parse_nat_show_nat [simp]: "parse_nat (show_nat n) = Some n"
  by (simp add: parse_nat_def read_digits_show_nat)

lemma digit_val_sign [simp]: "digit_val (CHR ''-'') = None" "digit_val (CHR ''+'') = None"
  by (simp_all add: digit_val_def Let_def)

lemma hd_show_nat: "hd (show_nat n) \<noteq> CHR ''-''" "hd (show_nat n) \<noteq> CHR ''+''"
  using show_nat_digits [of "hd (show_nat n)" n] by auto

theorem parse_int_itoa: "in_int64 n \<Longrightarrow> parse_int (itoa n) = Some n"
  by (simp add: parse_int_def itoa_def hd_show_nat Let_def)

lemma itoa_inj: "itoa m = itoa n \<Longrightarrow> in_int64 m \<Longrightarrow> in_int64 n \<Longrightarrow> m = n"
  by (metis parse_int_itoa option.inject)

lemma parse_int_range: "parse_int s = Some n \<Longrightarrow> in_int64 n"
  by (auto simp: parse_int_def Let_def split: option.splits if_splits)

lemma ascii_space_no_digit: "c \<in> set ascii_spaces \<Longrightarrow> digit_val c = None"
  by (auto simp: ascii_spaces_def digit_val_def Let_def)

theorem scan_uint_show: "scan_uint (show_nat (unat u)) = Some u"
proof -
  let ?s = "show_nat (unat u)"
  have "hd ?s \<notin> set ascii_spaces"
    using show_nat_digits [of "hd ?s" "unat u"] ascii_space_no_digit by auto
  then have dw: "dropWhile (\<lambda>c. c \<in> set ascii_spaces) ?s = ?s"
    by (cases ?s) auto
  have tw: "takeWhile (\<lambda>c. digit_val c \<noteq> None) ?s = ?s"
    using show_nat_digits by (simp add: takeWhile_eq_all_conv)
  have "unat u < 18446744073709551616"
    using unsigned_less [of u] by simp
  then show ?thesis unfolding scan_uint_def Let_def dw tw by simp
qed

lemma show_nat_inj: "show_nat m = show_nat n \<Longrightarrow> m = n"
  by (metis parse_nat_show_nat option.inject)

end
