(* ===== verification/Go_Value.thy ===== *)
theory Go_Value
  imports Complex_Main Go_Numbers
begin

text \<open>
  Go's dynamic values (\<open>any\<close>), as JSON decoding, the document store and the repositories
  build them, and the accessors the modules read them with. A \<open>map[string]any\<close> is an
  association list in iteration order, read with \<open>map_of\<close>; a well-formed one
  (\<open>any_wf\<close>) has every key once. A nil map or slice inside an \<open>any\<close> is the empty one.
  Numbers are \<open>AInt\<close> for the integer types and \<open>AFloat\<close>, a rational, for the finite
  values of the float types. A \<open>[]string\<close> is an \<open>AStrs\<close>: to the accessors, which ask for \<open>[]any\<close>, it is no slice.
\<close>

datatype any =
    ANil
  | ABool bool
  | AInt int
  | AFloat rat
  | AStr string
  | AMap "(string \<times> any) list"
  | ASlice "any list"
  | ABsonM "(string \<times> any) list"
  | ABsonA "any list"
  | APtr "any option"
  | AStrs "string list"

type_synonym amap = "(string \<times> any) list"

text \<open>Reading a key of a Go map gives the zero value, nil, when the key is absent.\<close>

definition mget :: "amap \<Rightarrow> string \<Rightarrow> any" where
  "mget m k = (case map_of m k of None \<Rightarrow> ANil | Some v \<Rightarrow> v)"

lemma mget_Nil [simp]: "mget [] k = ANil"
  by (simp add: mget_def)

lemma mget_Cons [simp]: "mget ((k, v) # m) k' = (if k = k' then v else mget m k')"
  by (simp add: mget_def)

lemma mget_update [simp]: "mget (AList.update k v m) k' = (if k = k' then v else mget m k')"
  by (simp add: mget_def update_conv')

lemma mget_delete [simp]: "mget (AList.delete k m) k' = (if k = k' then ANil else mget m k')"
  by (simp add: mget_def delete_conv')

section \<open>Well-formed values\<close>

fun any_wf :: "any \<Rightarrow> bool" where
  "any_wf (AMap m) \<longleftrightarrow> distinct (map fst m) \<and> list_all (\<lambda>p. any_wf (snd p)) m"
| "any_wf (ABsonM m) \<longleftrightarrow> distinct (map fst m) \<and> list_all (\<lambda>p. any_wf (snd p)) m"
| "any_wf (ASlice xs) \<longleftrightarrow> list_all any_wf xs"
| "any_wf (ABsonA xs) \<longleftrightarrow> list_all any_wf xs"
| "any_wf (APtr (Some v)) \<longleftrightarrow> any_wf v"
| "any_wf _ \<longleftrightarrow> True"

definition amap_wf :: "amap \<Rightarrow> bool" where
  "amap_wf m \<longleftrightarrow> distinct (map fst m) \<and> list_all (\<lambda>p. any_wf (snd p)) m"

lemma any_wf_AMap [simp]: "any_wf (AMap m) = amap_wf m"
  by (simp add: amap_wf_def)

declare any_wf.simps(1) [simp del]

lemma amap_wf_Nil [simp, go_inv]: "amap_wf []"
  by (simp add: amap_wf_def)

lemma amap_wf_update [go_inv]:
  "amap_wf m \<Longrightarrow> any_wf v \<Longrightarrow> amap_wf (AList.update k v m)"
proof -
  assume m: "amap_wf m" and v: "any_wf v"
  have "p \<in> set (AList.update k v m) \<Longrightarrow> p = (k, v) \<or> p \<in> set m" for p
    by (induction m) (auto split: if_splits)
  with m v show ?thesis
    unfolding amap_wf_def list_all_iff by (metis distinct_update snd_conv)
qed

lemma amap_wf_delete [go_inv]: "amap_wf m \<Longrightarrow> amap_wf (AList.delete k m)"
  by (auto simp: amap_wf_def list_all_iff AList.delete_eq distinct_map_filter)

lemma amap_wf_mget: "amap_wf m \<Longrightarrow> any_wf (mget m k)"
  by (auto simp: amap_wf_def list_all_iff mget_def split: option.splits dest: map_of_SomeD)

section \<open>The accessors of the modules\<close>

definition toString :: "any \<Rightarrow> string" where
  "toString v = (case v of AStr s \<Rightarrow> trim_space s | _ \<Rightarrow> [])"

definition toBool :: "any \<Rightarrow> bool" where
  "toBool v = (case v of ABool b \<Rightarrow> b | _ \<Rightarrow> False)"

text \<open>A float is truncated towards zero, as Go's conversion \<open>int(f)\<close> does.\<close>

definition toInt :: "any \<Rightarrow> int" where
  "toInt v = (case v of AInt n \<Rightarrow> n
     | AFloat r \<Rightarrow> (if 0 \<le> r then \<lfloor>r\<rfloor> else \<lceil>r\<rceil>)
     | _ \<Rightarrow> 0)"

definition toSlice :: "any \<Rightarrow> any list" where
  "toSlice v = (case v of ASlice xs \<Rightarrow> xs | ABsonA xs \<Rightarrow> xs
     | APtr (Some (ASlice xs)) \<Rightarrow> xs | APtr (Some (ABsonA xs)) \<Rightarrow> xs | _ \<Rightarrow> [])"

text \<open>\<open>toMap\<close> gives nil (\<open>None\<close>) for what is not a map.\<close>

definition toMap :: "any \<Rightarrow> amap option" where
  "toMap v = (case v of AMap m \<Rightarrow> Some m | ABsonM m \<Rightarrow> Some m
     | APtr (Some (ABsonM m)) \<Rightarrow> Some m | _ \<Rightarrow> None)"

definition toStringSlice :: "any \<Rightarrow> string list" where
  "toStringSlice v = filter (\<lambda>t. t \<noteq> []) (map toString (toSlice v))"

definition countStringItems :: "any list \<Rightarrow> nat" where
  "countStringItems vs = length (filter (\<lambda>v. trim_space (toString v) \<noteq> []) vs)"

lemma toString_simps [simp]:
  "toString (AStr s) = trim_space s" "toString ANil = []" "toString (ABool b) = []"
  "toString (AInt n) = []" "toString (AFloat r) = []" "toString (AMap m) = []"
  "toString (ASlice xs) = []" "toString (ABsonM m) = []" "toString (ABsonA xs) = []"
  "toString (APtr p) = []" "toString (AStrs ss) = []"
  by (simp_all add: toString_def)

lemma trim_toString [simp, go_string]: "trim_space (toString v) = toString v"
  by (cases v) simp_all

lemma countStringItems_toStringSlice:
  "countStringItems (toSlice v) = length (toStringSlice v)"
  by (simp add: countStringItems_def toStringSlice_def filter_map o_def)

lemma toStringSlice_nonempty: "t \<in> set (toStringSlice v) \<Longrightarrow> t \<noteq> [] \<and> trim_space t = t"
  by (auto simp: toStringSlice_def)

end
