(* ===== verification/App_Error.thy ===== *)
theory App_Error
  imports Go_Value
begin

text \<open>
  Errors: \<open>internal/core/errors\<close> and the chains that Go's \<open>errors\<close> package walks. A
  sentinel (a package-level \<open>errors.New\<close>) is \<open>ESent\<close> of its name, \<open>fmt.Errorf\<close> with
  \<open>%w\<close> is \<open>EWrap\<close> of the wrapped errors in order, any other error is \<open>EText\<close>, an
  error of PostgreSQL is \<open>EPg\<close> of its SQLSTATE. \<open>EApp\<close> is the \<open>AppError\<close> pointer with
  its cause.
\<close>

record app_error =
  ae_code :: string
  ae_status :: int
  ae_message :: string
  ae_details :: any

datatype err =
    EApp app_error "err option"
  | ESent string
  | EWrap string "err list"
  | EPg string
  | EText string

text \<open>The codes of \<open>errors.go\<close>.\<close>

definition CodeInternal :: string where "CodeInternal = ''internal_error''"
definition CodeBadRequest :: string where "CodeBadRequest = ''bad_request''"
definition CodeUnsupportedMedia :: string where "CodeUnsupportedMedia = ''unsupported_media_type''"
definition CodeNotFound :: string where "CodeNotFound = ''not_found''"
definition CodeMethodNotAllowed :: string where "CodeMethodNotAllowed = ''method_not_allowed''"
definition CodeUnauthorized :: string where "CodeUnauthorized = ''unauthorized''"
definition CodeForbidden :: string where "CodeForbidden = ''forbidden''"
definition CodeTooManyRequests :: string where "CodeTooManyRequests = ''too_many_requests''"
definition CodeConflict :: string where "CodeConflict = ''conflict''"
definition CodeTimeout :: string where "CodeTimeout = ''timeout''"
definition CodeDependencyFailure :: string where
  "CodeDependencyFailure = ''dependency_unavailable''"

lemmas code_defs = CodeInternal_def CodeBadRequest_def CodeUnsupportedMedia_def CodeNotFound_def
  CodeMethodNotAllowed_def CodeUnauthorized_def CodeForbidden_def CodeTooManyRequests_def
  CodeConflict_def CodeTimeout_def CodeDependencyFailure_def

text \<open>\<open>New\<close>, \<open>WithDetails\<close> and \<open>WithCause\<close>; the latter two on a non-nil error.\<close>

definition app_new :: "string \<Rightarrow> int \<Rightarrow> string \<Rightarrow> err" where
  "app_new c st msg
     = EApp \<lparr>ae_code = c, ae_status = st, ae_message = msg, ae_details = ANil\<rparr> None"

abbreviation "bad_request msg \<equiv> app_new CodeBadRequest 400 msg"

definition with_details :: "err \<Rightarrow> any \<Rightarrow> err" where
  "with_details e d = (case e of EApp a c \<Rightarrow> EApp (a\<lparr>ae_details := d\<rparr>) c | _ \<Rightarrow> e)"

definition with_cause :: "err \<Rightarrow> err \<Rightarrow> err" where
  "with_cause e c = (case e of EApp a _ \<Rightarrow> EApp a (Some c) | _ \<Rightarrow> e)"

text \<open>\<open>(*AppError).Error\<close>: the message, or the code when the message is empty.\<close>

definition app_error_text :: "app_error \<Rightarrow> string" where
  "app_error_text a = (if ae_message a \<noteq> [] then ae_message a else ae_code a)"

definition unwrap :: "err \<Rightarrow> err option" where
  "unwrap e = (case e of EApp _ c \<Rightarrow> c | _ \<Rightarrow> None)"

text \<open>\<open>errors.Is\<close> against a sentinel: depth first through the wrapped errors.\<close>

fun err_is :: "string \<Rightarrow> err \<Rightarrow> bool" where
  "err_is t (ESent s) \<longleftrightarrow> s = t"
| "err_is t (EApp a None) \<longleftrightarrow> False"
| "err_is t (EApp a (Some e)) \<longleftrightarrow> err_is t e"
| "err_is t (EWrap m es) \<longleftrightarrow> list_ex (err_is t) es"
| "err_is t (EPg c) \<longleftrightarrow> False"
| "err_is t (EText m) \<longleftrightarrow> False"

text \<open>\<open>AsAppError\<close>: the first \<open>AppError\<close> of the chain (\<open>errors.As\<close>).\<close>

fun as_app_error :: "err \<Rightarrow> app_error option"
  and as_app_error_list :: "err list \<Rightarrow> app_error option" where
  "as_app_error (EApp a c) = Some a"
| "as_app_error (EWrap m es) = as_app_error_list es"
| "as_app_error (ESent s) = None"
| "as_app_error (EPg c) = None"
| "as_app_error (EText m) = None"
| "as_app_error_list [] = None"
| "as_app_error_list (e # es) =
     (case as_app_error e of Some a \<Rightarrow> Some a | None \<Rightarrow> as_app_error_list es)"

text \<open>\<open>errors.As\<close> for a \<open>*pgconn.PgError\<close>: its SQLSTATE.\<close>

fun as_pg_error :: "err \<Rightarrow> string option"
  and as_pg_error_list :: "err list \<Rightarrow> string option" where
  "as_pg_error (EPg c) = Some c"
| "as_pg_error (EApp a None) = None"
| "as_pg_error (EApp a (Some e)) = as_pg_error e"
| "as_pg_error (EWrap m es) = as_pg_error_list es"
| "as_pg_error (ESent s) = None"
| "as_pg_error (EText m) = None"
| "as_pg_error_list [] = None"
| "as_pg_error_list (e # es) =
     (case as_pg_error e of Some a \<Rightarrow> Some a | None \<Rightarrow> as_pg_error_list es)"

text \<open>What a client sees of an error: code, status and message.\<close>

definition err_code :: "err \<Rightarrow> string" where
  "err_code e = (case as_app_error e of Some a \<Rightarrow> ae_code a | None \<Rightarrow> [])"

definition err_status :: "err \<Rightarrow> int" where
  "err_status e = (case as_app_error e of Some a \<Rightarrow> ae_status a | None \<Rightarrow> 0)"

lemma as_app_error_new [simp]:
  "as_app_error (app_new c st msg)
     = Some \<lparr>ae_code = c, ae_status = st, ae_message = msg, ae_details = ANil\<rparr>"
  by (simp add: app_new_def)

lemma as_app_error_with_cause [simp]:
  "as_app_error (with_cause (app_new c st msg) e) = as_app_error (app_new c st msg)"
  by (simp add: app_new_def with_cause_def)

lemma err_is_new [simp]: "\<not> err_is t (app_new c st msg)"
  by (simp add: app_new_def)

lemma err_is_with_cause [simp]: "err_is t (with_cause (app_new c st msg) e) = err_is t e"
  by (simp add: app_new_def with_cause_def)

lemma as_app_error_wrap1 [simp]: "as_app_error (EWrap m [e]) = as_app_error e"
  by (simp split: option.splits)

lemma err_code_new [simp]: "err_code (app_new c st msg) = c"
  by (simp add: err_code_def)

lemma err_status_new [simp]: "err_status (app_new c st msg) = st"
  by (simp add: err_status_def)

lemma err_status_with_cause [simp]: "err_status (with_cause (app_new c st msg) e) = st"
  by (simp add: err_status_def)

lemma err_code_with_cause [simp]: "err_code (with_cause (app_new c st msg) e) = c"
  by (simp add: err_code_def)

text \<open>The \<open>AppError\<close> that \<open>AsAppError\<close> finds, as an error with its cause.\<close>

fun app_node :: "err \<Rightarrow> err option" and app_node_list :: "err list \<Rightarrow> err option" where
  "app_node (EApp a c) = Some (EApp a c)"
| "app_node (EWrap m es) = app_node_list es"
| "app_node (ESent s) = None"
| "app_node (EPg c) = None"
| "app_node (EText m) = None"
| "app_node_list [] = None"
| "app_node_list (e # es) = (case app_node e of Some a \<Rightarrow> Some a | None \<Rightarrow> app_node_list es)"

end
