(* ===== verification/Patchx.thy ===== *)
theory Patchx
  imports Go_Value App_Error
begin

text \<open>
  Partial updates of documents (\<open>internal/core/patchx\<close>): which patches a table of field rules admits,
  and the shallow merge of a patch into a document. The names of fields in an error are quoted as
  \<open>fmt\<close> does with \<open>%q\<close>; bytes outside ASCII stay as they are, which is right for printable text.
\<close>

section \<open>Quoting\<close>

definition hex_nibble :: "nat \<Rightarrow> char" where
  "hex_nibble n = ''0123456789abcdef'' ! n"

definition quote_byte :: "char \<Rightarrow> string" where
  "quote_byte c =
     (let n = of_char c :: nat; backslash = CHR 0x5C in
      if n = 34 \<or> n = 92 then [backslash, c]
      else if n = 7 then [backslash, CHR ''a''] else if n = 8 then [backslash, CHR ''b'']
      else if n = 9 then [backslash, CHR ''t''] else if n = 10 then [backslash, CHR ''n'']
      else if n = 11 then [backslash, CHR ''v''] else if n = 12 then [backslash, CHR ''f'']
      else if n = 13 then [backslash, CHR ''r'']
      else if n < 32 \<or> n = 127 then [backslash, CHR ''x'', hex_nibble (n div 16), hex_nibble (n mod 16)]
      else [c])"

definition go_quote :: "string \<Rightarrow> string" where
  "go_quote s = CHR 0x22 # concat (map quote_byte s) @ [CHR 0x22]"

section \<open>Field rules\<close>

text \<open>A rule without nested rules has \<open>None\<close> there.\<close>

datatype field_rule = FieldRule (allow_null: bool) (nested_rules: "(string \<times> field_rule) list option") (allow_any_nested: bool)

type_synonym field_rules = "(string \<times> field_rule) list"

abbreviation "plain_rule \<equiv> FieldRule False None False"
abbreviation "null_rule \<equiv> FieldRule True None False"
abbreviation "object_rule rules \<equiv> FieldRule True (Some rules) False"
abbreviation "any_object_rule \<equiv> FieldRule True None True"

definition asMap :: "any \<Rightarrow> amap option" where
  "asMap v = (case v of AMap m \<Rightarrow> Some m | _ \<Rightarrow> None)"

definition field_path :: "string \<Rightarrow> string \<Rightarrow> string" where
  "field_path parent key = (if parent = [] then key else parent @ ''.'' @ key)"

text \<open>The entries are visited in the order of the list: Go's order is arbitrary, so which of several
  errors is reported is, too; whether there is one is not.\<close>

fun validateMap :: "amap \<Rightarrow> field_rules \<Rightarrow> string \<Rightarrow> string option" where
  "validateMap [] rules parent = None"
| "validateMap ((key, value) # rest) rules parent =
     (case map_of rules key of
        None \<Rightarrow> Some (''invalid field '' @ go_quote (field_path parent key))
      | Some rule \<Rightarrow>
        if value = ANil
        then (if \<not> allow_null rule then Some (''field '' @ go_quote (field_path parent key) @ '' cannot be null'')
              else validateMap rest rules parent)
        else if nested_rules rule = None \<and> \<not> allow_any_nested rule then validateMap rest rules parent
        else case value of
          AMap m \<Rightarrow>
            if allow_any_nested rule then validateMap rest rules parent
            else (case validateMap m (the (nested_rules rule)) (field_path parent key) of
                Some e \<Rightarrow> Some e | None \<Rightarrow> validateMap rest rules parent)
        | _ \<Rightarrow> Some (''field '' @ go_quote (field_path parent key) @ '' must be an object''))"

text \<open>\<open>None\<close> as the patch is the nil map.\<close>

definition ValidatePatch :: "amap option \<Rightarrow> field_rules \<Rightarrow> string option" where
  "ValidatePatch patch rules =
     (case patch of None \<Rightarrow> Some ''patch payload is required'' | Some m \<Rightarrow> validateMap m rules [])"

section \<open>What the rules admit\<close>

inductive conforms :: "field_rules \<Rightarrow> amap \<Rightarrow> bool" and fits :: "field_rule \<Rightarrow> any \<Rightarrow> bool" where
  conforms: "(\<And>k v. (k, v) \<in> set m \<Longrightarrow> \<exists>r. map_of rules k = Some r \<and> fits r v) \<Longrightarrow> conforms rules m"
| null: "allow_null r \<Longrightarrow> fits r ANil"
| plain: "v \<noteq> ANil \<Longrightarrow> nested_rules r = None \<Longrightarrow> \<not> allow_any_nested r \<Longrightarrow> fits r v"
| any_nested: "allow_any_nested r \<Longrightarrow> fits r (AMap m)"
| nested: "\<not> allow_any_nested r \<Longrightarrow> nested_rules r = Some rs \<Longrightarrow> conforms rs m \<Longrightarrow> fits r (AMap m)"

inductive_cases conformsE: "conforms rules m"
inductive_simps fits_null: "fits r ANil"
inductive_simps fits_map: "fits r (AMap m)"

lemma conforms_iff: "conforms rules m \<longleftrightarrow> (\<forall>(k, v) \<in> set m. \<exists>r. map_of rules k = Some r \<and> fits r v)"
  by (auto elim: conformsE intro: conforms)

lemma conforms_Nil [simp]: "conforms rules []"
  by (simp add: conforms_iff)

lemma conforms_Cons:
  "conforms rules ((k, v) # m) \<longleftrightarrow> (\<exists>r. map_of rules k = Some r \<and> fits r v) \<and> conforms rules m"
  by (simp add: conforms_iff)

lemma fits_scalar: "v \<noteq> ANil \<Longrightarrow> (\<And>m. v \<noteq> AMap m) \<Longrightarrow> fits r v \<longleftrightarrow> nested_rules r = None \<and> \<not> allow_any_nested r"
  by (auto elim: fits.cases intro: plain)

lemma validateMap_None: "validateMap m rules parent = None \<longleftrightarrow> conforms rules m"
proof (induction m rules parent rule: validateMap.induct)
  case (2 key v rest rules parent)
  show ?case
  proof (cases "map_of rules key")
    case None
    then show ?thesis by (simp add: conforms_Cons)
  next
    case (Some rule)
    note IH = 2 [OF Some]
    show ?thesis
    proof (cases "v = ANil")
      case True
      with Some IH(1) show ?thesis by (auto simp: conforms_Cons fits_null)
    next
      case nonnull: False
      show ?thesis
      proof (cases "nested_rules rule = None \<and> \<not> allow_any_nested rule")
        case True
        with Some IH(2) nonnull show ?thesis by (auto simp: conforms_Cons intro: plain)
      next
        case deep: False
        show ?thesis
        proof (cases "\<exists>m. v = AMap m")
          case True
          then obtain m where m: "v = AMap m" by blast
          with Some IH(3-) nonnull deep show ?thesis
            by (auto simp: conforms_Cons fits_map split: option.splits)
        next
          case False
          then have "validateMap ((key, v) # rest) rules parent
              = Some (''field '' @ go_quote (field_path parent key) @ '' must be an object'')"
            using Some nonnull deep by (cases v) auto
          with Some nonnull deep False show ?thesis by (auto simp: conforms_Cons fits_scalar)
        qed
      qed
    qed
  qed
qed simp

text \<open>C12: a patch is accepted exactly when it conforms to the rules: every key has a rule, null stands only
  where the rule allows it, and a field with nested rules (or with free content) is an object that
  conforms to them, at every depth. The verdict depends on the entries and not on their order.\<close>

theorem ValidatePatch_accepts:
  "ValidatePatch patch rules = None \<longleftrightarrow> (\<exists>m. patch = Some m \<and> conforms rules m)"
  by (auto simp: ValidatePatch_def validateMap_None split: option.splits)

section \<open>Merging\<close>

fun cloneValue :: "any \<Rightarrow> any" where
  "cloneValue (AMap m) = AMap (map (\<lambda>(k, v). (k, cloneValue v)) m)"
| "cloneValue (ASlice xs) = ASlice (map cloneValue xs)"
| "cloneValue v = v"

definition cloneMap :: "amap \<Rightarrow> amap" where
  "cloneMap m = map (\<lambda>(k, v). (k, cloneValue v)) m"

definition merge_nested :: "string \<times> any \<Rightarrow> amap \<Rightarrow> amap" where
  "merge_nested kv out = (case kv of (key, v) \<Rightarrow>
     if v = ANil then AList.delete key out else AList.update key (cloneValue v) out)"

definition merge_field :: "string \<times> any \<Rightarrow> amap \<Rightarrow> amap" where
  "merge_field kv out = (case kv of (key, v) \<Rightarrow>
     if v = ANil then AList.delete key out
     else case asMap v of
       None \<Rightarrow> AList.update key (cloneValue v) out
     | Some m \<Rightarrow> (case asMap (mget out key) of
           None \<Rightarrow> AList.update key (AMap (cloneMap m)) out
         | Some existing \<Rightarrow> AList.update key (AMap (fold merge_nested m (cloneMap existing))) out))"

definition MergeShallow :: "amap \<Rightarrow> amap option \<Rightarrow> amap" where
  "MergeShallow base patch =
     (case patch of None \<Rightarrow> cloneMap base | Some m \<Rightarrow> fold merge_field m (cloneMap base))"

lemma cloneValue_id [simp]: "cloneValue v = v"
  by (induction v rule: cloneValue.induct) (auto intro!: map_idI)

lemma cloneMap_id [simp]: "cloneMap m = m"
  by (simp add: cloneMap_def)

lemma fold_merge_nested:
  "distinct (map fst m) \<Longrightarrow>
     mget (fold merge_nested m out) k = (if k \<in> fst ` set m then mget m k else mget out k)"
proof (induction m arbitrary: out)
  case (Cons kv m)
  obtain key v where kv: "kv = (key, v)" by (cases kv)
  have other: "k \<noteq> key \<or> k \<notin> fst ` set m" using Cons.prems kv by auto
  show ?case
    using Cons.IH [of "merge_nested kv out"] Cons.prems other kv
    by (auto simp: merge_nested_def)
qed simp

definition merged_value :: "any \<Rightarrow> any \<Rightarrow> any \<Rightarrow> bool" where
  "merged_value old v new \<longleftrightarrow>
     (case v of
        AMap m \<Rightarrow> (case old of
            AMap existing \<Rightarrow> (\<exists>out. new = AMap out \<and>
              (\<forall>k. mget out k = (if k \<in> fst ` set m then mget m k else mget existing k)))
          | _ \<Rightarrow> new = v)
      | _ \<Rightarrow> new = v)"

lemma merge_field_other: "k \<noteq> fst kv \<Longrightarrow> mget (merge_field kv out) k = mget out k"
  by (cases kv) (auto simp: merge_field_def split: option.splits)

lemma merge_field_same:
  assumes "any_wf v"
  shows "merged_value (mget out k) v (mget (merge_field (k, v) out) k)"
proof (cases v)
  case (AMap m)
  then have m: "distinct (map fst m)" using assms by (simp add: amap_wf_def)
  show ?thesis
  proof (cases "mget out k")
    case (AMap existing)
    with \<open>v = AMap m\<close> show ?thesis
      using fold_merge_nested [OF m, of existing] by (auto simp: merge_field_def merged_value_def asMap_def)
  qed (simp_all add: \<open>v = AMap m\<close> merge_field_def merged_value_def asMap_def)
qed (simp_all add: merge_field_def merged_value_def asMap_def)

text \<open>A merge changes the fields that the patch names and no other: a null removes the field, an
  object merges one level deep into an object that is there (its nulls remove nested fields), and
  any other value replaces what was there.\<close>

theorem MergeShallow_lookup:
  assumes "amap_wf patch"
  shows "(k \<notin> fst ` set patch \<longrightarrow> mget (MergeShallow base (Some patch)) k = mget base k)
    \<and> (\<forall>v. (k, v) \<in> set patch \<longrightarrow> merged_value (mget base k) v (mget (MergeShallow base (Some patch)) k))"
proof -
  have "(k \<notin> fst ` set patch \<longrightarrow> mget (fold merge_field patch out) k = mget out k)
    \<and> (\<forall>v. (k, v) \<in> set patch \<longrightarrow> merged_value (mget out k) v (mget (fold merge_field patch out) k))" for out
    using assms
  proof (induction patch arbitrary: out)
    case (Cons kv patch)
    obtain key v where kv: "kv = (key, v)" by (cases kv)
    have wf: "amap_wf patch" "any_wf v" "key \<notin> fst ` set patch" using Cons.prems by (auto simp: amap_wf_def kv)
    note IH = Cons.IH [OF wf(1), of "merge_field kv out"]
    show ?case
    proof (cases "k = key")
      case True
      then have "mget (fold merge_field patch (merge_field kv out)) k = mget (merge_field (k, v) out) k"
        using IH wf(3) kv by simp
      with True wf(3) merge_field_same [OF wf(2)] show ?thesis by (auto simp: kv image_iff)
    next
      case False
      with IH show ?thesis by (auto simp: kv merge_field_other)
    qed
  qed simp
  then show ?thesis by (simp add: MergeShallow_def)
qed

lemma MergeShallow_lookup_witness:
  "mget (MergeShallow [(''title'', AStr ''a''), (''notes'', AStr ''n'')] (Some [(''notes'', ANil)])) ''notes'' = ANil"
proof -
  have wf: "amap_wf [(''notes'', ANil)]" by (simp add: amap_wf_def)
  show ?thesis
    using MergeShallow_lookup [OF wf, of "''notes''" "[(''title'', AStr ''a''), (''notes'', AStr ''n'')]"]
    by (simp add: merged_value_def)
qed

end
