(* ===== verification/Pagination.thy ===== *)
theory Pagination
  imports App_Error Go_Numbers
begin

text \<open>
  List windows: the offset cursors of \<open>internal/core/pagination\<close> with the base64 encoding they use
  (\<open>base64.RawURLEncoding\<close>).
\<close>

section \<open>base64.RawURLEncoding\<close>

definition b64_alphabet :: string where
  "b64_alphabet = ''ABCDEFGHIJKLMNOPQRSTUVWXYZabcdefghijklmnopqrstuvwxyz0123456789-_''"

definition b64_char :: "nat \<Rightarrow> char" where
  "b64_char n = b64_alphabet ! n"

fun index_of :: "'a \<Rightarrow> 'a list \<Rightarrow> nat option" where
  "index_of x [] = None"
| "index_of x (y # ys) = (if x = y then Some 0 else map_option Suc (index_of x ys))"

definition b64_val :: "char \<Rightarrow> nat option" where
  "b64_val c = index_of c b64_alphabet"

fun b64_groups :: "nat list \<Rightarrow> nat list" where
  "b64_groups [] = []"
| "b64_groups [a] = [a div 4, (a mod 4) * 16]"
| "b64_groups [a, b] = [a div 4, (a mod 4) * 16 + b div 16, (b mod 16) * 4]"
| "b64_groups (a # b # c # bytes) =
     a div 4 # ((a mod 4) * 16 + b div 16) # ((b mod 16) * 4 + c div 64) # c mod 64 # b64_groups bytes"

text \<open>A last group of one character is an error; the bits left over in a short group are ignored, as
  the encoding is not strict.\<close>

fun b64_bytes :: "nat list \<Rightarrow> nat list option" where
  "b64_bytes [] = Some []"
| "b64_bytes [a] = None"
| "b64_bytes [a, b] = Some [a * 4 + b div 16]"
| "b64_bytes [a, b, c] = Some [a * 4 + b div 16, (b mod 16) * 16 + c div 4]"
| "b64_bytes (a # b # c # d # rest) =
     map_option (\<lambda>bs. (a * 4 + b div 16) # ((b mod 16) * 16 + c div 4) # ((c mod 4) * 64 + d) # bs) (b64_bytes rest)"

definition byte_of :: "char \<Rightarrow> nat" where
  "byte_of c = of_char c"

definition b64_encode :: "string \<Rightarrow> string" where
  "b64_encode s = map b64_char (b64_groups (map byte_of s))"

fun all_some :: "'a option list \<Rightarrow> 'a list option" where
  "all_some [] = Some []"
| "all_some (x # xs) = (case x of None \<Rightarrow> None | Some a \<Rightarrow> map_option ((#) a) (all_some xs))"

text \<open>Line breaks are skipped wherever they stand.\<close>

definition b64_decode :: "string \<Rightarrow> string option" where
  "b64_decode s =
     (case all_some (map b64_val (filter (\<lambda>c. c \<noteq> CHR 0x0A \<and> c \<noteq> CHR 0x0D) s)) of
        None \<Rightarrow> None | Some vs \<Rightarrow> map_option (map char_of) (b64_bytes vs))"

lemma b64_bytes_groups: "list_all (\<lambda>b. b < 256) bs \<Longrightarrow> b64_bytes (b64_groups bs) = Some bs"
proof (induction bs rule: b64_groups.induct)
  case (4 a b c bytes)
  have "(a mod 4 * 16 + b div 16) div 16 = a mod 4" "(a mod 4 * 16 + b div 16) mod 16 = b div 16"
    "(b mod 16 * 4 + c div 64) div 4 = b mod 16" "(b mod 16 * 4 + c div 64) mod 4 = c div 64"
    using 4(2) by (auto simp: div_less_iff_less_mult)
  with 4 show ?case by simp
qed (simp_all add: div_less_iff_less_mult)

lemma b64_groups_bound: "list_all (\<lambda>b. b < 256) bs \<Longrightarrow> list_all (\<lambda>n. n < 64) (b64_groups bs)"
proof (induction bs rule: b64_groups.induct)
  case (2 a)
  have "a mod 4 * 16 < 64" using mod_less_divisor [of 4 a] by simp
  with 2 show ?case by (simp add: div_less_iff_less_mult)
next
  case (3 a b)
  have "a mod 4 \<le> 3" "b div 16 \<le> 15" "b mod 16 \<le> 15" using 3 by auto
  then have "a mod 4 * 16 + b div 16 < 64" "b mod 16 * 4 < 64" by linarith+
  with 3 show ?case by (simp add: div_less_iff_less_mult)
next
  case (4 a b c bytes)
  have "a mod 4 \<le> 3" "b div 16 \<le> 15" "b mod 16 \<le> 15" "c div 64 \<le> 3" using 4 by auto
  then have "a mod 4 * 16 + b div 16 < 64" "b mod 16 * 4 + c div 64 < 64" by linarith+
  with 4 show ?case by (simp add: div_less_iff_less_mult)
qed simp

lemma length_alphabet: "length b64_alphabet = 64"
  by (simp add: b64_alphabet_def)

lemma index_of_nth: "distinct xs \<Longrightarrow> n < length xs \<Longrightarrow> index_of (xs ! n) xs = Some n"
  by (induction xs arbitrary: n) (auto simp: nth_Cons split: nat.splits)

lemma distinct_alphabet: "distinct b64_alphabet"
  by code_simp

lemma b64_val_char [simp]: "n < 64 \<Longrightarrow> b64_val (b64_char n) = Some n"
  by (simp add: b64_val_def b64_char_def index_of_nth distinct_alphabet length_alphabet)

lemma alphabet_graphic: "list_all (\<lambda>c. graphic c \<and> c \<noteq> CHR 0x0A \<and> c \<noteq> CHR 0x0D) b64_alphabet"
  by code_simp

lemma b64_char_graphic: "n < 64 \<Longrightarrow> graphic (b64_char n) \<and> b64_char n \<noteq> CHR 0x0A \<and> b64_char n \<noteq> CHR 0x0D"
  using alphabet_graphic nth_mem [of n b64_alphabet] unfolding list_all_iff length_alphabet b64_char_def by blast

lemma all_some_map: "list_all (\<lambda>x. f (g x) = Some x) xs \<Longrightarrow> all_some (map f (map g xs)) = Some xs"
  by (induction xs) auto

lemma bytes_bound: "list_all (\<lambda>b. b < 256) (map byte_of s)"
proof -
  have "(of_char c :: nat) < 256" for c using of_char_mod_256 [of c, where ?'a = nat] by (metis mod_less_divisor zero_less_numeral)
  then show ?thesis by (simp add: list_all_iff byte_of_def)
qed

lemma b64_decode_encode: "b64_decode (b64_encode s) = Some s"
proof -
  let ?g = "b64_groups (map byte_of s)"
  have g: "list_all (\<lambda>n. n < 64) ?g" by (rule b64_groups_bound [OF bytes_bound])
  have "filter (\<lambda>c. c \<noteq> CHR 0x0A \<and> c \<noteq> CHR 0x0D) (map b64_char ?g) = map b64_char ?g"
    using g b64_char_graphic unfolding list_all_iff by (intro filter_True) auto
  moreover have "all_some (map b64_val (map b64_char ?g)) = Some ?g"
    using g by (intro all_some_map) (simp add: list_all_iff)
  moreover have "map char_of (map byte_of s) = s" by (simp add: comp_def byte_of_def)
  ultimately show ?thesis
    by (simp add: b64_decode_def b64_encode_def b64_bytes_groups [OF bytes_bound] del: map_map)
qed

lemma b64_groups_nonempty: "bs \<noteq> [] \<Longrightarrow> b64_groups bs \<noteq> []"
  by (cases bs rule: b64_groups.cases) simp_all

lemma b64_encode_trim: "s \<noteq> [] \<Longrightarrow> trim_space (b64_encode s) = b64_encode s"
proof -
  assume s: "s \<noteq> []"
  let ?g = "b64_groups (map byte_of s)"
  have g: "list_all (\<lambda>n. n < 64) ?g" "?g \<noteq> []"
    using b64_groups_bound [OF bytes_bound] b64_groups_nonempty s by simp_all
  then have "hd ?g < 64" "last ?g < 64" unfolding list_all_iff by simp_all
  then show ?thesis
    using g(2) b64_char_graphic by (intro trim_plain) (simp_all add: b64_encode_def hd_map last_map)
qed

lemma b64_encode_nonempty: "s \<noteq> [] \<Longrightarrow> b64_encode s \<noteq> []"
  using b64_groups_nonempty [of "map byte_of s"] by (simp add: b64_encode_def)

section \<open>Cursors\<close>

definition offsetCursorPrefix :: string where
  "offsetCursorPrefix = ''v1:''"

definition EncodeOffsetCursor :: "int \<Rightarrow> string" where
  "EncodeOffsetCursor offset = b64_encode (offsetCursorPrefix @ itoa (if offset < 0 then 0 else offset))"

definition DecodeOffsetCursor :: "string \<Rightarrow> string + int" where
  "DecodeOffsetCursor cursor =
     (let trimmed = trim_space cursor in
      if trimmed = [] then Inl ''cursor is required''
      else case b64_decode trimmed of None \<Rightarrow> Inl ''cursor is invalid''
      | Some decoded \<Rightarrow>
          if \<not> prefix offsetCursorPrefix decoded then Inl ''cursor is invalid''
          else case parse_int (drop (length offsetCursorPrefix) decoded) of None \<Rightarrow> Inl ''cursor is invalid''
          | Some offset \<Rightarrow> if offset < 0 then Inl ''cursor is invalid'' else Inr offset)"

text \<open>C27: a cursor decodes to the offset it was made from (a negative one counts as 0), for every 64-bit
  offset, and whatever a client sends as a cursor is refused or names a non-negative 64-bit offset.\<close>

theorem offset_cursor_roundtrip:
  "(in_int64 n \<longrightarrow> DecodeOffsetCursor (EncodeOffsetCursor n) = Inr (max 0 n))
   \<and> (\<forall>cursor offset. DecodeOffsetCursor cursor = Inr offset \<longrightarrow> 0 \<le> offset \<and> in_int64 offset)"
proof (intro conjI impI allI)
  let ?text = "offsetCursorPrefix @ itoa (max 0 n)"
  have nonempty: "?text \<noteq> []" by (simp add: offsetCursorPrefix_def)
  assume "in_int64 n"
  then have "parse_int (itoa (max 0 n)) = Some (max 0 n)"
    by (intro parse_int_itoa) (simp add: in_int64_def)
  moreover have "EncodeOffsetCursor n = b64_encode ?text" by (simp add: EncodeOffsetCursor_def max_def)
  ultimately show "DecodeOffsetCursor (EncodeOffsetCursor n) = Inr (max 0 n)"
    by (simp add: DecodeOffsetCursor_def b64_encode_trim [OF nonempty] b64_encode_nonempty [OF nonempty]
        b64_decode_encode)
qed (auto simp: DecodeOffsetCursor_def Let_def dest: parse_int_range split: if_splits option.splits)

lemma offset_cursor_roundtrip_witness:
  "DecodeOffsetCursor (EncodeOffsetCursor 42) = Inr 42"
  using offset_cursor_roundtrip [of 42] by (simp add: in_int64_def)

end
