(* ===== verification/Store.thy ===== *)
theory Store
  imports App_Error
begin

text \<open>
  Effects and the relational store (\<open>internal/core/storage\<close>). An operation that takes a
  context and returns a value and an error is a function of the state it can reach:
  \<open>Inl\<close> the error or \<open>Inr\<close> the value, with the new state. A session is one caller's view
  of PostgreSQL: the data it sees, whether it is in a transaction, and which of its requests
  to the server fail (\<open>ss_fault\<close>, by number: any of them may). What other sessions commit in
  the meantime is not modelled here.
\<close>

section \<open>Operations with effects and errors\<close>

type_synonym ('s, 'a) eff = "'s \<Rightarrow> (err + 'a) \<times> 's"

definition eff_ret :: "'a \<Rightarrow> ('s, 'a) eff" where
  "eff_ret a s = (Inr a, s)"

definition eff_throw :: "err \<Rightarrow> ('s, 'a) eff" where
  "eff_throw e s = (Inl e, s)"

definition eff_bind :: "('s, 'a) eff \<Rightarrow> ('a \<Rightarrow> ('s, 'b) eff) \<Rightarrow> ('s, 'b) eff" where
  "eff_bind m f s = (case m s of (Inl e, s') \<Rightarrow> (Inl e, s') | (Inr a, s') \<Rightarrow> f a s')"

text \<open>Both outcomes handed on: the source inspects the error itself.\<close>

definition eff_case :: "('s, 'a) eff \<Rightarrow> (err \<Rightarrow> ('s, 'b) eff) \<Rightarrow> ('a \<Rightarrow> ('s, 'b) eff) \<Rightarrow> ('s, 'b) eff" where
  "eff_case m h f s = (case m s of (Inl e, s') \<Rightarrow> h e s' | (Inr a, s') \<Rightarrow> f a s')"

definition eff_map_err :: "(err \<Rightarrow> err) \<Rightarrow> ('s, 'a) eff \<Rightarrow> ('s, 'a) eff" where
  "eff_map_err g m = eff_case m (\<lambda>e. eff_throw (g e)) eff_ret"

definition eff_ignore :: "('s, 'a) eff \<Rightarrow> ('s, unit) eff" where
  "eff_ignore m = eff_case m (\<lambda>_. eff_ret ()) (\<lambda>_. eff_ret ())"

definition eff_lift :: "err + 'a \<Rightarrow> ('s, 'a) eff" where
  "eff_lift r s = (r, s)"

definition eff_guard :: "bool \<Rightarrow> err \<Rightarrow> ('s, unit) eff" where
  "eff_guard c e = (if c then eff_throw e else eff_ret ())"

definition check :: "err option \<Rightarrow> ('s, unit) eff" where
  "check r = (case r of None \<Rightarrow> eff_ret () | Some e \<Rightarrow> eff_throw e)"

fun eff_each :: "('a \<Rightarrow> ('s, unit) eff) \<Rightarrow> 'a list \<Rightarrow> ('s, unit) eff" where
  "eff_each f [] = eff_ret ()"
| "eff_each f (x # xs) = eff_bind (f x) (\<lambda>_. eff_each f xs)"

lemmas eff_defs = eff_ret_def eff_throw_def eff_bind_def eff_case_def eff_map_err_def
  eff_ignore_def eff_lift_def eff_guard_def

lemma eff_bind_Inr:
  "eff_bind m f s = (Inr b, s') \<longleftrightarrow> (\<exists>a t. m s = (Inr a, t) \<and> f a t = (Inr b, s'))"
  by (auto simp: eff_bind_def split: prod.splits sum.splits)

lemma eff_case_Inr:
  "eff_case m h f s = (Inr b, s') \<longleftrightarrow>
     (\<exists>a t. m s = (Inr a, t) \<and> f a t = (Inr b, s'))
     \<or> (\<exists>e t. m s = (Inl e, t) \<and> h e t = (Inr b, s'))"
  by (auto simp: eff_case_def split: prod.splits sum.splits)

lemma eff_map_err_Inr [simp]: "eff_map_err g m s = (Inr b, s') \<longleftrightarrow> m s = (Inr b, s')"
  by (auto simp: eff_map_err_def eff_case_def eff_throw_def eff_ret_def split: prod.splits sum.splits)

lemma eff_ret_Inr [simp]: "eff_ret a s = (Inr b, s') \<longleftrightarrow> a = b \<and> s = s'"
  by (auto simp: eff_ret_def)

lemma eff_throw_Inr [simp]: "eff_throw e s \<noteq> (Inr b, s')" "(Inr b, s') \<noteq> eff_throw e s"
  by (auto simp: eff_throw_def)

lemma eff_lift_Inr [simp]: "eff_lift r s = (Inr b, s') \<longleftrightarrow> r = Inr b \<and> s = s'"
  by (auto simp: eff_lift_def)

lemma eff_guard_Inr [simp]: "eff_guard c e s = (Inr u, s') \<longleftrightarrow> \<not> c \<and> s = s'"
  by (auto simp: eff_guard_def eff_ret_def eff_throw_def)

lemma check_Inr [simp]: "check r s = (Inr u, s') \<longleftrightarrow> r = None \<and> s = s'"
  by (auto simp: check_def eff_ret_def eff_throw_def split: option.splits)

lemmas eff_Inr = eff_bind_Inr eff_case_Inr

text \<open>Laws that hold whatever the outcome: a relation between the states before and after that
  every part satisfies.\<close>

definition keeps :: "('s \<Rightarrow> 's \<Rightarrow> bool) \<Rightarrow> ('s, 'a) eff \<Rightarrow> bool" where
  "keeps R m \<longleftrightarrow> (\<forall>s. R s (snd (m s)))"

lemma keepsD: "keeps R m \<Longrightarrow> m s = (r, s') \<Longrightarrow> R s s'"
  unfolding keeps_def by (metis snd_conv)

lemma keeps_mono: "keeps R m \<Longrightarrow> (\<And>s t. R s t \<Longrightarrow> S s t) \<Longrightarrow> keeps S m"
  by (simp add: keeps_def)

lemma keeps_ret: "reflp R \<Longrightarrow> keeps R (eff_ret a)"
  by (simp add: keeps_def eff_ret_def reflpD)

lemma keeps_throw: "reflp R \<Longrightarrow> keeps R (eff_throw e)"
  by (simp add: keeps_def eff_throw_def reflpD)

lemma keeps_lift: "reflp R \<Longrightarrow> keeps R (eff_lift r)"
  by (simp add: keeps_def eff_lift_def reflpD)

lemma keeps_guard: "reflp R \<Longrightarrow> keeps R (eff_guard c e)"
  by (simp add: keeps_def eff_guard_def eff_ret_def eff_throw_def reflpD)

lemma keeps_case:
  assumes "transp R" "keeps R m" "\<And>e. keeps R (h e)" "\<And>a. keeps R (f a)"
  shows "keeps R (eff_case m h f)"
  unfolding keeps_def
proof
  fix s
  obtain r t where m: "m s = (r, t)" by force
  have "R s t" using assms(2) m by (rule keepsD)
  moreover have "R t (snd (h e t))" "R t (snd (f a t))" for e a
    using assms(3,4) by (simp_all add: keeps_def)
  ultimately show "R s (snd (eff_case m h f s))"
    using m assms(1) by (auto simp: eff_case_def split: sum.splits elim: transpE)
qed

lemma keeps_bind:
  assumes "transp R" "keeps R m" "\<And>a. keeps R (f a)"
  shows "keeps R (eff_bind m f)"
  unfolding keeps_def
proof
  fix s
  obtain r t where m: "m s = (r, t)" by force
  have "R s t" using assms(2) m by (rule keepsD)
  moreover have "R t (snd (f a t))" for a using assms(3) by (simp add: keeps_def)
  ultimately show "R s (snd (eff_bind m f s))"
    using m assms(1) by (auto simp: eff_bind_def split: sum.splits elim: transpE)
qed

lemma keeps_map_err:
  "transp R \<Longrightarrow> reflp R \<Longrightarrow> keeps R m \<Longrightarrow> keeps R (eff_map_err g m)"
  unfolding eff_map_err_def by (intro keeps_case keeps_throw keeps_ret)

lemma keeps_ignore: "transp R \<Longrightarrow> reflp R \<Longrightarrow> keeps R m \<Longrightarrow> keeps R (eff_ignore m)"
  unfolding eff_ignore_def by (intro keeps_case keeps_ret)

lemma keeps_each:
  "transp R \<Longrightarrow> reflp R \<Longrightarrow> (\<And>x. keeps R (f x)) \<Longrightarrow> keeps R (eff_each f xs)"
  by (induction xs) (auto intro: keeps_ret keeps_bind)

section \<open>Sessions\<close>

datatype tx_state = NoTx | TxOpen | TxAborted

record 'd session =
  ss_data :: 'd
  ss_tx :: tx_state
  ss_count :: nat
  ss_fault :: "nat \<Rightarrow> err option"

text \<open>A statement maps the tables to its rows and the new tables, or to the error PostgreSQL
  reports. In a transaction an error aborts it: every further statement fails (SQLSTATE 25P02)
  until the rollback.\<close>

type_synonym ('d, 'r) stmt = "'d \<Rightarrow> err + ('r list \<times> 'd)"

definition tick :: "('d, 'z) session_scheme \<Rightarrow> ('d, 'z) session_scheme" where
  "tick s = s\<lparr>ss_count := ss_count s + 1\<rparr>"

definition abort_tx :: "('d, 'z) session_scheme \<Rightarrow> ('d, 'z) session_scheme" where
  "abort_tx s = (if ss_tx s = TxOpen then s\<lparr>ss_tx := TxAborted\<rparr> else s)"

definition run_stmt :: "('d, 'r) stmt \<Rightarrow> (('d, 'z) session_scheme, 'r list) eff" where
  "run_stmt st s =
     (if ss_tx s = TxAborted then (Inl (EPg ''25P02''), tick s)
      else case ss_fault s (ss_count s) of
        Some e \<Rightarrow> (Inl e, abort_tx (tick s))
      | None \<Rightarrow> (case st (ss_data s) of
          Inl e \<Rightarrow> (Inl e, abort_tx (tick s))
        | Inr (rows, d) \<Rightarrow> (Inr rows, (tick s)\<lparr>ss_data := d\<rparr>)))"

abbreviation "ErrNoRows \<equiv> ESent ''pgx.ErrNoRows''"

definition RelationalExec :: "('d, 'r) stmt \<Rightarrow> (('d, 'z) session_scheme, unit) eff" where
  "RelationalExec st = eff_bind (run_stmt st) (\<lambda>_. eff_ret ())"

definition RelationalQueryOne ::
  "('d, 'r) stmt \<Rightarrow> ('r \<Rightarrow> err + 'a) \<Rightarrow> (('d, 'z) session_scheme, 'a) eff" where
  "RelationalQueryOne st scan =
     eff_bind (run_stmt st) (\<lambda>rows. case rows of [] \<Rightarrow> eff_throw ErrNoRows
                                            | r # _ \<Rightarrow> eff_lift (scan r))"

fun scan_rows :: "('r \<Rightarrow> 'a \<Rightarrow> err + 'a) \<Rightarrow> 'r list \<Rightarrow> 'a \<Rightarrow> err + 'a" where
  "scan_rows scan [] acc = Inr acc"
| "scan_rows scan (r # rs) acc =
     (case scan r acc of Inl e \<Rightarrow> Inl e | Inr acc' \<Rightarrow> scan_rows scan rs acc')"

definition RelationalQueryMany ::
  "('d, 'r) stmt \<Rightarrow> ('r \<Rightarrow> 'a \<Rightarrow> err + 'a) \<Rightarrow> 'a \<Rightarrow> (('d, 'z) session_scheme, 'a) eff" where
  "RelationalQueryMany st scan acc =
     eff_bind (run_stmt st) (\<lambda>rows. eff_lift (scan_rows scan rows acc))"

text \<open>\<open>WithTx\<close>: begin, the callback, then commit, or rollback on its error. The commit of an
  aborted transaction is a rollback that pgx reports as an error; a commit that fails leaves
  the old data (whether a lost connection committed is not known to the source either). A
  panic in the callback also rolls back and is not modelled.\<close>

definition WithTx :: "(('d, 'z) session_scheme, 'a) eff \<Rightarrow> (('d, 'z) session_scheme, 'a) eff" where
  "WithTx fn s =
     (case ss_fault s (ss_count s) of
        Some e \<Rightarrow> (Inl (EWrap ''begin tx'' [e]), tick s)
      | None \<Rightarrow>
        (case fn ((tick s)\<lparr>ss_tx := TxOpen\<rparr>) of
           (Inl e, t) \<Rightarrow> (Inl e, t\<lparr>ss_data := ss_data s, ss_tx := ss_tx s\<rparr>)
         | (Inr a, t) \<Rightarrow>
             if ss_tx t = TxAborted
             then (Inl (EWrap ''commit tx'' [ESent ''pgx.ErrTxCommitRollback'']),
                   (tick t)\<lparr>ss_data := ss_data s, ss_tx := ss_tx s\<rparr>)
             else (case ss_fault t (ss_count t) of
                 Some e \<Rightarrow> (Inl (EWrap ''commit tx'' [e]),
                            (tick t)\<lparr>ss_data := ss_data s, ss_tx := ss_tx s\<rparr>)
               | None \<Rightarrow> (Inr a, (tick t)\<lparr>ss_tx := ss_tx s\<rparr>))))"

lemma session_simps [simp]:
  "ss_data (tick s) = ss_data s" "ss_tx (tick s) = ss_tx s" "ss_fault (tick s) = ss_fault s"
  "ss_count (tick s) = ss_count s + 1"
  "ss_data (abort_tx s) = ss_data s" "ss_fault (abort_tx s) = ss_fault s"
  "ss_count (abort_tx s) = ss_count s"
  by (simp_all add: tick_def abort_tx_def)

lemma run_stmt_ok:
  "run_stmt st s = (Inr rows, s') \<longleftrightarrow>
     ss_tx s \<noteq> TxAborted \<and> ss_fault s (ss_count s) = None
     \<and> (\<exists>d. st (ss_data s) = Inr (rows, d) \<and> s' = (tick s)\<lparr>ss_data := d\<rparr>)"
  by (auto simp: run_stmt_def split: option.splits sum.splits prod.splits)

lemma run_stmt_aborted: "ss_tx s = TxAborted \<Longrightarrow> run_stmt st s = (Inl (EPg ''25P02''), tick s)"
  by (simp add: run_stmt_def)

lemma RelationalExec_ok:
  "RelationalExec st s = (Inr u, s') \<longleftrightarrow> (\<exists>rows. run_stmt st s = (Inr rows, s'))"
  by (simp add: RelationalExec_def eff_Inr)

lemma RelationalQueryOne_ok:
  "RelationalQueryOne st scan s = (Inr a, s') \<longleftrightarrow>
     (\<exists>r rs. run_stmt st s = (Inr (r # rs), s') \<and> scan r = Inr a)"
  by (force simp: RelationalQueryOne_def eff_Inr neq_Nil_conv split: list.splits)

lemma RelationalQueryMany_ok:
  "RelationalQueryMany st scan acc s = (Inr a, s') \<longleftrightarrow>
     (\<exists>rows. run_stmt st s = (Inr rows, s') \<and> scan_rows scan rows acc = Inr a)"
  by (auto simp: RelationalQueryMany_def eff_Inr)

lemmas stmt_ok = run_stmt_ok RelationalExec_ok RelationalQueryOne_ok RelationalQueryMany_ok

text \<open>A transaction that reports an error has changed nothing, and one that reports success has
  made exactly its callback's changes.\<close>

lemma WithTx_error_data: "WithTx fn s = (Inl e, s') \<Longrightarrow> ss_data s' = ss_data s"
  by (auto simp: WithTx_def Let_def split: option.splits prod.splits sum.splits if_splits)

lemma WithTx_Inr:
  "WithTx fn s = (Inr a, s') \<longleftrightarrow>
     (\<exists>t. ss_fault s (ss_count s) = None \<and> fn ((tick s)\<lparr>ss_tx := TxOpen\<rparr>) = (Inr a, t)
        \<and> ss_tx t \<noteq> TxAborted \<and> ss_fault t (ss_count t) = None
        \<and> s' = (tick t)\<lparr>ss_tx := ss_tx s\<rparr>)"
  by (auto simp: WithTx_def Let_def split: option.splits prod.splits sum.splits if_splits)

text \<open>Requests to the store touch the session's own fields only, and read-only ones no data.\<close>

definition same_more :: "('d, 'z) session_scheme \<Rightarrow> ('d, 'z) session_scheme \<Rightarrow> bool" where
  "same_more s t \<longleftrightarrow> session.more t = session.more s"

definition same_data :: "('d, 'z) session_scheme \<Rightarrow> ('d, 'z) session_scheme \<Rightarrow> bool" where
  "same_data s t \<longleftrightarrow> ss_data t = ss_data s"

lemma same_refl [simp]: "reflp same_more" "reflp same_data"
  by (auto intro: reflpI simp: same_more_def same_data_def)

lemma same_trans [simp]: "transp same_more" "transp same_data"
  by (auto intro!: transpI simp: same_more_def same_data_def)

lemma run_stmt_more: "keeps same_more (run_stmt st)"
  by (auto simp: keeps_def same_more_def run_stmt_def tick_def abort_tx_def
      split: option.splits sum.splits prod.splits)

lemma run_stmt_read_only:
  "(\<And>d rows d'. st d = Inr (rows, d') \<Longrightarrow> d' = d) \<Longrightarrow> keeps same_data (run_stmt st)"
  by (fastforce simp: keeps_def same_data_def run_stmt_def split: option.splits sum.splits prod.splits)

lemmas keeps_intros = keeps_bind keeps_case keeps_map_err keeps_ignore keeps_each keeps_ret
  keeps_throw keeps_lift keeps_guard

lemma query_more:
  "keeps same_more (RelationalExec st)" "keeps same_more (RelationalQueryOne st scan)"
  "keeps same_more (RelationalQueryMany st scan' acc)"
  unfolding RelationalExec_def RelationalQueryOne_def RelationalQueryMany_def
  by (auto intro!: keeps_intros run_stmt_more split: list.split)

lemma query_read_only:
  assumes "\<And>d rows d'. st d = Inr (rows, d') \<Longrightarrow> d' = d"
  shows "keeps same_data (RelationalExec st)" "keeps same_data (RelationalQueryOne st scan)"
    "keeps same_data (RelationalQueryMany st scan' acc)"
  unfolding RelationalExec_def RelationalQueryOne_def RelationalQueryMany_def
  by (auto intro!: keeps_intros run_stmt_read_only assms split: list.split)

lemma WithTx_more: "keeps same_more fn \<Longrightarrow> keeps same_more (WithTx fn)"
  unfolding keeps_def
proof
  fix s
  assume fn: "\<forall>s. same_more s (snd (fn s))"
  obtain r t where t: "fn ((tick s)\<lparr>ss_tx := TxOpen\<rparr>) = (r, t)" by force
  have "session.more t = session.more s"
    using fn [rule_format, of "(tick s)\<lparr>ss_tx := TxOpen\<rparr>"] t
    by (simp add: same_more_def tick_def)
  then show "same_more s (snd (WithTx fn s))"
    using t by (auto simp: WithTx_def same_more_def tick_def split: option.splits sum.splits)
qed

end
