(* ===== verification/Rbac.thy ===== *)
theory Rbac
  imports App_Error
begin

unbundle bit_operations_syntax

text \<open>
  \<open>internal/core/rbac\<close>: the 60 permission bits of ten domains with six actions each, the six
  canonical roles and their default masks. The view bit of a domain is bit \<open>6 * d\<close>; the facts
  say which bits the default masks hold and that a mask respects the rule of the team module
  that an elevated bit needs its domain's view bit.
\<close>

type_synonym mask = "64 word"

text \<open>The constants \<open>PermProjectView = 1 << iota\<close>, \<open>PermProjectCreate\<close>, and so on, in the
  order of their declaration: ten domains, six actions.\<close>

datatype domain = DProject | DStory | DProblem | DIdea | DTask | DFeedback | DResource | DPage
  | DCalendar | DMember

datatype action = AView | ACreate | AEdit | ADelete | AArchive | AStatusChange

definition all_domains :: "domain list" where
  "all_domains = [DProject, DStory, DProblem, DIdea, DTask, DFeedback, DResource, DPage,
     DCalendar, DMember]"

definition all_actions :: "action list" where
  "all_actions = [AView, ACreate, AEdit, ADelete, AArchive, AStatusChange]"

fun domain_index :: "domain \<Rightarrow> nat" where
  "domain_index DProject = 0"
| "domain_index DStory = 1"
| "domain_index DProblem = 2"
| "domain_index DIdea = 3"
| "domain_index DTask = 4"
| "domain_index DFeedback = 5"
| "domain_index DResource = 6"
| "domain_index DPage = 7"
| "domain_index DCalendar = 8"
| "domain_index DMember = 9"

fun action_index :: "action \<Rightarrow> nat" where
  "action_index AView = 0"
| "action_index ACreate = 1"
| "action_index AEdit = 2"
| "action_index ADelete = 3"
| "action_index AArchive = 4"
| "action_index AStatusChange = 5"

definition perm_bit :: "domain \<Rightarrow> action \<Rightarrow> nat" where
  "perm_bit d a = 6 * domain_index d + action_index a"

definition perm :: "domain \<Rightarrow> action \<Rightarrow> mask" where
  "perm d a = push_bit (perm_bit d a) 1"

definition RoleOwner :: string where "RoleOwner = ''Owner''"
definition RoleAdmin :: string where "RoleAdmin = ''Admin''"
definition RoleEditor :: string where "RoleEditor = ''Editor''"
definition RoleMember :: string where "RoleMember = ''Member''"
definition RoleViewer :: string where "RoleViewer = ''Viewer''"
definition RoleLimitedAccess :: string where "RoleLimitedAccess = ''Limited Access''"

lemmas role_defs = RoleOwner_def RoleAdmin_def RoleEditor_def RoleMember_def RoleViewer_def
  RoleLimitedAccess_def

definition canonicalRoles :: "string list" where
  "canonicalRoles = [RoleOwner, RoleAdmin, RoleEditor, RoleMember, RoleViewer, RoleLimitedAccess]"

definition defaultRoleMasks :: "string \<rightharpoonup> mask" where
  "defaultRoleMasks =
     [RoleOwner \<mapsto> 1152921504606846975,
      RoleAdmin \<mapsto> 864691128455135229,
      RoleEditor \<mapsto> 20016033248999873,
      RoleMember \<mapsto> 875734824153537,
      RoleViewer \<mapsto> 18300341342965825,
      RoleLimitedAccess \<mapsto> 0]"

text \<open>\<open>DefaultRoleMask\<close>: the first canonical role equal to the trimmed name up to case, then
  the lookup in the table.\<close>

definition DefaultRoleMask :: "string \<Rightarrow> mask option" where
  "DefaultRoleMask role =
     (case find (\<lambda>c. equal_fold c (trim_space role)) canonicalRoles of
        None \<Rightarrow> None
      | Some c \<Rightarrow> defaultRoleMasks c)"

section \<open>The bits\<close>

lemma domain_index_inj: "domain_index d = domain_index d' \<Longrightarrow> d = d'"
  by (cases d; cases d') simp_all

lemma action_index_inj: "action_index a = action_index a' \<Longrightarrow> a = a'"
  by (cases a; cases a') simp_all

lemma domain_index_less: "domain_index d < 10"
  by (cases d) simp_all

lemma action_index_less: "action_index a < 6"
  by (cases a) simp_all

lemma perm_bit_less: "perm_bit d a < 60"
  using domain_index_less [of d] action_index_less [of a] by (simp add: perm_bit_def)

lemma perm_bit_inj: "perm_bit d a = perm_bit d' a' \<longleftrightarrow> d = d' \<and> a = a'"
proof
  assume eq: "perm_bit d a = perm_bit d' a'"
  have "perm_bit d a div 6 = domain_index d" "perm_bit d a mod 6 = action_index a"
    "perm_bit d' a' div 6 = domain_index d'" "perm_bit d' a' mod 6 = action_index a'"
    using action_index_less [of a] action_index_less [of a'] by (simp_all add: perm_bit_def)
  with eq show "d = d' \<and> a = a'" by (metis domain_index_inj action_index_inj)
qed simp

lemma bit_perm: "bit (perm d a) n \<longleftrightarrow> n = perm_bit d a"
  using perm_bit_less [of d a] by (auto simp: perm_def bit_push_bit_iff bit_exp_iff)

lemma perm_nonzero [simp]: "perm d a \<noteq> 0"
  using bit_perm [of d a "perm_bit d a"] by auto

lemma and_perm_iff: "m AND perm d a \<noteq> 0 \<longleftrightarrow> bit m (perm_bit d a)"
proof
  assume "m AND perm d a \<noteq> 0"
  then obtain n where "bit (m AND perm d a) n" using bit_eqI [of "m AND perm d a" 0] by auto
  then show "bit m (perm_bit d a)" by (auto simp: bit_and_iff bit_perm)
next
  assume "bit m (perm_bit d a)"
  then have "bit (m AND perm d a) (perm_bit d a)" by (simp add: bit_and_iff bit_perm)
  then show "m AND perm d a \<noteq> 0" by auto
qed

section \<open>Roles\<close>

lemma canonicalRoles_distinct: "distinct canonicalRoles"
  by (simp add: canonicalRoles_def role_defs)

lemma role_trimmed: "r \<in> set canonicalRoles \<Longrightarrow> trim_space r = r"
  by (auto simp: canonicalRoles_def role_defs trim_literal)

lemma role_lower:
  "to_lower RoleOwner = ''owner''" "to_lower RoleAdmin = ''admin''"
  "to_lower RoleEditor = ''editor''" "to_lower RoleMember = ''member''"
  "to_lower RoleViewer = ''viewer''" "to_lower RoleLimitedAccess = ''limited access''"
  by (simp_all add: role_defs case_literal)

lemma role_fold_inj:
  "r \<in> set canonicalRoles \<Longrightarrow> r' \<in> set canonicalRoles \<Longrightarrow> equal_fold r r' \<Longrightarrow> r = r'"
  by (auto simp: canonicalRoles_def equal_fold_def role_lower)

lemma find_role:
  assumes "r \<in> set canonicalRoles" and "equal_fold r s"
  shows "find (\<lambda>c. equal_fold c s) canonicalRoles = Some r"
proof -
  obtain c where c: "find (\<lambda>c. equal_fold c s) canonicalRoles = Some c"
    using assms by (cases "find (\<lambda>c. equal_fold c s) canonicalRoles") (auto simp: find_None_iff)
  then have "equal_fold c s" "c \<in> set canonicalRoles" by (auto simp: find_Some_iff)
  with assms have "c = r" using role_fold_inj equal_fold_trans equal_fold_sym by metis
  with c show ?thesis by simp
qed

lemma defaultRoleMasks_canonical:
  "r \<in> set canonicalRoles \<Longrightarrow> \<exists>m. defaultRoleMasks r = Some m"
  by (auto simp: canonicalRoles_def defaultRoleMasks_def)

lemma DefaultRoleMask_canonical:
  "r \<in> set canonicalRoles \<Longrightarrow> DefaultRoleMask r = defaultRoleMasks r"
  by (simp add: DefaultRoleMask_def role_trimmed find_role)

section \<open>What the default masks grant\<close>

text \<open>The permission matrix the numbers of \<open>defaultRoleMasks\<close> stand for, per role and
  domain.\<close>

abbreviation (input) view_only :: "action list" where
  "view_only \<equiv> [AView]"

definition role_grants :: "string \<Rightarrow> domain \<Rightarrow> action list" where
  "role_grants r d =
     (if r = RoleOwner then all_actions
      else if r = RoleAdmin then
        (case d of DProject \<Rightarrow> [AView, AEdit, ADelete, AArchive, AStatusChange]
         | DMember \<Rightarrow> [AView, ACreate, AEdit, ADelete, AStatusChange]
         | _ \<Rightarrow> all_actions)
      else if r = RoleEditor then
        (case d of DProject \<Rightarrow> view_only | DMember \<Rightarrow> view_only
         | DResource \<Rightarrow> [AView, ACreate, AEdit] | DPage \<Rightarrow> [AView, ACreate, AEdit]
         | DCalendar \<Rightarrow> [AView, ACreate, AEdit]
         | _ \<Rightarrow> [AView, ACreate, AEdit, AStatusChange])
      else if r = RoleMember then
        (case d of DProject \<Rightarrow> view_only | DMember \<Rightarrow> []
         | DTask \<Rightarrow> [AView, ACreate, AEdit, AStatusChange]
         | DFeedback \<Rightarrow> [AView, ACreate, AEdit, AStatusChange]
         | DCalendar \<Rightarrow> [AView, ACreate]
         | _ \<Rightarrow> [AView, ACreate, AEdit])
      else if r = RoleViewer then view_only
      else [])"

lemma role_mask_cases:
  assumes "defaultRoleMasks r = Some m"
  shows "r \<in> set canonicalRoles"
  using assms by (auto simp: defaultRoleMasks_def canonicalRoles_def split: if_splits)

lemmas bit_eval = bit_numeral_word_iff perm_bit_def

lemma mask_bits_owner: "bit (1152921504606846975 :: mask) (perm_bit d a)"
  by (cases d; cases a) (simp_all add: bit_eval)

lemma mask_bits_admin:
  "bit (864691128455135229 :: mask) (perm_bit d a) = (a \<in> set (role_grants RoleAdmin d))"
  by (cases d; cases a) (simp_all add: bit_eval role_grants_def role_defs all_actions_def)

lemma mask_bits_editor:
  "bit (20016033248999873 :: mask) (perm_bit d a) = (a \<in> set (role_grants RoleEditor d))"
  by (cases d; cases a) (simp_all add: bit_eval role_grants_def role_defs)

lemma mask_bits_member:
  "bit (875734824153537 :: mask) (perm_bit d a) = (a \<in> set (role_grants RoleMember d))"
  by (cases d; cases a) (simp_all add: bit_eval role_grants_def role_defs)

lemma mask_bits_viewer:
  "bit (18300341342965825 :: mask) (perm_bit d a) = (a = AView)"
  by (cases d; cases a) (simp_all add: bit_eval)

lemma default_mask_grants:
  assumes "defaultRoleMasks r = Some m"
  shows "bit m (perm_bit d a) = (a \<in> set (role_grants r d))"
proof -
  have "a \<in> set (role_grants RoleOwner d)"
    by (cases a) (simp_all add: role_grants_def all_actions_def)
  moreover have "role_grants RoleViewer d = [AView]" "role_grants RoleLimitedAccess d = []"
    by (simp_all add: role_grants_def role_defs)
  moreover have "(r, m) \<in> set [(RoleOwner, 1152921504606846975), (RoleAdmin, 864691128455135229),
      (RoleEditor, 20016033248999873), (RoleMember, 875734824153537),
      (RoleViewer, 18300341342965825), (RoleLimitedAccess, 0)]"
    using assms by (auto simp: defaultRoleMasks_def split: if_splits)
  ultimately show ?thesis
    by (auto simp: mask_bits_owner mask_bits_admin mask_bits_editor mask_bits_member
        mask_bits_viewer simp del: bit_numeral_word_iff)
qed

text \<open>No default mask has a bit outside the sixty, so each fits the database's signed
  \<open>bigint\<close>.\<close>

lemma default_mask_bound:
  "defaultRoleMasks r = Some m \<Longrightarrow> uint m < 2 ^ 60"
  by (auto simp: defaultRoleMasks_def split: if_splits)

lemma default_mask_int64:
  "defaultRoleMasks r = Some m \<Longrightarrow> \<not> uint m > max_int64"
  using default_mask_bound [of r m] by simp

lemma default_mask_signed: "defaultRoleMasks r = Some m \<Longrightarrow> 0 \<le> sint m"
  by (auto simp: defaultRoleMasks_def split: if_splits)

end
