(* ===== verification/Project_Tables.thy ===== *)
theory Project_Tables
  imports Store Rbac
begin

text \<open>
  The tables behind membership and authorization (\<open>db/schema.generated.sql\<close>): projects, users,
  project members, role permissions, invites and notifications, with the columns the modelled
  statements read or write. Ids are the canonical text of their uuid, times are seconds,
  masks are the \<open>bigint\<close> values. The cast of a text to uuid is PostgreSQL's: it is an
  argument \<open>uuid\<close> of the statements that use it (\<open>None\<close> when the text is no uuid).
  \<open>tb_muted\<close> are the users whose account settings turn in-app notifications off, and
  \<open>tb_gates\<close> the notification columns of project settings: project, column, value.
\<close>

record project_row =
  pj_id :: string
  pj_slug :: string
  pj_name :: string

record user_row =
  us_id :: string
  us_email :: string
  us_name :: string

record member_row =
  mb_id :: string
  mb_project :: string
  mb_user :: string
  mb_role :: string
  mb_mask :: int
  mb_custom :: bool
  mb_status :: string
  mb_joined :: string
  mb_updated :: int

record role_row =
  rp_project :: string
  rp_role :: string
  rp_mask :: int
  rp_updated_by :: "string option"
  rp_updated :: int

record invite_row =
  iv_id :: string
  iv_project :: string
  iv_email :: string
  iv_role :: string
  iv_mask :: int
  iv_invited_by :: string
  iv_inviter_role :: string
  iv_status :: string
  iv_sent :: int
  iv_expires :: int

record notification_row =
  nt_user :: string
  nt_project :: string
  nt_source :: string
  nt_source_id :: "string option"
  nt_title :: string
  nt_message :: string

record tables =
  tb_projects :: "project_row list"
  tb_users :: "user_row list"
  tb_members :: "member_row list"
  tb_roles :: "role_row list"
  tb_invites :: "invite_row list"
  tb_muted :: "string list"
  tb_gates :: "(string \<times> string \<times> bool) list"
  tb_notifications :: "notification_row list"
  tb_now :: int

text \<open>The labels of the enum \<open>project_role\<close>: a cast of any other text fails (22P02).\<close>

definition role_enum :: "string list" where
  "role_enum = [''Owner'', ''Admin'', ''Editor'', ''Member'', ''Viewer'', ''Limited Access'']"

definition cast_role :: "string \<Rightarrow> err + string" where
  "cast_role r = (if r \<in> set role_enum then Inr r else Inl (EPg ''22P02''))"

type_synonym uuid_cast = "string \<Rightarrow> string option"

definition cast_uuid :: "uuid_cast \<Rightarrow> string \<Rightarrow> err + string" where
  "cast_uuid uuid s = (case uuid s of None \<Rightarrow> Inl (EPg ''22P02'') | Some u \<Rightarrow> Inr u)"

definition sum_bind :: "err + 'a \<Rightarrow> ('a \<Rightarrow> err + 'b) \<Rightarrow> err + 'b" where
  "sum_bind r f = (case r of Inl e \<Rightarrow> Inl e | Inr a \<Rightarrow> f a)"

lemma sum_bind_Inr [simp]: "sum_bind r f = Inr b \<longleftrightarrow> (\<exists>a. r = Inr a \<and> f a = Inr b)"
  by (auto simp: sum_bind_def split: sum.splits)

lemma sum_bind_simps [simp]: "sum_bind (Inr a) f = f a" "sum_bind (Inl e) f = Inl e"
  by (simp_all add: sum_bind_def)

lemma cast_role_Inr [simp]: "cast_role r = Inr r' \<longleftrightarrow> r \<in> set role_enum \<and> r' = r"
  by (auto simp: cast_role_def)

lemma cast_uuid_Inr [simp]: "cast_uuid uuid s = Inr u \<longleftrightarrow> uuid s = Some u"
  by (auto simp: cast_uuid_def split: option.splits)

lemma role_enum_canonical: "set role_enum = set canonicalRoles"
  by (simp add: role_enum_def canonicalRoles_def role_defs)

text \<open>Checks of the schema: no stored mask is negative, a project has one row per role and one
  membership per user, ids and slugs are unique, the \<open>project_role\<close> columns hold labels.\<close>

definition tables_ok :: "tables \<Rightarrow> bool" where
  "tables_ok d \<longleftrightarrow>
     (\<forall>m \<in> set (tb_members d). 0 \<le> mb_mask m \<and> mb_role m \<in> set role_enum)
     \<and> (\<forall>r \<in> set (tb_roles d). 0 \<le> rp_mask r \<and> rp_role r \<in> set role_enum)
     \<and> (\<forall>i \<in> set (tb_invites d). 0 \<le> iv_mask i \<and> iv_role i \<in> set role_enum)
     \<and> distinct (map (\<lambda>r. (rp_project r, rp_role r)) (tb_roles d))
     \<and> distinct (map (\<lambda>m. (mb_project m, mb_user m)) (tb_members d))
     \<and> distinct (map mb_id (tb_members d))
     \<and> distinct (map pj_id (tb_projects d)) \<and> distinct (map pj_slug (tb_projects d))"

definition find_role_row :: "tables \<Rightarrow> string \<Rightarrow> string \<Rightarrow> role_row option" where
  "find_role_row d project role =
     find (\<lambda>r. rp_project r = project \<and> rp_role r = role) (tb_roles d)"

text \<open>A member's stored mask follows its role unless it is custom.\<close>

definition members_synced :: "tables \<Rightarrow> bool" where
  "members_synced d \<longleftrightarrow>
     (\<forall>m \<in> set (tb_members d). \<not> mb_custom m \<longrightarrow>
        (case find_role_row d (mb_project m) (mb_role m) of None \<Rightarrow> True
         | Some r \<Rightarrow> mb_mask m = rp_mask r))"

lemma find_role_row_Some:
  "find_role_row d p r = Some x \<Longrightarrow> x \<in> set (tb_roles d) \<and> rp_project x = p \<and> rp_role x = r"
  by (auto simp: find_role_row_def find_Some_iff)

lemma find_role_row_None:
  "find_role_row d p r = None
     \<longleftrightarrow> (\<forall>x \<in> set (tb_roles d). \<not> (rp_project x = p \<and> rp_role x = r))"
  by (auto simp: find_role_row_def find_None_iff)

lemma find_append: "find P (xs @ ys) = (case find P xs of None \<Rightarrow> find P ys | Some x \<Rightarrow> Some x)"
  by (induction xs) auto

end
