(* ===== verification/Http.thy ===== *)
theory Http
  imports App_Error
begin

text \<open>
  Requests, response writers and the response envelope (\<open>internal/core/response\<close>,
  \<open>internal/core/auth/context.go\<close>, \<open>internal/core/httpx\<close> helpers). A handler takes the
  request, the response writer and a state \<open>'w\<close> that stands for everything else it can
  reach, and returns the last two updated; what Go stores in the request's context (the
  principal, the request id, the client IP) are fields of the request.
\<close>

section \<open>Requests\<close>

record principal =
  pr_user_id :: string
  pr_project_id :: string
  pr_role :: string
  pr_mask :: "64 word"
  pr_permissions :: "string list"

definition zero_principal :: principal where
  "zero_principal = \<lparr>pr_user_id = [], pr_project_id = [], pr_role = [], pr_mask = 0,
     pr_permissions = []\<rparr>"

type_synonym headers = "(string \<times> string list) list"

record request =
  rq_method :: string
  rq_content_length :: int
  rq_transfer_encoding :: "string list"
  rq_headers :: headers
  rq_query :: "(string \<times> string list) list"
  rq_url_params :: "(string \<times> string) list"
  rq_path_values :: "(string \<times> string) list"
  rq_route_pattern :: "string option"
  rq_remote_addr :: string
  rq_client_ip :: "string option"
  rq_principal :: "principal option"
  rq_id :: string
  rq_body_limit :: "int option"

text \<open>Header names are case-insensitive (Go canonicalises them on both sides).\<close>

definition header_values :: "headers \<Rightarrow> string \<Rightarrow> string list" where
  "header_values hs name = concat (map snd (filter (\<lambda>(k, _). equal_fold k name) hs))"

definition header_get :: "headers \<Rightarrow> string \<Rightarrow> string" where
  "header_get hs name = (case header_values hs name of [] \<Rightarrow> [] | v # _ \<Rightarrow> v)"

definition header_set :: "headers \<Rightarrow> string \<Rightarrow> string \<Rightarrow> headers" where
  "header_set hs name v = filter (\<lambda>(k, _). \<not> equal_fold k name) hs @ [(name, [v])]"

definition header_add :: "headers \<Rightarrow> string \<Rightarrow> string \<Rightarrow> headers" where
  "header_add hs name v =
     filter (\<lambda>(k, _). \<not> equal_fold k name) hs @ [(name, header_values hs name @ [v])]"

text \<open>A name that the map lacks reads as the empty string; the router's parameters are searched
  from the innermost (last) one.\<close>

definition str_get :: "(string \<times> string) list \<Rightarrow> string \<Rightarrow> string" where
  "str_get m k = (case map_of m k of None \<Rightarrow> [] | Some v \<Rightarrow> v)"

definition URLParam :: "request \<Rightarrow> string \<Rightarrow> string" where
  "URLParam r key = str_get (rev (rq_url_params r)) key"

definition PathValue :: "request \<Rightarrow> string \<Rightarrow> string" where
  "PathValue r key = str_get (rq_path_values r) key"

definition query_values :: "request \<Rightarrow> string \<Rightarrow> string list" where
  "query_values r key = (case map_of (rq_query r) key of None \<Rightarrow> [] | Some vs \<Rightarrow> vs)"

definition query_get :: "request \<Rightarrow> string \<Rightarrow> string" where
  "query_get r key = (case query_values r key of [] \<Rightarrow> [] | v # _ \<Rightarrow> v)"

text \<open>\<open>auth.WithContext\<close>, \<open>auth.FromContext\<close>.\<close>

definition with_principal :: "request \<Rightarrow> principal \<Rightarrow> request" where
  "with_principal r p = r\<lparr>rq_principal := Some p\<rparr>"

definition from_context :: "request \<Rightarrow> principal option" where
  "from_context r = rq_principal r"

text \<open>\<open>netx.ClientIPFromContext\<close>.\<close>

definition ClientIPFromContext :: "request \<Rightarrow> string option" where
  "ClientIPFromContext r = (case rq_client_ip r of None \<Rightarrow> None
     | Some v \<Rightarrow> if trim_space v = [] then None else Some (trim_space v))"

text \<open>\<open>(*Context).Param\<close>: the router's parameter, then the standard library's path value.\<close>

definition context_param :: "request \<Rightarrow> string \<Rightarrow> string" where
  "context_param r name =
     (let value = trim_space (URLParam r name) in
      if value \<noteq> [] then value else trim_space (PathValue r name))"

lemma filter_other_names:
  "equal_fold n m \<Longrightarrow>
     filter (\<lambda>(k, _). equal_fold k m) (filter (\<lambda>(k, _). \<not> equal_fold k n) hs) = []"
  by (induction hs) (auto simp: equal_fold_def)

lemma header_values_set [simp]: "equal_fold n m \<Longrightarrow> header_values (header_set hs n v) m = [v]"
  using filter_other_names [of n m hs] by (simp add: header_values_def header_set_def)

lemma header_get_set [simp]: "equal_fold n m \<Longrightarrow> header_get (header_set hs n v) m = v"
  by (simp add: header_get_def)

lemma header_values_set_other:
  "\<not> equal_fold n m \<Longrightarrow> header_values (header_set hs n v) m = header_values hs m"
proof -
  assume "\<not> equal_fold n m"
  then have "filter (\<lambda>(k, _). equal_fold k m) (filter (\<lambda>(k, _). \<not> equal_fold k n) hs)
      = filter (\<lambda>(k, _). equal_fold k m) hs"
    by (induction hs) (auto simp: equal_fold_def)
  with \<open>\<not> equal_fold n m\<close> show ?thesis
    by (simp add: header_values_def header_set_def)
qed

lemma header_values_add [simp]:
  "equal_fold n m \<Longrightarrow> header_values (header_add hs n v) m = header_values hs m @ [v]"
  using filter_other_names [of n m hs]
  by (auto simp: header_values_def header_add_def equal_fold_def)

section \<open>JSON text of an envelope\<close>

record error_body =
  eb_code :: string
  eb_message :: string
  eb_details :: any

record envelope =
  env_ok :: bool
  env_data :: any
  env_error :: "error_body option"
  env_request_id :: string
  env_meta :: any

definition hex_digit :: "nat \<Rightarrow> char" where
  "hex_digit n = ''0123456789abcdef'' ! n"

definition bslash :: char where "bslash = CHR 0x5C"
definition dquote :: char where "dquote = CHR 0x22"

text \<open>One byte of \<open>encoding/json\<close>'s string encoder with HTML escaping on.\<close>

definition json_char :: "char \<Rightarrow> string" where
  "json_char c =
     (let k = of_char c :: nat in
      if c = bslash then [bslash, bslash]
      else if c = dquote then [bslash, dquote]
      else if k = 8 then [bslash, CHR ''b'']
      else if k = 9 then [bslash, CHR ''t'']
      else if k = 10 then [bslash, CHR ''n'']
      else if k = 12 then [bslash, CHR ''f'']
      else if k = 13 then [bslash, CHR ''r'']
      else if k < 32 \<or> c = CHR ''<'' \<or> c = CHR ''>'' \<or> c = CHR ''&''
        then bslash # ''u00'' @ [hex_digit (k div 16), hex_digit (k mod 16)]
      else [c])"

text \<open>U+2028 and U+2029 are escaped as well.\<close>

fun json_escape :: "string \<Rightarrow> string" where
  "json_escape [] = []"
| "json_escape (c # s) =
     (if c = CHR 0xE2 \<and> prefix [CHR 0x80, CHR 0xA8] s
      then bslash # ''u2028'' @ json_escape (drop 2 s)
      else if c = CHR 0xE2 \<and> prefix [CHR 0x80, CHR 0xA9] s
      then bslash # ''u2029'' @ json_escape (drop 2 s)
      else json_char c @ json_escape s)"

definition json_string :: "string \<Rightarrow> string" where
  "json_string s = dquote # json_escape s @ [dquote]"

text \<open>
  \<open>json.Marshal\<close> of a dynamic value: map keys in sorted order, nil pointers as null.
  \<open>None\<close> stands for values it cannot print; the model also answers \<open>None\<close> for a
  non-integral float, whose shortest decimal form it does not compute.
\<close>

definition opt_all :: "'a option list \<Rightarrow> 'a list option" where
  "opt_all xs = (if None \<in> set xs then None else Some (map the xs))"

fun json_any :: "any \<Rightarrow> string option" where
  "json_any ANil = Some ''null''"
| "json_any (ABool b) = Some (if b then ''true'' else ''false'')"
| "json_any (AInt n) = Some (itoa n)"
| "json_any (AFloat r) =
     (if of_int \<lfloor>r\<rfloor> = r \<and> \<bar>\<lfloor>r\<rfloor>\<bar> < 10 ^ 21 then Some (itoa \<lfloor>r\<rfloor>) else None)"
| "json_any (AStr s) = Some (json_string s)"
| "json_any (AMap m) =
     (case opt_all (map (\<lambda>(k, v). map_option (\<lambda>j. (k, j)) (json_any v)) m) of
        None \<Rightarrow> None
      | Some kvs \<Rightarrow> Some (''{'' @ join '','' (map (\<lambda>(k, j). json_string k @ '':'' @ j)
                           (sort_key fst kvs)) @ ''}''))"
| "json_any (ABsonM m) =
     (case opt_all (map (\<lambda>(k, v). map_option (\<lambda>j. (k, j)) (json_any v)) m) of
        None \<Rightarrow> None
      | Some kvs \<Rightarrow> Some (''{'' @ join '','' (map (\<lambda>(k, j). json_string k @ '':'' @ j)
                           (sort_key fst kvs)) @ ''}''))"
| "json_any (ASlice xs) =
     map_option (\<lambda>js. ''['' @ join '','' js @ '']'') (opt_all (map json_any xs))"
| "json_any (ABsonA xs) =
     map_option (\<lambda>js. ''['' @ join '','' js @ '']'') (opt_all (map json_any xs))"
| "json_any (APtr None) = Some ''null''"
| "json_any (APtr (Some v)) = json_any v"
| "json_any (AStrs ss) = Some (''['' @ join '','' (map json_string ss) @ '']'')"

definition json_field :: "string \<Rightarrow> string \<Rightarrow> string" where
  "json_field k j = json_string k @ '':'' @ j"

text \<open>The struct tags of \<open>ErrorBody\<close> and \<open>Envelope\<close>: field order, names, \<open>omitempty\<close>.\<close>

definition json_error_body :: "error_body \<Rightarrow> string option" where
  "json_error_body b =
     (let base = [json_field ''code'' (json_string (eb_code b)),
                  json_field ''message'' (json_string (eb_message b))] in
      if eb_details b = ANil then Some (''{'' @ join '','' base @ ''}'')
      else map_option (\<lambda>d. ''{'' @ join '','' (base @ [json_field ''details'' d]) @ ''}'')
             (json_any (eb_details b)))"

definition json_optional :: "string \<Rightarrow> any \<Rightarrow> string list option" where
  "json_optional k v =
     (if v = ANil then Some [] else map_option (\<lambda>j. [json_field k j]) (json_any v))"

definition json_envelope :: "envelope \<Rightarrow> string option" where
  "json_envelope e =
     (case (json_optional ''data'' (env_data e),
            (case env_error e of None \<Rightarrow> Some []
             | Some b \<Rightarrow> map_option (\<lambda>j. [json_field ''error'' j]) (json_error_body b)),
            json_optional ''meta'' (env_meta e)) of
        (Some d, Some er, Some m) \<Rightarrow>
          Some (''{'' @ join '',''
             ([json_field ''success'' (if env_ok e then ''true'' else ''false'')] @ d @ er
              @ (if env_request_id e = [] then []
                 else [json_field ''request_id'' (json_string (env_request_id e))]) @ m) @ ''}'')
      | _ \<Rightarrow> None)"

section \<open>Response writers\<close>

text \<open>
  A response writer is its live header map and the calls made on it, oldest first. A call to
  \<open>WriteHeader\<close> or \<open>Write\<close> keeps the headers it was made with: the first of them fixes
  the status and the headers of the response. The wrapping writers of the policies observe
  the calls their inner handler added.
\<close>

datatype wop =
    OpHeader int headers
  | OpWrite string headers
  | OpFlush

record rw =
  rw_header :: headers
  rw_ops :: "wop list"

definition rw_new :: rw where
  "rw_new = \<lparr>rw_header = [], rw_ops = []\<rparr>"

definition set_header :: "string \<Rightarrow> string \<Rightarrow> rw \<Rightarrow> rw" where
  "set_header k v w = w\<lparr>rw_header := header_set (rw_header w) k v\<rparr>"

definition WriteHeader :: "int \<Rightarrow> rw \<Rightarrow> rw" where
  "WriteHeader n w = w\<lparr>rw_ops := rw_ops w @ [OpHeader n (rw_header w)]\<rparr>"

definition Write :: "string \<Rightarrow> rw \<Rightarrow> rw" where
  "Write bs w = w\<lparr>rw_ops := rw_ops w @ [OpWrite bs (rw_header w)]\<rparr>"

definition Flush :: "rw \<Rightarrow> rw" where
  "Flush w = w\<lparr>rw_ops := rw_ops w @ [OpFlush]\<rparr>"

text \<open>What reaches the client: the status of the first call, 200 when it is not a
  \<open>WriteHeader\<close>, and all the bytes written.\<close>

definition wire_status :: "rw \<Rightarrow> int" where
  "wire_status w = (case rw_ops w of OpHeader n _ # _ \<Rightarrow> n | _ \<Rightarrow> 200)"

definition wire_headers :: "rw \<Rightarrow> headers" where
  "wire_headers w = (case rw_ops w of OpHeader _ h # _ \<Rightarrow> h | OpWrite _ h # _ \<Rightarrow> h
     | _ \<Rightarrow> rw_header w)"

fun op_bytes :: "wop \<Rightarrow> string" where
  "op_bytes (OpWrite bs _) = bs"
| "op_bytes _ = []"

definition wire_body :: "rw \<Rightarrow> string" where
  "wire_body w = concat (map op_bytes (rw_ops w))"

text \<open>\<open>response.JSON\<close>, \<open>response.OK\<close>, \<open>response.Created\<close> and \<open>response.Error\<close>. The
  encoder writes the text and a newline in one call, and nothing when it fails.\<close>

definition newline :: char where "newline = CHR 0x0A"

definition response_json :: "int \<Rightarrow> envelope \<Rightarrow> rw \<Rightarrow> rw" where
  "response_json status payload w =
     (let w1 = set_header ''Content-Type'' ''application/json; charset=utf-8'' w;
          w2 = WriteHeader status w1
      in case json_envelope payload of None \<Rightarrow> w2 | Some j \<Rightarrow> Write (j @ [newline]) w2)"

definition ok_envelope :: "any \<Rightarrow> string \<Rightarrow> envelope" where
  "ok_envelope d rid = \<lparr>env_ok = True, env_data = d, env_error = None, env_request_id = rid,
     env_meta = ANil\<rparr>"

definition error_envelope :: "string \<Rightarrow> string \<Rightarrow> any \<Rightarrow> string \<Rightarrow> envelope" where
  "error_envelope c msg det rid = \<lparr>env_ok = False, env_data = ANil,
     env_error = Some \<lparr>eb_code = c, eb_message = msg, eb_details = det\<rparr>,
     env_request_id = rid, env_meta = ANil\<rparr>"

definition response_ok :: "any \<Rightarrow> string \<Rightarrow> rw \<Rightarrow> rw" where
  "response_ok d rid = response_json 200 (ok_envelope d rid)"

definition response_created :: "any \<Rightarrow> string \<Rightarrow> rw \<Rightarrow> rw" where
  "response_created d rid = response_json 201 (ok_envelope d rid)"

definition error_response :: "err \<Rightarrow> string \<Rightarrow> int \<times> envelope" where
  "error_response e rid =
     (if err_is ''context.DeadlineExceeded'' e
      then (504, error_envelope CodeTimeout ''request timed out'' ANil rid)
      else case as_app_error e of
        Some a \<Rightarrow> (ae_status a, error_envelope (ae_code a) (ae_message a) (ae_details a) rid)
      | None \<Rightarrow> (500, error_envelope CodeInternal ''internal server error'' ANil rid))"

definition response_error :: "err \<Rightarrow> string \<Rightarrow> rw \<Rightarrow> rw" where
  "response_error e rid = response_json (fst (error_response e rid)) (snd (error_response e rid))"

section \<open>Handlers\<close>

datatype 'w outcome = Done rw 'w | Panic string rw 'w

type_synonym 'w handler = "request \<Rightarrow> rw \<Rightarrow> 'w \<Rightarrow> 'w outcome"
type_synonym 'w policy = "'w handler \<Rightarrow> 'w handler"

text \<open>Writing an error and returning, the way every policy stops a request.\<close>

definition reject :: "err \<Rightarrow> 'w handler" where
  "reject e r w s = Done (response_error e (rq_id r) w) s"

fun outcome_rw :: "'w outcome \<Rightarrow> rw" where
  "outcome_rw (Done w s) = w"
| "outcome_rw (Panic m w s) = w"

fun outcome_state :: "'w outcome \<Rightarrow> 'w" where
  "outcome_state (Done w s) = s"
| "outcome_state (Panic m w s) = s"

lemma rw_ops_set_header [simp]: "rw_ops (set_header k v w) = rw_ops w"
  by (simp add: set_header_def)

lemma rw_ops_WriteHeader [simp]: "rw_ops (WriteHeader n w) = rw_ops w @ [OpHeader n (rw_header w)]"
  by (simp add: WriteHeader_def)

lemma rw_ops_Write [simp]: "rw_ops (Write bs w) = rw_ops w @ [OpWrite bs (rw_header w)]"
  by (simp add: Write_def)

lemma rw_header_simps [simp]:
  "rw_header (WriteHeader n w) = rw_header w" "rw_header (Write bs w) = rw_header w"
  "rw_header (set_header k v w) = header_set (rw_header w) k v"
  by (simp_all add: WriteHeader_def Write_def set_header_def)

lemma response_json_ops:
  "\<exists>h bs. rw_ops (response_json st e w) = rw_ops w @ OpHeader st h # bs"
  by (simp add: response_json_def Let_def split: option.splits)

lemma wire_status_response_json [simp]:
  "rw_ops w = [] \<Longrightarrow> wire_status (response_json st e w) = st"
  using response_json_ops [of st e w] by (auto simp: wire_status_def)

lemma wire_status_response_error:
  "rw_ops w = [] \<Longrightarrow> wire_status (response_error e rid w) = fst (error_response e rid)"
  by (simp add: response_error_def)

lemma error_response_app_new [simp]:
  "error_response (app_new c st msg) rid = (st, error_envelope c msg ANil rid)"
  by (simp add: error_response_def)

lemma wire_status_reject_new [simp]:
  "rw_ops w = [] \<Longrightarrow> wire_status (response_error (app_new c st msg) rid w) = st"
  by (simp add: wire_status_response_error)

lemma json_envelope_error_defined:
  "json_envelope (error_envelope c msg ANil rid) \<noteq> None"
  by (simp add: json_envelope_def error_envelope_def json_error_body_def json_optional_def Let_def)

end
