(* ===== verification/Artifact_Dto.thy ===== *)
theory Artifact_Dto
  imports Patchx Pagination Project_Tables Http
begin

text \<open>
  The requests and responses of the artifacts module (\<open>internal/modules/artifacts/dto.go\<close>): the
  statuses and the field rules of the six kinds of artifact, the validation of requests, slugs, query
  parameters, and the decoding of the repository's documents into the items of a list.
\<close>

section \<open>Statuses\<close>

text \<open>A \<open>map[string]struct{}\<close> is the list of its keys.\<close>

definition storyStatuses :: "string list" where
  "storyStatuses = [''Draft'', ''Locked'', ''Archived'']"

definition journeyStatuses :: "string list" where
  "journeyStatuses = [''Draft'', ''Locked'', ''Archived'']"

definition problemStatuses :: "string list" where
  "problemStatuses = [''Draft'', ''Locked'', ''Archived'']"

definition ideaStatuses :: "string list" where
  "ideaStatuses = [''Considered'', ''Selected'', ''Rejected'', ''Archived'']"

definition taskStatuses :: "string list" where
  "taskStatuses = [''Planned'', ''In Progress'', ''Completed'', ''Abandoned'']"

definition feedbackStatuses :: "string list" where
  "feedbackStatuses = [''Active'', ''Archived'']"

definition feedbackOutcomes :: "string list" where
  "feedbackOutcomes = [''Validated'', ''Invalidated'', ''Needs Iteration'']"

definition artifactTypeMap :: "(string \<times> string) list" where
  "artifactTypeMap =
     [(''story'', ''story''), (''stories'', ''story''), (''user story'', ''story''), (''user stories'', ''story''),
      (''journey'', ''journey''), (''journeys'', ''journey''), (''user journey'', ''journey''), (''user journeys'', ''journey''),
      (''problem'', ''problem''), (''problems'', ''problem''), (''problem statement'', ''problem''),
      (''idea'', ''idea''), (''ideas'', ''idea''), (''task'', ''task''), (''tasks'', ''task''), (''feedback'', ''feedback'')]"

section \<open>Field rules\<close>

definition nullable :: "string list \<Rightarrow> field_rules" where
  "nullable names = map (\<lambda>n. (n, null_rule)) names"

definition personaPatchRules :: field_rules where
  "personaPatchRules = nullable [''name'', ''bio'', ''role'', ''age'', ''job'', ''edu'']"

definition empathyPatchRules :: field_rules where
  "empathyPatchRules = nullable [''says'', ''thinks'', ''does'', ''feels'']"

definition storyPatchRules :: field_rules where
  "storyPatchRules =
     [(''title'', null_rule), (''description'', null_rule), (''status'', plain_rule), (''persona'', object_rule personaPatchRules),
      (''context'', null_rule), (''empathyMap'', object_rule empathyPatchRules), (''painPoints'', null_rule),
      (''hypothesis'', null_rule), (''addOnSections'', null_rule), (''notes'', null_rule)]"

definition journeyPatchRules :: field_rules where
  "journeyPatchRules =
     [(''title'', null_rule), (''description'', null_rule), (''status'', plain_rule), (''persona'', object_rule personaPatchRules),
      (''context'', null_rule), (''stages'', null_rule), (''notes'', null_rule)]"

definition problemPatchRules :: field_rules where
  "problemPatchRules =
     [(''title'', null_rule), (''description'', null_rule), (''status'', plain_rule), (''finalStatement'', null_rule),
      (''orphanAcknowledged'', null_rule), (''selectedPainPoints'', null_rule), (''customPainPoints'', null_rule),
      (''linkedSources'', null_rule), (''activeModules'', null_rule), (''moduleContent'', any_object_rule),
      (''notesText'', null_rule), (''notes'', null_rule)]"

definition ideaPatchRules :: field_rules where
  "ideaPatchRules =
     [(''title'', null_rule), (''description'', null_rule), (''status'', plain_rule), (''summary'', null_rule),
      (''summaryTitle'', null_rule), (''summaryDescription'', null_rule), (''notes'', null_rule), (''notesText'', null_rule),
      (''selectedProblemId'', null_rule), (''activeModules'', null_rule), (''moduleContent'', any_object_rule)]"

definition taskPatchRules :: field_rules where
  "taskPatchRules =
     [(''title'', null_rule), (''status'', plain_rule), (''assignedToId'', null_rule), (''assignedToIds'', null_rule),
      (''selectedIdeaId'', null_rule), (''deadline'', null_rule), (''hypothesis'', null_rule), (''planItems'', null_rule),
      (''executionLinks'', null_rule), (''notes'', null_rule), (''notesText'', null_rule), (''activeModules'', null_rule),
      (''abandonReason'', null_rule), (''hasFeedback'', null_rule)]"

definition feedbackPatchRules :: field_rules where
  "feedbackPatchRules =
     [(''title'', null_rule), (''description'', null_rule), (''status'', plain_rule), (''outcome'', plain_rule),
      (''isArchived'', null_rule), (''linkedArtifacts'', null_rule), (''activeModules'', null_rule),
      (''moduleContent'', any_object_rule), (''notes'', null_rule), (''notesText'', null_rule), (''observation'', null_rule),
      (''interpretation'', null_rule), (''evidenceText'', null_rule), (''evidenceLocked'', null_rule), (''nextStepsText'', null_rule)]"

section \<open>List queries\<close>

record list_query =
  lq_status :: string
  lq_outcome :: string
  lq_offset :: int
  lq_limit :: int

definition maxListLimit :: int where
  "maxListLimit = 50"

definition parseOptionalIntQuery :: "string \<Rightarrow> int \<Rightarrow> string \<Rightarrow> err + int" where
  "parseOptionalIntQuery raw fallback name =
     (let trimmed = trim_space raw in
      if trimmed = [] then Inr fallback
      else case parse_int trimmed of
        None \<Rightarrow> Inl (bad_request (name @ '' must be an integer''))
      | Some n \<Rightarrow> if n < 0 then Inl (bad_request (name @ '' must be non-negative'')) else Inr n)"

definition normalizeLimit :: "int \<Rightarrow> int" where
  "normalizeLimit limit = (if limit \<le> 0 then 20 else if limit > maxListLimit then maxListLimit else limit)"

section \<open>Statuses of a request\<close>

text \<open>The loop over the candidates takes them in any order; the statuses of one kind differ in more than
  case, so at most one candidate matches.\<close>

definition normalizeAllowedStatus :: "string list \<Rightarrow> string \<Rightarrow> string option" where
  "normalizeAllowedStatus allowed raw =
     (let trimmed = trim_space raw in
      if trimmed = [] then None
      else if trimmed \<in> set allowed then Some trimmed
      else find (\<lambda>candidate. equal_fold candidate trimmed) allowed)"

definition normalizeArtifactType :: "string \<Rightarrow> string option" where
  "normalizeArtifactType raw = map_of artifactTypeMap (to_lower (trim_space raw))"

section \<open>Slugs\<close>

definition slug_char :: "char \<Rightarrow> bool" where
  "slug_char c \<longleftrightarrow> (let k = of_char c :: nat in 97 \<le> k \<and> k \<le> 122 \<or> 48 \<le> k \<and> k \<le> 57)"

text \<open>Every maximal run of other characters becomes one dash.\<close>

fun dash_runs :: "bool \<Rightarrow> string \<Rightarrow> string" where
  "dash_runs inside [] = []"
| "dash_runs inside (c # s) =
     (if slug_char c then c # dash_runs False s
      else if inside then dash_runs True s else CHR ''-'' # dash_runs True s)"

definition trim_dashes :: "string \<Rightarrow> string" where
  "trim_dashes s = rev (dropWhile (\<lambda>c. c = CHR ''-'') (rev (dropWhile (\<lambda>c. c = CHR ''-'') s)))"

definition slugify :: "string \<Rightarrow> string" where
  "slugify raw =
     (let trimmed = to_lower (trim_space raw) in
      if trimmed = [] then ''artifact''
      else let slug = trim_dashes (dash_runs False trimmed) in
        if slug = [] then ''artifact''
        else if length slug > 96
        then (let slug = trim_dashes (take 96 slug) in if slug = [] then ''artifact'' else slug)
        else slug)"

section \<open>Requests\<close>

definition required_text :: "string \<Rightarrow> string \<Rightarrow> err option" where
  "required_text name value = (if trim_space value = [] then Some (bad_request (name @ '' is required'')) else None)"

definition createStoryRequest_Validate :: "string \<Rightarrow> err option" where
  "createStoryRequest_Validate title = required_text ''title'' title"

definition createJourneyRequest_Validate :: "string \<Rightarrow> err option" where
  "createJourneyRequest_Validate title = required_text ''title'' title"

definition createProblemRequest_Validate :: "string \<Rightarrow> err option" where
  "createProblemRequest_Validate statement = required_text ''statement'' statement"

definition createIdeaRequest_Validate :: "string \<Rightarrow> err option" where
  "createIdeaRequest_Validate title = required_text ''title'' title"

definition createTaskRequest_Validate :: "string \<Rightarrow> err option" where
  "createTaskRequest_Validate title = required_text ''title'' title"

definition createFeedbackRequest_Validate :: "string \<Rightarrow> err option" where
  "createFeedbackRequest_Validate title = required_text ''title'' title"

definition validatePatchPayload :: "amap \<Rightarrow> field_rules \<Rightarrow> string \<Rightarrow> err option" where
  "validatePatchPayload payload rules payloadName =
     map_option (\<lambda>e. bad_request (payloadName @ '' contains '' @ e)) (ValidatePatch (Some payload) rules)"

text \<open>Validating an update puts the status in its canonical spelling; the map of the request is changed
  in place, so the result is the map that the service goes on with.\<close>

definition canonical_field :: "string \<Rightarrow> string list \<Rightarrow> string \<Rightarrow> amap \<Rightarrow> err + amap" where
  "canonical_field key allowed message payload =
     (let value = toString (mget payload key) in
      if value = [] then Inr payload
      else case normalizeAllowedStatus allowed value of
        None \<Rightarrow> Inl (bad_request message)
      | Some canonical \<Rightarrow> Inr (AList.update key (AStr canonical) payload))"

definition checked_payload :: "string \<Rightarrow> field_rules \<Rightarrow> string \<Rightarrow> amap option \<Rightarrow> err + amap" where
  "checked_payload required rules payloadName payload =
     (case payload of None \<Rightarrow> Inl (bad_request (required @ '' payload is required''))
      | Some m \<Rightarrow> (case validatePatchPayload m rules payloadName of Some e \<Rightarrow> Inl e | None \<Rightarrow> Inr m))"

definition updateStoryRequest_Validate :: "amap option \<Rightarrow> err + amap" where
  "updateStoryRequest_Validate story =
     sum_bind (checked_payload ''story'' storyPatchRules ''story'' story)
       (canonical_field ''status'' storyStatuses ''invalid story status'')"

definition updateJourneyRequest_Validate :: "amap option \<Rightarrow> err + amap" where
  "updateJourneyRequest_Validate journey =
     sum_bind (checked_payload ''journey'' journeyPatchRules ''journey'' journey)
       (canonical_field ''status'' journeyStatuses ''invalid journey status'')"

definition updateProblemRequest_Validate :: "amap option \<Rightarrow> err + amap" where
  "updateProblemRequest_Validate state =
     sum_bind (checked_payload ''state'' problemPatchRules ''problem state'' state)
       (canonical_field ''status'' problemStatuses ''invalid problem status'')"

definition updateIdeaRequest_Validate :: "amap option \<Rightarrow> err + amap" where
  "updateIdeaRequest_Validate state =
     sum_bind (checked_payload ''state'' ideaPatchRules ''idea state'' state)
       (canonical_field ''status'' ideaStatuses ''invalid idea status'')"

definition updateTaskRequest_Validate :: "amap option \<Rightarrow> err + amap" where
  "updateTaskRequest_Validate state =
     sum_bind (checked_payload ''state'' taskPatchRules ''task state'' state)
       (canonical_field ''status'' taskStatuses ''invalid task status'')"

definition updateFeedbackRequest_Validate :: "amap option \<Rightarrow> err + amap" where
  "updateFeedbackRequest_Validate state =
     sum_bind (sum_bind (checked_payload ''state'' feedbackPatchRules ''feedback state'' state)
       (canonical_field ''status'' feedbackStatuses ''invalid feedback status''))
       (canonical_field ''outcome'' feedbackOutcomes ''invalid feedback outcome'')"

section \<open>Responses\<close>

record artifact_metadata =
  am_owner :: string
  am_created_by :: string
  am_created_at :: string
  am_last_edited_by :: string
  am_last_edited_at :: string
  am_last_updated :: string

definition decodeArtifactMetadata :: "amap \<Rightarrow> artifact_metadata" where
  "decodeArtifactMetadata raw = \<lparr>am_owner = toString (mget raw ''owner''), am_created_by = toString (mget raw ''createdBy''),
     am_created_at = toString (mget raw ''createdAt''), am_last_edited_by = toString (mget raw ''lastEditedBy''),
     am_last_edited_at = toString (mget raw ''lastEditedAt''),
     am_last_updated = toString (mget raw ''lastUpdated'')\<rparr>"

record story_list_item =
  sl_id :: string
  sl_title :: string
  sl_persona_name :: string
  sl_pain_points_count :: int
  sl_problem_hypotheses_count :: int
  sl_owner :: string
  sl_last_updated :: string
  sl_status :: string
  sl_is_orphan :: bool

definition decodeStoryListItem :: "amap \<Rightarrow> story_list_item" where
  "decodeStoryListItem raw = \<lparr>sl_id = toString (mget raw ''id''), sl_title = toString (mget raw ''title''),
     sl_persona_name = toString (mget raw ''personaName''),
     sl_pain_points_count = toInt (mget raw ''painPointsCount''),
     sl_problem_hypotheses_count = toInt (mget raw ''problemHypothesesCount''),
     sl_owner = toString (mget raw ''owner''), sl_last_updated = toString (mget raw ''lastUpdated''),
     sl_status = toString (mget raw ''status''), sl_is_orphan = toBool (mget raw ''isOrphan'')\<rparr>"

record journey_list_item =
  jl_id :: string
  jl_title :: string
  jl_linked_personas :: "string list"
  jl_stages_count :: int
  jl_pain_points_count :: int
  jl_owner :: string
  jl_last_updated :: string
  jl_status :: string
  jl_is_orphan :: bool

definition decodeJourneyListItem :: "amap \<Rightarrow> journey_list_item" where
  "decodeJourneyListItem raw = \<lparr>jl_id = toString (mget raw ''id''), jl_title = toString (mget raw ''title''),
     jl_linked_personas = toStringSlice (mget raw ''linkedPersonas''),
     jl_stages_count = toInt (mget raw ''stagesCount''),
     jl_pain_points_count = toInt (mget raw ''painPointsCount''), jl_owner = toString (mget raw ''owner''),
     jl_last_updated = toString (mget raw ''lastUpdated''), jl_status = toString (mget raw ''status''),
     jl_is_orphan = toBool (mget raw ''isOrphan'')\<rparr>"

record problem_list_item =
  pl_id :: string
  pl_statement :: string
  pl_linked_sources :: "string list"
  pl_pain_points_count :: int
  pl_ideas_count :: int
  pl_status :: string
  pl_owner :: string
  pl_last_updated :: string
  pl_is_orphan :: bool

definition decodeProblemListItem :: "amap \<Rightarrow> problem_list_item" where
  "decodeProblemListItem raw = \<lparr>pl_id = toString (mget raw ''id''), pl_statement = toString (mget raw ''statement''),
     pl_linked_sources = toStringSlice (mget raw ''linkedSources''),
     pl_pain_points_count = toInt (mget raw ''painPointsCount''),
     pl_ideas_count = toInt (mget raw ''ideasCount''), pl_status = toString (mget raw ''status''),
     pl_owner = toString (mget raw ''owner''), pl_last_updated = toString (mget raw ''lastUpdated''),
     pl_is_orphan = toBool (mget raw ''isOrphan'')\<rparr>"

record idea_list_item =
  il_id :: string
  il_title :: string
  il_linked_problem_statement :: string
  il_persona :: string
  il_status :: string
  il_tasks_count :: int
  il_owner :: string
  il_last_updated :: string
  il_linked_problem_locked :: bool
  il_is_orphan :: bool

definition decodeIdeaListItem :: "amap \<Rightarrow> idea_list_item" where
  "decodeIdeaListItem raw = \<lparr>il_id = toString (mget raw ''id''), il_title = toString (mget raw ''title''),
     il_linked_problem_statement = toString (mget raw ''linkedProblemStatement''),
     il_persona = toString (mget raw ''persona''), il_status = toString (mget raw ''status''),
     il_tasks_count = toInt (mget raw ''tasksCount''), il_owner = toString (mget raw ''owner''),
     il_last_updated = toString (mget raw ''lastUpdated''),
     il_linked_problem_locked = toBool (mget raw ''linkedProblemLocked''),
     il_is_orphan = toBool (mget raw ''isOrphan'')\<rparr>"

record task_list_item =
  tl_id :: string
  tl_title :: string
  tl_linked_idea :: string
  tl_linked_problem_statement :: string
  tl_persona :: string
  tl_owner :: string
  tl_deadline :: string
  tl_last_updated :: string
  tl_status :: string
  tl_idea_rejected :: bool
  tl_has_feedback :: bool
  tl_is_orphan :: bool

definition decodeTaskListItem :: "amap \<Rightarrow> task_list_item" where
  "decodeTaskListItem raw = \<lparr>tl_id = toString (mget raw ''id''), tl_title = toString (mget raw ''title''),
     tl_linked_idea = toString (mget raw ''linkedIdea''),
     tl_linked_problem_statement = toString (mget raw ''linkedProblemStatement''),
     tl_persona = toString (mget raw ''persona''), tl_owner = toString (mget raw ''owner''),
     tl_deadline = toString (mget raw ''deadline''), tl_last_updated = toString (mget raw ''lastUpdated''),
     tl_status = toString (mget raw ''status''), tl_idea_rejected = toBool (mget raw ''ideaRejected''),
     tl_has_feedback = toBool (mget raw ''hasFeedback''), tl_is_orphan = toBool (mget raw ''isOrphan'')\<rparr>"

record feedback_list_item =
  fl_id :: string
  fl_title :: string
  fl_linked_artifacts :: "string list"
  fl_outcome :: string
  fl_linked_task_or_idea :: string
  fl_owner :: string
  fl_created_date :: string
  fl_has_task_link :: bool
  fl_is_orphan :: bool

definition decodeFeedbackListItem :: "amap \<Rightarrow> feedback_list_item" where
  "decodeFeedbackListItem raw = \<lparr>fl_id = toString (mget raw ''id''), fl_title = toString (mget raw ''title''),
     fl_linked_artifacts = toStringSlice (mget raw ''linkedArtifacts''),
     fl_outcome = toString (mget raw ''outcome''),
     fl_linked_task_or_idea = toString (mget raw ''linkedTaskOrIdea''), fl_owner = toString (mget raw ''owner''),
     fl_created_date = toString (mget raw ''createdDate''), fl_has_task_link = toBool (mget raw ''hasTaskLink''),
     fl_is_orphan = toBool (mget raw ''isOrphan'')\<rparr>"

text \<open>The list responses: the items and the cursor of the next window, if there is one.\<close>

record 'a list_response =
  ls_items :: "'a list"
  ls_next_cursor :: "string option"

text \<open>\<open>toRawJSON\<close>: the printed value, or the fallback for nil and for what cannot be printed.\<close>

definition toRawJSON :: "any \<Rightarrow> string \<Rightarrow> string" where
  "toRawJSON v fallback =
     (if v = ANil then fallback
      else case json_any v of None \<Rightarrow> fallback | Some bytes \<Rightarrow> if bytes = [] then fallback else bytes)"

record story_page =
  sp_id :: string
  sp_title :: string
  sp_status :: string
  sp_owner :: string
  sp_last_updated :: string

record journey_page =
  jp_id :: string
  jp_title :: string
  jp_status :: string
  jp_owner :: string
  jp_last_updated :: string

record problem_page =
  pp_id :: string
  pp_statement :: string
  pp_title :: string
  pp_status :: string
  pp_owner :: string
  pp_last_updated :: string

record idea_page =
  ip_id :: string
  ip_title :: string
  ip_status :: string
  ip_owner :: string
  ip_last_updated :: string

record task_page =
  tp_id :: string
  tp_title :: string
  tp_status :: string
  tp_owner :: string
  tp_deadline :: string
  tp_last_updated :: string

record feedback_page =
  fp_id :: string
  fp_title :: string
  fp_outcome :: string
  fp_status :: string
  fp_owner :: string
  fp_created_date :: string
  fp_last_updated :: string

record story_page_response =
  spr_story :: story_page
  spr_metadata :: artifact_metadata
  spr_detail :: string
  spr_add_on_catalog :: string
  spr_add_on_sections :: string
  spr_reference :: string

record journey_page_response =
  jpr_journey :: journey_page
  jpr_metadata :: artifact_metadata
  jpr_detail :: string
  jpr_emotion_options :: "string list"
  jpr_reference :: string

record problem_page_response =
  ppr_problem :: problem_page
  ppr_metadata :: artifact_metadata
  ppr_detail :: string
  ppr_reference :: string

record idea_page_response =
  ipr_idea :: idea_page
  ipr_detail :: string
  ipr_reference :: string

record task_page_response =
  tpr_task :: task_page
  tpr_detail :: string
  tpr_reference :: string

record feedback_page_response =
  fpr_feedback :: feedback_page
  fpr_metadata :: artifact_metadata
  fpr_detail :: string
  fpr_reference :: string

end
