(* ===== verification/Artifact_Service.thy ===== *)
theory Artifact_Service
  imports Artifact_Dto
begin

text \<open>
  The service of the artifacts module (\<open>internal/modules/artifacts/service.go\<close>): lists, creation, pages and
  updates of stories, journeys, problems, ideas, tasks and feedback over the interface \<open>Repo\<close>, with
  the status transitions of each kind and the rule that a settled artifact takes archive and restore
  operations only. A write runs in a transaction of the relational store.
\<close>

section \<open>The repository\<close>

text \<open>The methods of \<open>Repo\<close> for one kind of artifact: list, create, get and update.\<close>

record 's kind_repo =
  kr_list :: "string \<Rightarrow> list_query \<Rightarrow> ('s, amap list) eff"
  kr_create :: "string \<Rightarrow> string \<Rightarrow> string \<Rightarrow> amap option \<Rightarrow> ('s, amap) eff"
  kr_get :: "string \<Rightarrow> string \<Rightarrow> ('s, amap) eff"
  kr_update :: "string \<Rightarrow> string \<Rightarrow> string \<Rightarrow> amap \<Rightarrow> ('s, amap) eff"

record 's artifact_repo =
  rp_stories :: "'s kind_repo"
  rp_journeys :: "'s kind_repo"
  rp_problems :: "'s kind_repo"
  rp_ideas :: "'s kind_repo"
  rp_tasks :: "'s kind_repo"
  rp_feedback :: "'s kind_repo"

section \<open>Shared steps\<close>

definition mapServiceError :: "string \<Rightarrow> err \<Rightarrow> err" where
  "mapServiceError action e =
     (case app_node e of Some ae \<Rightarrow> ae
      | None \<Rightarrow> with_cause (app_new CodeInternal 500 ''failed to process artifacts request'') (EWrap action [e]))"

definition paginateCursor :: "nat \<Rightarrow> list_query \<Rightarrow> string option" where
  "paginateCursor itemCount query =
     (if int itemCount \<le> lq_limit query then None
      else Some (EncodeOffsetCursor (wrap64 (lq_offset query + lq_limit query))))"

definition nestedString :: "amap \<Rightarrow> string \<Rightarrow> string \<Rightarrow> string" where
  "nestedString payload key field =
     (case toMap (mget payload key) of None \<Rightarrow> [] | Some obj \<Rightarrow> toString (mget obj field))"

type_synonym transitions = "(string \<times> string list) list"

definition isAllowedTransition :: "string \<Rightarrow> string \<Rightarrow> transitions \<Rightarrow> bool" where
  "isAllowedTransition old new matrix =
     (let trimmedFrom = trim_space old; trimmedTo = trim_space new in
      if trimmedFrom = [] \<or> trimmedTo = [] then False
      else case map_of matrix trimmedFrom of None \<Rightarrow> False | Some allowed \<Rightarrow> trimmedTo \<in> set allowed)"

definition isImmutableStatus :: "string \<Rightarrow> string list \<Rightarrow> bool" where
  "isImmutableStatus status immutableStatuses =
     (let trimmed = trim_space status in if trimmed = [] then False else trimmed \<in> set immutableStatuses)"

definition immutableStateError :: "string \<Rightarrow> string \<Rightarrow> err" where
  "immutableStateError entity status =
     bad_request (trim_space entity @ '' in status '' @ go_quote (trim_space status)
       @ '' is immutable; only archive or restore status operation is allowed'')"

definition isArchiveOnlyPatch :: "amap \<Rightarrow> bool" where
  "isArchiveOnlyPatch patch \<longleftrightarrow>
     (if length patch \<noteq> 1 then False
      else equal_fold (trim_space (toString (mget patch ''status''))) ''Archived'')"

definition isRestoreOnlyPatch :: "string \<Rightarrow> amap \<Rightarrow> bool" where
  "isRestoreOnlyPatch old patch \<longleftrightarrow>
     (if \<not> equal_fold (trim_space old) ''Archived'' then False
      else if length patch \<noteq> 1 then False
      else let status = trim_space (toString (mget patch ''status''))
           in status \<noteq> [] \<and> \<not> equal_fold status ''Archived'')"

definition enforceArchiveOnlyForImmutableUpdate :: "string \<Rightarrow> string \<Rightarrow> amap \<Rightarrow> string list \<Rightarrow> err option" where
  "enforceArchiveOnlyForImmutableUpdate entity old patch immutableStatuses =
     (if \<not> isImmutableStatus old immutableStatuses then None
      else if isArchiveOnlyPatch patch then None
      else if isRestoreOnlyPatch old patch then None
      else Some (immutableStateError entity old))"

definition enforceArchiveOnlyForImmutableStatusChange :: "string \<Rightarrow> string \<Rightarrow> string \<Rightarrow> string list \<Rightarrow> err option" where
  "enforceArchiveOnlyForImmutableStatusChange entity old new immutableStatuses =
     (if \<not> isImmutableStatus old immutableStatuses then None
      else if equal_fold (trim_space old) ''Archived'' \<and> \<not> equal_fold (trim_space new) ''Archived'' then None
      else if equal_fold (trim_space new) ''Archived'' then None
      else Some (immutableStateError entity old))"

text \<open>The check of the status of a patch against a matrix.\<close>

definition transition_error :: "string \<Rightarrow> string \<Rightarrow> transitions \<Rightarrow> amap \<Rightarrow> err option" where
  "transition_error entity old matrix patch =
     (let status = toString (mget patch ''status'') in
      if status \<noteq> [] \<and> \<not> isAllowedTransition old status matrix
      then Some (bad_request (''invalid '' @ entity @ '' status transition'')) else None)"

text \<open>A write in a transaction, its errors mapped.\<close>

definition in_tx :: "string \<Rightarrow> (('d, 'z) session_scheme, 'a) eff \<Rightarrow> (('d, 'z) session_scheme, 'a) eff" where
  "in_tx action m = eff_map_err (mapServiceError action) (WithTx m)"

text \<open>A list answers with at most the limit of the query; the repository hands over one item more when
  there are more.\<close>

definition list_items :: "string \<Rightarrow> (amap \<Rightarrow> 'a) \<Rightarrow> ('s, amap list) eff \<Rightarrow> list_query \<Rightarrow> ('s, 'a list_response) eff" where
  "list_items action decode items query =
     eff_bind (eff_map_err (mapServiceError action) items) (\<lambda>items.
       let out = map decode items; nextCursor = paginateCursor (length out) query in
       eff_ret \<lparr>ls_items = (if nextCursor \<noteq> None then take (nat (lq_limit query)) out else out),
         ls_next_cursor = nextCursor\<rparr>)"

definition create_item ::
  "string \<Rightarrow> (amap \<Rightarrow> 'a) \<Rightarrow> err option \<Rightarrow> (('d, 'z) session_scheme, amap) eff \<Rightarrow> (('d, 'z) session_scheme, 'a) eff" where
  "create_item action decode invalid create =
     eff_bind (check invalid) (\<lambda>_. eff_bind (in_tx action create) (\<lambda>created. eff_ret (decode created)))"

definition authentication_required :: err where
  "authentication_required = app_new CodeUnauthorized 401 ''authentication required''"

definition actor_error :: "string \<Rightarrow> err option" where
  "actor_error actorUserID = (if trim_space actorUserID = [] then Some authentication_required else None)"

definition or_error :: "err option \<Rightarrow> err option \<Rightarrow> err option" where
  "or_error a b = (case a of Some e \<Rightarrow> Some e | None \<Rightarrow> b)"

text \<open>The page of an artifact reads its objects with \<open>toMap\<close>; a missing one counts as empty.\<close>

definition object_of :: "amap \<Rightarrow> string \<Rightarrow> amap" where
  "object_of item key = (case toMap (mget item key) of None \<Rightarrow> [] | Some m \<Rightarrow> m)"

text \<open>An update: validate, load, check the patch against the loaded status, write.\<close>

definition update_item ::
  "string \<Rightarrow> (amap \<Rightarrow> 'a) \<Rightarrow> err + amap \<Rightarrow> (('d, 'z) session_scheme, amap) eff \<Rightarrow> (amap \<Rightarrow> amap \<Rightarrow> err option)
     \<Rightarrow> (amap \<Rightarrow> (('d, 'z) session_scheme, amap) eff) \<Rightarrow> (('d, 'z) session_scheme, 'a) eff" where
  "update_item entity decode validated load refused update =
     eff_bind (eff_lift validated) (\<lambda>patch.
     eff_bind (eff_map_err (mapServiceError (''load '' @ entity @ '' before update'')) load) (\<lambda>current.
     eff_bind (check (refused current patch)) (\<lambda>_.
     eff_bind (in_tx (''update '' @ entity) (update patch)) (\<lambda>updated. eff_ret (decode updated)))))"

section \<open>Statuses\<close>

definition storyImmutableStatuses :: "string list" where
  "storyImmutableStatuses = [''Locked'', ''Archived'']"

definition journeyImmutableStatuses :: "string list" where
  "journeyImmutableStatuses = [''Locked'', ''Archived'']"

definition problemImmutableStatuses :: "string list" where
  "problemImmutableStatuses = [''Locked'', ''Archived'']"

definition ideaImmutableStatuses :: "string list" where
  "ideaImmutableStatuses = [''Selected'', ''Rejected'', ''Archived'']"

definition taskImmutableStatuses :: "string list" where
  "taskImmutableStatuses = [''Completed'', ''Abandoned'']"

definition story_transitions :: transitions where
  "story_transitions =
     [(''Draft'', [''Draft'', ''Locked'', ''Archived'']), (''Locked'', [''Locked'', ''Archived'']),
      (''Archived'', [''Archived'', ''Draft'', ''Locked''])]"

definition journey_transitions :: transitions where
  "journey_transitions =
     [(''Draft'', [''Draft'', ''Locked'', ''Archived'']), (''Locked'', [''Locked'', ''Archived'']),
      (''Archived'', [''Archived'', ''Draft'', ''Locked''])]"

definition problem_transitions :: transitions where
  "problem_transitions =
     [(''Draft'', [''Draft'', ''Locked'', ''Archived'']), (''Locked'', [''Locked'', ''Archived'']),
      (''Archived'', [''Archived'', ''Draft'', ''Locked''])]"

definition idea_transitions :: transitions where
  "idea_transitions =
     [(''Considered'', [''Considered'', ''Selected'', ''Rejected'', ''Archived'']), (''Selected'', [''Selected'', ''Rejected'', ''Archived'']),
      (''Rejected'', [''Rejected'', ''Archived'']), (''Archived'', [''Archived'', ''Considered'', ''Selected'', ''Rejected''])]"

definition task_transitions :: transitions where
  "task_transitions =
     [(''Planned'', [''Planned'', ''In Progress'', ''Abandoned'']), (''In Progress'', [''In Progress'', ''Completed'', ''Abandoned'']),
      (''Completed'', [''Completed'']), (''Abandoned'', [''Abandoned''])]"

definition feedback_transitions :: transitions where
  "feedback_transitions =
     [(''Active'', [''Active'', ''Archived'']), (''Archived'', [''Archived'', ''Active''])]"

section \<open>Stories\<close>

definition ListStories :: "'s artifact_repo \<Rightarrow> string \<Rightarrow> list_query \<Rightarrow> ('s, story_list_item list_response) eff" where
  "ListStories r projectID query = list_items ''list stories'' decodeStoryListItem (kr_list (rp_stories r) projectID query) query"

definition CreateStory ::
  "('d, 'z) session_scheme artifact_repo \<Rightarrow> string \<Rightarrow> string \<Rightarrow> string \<Rightarrow> (('d, 'z) session_scheme, story_list_item) eff" where
  "CreateStory r projectID actorUserID title =
     create_item ''create story'' decodeStoryListItem (or_error (createStoryRequest_Validate title) (actor_error actorUserID))
       (kr_create (rp_stories r) projectID actorUserID title None)"

definition GetStory :: "'s artifact_repo \<Rightarrow> string \<Rightarrow> string \<Rightarrow> ('s, story_page_response) eff" where
  "GetStory r projectID storyID =
     eff_bind (eff_map_err (mapServiceError ''get story'') (kr_get (rp_stories r) projectID storyID)) (\<lambda>item.
       let raw = object_of item ''story'';
         page = \<lparr>sp_id = toString (mget raw ''id''), sp_title = toString (mget raw ''title''),
           sp_status = toString (mget raw ''status''), sp_owner = toString (mget raw ''owner''),
           sp_last_updated = toString (mget raw ''lastUpdated'')\<rparr> in
       eff_ret \<lparr>spr_story = page, spr_metadata = decodeArtifactMetadata (object_of item ''metadata''),
         spr_detail = toRawJSON (mget item ''detail'') ''{}'',
         spr_add_on_catalog = toRawJSON (mget item ''addOnCatalog'') ''[]'',
         spr_add_on_sections = toRawJSON (mget item ''addOnSections'') ''[]'',
         spr_reference = toRawJSON (mget item ''reference'') ''{}''\<rparr>)"

definition UpdateStory ::
  "('d, 'z) session_scheme artifact_repo \<Rightarrow> string \<Rightarrow> string \<Rightarrow> string \<Rightarrow> amap option \<Rightarrow> (('d, 'z) session_scheme, story_list_item) eff" where
  "UpdateStory r projectID storyID actorUserID story =
     update_item ''story'' decodeStoryListItem (updateStoryRequest_Validate story)
       (kr_get (rp_stories r) projectID storyID)
       (\<lambda>current patch. let old = nestedString current ''story'' ''status'' in
          or_error (enforceArchiveOnlyForImmutableUpdate ''story'' old patch storyImmutableStatuses)
            (transition_error ''story'' old story_transitions patch))
       (\<lambda>patch. kr_update (rp_stories r) projectID storyID actorUserID patch)"

section \<open>Journeys\<close>

definition ListJourneys :: "'s artifact_repo \<Rightarrow> string \<Rightarrow> list_query \<Rightarrow> ('s, journey_list_item list_response) eff" where
  "ListJourneys r projectID query = list_items ''list journeys'' decodeJourneyListItem (kr_list (rp_journeys r) projectID query) query"

definition CreateJourney ::
  "('d, 'z) session_scheme artifact_repo \<Rightarrow> string \<Rightarrow> string \<Rightarrow> string \<Rightarrow> (('d, 'z) session_scheme, journey_list_item) eff" where
  "CreateJourney r projectID actorUserID title =
     create_item ''create journey'' decodeJourneyListItem (or_error (createJourneyRequest_Validate title) (actor_error actorUserID))
       (kr_create (rp_journeys r) projectID actorUserID title None)"

definition GetJourney :: "'s artifact_repo \<Rightarrow> string \<Rightarrow> string \<Rightarrow> ('s, journey_page_response) eff" where
  "GetJourney r projectID journeyID =
     eff_bind (eff_map_err (mapServiceError ''get journey'') (kr_get (rp_journeys r) projectID journeyID)) (\<lambda>item.
       let raw = object_of item ''journey'';
         page = \<lparr>jp_id = toString (mget raw ''id''), jp_title = toString (mget raw ''title''),
           jp_status = toString (mget raw ''status''), jp_owner = toString (mget raw ''owner''),
           jp_last_updated = toString (mget raw ''lastUpdated'')\<rparr> in
       eff_ret \<lparr>jpr_journey = page, jpr_metadata = decodeArtifactMetadata (object_of item ''metadata''),
         jpr_detail = toRawJSON (mget item ''detail'') ''{}'',
         jpr_emotion_options = toStringSlice (mget item ''emotionOptions''),
         jpr_reference = toRawJSON (mget item ''reference'') ''{}''\<rparr>)"

definition UpdateJourney ::
  "('d, 'z) session_scheme artifact_repo \<Rightarrow> string \<Rightarrow> string \<Rightarrow> string \<Rightarrow> amap option \<Rightarrow> (('d, 'z) session_scheme, journey_list_item) eff" where
  "UpdateJourney r projectID journeyID actorUserID journey =
     update_item ''journey'' decodeJourneyListItem (updateJourneyRequest_Validate journey)
       (kr_get (rp_journeys r) projectID journeyID)
       (\<lambda>current patch. let old = nestedString current ''journey'' ''status'' in
          or_error (enforceArchiveOnlyForImmutableUpdate ''journey'' old patch journeyImmutableStatuses)
            (transition_error ''journey'' old journey_transitions patch))
       (\<lambda>patch. kr_update (rp_journeys r) projectID journeyID actorUserID patch)"

section \<open>Problems\<close>

definition ListProblems :: "'s artifact_repo \<Rightarrow> string \<Rightarrow> list_query \<Rightarrow> ('s, problem_list_item list_response) eff" where
  "ListProblems r projectID query = list_items ''list problems'' decodeProblemListItem (kr_list (rp_problems r) projectID query) query"

definition CreateProblem ::
  "('d, 'z) session_scheme artifact_repo \<Rightarrow> string \<Rightarrow> string \<Rightarrow> string \<Rightarrow> (('d, 'z) session_scheme, problem_list_item) eff" where
  "CreateProblem r projectID actorUserID statement =
     create_item ''create problem'' decodeProblemListItem (createProblemRequest_Validate statement)
       (kr_create (rp_problems r) projectID actorUserID statement None)"

definition GetProblem :: "'s artifact_repo \<Rightarrow> string \<Rightarrow> string \<Rightarrow> ('s, problem_page_response) eff" where
  "GetProblem r projectID problemID =
     eff_bind (eff_map_err (mapServiceError ''get problem'') (kr_get (rp_problems r) projectID problemID)) (\<lambda>item.
       let raw = object_of item ''problem'';
         page = \<lparr>pp_id = toString (mget raw ''id''), pp_statement = toString (mget raw ''statement''),
           pp_title = toString (mget raw ''title''), pp_status = toString (mget raw ''status''),
           pp_owner = toString (mget raw ''owner''), pp_last_updated = toString (mget raw ''lastUpdated'')\<rparr> in
       eff_ret \<lparr>ppr_problem = page, ppr_metadata = decodeArtifactMetadata (object_of item ''metadata''),
         ppr_detail = toRawJSON (mget item ''detail'') ''{}'',
         ppr_reference = toRawJSON (mget item ''reference'') ''{}''\<rparr>)"

definition UpdateProblem ::
  "('d, 'z) session_scheme artifact_repo \<Rightarrow> string \<Rightarrow> string \<Rightarrow> string \<Rightarrow> amap option \<Rightarrow> (('d, 'z) session_scheme, problem_list_item) eff" where
  "UpdateProblem r projectID problemID actorUserID state =
     update_item ''problem'' decodeProblemListItem (updateProblemRequest_Validate state)
       (kr_get (rp_problems r) projectID problemID)
       (\<lambda>current patch. let old = nestedString current ''problem'' ''status'' in
          or_error (enforceArchiveOnlyForImmutableUpdate ''problem'' old patch problemImmutableStatuses)
            (transition_error ''problem'' old problem_transitions patch))
       (\<lambda>patch. kr_update (rp_problems r) projectID problemID actorUserID patch)"

section \<open>Ideas\<close>

definition ListIdeas :: "'s artifact_repo \<Rightarrow> string \<Rightarrow> list_query \<Rightarrow> ('s, idea_list_item list_response) eff" where
  "ListIdeas r projectID query = list_items ''list ideas'' decodeIdeaListItem (kr_list (rp_ideas r) projectID query) query"

definition CreateIdea ::
  "('d, 'z) session_scheme artifact_repo \<Rightarrow> string \<Rightarrow> string \<Rightarrow> string \<Rightarrow> (('d, 'z) session_scheme, idea_list_item) eff" where
  "CreateIdea r projectID actorUserID title =
     create_item ''create idea'' decodeIdeaListItem (createIdeaRequest_Validate title)
       (kr_create (rp_ideas r) projectID actorUserID title None)"

definition GetIdea :: "'s artifact_repo \<Rightarrow> string \<Rightarrow> string \<Rightarrow> ('s, idea_page_response) eff" where
  "GetIdea r projectID ideaID =
     eff_bind (eff_map_err (mapServiceError ''get idea'') (kr_get (rp_ideas r) projectID ideaID)) (\<lambda>item.
       let raw = object_of item ''idea'';
         page = \<lparr>ip_id = toString (mget raw ''id''), ip_title = toString (mget raw ''title''),
           ip_status = toString (mget raw ''status''), ip_owner = toString (mget raw ''owner''),
           ip_last_updated = toString (mget raw ''lastUpdated'')\<rparr> in
       eff_ret \<lparr>ipr_idea = page, ipr_detail = toRawJSON (mget item ''detail'') ''{}'',
         ipr_reference = toRawJSON (mget item ''reference'') ''{}''\<rparr>)"

definition UpdateIdea ::
  "('d, 'z) session_scheme artifact_repo \<Rightarrow> string \<Rightarrow> string \<Rightarrow> string \<Rightarrow> amap option \<Rightarrow> (('d, 'z) session_scheme, idea_list_item) eff" where
  "UpdateIdea r projectID ideaID actorUserID state =
     update_item ''idea'' decodeIdeaListItem (updateIdeaRequest_Validate state)
       (kr_get (rp_ideas r) projectID ideaID)
       (\<lambda>current patch. let old = nestedString current ''idea'' ''status'' in
          or_error (enforceArchiveOnlyForImmutableUpdate ''idea'' old patch ideaImmutableStatuses)
            (transition_error ''idea'' old idea_transitions patch))
       (\<lambda>patch. kr_update (rp_ideas r) projectID ideaID actorUserID patch)"

section \<open>Tasks\<close>

definition ListTasks :: "'s artifact_repo \<Rightarrow> string \<Rightarrow> list_query \<Rightarrow> ('s, task_list_item list_response) eff" where
  "ListTasks r projectID query = list_items ''list tasks'' decodeTaskListItem (kr_list (rp_tasks r) projectID query) query"

definition CreateTask ::
  "('d, 'z) session_scheme artifact_repo \<Rightarrow> string \<Rightarrow> string \<Rightarrow> string \<Rightarrow> (('d, 'z) session_scheme, task_list_item) eff" where
  "CreateTask r projectID actorUserID title =
     create_item ''create task'' decodeTaskListItem (createTaskRequest_Validate title)
       (kr_create (rp_tasks r) projectID actorUserID title None)"

definition GetTask :: "'s artifact_repo \<Rightarrow> string \<Rightarrow> string \<Rightarrow> ('s, task_page_response) eff" where
  "GetTask r projectID taskID =
     eff_bind (eff_map_err (mapServiceError ''get task'') (kr_get (rp_tasks r) projectID taskID)) (\<lambda>item.
       let raw = object_of item ''task'';
         page = \<lparr>tp_id = toString (mget raw ''id''), tp_title = toString (mget raw ''title''),
           tp_status = toString (mget raw ''status''), tp_owner = toString (mget raw ''owner''),
           tp_deadline = toString (mget raw ''deadline''), tp_last_updated = toString (mget raw ''lastUpdated'')\<rparr> in
       eff_ret \<lparr>tpr_task = page, tpr_detail = toRawJSON (mget item ''detail'') ''{}'',
         tpr_reference = toRawJSON (mget item ''reference'') ''{}''\<rparr>)"

definition UpdateTask ::
  "('d, 'z) session_scheme artifact_repo \<Rightarrow> string \<Rightarrow> string \<Rightarrow> string \<Rightarrow> amap option \<Rightarrow> (('d, 'z) session_scheme, task_list_item) eff" where
  "UpdateTask r projectID taskID actorUserID state =
     update_item ''task'' decodeTaskListItem (updateTaskRequest_Validate state)
       (kr_get (rp_tasks r) projectID taskID)
       (\<lambda>current patch. let old = nestedString current ''task'' ''status'' in
          or_error (enforceArchiveOnlyForImmutableUpdate ''task'' old patch taskImmutableStatuses)
            (transition_error ''task'' old task_transitions patch))
       (\<lambda>patch. kr_update (rp_tasks r) projectID taskID actorUserID patch)"

section \<open>Feedback\<close>

definition ListFeedback :: "'s artifact_repo \<Rightarrow> string \<Rightarrow> list_query \<Rightarrow> ('s, feedback_list_item list_response) eff" where
  "ListFeedback r projectID query = list_items ''list feedback'' decodeFeedbackListItem (kr_list (rp_feedback r) projectID query) query"

definition CreateFeedback ::
  "('d, 'z) session_scheme artifact_repo \<Rightarrow> string \<Rightarrow> string \<Rightarrow> string \<Rightarrow> (('d, 'z) session_scheme, feedback_list_item) eff" where
  "CreateFeedback r projectID actorUserID title =
     create_item ''create feedback'' decodeFeedbackListItem (createFeedbackRequest_Validate title)
       (kr_create (rp_feedback r) projectID actorUserID title None)"

definition GetFeedback :: "'s artifact_repo \<Rightarrow> string \<Rightarrow> string \<Rightarrow> ('s, feedback_page_response) eff" where
  "GetFeedback r projectID feedbackID =
     eff_bind (eff_map_err (mapServiceError ''get feedback'') (kr_get (rp_feedback r) projectID feedbackID)) (\<lambda>item.
       let raw = object_of item ''feedback'';
         page = \<lparr>fp_id = toString (mget raw ''id''), fp_title = toString (mget raw ''title''),
           fp_outcome = toString (mget raw ''outcome''), fp_status = toString (mget raw ''status''),
           fp_owner = toString (mget raw ''owner''), fp_created_date = toString (mget raw ''createdDate''),
           fp_last_updated = toString (mget raw ''lastUpdated'')\<rparr> in
       eff_ret \<lparr>fpr_feedback = page, fpr_metadata = decodeArtifactMetadata (object_of item ''metadata''),
         fpr_detail = toRawJSON (mget item ''detail'') ''{}'',
         fpr_reference = toRawJSON (mget item ''reference'') ''{}''\<rparr>)"

definition UpdateFeedback ::
  "('d, 'z) session_scheme artifact_repo \<Rightarrow> string \<Rightarrow> string \<Rightarrow> string \<Rightarrow> amap option \<Rightarrow> (('d, 'z) session_scheme, feedback_list_item) eff" where
  "UpdateFeedback r projectID feedbackID actorUserID state =
     update_item ''feedback'' decodeFeedbackListItem (updateFeedbackRequest_Validate state)
       (kr_get (rp_feedback r) projectID feedbackID)
       (\<lambda>current patch. let old = nestedString current ''feedback'' ''status'' in
          transition_error ''feedback'' (if old = [] then ''Active'' else old) feedback_transitions patch)
       (\<lambda>patch. kr_update (rp_feedback r) projectID feedbackID actorUserID patch)"

end
