(* ===== verification/Adapter.thy ===== *)
theory Adapter
  imports Store Http
begin

text \<open>
  Typed handlers (\<open>internal/core/httpx/adapter.go\<close>, \<open>typedjson.go\<close>): the decoding and validation of a request
  body, the call of the handler, and the one answer that is written. The JSON decoder of the standard library
  is an argument: \<open>decode r\<close> is what the first call of \<open>Decode\<close> gives, and the error of the second
  (none, or \<open>io.EOF\<close> when the body held one value). The errors that \<open>errors.As\<close> looks for by type
  are sentinels of the type's name.
\<close>

section \<open>Results\<close>

record 'a http_result =
  hr_status :: int
  hr_ok :: "bool option"
  hr_data :: 'a

definition HTTPStatus :: "'a http_result \<Rightarrow> int" where
  "HTTPStatus r = (if hr_status r = 0 then 200 else hr_status r)"

definition HTTPOK :: "'a http_result \<Rightarrow> bool" where
  "HTTPOK r = (case hr_ok r of Some b \<Rightarrow> b | None \<Rightarrow> HTTPStatus r < 400)"

section \<open>Bodies\<close>

type_synonym 'a decoder = "request \<Rightarrow> (err + 'a) \<times> err option"

definition appBadRequest :: "string \<Rightarrow> err \<Rightarrow> err" where
  "appBadRequest msg cause = with_cause (bad_request msg) cause"

definition normalizeValidationError :: "(err \<Rightarrow> string) \<Rightarrow> err option \<Rightarrow> err option" where
  "normalizeValidationError show_err e =
     (case e of None \<Rightarrow> None
      | Some e \<Rightarrow> if as_app_error e \<noteq> None then Some e else Some (appBadRequest (show_err e) e))"

text \<open>\<open>DecodeAndValidateJSON\<close>; \<open>validate\<close> is the \<open>Validate\<close> method of the request type, or never an error when
  it has none.\<close>

definition DecodeAndValidateJSON :: "(err \<Rightarrow> string) \<Rightarrow> 'a decoder \<Rightarrow> ('a \<Rightarrow> err option) \<Rightarrow> request \<Rightarrow> err + 'a" where
  "DecodeAndValidateJSON show_err decode validate r =
     (case decode r of
        (Inl e, _) \<Rightarrow> Inl e
      | (Inr dst, extra) \<Rightarrow>
          if \<not> (case extra of None \<Rightarrow> False | Some e \<Rightarrow> err_is ''io.EOF'' e)
          then Inl (case extra of None \<Rightarrow> bad_request ''request body must contain a single JSON object''
               | Some e \<Rightarrow> appBadRequest ''request body must contain a single JSON object'' e)
          else case normalizeValidationError show_err (validate dst) of Some e \<Rightarrow> Inl e | None \<Rightarrow> Inr dst)"

definition mapDecodeError :: "(err \<Rightarrow> string) \<Rightarrow> err \<Rightarrow> err" where
  "mapDecodeError show_err e =
     (if err_is ''io.EOF'' e then appBadRequest ''request body is required'' e
      else if err_is ''http.MaxBytesError'' e then appBadRequest ''request body too large'' e
      else if err_is ''json.SyntaxError'' e then appBadRequest ''malformed JSON body'' e
      else if err_is ''json.UnmarshalTypeError'' e then appBadRequest ''invalid JSON field type'' e
      else if prefix ''json: unknown field '' (show_err e) then appBadRequest ''unknown field in request body'' e
      else appBadRequest ''invalid JSON body'' e)"

section \<open>The adapter\<close>

text \<open>\<open>isNoBodyRequest\<close>: a request type without fields has no decoder. A response is either a result with its own
  status or the data of a 200.\<close>

datatype 'a reply = Plain 'a | Wrapped "'a http_result"

definition write_reply :: "any reply \<Rightarrow> string \<Rightarrow> rw \<Rightarrow> rw" where
  "write_reply rep reqID w =
     (case rep of
        Wrapped res \<Rightarrow> response_json (HTTPStatus res)
          \<lparr>env_ok = HTTPOK res, env_data = hr_data res, env_error = None, env_request_id = reqID, env_meta = ANil\<rparr> w
      | Plain d \<Rightarrow> response_ok d reqID w)"

definition read_body :: "(err \<Rightarrow> string) \<Rightarrow> ('req decoder \<times> ('req \<Rightarrow> err option)) option \<Rightarrow> 'req \<Rightarrow> request \<Rightarrow> err + 'req" where
  "read_body show_err body zero r =
     (case body of None \<Rightarrow> Inr zero
      | Some (decode, validate) \<Rightarrow> (case DecodeAndValidateJSON show_err decode validate r of
          Inr req \<Rightarrow> Inr req
        | Inl e \<Rightarrow> Inl (if as_app_error e \<noteq> None then e else mapDecodeError show_err e)))"

definition Adapter ::
  "(err \<Rightarrow> string) \<Rightarrow> ('req decoder \<times> ('req \<Rightarrow> err option)) option \<Rightarrow> 'req \<Rightarrow> (request \<Rightarrow> 'req \<Rightarrow> ('w, any reply) eff) \<Rightarrow> 'w handler" where
  "Adapter show_err body zero fn r w s =
     (case read_body show_err body zero r of
        Inl e \<Rightarrow> Done (response_error e (rq_id r) w) s
      | Inr req \<Rightarrow> (case fn r req s of
          (Inl e, s') \<Rightarrow> Done (response_error e (rq_id r) w) s'
        | (Inr rep, s') \<Rightarrow> Done (write_reply rep (rq_id r) w) s'))"

section \<open>What a client sees\<close>

lemma appBadRequest_app [simp]: "as_app_error (appBadRequest msg e) = Some \<lparr>ae_code = CodeBadRequest, ae_status = 400, ae_message = msg, ae_details = ANil\<rparr>"
  by (simp add: appBadRequest_def with_cause_def app_new_def)

lemma mapDecodeError_app: "\<exists>a. as_app_error (mapDecodeError show_err e) = Some a \<and> ae_status a = 400 \<and> ae_code a = CodeBadRequest"
  by (simp add: mapDecodeError_def)

definition body_of :: "'req decoder \<Rightarrow> ('req \<Rightarrow> err option) \<Rightarrow> request \<Rightarrow> 'req option" where
  "body_of decode validate r =
     (case decode r of (Inr req, Some e) \<Rightarrow> if err_is ''io.EOF'' e \<and> validate req = None then Some req else None | _ \<Rightarrow> None)"

definition answers_once :: "rw \<Rightarrow> rw \<Rightarrow> bool" where
  "answers_once w w' \<longleftrightarrow> (\<exists>st h xs. rw_ops w' = rw_ops w @ OpHeader st h # xs \<and> (\<forall>x\<in>set xs. \<exists>bs h. x = OpWrite bs h))"

lemma response_json_once: "answers_once w (response_json st e w)"
  by (auto simp: answers_once_def response_json_def Let_def split: option.splits)

lemma write_reply_once: "answers_once w (write_reply rep rid w)"
  by (simp add: write_reply_def response_ok_def response_json_once split: reply.split)

lemma read_body_cases:
  "read_body show_err (Some (decode, validate)) zero r =
     (case body_of decode validate r of Some req \<Rightarrow> Inr req
      | None \<Rightarrow> read_body show_err (Some (decode, validate)) zero r)"
  and read_body_refused: "body_of decode validate r = None \<Longrightarrow>
     \<exists>e. read_body show_err (Some (decode, validate)) zero r = Inl e \<and> as_app_error e \<noteq> None"
proof -
  obtain res extra where d: "decode r = (res, extra)" by (cases "decode r")
  show "read_body show_err (Some (decode, validate)) zero r =
      (case body_of decode validate r of Some req \<Rightarrow> Inr req | None \<Rightarrow> read_body show_err (Some (decode, validate)) zero r)"
    by (auto simp: body_of_def read_body_def DecodeAndValidateJSON_def normalizeValidationError_def d split: sum.splits option.splits)
  show "\<exists>e. read_body show_err (Some (decode, validate)) zero r = Inl e \<and> as_app_error e \<noteq> None" if "body_of decode validate r = None"
  proof (cases "\<exists>req. DecodeAndValidateJSON show_err decode validate r = Inr req")
    case True
    then show ?thesis using that
      by (auto simp: body_of_def DecodeAndValidateJSON_def normalizeValidationError_def d split: sum.splits option.splits if_splits)
  next
    case False
    then obtain e where e: "DecodeAndValidateJSON show_err decode validate r = Inl e"
      by (cases "DecodeAndValidateJSON show_err decode validate r") auto
    then show ?thesis using mapDecodeError_app [of show_err e] by (auto simp: read_body_def)
  qed
qed

text \<open>C37: a typed route answers every request exactly once, and its handler only ever runs on a body that is a
  single JSON value of the request's type and passes \<open>Validate\<close>. Any other body is answered with the
  error envelope of an application error, and the handler, and with it the state, is not touched.\<close>

theorem Adapter_runs_validated:
  "\<exists>w' s'. Adapter show_err (Some (decode, validate)) zero fn r w s = Done w' s' \<and> answers_once w w'
    \<and> (case body_of decode validate r of
         Some req \<Rightarrow> s' = snd (fn r req s)
           \<and> w' = (case fst (fn r req s) of Inl e \<Rightarrow> response_error e (rq_id r) w | Inr rep \<Rightarrow> write_reply rep (rq_id r) w)
       | None \<Rightarrow> s' = s \<and> (\<exists>e. as_app_error e \<noteq> None \<and> w' = response_error e (rq_id r) w))"
proof (cases "body_of decode validate r")
  case None
  obtain e where "read_body show_err (Some (decode, validate)) zero r = Inl e" "as_app_error e \<noteq> None"
    using read_body_refused [OF None, of show_err zero] by auto
  then show ?thesis using None by (auto simp: Adapter_def response_error_def response_json_once)
next
  case (Some req)
  then have "read_body show_err (Some (decode, validate)) zero r = Inr req" by (subst read_body_cases) simp
  then show ?thesis using Some
    by (auto simp: Adapter_def response_error_def response_json_once write_reply_once split: prod.splits sum.splits)
qed

end
