(* ===== verification/Artifact_Handler.thy ===== *)
theory Artifact_Handler
  imports Artifact_Service Adapter
begin

text \<open>
  The handlers of the artifacts module (\<open>internal/modules/artifacts/handler.go\<close>): the caller and the
  project of a request, the window of a list, the identifier of an artifact, and the call of the service.
\<close>

section \<open>What a request says\<close>

text \<open>\<open>(*Context).Query\<close>.\<close>

definition context_query :: "request \<Rightarrow> string \<Rightarrow> string" where
  "context_query r name = trim_space (query_get r name)"

fun queryValue :: "request \<Rightarrow> string list \<Rightarrow> string" where
  "queryValue r [] = []"
| "queryValue r (key # keys) =
     (let value = trim_space (context_query r key) in if value \<noteq> [] then value else queryValue r keys)"

definition requireAuthenticatedPrincipal :: "request \<Rightarrow> err + principal" where
  "requireAuthenticatedPrincipal r =
     (case from_context r of None \<Rightarrow> Inl authentication_required
      | Some p \<Rightarrow> if trim_space (pr_user_id p) = [] then Inl authentication_required else Inr p)"

definition requireProjectID :: "request \<Rightarrow> err + string" where
  "requireProjectID r =
     (let projectID = trim_space (context_param r ''projectId'') in
      if projectID = [] then Inl (bad_request ''projectId is required'') else Inr projectID)"

definition resolveProjectScope :: "principal \<Rightarrow> string \<Rightarrow> string" where
  "resolveProjectScope p pathProjectID =
     (let projectID = trim_space (pr_project_id p) in
      if projectID \<noteq> [] then projectID else trim_space pathProjectID)"

definition parseListQuery :: "request \<Rightarrow> err + list_query" where
  "parseListQuery r =
     sum_bind (let cursor = queryValue r [''pagination.cursor'', ''cursor''] in
         if cursor = [] then Inr 0
         else case DecodeOffsetCursor cursor of Inl e \<Rightarrow> Inl (bad_request ''cursor is invalid'') | Inr offset \<Rightarrow> Inr offset)
       (\<lambda>offset. sum_bind (parseOptionalIntQuery (queryValue r [''pagination.limit'', ''limit'']) 20 ''limit'')
         (\<lambda>limit. Inr \<lparr>lq_status = [], lq_outcome = [], lq_offset = offset, lq_limit = normalizeLimit limit\<rparr>))"

definition filterStatus :: "request \<Rightarrow> list_query \<Rightarrow> list_query" where
  "filterStatus r query = query\<lparr>lq_status := queryValue r [''filter.status'', ''status'']\<rparr>"

definition path_id :: "request \<Rightarrow> string \<Rightarrow> err + string" where
  "path_id r name =
     (let v = trim_space (context_param r name) in if v = [] then Inl (bad_request (name @ '' is required'')) else Inr v)"

text \<open>Every handler first asks for the caller and the project.\<close>

definition in_scope :: "request \<Rightarrow> (principal \<Rightarrow> string \<Rightarrow> ('s, 'a) eff) \<Rightarrow> ('s, 'a) eff" where
  "in_scope r f =
     eff_bind (eff_lift (requireAuthenticatedPrincipal r)) (\<lambda>principal.
     eff_bind (eff_lift (requireProjectID r)) (\<lambda>projectID. f principal (resolveProjectScope principal projectID)))"

definition created :: "('s, 'a) eff \<Rightarrow> ('s, 'a http_result) eff" where
  "created m = eff_bind m (\<lambda>a. eff_ret \<lparr>hr_status = 201, hr_ok = None, hr_data = a\<rparr>)"

section \<open>Stories\<close>

definition handler_ListStories :: "'s artifact_repo \<Rightarrow> request \<Rightarrow> ('s, story_list_item list_response) eff" where
  "handler_ListStories repo r =
     in_scope r (\<lambda>principal scope. eff_bind (eff_lift (parseListQuery r)) (\<lambda>query. ListStories repo scope (filterStatus r query)))"

definition handler_CreateStory ::
  "(('d, 'z) session_scheme) artifact_repo \<Rightarrow> request \<Rightarrow> string \<Rightarrow> (('d, 'z) session_scheme, story_list_item http_result) eff" where
  "handler_CreateStory repo r title =
     in_scope r (\<lambda>principal scope. created (CreateStory repo scope (pr_user_id principal) title))"

definition handler_GetStory :: "'s artifact_repo \<Rightarrow> request \<Rightarrow> ('s, story_page_response) eff" where
  "handler_GetStory repo r =
     in_scope r (\<lambda>principal scope. eff_bind (eff_lift (path_id r ''storyId'')) (\<lambda>item. GetStory repo scope item))"

definition handler_UpdateStory ::
  "(('d, 'z) session_scheme) artifact_repo \<Rightarrow> request \<Rightarrow> amap option \<Rightarrow> (('d, 'z) session_scheme, story_list_item) eff" where
  "handler_UpdateStory repo r req =
     in_scope r (\<lambda>principal scope. eff_bind (eff_lift (path_id r ''storyId'')) (\<lambda>item.
       UpdateStory repo scope item (pr_user_id principal) req))"

section \<open>Journeys\<close>

definition handler_ListJourneys :: "'s artifact_repo \<Rightarrow> request \<Rightarrow> ('s, journey_list_item list_response) eff" where
  "handler_ListJourneys repo r =
     in_scope r (\<lambda>principal scope. eff_bind (eff_lift (parseListQuery r)) (\<lambda>query. ListJourneys repo scope (filterStatus r query)))"

definition handler_CreateJourney ::
  "(('d, 'z) session_scheme) artifact_repo \<Rightarrow> request \<Rightarrow> string \<Rightarrow> (('d, 'z) session_scheme, journey_list_item http_result) eff" where
  "handler_CreateJourney repo r title =
     in_scope r (\<lambda>principal scope. created (CreateJourney repo scope (pr_user_id principal) title))"

definition handler_GetJourney :: "'s artifact_repo \<Rightarrow> request \<Rightarrow> ('s, journey_page_response) eff" where
  "handler_GetJourney repo r =
     in_scope r (\<lambda>principal scope. eff_bind (eff_lift (path_id r ''journeyId'')) (\<lambda>item. GetJourney repo scope item))"

definition handler_UpdateJourney ::
  "(('d, 'z) session_scheme) artifact_repo \<Rightarrow> request \<Rightarrow> amap option \<Rightarrow> (('d, 'z) session_scheme, journey_list_item) eff" where
  "handler_UpdateJourney repo r req =
     in_scope r (\<lambda>principal scope. eff_bind (eff_lift (path_id r ''journeyId'')) (\<lambda>item.
       UpdateJourney repo scope item (pr_user_id principal) req))"

section \<open>Problems\<close>

definition handler_ListProblems :: "'s artifact_repo \<Rightarrow> request \<Rightarrow> ('s, problem_list_item list_response) eff" where
  "handler_ListProblems repo r =
     in_scope r (\<lambda>principal scope. eff_bind (eff_lift (parseListQuery r)) (\<lambda>query. ListProblems repo scope (filterStatus r query)))"

definition handler_CreateProblem ::
  "(('d, 'z) session_scheme) artifact_repo \<Rightarrow> request \<Rightarrow> string \<Rightarrow> (('d, 'z) session_scheme, problem_list_item http_result) eff" where
  "handler_CreateProblem repo r statement =
     in_scope r (\<lambda>principal scope. created (CreateProblem repo scope (pr_user_id principal) statement))"

definition handler_GetProblem :: "'s artifact_repo \<Rightarrow> request \<Rightarrow> ('s, problem_page_response) eff" where
  "handler_GetProblem repo r =
     in_scope r (\<lambda>principal scope. eff_bind (eff_lift (path_id r ''problemId'')) (\<lambda>item. GetProblem repo scope item))"

definition handler_UpdateProblem ::
  "(('d, 'z) session_scheme) artifact_repo \<Rightarrow> request \<Rightarrow> amap option \<Rightarrow> (('d, 'z) session_scheme, problem_list_item) eff" where
  "handler_UpdateProblem repo r req =
     in_scope r (\<lambda>principal scope. eff_bind (eff_lift (path_id r ''problemId'')) (\<lambda>item.
       UpdateProblem repo scope item (pr_user_id principal) req))"

section \<open>Ideas\<close>

definition handler_ListIdeas :: "'s artifact_repo \<Rightarrow> request \<Rightarrow> ('s, idea_list_item list_response) eff" where
  "handler_ListIdeas repo r =
     in_scope r (\<lambda>principal scope. eff_bind (eff_lift (parseListQuery r)) (\<lambda>query. ListIdeas repo scope (filterStatus r query)))"

definition handler_CreateIdea ::
  "(('d, 'z) session_scheme) artifact_repo \<Rightarrow> request \<Rightarrow> string \<Rightarrow> (('d, 'z) session_scheme, idea_list_item http_result) eff" where
  "handler_CreateIdea repo r title =
     in_scope r (\<lambda>principal scope. created (CreateIdea repo scope (pr_user_id principal) title))"

definition handler_GetIdea :: "'s artifact_repo \<Rightarrow> request \<Rightarrow> ('s, idea_page_response) eff" where
  "handler_GetIdea repo r =
     in_scope r (\<lambda>principal scope. eff_bind (eff_lift (path_id r ''ideaId'')) (\<lambda>item. GetIdea repo scope item))"

definition handler_UpdateIdea ::
  "(('d, 'z) session_scheme) artifact_repo \<Rightarrow> request \<Rightarrow> amap option \<Rightarrow> (('d, 'z) session_scheme, idea_list_item) eff" where
  "handler_UpdateIdea repo r req =
     in_scope r (\<lambda>principal scope. eff_bind (eff_lift (path_id r ''ideaId'')) (\<lambda>item.
       UpdateIdea repo scope item (pr_user_id principal) req))"

section \<open>Tasks\<close>

definition handler_ListTasks :: "'s artifact_repo \<Rightarrow> request \<Rightarrow> ('s, task_list_item list_response) eff" where
  "handler_ListTasks repo r =
     in_scope r (\<lambda>principal scope. eff_bind (eff_lift (parseListQuery r)) (\<lambda>query. ListTasks repo scope (filterStatus r query)))"

definition handler_CreateTask ::
  "(('d, 'z) session_scheme) artifact_repo \<Rightarrow> request \<Rightarrow> string \<Rightarrow> (('d, 'z) session_scheme, task_list_item http_result) eff" where
  "handler_CreateTask repo r title =
     in_scope r (\<lambda>principal scope. created (CreateTask repo scope (pr_user_id principal) title))"

definition handler_GetTask :: "'s artifact_repo \<Rightarrow> request \<Rightarrow> ('s, task_page_response) eff" where
  "handler_GetTask repo r =
     in_scope r (\<lambda>principal scope. eff_bind (eff_lift (path_id r ''taskId'')) (\<lambda>item. GetTask repo scope item))"

definition handler_UpdateTask ::
  "(('d, 'z) session_scheme) artifact_repo \<Rightarrow> request \<Rightarrow> amap option \<Rightarrow> (('d, 'z) session_scheme, task_list_item) eff" where
  "handler_UpdateTask repo r req =
     in_scope r (\<lambda>principal scope. eff_bind (eff_lift (path_id r ''taskId'')) (\<lambda>item.
       UpdateTask repo scope item (pr_user_id principal) req))"

section \<open>Feedback\<close>

definition handler_ListFeedback :: "'s artifact_repo \<Rightarrow> request \<Rightarrow> ('s, feedback_list_item list_response) eff" where
  "handler_ListFeedback repo r =
     in_scope r (\<lambda>principal scope. eff_bind (eff_lift (parseListQuery r)) (\<lambda>query. ListFeedback repo scope ((filterStatus r query)\<lparr>lq_outcome := queryValue r [''filter.outcome'', ''outcome'']\<rparr>)))"

definition handler_CreateFeedback ::
  "(('d, 'z) session_scheme) artifact_repo \<Rightarrow> request \<Rightarrow> string \<Rightarrow> (('d, 'z) session_scheme, feedback_list_item http_result) eff" where
  "handler_CreateFeedback repo r title =
     in_scope r (\<lambda>principal scope. created (CreateFeedback repo scope (pr_user_id principal) title))"

definition handler_GetFeedback :: "'s artifact_repo \<Rightarrow> request \<Rightarrow> ('s, feedback_page_response) eff" where
  "handler_GetFeedback repo r =
     in_scope r (\<lambda>principal scope. eff_bind (eff_lift (path_id r ''feedbackId'')) (\<lambda>item. GetFeedback repo scope item))"

definition handler_UpdateFeedback ::
  "(('d, 'z) session_scheme) artifact_repo \<Rightarrow> request \<Rightarrow> amap option \<Rightarrow> (('d, 'z) session_scheme, feedback_list_item) eff" where
  "handler_UpdateFeedback repo r req =
     in_scope r (\<lambda>principal scope. eff_bind (eff_lift (path_id r ''feedbackId'')) (\<lambda>item.
       UpdateFeedback repo scope item (pr_user_id principal) req))"

section \<open>Windows\<close>

text \<open>A list endpoint asks for a window within bounds, whatever the query string holds: between 1 and 50
  items, 20 when nothing is said, from a non-negative 64-bit offset; a malformed cursor or limit is
  answered with 400 and nothing else is.\<close>

theorem parseListQuery_bounds:
  "(case parseListQuery r of
      Inr query \<Rightarrow> 1 \<le> lq_limit query \<and> lq_limit query \<le> 50 \<and> 0 \<le> lq_offset query \<and> in_int64 (lq_offset query)
        \<and> (queryValue r [''pagination.limit'', ''limit''] = [] \<longrightarrow> lq_limit query = 20)
        \<and> (queryValue r [''pagination.cursor'', ''cursor''] = [] \<longrightarrow> lq_offset query = 0)
    | Inl e \<Rightarrow> err_status e = 400)"
proof (cases "parseListQuery r")
  case (Inl e)
  then show ?thesis
    by (auto simp: parseListQuery_def sum_bind_def parseOptionalIntQuery_def Let_def split: sum.splits option.splits if_splits)
next
  case (Inr query)
  then obtain offset limit where parts:
    "(let cursor = queryValue r [''pagination.cursor'', ''cursor''] in
         if cursor = [] then Inr 0
         else case DecodeOffsetCursor cursor of Inl e \<Rightarrow> Inl (bad_request ''cursor is invalid'') | Inr offset \<Rightarrow> Inr offset) = Inr offset"
    "parseOptionalIntQuery (queryValue r [''pagination.limit'', ''limit'']) 20 ''limit'' = Inr limit"
    "query = \<lparr>lq_status = [], lq_outcome = [], lq_offset = offset, lq_limit = normalizeLimit limit\<rparr>"
    unfolding parseListQuery_def sum_bind_Inr by blast
  have "0 \<le> n \<and> in_int64 n" if "DecodeOffsetCursor c = Inr n" for c n
    using that by (auto simp: DecodeOffsetCursor_def Let_def dest: parse_int_range split: if_splits option.splits)
  then have "0 \<le> offset \<and> in_int64 offset" "queryValue r [''pagination.cursor'', ''cursor''] = [] \<longrightarrow> offset = 0"
    using parts(1) by (auto simp: Let_def in_int64_def split: if_splits sum.splits)
  moreover have "queryValue r [''pagination.limit'', ''limit''] = [] \<longrightarrow> limit = 20"
    using parts(2) by (auto simp: parseOptionalIntQuery_def)
  moreover have "1 \<le> normalizeLimit n" "normalizeLimit n \<le> 50" "normalizeLimit 20 = 20" for n
    by (simp_all add: normalizeLimit_def maxListLimit_def)
  ultimately show ?thesis using Inr parts(3) by auto
qed

lemma parseListQuery_bounds_witness:
  "\<exists>query. parseListQuery \<lparr>rq_method = ''GET'', rq_content_length = 0, rq_transfer_encoding = [], rq_headers = [],
      rq_query = [(''limit'', [''500''])], rq_url_params = [], rq_path_values = [], rq_route_pattern = None,
      rq_remote_addr = [], rq_client_ip = None, rq_principal = None, rq_id = [], rq_body_limit = None\<rparr> = Inr query \<and> lq_limit query \<le> 50"
  (is "\<exists>query. parseListQuery ?r = Inr query \<and> _")
proof -
  have "parseListQuery ?r \<noteq> Inl e" for e
    by (simp add: parseListQuery_def context_query_def query_get_def query_values_def trim_plain Let_def
        parseOptionalIntQuery_def parse_int_def parse_nat_def digit_val_def in_int64_def)
  then obtain query where "parseListQuery ?r = Inr query" by (cases "parseListQuery ?r") auto
  with parseListQuery_bounds [of ?r] show ?thesis by auto
qed

end
