(* ===== verification/Notify.thy ===== *)
theory Notify
  imports Project_Tables
begin

text \<open>
  The notification fan-out (\<open>internal/core/notify/notify.go\<close>): one event becomes rows of the
  notifications table, gated per project and per recipient.
\<close>

record event =
  ev_project :: string
  ev_actor :: string
  ev_source_type :: string
  ev_gate :: string
  ev_title :: string
  ev_message :: string
  ev_source_id :: string
  ev_recipients :: "string list"

definition allowedGates :: "string list" where
  "allowedGates = [''notify_artifact_created'', ''notify_artifact_locked'',
     ''notify_feedback_added'', ''notify_resource_updated'', ''notify_task_assigned'']"

definition source_types :: "string list" where
  "source_types = [''Project Activity'', ''Project Invitation'', ''System Notification'']"

definition cast_source :: "string \<Rightarrow> err + string" where
  "cast_source t = (if t \<in> set source_types then Inr t else Inl (EPg ''22P02''))"

text \<open>\<open>NULLIF(x, '')::uuid\<close>.\<close>

definition cast_uuid_opt :: "uuid_cast \<Rightarrow> string \<Rightarrow> err + string option" where
  "cast_uuid_opt uuid s = (if s = [] then Inr None else sum_bind (cast_uuid uuid s) (\<lambda>u. Inr (Some u)))"

text \<open>\<open>COALESCE(..., TRUE)\<close> over the project's gate column and the recipient's master switch.\<close>

definition gate_open :: "tables \<Rightarrow> string \<Rightarrow> string \<Rightarrow> bool" where
  "gate_open d gate project =
     (if gate = [] then True
      else (case map_of (map (\<lambda>(p, c, b). ((p, c), b)) (tb_gates d)) (project, gate) of
              None \<Rightarrow> True | Some b \<Rightarrow> b))"

definition notification_of :: "event \<Rightarrow> string \<Rightarrow> string \<Rightarrow> string option \<Rightarrow> string \<Rightarrow> notification_row" where
  "notification_of e project source src_id user =
     \<lparr>nt_user = user, nt_project = project, nt_source = source, nt_source_id = src_id,
      nt_title = ev_title e, nt_message = ev_message e\<rparr>"

definition stmt_broadcast :: "uuid_cast \<Rightarrow> event \<Rightarrow> (tables, unit) stmt" where
  "stmt_broadcast uuid e d =
     sum_bind (cast_uuid uuid (ev_project e)) (\<lambda>project.
     sum_bind (cast_source (ev_source_type e)) (\<lambda>source.
     sum_bind (cast_uuid_opt uuid (ev_source_id e)) (\<lambda>src_id.
       let actor = trim_space (ev_actor e);
           users = map mb_user (filter (\<lambda>m. mb_project m = project \<and> mb_status m = ''Active''
                      \<and> (actor = [] \<or> mb_user m \<noteq> actor) \<and> mb_user m \<notin> set (tb_muted d)
                      \<and> gate_open d (ev_gate e) project) (tb_members d))
       in Inr ([], d\<lparr>tb_notifications := tb_notifications d
                       @ map (notification_of e project source src_id) users\<rparr>))))"

definition stmt_directed :: "uuid_cast \<Rightarrow> event \<Rightarrow> string \<Rightarrow> (tables, unit) stmt" where
  "stmt_directed uuid e rcpt d =
     sum_bind (cast_uuid uuid rcpt) (\<lambda>user.
     sum_bind (cast_uuid uuid (ev_project e)) (\<lambda>project.
     sum_bind (cast_source (ev_source_type e)) (\<lambda>source.
     sum_bind (cast_uuid_opt uuid (ev_source_id e)) (\<lambda>src_id.
     sum_bind (cast_uuid_opt uuid (trim_space (ev_actor e))) (\<lambda>actor.
       if actor \<noteq> Some user \<and> user \<in> us_id ` set (tb_users d) \<and> user \<notin> set (tb_muted d)
          \<and> gate_open d (ev_gate e) project
       then Inr ([], d\<lparr>tb_notifications := tb_notifications d
                         @ [notification_of e project source src_id user]\<rparr>)
       else Inr ([], d))))))"

definition Publish :: "uuid_cast \<Rightarrow> event \<Rightarrow> ((tables, 'z) session_scheme, unit) eff" where
  "Publish uuid e =
     (if trim_space (ev_project e) = [] \<or> trim_space (ev_source_type e) = []
      then eff_throw (EText ''notify: project and source type are required'')
      else if ev_gate e \<noteq> [] \<and> ev_gate e \<notin> set allowedGates
      then eff_throw (EText (''notify: unknown gate column '' @ ev_gate e))
      else if ev_recipients e = [] then RelationalExec (stmt_broadcast uuid e)
      else eff_each (\<lambda>rcpt. RelationalExec (stmt_directed uuid e rcpt))
             (trim_unique (\<lambda>t. t) [] (ev_recipients e)))"

text \<open>The fan-out appends notifications and changes nothing else; \<open>P\<close> is what the tables must
  say of each of them.\<close>

definition stripped :: "tables \<Rightarrow> tables" where
  "stripped d = d\<lparr>tb_notifications := []\<rparr>"

definition adds_only ::
  "(tables \<Rightarrow> notification_row \<Rightarrow> bool) \<Rightarrow> (tables, 'z) session_scheme \<Rightarrow> (tables, 'z) session_scheme \<Rightarrow> bool" where
  "adds_only P s t \<longleftrightarrow>
     (\<exists>ns. ss_data t = (ss_data s)\<lparr>tb_notifications := tb_notifications (ss_data s) @ ns\<rparr>
         \<and> (\<forall>n \<in> set ns. P (stripped (ss_data s)) n))"

lemma adds_onlyI:
  "\<lbrakk>ss_data t = (ss_data s)\<lparr>tb_notifications := tb_notifications (ss_data s) @ ns\<rparr>;
    \<And>n. n \<in> set ns \<Longrightarrow> P (stripped (ss_data s)) n\<rbrakk> \<Longrightarrow> adds_only P s t"
  unfolding adds_only_def by blast

lemma adds_only_refl [simp]: "reflp (adds_only P)"
  by (rule reflpI, rule adds_onlyI [of _ _ "[]"]) simp_all

lemma adds_only_trans [simp]: "transp (adds_only P)"
proof (rule transpI)
  fix s t u :: "(tables, 'a) session_scheme"
  assume "adds_only P s t" "adds_only P t u"
  then obtain ns ms where ns:
      "ss_data t = (ss_data s)\<lparr>tb_notifications := tb_notifications (ss_data s) @ ns\<rparr>"
      "ss_data u = (ss_data t)\<lparr>tb_notifications := tb_notifications (ss_data t) @ ms\<rparr>"
      "\<forall>n \<in> set ns. P (stripped (ss_data s)) n" "\<forall>n \<in> set ms. P (stripped (ss_data t)) n"
    unfolding adds_only_def by blast
  then show "adds_only P s u"
    by (intro adds_onlyI [of u s "ns @ ms"]) (auto simp: stripped_def)
qed

lemma adds_only_stmt:
  assumes "\<And>d rows d'. st d = Inr (rows, d') \<Longrightarrow>
    \<exists>ns. d' = d\<lparr>tb_notifications := tb_notifications d @ ns\<rparr> \<and> (\<forall>n \<in> set ns. P (stripped d) n)"
  shows "keeps (adds_only P) (run_stmt st)"
  unfolding keeps_def
proof
  fix s
  show "adds_only P s (snd (run_stmt st s))"
  proof (cases "run_stmt st s")
    case (Pair r t)
    show ?thesis
    proof (cases r)
      case (Inl e)
      then have "ss_data t = ss_data s"
        using Pair by (auto simp: run_stmt_def split: if_splits option.splits sum.splits prod.splits)
      then show ?thesis using Pair by (intro adds_onlyI [of _ _ "[]"]) simp_all
    next
      case (Inr rows)
      then obtain d where "st (ss_data s) = Inr (rows, d)" "t = (tick s)\<lparr>ss_data := d\<rparr>"
        using Pair run_stmt_ok [of st s rows t] by auto
      with assms [of "ss_data s" rows d] Pair show ?thesis by (auto simp: adds_only_def)
    qed
  qed
qed

text \<open>Who may be notified: never the actor, never a user who muted notifications, only through an
  open gate, and an active member of the project or one of the named recipients.\<close>

definition may_notify :: "uuid_cast \<Rightarrow> event \<Rightarrow> tables \<Rightarrow> notification_row \<Rightarrow> bool" where
  "may_notify uuid e d n \<longleftrightarrow>
     nt_user n \<notin> set (tb_muted d)
     \<and> (trim_space (ev_actor e) \<noteq> [] \<longrightarrow> uuid (trim_space (ev_actor e)) = Some (trim_space (ev_actor e))
          \<longrightarrow> nt_user n \<noteq> trim_space (ev_actor e))
     \<and> gate_open d (ev_gate e) (nt_project n)
     \<and> uuid (ev_project e) = Some (nt_project n)
     \<and> nt_title n = ev_title e \<and> nt_message n = ev_message e
     \<and> (if ev_recipients e = []
         then \<exists>m \<in> set (tb_members d). mb_user m = nt_user n \<and> mb_project m = nt_project n
                \<and> mb_status m = ''Active''
         else \<exists>rcpt \<in> set (ev_recipients e). uuid (trim_space rcpt) = Some (nt_user n))"

lemma stripped_simps [simp]:
  "tb_members (stripped d) = tb_members d" "tb_muted (stripped d) = tb_muted d"
  "gate_open (stripped d) = gate_open d"
  by (simp_all add: stripped_def gate_open_def fun_eq_iff)

lemma broadcast_may_notify:
  "ev_recipients e = [] \<Longrightarrow> keeps (adds_only (may_notify uuid e)) (run_stmt (stmt_broadcast uuid e))"
proof (rule adds_only_stmt)
  fix d rows d'
  assume e: "ev_recipients e = []" and "stmt_broadcast uuid e d = Inr (rows, d')"
  then obtain project source src_id where
    p: "uuid (ev_project e) = Some project" and
    d': "d' = d\<lparr>tb_notifications := tb_notifications d
       @ map (notification_of e project source src_id) (map mb_user (filter (\<lambda>m.
           mb_project m = project \<and> mb_status m = ''Active''
           \<and> (trim_space (ev_actor e) = [] \<or> mb_user m \<noteq> trim_space (ev_actor e))
           \<and> mb_user m \<notin> set (tb_muted d) \<and> gate_open d (ev_gate e) project) (tb_members d)))\<rparr>"
    by (auto simp: stmt_broadcast_def Let_def)
  show "\<exists>ns. d' = d\<lparr>tb_notifications := tb_notifications d @ ns\<rparr>
      \<and> (\<forall>n \<in> set ns. may_notify uuid e (stripped d) n)"
    by (rule exI, rule conjI, rule d') (auto simp: may_notify_def notification_of_def e p)
qed

lemma directed_may_notify:
  assumes "r \<in> set (trim_unique (\<lambda>t. t) [] (ev_recipients e))"
  shows "keeps (adds_only (may_notify uuid e)) (run_stmt (stmt_directed uuid e r))"
proof (rule adds_only_stmt)
  fix d rows d'
  assume st: "stmt_directed uuid e r d = Inr (rows, d')"
  obtain rcpt where rcpt: "rcpt \<in> set (ev_recipients e)" "r = trim_space rcpt"
    using trim_unique_members [OF assms] by auto
  show "\<exists>ns. d' = d\<lparr>tb_notifications := tb_notifications d @ ns\<rparr>
      \<and> (\<forall>n \<in> set ns. may_notify uuid e (stripped d) n)"
  proof (cases "d' = d")
    case True
    then show ?thesis by (intro exI [of _ "[]"]) simp
  next
    case False
    with st obtain user project source src_id actor where
      "d' = d\<lparr>tb_notifications := tb_notifications d @ [notification_of e project source src_id user]\<rparr>"
      "uuid r = Some user" "uuid (ev_project e) = Some project" "user \<notin> set (tb_muted d)"
      "gate_open d (ev_gate e) project" "actor \<noteq> Some user"
      "cast_uuid_opt uuid (trim_space (ev_actor e)) = Inr actor"
      by (auto simp: stmt_directed_def split: if_splits)
    with rcpt show ?thesis
      by (intro exI [of _ "[notification_of e project source src_id user]"])
        (auto simp: may_notify_def notification_of_def cast_uuid_opt_def cast_uuid_def)
  qed
qed

lemma keeps_each_set:
  "transp R \<Longrightarrow> reflp R \<Longrightarrow> (\<And>x. x \<in> set xs \<Longrightarrow> keeps R (f x)) \<Longrightarrow> keeps R (eff_each f xs)"
  by (induction xs) (auto intro: keeps_ret keeps_bind)

lemma Publish_keeps: "keeps (adds_only (may_notify uuid e)) (Publish uuid e)"
  unfolding Publish_def RelationalExec_def
  by (auto intro!: keeps_bind keeps_throw keeps_ret keeps_each_set broadcast_may_notify
      directed_may_notify)


lemma Publish_more: "keeps same_more (Publish uuid e)"
  unfolding Publish_def by (auto intro!: keeps_intros query_more)

end
