(* ===== verification/Artifact_Tables.thy ===== *)
theory Artifact_Tables
  imports Notify Artifact_Dto
begin

text \<open>
  The data behind the artifacts repository: the tables of stories, journeys, problems, ideas, tasks and
  feedback with their links, assignees and activity log (\<open>db/schema.generated.sql\<close>), and the documents of
  the document store (\<open>internal/core/storage/mongo_store.go\<close>). Statements keep the checks of the schema that
  can fail: uniqueness, foreign keys, labels of enums. The triggers that derive the orphan flags are part of
  the statements that fire them; those that feed the search index are left out.

  \<open>ad_core\<close> are the tables shared with the other modules and \<open>ad_owners\<close> the column \<open>owner_user_id\<close> of projects.
  Rows keep the order of their insertion, which is the order taken where a statement fixes none.
\<close>

section \<open>Rows\<close>

record artifact_row =
  af_id :: string
  af_project :: string
  af_slug :: string
  af_title :: string
  af_owner :: string
  af_status :: string
  af_orphan :: bool
  af_created :: int
  af_updated :: int
  af_revision :: int

record archivable_row = artifact_row +
  av_from :: "string option"

type_synonym journey_row = archivable_row

record story_row = archivable_row +
  sy_persona :: "string option"
  sy_pains :: int
  sy_hypotheses :: int

record problem_row = archivable_row +
  pm_locked :: bool

record idea_row = archivable_row +
  id_problem :: "string option"
  id_selected_at :: "int option"

record task_row = artifact_row +
  tk_idea :: "string option"
  tk_due :: "(nat \<times> nat \<times> nat) option"
  tk_started :: "int option"
  tk_completed :: "int option"

record feedback_row = archivable_row +
  fe_task :: "string option"
  fe_outcome :: "string option"

record link_row =
  lk_project :: string
  lk_source_type :: string
  lk_source :: string
  lk_target_type :: string
  lk_target :: string
  lk_kind :: string
  lk_by :: string
  lk_created :: int

record assignee_row =
  an_task :: string
  an_project :: string
  an_user :: string
  an_by :: "string option"
  an_at :: int

record activity_row =
  ay_project :: string
  ay_actor :: string
  ay_type :: string
  ay_artifact :: string
  ay_action :: string
  ay_payload :: string

record artifact_data =
  ad_core :: tables
  ad_owners :: "(string \<times> string) list"
  ad_stories :: "story_row list"
  ad_journeys :: "journey_row list"
  ad_problems :: "problem_row list"
  ad_ideas :: "idea_row list"
  ad_tasks :: "task_row list"
  ad_feedback :: "feedback_row list"
  ad_links :: "link_row list"
  ad_assignees :: "assignee_row list"
  ad_log :: "activity_row list"

abbreviation "now d \<equiv> tb_now (ad_core d)"

section \<open>The document store\<close>

text \<open>Of a stored document the content is kept as it was handed to the driver; \<open>rx_codec\<close> below is what the driver
  makes of it when it is read back.\<close>

record document =
  dc_artifact :: string
  dc_project :: string
  dc_document :: string
  dc_revision :: int
  dc_updated :: int
  dc_updated_by :: string
  dc_content :: amap

record doc_session = "artifact_data session" +
  se_docs :: "string \<Rightarrow> document list"
  se_doc_count :: nat
  se_doc_fault :: "nat \<Rightarrow> err option"

type_synonym 'a art = "(doc_session, 'a) eff"

abbreviation "ErrNoDocuments \<equiv> ESent ''mongo.ErrNoDocuments''"

text \<open>One request to the document store, which is in no transaction of the relational store.\<close>

definition run_doc :: "((string \<Rightarrow> document list) \<Rightarrow> err + ('a \<times> (string \<Rightarrow> document list))) \<Rightarrow> 'a art" where
  "run_doc op s =
     (let t = s\<lparr>se_doc_count := se_doc_count s + 1\<rparr> in
      case se_doc_fault s (se_doc_count s) of Some e \<Rightarrow> (Inl e, t)
      | None \<Rightarrow> (case op (se_docs s) of Inl e \<Rightarrow> (Inl e, t) | Inr (a, ds) \<Rightarrow> (Inr a, t\<lparr>se_docs := ds\<rparr>)))"

text \<open>\<open>parseMongoDocumentCommand\<close>: the collection and the operation of a command.\<close>

definition split_once :: "char \<Rightarrow> string \<Rightarrow> (string \<times> string) option" where
  "split_once c s =
     (case dropWhile (\<lambda>x. x \<noteq> c) s of [] \<Rightarrow> None | _ # rest \<Rightarrow> Some (takeWhile (\<lambda>x. x \<noteq> c) s, rest))"

definition invalid_command :: "string \<Rightarrow> string \<Rightarrow> err" where
  "invalid_command cmd expected = EText (''invalid document command '' @ go_quote cmd @ '', expected '' @ expected)"

definition parseMongoDocumentCommand :: "string \<Rightarrow> err + (string \<times> string)" where
  "parseMongoDocumentCommand command =
     (let trimmedCommand = trim_space command in
      if trimmedCommand = [] then Inl (EText ''empty document command'')
      else case split_once (if CHR '':'' \<in> set trimmedCommand then CHR '':'' else CHR ''.'') trimmedCommand of
        None \<Rightarrow> Inl (invalid_command trimmedCommand ''<collection>:<operation>'')
      | Some (a, b) \<Rightarrow>
          if trim_space a = [] \<or> trim_space b = []
          then Inl (invalid_command trimmedCommand ''non-empty collection and operation'')
          else Inr (trim_space a, trim_space b))"

fun normalizeBSON :: "any \<Rightarrow> any" where
  "normalizeBSON (ABsonM m) = AMap (map (\<lambda>(k, v). (k, normalizeBSON v)) m)"
| "normalizeBSON (AMap m) = AMap (map (\<lambda>(k, v). (k, normalizeBSON v)) m)"
| "normalizeBSON (ABsonA xs) = ASlice (map normalizeBSON xs)"
| "normalizeBSON (ASlice xs) = ASlice (map normalizeBSON xs)"
| "normalizeBSON v = v"

text \<open>The executor on the two commands of the repository: the first document that matches every field of the
  filter, and the update of the first match with \<open>$set\<close>, which inserts the document when there is none.\<close>

definition mongo_find_one :: "(document \<Rightarrow> bool) \<Rightarrow> string \<Rightarrow> document art" where
  "mongo_find_one flt command =
     eff_bind (eff_lift (parseMongoDocumentCommand command)) (\<lambda>(collection, operation).
       if operation \<noteq> ''find_one'' then eff_throw (EText (''unsupported mongo document operation '' @ go_quote operation))
       else run_doc (\<lambda>ds. case find flt (ds collection) of None \<Rightarrow> Inl ErrNoDocuments | Some x \<Rightarrow> Inr (x, ds)))"

fun upsert :: "('a \<Rightarrow> bool) \<Rightarrow> 'a \<Rightarrow> 'a list \<Rightarrow> 'a list" where
  "upsert P x [] = [x]"
| "upsert P x (y # ys) = (if P y then x # ys else y # upsert P x ys)"

definition mongo_update_one :: "(document \<Rightarrow> bool) \<Rightarrow> document \<Rightarrow> string \<Rightarrow> unit art" where
  "mongo_update_one flt doc command =
     eff_bind (eff_lift (parseMongoDocumentCommand command)) (\<lambda>(collection, operation).
       if operation \<noteq> ''update_one'' then eff_throw (EText (''unsupported mongo document operation '' @ go_quote operation))
       else run_doc (\<lambda>ds. Inr ((), ds(collection := upsert flt doc (ds collection)))))"

section \<open>Conditions in SQL\<close>

text \<open>A comparison with NULL is neither true nor false (\<open>None\<close>), and a WHERE clause keeps the rows for which it is
  true.\<close>

definition sql_eq :: "string option \<Rightarrow> string \<Rightarrow> bool option" where
  "sql_eq x y = map_option (\<lambda>v. v = y) x"

definition sql_neq :: "string option \<Rightarrow> string \<Rightarrow> bool option" where
  "sql_neq x y = map_option (\<lambda>v. v \<noteq> y) x"

fun sql_or :: "bool option \<Rightarrow> bool option \<Rightarrow> bool option" where
  "sql_or (Some True) _ = Some True"
| "sql_or _ (Some True) = Some True"
| "sql_or (Some False) (Some False) = Some False"
| "sql_or _ _ = None"

fun sql_and :: "bool option \<Rightarrow> bool option \<Rightarrow> bool option" where
  "sql_and (Some False) _ = Some False"
| "sql_and _ (Some False) = Some False"
| "sql_and (Some True) (Some True) = Some True"
| "sql_and _ _ = None"

definition holds :: "bool option \<Rightarrow> bool" where
  "holds b \<longleftrightarrow> b = Some True"

lemma holds_simps [simp]: "holds (Some b) = b" "\<not> holds None"
  by (simp_all add: holds_def)

lemma holds_or [simp]: "holds (sql_or a b) \<longleftrightarrow> holds a \<or> holds b"
  by (cases "(a, b)" rule: sql_or.cases) (auto simp: holds_def)

lemma holds_and [simp]: "holds (sql_and a b) \<longleftrightarrow> holds a \<and> holds b"
  by (cases "(a, b)" rule: sql_and.cases) (auto simp: holds_def)

lemma holds_eq [simp]: "holds (sql_eq x y) \<longleftrightarrow> x = Some y" "holds (sql_neq x y) \<longleftrightarrow> (\<exists>v. x = Some v \<and> v \<noteq> y)"
  by (cases x; simp add: sql_eq_def sql_neq_def)+

text \<open>\<open>NULLIF(x, '')::label\<close> of an enum.\<close>

definition cast_label :: "string list \<Rightarrow> string \<Rightarrow> err + string option" where
  "cast_label labels x =
     (if x = [] then Inr None else if x \<in> set labels then Inr (Some x) else Inl (EPg ''22P02''))"

lemma cast_label_Inr: "cast_label labels x = Inr r \<Longrightarrow> r = None \<and> x = [] \<or> r = Some x \<and> x \<in> set labels \<and> x \<noteq> []"
  by (auto simp: cast_label_def split: if_splits)

section \<open>Reading rows\<close>

definition owner_of :: "artifact_data \<Rightarrow> string \<Rightarrow> user_row option" where
  "owner_of d u = find (\<lambda>x. us_id x = u) (tb_users (ad_core d))"

text \<open>The join with the owner.\<close>

definition with_owner :: "artifact_data \<Rightarrow> 'x artifact_row_scheme list \<Rightarrow> ('x artifact_row_scheme \<times> user_row) list" where
  "with_owner d rows = concat (map (\<lambda>r. case owner_of d (af_owner r) of None \<Rightarrow> [] | Some u \<Rightarrow> [(r, u)]) rows)"

text \<open>\<open>ORDER BY updated_at DESC\<close>, \<open>OFFSET\<close> and \<open>LIMIT\<close>.\<close>

definition newest_first :: "'x artifact_row_scheme list \<Rightarrow> 'x artifact_row_scheme list" where
  "newest_first rows = sort_key (\<lambda>r. - af_updated r) rows"

definition page_rows :: "list_query \<Rightarrow> 'r list \<Rightarrow> err + 'r list" where
  "page_rows q rows =
     (if lq_limit q + 1 < 0 then Inl (EPg ''2201W'') else if lq_offset q < 0 then Inl (EPg ''2201X'')
      else Inr (take (nat (lq_limit q + 1)) (drop (nat (lq_offset q)) rows)))"

text \<open>A list statement: the rows of a project, those of one status when the query names one, as the maps that
  the scan callback builds from their columns.\<close>

definition stmt_list ::
  "uuid_cast \<Rightarrow> string list \<Rightarrow> (artifact_data \<Rightarrow> 'x artifact_row_scheme list) \<Rightarrow> ('x artifact_row_scheme \<Rightarrow> bool)
     \<Rightarrow> (artifact_data \<Rightarrow> 'x artifact_row_scheme \<Rightarrow> user_row \<Rightarrow> amap) \<Rightarrow> string \<Rightarrow> list_query \<Rightarrow> (artifact_data, amap) stmt" where
  "stmt_list uuid labels rows keep item project q d =
     sum_bind (cast_uuid uuid project) (\<lambda>p.
     sum_bind (cast_label labels (lq_status q)) (\<lambda>st.
     sum_bind (page_rows q (with_owner d (newest_first (filter (\<lambda>r. af_project r = p
         \<and> (st = None \<or> Some (af_status r) = st) \<and> keep r) (rows d))))) (\<lambda>page.
       Inr (map (\<lambda>(r, u). item d r u) page, d))))"

text \<open>One artifact with its owner, by its id.\<close>

definition stmt_get ::
  "uuid_cast \<Rightarrow> (artifact_data \<Rightarrow> 'x artifact_row_scheme list) \<Rightarrow> string \<Rightarrow> string
     \<Rightarrow> (artifact_data, 'x artifact_row_scheme \<times> user_row) stmt" where
  "stmt_get uuid rows project ident d =
     sum_bind (cast_uuid uuid project) (\<lambda>p.
       Inr (take 1 (with_owner d (filter (\<lambda>r. af_project r = p \<and> af_id r = ident) (rows d))), d))"

text \<open>The columns every table has, by the name of the table.\<close>

definition table_rows :: "artifact_data \<Rightarrow> string \<Rightarrow> err + artifact_row list" where
  "table_rows d table =
     (if table = ''stories'' then Inr (map artifact_row.truncate (ad_stories d))
      else if table = ''journeys'' then Inr (map artifact_row.truncate (ad_journeys d))
      else if table = ''problems'' then Inr (map artifact_row.truncate (ad_problems d))
      else if table = ''ideas'' then Inr (map artifact_row.truncate (ad_ideas d))
      else if table = ''tasks'' then Inr (map artifact_row.truncate (ad_tasks d))
      else if table = ''feedback'' then Inr (map artifact_row.truncate (ad_feedback d))
      else Inl (EPg ''42P01''))"

definition stmt_slug_exists :: "uuid_cast \<Rightarrow> string \<Rightarrow> string \<Rightarrow> string \<Rightarrow> (artifact_data, bool) stmt" where
  "stmt_slug_exists uuid table project slug d =
     sum_bind (table_rows d table) (\<lambda>rows. sum_bind (cast_uuid uuid project) (\<lambda>p.
       Inr ([\<exists>r \<in> set rows. af_project r = p \<and> af_slug r = slug], d)))"

definition stmt_resolve :: "uuid_cast \<Rightarrow> string \<Rightarrow> string \<Rightarrow> string \<Rightarrow> (artifact_data, string) stmt" where
  "stmt_resolve uuid table project ident d =
     sum_bind (table_rows d table) (\<lambda>rows. sum_bind (cast_uuid uuid project) (\<lambda>p.
       Inr (take 1 (map af_id (filter (\<lambda>r. af_project r = p \<and> af_id r = ident) rows)), d)))"

definition stmt_status :: "uuid_cast \<Rightarrow> string \<Rightarrow> string \<Rightarrow> string \<Rightarrow> (artifact_data, string) stmt" where
  "stmt_status uuid table project ident d =
     sum_bind (table_rows d table) (\<lambda>rows. sum_bind (cast_uuid uuid project) (\<lambda>p. sum_bind (cast_uuid uuid ident) (\<lambda>i.
       Inr (take 1 (map af_status (filter (\<lambda>r. af_project r = p \<and> af_id r = i) rows)), d))))"

section \<open>Writing rows\<close>

text \<open>An insert: the slug is unique in its project, the project and the owner exist.\<close>

definition insert_artifact ::
  "'x artifact_row_scheme \<Rightarrow> 'x artifact_row_scheme list \<Rightarrow> artifact_data \<Rightarrow> err + 'x artifact_row_scheme list" where
  "insert_artifact row rows d =
     (if \<exists>r \<in> set rows. af_project r = af_project row \<and> af_slug r = af_slug row then Inl (EPg ''23505'')
      else if af_project row \<notin> set (map pj_id (tb_projects (ad_core d))) \<or> af_owner row \<notin> set (map us_id (tb_users (ad_core d)))
      then Inl (EPg ''23503'') else Inr (rows @ [row]))"

text \<open>\<open>UPDATE ... FROM users u WHERE ... RETURNING\<close>: the rows that match, have an owner and pass the guard.\<close>

definition update_rows ::
  "artifact_data \<Rightarrow> string \<Rightarrow> string \<Rightarrow> ('x artifact_row_scheme \<Rightarrow> bool) \<Rightarrow> ('x artifact_row_scheme \<Rightarrow> 'x artifact_row_scheme)
     \<Rightarrow> 'x artifact_row_scheme list \<Rightarrow> 'x artifact_row_scheme list \<times> ('x artifact_row_scheme \<times> user_row) list" where
  "update_rows d project ident guard f rows =
     (let hit = (\<lambda>r. af_project r = project \<and> af_id r = ident \<and> owner_of d (af_owner r) \<noteq> None \<and> guard r)
      in (map (\<lambda>r. if hit r then f r else r) rows, with_owner d (map f (filter hit rows))))"

definition touch :: "int \<Rightarrow> 'x artifact_row_scheme \<Rightarrow> 'x artifact_row_scheme" where
  "touch t r = r\<lparr>af_updated := t, af_revision := af_revision r + 1\<rparr>"

text \<open>The status and \<open>archived_from_status\<close> after an update: archiving remembers the status, and whatever other
  status is asked of an archived artifact, it gets the remembered one.\<close>

definition next_status :: "string \<Rightarrow> string option \<Rightarrow> string \<Rightarrow> string option \<Rightarrow> string" where
  "next_status initial new old archived_from =
     (if holds (sql_and (sql_eq new ''Archived'') (Some (old \<noteq> ''Archived''))) then ''Archived''
      else if holds (sql_and (Some (new \<noteq> None)) (sql_and (Some (old = ''Archived'')) (sql_neq new ''Archived'')))
      then (case archived_from of None \<Rightarrow> initial | Some s \<Rightarrow> s)
      else (case new of None \<Rightarrow> old | Some s \<Rightarrow> s))"

definition next_archived_from :: "string option \<Rightarrow> string \<Rightarrow> string option \<Rightarrow> string option" where
  "next_archived_from new old archived_from =
     (if holds (sql_and (sql_eq new ''Archived'') (Some (old \<noteq> ''Archived''))) then Some old
      else if holds (sql_and (Some (new \<noteq> None)) (sql_and (Some (old = ''Archived'')) (sql_neq new ''Archived''))) then None
      else archived_from)"

definition with_status :: "string \<Rightarrow> string option \<Rightarrow> 'x archivable_row_scheme \<Rightarrow> 'x archivable_row_scheme" where
  "with_status initial new r =
     r\<lparr>af_status := next_status initial new (af_status r) (av_from r),
       av_from := next_archived_from new (af_status r) (av_from r)\<rparr>"

text \<open>The guard of stories, journeys and problems: a settled artifact only takes archiving and restoring.\<close>

definition writable :: "string option \<Rightarrow> string \<Rightarrow> bool option" where
  "writable new old =
     sql_or (Some (old \<notin> {''Locked'', ''Archived''}))
      (sql_or (sql_eq new ''Archived'')
        (sql_and (Some (old = ''Archived'')) (sql_and (Some (new \<noteq> None)) (sql_neq new ''Archived''))))"

section \<open>Links and orphans\<close>

definition source_link :: "link_row \<Rightarrow> bool" where
  "source_link l \<longleftrightarrow> lk_target_type l = ''problem'' \<and> lk_source_type l \<in> {''story'', ''journey''}"

text \<open>\<open>pb_sync_problem_orphan\<close> and the trigger on the row of a problem.\<close>

definition problem_orphan :: "link_row list \<Rightarrow> problem_row \<Rightarrow> bool" where
  "problem_orphan links p \<longleftrightarrow>
     \<not> (\<exists>l \<in> set links. lk_project l = af_project p \<and> source_link l \<and> lk_target l = af_id p)"

definition sync_problems :: "string set \<Rightarrow> artifact_data \<Rightarrow> artifact_data" where
  "sync_problems touched d =
     d\<lparr>ad_problems := map (\<lambda>p. if af_id p \<in> touched then p\<lparr>af_orphan := problem_orphan (ad_links d) p\<rparr> else p) (ad_problems d)\<rparr>"

definition delete_links :: "(link_row \<Rightarrow> bool) \<Rightarrow> artifact_data \<Rightarrow> artifact_data" where
  "delete_links P d =
     sync_problems (lk_target ` set (filter (\<lambda>l. P l \<and> source_link l) (ad_links d)))
       (d\<lparr>ad_links := filter (\<lambda>l. \<not> P l) (ad_links d)\<rparr>)"

definition link_key :: "link_row \<Rightarrow> string \<times> string \<times> string \<times> string \<times> string \<times> string" where
  "link_key l = (lk_project l, lk_source_type l, lk_source l, lk_target_type l, lk_target l, lk_kind l)"

text \<open>\<open>INSERT ... ON CONFLICT DO NOTHING\<close>. An artifact is not linked to itself.\<close>

definition insert_link :: "link_row \<Rightarrow> artifact_data \<Rightarrow> err + artifact_data" where
  "insert_link l d =
     (if lk_source_type l = lk_target_type l \<and> lk_source l = lk_target l then Inl (EPg ''23514'')
      else if link_key l \<in> link_key ` set (ad_links d) then Inr d
      else if lk_project l \<notin> set (map pj_id (tb_projects (ad_core d))) \<or> lk_by l \<notin> set (map us_id (tb_users (ad_core d)))
      then Inl (EPg ''23503'')
      else Inr (sync_problems (if source_link l then {lk_target l} else {}) (d\<lparr>ad_links := ad_links d @ [l]\<rparr>)))"

section \<open>Statements on the shared tables\<close>

text \<open>An operation on the shared tables as one on all of them, in the same session.\<close>

definition on_core :: "((tables, 'z) session_scheme, 'a) eff \<Rightarrow> ((artifact_data, 'z) session_scheme, 'a) eff" where
  "on_core m s =
     (case m \<lparr>ss_data = ad_core (ss_data s), ss_tx = ss_tx s, ss_count = ss_count s, ss_fault = ss_fault s,
              \<dots> = session.more s\<rparr> of
        (r, t) \<Rightarrow> (r, \<lparr>ss_data = (ss_data s)\<lparr>ad_core := ss_data t\<rparr>, ss_tx = ss_tx t, ss_count = ss_count t,
                     ss_fault = ss_fault t, \<dots> = session.more t\<rparr>))"

end
