(* ===== verification/Artifact_Store.thy ===== *)
theory Artifact_Store
  imports Artifact_Tables
begin

text \<open>
  The shared helpers of the artifacts repository (\<open>internal/modules/artifacts/repo.go\<close>): the identity of the
  project, slugs, documents, links, assignees, the activity log and the default contents. The environment has
  what is not part of the repository: the cast of a text to uuid, \<open>to_char\<close> on times and on dates, the id a new
  row gets, and what the document driver makes of a content it stored and reads back.
\<close>

record artifact_env =
  rx_uuid :: uuid_cast
  rx_date :: "int \<Rightarrow> string"
  rx_day :: "nat \<times> nat \<times> nat \<Rightarrow> string"
  rx_new_id :: "artifact_data \<Rightarrow> string"
  rx_codec :: "amap \<Rightarrow> amap"

section \<open>Errors\<close>

definition wrap_artifacts :: "string \<Rightarrow> err \<Rightarrow> err" where
  "wrap_artifacts action e =
     (case app_node e of Some ae \<Rightarrow> ae
      | None \<Rightarrow> with_cause (app_new CodeInternal 500 ''failed to process artifacts data'') (EWrap action [e]))"

definition missing :: "string \<Rightarrow> err" where
  "missing what = app_new CodeNotFound 404 (what @ '' not found'')"

text \<open>The two ways an error of the store is told: no row is a 404, everything else is wrapped.\<close>

definition wrap_store :: "string \<Rightarrow> ('s, 'a) eff \<Rightarrow> ('s, 'a) eff" where
  "wrap_store action m = eff_map_err (wrap_artifacts action) m"

definition one_or_missing :: "string \<Rightarrow> string \<Rightarrow> ('s, 'a) eff \<Rightarrow> ('s, 'a) eff" where
  "one_or_missing what action m =
     eff_map_err (\<lambda>e. if err_is ''pgx.ErrNoRows'' e then missing what else wrap_artifacts action e) m"

section \<open>Strings and lists\<close>

fun firstNonEmpty :: "string list \<Rightarrow> string" where
  "firstNonEmpty [] = []"
| "firstNonEmpty (v # vs) = (if trim_space v \<noteq> [] then trim_space v else firstNonEmpty vs)"

definition normalizeUniqueStrings :: "string list \<Rightarrow> string list" where
  "normalizeUniqueStrings values = trim_unique (\<lambda>t. t) [] values"

definition stringSliceToAny :: "string list \<Rightarrow> any" where
  "stringSliceToAny values = ASlice (map AStr (normalizeUniqueStrings values))"

definition asStringSlice :: "any \<Rightarrow> string list" where
  "asStringSlice v =
     (case v of
        AStrs xs \<Rightarrow> filter (\<lambda>t. t \<noteq> []) (map trim_space xs)
      | ASlice xs \<Rightarrow> filter (\<lambda>t. t \<noteq> []) (map (\<lambda>x. trim_space (toString x)) xs)
      | AStr s \<Rightarrow> (if trim_space s = [] then [] else [trim_space s])
      | _ \<Rightarrow> [])"

text \<open>A slice of maps comes from the same code only as \<open>ASlice\<close>.\<close>

definition coerceAnySlice :: "any \<Rightarrow> any list option" where
  "coerceAnySlice v = (case v of ASlice xs \<Rightarrow> Some xs | _ \<Rightarrow> None)"

definition has_key :: "amap \<Rightarrow> string \<Rightarrow> bool" where
  "has_key m k \<longleftrightarrow> map_of m k \<noteq> None"

definition extractTaskAssigneeIDs :: "amap \<Rightarrow> string list option" where
  "extractTaskAssigneeIDs patch =
     (if has_key patch ''assignedToIds'' then Some (normalizeUniqueStrings (asStringSlice (mget patch ''assignedToIds'')))
      else if has_key patch ''assignedToId''
      then (let value = trim_space (toString (mget patch ''assignedToId'')) in Some (if value = [] then [] else [value]))
      else None)"

definition painCountOrSentinel :: "amap \<Rightarrow> int" where
  "painCountOrSentinel patch =
     (if has_key patch ''painPoints'' then int (countStringItems (toSlice (mget patch ''painPoints''))) else -1)"

definition hypothesisCountOrSentinel :: "amap \<Rightarrow> int" where
  "hypothesisCountOrSentinel patch =
     (if has_key patch ''hypothesis'' then int (countStringItems (toSlice (mget patch ''hypothesis''))) else -1)"

text \<open>\<open>time.Parse(\"2006-01-02\")\<close>: four, two and two digits, a month and a day of it.\<close>

definition days_in_month :: "nat \<Rightarrow> nat \<Rightarrow> nat" where
  "days_in_month y mo =
     (if mo = 2 then (if y mod 4 = 0 \<and> (y mod 100 \<noteq> 0 \<or> y mod 400 = 0) then 29 else 28)
      else if mo \<in> {4, 6, 9, 11} then 30 else 31)"

definition parse_day :: "string \<Rightarrow> (nat \<times> nat \<times> nat) option" where
  "parse_day s =
     (if length s \<noteq> 10 \<or> s ! 4 \<noteq> CHR ''-'' \<or> s ! 7 \<noteq> CHR ''-'' then None
      else case (parse_nat (take 4 s), parse_nat (take 2 (drop 5 s)), parse_nat (drop 8 s)) of
        (Some y, Some mo, Some dd) \<Rightarrow>
          if 1 \<le> mo \<and> mo \<le> 12 \<and> 1 \<le> dd \<and> dd \<le> days_in_month y mo then Some (y, mo, dd) else None
      | _ \<Rightarrow> None)"

section \<open>Projects, users and slugs\<close>

definition stmt_project :: "string \<Rightarrow> (artifact_data, string \<times> string) stmt" where
  "stmt_project ident d =
     Inr (take 1 (map (\<lambda>p. (pj_id p, pj_slug p)) (filter (\<lambda>p. pj_id p = ident) (tb_projects (ad_core d)))), d)"

text \<open>\<open>ResolveProjectIdentity\<close>: the id that the other statements use.\<close>

definition project_identity :: "string \<Rightarrow> string art" where
  "project_identity projectID =
     one_or_missing ''project'' ''resolve project identity''
       (RelationalQueryOne (stmt_project (trim_space projectID)) (\<lambda>(u, slug). Inr u))"

definition stmt_user_name :: "uuid_cast \<Rightarrow> string \<Rightarrow> (artifact_data, string) stmt" where
  "stmt_user_name uuid user d =
     sum_bind (cast_uuid uuid user) (\<lambda>u. Inr (map us_name (take 1 (filter (\<lambda>x. us_id x = u) (tb_users (ad_core d)))), d))"

definition resolveUserName :: "artifact_env \<Rightarrow> string \<Rightarrow> string art" where
  "resolveUserName env userID =
     one_or_missing ''user'' ''resolve user'' (RelationalQueryOne (stmt_user_name (rx_uuid env) (trim_space userID)) Inr)"

definition slugExists :: "artifact_env \<Rightarrow> string \<Rightarrow> string \<Rightarrow> string \<Rightarrow> bool art" where
  "slugExists env table project slug =
     wrap_store ''check slug exists'' (RelationalQueryOne (stmt_slug_exists (rx_uuid env) table project slug) Inr)"

text \<open>The loop of \<open>nextUniqueSlug\<close> over its rounds; the candidate of the next round has a number.\<close>

fun slug_rounds :: "(string \<Rightarrow> bool art) \<Rightarrow> string \<Rightarrow> string \<Rightarrow> nat list \<Rightarrow> string art" where
  "slug_rounds taken base slug [] = eff_throw (app_new CodeInternal 500 ''failed to allocate slug'')"
| "slug_rounds taken base slug (i # is) =
     eff_bind (taken slug) (\<lambda>exists.
       if exists then slug_rounds taken base (base @ ''-'' @ itoa (int i + 1)) is else eff_ret slug)"

definition nextUniqueSlug :: "artifact_env \<Rightarrow> string \<Rightarrow> string \<Rightarrow> string \<Rightarrow> string art" where
  "nextUniqueSlug env table project seed =
     (let base = slugify seed in slug_rounds (slugExists env table project) base base [1..<201])"

section \<open>Documents\<close>

definition documentCollectionByArtifactType :: "string \<Rightarrow> err + string" where
  "documentCollectionByArtifactType artifactType =
     (if artifactType \<in> {''story'', ''journey'', ''problem'', ''idea'', ''task'', ''feedback''}
      then Inr (artifactType @ ''_documents'') else Inl (bad_request ''unsupported artifact type''))"

definition tableByArtifactType :: "string \<Rightarrow> err + string" where
  "tableByArtifactType artifactType =
     (if artifactType = ''story'' then Inr ''stories'' else if artifactType = ''journey'' then Inr ''journeys''
      else if artifactType = ''problem'' then Inr ''problems'' else if artifactType = ''idea'' then Inr ''ideas''
      else if artifactType = ''task'' then Inr ''tasks'' else if artifactType = ''feedback'' then Inr ''feedback''
      else Inl (bad_request ''unsupported artifact type''))"

text \<open>The document on top of the fallback. A content that is no map would be skipped; what was stored is one.\<close>

definition overlay :: "amap \<Rightarrow> amap \<Rightarrow> amap" where
  "overlay base m = foldl (\<lambda>acc (k, v). AList.update k v acc) base m"

definition stored_content :: "artifact_env \<Rightarrow> document \<Rightarrow> amap" where
  "stored_content env doc = (case toMap (normalizeBSON (AMap (rx_codec env (dc_content doc)))) of None \<Rightarrow> [] | Some m \<Rightarrow> m)"

definition loadLatestContent :: "artifact_env \<Rightarrow> string \<Rightarrow> string \<Rightarrow> string \<Rightarrow> amap \<Rightarrow> amap art" where
  "loadLatestContent env project artifactType artifactID fallback =
     eff_bind (eff_lift (documentCollectionByArtifactType artifactType)) (\<lambda>collection.
     eff_case (mongo_find_one (\<lambda>x. dc_artifact x = artifactID \<and> dc_project x = project) (collection @ '':find_one''))
       (\<lambda>e. if err_is ''mongo.ErrNoDocuments'' e then eff_ret fallback else eff_throw (wrap_artifacts ''load latest content'' e))
       (\<lambda>doc. eff_ret (overlay fallback (stored_content env doc))))"

definition upsertDocument :: "artifact_env \<Rightarrow> string \<Rightarrow> string \<Rightarrow> string \<Rightarrow> int \<Rightarrow> string \<Rightarrow> amap \<Rightarrow> unit art" where
  "upsertDocument env project artifactType artifactID revision actorUserID content =
     eff_bind (eff_lift (documentCollectionByArtifactType artifactType)) (\<lambda>collection.
     eff_bind (loadLatestContent env project artifactType artifactID []) (\<lambda>existing.
     wrap_store ''upsert artifact document'' (\<lambda>s.
       mongo_update_one (\<lambda>x. dc_artifact x = artifactID)
         \<lparr>dc_artifact = artifactID, dc_project = project, dc_document = artifactType @ '':'' @ artifactID,
          dc_revision = revision, dc_updated = now (ss_data s), dc_updated_by = trim_space actorUserID,
          dc_content = MergeShallow existing (Some content)\<rparr>
         (collection @ '':update_one'') s)))"

section \<open>Activity and notifications\<close>

definition artifactLabel :: "string \<Rightarrow> string" where
  "artifactLabel artifactType =
     (if artifactType = ''story'' then ''Story'' else if artifactType = ''journey'' then ''Journey''
      else if artifactType = ''problem'' then ''Problem'' else if artifactType = ''idea'' then ''Idea''
      else if artifactType = ''task'' then ''Task'' else if artifactType = ''feedback'' then ''Feedback'' else artifactType)"

definition actorLabel :: "string \<Rightarrow> string" where
  "actorLabel name = (if trim_space name = [] then ''Someone'' else name)"

definition artifact_types :: "string list" where
  "artifact_types = [''story'', ''journey'', ''problem'', ''idea'', ''task'', ''feedback'', ''resource'', ''page'', ''calendar'']"

definition cast_artifact_type :: "string \<Rightarrow> err + string" where
  "cast_artifact_type t = (if t \<in> set artifact_types then Inr t else Inl (EPg ''22P02''))"

definition stmt_log :: "uuid_cast \<Rightarrow> string \<Rightarrow> string \<Rightarrow> string \<Rightarrow> string \<Rightarrow> string \<Rightarrow> string \<Rightarrow> (artifact_data, unit) stmt" where
  "stmt_log uuid project actor artifactType artifactID action payload d =
     sum_bind (cast_uuid uuid project) (\<lambda>p. sum_bind (cast_uuid uuid actor) (\<lambda>a.
     sum_bind (cast_artifact_type artifactType) (\<lambda>t. sum_bind (cast_uuid uuid artifactID) (\<lambda>i.
       if trim_space action = [] then Inl (EPg ''23514'')
       else if p \<notin> set (map pj_id (tb_projects (ad_core d))) \<or> a \<notin> set (map us_id (tb_users (ad_core d))) then Inl (EPg ''23503'')
       else Inr ([], d\<lparr>ad_log := ad_log d @ [\<lparr>ay_project = p, ay_actor = a, ay_type = t, ay_artifact = i,
                                         ay_action = action, ay_payload = payload\<rparr>]\<rparr>)))))"

text \<open>Best effort: the errors are dropped, but a statement that fails inside a transaction aborts it.\<close>

definition logActivity :: "artifact_env \<Rightarrow> string \<Rightarrow> string \<Rightarrow> string \<Rightarrow> string \<Rightarrow> string \<Rightarrow> amap \<Rightarrow> unit art" where
  "logActivity env project actorUserID artifactType artifactID action payload =
     (case json_any (AMap payload) of None \<Rightarrow> eff_ret ()
      | Some bytes \<Rightarrow> eff_ignore (RelationalExec
          (stmt_log (rx_uuid env) project (trim_space actorUserID) artifactType artifactID action bytes)))"

definition in_quotes :: "string \<Rightarrow> string" where
  "in_quotes s = [CHR 0xE2, CHR 0x80, CHR 0x9C] @ s @ [CHR 0xE2, CHR 0x80, CHR 0x9D]"

definition created_event :: "string \<Rightarrow> string \<Rightarrow> string \<Rightarrow> string \<Rightarrow> string \<Rightarrow> string \<Rightarrow> string \<Rightarrow> event" where
  "created_event project actorUserID actorName artifactType artifactID title gate =
     \<lparr>ev_project = project, ev_actor = actorUserID, ev_source_type = ''Project Activity'', ev_gate = gate,
      ev_title = ''New '' @ artifactLabel artifactType @ '' created'',
      ev_message = actorLabel actorName @ '' created '' @ artifactLabel artifactType @ '' '' @ in_quotes title,
      ev_source_id = artifactID, ev_recipients = []\<rparr>"

definition recordArtifactCreated ::
  "artifact_env \<Rightarrow> string \<Rightarrow> string \<Rightarrow> string \<Rightarrow> string \<Rightarrow> string \<Rightarrow> string \<Rightarrow> string \<Rightarrow> unit art" where
  "recordArtifactCreated env project actorUserID actorName artifactType artifactID title gate =
     eff_bind (logActivity env project actorUserID artifactType artifactID (''created '' @ artifactLabel artifactType)
       [(''artifact'', AStr title)]) (\<lambda>_.
     eff_ignore (on_core (Publish (rx_uuid env) (created_event project actorUserID actorName artifactType artifactID title gate))))"

definition recordArtifactUpdated :: "artifact_env \<Rightarrow> string \<Rightarrow> string \<Rightarrow> string \<Rightarrow> string \<Rightarrow> string \<Rightarrow> unit art" where
  "recordArtifactUpdated env project actorUserID artifactType artifactID title =
     logActivity env project actorUserID artifactType artifactID (''updated '' @ artifactLabel artifactType)
       [(''artifact'', AStr title)]"

section \<open>Links\<close>

definition resolveArtifactIDByIdentifier :: "artifact_env \<Rightarrow> string \<Rightarrow> string \<Rightarrow> string \<Rightarrow> string art" where
  "resolveArtifactIDByIdentifier env project artifactType identifier =
     eff_bind (eff_lift (tableByArtifactType artifactType)) (\<lambda>table.
     one_or_missing artifactType ''resolve artifact identifier''
       (RelationalQueryOne (stmt_resolve (rx_uuid env) table project (trim_space identifier)) Inr))"

definition stmt_delete_links :: "uuid_cast \<Rightarrow> string \<Rightarrow> string \<Rightarrow> string \<Rightarrow> string list \<Rightarrow> (artifact_data, unit) stmt" where
  "stmt_delete_links uuid project targetType target sources d =
     sum_bind (cast_uuid uuid project) (\<lambda>p. sum_bind (cast_uuid uuid target) (\<lambda>t.
       Inr ([], delete_links (\<lambda>l. lk_project l = p \<and> lk_target_type l = targetType \<and> lk_target l = t
                                \<and> lk_source_type l \<in> set sources) d)))"

definition stmt_insert_link ::
  "uuid_cast \<Rightarrow> string \<Rightarrow> string \<Rightarrow> string \<Rightarrow> string \<Rightarrow> string \<Rightarrow> string \<Rightarrow> string \<Rightarrow> (artifact_data, unit) stmt" where
  "stmt_insert_link uuid project sourceType source targetType target kind actor d =
     sum_bind (cast_uuid uuid project) (\<lambda>p. sum_bind (cast_artifact_type sourceType) (\<lambda>st. sum_bind (cast_uuid uuid source) (\<lambda>s.
     sum_bind (cast_artifact_type targetType) (\<lambda>tt. sum_bind (cast_uuid uuid target) (\<lambda>t. sum_bind (cast_uuid uuid actor) (\<lambda>a.
     sum_bind (insert_link \<lparr>lk_project = p, lk_source_type = st, lk_source = s, lk_target_type = tt, lk_target = t,
        lk_kind = kind, lk_by = a, lk_created = now d\<rparr> d) (\<lambda>d'. Inr ([], d'))))))))"

definition check_status :: "artifact_env \<Rightarrow> string \<Rightarrow> string \<Rightarrow> string \<Rightarrow> string \<Rightarrow> string \<Rightarrow> string \<Rightarrow> string \<Rightarrow> unit art" where
  "check_status env table what action wanted refusal project ident =
     eff_bind (one_or_missing what action (RelationalQueryOne (stmt_status (rx_uuid env) table project ident) Inr)) (\<lambda>status.
     eff_guard (\<not> equal_fold (trim_space status) wanted) (bad_request refusal))"

definition ensureProblemLocked :: "artifact_env \<Rightarrow> string \<Rightarrow> string \<Rightarrow> unit art" where
  "ensureProblemLocked env = check_status env ''problems'' ''problem'' ''check problem status'' ''Locked''
     ''idea must link to a locked problem''"

definition ensureIdeaSelectedForTask :: "artifact_env \<Rightarrow> string \<Rightarrow> string \<Rightarrow> unit art" where
  "ensureIdeaSelectedForTask env = check_status env ''ideas'' ''idea'' ''check idea status'' ''Selected''
     ''task must link to a selected idea''"

definition ensureProblemSourceLocked :: "artifact_env \<Rightarrow> string \<Rightarrow> string \<Rightarrow> string \<Rightarrow> unit art" where
  "ensureProblemSourceLocked env project artifactType artifactID =
     (if trim_space artifactType = ''story''
      then check_status env ''stories'' ''linked source'' ''check linked source status'' ''Locked'' ''problem sources must be locked'' project artifactID
      else if trim_space artifactType = ''journey''
      then check_status env ''journeys'' ''linked source'' ''check linked source status'' ''Locked'' ''problem sources must be locked'' project artifactID
      else eff_throw (bad_request ''unsupported linked source type''))"

definition link_problem_source :: "artifact_env \<Rightarrow> string \<Rightarrow> string \<Rightarrow> string \<Rightarrow> any \<Rightarrow> unit art" where
  "link_problem_source env project problemID actorUserID raw =
     (case toMap raw of None \<Rightarrow> eff_throw (bad_request ''linked source entry must be an object'')
      | Some item \<Rightarrow>
        (case normalizeArtifactType (firstNonEmpty [toString (mget item ''artifactType''), toString (mget item ''type'')]) of
           Some normalized \<Rightarrow>
             if normalized \<noteq> ''story'' \<and> normalized \<noteq> ''journey''
             then eff_throw (bad_request ''linked source type must be story or journey'')
             else if toString (mget item ''id'') = [] then eff_throw (bad_request ''linked source id is required'')
             else eff_bind (resolveArtifactIDByIdentifier env project normalized (toString (mget item ''id''))) (\<lambda>sourceID.
               eff_bind (ensureProblemSourceLocked env project normalized sourceID) (\<lambda>_.
               wrap_store ''insert problem source link'' (RelationalExec
                 (stmt_insert_link (rx_uuid env) project normalized sourceID ''problem'' problemID ''reference'' (trim_space actorUserID)))))
         | None \<Rightarrow> eff_throw (bad_request ''linked source type must be story or journey'')))"

definition replaceProblemSourceLinks :: "artifact_env \<Rightarrow> string \<Rightarrow> string \<Rightarrow> string \<Rightarrow> any list \<Rightarrow> unit art" where
  "replaceProblemSourceLinks env project problemID actorUserID linkedSources =
     eff_bind (wrap_store ''clear problem source links''
       (RelationalExec (stmt_delete_links (rx_uuid env) project ''problem'' problemID [''story'', ''journey'']))) (\<lambda>_.
     eff_each (link_problem_source env project problemID actorUserID) linkedSources)"

definition replacePrimaryLink :: "artifact_env \<Rightarrow> string \<Rightarrow> string \<Rightarrow> string \<Rightarrow> string \<Rightarrow> string \<Rightarrow> string \<Rightarrow> unit art" where
  "replacePrimaryLink env project sourceType sourceID targetType targetID actorUserID =
     eff_bind (wrap_store ''clear primary link''
       (RelationalExec (stmt_delete_links (rx_uuid env) project targetType targetID [sourceType]))) (\<lambda>_.
     wrap_store ''insert primary link'' (RelationalExec
       (stmt_insert_link (rx_uuid env) project sourceType sourceID targetType targetID ''primary'' (trim_space actorUserID))))"

text \<open>The links of a feedback in the order of the patch, with the first task among them; entries that are no task, idea
  or problem with an id are skipped.\<close>

fun feedback_links :: "artifact_env \<Rightarrow> string \<Rightarrow> any list \<Rightarrow> string option \<Rightarrow> (string \<times> string) list
    \<Rightarrow> (string option \<times> (string \<times> string) list) art" where
  "feedback_links env project [] primary links = eff_ret (primary, links)"
| "feedback_links env project (raw # rest) primary links =
     (case toMap raw of None \<Rightarrow> feedback_links env project rest primary links
      | Some item \<Rightarrow>
        (case normalizeArtifactType (firstNonEmpty [toString (mget item ''type''), toString (mget item ''artifactType'')]) of
           None \<Rightarrow> feedback_links env project rest primary links
         | Some normalized \<Rightarrow>
             if normalized \<noteq> ''task'' \<and> normalized \<noteq> ''idea'' \<and> normalized \<noteq> ''problem''
             then feedback_links env project rest primary links
             else if toString (mget item ''id'') = [] then feedback_links env project rest primary links
             else eff_bind (resolveArtifactIDByIdentifier env project normalized (toString (mget item ''id''))) (\<lambda>resolvedID.
               feedback_links env project rest
                 (if normalized = ''task'' \<and> primary = None then Some resolvedID else primary)
                 (links @ [(normalized, resolvedID)]))))"

definition resolveFeedbackLinks :: "artifact_env \<Rightarrow> string \<Rightarrow> any list \<Rightarrow> (string option \<times> (string \<times> string) list) art" where
  "resolveFeedbackLinks env project linkedArtifacts = feedback_links env project linkedArtifacts None []"

definition replaceFeedbackLinks :: "artifact_env \<Rightarrow> string \<Rightarrow> string \<Rightarrow> string \<Rightarrow> (string \<times> string) list \<Rightarrow> unit art" where
  "replaceFeedbackLinks env project feedbackID actorUserID links =
     eff_bind (wrap_store ''clear feedback links''
       (RelationalExec (stmt_delete_links (rx_uuid env) project ''feedback'' feedbackID [''task'', ''idea'', ''problem'']))) (\<lambda>_.
     eff_each (\<lambda>(linkType, linkID). wrap_store ''insert feedback link'' (RelationalExec
       (stmt_insert_link (rx_uuid env) project linkType linkID ''feedback'' feedbackID ''reference'' (trim_space actorUserID)))) links)"

definition stmt_count_ideas :: "uuid_cast \<Rightarrow> string \<Rightarrow> string \<Rightarrow> (artifact_data, int) stmt" where
  "stmt_count_ideas uuid project problem d =
     sum_bind (cast_uuid uuid project) (\<lambda>p. sum_bind (cast_uuid uuid problem) (\<lambda>i.
       Inr ([int (length (filter (\<lambda>r. af_project r = p \<and> id_problem r = Some i) (ad_ideas d)))], d)))"

definition countIdeasForProblem :: "artifact_env \<Rightarrow> string \<Rightarrow> string \<Rightarrow> int art" where
  "countIdeasForProblem env project problemID =
     wrap_store ''count ideas'' (RelationalQueryOne (stmt_count_ideas (rx_uuid env) project problemID) Inr)"

end
