(* ===== verification/Artifact_Content.thy ===== *)
theory Artifact_Content
  imports Artifact_Store
begin

text \<open>
  The assignees of tasks, the options a page offers, and the default contents of new artifacts
  (\<open>internal/modules/artifacts/repo.go\<close>).
\<close>

section \<open>Assignees\<close>

definition stmt_assignee_ids :: "uuid_cast \<Rightarrow> string \<Rightarrow> string \<Rightarrow> (artifact_data, string) stmt" where
  "stmt_assignee_ids uuid project task d =
     sum_bind (cast_uuid uuid project) (\<lambda>p. sum_bind (cast_uuid uuid task) (\<lambda>t.
       Inr (map an_user (sort_key an_at (sort_key an_user
              (filter (\<lambda>a. an_project a = p \<and> an_task a = t) (ad_assignees d)))), d)))"

definition listTaskAssigneeIDs :: "artifact_env \<Rightarrow> string \<Rightarrow> string \<Rightarrow> string list art" where
  "listTaskAssigneeIDs env project taskID =
     eff_bind (wrap_store ''list task assignees'' (RelationalQueryMany (stmt_assignee_ids (rx_uuid env) project taskID)
       (\<lambda>u ids. Inr (if trim_space u \<noteq> [] then ids @ [trim_space u] else ids)) [])) (\<lambda>ids.
     eff_ret (normalizeUniqueStrings ids))"

text \<open>The active members and the owner of a project, each once: the owner as owner. A project has one membership
  per user, so \<open>MIN(role)\<close> is over one role.\<close>

definition assignable :: "artifact_data \<Rightarrow> string \<Rightarrow> (string \<times> string) list" where
  "assignable d p =
     map (\<lambda>m. (mb_user m, mb_role m)) (filter (\<lambda>m. mb_project m = p \<and> mb_status m = ''Active'') (tb_members (ad_core d)))
     @ map (\<lambda>(_, u). (u, ''Owner'')) (filter (\<lambda>(q, _). q = p) (ad_owners d))"

definition role_in :: "(string \<times> string) list \<Rightarrow> string \<Rightarrow> string" where
  "role_in rs u = (if (u, ''Owner'') \<in> set rs then ''Owner'' else snd (hd (filter (\<lambda>x. fst x = u) rs)))"

definition stmt_assignee_options :: "uuid_cast \<Rightarrow> string \<Rightarrow> (artifact_data, string \<times> string \<times> string) stmt" where
  "stmt_assignee_options uuid project d =
     sum_bind (cast_uuid uuid project) (\<lambda>p. let rs = assignable d p in
       Inr (sort_key (\<lambda>(_, _, r). if r = ''Owner'' then 0 else 1 :: nat) (sort_key (\<lambda>(_, n, _). n)
              (concat (map (\<lambda>u. case owner_of d u of None \<Rightarrow> [] | Some x \<Rightarrow> [(u, us_name x, role_in rs u)])
                 (remdups (map fst rs))))), d))"

definition assignee_option :: "string \<times> string \<times> string \<Rightarrow> any list \<Rightarrow> err + any list" where
  "assignee_option = (\<lambda>(userID, name, role) options.
     Inr (if trim_space userID = [] \<or> trim_space name = [] then options
          else options @ [AMap [(''id'', AStr (trim_space userID)), (''name'', AStr (trim_space name)),
                 (''role'', AStr (if trim_space role = [] then ''Member'' else trim_space role))]]))"

definition listTaskAssigneeOptions :: "artifact_env \<Rightarrow> string \<Rightarrow> any list art" where
  "listTaskAssigneeOptions env project =
     wrap_store ''list task assignee options''
       (RelationalQueryMany (stmt_assignee_options (rx_uuid env) project) assignee_option [])"

definition stmt_active_members :: "uuid_cast \<Rightarrow> string \<Rightarrow> string list \<Rightarrow> (artifact_data, string) stmt" where
  "stmt_active_members uuid project ids d =
     sum_bind (cast_uuid uuid project) (\<lambda>p.
       Inr (remdups (filter (\<lambda>u. u \<in> set ids) (map fst (assignable d p))), d))"

definition resolveActiveProjectMemberIDs :: "artifact_env \<Rightarrow> string \<Rightarrow> string list \<Rightarrow> string list art" where
  "resolveActiveProjectMemberIDs env project userIDs =
     (let uniqueIDs = normalizeUniqueStrings userIDs in
      if uniqueIDs = [] then eff_ret []
      else eff_bind (wrap_store ''resolve active project members''
             (RelationalQueryMany (stmt_active_members (rx_uuid env) project uniqueIDs) (\<lambda>u act. Inr (act @ [trim_space u])) [])) (\<lambda>act.
           eff_bind (eff_guard (\<not> set uniqueIDs \<subseteq> set act) (bad_request ''assignee must be an active project member'')) (\<lambda>_.
           eff_ret uniqueIDs)))"

definition stmt_clear_assignees :: "uuid_cast \<Rightarrow> string \<Rightarrow> string \<Rightarrow> (artifact_data, unit) stmt" where
  "stmt_clear_assignees uuid project task d =
     sum_bind (cast_uuid uuid project) (\<lambda>p. sum_bind (cast_uuid uuid task) (\<lambda>t.
       Inr ([], d\<lparr>ad_assignees := filter (\<lambda>a. \<not> (an_project a = p \<and> an_task a = t)) (ad_assignees d)\<rparr>)))"

text \<open>\<open>ON CONFLICT (task_id, user_id) DO UPDATE SET assigned_at, assigned_by_user_id\<close>.\<close>

definition stmt_assign :: "uuid_cast \<Rightarrow> string \<Rightarrow> string \<Rightarrow> string \<Rightarrow> string \<Rightarrow> (artifact_data, unit) stmt" where
  "stmt_assign uuid task project user actor d =
     sum_bind (cast_uuid uuid task) (\<lambda>t. sum_bind (cast_uuid uuid project) (\<lambda>p. sum_bind (cast_uuid uuid user) (\<lambda>u.
     sum_bind (cast_uuid_opt uuid actor) (\<lambda>a.
       let hit = (\<lambda>x. an_task x = t \<and> an_user x = u); users = set (map us_id (tb_users (ad_core d))) in
       if t \<notin> set (map af_id (ad_tasks d)) \<or> p \<notin> set (map pj_id (tb_projects (ad_core d))) \<or> u \<notin> users
          \<or> (case a of None \<Rightarrow> False | Some x \<Rightarrow> x \<notin> users) then Inl (EPg ''23503'')
       else if list_ex hit (ad_assignees d)
       then Inr ([], d\<lparr>ad_assignees := map (\<lambda>x. if hit x then x\<lparr>an_at := now d, an_by := a\<rparr> else x) (ad_assignees d)\<rparr>)
       else Inr ([], d\<lparr>ad_assignees := ad_assignees d
                        @ [\<lparr>an_task = t, an_project = p, an_user = u, an_by = a, an_at = now d\<rparr>]\<rparr>)))))"

definition stmt_task_title :: "uuid_cast \<Rightarrow> string \<Rightarrow> string \<Rightarrow> (artifact_data, string) stmt" where
  "stmt_task_title uuid task project d =
     sum_bind (cast_uuid uuid task) (\<lambda>t. sum_bind (cast_uuid uuid project) (\<lambda>p.
       Inr (take 1 (map af_title (filter (\<lambda>r. af_id r = t \<and> af_project r = p) (ad_tasks d))), d)))"

definition assigned_event :: "string \<Rightarrow> string \<Rightarrow> string \<Rightarrow> string \<Rightarrow> string \<Rightarrow> string list \<Rightarrow> event" where
  "assigned_event project actorUserID actorName title taskID recipients =
     \<lparr>ev_project = project, ev_actor = actorUserID, ev_source_type = ''Project Activity'', ev_gate = ''notify_task_assigned'',
      ev_title = ''Task assigned to you'', ev_message = actorLabel actorName @ '' assigned you to '' @ in_quotes title,
      ev_source_id = taskID, ev_recipients = recipients\<rparr>"

definition or_blank :: "string art \<Rightarrow> string art" where
  "or_blank m = eff_case m (\<lambda>_. eff_ret []) eff_ret"

definition notifyTaskAssigned :: "artifact_env \<Rightarrow> string \<Rightarrow> string \<Rightarrow> string \<Rightarrow> string list \<Rightarrow> unit art" where
  "notifyTaskAssigned env project actorUserID taskID assigneeUserIDs =
     (if assigneeUserIDs = [] then eff_ret ()
      else eff_bind (or_blank (RelationalQueryOne (stmt_task_title (rx_uuid env) taskID project) Inr)) (\<lambda>title.
           eff_bind (or_blank (resolveUserName env actorUserID)) (\<lambda>actorName.
           eff_ignore (on_core (Publish (rx_uuid env) (assigned_event project actorUserID actorName
             (if trim_space title = [] then ''a task'' else title) taskID assigneeUserIDs))))))"

definition replaceTaskAssignees :: "artifact_env \<Rightarrow> string \<Rightarrow> string \<Rightarrow> string \<Rightarrow> string list \<Rightarrow> unit art" where
  "replaceTaskAssignees env project taskID actorUserID assigneeUserIDs =
     eff_bind (listTaskAssigneeIDs env project taskID) (\<lambda>existing.
     eff_bind (wrap_store ''clear task assignees'' (RelationalExec (stmt_clear_assignees (rx_uuid env) project taskID))) (\<lambda>_.
     let wanted = normalizeUniqueStrings assigneeUserIDs in
     eff_bind (eff_each (\<lambda>userID. wrap_store ''insert task assignee''
       (RelationalExec (stmt_assign (rx_uuid env) taskID project userID (trim_space actorUserID)))) wanted) (\<lambda>_.
     notifyTaskAssigned env project actorUserID taskID (filter (\<lambda>u. u \<notin> set existing) wanted))))"

section \<open>Options\<close>

definition project_href :: "string \<Rightarrow> string \<Rightarrow> string \<Rightarrow> string" where
  "project_href project path ident = ''/project/'' @ project @ ''/'' @ path @ ''/'' @ ident"

definition stmt_locked_problems :: "uuid_cast \<Rightarrow> string \<Rightarrow> (artifact_data, problem_row) stmt" where
  "stmt_locked_problems uuid project d =
     sum_bind (cast_uuid uuid project) (\<lambda>p.
       Inr (take 200 (newest_first (filter (\<lambda>r. af_project r = p \<and> af_status r = ''Locked'') (ad_problems d))), d))"

definition listLockedProblemOptions :: "artifact_env \<Rightarrow> string \<Rightarrow> any list art" where
  "listLockedProblemOptions env project =
     wrap_store ''list locked problem options'' (RelationalQueryMany (stmt_locked_problems (rx_uuid env) project)
       (\<lambda>r options. Inr (if trim_space (af_id r) = [] \<or> trim_space (af_title r) = [] then options
          else options @ [AMap [(''id'', AStr (af_id r)), (''title'', AStr (trim_space (af_title r))), (''phase'', AStr ''Define''),
                 (''href'', AStr (project_href project ''problems'' (af_id r))), (''status'', AStr (trim_space (af_status r)))]])) [])"

text \<open>The first source link of a problem, by age, with the story or journey it names (\<open>LEFT JOIN LATERAL\<close>).\<close>

definition find_row :: "'x artifact_row_scheme list \<Rightarrow> string \<Rightarrow> 'x artifact_row_scheme option" where
  "find_row rows i = find (\<lambda>r. af_id r = i) rows"

definition first_source :: "artifact_data \<Rightarrow> string \<Rightarrow> string \<Rightarrow> (string \<times> artifact_row option) option" where
  "first_source d p problem =
     (case sort_key lk_created (filter (\<lambda>l. lk_project l = p \<and> source_link l \<and> lk_target l = problem) (ad_links d)) of
        [] \<Rightarrow> None
      | l # _ \<Rightarrow> Some (lk_source_type l,
          find_row (if lk_source_type l = ''story'' then map artifact_row.truncate (ad_stories d)
                    else map artifact_row.truncate (ad_journeys d)) (lk_source l)))"

definition stmt_idea_options ::
  "uuid_cast \<Rightarrow> string \<Rightarrow> (artifact_data, idea_row \<times> problem_row \<times> (string \<times> artifact_row option) option) stmt" where
  "stmt_idea_options uuid project d =
     sum_bind (cast_uuid uuid project) (\<lambda>p.
       Inr (take 200 (concat (map (\<lambda>i. case Option.bind (id_problem i) (find_row (ad_problems d)) of None \<Rightarrow> []
              | Some r \<Rightarrow> [(i, r, first_source d p (af_id r))])
            (newest_first (filter (\<lambda>i. af_project i = p \<and> af_status i = ''Selected'') (ad_ideas d))))), d))"

definition source_columns :: "(string \<times> artifact_row option) option \<Rightarrow> string \<times> string \<times> string \<times> string" where
  "source_columns src =
     (case src of None \<Rightarrow> ([], [], [], []) | Some (t, None) \<Rightarrow> (t, [], [], [])
      | Some (t, Some r) \<Rightarrow> (t, af_id r, af_title r, af_status r))"

definition idea_option ::
  "string \<Rightarrow> idea_row \<times> problem_row \<times> (string \<times> artifact_row option) option \<Rightarrow> any list \<Rightarrow> err + any list" where
  "idea_option project = (\<lambda>(i, r, src) options.
     let (sourceType, sourceID, sourceTitle, sourceStatus) = source_columns src;
         ideaIdentifier = trim_space (af_id i); problemIdentifier = trim_space (af_id r);
         journey = equal_fold (trim_space sourceType) ''journey'';
         contextIdentifier = trim_space sourceID in
     Inr (if ideaIdentifier = [] \<or> problemIdentifier = [] then options
       else options @ [AMap
        [(''id'', AStr ideaIdentifier), (''title'', AStr (trim_space (af_title i))), (''phase'', AStr ''Ideate''),
         (''href'', AStr (project_href project ''ideas'' ideaIdentifier)), (''status'', AStr ''Active''),
         (''problem'', AMap [(''id'', AStr problemIdentifier), (''title'', AStr (trim_space (af_title r))), (''phase'', AStr ''Define''),
            (''href'', AStr (project_href project ''problems'' problemIdentifier)), (''status'', AStr (trim_space (af_status r)))]),
         (''context'', AMap [(''type'', AStr (if journey then ''User Journey'' else ''Persona'')),
            (''title'', AStr (if trim_space sourceTitle = [] then trim_space (af_title r) else trim_space sourceTitle)),
            (''detail'', AStr []), (''phase'', AStr ''Empathize''),
            (''href'', AStr (if contextIdentifier \<noteq> []
               then project_href project (if journey then ''journeys'' else ''stories'') contextIdentifier
               else project_href project ''problems'' problemIdentifier)),
            (''status'', AStr (if equal_fold (trim_space sourceStatus) ''Archived'' then ''Archived'' else ''Active''))])]]))"

definition listTaskIdeaOptions :: "artifact_env \<Rightarrow> string \<Rightarrow> any list art" where
  "listTaskIdeaOptions env project =
     wrap_store ''list task idea options''
       (RelationalQueryMany (stmt_idea_options (rx_uuid env) project) (idea_option project) [])"

section \<open>Default contents\<close>

definition empty_persona :: any where
  "empty_persona = AMap [(''name'', AStr []), (''bio'', AStr []), (''role'', AStr []), (''age'', AInt 0), (''job'', AStr []), (''edu'', AStr [])]"

definition defaultStoryContent :: "string \<Rightarrow> amap" where
  "defaultStoryContent title =
     [(''title'', AStr title), (''description'', AStr []), (''status'', AStr ''draft''), (''persona'', empty_persona), (''context'', AStr []),
      (''empathyMap'', AMap [(''says'', AStr []), (''thinks'', AStr []), (''does'', AStr []), (''feels'', AStr [])]),
      (''painPoints'', ASlice []), (''hypothesis'', ASlice []), (''addOnSections'', ASlice []), (''notes'', AStr [])]"

definition add_on :: "string \<Rightarrow> string \<Rightarrow> string \<Rightarrow> string \<Rightarrow> any" where
  "add_on ty name description tag = AMap [(''type'', AStr ty), (''name'', AStr name), (''description'', AStr description), (''tag'', AStr tag)]"

definition storyAddOnCatalog :: any where
  "storyAddOnCatalog = ASlice
     [add_on ''goals_success'' ''Goals & Success Criteria'' ''Define what success looks like from the user's perspective.'' ''Recommended'',
      add_on ''jtbd'' ''Jobs To Be Done (JTBD)'' ''Capture functional, supporting, and emotional jobs.'' ''Recommended'',
      add_on ''assumptions'' ''Assumptions'' ''Make hidden assumptions explicit.'' ''Optional'',
      add_on ''constraints'' ''Constraints'' ''Capture environmental, technical, or behavioral limits.'' ''Optional'',
      add_on ''risks_unknowns'' ''Risks & Unknowns'' ''Identify uncertainty early.'' ''Recommended'',
      add_on ''evidence'' ''Evidence / Research References'' ''Ground the story in data and references.'' ''Optional'',
      add_on ''scenarios'' ''Scenarios / Edge Cases'' ''Capture non-happy paths and expectations.'' ''Optional'']"

definition defaultJourneyContent :: "string \<Rightarrow> amap" where
  "defaultJourneyContent title =
     [(''title'', AStr title), (''description'', AStr []), (''status'', AStr ''draft''), (''persona'', empty_persona), (''context'', AStr []),
      (''stages'', ASlice []), (''notes'', AStr [])]"

definition defaultProblemContent :: "string \<Rightarrow> amap" where
  "defaultProblemContent statement =
     [(''title'', AStr statement), (''finalStatement'', AStr []), (''selectedPainPoints'', ASlice []), (''linkedSources'', ASlice []),
      (''activeModules'', ASlice []), (''moduleContent'', AMap []), (''notes'', AStr [])]"

definition defaultIdeaContent :: "string \<Rightarrow> amap" where
  "defaultIdeaContent title =
     [(''description'', AStr []), (''status'', AStr ''Considered''), (''summary'', AStr []), (''notes'', AStr []), (''selectedProblemId'', AStr []),
      (''activeModules'', ASlice []), (''moduleContent'', AMap []), (''title'', AStr title)]"

definition defaultTaskContent :: "string \<Rightarrow> amap" where
  "defaultTaskContent title =
     [(''assignedToId'', AStr []), (''assignedToIds'', ASlice []), (''selectedIdeaId'', AStr []), (''deadline'', AStr []), (''hypothesis'', AStr []),
      (''planItems'', ASlice []), (''executionLinks'', ASlice []), (''notes'', AStr []), (''activeModules'', ASlice []), (''abandonReason'', AStr []),
      (''title'', AStr title)]"

definition defaultFeedbackContent :: "string \<Rightarrow> amap" where
  "defaultFeedbackContent title =
     [(''description'', AStr []), (''status'', AStr ''Active''), (''outcome'', AStr ''Needs Iteration''), (''linkedArtifacts'', ASlice []),
      (''activeModules'', ASlice []), (''moduleContent'', AMap []), (''notes'', AStr []), (''title'', AStr title)]"

end
