(* ===== verification/Artifact_Repo.thy ===== *)
theory Artifact_Repo
  imports Artifact_Content Artifact_Service
begin

text \<open>
  The artifacts repository (\<open>internal/modules/artifacts/repo.go\<close>) for the six kinds of artifacts: list, create,
  get and update, each over one or a few statements, its document and its entry in the activity log. The maps
  these methods return are the \<open>amap\<close>s of \<open>Artifact_Service\<close>; a \<open>[]string\<close> is an \<open>AStrs\<close>.
\<close>

definition list_rows :: "string \<Rightarrow> (artifact_data, amap) stmt \<Rightarrow> amap list art" where
  "list_rows action st = wrap_store action (RelationalQueryMany st (\<lambda>item items. Inr (items @ [item])) [])"

definition metadata_map :: "string \<Rightarrow> string \<Rightarrow> string \<Rightarrow> any" where
  "metadata_map owner created updated =
     AMap [(''owner'', AStr owner), (''createdBy'', AStr owner), (''createdAt'', AStr created), (''lastEditedBy'', AStr owner),
           (''lastEditedAt'', AStr updated), (''lastUpdated'', AStr updated)]"

text \<open>The steps shared by the creation of every kind: project, slug, owner, then the row.\<close>

definition create_row ::
  "artifact_env \<Rightarrow> string \<Rightarrow> string \<Rightarrow> string \<Rightarrow> string \<Rightarrow> string \<Rightarrow> (string \<Rightarrow> string \<Rightarrow> (artifact_data, 'r) stmt)
     \<Rightarrow> (string \<Rightarrow> string \<Rightarrow> 'r \<Rightarrow> amap art) \<Rightarrow> amap art" where
  "create_row env table action projectID actorUserID title new_row finish =
     eff_bind (project_identity projectID) (\<lambda>project.
     eff_bind (nextUniqueSlug env table project title) (\<lambda>slug.
     eff_bind (resolveUserName env actorUserID) (\<lambda>ownerName.
     eff_bind (wrap_store action (RelationalQueryOne (new_row project slug) Inr)) (\<lambda>row.
     finish project ownerName row))))"

text \<open>The new row of an artifact: everything the statements set and the defaults of the schema.\<close>

definition new_artifact :: "artifact_env \<Rightarrow> string \<Rightarrow> string \<Rightarrow> string \<Rightarrow> string \<Rightarrow> string \<Rightarrow> artifact_data \<Rightarrow> artifact_row" where
  "new_artifact env p slug title owner status d =
     \<lparr>af_id = rx_new_id env d, af_project = p, af_slug = slug, af_title = title, af_owner = owner, af_status = status,
      af_orphan = True, af_created = now d, af_updated = now d, af_revision = 1\<rparr>"

definition stmt_insert ::
  "artifact_env \<Rightarrow> string \<Rightarrow> string \<Rightarrow> string \<Rightarrow> string \<Rightarrow> string \<Rightarrow> (artifact_data \<Rightarrow> 'x artifact_row_scheme list)
     \<Rightarrow> ('x artifact_row_scheme list \<Rightarrow> artifact_data \<Rightarrow> artifact_data) \<Rightarrow> (artifact_data \<Rightarrow> artifact_row \<Rightarrow> 'x artifact_row_scheme)
     \<Rightarrow> (artifact_data, 'x artifact_row_scheme) stmt" where
  "stmt_insert env project slug title actor status rows put build d =
     sum_bind (cast_uuid (rx_uuid env) project) (\<lambda>p. sum_bind (cast_uuid (rx_uuid env) (trim_space actor)) (\<lambda>u.
       let row = build d (new_artifact env p slug (trim_space title) u status d) in
       sum_bind (insert_artifact row (rows d) d) (\<lambda>rows'. Inr ([row], put rows' d))))"

section \<open>Stories\<close>

definition story_item :: "artifact_env \<Rightarrow> story_row \<Rightarrow> string \<Rightarrow> amap" where
  "story_item env r owner =
     [(''id'', AStr (af_id r)), (''title'', AStr (af_title r)),
      (''personaName'', AStr (case sy_persona r of None \<Rightarrow> [] | Some n \<Rightarrow> n)), (''painPointsCount'', AInt (sy_pains r)),
      (''problemHypothesesCount'', AInt (sy_hypotheses r)), (''owner'', AStr owner), (''lastUpdated'', AStr (rx_date env (af_updated r))),
      (''status'', AStr (af_status r)), (''isOrphan'', ABool (af_orphan r))]"

definition repo_ListStories :: "artifact_env \<Rightarrow> string \<Rightarrow> list_query \<Rightarrow> amap list art" where
  "repo_ListStories env projectID q =
     eff_bind (project_identity projectID) (\<lambda>p. list_rows ''list stories''
       (stmt_list (rx_uuid env) storyStatuses ad_stories (\<lambda>_. True) (\<lambda>d r u. story_item env r (us_name u)) p q))"

definition stmt_insert_story :: "artifact_env \<Rightarrow> string \<Rightarrow> string \<Rightarrow> string \<Rightarrow> string \<Rightarrow> (artifact_data, story_row) stmt" where
  "stmt_insert_story env actor title project slug =
     stmt_insert env project slug title actor ''Draft'' ad_stories (\<lambda>rs d. d\<lparr>ad_stories := rs\<rparr>)
       (\<lambda>_ b. artifact_row.extend b \<lparr>av_from = None, sy_persona = None, sy_pains = 0, sy_hypotheses = 0\<rparr>)"

definition repo_CreateStory :: "artifact_env \<Rightarrow> string \<Rightarrow> string \<Rightarrow> string \<Rightarrow> amap option \<Rightarrow> amap art" where
  "repo_CreateStory env projectID actorUserID title content =
     create_row env ''stories'' ''create story'' projectID actorUserID title (stmt_insert_story env actorUserID title)
       (\<lambda>project ownerName r.
         let content = (case content of None \<Rightarrow> defaultStoryContent (af_title r) | Some m \<Rightarrow> m) in
         eff_bind (upsertDocument env project ''story'' (af_id r) (af_revision r) actorUserID content) (\<lambda>_.
         eff_bind (recordArtifactCreated env project actorUserID ownerName ''story'' (af_id r) (af_title r) ''notify_artifact_created'') (\<lambda>_.
         eff_ret (story_item env r ownerName))))"

definition repo_GetStory :: "artifact_env \<Rightarrow> string \<Rightarrow> string \<Rightarrow> amap art" where
  "repo_GetStory env projectID ident =
     eff_bind (project_identity projectID) (\<lambda>p.
     eff_bind (one_or_missing ''story'' ''get story'' (RelationalQueryOne (stmt_get (rx_uuid env) ad_stories p (trim_space ident)) Inr)) (\<lambda>(r, u).
     eff_bind (loadLatestContent env p ''story'' (af_id r) (defaultStoryContent (af_title r))) (\<lambda>content.
     eff_ret
       [(''story'', AMap [(''id'', AStr (af_id r)), (''title'', AStr (af_title r)), (''status'', AStr (af_status r)), (''owner'', AStr (us_name u)),
           (''lastUpdated'', AStr (rx_date env (af_updated r)))]),
        (''metadata'', metadata_map (us_name u) (rx_date env (af_created r)) (rx_date env (af_updated r))),
        (''detail'', AMap content), (''addOnCatalog'', storyAddOnCatalog), (''addOnSections'', ASlice (toSlice (mget content ''addOnSections''))),
        (''reference'', AMap [(''permissions'', AMap [])]), (''isOrphan'', ABool (af_orphan r))])))"

definition changed_story :: "int \<Rightarrow> string option \<Rightarrow> string \<Rightarrow> string \<Rightarrow> int \<Rightarrow> int \<Rightarrow> story_row \<Rightarrow> story_row" where
  "changed_story t new title persona pains hyps r =
     touch t ((with_status ''Draft'' new r)\<lparr>af_title := (if title = [] then af_title r else title),
       sy_persona := (if persona = [] then sy_persona r else Some persona),
       sy_pains := (if pains < 0 then sy_pains r else pains),
       sy_hypotheses := (if hyps < 0 then sy_hypotheses r else hyps)\<rparr>)"

definition stmt_update_story ::
  "artifact_env \<Rightarrow> string \<Rightarrow> string \<Rightarrow> string \<Rightarrow> string \<Rightarrow> string \<Rightarrow> int \<Rightarrow> int \<Rightarrow> (artifact_data, story_row \<times> user_row) stmt" where
  "stmt_update_story env project ident title status persona pains hyps d =
     sum_bind (cast_uuid (rx_uuid env) project) (\<lambda>p. sum_bind (cast_label storyStatuses status) (\<lambda>new.
       let (rows, hit) = update_rows d p ident (\<lambda>r. holds (writable new (af_status r)))
         (changed_story (now d) new title persona pains hyps) (ad_stories d)
       in Inr (hit, d\<lparr>ad_stories := rows\<rparr>)))"

definition repo_UpdateStory :: "artifact_env \<Rightarrow> string \<Rightarrow> string \<Rightarrow> string \<Rightarrow> amap \<Rightarrow> amap art" where
  "repo_UpdateStory env projectID storyID actorUserID patch =
     eff_bind (project_identity projectID) (\<lambda>p.
     let title = (if toString (mget patch ''title'') = [] then toString (mget patch ''description'') else toString (mget patch ''title''));
         persona = (case toMap (mget patch ''persona'') of None \<Rightarrow> [] | Some m \<Rightarrow> toString (mget m ''name'')) in
     eff_bind (one_or_missing ''story'' ''update story'' (RelationalQueryOne (stmt_update_story env p (trim_space storyID) title
       (toString (mget patch ''status'')) persona (painCountOrSentinel patch) (hypothesisCountOrSentinel patch)) Inr)) (\<lambda>(r, u).
     eff_bind (upsertDocument env p ''story'' (af_id r) (af_revision r) actorUserID patch) (\<lambda>_.
     eff_bind (recordArtifactUpdated env p actorUserID ''story'' (af_id r) (af_title r)) (\<lambda>_.
     eff_ret (story_item env r (us_name u))))))"

section \<open>Journeys\<close>

definition journey_item :: "artifact_env \<Rightarrow> journey_row \<Rightarrow> string \<Rightarrow> amap" where
  "journey_item env r owner =
     [(''id'', AStr (af_id r)), (''title'', AStr (af_title r)), (''linkedPersonas'', AStrs []), (''stagesCount'', AInt 0),
      (''painPointsCount'', AInt 0), (''owner'', AStr owner), (''lastUpdated'', AStr (rx_date env (af_updated r))),
      (''status'', AStr (af_status r)), (''isOrphan'', ABool (af_orphan r))]"

definition repo_ListJourneys :: "artifact_env \<Rightarrow> string \<Rightarrow> list_query \<Rightarrow> amap list art" where
  "repo_ListJourneys env projectID q =
     eff_bind (project_identity projectID) (\<lambda>p. list_rows ''list journeys''
       (stmt_list (rx_uuid env) journeyStatuses ad_journeys (\<lambda>_. True) (\<lambda>d r u. journey_item env r (us_name u)) p q))"

definition stmt_insert_journey :: "artifact_env \<Rightarrow> string \<Rightarrow> string \<Rightarrow> string \<Rightarrow> string \<Rightarrow> (artifact_data, journey_row) stmt" where
  "stmt_insert_journey env actor title project slug =
     stmt_insert env project slug title actor ''Draft'' ad_journeys (\<lambda>rs d. d\<lparr>ad_journeys := rs\<rparr>)
       (\<lambda>_ b. artifact_row.extend b \<lparr>av_from = None\<rparr>)"

definition repo_CreateJourney :: "artifact_env \<Rightarrow> string \<Rightarrow> string \<Rightarrow> string \<Rightarrow> amap option \<Rightarrow> amap art" where
  "repo_CreateJourney env projectID actorUserID title content =
     create_row env ''journeys'' ''create journey'' projectID actorUserID title (stmt_insert_journey env actorUserID title)
       (\<lambda>project ownerName r.
         let content = (case content of None \<Rightarrow> defaultJourneyContent (af_title r) | Some m \<Rightarrow> m) in
         eff_bind (upsertDocument env project ''journey'' (af_id r) (af_revision r) actorUserID content) (\<lambda>_.
         eff_bind (recordArtifactCreated env project actorUserID ownerName ''journey'' (af_id r) (af_title r) ''notify_artifact_created'') (\<lambda>_.
         eff_ret (journey_item env r ownerName))))"

definition repo_GetJourney :: "artifact_env \<Rightarrow> string \<Rightarrow> string \<Rightarrow> amap art" where
  "repo_GetJourney env projectID ident =
     eff_bind (project_identity projectID) (\<lambda>p.
     eff_bind (one_or_missing ''journey'' ''get journey'' (RelationalQueryOne (stmt_get (rx_uuid env) ad_journeys p (trim_space ident)) Inr)) (\<lambda>(r, u).
     eff_bind (loadLatestContent env p ''journey'' (af_id r) (defaultJourneyContent (af_title r))) (\<lambda>content.
     eff_ret
       [(''journey'', AMap [(''id'', AStr (af_id r)), (''title'', AStr (af_title r)), (''status'', AStr (af_status r)), (''owner'', AStr (us_name u)),
           (''lastUpdated'', AStr (rx_date env (af_updated r)))]),
        (''metadata'', metadata_map (us_name u) (rx_date env (af_created r)) (rx_date env (af_updated r))),
        (''detail'', AMap content), (''emotionOptions'', AStrs [''Neutral'', ''Frustrated'', ''Anxious'', ''Relieved'']),
        (''reference'', AMap [(''permissions'', AMap [])])])))"

definition changed_journey :: "int \<Rightarrow> string option \<Rightarrow> string \<Rightarrow> journey_row \<Rightarrow> journey_row" where
  "changed_journey t new title r = touch t ((with_status ''Draft'' new r)\<lparr>af_title := (if title = [] then af_title r else title)\<rparr>)"

definition stmt_update_journey ::
  "artifact_env \<Rightarrow> string \<Rightarrow> string \<Rightarrow> string \<Rightarrow> string \<Rightarrow> (artifact_data, journey_row \<times> user_row) stmt" where
  "stmt_update_journey env project ident title status d =
     sum_bind (cast_uuid (rx_uuid env) project) (\<lambda>p. sum_bind (cast_label journeyStatuses status) (\<lambda>new.
       let (rows, hit) = update_rows d p ident (\<lambda>r. holds (writable new (af_status r)))
         (changed_journey (now d) new title) (ad_journeys d)
       in Inr (hit, d\<lparr>ad_journeys := rows\<rparr>)))"

definition repo_UpdateJourney :: "artifact_env \<Rightarrow> string \<Rightarrow> string \<Rightarrow> string \<Rightarrow> amap \<Rightarrow> amap art" where
  "repo_UpdateJourney env projectID journeyID actorUserID patch =
     eff_bind (project_identity projectID) (\<lambda>p.
     eff_bind (one_or_missing ''journey'' ''update journey'' (RelationalQueryOne (stmt_update_journey env p (trim_space journeyID)
       (toString (mget patch ''title'')) (toString (mget patch ''status''))) Inr)) (\<lambda>(r, u).
     eff_bind (upsertDocument env p ''journey'' (af_id r) (af_revision r) actorUserID patch) (\<lambda>_.
     eff_bind (recordArtifactUpdated env p actorUserID ''journey'' (af_id r) (af_title r)) (\<lambda>_.
     eff_ret (journey_item env r (us_name u))))))"

section \<open>Problems\<close>

definition problem_item :: "artifact_env \<Rightarrow> problem_row \<Rightarrow> string \<Rightarrow> int \<Rightarrow> amap" where
  "problem_item env r owner ideas =
     [(''id'', AStr (af_id r)), (''statement'', AStr (af_title r)), (''linkedSources'', AStrs []), (''painPointsCount'', AInt 0),
      (''ideasCount'', AInt ideas), (''status'', AStr (af_status r)), (''owner'', AStr owner),
      (''lastUpdated'', AStr (rx_date env (af_updated r))), (''isOrphan'', ABool (af_orphan r))]"

definition ideas_of :: "artifact_data \<Rightarrow> problem_row \<Rightarrow> int" where
  "ideas_of d r = int (length (filter (\<lambda>i. af_project i = af_project r \<and> id_problem i = Some (af_id r)) (ad_ideas d)))"

definition repo_ListProblems :: "artifact_env \<Rightarrow> string \<Rightarrow> list_query \<Rightarrow> amap list art" where
  "repo_ListProblems env projectID q =
     eff_bind (project_identity projectID) (\<lambda>p. list_rows ''list problems''
       (stmt_list (rx_uuid env) problemStatuses ad_problems (\<lambda>_. True) (\<lambda>d r u. problem_item env r (us_name u) (ideas_of d r)) p q))"

text \<open>The trigger on the row of a problem computes its orphan flag from the links.\<close>

definition stmt_insert_problem :: "artifact_env \<Rightarrow> string \<Rightarrow> string \<Rightarrow> string \<Rightarrow> string \<Rightarrow> (artifact_data, problem_row) stmt" where
  "stmt_insert_problem env actor statement project slug =
     stmt_insert env project slug statement actor ''Draft'' ad_problems (\<lambda>rs d. d\<lparr>ad_problems := rs\<rparr>)
       (\<lambda>d b. let r = artifact_row.extend b \<lparr>av_from = None, pm_locked = False\<rparr> in r\<lparr>af_orphan := problem_orphan (ad_links d) r\<rparr>)"

definition repo_CreateProblem :: "artifact_env \<Rightarrow> string \<Rightarrow> string \<Rightarrow> string \<Rightarrow> amap option \<Rightarrow> amap art" where
  "repo_CreateProblem env projectID actorUserID statement content =
     create_row env ''problems'' ''create problem'' projectID actorUserID statement (stmt_insert_problem env actorUserID statement)
       (\<lambda>project ownerName r.
         let content = (case content of None \<Rightarrow> defaultProblemContent (af_title r) | Some m \<Rightarrow> m) in
         eff_bind (upsertDocument env project ''problem'' (af_id r) (af_revision r) actorUserID content) (\<lambda>_.
         eff_bind (recordArtifactCreated env project actorUserID ownerName ''problem'' (af_id r) (af_title r) ''notify_artifact_created'') (\<lambda>_.
         eff_ret (problem_item env r ownerName 0))))"

definition changed_problem :: "int \<Rightarrow> string option \<Rightarrow> string \<Rightarrow> problem_row \<Rightarrow> problem_row" where
  "changed_problem t new title r =
     touch t ((with_status ''Draft'' new r)\<lparr>af_title := (if title = [] then af_title r else title),
       pm_locked := (next_status ''Draft'' new (af_status r) (av_from r) = ''Locked'')\<rparr>)"

definition stmt_update_problem ::
  "artifact_env \<Rightarrow> string \<Rightarrow> string \<Rightarrow> string \<Rightarrow> string \<Rightarrow> (artifact_data, problem_row \<times> user_row) stmt" where
  "stmt_update_problem env project ident title status d =
     sum_bind (cast_uuid (rx_uuid env) project) (\<lambda>p. sum_bind (cast_label problemStatuses status) (\<lambda>new.
       let (rows, hit) = update_rows d p ident (\<lambda>r. holds (writable new (af_status r)))
         (changed_problem (now d) new title) (ad_problems d)
       in Inr (hit, d\<lparr>ad_problems := rows\<rparr>)))"

definition repo_UpdateProblem :: "artifact_env \<Rightarrow> string \<Rightarrow> string \<Rightarrow> string \<Rightarrow> amap \<Rightarrow> amap art" where
  "repo_UpdateProblem env projectID problemID actorUserID patch =
     eff_bind (project_identity projectID) (\<lambda>p.
     let title = firstNonEmpty [toString (mget patch ''finalStatement''), toString (mget patch ''title'')] in
     eff_bind (one_or_missing ''problem'' ''update problem'' (RelationalQueryOne (stmt_update_problem env p (trim_space problemID) title
       (toString (mget patch ''status''))) Inr)) (\<lambda>(r, u).
     eff_bind (if has_key patch ''linkedSources''
       then (case coerceAnySlice (mget patch ''linkedSources'') of
               None \<Rightarrow> eff_throw (bad_request ''linkedSources must be an array'')
             | Some items \<Rightarrow> replaceProblemSourceLinks env p (af_id r) actorUserID items)
       else eff_ret ()) (\<lambda>_.
     eff_bind (upsertDocument env p ''problem'' (af_id r) (af_revision r) actorUserID patch) (\<lambda>_.
     eff_bind (recordArtifactUpdated env p actorUserID ''problem'' (af_id r) (af_title r)) (\<lambda>_.
     eff_bind (countIdeasForProblem env p (af_id r)) (\<lambda>ideas.
     eff_ret (problem_item env r (us_name u) ideas)))))))"

section \<open>Ideas\<close>

definition idea_item :: "artifact_env \<Rightarrow> idea_row \<Rightarrow> string \<Rightarrow> problem_row option \<Rightarrow> int \<Rightarrow> amap" where
  "idea_item env r owner problem tasks =
     [(''id'', AStr (af_id r)), (''title'', AStr (af_title r)),
      (''linkedProblemStatement'', AStr (case problem of None \<Rightarrow> [] | Some x \<Rightarrow> af_title x)), (''persona'', AStr []),
      (''status'', AStr (af_status r)), (''tasksCount'', AInt tasks), (''owner'', AStr owner),
      (''lastUpdated'', AStr (rx_date env (af_updated r))),
      (''linkedProblemLocked'', ABool (case problem of None \<Rightarrow> False | Some x \<Rightarrow> af_status x = ''Locked'')),
      (''isOrphan'', ABool (af_orphan r))]"

definition problem_of :: "artifact_data \<Rightarrow> idea_row \<Rightarrow> problem_row option" where
  "problem_of d r = Option.bind (id_problem r) (find_row (ad_problems d))"

definition tasks_of :: "artifact_data \<Rightarrow> idea_row \<Rightarrow> int" where
  "tasks_of d r = int (length (filter (\<lambda>t. af_project t = af_project r \<and> tk_idea t = Some (af_id r)) (ad_tasks d)))"

definition repo_ListIdeas :: "artifact_env \<Rightarrow> string \<Rightarrow> list_query \<Rightarrow> amap list art" where
  "repo_ListIdeas env projectID q =
     eff_bind (project_identity projectID) (\<lambda>p. list_rows ''list ideas''
       (stmt_list (rx_uuid env) ideaStatuses ad_ideas (\<lambda>_. True)
          (\<lambda>d r u. idea_item env r (us_name u) (problem_of d r) (tasks_of d r)) p q))"

definition stmt_insert_idea :: "artifact_env \<Rightarrow> string \<Rightarrow> string \<Rightarrow> string \<Rightarrow> string \<Rightarrow> (artifact_data, idea_row) stmt" where
  "stmt_insert_idea env actor title project slug =
     stmt_insert env project slug title actor ''Considered'' ad_ideas (\<lambda>rs d. d\<lparr>ad_ideas := rs\<rparr>)
       (\<lambda>_ b. artifact_row.extend b \<lparr>av_from = None, id_problem = None, id_selected_at = None\<rparr>)"

definition repo_CreateIdea :: "artifact_env \<Rightarrow> string \<Rightarrow> string \<Rightarrow> string \<Rightarrow> amap option \<Rightarrow> amap art" where
  "repo_CreateIdea env projectID actorUserID title content =
     create_row env ''ideas'' ''create idea'' projectID actorUserID title (stmt_insert_idea env actorUserID title)
       (\<lambda>project ownerName r.
         let content = (case content of None \<Rightarrow> defaultIdeaContent (af_title r) | Some m \<Rightarrow> m) in
         eff_bind (upsertDocument env project ''idea'' (af_id r) (af_revision r) actorUserID content) (\<lambda>_.
         eff_bind (recordArtifactCreated env project actorUserID ownerName ''idea'' (af_id r) (af_title r) ''notify_artifact_created'') (\<lambda>_.
         eff_ret (idea_item env r ownerName None 0))))"

definition repo_GetIdea :: "artifact_env \<Rightarrow> string \<Rightarrow> string \<Rightarrow> amap art" where
  "repo_GetIdea env projectID ident =
     eff_bind (project_identity projectID) (\<lambda>p.
     eff_bind (one_or_missing ''idea'' ''get idea'' (RelationalQueryOne (stmt_get (rx_uuid env) ad_ideas p (trim_space ident)) Inr)) (\<lambda>(r, u).
     eff_bind (loadLatestContent env p ''idea'' (af_id r) (defaultIdeaContent (af_title r))) (\<lambda>content.
     eff_bind (listLockedProblemOptions env p) (\<lambda>problemOptions.
     let content = (case id_problem r of None \<Rightarrow> content | Some i \<Rightarrow> AList.update ''selectedProblemId'' (AStr i) content) in
     eff_ret
       [(''idea'', AMap [(''id'', AStr (af_id r)), (''title'', AStr (af_title r)), (''status'', AStr (af_status r)), (''owner'', AStr (us_name u)),
           (''lastUpdated'', AStr (rx_date env (af_updated r)))]),
        (''detail'', AMap content),
        (''reference'', AMap [(''problemOptions'', ASlice problemOptions), (''linkedStories'', ASlice []), (''derivedPersonas'', ASlice []),
           (''permissions'', AMap [])])]))))"

text \<open>An idea that is to be selected needs a locked problem; the condition on the status is NULL when the patch has no
  status, and then it is the problem that decides.\<close>

definition idea_writable :: "artifact_data \<Rightarrow> string option \<Rightarrow> string option \<Rightarrow> idea_row \<Rightarrow> bool option" where
  "idea_writable d problem new r =
     (let linked = (case problem of None \<Rightarrow> id_problem r | Some x \<Rightarrow> Some x) in
      sql_and
        (sql_or (sql_and (Some (new = None)) (Some (af_status r \<notin> {''Selected'', ''Rejected'', ''Archived''}))) (Some (new \<noteq> None)))
        (sql_or (sql_neq new ''Selected'')
          (sql_and (Some (linked \<noteq> None)) (Some (\<exists>x \<in> set (ad_problems d). Some (af_id x) = linked \<and> af_status x = ''Locked'')))))"

definition cast_ref :: "artifact_env \<Rightarrow> string option \<Rightarrow> err + string option" where
  "cast_ref env x = (case x of None \<Rightarrow> Inr None | Some y \<Rightarrow> sum_bind (cast_uuid (rx_uuid env) y) (\<lambda>i. Inr (Some i)))"

definition changed_idea :: "int \<Rightarrow> string option \<Rightarrow> string option \<Rightarrow> idea_row \<Rightarrow> idea_row" where
  "changed_idea t new problem r =
     (let linked = (case problem of None \<Rightarrow> id_problem r | Some x \<Rightarrow> Some x) in
      touch t ((with_status ''Considered'' new r)\<lparr>id_problem := linked, af_orphan := (linked = None),
        id_selected_at := (if next_status ''Considered'' new (af_status r) (av_from r) = ''Selected''
          then (case id_selected_at r of None \<Rightarrow> Some t | Some x \<Rightarrow> Some x) else id_selected_at r)\<rparr>))"

definition stmt_update_idea ::
  "artifact_env \<Rightarrow> string \<Rightarrow> string \<Rightarrow> string option \<Rightarrow> string \<Rightarrow> (artifact_data, idea_row \<times> user_row) stmt" where
  "stmt_update_idea env project ident problem status d =
     sum_bind (cast_uuid (rx_uuid env) project) (\<lambda>p.
     sum_bind (cast_ref env problem) (\<lambda>problem.
     sum_bind (cast_label ideaStatuses status) (\<lambda>new.
       let (rows, hit) = update_rows d p ident (\<lambda>r. holds (idea_writable d problem new r))
         (changed_idea (now d) new problem) (ad_ideas d)
       in if hit \<noteq> [] \<and> problem \<notin> insert None (Some ` set (map af_id (ad_problems d))) then Inl (EPg ''23503'')
          else Inr (hit, d\<lparr>ad_ideas := rows\<rparr>))))"

definition repo_UpdateIdea :: "artifact_env \<Rightarrow> string \<Rightarrow> string \<Rightarrow> string \<Rightarrow> amap \<Rightarrow> amap art" where
  "repo_UpdateIdea env projectID ideaID actorUserID patch =
     eff_bind (project_identity projectID) (\<lambda>p.
     eff_bind (if \<not> has_key patch ''selectedProblemId'' then eff_ret None
       else if toString (mget patch ''selectedProblemId'') = [] then eff_throw (bad_request ''selectedProblemId must be a non-empty string'')
       else eff_bind (resolveArtifactIDByIdentifier env p ''problem'' (toString (mget patch ''selectedProblemId''))) (\<lambda>resolved.
            eff_bind (ensureProblemLocked env p resolved) (\<lambda>_. eff_ret (Some resolved)))) (\<lambda>primaryProblemID.
     eff_bind (one_or_missing ''idea'' ''update idea'' (RelationalQueryOne (\<lambda>d. sum_bind
         (stmt_update_idea env p (trim_space ideaID) primaryProblemID (toString (mget patch ''status'')) d)
         (\<lambda>(hit, d'). Inr (map (\<lambda>(r, u). (r, u, problem_of d' r, tasks_of d' r)) hit, d'))) Inr)) (\<lambda>(r, u, problem, tasks).
     eff_bind (case primaryProblemID of None \<Rightarrow> eff_ret ()
       | Some i \<Rightarrow> replacePrimaryLink env p ''problem'' i ''idea'' (af_id r) actorUserID) (\<lambda>_.
     eff_bind (upsertDocument env p ''idea'' (af_id r) (af_revision r) actorUserID patch) (\<lambda>_.
     eff_bind (recordArtifactUpdated env p actorUserID ''idea'' (af_id r) (af_title r)) (\<lambda>_.
     eff_ret (idea_item env r (us_name u) problem tasks)))))))"

end
