(* ===== verification/Artifact_Sources.thy ===== *)
theory Artifact_Sources
  imports Artifact_Repo
begin

text \<open>
  The page of a problem (\<open>GetProblem\<close> in \<open>internal/modules/artifacts/repo.go\<close>): the stories and journeys it may
  be linked to, and what the linked ones say, read from their documents. A source that cannot be resolved or
  read is skipped.
\<close>

definition as_slice :: "any \<Rightarrow> any list" where
  "as_slice v = (case v of ASlice xs \<Rightarrow> xs | ABsonA xs \<Rightarrow> xs | _ \<Rightarrow> [])"

definition as_map :: "any \<Rightarrow> amap option" where
  "as_map v = (case v of AMap m \<Rightarrow> Some m | ABsonM m \<Rightarrow> Some m | _ \<Rightarrow> None)"

text \<open>The locked stories or journeys of the first list page, as options.\<close>

definition source_options :: "string \<Rightarrow> string \<Rightarrow> amap list \<Rightarrow> any list" where
  "source_options project path items =
     concat (map (\<lambda>item.
       let ident = trim_space (toString (mget item ''id'')); title = trim_space (toString (mget item ''title'')) in
       if ident = [] \<or> title = [] then []
       else if \<not> equal_fold (trim_space (toString (mget item ''status''))) ''Locked'' then []
       else [AMap [(''id'', AStr ident), (''title'', AStr title), (''href'', AStr (project_href project path ident))]]) items)"

text \<open>What the linked sources say, collected in the order of the links.\<close>

record insights =
  in_payload :: "any list"
  in_points :: "any list"
  in_personas :: "any list"
  in_story_points :: "any list"
  in_journey_points :: "any list"
  in_context :: "string list"

definition no_insights :: insights where
  "no_insights = \<lparr>in_payload = [], in_points = [], in_personas = [], in_story_points = [], in_journey_points = [], in_context = []\<rparr>"

text \<open>The texts of a list with their positions, blanks left out.\<close>

definition numbered :: "any list \<Rightarrow> (nat \<times> any) list" where
  "numbered xs = zip [1..<length xs + 1] xs"

definition point_texts :: "any list \<Rightarrow> (nat \<times> string) list" where
  "point_texts xs = filter (\<lambda>(i, t). t \<noteq> []) (map (\<lambda>(i, x). (i, trim_space (toString x))) (numbered xs))"

definition story_points :: "string \<Rightarrow> string \<Rightarrow> amap \<Rightarrow> any list" where
  "story_points sourceID sourceTitle content =
     map (\<lambda>(i, t). AMap [(''id'', AStr (sourceID @ '':story:'' @ itoa (int i))), (''text'', AStr t), (''sourceLabel'', AStr sourceTitle)])
       (point_texts (as_slice (mget content ''painPoints'')))"

definition journey_texts :: "amap \<Rightarrow> (nat \<times> string \<times> nat \<times> string) list" where
  "journey_texts content =
     concat (map (\<lambda>(si, raw). case as_map raw of None \<Rightarrow> []
       | Some stage \<Rightarrow>
           let stageName = (let n = trim_space (toString (mget stage ''name'')) in if n = [] then ''Stage'' else n) in
           map (\<lambda>(pj, t). (si, stageName, pj, t)) (point_texts (as_slice (mget stage ''painPoints''))))
       (numbered (as_slice (mget content ''stages''))))"

definition journey_point_id :: "string \<Rightarrow> nat \<Rightarrow> nat \<Rightarrow> string" where
  "journey_point_id sourceID si pj = sourceID @ '':journey:'' @ itoa (int si) @ '':'' @ itoa (int pj)"

definition journey_points :: "string \<Rightarrow> string \<Rightarrow> amap \<Rightarrow> any list" where
  "journey_points sourceID sourceTitle content =
     map (\<lambda>(si, stageName, pj, t). AMap [(''id'', AStr (journey_point_id sourceID si pj)), (''text'', AStr t),
         (''sourceLabel'', AStr (sourceTitle @ '' / '' @ stageName))]) (journey_texts content)"

definition journey_insights :: "string \<Rightarrow> string \<Rightarrow> amap \<Rightarrow> any list" where
  "journey_insights sourceID sourceTitle content =
     map (\<lambda>(si, stageName, pj, t). AMap [(''id'', AStr (journey_point_id sourceID si pj)), (''text'', AStr t),
         (''journeyName'', AStr sourceTitle), (''stageName'', AStr stageName)]) (journey_texts content)"

definition personas_of :: "amap \<Rightarrow> any list" where
  "personas_of content =
     (case as_map (mget content ''persona'') of None \<Rightarrow> []
      | Some persona \<Rightarrow> let name = trim_space (toString (mget persona ''name'')) in
          if name = [] then [] else [AMap [(''name'', AStr name), (''description'', AStr (trim_space (toString (mget persona ''bio''))))]])"

definition add_source :: "string \<Rightarrow> string \<Rightarrow> string \<Rightarrow> amap \<Rightarrow> insights \<Rightarrow> insights" where
  "add_source kind sourceID sourceTitle content ins =
     (let story = (kind = ''story''); ctxText = trim_space (toString (mget content ''context'')) in
      ins\<lparr>in_personas := in_personas ins @ personas_of content,
          in_points := in_points ins @ (if story then story_points sourceID sourceTitle content else journey_points sourceID sourceTitle content),
          in_story_points := in_story_points ins @ (if story then story_points sourceID sourceTitle content else []),
          in_journey_points := in_journey_points ins @ (if story then [] else journey_insights sourceID sourceTitle content),
          in_context := in_context ins @ (if ctxText = [] then [] else [(if story then ''Story'' else ''Journey'') @ '': '' @ ctxText])\<rparr>)"

text \<open>A linked source that counts: an object with an id and the type of a story or a journey.\<close>

definition linked_source :: "any \<Rightarrow> (string \<times> string \<times> string) option" where
  "linked_source raw =
     (case as_map raw of None \<Rightarrow> None
      | Some source \<Rightarrow>
        let sourceID = trim_space (toString (mget source ''id'')) in
        if sourceID = [] then None
        else (case normalizeArtifactType (firstNonEmpty [toString (mget source ''artifactType''), toString (mget source ''type'')]) of
            None \<Rightarrow> None
          | Some kind \<Rightarrow>
              if kind \<noteq> ''story'' \<and> kind \<noteq> ''journey'' then None
              else let t = trim_space (toString (mget source ''title'')) in
                Some (kind, sourceID, if t \<noteq> [] then t else if kind = ''story'' then ''User Story'' else ''User Journey'')))"

definition source_payload :: "string \<Rightarrow> string \<Rightarrow> string \<Rightarrow> string \<Rightarrow> any" where
  "source_payload project kind sourceID sourceTitle =
     AMap [(''id'', AStr sourceID), (''title'', AStr sourceTitle), (''type'', AStr kind),
       (''label'', AStr (if kind = ''journey'' then ''User Journey'' else ''User Story'')),
       (''href'', AStr (project_href project (if kind = ''journey'' then ''journeys'' else ''stories'') sourceID))]"

fun collect_sources :: "artifact_env \<Rightarrow> string \<Rightarrow> any list \<Rightarrow> insights \<Rightarrow> insights art" where
  "collect_sources env project [] ins = eff_ret ins"
| "collect_sources env project (raw # rest) ins =
     (case linked_source raw of None \<Rightarrow> collect_sources env project rest ins
      | Some (kind, sourceID, sourceTitle) \<Rightarrow>
        let ins = ins\<lparr>in_payload := in_payload ins @ [source_payload project kind sourceID sourceTitle]\<rparr> in
        eff_case (eff_bind (resolveArtifactIDByIdentifier env project kind sourceID) (\<lambda>resolvedID.
                  loadLatestContent env project kind resolvedID []))
          (\<lambda>_. collect_sources env project rest ins)
          (\<lambda>content. collect_sources env project rest (add_source kind sourceID sourceTitle content ins)))"

definition first_page :: list_query where
  "first_page = \<lparr>lq_status = [], lq_outcome = [], lq_offset = 0, lq_limit = 100\<rparr>"

definition repo_GetProblem :: "artifact_env \<Rightarrow> string \<Rightarrow> string \<Rightarrow> amap art" where
  "repo_GetProblem env projectID ident =
     eff_bind (project_identity projectID) (\<lambda>p.
     eff_bind (one_or_missing ''problem'' ''get problem'' (RelationalQueryOne (stmt_get (rx_uuid env) ad_problems p (trim_space ident)) Inr)) (\<lambda>(r, u).
     eff_bind (loadLatestContent env p ''problem'' (af_id r) (defaultProblemContent (af_title r))) (\<lambda>content.
     eff_bind (repo_ListStories env p first_page) (\<lambda>stories.
     eff_bind (repo_ListJourneys env p first_page) (\<lambda>journeys.
     eff_bind (collect_sources env p (as_slice (mget content ''linkedSources'')) no_insights) (\<lambda>ins.
     eff_ret
       [(''problem'', AMap [(''id'', AStr (af_id r)), (''statement'', AStr (af_title r)), (''status'', AStr (af_status r)), (''owner'', AStr (us_name u)),
           (''lastUpdated'', AStr (rx_date env (af_updated r)))]),
        (''metadata'', metadata_map (us_name u) (rx_date env (af_created r)) (rx_date env (af_updated r))),
        (''detail'', AMap (if in_payload ins = [] then content else AList.update ''linkedSources'' (ASlice (in_payload ins)) content)),
        (''reference'', AMap
          [(''storyOptions'', ASlice (source_options p ''stories'' stories)), (''journeyOptions'', ASlice (source_options p ''journeys'' journeys)),
           (''sourcePainPoints'', ASlice (in_points ins)),
           (''sourceInsights'', AMap [(''personas'', ASlice (in_personas ins)), (''context'', AStr (join [CHR 0x0A] (in_context ins))),
              (''painPoints'', ASlice (in_story_points ins)), (''journeyPainPoints'', ASlice (in_journey_points ins))]),
           (''permissions'', AMap [])])]))))))"

end
