(* ===== verification/Artifact_Chain.thy ===== *)
theory Artifact_Chain
  imports Artifact_Sources
begin

text \<open>
  Tasks and feedback in the artifacts repository (\<open>internal/modules/artifacts/repo.go\<close>), the end of the chain from
  problem over idea and task to feedback, and the repository as the service uses it.
\<close>

section \<open>Tasks\<close>

definition idea_of :: "artifact_data \<Rightarrow> task_row \<Rightarrow> idea_row option" where
  "idea_of d r = Option.bind (tk_idea r) (find_row (ad_ideas d))"

definition has_feedback :: "artifact_data \<Rightarrow> task_row \<Rightarrow> bool" where
  "has_feedback d r \<longleftrightarrow> (\<exists>f \<in> set (ad_feedback d). af_project f = af_project r \<and> fe_task f = Some (af_id r))"

definition day_text :: "artifact_env \<Rightarrow> task_row \<Rightarrow> string" where
  "day_text env r = (case tk_due r of None \<Rightarrow> [] | Some t \<Rightarrow> rx_day env t)"

definition task_item :: "artifact_env \<Rightarrow> task_row \<Rightarrow> string \<Rightarrow> idea_row option \<Rightarrow> problem_row option \<Rightarrow> bool \<Rightarrow> amap" where
  "task_item env r owner idea problem feedback =
     [(''id'', AStr (af_id r)), (''title'', AStr (af_title r)), (''linkedIdea'', AStr (case idea of None \<Rightarrow> [] | Some i \<Rightarrow> af_title i)),
      (''linkedProblemStatement'', AStr (case problem of None \<Rightarrow> [] | Some x \<Rightarrow> af_title x)), (''persona'', AStr []), (''owner'', AStr owner),
      (''deadline'', AStr (day_text env r)), (''lastUpdated'', AStr (rx_date env (af_updated r))), (''status'', AStr (af_status r)),
      (''ideaRejected'', ABool (case idea of None \<Rightarrow> False | Some i \<Rightarrow> af_status i = ''Rejected'')),
      (''hasFeedback'', ABool feedback), (''isOrphan'', ABool (af_orphan r))]"

definition task_view :: "artifact_env \<Rightarrow> artifact_data \<Rightarrow> task_row \<Rightarrow> user_row \<Rightarrow> amap" where
  "task_view env d r u =
     task_item env r (us_name u) (idea_of d r) (Option.bind (idea_of d r) (problem_of d)) (has_feedback d r)"

text \<open>The labels of the enum \<open>task_status\<close>; no request of the service names the last one.\<close>

definition taskStatusLabels :: "string list" where
  "taskStatusLabels = taskStatuses @ [''Blocked'']"

definition repo_ListTasks :: "artifact_env \<Rightarrow> string \<Rightarrow> list_query \<Rightarrow> amap list art" where
  "repo_ListTasks env projectID q =
     eff_bind (project_identity projectID) (\<lambda>p. list_rows ''list tasks''
       (stmt_list (rx_uuid env) taskStatusLabels ad_tasks (\<lambda>_. True) (task_view env) p q))"

definition stmt_insert_task :: "artifact_env \<Rightarrow> string \<Rightarrow> string \<Rightarrow> string \<Rightarrow> string \<Rightarrow> (artifact_data, task_row) stmt" where
  "stmt_insert_task env actor title project slug =
     stmt_insert env project slug title actor ''Planned'' ad_tasks (\<lambda>rs d. d\<lparr>ad_tasks := rs\<rparr>)
       (\<lambda>_ b. artifact_row.extend b \<lparr>tk_idea = None, tk_due = None, tk_started = None, tk_completed = None\<rparr>)"

definition with_assignees :: "string list \<Rightarrow> amap \<Rightarrow> amap" where
  "with_assignees ids content =
     AList.update ''assignedToId'' (AStr (case ids of [] \<Rightarrow> [] | i # _ \<Rightarrow> i))
       (AList.update ''assignedToIds'' (stringSliceToAny ids) content)"

definition repo_CreateTask :: "artifact_env \<Rightarrow> string \<Rightarrow> string \<Rightarrow> string \<Rightarrow> amap option \<Rightarrow> amap art" where
  "repo_CreateTask env projectID actorUserID title content =
     create_row env ''tasks'' ''create task'' projectID actorUserID title (stmt_insert_task env actorUserID title)
       (\<lambda>project ownerName r.
         let ownerAssignees = [trim_space actorUserID] in
         eff_bind (replaceTaskAssignees env project (af_id r) actorUserID ownerAssignees) (\<lambda>_.
         let content = (case content of None \<Rightarrow> defaultTaskContent (af_title r) | Some m \<Rightarrow> m);
             content = AList.update ''assignedToId'' (AStr (firstNonEmpty ownerAssignees))
               (AList.update ''assignedToIds'' (stringSliceToAny ownerAssignees) content) in
         eff_bind (upsertDocument env project ''task'' (af_id r) (af_revision r) actorUserID content) (\<lambda>_.
         eff_bind (recordArtifactCreated env project actorUserID ownerName ''task'' (af_id r) (af_title r) ''notify_artifact_created'') (\<lambda>_.
         eff_ret (task_item env r ownerName None None False)))))"

definition repo_GetTask :: "artifact_env \<Rightarrow> string \<Rightarrow> string \<Rightarrow> amap art" where
  "repo_GetTask env projectID ident =
     eff_bind (project_identity projectID) (\<lambda>p.
     eff_bind (one_or_missing ''task'' ''get task'' (RelationalQueryOne (stmt_get (rx_uuid env) ad_tasks p (trim_space ident)) Inr)) (\<lambda>(r, u).
     let deadline = day_text env r in
     eff_bind (loadLatestContent env p ''task'' (af_id r) (defaultTaskContent (af_title r))) (\<lambda>content.
     eff_bind (listTaskAssigneeIDs env p (af_id r)) (\<lambda>ids.
     let content = (if trim_space deadline \<noteq> [] then AList.update ''deadline'' (AStr deadline) content else content);
         ids = (if ids = [] \<and> trim_space (af_owner r) \<noteq> [] then [trim_space (af_owner r)] else ids);
         content = with_assignees ids content in
     eff_bind (listTaskAssigneeOptions env p) (\<lambda>assigneeOptions.
     eff_bind (listTaskIdeaOptions env p) (\<lambda>ideaOptions.
     eff_ret
       [(''task'', AMap [(''id'', AStr (af_id r)), (''title'', AStr (af_title r)), (''status'', AStr (af_status r)), (''owner'', AStr (us_name u)),
           (''deadline'', AStr deadline)]),
        (''detail'', AMap content),
        (''reference'', AMap [(''assigneeOptions'', ASlice assigneeOptions), (''ideaOptions'', ASlice ideaOptions),
           (''permissions'', AMap [])])]))))))"

text \<open>The task is written unless its status is settled and the patch has none, and unless it would be in progress for a
  rejected idea.\<close>

definition task_writable :: "artifact_data \<Rightarrow> string option \<Rightarrow> string option \<Rightarrow> task_row \<Rightarrow> bool option" where
  "task_writable d idea new r =
     (let linked = (case idea of None \<Rightarrow> tk_idea r | Some x \<Rightarrow> Some x);
          status = (case new of None \<Rightarrow> af_status r | Some s \<Rightarrow> s) in
      sql_and
        (sql_or (sql_and (Some (new = None)) (Some (af_status r \<notin> {''Completed'', ''Abandoned''}))) (Some (new \<noteq> None)))
        (sql_or (Some (status \<noteq> ''In Progress''))
          (Some (\<not> (\<exists>i \<in> set (ad_ideas d). Some (af_id i) = linked \<and> af_status i = ''Rejected'')))))"

definition changed_task :: "int \<Rightarrow> string option \<Rightarrow> string option \<Rightarrow> (nat \<times> nat \<times> nat) option \<Rightarrow> task_row \<Rightarrow> task_row" where
  "changed_task t new idea due r =
     (let linked = (case idea of None \<Rightarrow> tk_idea r | Some x \<Rightarrow> Some x);
          status = (case new of None \<Rightarrow> af_status r | Some s \<Rightarrow> s) in
      touch t (r\<lparr>af_status := status, tk_idea := linked, af_orphan := (linked = None),
        tk_due := (case due of None \<Rightarrow> tk_due r | Some x \<Rightarrow> Some x),
        tk_started := (if status = ''In Progress'' \<and> tk_started r = None then Some t else tk_started r),
        tk_completed := (if status = ''Completed'' then Some t else tk_completed r)\<rparr>))"

definition stmt_update_task ::
  "artifact_env \<Rightarrow> string \<Rightarrow> string \<Rightarrow> string option \<Rightarrow> (nat \<times> nat \<times> nat) option \<Rightarrow> string \<Rightarrow> (artifact_data, task_row \<times> user_row) stmt" where
  "stmt_update_task env project ident idea due status d =
     sum_bind (cast_uuid (rx_uuid env) project) (\<lambda>p.
     sum_bind (cast_ref env idea) (\<lambda>idea.
     sum_bind (cast_label taskStatusLabels status) (\<lambda>new.
       let (rows, hit) = update_rows d p ident (\<lambda>r. holds (task_writable d idea new r))
         (changed_task (now d) new idea due) (ad_tasks d)
       in if hit \<noteq> [] \<and> idea \<notin> insert None (Some ` set (map af_id (ad_ideas d))) then Inl (EPg ''23503'')
          else Inr (hit, d\<lparr>ad_tasks := rows\<rparr>))))"

definition parse_deadline :: "string \<Rightarrow> err + (nat \<times> nat \<times> nat) option" where
  "parse_deadline raw =
     (if raw = [] then Inr None
      else case parse_day raw of None \<Rightarrow> Inl (bad_request ''deadline must be ISO date'') | Some t \<Rightarrow> Inr (Some t))"

definition repo_UpdateTask :: "artifact_env \<Rightarrow> string \<Rightarrow> string \<Rightarrow> string \<Rightarrow> amap \<Rightarrow> amap art" where
  "repo_UpdateTask env projectID taskID actorUserID patch =
     eff_bind (project_identity projectID) (\<lambda>p.
     eff_bind (if \<not> has_key patch ''selectedIdeaId'' then eff_ret None
       else if toString (mget patch ''selectedIdeaId'') = [] then eff_throw (bad_request ''selectedIdeaId must be a non-empty string'')
       else eff_bind (resolveArtifactIDByIdentifier env p ''idea'' (toString (mget patch ''selectedIdeaId''))) (\<lambda>resolved.
            eff_bind (ensureIdeaSelectedForTask env p resolved) (\<lambda>_. eff_ret (Some resolved)))) (\<lambda>primaryIdeaID.
     eff_bind (case extractTaskAssigneeIDs patch of None \<Rightarrow> eff_ret None
       | Some ids \<Rightarrow> eff_bind (resolveActiveProjectMemberIDs env p ids) (\<lambda>ids. eff_ret (Some ids))) (\<lambda>assignees.
     eff_bind (eff_lift (parse_deadline (toString (mget patch ''deadline'')))) (\<lambda>due.
     eff_bind (one_or_missing ''task'' ''update task'' (RelationalQueryOne (\<lambda>d. sum_bind
         (stmt_update_task env p (trim_space taskID) primaryIdeaID due (toString (mget patch ''status'')) d)
         (\<lambda>(hit, d'). Inr (map (\<lambda>(r, u). (r, task_view env d' r u)) hit, d'))) Inr)) (\<lambda>(r, view).
     eff_bind (case primaryIdeaID of None \<Rightarrow> eff_ret ()
       | Some i \<Rightarrow> replacePrimaryLink env p ''idea'' i ''task'' (af_id r) actorUserID) (\<lambda>_.
     eff_bind (case assignees of None \<Rightarrow> eff_ret patch
       | Some ids \<Rightarrow> eff_bind (replaceTaskAssignees env p (af_id r) actorUserID ids) (\<lambda>_. eff_ret (with_assignees ids patch))) (\<lambda>patch.
     eff_bind (upsertDocument env p ''task'' (af_id r) (af_revision r) actorUserID patch) (\<lambda>_.
     eff_bind (recordArtifactUpdated env p actorUserID ''task'' (af_id r) (af_title r)) (\<lambda>_.
     eff_ret view)))))))))"

section \<open>Feedback\<close>

definition outcome_text :: "feedback_row \<Rightarrow> string" where
  "outcome_text r = (case fe_outcome r of None \<Rightarrow> ''Needs Iteration'' | Some t \<Rightarrow> t)"

definition feedback_item :: "artifact_env \<Rightarrow> feedback_row \<Rightarrow> string \<Rightarrow> string \<Rightarrow> amap" where
  "feedback_item env r owner linkedTaskOrIdea =
     [(''id'', AStr (af_id r)), (''title'', AStr (af_title r)), (''linkedArtifacts'', AStrs []), (''outcome'', AStr (outcome_text r)),
      (''status'', AStr (af_status r)), (''linkedTaskOrIdea'', AStr linkedTaskOrIdea), (''owner'', AStr owner),
      (''createdDate'', AStr (rx_date env (af_created r))), (''hasTaskLink'', ABool (fe_task r \<noteq> None)), (''isOrphan'', ABool (af_orphan r))]"

definition linked_task_text :: "artifact_data \<Rightarrow> feedback_row \<Rightarrow> string" where
  "linked_task_text d r =
     (case Option.bind (fe_task r) (find_row (ad_tasks d)) of None \<Rightarrow> []
      | Some t \<Rightarrow> if trim_space (af_title t) = [] then [] else ''Task: '' @ af_title t)"

definition repo_ListFeedback :: "artifact_env \<Rightarrow> string \<Rightarrow> list_query \<Rightarrow> amap list art" where
  "repo_ListFeedback env projectID q =
     eff_bind (project_identity projectID) (\<lambda>p. list_rows ''list feedback''
       (stmt_list (rx_uuid env) feedbackStatuses ad_feedback (\<lambda>r. lq_outcome q = [] \<or> outcome_text r = lq_outcome q)
          (\<lambda>d r u. feedback_item env r (us_name u) (linked_task_text d r)) p q))"

definition stmt_insert_feedback :: "artifact_env \<Rightarrow> string \<Rightarrow> string \<Rightarrow> string \<Rightarrow> string \<Rightarrow> (artifact_data, feedback_row) stmt" where
  "stmt_insert_feedback env actor title project slug =
     stmt_insert env project slug title actor ''Active'' ad_feedback (\<lambda>rs d. d\<lparr>ad_feedback := rs\<rparr>)
       (\<lambda>_ b. artifact_row.extend b \<lparr>av_from = None, fe_task = None, fe_outcome = Some ''Needs Iteration''\<rparr>)"

definition repo_CreateFeedback :: "artifact_env \<Rightarrow> string \<Rightarrow> string \<Rightarrow> string \<Rightarrow> amap option \<Rightarrow> amap art" where
  "repo_CreateFeedback env projectID actorUserID title content =
     create_row env ''feedback'' ''create feedback'' projectID actorUserID title (stmt_insert_feedback env actorUserID title)
       (\<lambda>project ownerName r.
         let content = (case content of None \<Rightarrow> defaultFeedbackContent (af_title r) | Some m \<Rightarrow> m) in
         eff_bind (upsertDocument env project ''feedback'' (af_id r) (af_revision r) actorUserID content) (\<lambda>_.
         eff_bind (recordArtifactCreated env project actorUserID ownerName ''feedback'' (af_id r) (af_title r) ''notify_feedback_added'') (\<lambda>_.
         eff_ret (feedback_item env r ownerName []))))"

text \<open>The artifacts a feedback may be linked to. Without a completed task or a selected idea the slice stays nil, which
  is printed as null.\<close>

definition stmt_options :: "uuid_cast \<Rightarrow> (artifact_data \<Rightarrow> 'x artifact_row_scheme list) \<Rightarrow> string \<Rightarrow> string \<Rightarrow> (artifact_data, 'x artifact_row_scheme) stmt" where
  "stmt_options uuid rows status project d =
     sum_bind (cast_uuid uuid project) (\<lambda>p. Inr (filter (\<lambda>r. af_project r = p \<and> af_status r = status) (rows d), d))"

definition option_of :: "string \<Rightarrow> string \<Rightarrow> string \<Rightarrow> string \<Rightarrow> 'x artifact_row_scheme \<Rightarrow> any" where
  "option_of projectID kind phase path r =
     AMap [(''id'', AStr (af_id r)), (''title'', AStr (af_title r)), (''type'', AStr kind), (''phase'', AStr phase),
       (''href'', AStr (project_href projectID path (af_id r))), (''status'', AStr (af_status r))]"

definition nil_if_empty :: "any list \<Rightarrow> any" where
  "nil_if_empty xs = (if xs = [] then ANil else ASlice xs)"

definition repo_GetFeedback :: "artifact_env \<Rightarrow> string \<Rightarrow> string \<Rightarrow> amap art" where
  "repo_GetFeedback env projectID ident =
     eff_bind (project_identity projectID) (\<lambda>p.
     eff_bind (one_or_missing ''feedback'' ''get feedback'' (RelationalQueryOne (stmt_get (rx_uuid env) ad_feedback p (trim_space ident)) Inr)) (\<lambda>(r, u).
     eff_bind (loadLatestContent env p ''feedback'' (af_id r) (defaultFeedbackContent (af_title r))) (\<lambda>content.
     eff_bind (RelationalQueryMany (stmt_options (rx_uuid env) ad_tasks ''Completed'' p)
       (\<lambda>t acc. Inr (acc @ [option_of projectID ''task'' ''Prototype'' ''tasks'' t])) []) (\<lambda>taskOptions.
     eff_bind (RelationalQueryMany (stmt_options (rx_uuid env) ad_ideas ''Selected'' p)
       (\<lambda>t acc. Inr (acc @ [option_of projectID ''idea'' ''Ideate'' ''ideas'' t])) []) (\<lambda>ideaOptions.
     eff_bind (RelationalQueryMany (stmt_options (rx_uuid env) ad_problems ''Locked'' p)
       (\<lambda>t acc. Inr (acc @ [option_of projectID ''problem'' ''Define'' ''problem-statement'' t])) []) (\<lambda>problemOptions.
     eff_ret
       [(''feedback'', AMap [(''id'', AStr (af_id r)), (''title'', AStr (af_title r)), (''outcome'', AStr (outcome_text r)), (''status'', AStr (af_status r)),
           (''owner'', AStr (us_name u)), (''createdDate'', AStr (rx_date env (af_created r))), (''lastUpdated'', AStr (rx_date env (af_updated r)))]),
        (''metadata'', metadata_map (us_name u) (rx_date env (af_created r)) (rx_date env (af_updated r))),
        (''detail'', AMap content),
        (''reference'', AMap [(''taskOptions'', nil_if_empty taskOptions), (''ideaOptions'', nil_if_empty ideaOptions),
           (''problemOptions'', ASlice problemOptions), (''permissions'', AMap [])])]))))))"

definition changed_feedback :: "int \<Rightarrow> string option \<Rightarrow> string option \<Rightarrow> string option \<Rightarrow> feedback_row \<Rightarrow> feedback_row" where
  "changed_feedback t new outcome task r =
     (let status = (case new of None \<Rightarrow> af_status r | Some s \<Rightarrow> s) in
      touch t (r\<lparr>af_status := status,
        av_from := (if status = ''Archived'' \<and> af_status r \<noteq> ''Archived'' then Some (af_status r)
          else if status \<noteq> ''Archived'' \<and> af_status r = ''Archived'' then None else av_from r),
        fe_outcome := (case outcome of None \<Rightarrow> fe_outcome r | Some x \<Rightarrow> Some x),
        fe_task := task, af_orphan := (task = None)\<rparr>))"

definition stmt_update_feedback ::
  "artifact_env \<Rightarrow> string \<Rightarrow> string \<Rightarrow> string \<Rightarrow> string \<Rightarrow> string option \<Rightarrow> (artifact_data, feedback_row \<times> user_row) stmt" where
  "stmt_update_feedback env project ident outcome status task d =
     sum_bind (cast_uuid (rx_uuid env) project) (\<lambda>p.
     sum_bind (cast_label feedbackOutcomes outcome) (\<lambda>outcome.
     sum_bind (cast_label feedbackStatuses status) (\<lambda>new.
     sum_bind (cast_ref env task) (\<lambda>task.
       let (rows, hit) = update_rows d p ident (\<lambda>_. True)
         (changed_feedback (now d) new outcome task) (ad_feedback d)
       in if hit \<noteq> [] \<and> task \<notin> insert None (Some ` set (map af_id (ad_tasks d))) then Inl (EPg ''23503'')
          else Inr (hit, d\<lparr>ad_feedback := rows\<rparr>)))))"

definition repo_UpdateFeedback :: "artifact_env \<Rightarrow> string \<Rightarrow> string \<Rightarrow> string \<Rightarrow> amap \<Rightarrow> amap art" where
  "repo_UpdateFeedback env projectID feedbackID actorUserID patch =
     eff_bind (project_identity projectID) (\<lambda>p.
     eff_bind (resolveFeedbackLinks env p (toSlice (mget patch ''linkedArtifacts''))) (\<lambda>(primaryTaskID, links).
     eff_bind (one_or_missing ''feedback'' ''update feedback'' (RelationalQueryOne (stmt_update_feedback env p (trim_space feedbackID)
       (toString (mget patch ''outcome'')) (toString (mget patch ''status'')) primaryTaskID) Inr)) (\<lambda>(r, u).
     eff_bind (replaceFeedbackLinks env p (af_id r) actorUserID links) (\<lambda>_.
     eff_bind (upsertDocument env p ''feedback'' (af_id r) (af_revision r) actorUserID patch) (\<lambda>_.
     eff_bind (recordArtifactUpdated env p actorUserID ''feedback'' (af_id r) (af_title r)) (\<lambda>_.
     eff_ret (feedback_item env r (us_name u) (if fe_task r \<noteq> None then ''Task'' else []))))))))"

section \<open>The repository\<close>

definition artifact_repository :: "artifact_env \<Rightarrow> doc_session artifact_repo" where
  "artifact_repository env =
     \<lparr>rp_stories = \<lparr>kr_list = repo_ListStories env, kr_create = repo_CreateStory env, kr_get = repo_GetStory env, kr_update = repo_UpdateStory env\<rparr>,
      rp_journeys = \<lparr>kr_list = repo_ListJourneys env, kr_create = repo_CreateJourney env, kr_get = repo_GetJourney env, kr_update = repo_UpdateJourney env\<rparr>,
      rp_problems = \<lparr>kr_list = repo_ListProblems env, kr_create = repo_CreateProblem env, kr_get = repo_GetProblem env, kr_update = repo_UpdateProblem env\<rparr>,
      rp_ideas = \<lparr>kr_list = repo_ListIdeas env, kr_create = repo_CreateIdea env, kr_get = repo_GetIdea env, kr_update = repo_UpdateIdea env\<rparr>,
      rp_tasks = \<lparr>kr_list = repo_ListTasks env, kr_create = repo_CreateTask env, kr_get = repo_GetTask env, kr_update = repo_UpdateTask env\<rparr>,
      rp_feedback = \<lparr>kr_list = repo_ListFeedback env, kr_create = repo_CreateFeedback env, kr_get = repo_GetFeedback env, kr_update = repo_UpdateFeedback env\<rparr>\<rparr>"

end
