(* ===== verification/Artifact_Laws.thy ===== *)
theory Artifact_Laws
  imports Artifact_Service
begin

text \<open>
  The life of an artifact: what the updates of the six kinds let through, stated by tables of moves, and
  what follows for sequences of updates.
\<close>

section \<open>Kinds\<close>

datatype artifact_kind = KStory | KJourney | KProblem | KIdea | KTask | KFeedback

fun repo_of :: "'s artifact_repo \<Rightarrow> artifact_kind \<Rightarrow> 's kind_repo" where
  "repo_of r KStory = rp_stories r"
| "repo_of r KJourney = rp_journeys r"
| "repo_of r KProblem = rp_problems r"
| "repo_of r KIdea = rp_ideas r"
| "repo_of r KTask = rp_tasks r"
| "repo_of r KFeedback = rp_feedback r"

fun validate_update :: "artifact_kind \<Rightarrow> amap option \<Rightarrow> err + amap" where
  "validate_update KStory = updateStoryRequest_Validate"
| "validate_update KJourney = updateJourneyRequest_Validate"
| "validate_update KProblem = updateProblemRequest_Validate"
| "validate_update KIdea = updateIdeaRequest_Validate"
| "validate_update KTask = updateTaskRequest_Validate"
| "validate_update KFeedback = updateFeedbackRequest_Validate"

fun statuses :: "artifact_kind \<Rightarrow> string list" where
  "statuses KStory = storyStatuses"
| "statuses KJourney = journeyStatuses"
| "statuses KProblem = problemStatuses"
| "statuses KIdea = ideaStatuses"
| "statuses KTask = taskStatuses"
| "statuses KFeedback = feedbackStatuses"

text \<open>Without its result, an update either ends with an error or does not.\<close>

definition failure_of :: "('s, 'a) eff \<Rightarrow> 's \<Rightarrow> err option \<times> 's" where
  "failure_of m s = (case m s of (Inl e, s') \<Rightarrow> (Some e, s') | (Inr a, s') \<Rightarrow> (None, s'))"

fun run_update ::
  "('d, 'z) session_scheme artifact_repo \<Rightarrow> artifact_kind \<Rightarrow> string \<Rightarrow> string \<Rightarrow> string \<Rightarrow> amap option
     \<Rightarrow> ('d, 'z) session_scheme \<Rightarrow> err option \<times> ('d, 'z) session_scheme" where
  "run_update r KStory p i a payload = failure_of (UpdateStory r p i a payload)"
| "run_update r KJourney p i a payload = failure_of (UpdateJourney r p i a payload)"
| "run_update r KProblem p i a payload = failure_of (UpdateProblem r p i a payload)"
| "run_update r KIdea p i a payload = failure_of (UpdateIdea r p i a payload)"
| "run_update r KTask p i a payload = failure_of (UpdateTask r p i a payload)"
| "run_update r KFeedback p i a payload = failure_of (UpdateFeedback r p i a payload)"

fun kind_name :: "artifact_kind \<Rightarrow> string" where
  "kind_name KStory = ''story''"
| "kind_name KJourney = ''journey''"
| "kind_name KProblem = ''problem''"
| "kind_name KIdea = ''idea''"
| "kind_name KTask = ''task''"
| "kind_name KFeedback = ''feedback''"

text \<open>The status that counts: the loaded one; feedback without a status is active.\<close>

definition current_status :: "artifact_kind \<Rightarrow> amap \<Rightarrow> string" where
  "current_status k current = (let old = nestedString current (kind_name k) ''status'' in
     if k = KFeedback \<and> old = [] then ''Active'' else old)"

section \<open>The life of an artifact\<close>

text \<open>The moves of a status: by a patch with any content, or by one that has nothing but the status.\<close>

fun open_moves :: "artifact_kind \<Rightarrow> (string \<times> string) list" where
  "open_moves KIdea = [(''Considered'', ''Considered''), (''Considered'', ''Selected''), (''Considered'', ''Rejected''),
     (''Considered'', ''Archived'')]"
| "open_moves KTask = [(''Planned'', ''Planned''), (''Planned'', ''In Progress''), (''Planned'', ''Abandoned''),
     (''In Progress'', ''In Progress''), (''In Progress'', ''Completed''), (''In Progress'', ''Abandoned'')]"
| "open_moves KFeedback = [(''Active'', ''Active''), (''Active'', ''Archived''), (''Archived'', ''Archived''), (''Archived'', ''Active'')]"
| "open_moves _ = [(''Draft'', ''Draft''), (''Draft'', ''Locked''), (''Draft'', ''Archived'')]"

fun settled_moves :: "artifact_kind \<Rightarrow> (string \<times> string) list" where
  "settled_moves KIdea = [(''Selected'', ''Archived''), (''Rejected'', ''Archived''), (''Archived'', ''Archived''),
     (''Archived'', ''Considered''), (''Archived'', ''Selected''), (''Archived'', ''Rejected'')]"
| "settled_moves KTask = []"
| "settled_moves KFeedback = []"
| "settled_moves _ = [(''Locked'', ''Archived''), (''Archived'', ''Archived''), (''Archived'', ''Draft''), (''Archived'', ''Locked'')]"

fun settled :: "artifact_kind \<Rightarrow> string list" where
  "settled KIdea = [''Selected'', ''Rejected'', ''Archived'']"
| "settled KTask = [''Completed'', ''Abandoned'']"
| "settled KFeedback = []"
| "settled _ = [''Locked'', ''Archived'']"

definition patch_status :: "amap \<Rightarrow> string" where
  "patch_status patch = toString (mget patch ''status'')"

definition admitted :: "artifact_kind \<Rightarrow> string \<Rightarrow> amap \<Rightarrow> bool" where
  "admitted k old patch \<longleftrightarrow>
     (if old \<in> set (settled k) then length patch = 1 \<and> (old, patch_status patch) \<in> set (settled_moves k)
      else patch_status patch = [] \<or> (old, patch_status patch) \<in> set (open_moves k))"

text \<open>What the update of a kind refuses.\<close>

fun refusal :: "artifact_kind \<Rightarrow> string \<Rightarrow> amap \<Rightarrow> err option" where
  "refusal KStory old patch = or_error (enforceArchiveOnlyForImmutableUpdate ''story'' old patch storyImmutableStatuses)
     (transition_error ''story'' old story_transitions patch)"
| "refusal KJourney old patch = or_error (enforceArchiveOnlyForImmutableUpdate ''journey'' old patch journeyImmutableStatuses)
     (transition_error ''journey'' old journey_transitions patch)"
| "refusal KProblem old patch = or_error (enforceArchiveOnlyForImmutableUpdate ''problem'' old patch problemImmutableStatuses)
     (transition_error ''problem'' old problem_transitions patch)"
| "refusal KIdea old patch = or_error (enforceArchiveOnlyForImmutableUpdate ''idea'' old patch ideaImmutableStatuses)
     (transition_error ''idea'' old idea_transitions patch)"
| "refusal KTask old patch = or_error (enforceArchiveOnlyForImmutableUpdate ''task'' old patch taskImmutableStatuses)
     (transition_error ''task'' old task_transitions patch)"
| "refusal KFeedback old patch = transition_error ''feedback'' old feedback_transitions patch"

lemma find_fold_in: "find (\<lambda>c. equal_fold c s) xs = Some t \<Longrightarrow> t \<in> set xs"
  by (auto simp: find_Some_iff)

lemma normalizeAllowedStatus_in: "normalizeAllowedStatus allowed raw = Some t \<Longrightarrow> t \<in> set allowed"
  by (auto simp: normalizeAllowedStatus_def Let_def split: if_splits dest: find_fold_in)

definition plain_names :: "string list \<Rightarrow> bool" where
  "plain_names names \<longleftrightarrow> list_all (\<lambda>n. n \<noteq> [] \<and> graphic (hd n) \<and> graphic (last n)) names"

lemma statuses_plain: "plain_names (statuses k)" "plain_names feedbackOutcomes"
  by (cases k) (simp_all add: plain_names_def storyStatuses_def journeyStatuses_def problemStatuses_def ideaStatuses_def
    taskStatuses_def feedbackStatuses_def feedbackOutcomes_def)

lemma canonical_field_status:
  "canonical_field key allowed m payload = Inr patch \<Longrightarrow> plain_names allowed
     \<Longrightarrow> toString (mget patch key) = [] \<or> toString (mget patch key) \<in> set allowed"
  by (auto simp: canonical_field_def Let_def plain_names_def list_all_iff trim_plain
      dest!: normalizeAllowedStatus_in split: if_splits option.splits)

lemma canonical_field_other:
  "canonical_field key allowed m payload = Inr patch \<Longrightarrow> key' \<noteq> key \<Longrightarrow> mget patch key' = mget payload key'"
  by (auto simp: canonical_field_def Let_def split: if_splits option.splits)

lemma validated_status: "validate_update k payload = Inr patch \<Longrightarrow> patch_status patch = [] \<or> patch_status patch \<in> set (statuses k)"
  using statuses_plain(1) [of k]
  by (cases k)
    (auto simp: updateStoryRequest_Validate_def updateJourneyRequest_Validate_def updateProblemRequest_Validate_def
      updateIdeaRequest_Validate_def updateTaskRequest_Validate_def updateFeedbackRequest_Validate_def patch_status_def
      canonical_field_other dest: canonical_field_status)


lemmas status_lists = storyStatuses_def journeyStatuses_def problemStatuses_def ideaStatuses_def taskStatuses_def feedbackStatuses_def

lemmas immutable_lists = storyImmutableStatuses_def journeyImmutableStatuses_def problemImmutableStatuses_def
  ideaImmutableStatuses_def taskImmutableStatuses_def

lemmas matrices = story_transitions_def journey_transitions_def problem_transitions_def idea_transitions_def
  task_transitions_def feedback_transitions_def

lemma fold_archived: "status \<in> set (statuses k) \<Longrightarrow> equal_fold status ''Archived'' \<longleftrightarrow> status = ''Archived''"
  by (cases k) (auto simp: status_lists equal_fold_def case_literal)

lemma settled_statuses: "old \<in> set (settled k) \<Longrightarrow> old \<in> set (statuses k)"
  by (cases k) (auto simp: status_lists)

lemma enforce_settled:
  assumes "set immutable = set (settled k)" "trim_space old = old"
    and "patch_status patch = [] \<or> patch_status patch \<in> set (statuses k)"
  shows "enforceArchiveOnlyForImmutableUpdate entity old patch immutable = None \<longleftrightarrow>
    (old \<in> set (settled k) \<longrightarrow> length patch = 1 \<and> (patch_status patch = ''Archived'' \<or> old = ''Archived'' \<and> patch_status patch \<noteq> []))"
proof -
  have fold: "equal_fold (patch_status patch) ''Archived'' \<longleftrightarrow> patch_status patch = ''Archived''"
  proof (cases "patch_status patch = []")
    case True
    then show ?thesis by (simp add: equal_fold_def case_literal)
  next
    case False
    with assms(3) show ?thesis by (intro fold_archived) blast
  qed
  have imm: "isImmutableStatus old immutable \<longleftrightarrow> old \<in> set (settled k)"
  proof -
    have "[] \<notin> set (settled k)" by (cases k) simp_all
    then show ?thesis using assms(1,2) by (auto simp: isImmutableStatus_def Let_def)
  qed
  show ?thesis
  proof (cases "old \<in> set (settled k)")
    case True
    then have "equal_fold old ''Archived'' \<longleftrightarrow> old = ''Archived''"
      using fold_archived settled_statuses by blast
    with True show ?thesis
      using fold assms(2)
      by (auto simp: enforceArchiveOnlyForImmutableUpdate_def imm isArchiveOnlyPatch_def isRestoreOnlyPatch_def
          patch_status_def Let_def)
  qed (simp add: enforceArchiveOnlyForImmutableUpdate_def imm)
qed

lemma or_error_None [simp]: "or_error a b = None \<longleftrightarrow> a = None \<and> b = None"
  by (cases a) (simp_all add: or_error_def)

lemma transition_error_None: "trim_space old = old \<Longrightarrow> transition_error entity old matrix patch = None \<longleftrightarrow>
    patch_status patch = [] \<or> old \<noteq> [] \<and> (\<exists>allowed. map_of matrix old = Some allowed \<and> patch_status patch \<in> set allowed)"
  by (auto simp: transition_error_def isAllowedTransition_def patch_status_def Let_def split: option.splits)

text \<open>The transitions a matrix lists.\<close>

definition edges :: "transitions \<Rightarrow> (string \<times> string) list" where
  "edges matrix = concat (map (\<lambda>(a, bs). map (\<lambda>b. (a, b)) bs) matrix)"

lemma edges_iff: "distinct (map fst matrix) \<Longrightarrow>
    (old, new) \<in> set (edges matrix) \<longleftrightarrow> (\<exists>allowed. map_of matrix old = Some allowed \<and> new \<in> set allowed)"
  by (auto simp: edges_def map_of_eq_Some_iff)

lemma transition_error_edges:
  assumes "trim_space old = old" "distinct (map fst matrix)" "[] \<notin> fst ` set matrix"
  shows "transition_error entity old matrix patch = None \<longleftrightarrow> patch_status patch = [] \<or> (old, patch_status patch) \<in> set (edges matrix)"
proof -
  have "map_of matrix [] = None" using assms(3) by (simp add: map_of_eq_None_iff)
  then show ?thesis unfolding transition_error_None [OF assms(1)] edges_iff [OF assms(2)] by (cases "old = []") auto
qed

fun matrix_of :: "artifact_kind \<Rightarrow> transitions" where
  "matrix_of KStory = story_transitions"
| "matrix_of KJourney = journey_transitions"
| "matrix_of KProblem = problem_transitions"
| "matrix_of KIdea = idea_transitions"
| "matrix_of KTask = task_transitions"
| "matrix_of KFeedback = feedback_transitions"

fun immutable_of :: "artifact_kind \<Rightarrow> string list" where
  "immutable_of KStory = storyImmutableStatuses"
| "immutable_of KJourney = journeyImmutableStatuses"
| "immutable_of KProblem = problemImmutableStatuses"
| "immutable_of KIdea = ideaImmutableStatuses"
| "immutable_of KTask = taskImmutableStatuses"
| "immutable_of KFeedback = []"

lemma immutable_settled: "set (immutable_of k) = set (settled k)"
  by (cases k) (auto simp: immutable_lists)

lemma matrix_of_ok: "distinct (map fst (matrix_of k))" "[] \<notin> fst ` set (matrix_of k)"
  by (cases k; simp add: matrices)+

lemma edges_split:
  "old \<notin> set (settled k) \<Longrightarrow> (old, new) \<in> set (edges (matrix_of k)) \<longleftrightarrow> (old, new) \<in> set (open_moves k)"
  "old \<in> set (settled k) \<Longrightarrow> new = ''Archived'' \<or> old = ''Archived'' \<and> new \<noteq> [] \<Longrightarrow>
     (old, new) \<in> set (edges (matrix_of k)) \<longleftrightarrow> (old, new) \<in> set (settled_moves k)"
  "(old, new) \<in> set (settled_moves k) \<Longrightarrow> new = ''Archived'' \<or> old = ''Archived'' \<and> new \<noteq> []"
  by (cases k; auto simp: matrices edges_def)+

lemma refusal_kind: "refusal k old patch =
    (if k = KFeedback then transition_error (kind_name k) old (matrix_of k) patch
     else or_error (enforceArchiveOnlyForImmutableUpdate (kind_name k) old patch (immutable_of k))
       (transition_error (kind_name k) old (matrix_of k) patch))"
  by (cases k) simp_all

lemma refusal_None:
  assumes "trim_space old = old" "patch_status patch = [] \<or> patch_status patch \<in> set (statuses k)"
  shows "refusal k old patch = None \<longleftrightarrow> admitted k old patch"
proof -
  note enforced = enforce_settled [OF immutable_settled assms]
  note moved = transition_error_edges [OF assms(1) matrix_of_ok]
  show ?thesis
  proof (cases "k = KFeedback")
    case True
    then show ?thesis using moved [of "kind_name k" k patch] edges_split(1) [of old k]
      by (simp add: refusal_kind admitted_def)
  next
    case False
    show ?thesis
    proof (cases "old \<in> set (settled k)")
      case True
      then have "(patch_status patch = ''Archived'' \<or> old = ''Archived'' \<and> patch_status patch \<noteq> []) \<and>
          (patch_status patch = [] \<or> (old, patch_status patch) \<in> set (edges (matrix_of k)))
        \<longleftrightarrow> (old, patch_status patch) \<in> set (settled_moves k)"
        using edges_split(2) [OF True, of "patch_status patch"] edges_split(3) [of old "patch_status patch" k] by auto
      with True False show ?thesis by (auto simp: refusal_kind enforced moved admitted_def)
    next
      case open_status: False
      with False edges_split(1) [OF open_status] show ?thesis by (simp add: refusal_kind enforced moved admitted_def)
    qed
  qed
qed


section \<open>Updates\<close>

lemma current_status_trimmed: "trim_space (current_status k current) = current_status k current"
  by (auto simp: current_status_def nestedString_def Let_def trim_plain split: option.splits)

lemma update_item_steps:
  "failure_of (update_item entity decode validated load refused update) s = (None, s') \<longleftrightarrow>
     (\<exists>patch current s1 updated. validated = Inr patch \<and> load s = (Inr current, s1) \<and> refused current patch = None
        \<and> WithTx (update patch) s1 = (Inr updated, s'))"
  by (auto simp: failure_of_def update_item_def in_tx_def eff_bind_def eff_lift_def eff_map_err_def eff_case_def
      eff_throw_def eff_ret_def check_def split: prod.splits sum.splits option.splits)

lemma run_update_steps:
  "run_update r k p i a payload = failure_of (update_item (kind_name k) id (validate_update k payload)
     (kr_get (repo_of r k) p i) (\<lambda>current patch. refusal k (current_status k current) patch)
     (\<lambda>patch. kr_update (repo_of r k) p i a patch))"
proof -
  have decoded: "failure_of (update_item entity d1 validated load refused update)
      = failure_of (update_item entity d2 validated load refused update)"
    for entity validated load refused update and d1 :: "amap \<Rightarrow> 'x" and d2 :: "amap \<Rightarrow> 'y"
    by (auto simp: fun_eq_iff failure_of_def update_item_def eff_bind_def eff_ret_def split: prod.splits sum.splits)
  show ?thesis
    by (cases k; simp only: run_update.simps kind_name.simps validate_update.simps repo_of.simps refusal.simps
          UpdateStory_def UpdateJourney_def UpdateProblem_def UpdateIdea_def UpdateTask_def UpdateFeedback_def
          current_status_def Let_def artifact_kind.distinct artifact_kind.simps simp_thms if_False;
        rule decoded)
qed

text \<open>C3: an update of an artifact of any kind succeeds only along the life of its kind. When it succeeds, the
  payload was valid, the artifact was loaded, its status and the patch satisfy \<open>admitted\<close> (a move of
  the kind, and a settled artifact takes nothing but a status), and exactly the canonical patch was
  handed to the repository in one transaction, which committed. Conversely these suffice.\<close>

theorem update_follows_lifecycle:
  "run_update r k project item actor payload s = (None, s') \<longleftrightarrow>
     (\<exists>patch current s1 updated. validate_update k payload = Inr patch
        \<and> kr_get (repo_of r k) project item s = (Inr current, s1)
        \<and> admitted k (current_status k current) patch
        \<and> WithTx (kr_update (repo_of r k) project item actor patch) s1 = (Inr updated, s'))"
  unfolding run_update_steps update_item_steps
  using refusal_None [OF current_status_trimmed validated_status] by blast


text \<open>C20: an update that fails leaves the relational data as they were, whatever it fails of: an invalid
  payload, a missing artifact, a refused move, an error of the repository or of the commit.\<close>

theorem failed_update_keeps_data:
  assumes "\<And>t. ss_data (snd (kr_get (repo_of r k) project item t)) = ss_data t"
    and "run_update r k project item actor payload s = (Some e, s')"
  shows "ss_data s' = ss_data s"
proof -
  have load: "ss_data t' = ss_data t" if "kr_get (repo_of r k) project item t = (x, t')" for t x t'
    using assms(1) [of t] that by simp
  show ?thesis
    using assms(2) unfolding run_update_steps
    by (auto simp: failure_of_def update_item_def in_tx_def eff_bind_def eff_lift_def eff_map_err_def eff_case_def
        eff_throw_def eff_ret_def check_def split: prod.splits sum.splits option.splits
        dest!: WithTx_error_data load)
qed

section \<open>Statuses over time\<close>

inductive evolves :: "artifact_kind \<Rightarrow> string \<Rightarrow> string \<Rightarrow> bool" where
  patched: "trim_space old = old \<Longrightarrow> validate_update k payload = Inr patch \<Longrightarrow> refusal k old patch = None
     \<Longrightarrow> patch_status patch \<noteq> [] \<Longrightarrow> evolves k old (patch_status patch)"
| untouched: "trim_space old = old \<Longrightarrow> validate_update k payload = Inr patch \<Longrightarrow> refusal k old patch = None
     \<Longrightarrow> patch_status patch = [] \<Longrightarrow> evolves k old old"

lemma evolves_admitted:
  "evolves k old new \<longleftrightarrow> trim_space old = old \<and>
     (\<exists>payload patch. validate_update k payload = Inr patch \<and> admitted k old patch
        \<and> new = (if patch_status patch = [] then old else patch_status patch))"
  (is "_ \<longleftrightarrow> ?R")
proof
  assume "evolves k old new"
  then show ?R
  proof cases
    case (patched payload patch)
    then have "admitted k old patch" using refusal_None [OF patched(2) validated_status] by blast
    with patched show ?thesis by auto
  next
    case (untouched payload patch)
    then have "admitted k old patch" using refusal_None [OF untouched(2) validated_status] by blast
    with untouched show ?thesis by auto
  qed
next
  assume ?R
  then obtain payload patch where p: "trim_space old = old" "validate_update k payload = Inr patch" "admitted k old patch"
    "new = (if patch_status patch = [] then old else patch_status patch)" by blast
  then have "refusal k old patch = None" using refusal_None [OF p(1) validated_status] by blast
  with p show "evolves k old new" by (auto intro: evolves.intros)
qed

lemma status_payload:
  assumes "new \<in> set (statuses k)"
  shows "validate_update k (Some [(''status'', AStr new)]) = Inr [(''status'', AStr new)]"
proof -
  have "trim_space new = new" "new \<noteq> []"
    using statuses_plain(1) [of k] assms by (auto simp: plain_names_def list_all_iff trim_plain)
  with assms show ?thesis
    by (cases k)
      (simp_all add: updateStoryRequest_Validate_def updateJourneyRequest_Validate_def updateProblemRequest_Validate_def
        updateIdeaRequest_Validate_def updateTaskRequest_Validate_def updateFeedbackRequest_Validate_def sum_bind_def
        checked_payload_def validatePatchPayload_def ValidatePatch_def canonical_field_def normalizeAllowedStatus_def
        storyPatchRules_def journeyPatchRules_def problemPatchRules_def ideaPatchRules_def taskPatchRules_def feedbackPatchRules_def)
qed

lemma moves_in_statuses:
  "(old, new) \<in> set (open_moves k @ settled_moves k) \<Longrightarrow> old \<in> set (statuses k) \<and> new \<in> set (statuses k)"
  "(old, new) \<in> set (open_moves k) \<Longrightarrow> old \<notin> set (settled k)"
  "(old, new) \<in> set (settled_moves k) \<Longrightarrow> old \<in> set (settled k)"
  "old \<in> set (statuses k) \<Longrightarrow> old \<notin> set (settled k) \<Longrightarrow> (old, old) \<in> set (open_moves k)"
  by (cases k; auto simp: status_lists)+

lemma patch_status_single [simp]: "patch_status [(''status'', AStr v)] = trim_space v"
  by (simp add: patch_status_def)

lemma moves_evolve: "(old, new) \<in> set (open_moves k @ settled_moves k) \<Longrightarrow> evolves k old new"
proof -
  assume move: "(old, new) \<in> set (open_moves k @ settled_moves k)"
  then have new: "new \<in> set (statuses k)" using moves_in_statuses(1) by blast
  then have trim: "trim_space new = new" "new \<noteq> []"
    using statuses_plain(1) [of k] by (auto simp: plain_names_def list_all_iff trim_plain)
  have "admitted k old [(''status'', AStr new)]"
    using move trim moves_in_statuses(2,3) [of old new k] by (auto simp: admitted_def)
  moreover have "trim_space old = old"
    using statuses_plain(1) [of k] moves_in_statuses(1) [OF move] by (auto simp: plain_names_def list_all_iff trim_plain)
  ultimately show "evolves k old new" using status_payload [OF new] trim unfolding evolves_admitted by fastforce
qed


definition task_rank :: "string \<Rightarrow> nat" where
  "task_rank status = (if status = ''Planned'' then 2 else if status = ''In Progress'' then 1 else 0)"

lemma task_rank_decreases: "evolves KTask old new \<Longrightarrow> new \<noteq> old \<Longrightarrow> task_rank new < task_rank old"
proof -
  have ranks: "list_all (\<lambda>(a, b). a \<noteq> b \<longrightarrow> task_rank b < task_rank a) (open_moves KTask)" by code_simp
  assume e: "evolves KTask old new" "new \<noteq> old"
  then have "(old, new) \<in> set (open_moves KTask)" by (auto simp: evolves_admitted admitted_def split: if_splits)
  with ranks e(2) show "task_rank new < task_rank old" unfolding list_all_iff by fastforce
qed



section \<open>Concrete updates\<close>

definition sample_kind_repo :: "string \<Rightarrow> string \<Rightarrow> string session kind_repo" where
  "sample_kind_repo name status = \<lparr>kr_list = (\<lambda>p q. eff_ret []), kr_create = (\<lambda>p a t c. eff_ret []),
     kr_get = (\<lambda>p i. eff_ret [(name, AMap [(''status'', AStr status)])]),
     kr_update = (\<lambda>p i a patch s. (Inr patch, s\<lparr>ss_data := patch_status patch\<rparr>))\<rparr>"

definition sample_artifacts :: "string session artifact_repo" where
  "sample_artifacts = \<lparr>rp_stories = sample_kind_repo ''story'' ''Locked'', rp_journeys = sample_kind_repo ''journey'' ''Draft'',
     rp_problems = sample_kind_repo ''problem'' ''Draft'', rp_ideas = sample_kind_repo ''idea'' ''Considered'',
     rp_tasks = sample_kind_repo ''task'' ''Completed'', rp_feedback = sample_kind_repo ''feedback'' ''Active''\<rparr>"

definition sample_store :: "string session" where
  "sample_store = \<lparr>ss_data = ''old'', ss_tx = NoTx, ss_count = 0, ss_fault = (\<lambda>n. None)\<rparr>"

text \<open>Reopening a completed task is refused.\<close>

lemma failed_update_keeps_data_witness:
  "\<exists>e s'. run_update sample_artifacts KTask ''p'' ''t'' ''u'' (Some [(''status'', AStr ''In Progress'')]) sample_store = (Some e, s')
     \<and> ss_data s' = ''old''"
proof -
  have payload: "validate_update KTask (Some [(''status'', AStr ''In Progress'')]) = Inr [(''status'', AStr ''In Progress'')]"
    by (rule status_payload) (simp add: taskStatuses_def)
  have "fst (run_update sample_artifacts KTask ''p'' ''t'' ''u'' (Some [(''status'', AStr ''In Progress'')]) sample_store) \<noteq> None"
  proof
    assume "fst (run_update sample_artifacts KTask ''p'' ''t'' ''u'' (Some [(''status'', AStr ''In Progress'')]) sample_store) = None"
    then obtain s' where "run_update sample_artifacts KTask ''p'' ''t'' ''u'' (Some [(''status'', AStr ''In Progress'')]) sample_store = (None, s')"
      by (metis prod.collapse)
    then have "failure_of (update_item (kind_name KTask) id (validate_update KTask (Some [(''status'', AStr ''In Progress'')]))
        (kr_get (repo_of sample_artifacts KTask) ''p'' ''t'') (\<lambda>current patch. refusal KTask (current_status KTask current) patch)
        (\<lambda>patch. kr_update (repo_of sample_artifacts KTask) ''p'' ''t'' ''u'' patch)) sample_store = (None, s')"
      unfolding run_update_steps .
    then have "refusal KTask ''Completed'' [(''status'', AStr ''In Progress'')] = None"
      unfolding update_item_steps payload
      by (auto simp: sample_artifacts_def sample_kind_repo_def eff_ret_def current_status_def nestedString_def toMap_def trim_plain Let_def)
    then have "admitted KTask ''Completed'' [(''status'', AStr ''In Progress'')]"
      using refusal_None [of "''Completed''" "[(''status'', AStr ''In Progress'')]" KTask] by (simp add: trim_plain taskStatuses_def)
    then show False by (simp add: admitted_def)
  qed
  then obtain e s' where run: "run_update sample_artifacts KTask ''p'' ''t'' ''u'' (Some [(''status'', AStr ''In Progress'')]) sample_store = (Some e, s')"
    by (metis not_None_eq prod.collapse)
  have "ss_data s' = ss_data sample_store"
    by (rule failed_update_keeps_data [OF _ run]) (simp add: sample_artifacts_def sample_kind_repo_def eff_ret_def)
  with run show ?thesis by (simp add: sample_store_def)
qed


definition sample_task_life :: "nat \<Rightarrow> string" where
  "sample_task_life i = (if i = 0 then ''Planned'' else if i = 1 then ''In Progress'' else ''Completed'')"

lemma sample_task_moves: "evolves KTask ''Planned'' ''In Progress''" "evolves KTask ''In Progress'' ''Completed''"
  by (rule moves_evolve; simp)+


end
