(* ===== verification/Artifact_Effects.thy ===== *)
theory Artifact_Effects
  imports Artifact_Chain Artifact_Laws
begin

text \<open>
  What every operation of the artifacts repository does to the tables, proved once: a reflexive and transitive
  relation that each of its write statements satisfies holds between the data before and after any method,
  whatever requests fail on the way and whether or not a transaction commits.
\<close>

definition on_data :: "('d \<Rightarrow> 'd \<Rightarrow> bool) \<Rightarrow> ('d, 'z) session_scheme \<Rightarrow> ('d, 'z) session_scheme \<Rightarrow> bool" where
  "on_data R s t \<longleftrightarrow> R (ss_data s) (ss_data t)"

lemma on_data_refl: "reflp R \<Longrightarrow> reflp (on_data R)"
  by (auto simp: on_data_def intro!: reflpI dest: reflpD)

lemma on_data_trans: "transp R \<Longrightarrow> transp (on_data R)"
  unfolding on_data_def by (rule transpI) (blast dest: transpD)

lemma on_data_stmt:
  assumes "reflp R" "\<And>d rows d'. st d = Inr (rows, d') \<Longrightarrow> R d d'"
  shows "keeps (on_data R) (run_stmt st)"
  using reflpD [OF assms(1)] assms(2)
  by (auto simp: keeps_def on_data_def run_stmt_def split: option.splits sum.splits prod.splits)

lemma on_data_same: "reflp R \<Longrightarrow> keeps same_data m \<Longrightarrow> keeps (on_data R) m"
  by (erule keeps_mono) (simp add: same_data_def on_data_def reflpD)

lemma on_data_tx:
  fixes m :: "(('d, 'z) session_scheme, 'a) eff"
  shows "reflp R \<Longrightarrow> keeps (on_data R) m \<Longrightarrow> keeps (on_data R) (WithTx m)"
  unfolding keeps_def on_data_def
proof
  fix s :: "('d, 'z) session_scheme"
  assume "reflp R" and m: "\<forall>s. R (ss_data s) (ss_data (snd (m s)))"
  then have "R (ss_data s) (ss_data s)" by (simp add: reflpD)
  with m [rule_format, of "(tick s)\<lparr>ss_tx := TxOpen\<rparr>"] show "R (ss_data s) (ss_data (snd (WithTx m s)))"
    by (auto simp: WithTx_def split: option.splits prod.splits sum.splits)
qed

section \<open>Reading\<close>

lemma run_doc_data: "keeps same_data (run_doc op)"
  by (auto simp: keeps_def same_data_def run_doc_def Let_def split: option.splits sum.splits)

lemma mongo_data: "keeps same_data (mongo_find_one flt cmd)" "keeps same_data (mongo_update_one flt doc cmd)"
  unfolding mongo_find_one_def mongo_update_one_def by (auto intro!: keeps_intros run_doc_data)

lemma read_stmt: "(\<And>d rows d'. st d = Inr (rows, d') \<Longrightarrow> d' = d) \<Longrightarrow> keeps same_data (run_stmt st)"
  by (rule run_stmt_read_only)

lemmas read_stmts = stmt_project_def stmt_user_name_def stmt_slug_exists_def stmt_resolve_def stmt_status_def stmt_count_ideas_def
  stmt_list_def stmt_get_def stmt_assignee_ids_def stmt_assignee_options_def stmt_active_members_def stmt_task_title_def
  stmt_locked_problems_def stmt_idea_options_def stmt_options_def Let_def

named_theorems repo_reads

lemma wrapped_data [repo_reads]: "keeps same_data m \<Longrightarrow> keeps same_data (wrap_store a m)"
  "keeps same_data m \<Longrightarrow> keeps same_data (one_or_missing w a m)"
  unfolding wrap_store_def one_or_missing_def by (auto intro!: keeps_intros)

lemma or_blank_data: "keeps same_data m \<Longrightarrow> keeps same_data (or_blank m)"
  unfolding or_blank_def by (auto intro!: keeps_intros)

lemma identity_data [repo_reads]: "keeps same_data (project_identity p)"
  unfolding project_identity_def by (intro wrapped_data query_read_only) (simp add: read_stmts)

lemma user_name_data [repo_reads]: "keeps same_data (resolveUserName env u)"
  unfolding resolveUserName_def by (intro wrapped_data query_read_only) (auto simp: read_stmts)

lemma slug_rounds_data: "(\<And>s. keeps same_data (taken s)) \<Longrightarrow> keeps same_data (slug_rounds taken base slug is)"
  by (induction "is" arbitrary: slug) (auto intro!: keeps_intros)

lemma slug_data [repo_reads]: "keeps same_data (nextUniqueSlug env table p seed)"
  unfolding nextUniqueSlug_def slugExists_def Let_def
  by (intro slug_rounds_data wrapped_data query_read_only) (auto simp: read_stmts)

lemma load_data [repo_reads]: "keeps same_data (loadLatestContent env p ty i fallback)"
  unfolding loadLatestContent_def by (auto intro!: keeps_intros mongo_data)

lemma upsert_data [repo_reads]: "keeps same_data (upsertDocument env p ty i n u c)"
proof -
  have "keeps same_data (\<lambda>s. mongo_update_one flt (doc s) cmd s)" for flt doc cmd
    using mongo_data(2) unfolding keeps_def by blast
  then have "keeps same_data (wrap_store a (\<lambda>s. mongo_update_one flt (doc s) cmd s))" for a flt doc cmd by (rule wrapped_data)
  then show ?thesis unfolding upsertDocument_def by (intro keeps_bind load_data) (auto intro!: keeps_intros)
qed

lemma resolve_data [repo_reads]: "keeps same_data (resolveArtifactIDByIdentifier env p ty i)"
  unfolding resolveArtifactIDByIdentifier_def
  by (intro keeps_bind wrapped_data query_read_only) (auto simp: read_stmts intro!: keeps_intros)

lemma check_status_data [repo_reads]: "keeps same_data (check_status env t w a wanted msg p i)"
  unfolding check_status_def
  by (intro keeps_bind wrapped_data query_read_only) (auto simp: read_stmts intro!: keeps_intros)

lemma ensure_data [repo_reads]: "keeps same_data (ensureProblemLocked env p i)" "keeps same_data (ensureIdeaSelectedForTask env p i)"
  "keeps same_data (ensureProblemSourceLocked env p ty i)"
  unfolding ensureProblemLocked_def ensureIdeaSelectedForTask_def ensureProblemSourceLocked_def
  by (auto intro!: check_status_data keeps_intros)

lemma count_data [repo_reads]: "keeps same_data (countIdeasForProblem env p i)"
  unfolding countIdeasForProblem_def by (intro wrapped_data query_read_only) (auto simp: read_stmts)

lemma feedback_links_data: "keeps same_data (feedback_links env p items primary links)"
proof (induction items arbitrary: primary links)
  case Nil
  then show ?case by (simp add: keeps_ret)
next
  case (Cons raw rest)
  have "keeps same_data (eff_bind (resolveArtifactIDByIdentifier env p ty i) (\<lambda>r. feedback_links env p rest (f r) (g r)))" for ty i f g
    by (intro keeps_bind same_trans resolve_data Cons.IH)
  then show ?case by (simp split: option.split add: Cons.IH)
qed

lemma resolve_links_data [repo_reads]: "keeps same_data (resolveFeedbackLinks env p items)"
  unfolding resolveFeedbackLinks_def by (rule feedback_links_data)

lemma assignee_reads [repo_reads]: "keeps same_data (listTaskAssigneeIDs env p i)" "keeps same_data (listTaskAssigneeOptions env p)"
  "keeps same_data (resolveActiveProjectMemberIDs env p ids)"
  unfolding listTaskAssigneeIDs_def listTaskAssigneeOptions_def resolveActiveProjectMemberIDs_def Let_def
  by (auto simp: read_stmts intro!: keeps_intros wrapped_data query_read_only)

lemma option_reads [repo_reads]: "keeps same_data (listLockedProblemOptions env p)" "keeps same_data (listTaskIdeaOptions env p)"
  unfolding listLockedProblemOptions_def listTaskIdeaOptions_def by (auto simp: read_stmts intro!: wrapped_data query_read_only)

lemma list_data [repo_reads]: "keeps same_data (list_rows a (stmt_list uuid labels rows keep item p q))"
  unfolding list_rows_def by (intro wrapped_data query_read_only) (auto simp: read_stmts)

lemma get_data [repo_reads]: "keeps same_data (RelationalQueryOne (stmt_get uuid rows p i) scan)"
  by (intro query_read_only) (auto simp: read_stmts)

lemma collect_data: "keeps same_data (collect_sources env p items ins)"
  by (induction items arbitrary: ins)
    (auto intro!: keeps_intros repo_reads split: option.splits simp: Let_def)

text \<open>No get changes any table.\<close>

lemma options_data: "keeps same_data (RelationalQueryMany (stmt_options uuid rows st p) scan acc)"
  by (intro query_read_only) (auto simp: read_stmts)

lemma repo_gets_data: "keeps same_data (kr_get (repo_of (artifact_repository env) k) p i)"
  by (cases k; simp add: artifact_repository_def repo_GetStory_def repo_GetJourney_def repo_GetProblem_def repo_GetIdea_def
      repo_GetTask_def repo_GetFeedback_def repo_ListStories_def repo_ListJourneys_def Let_def)
    (intro keeps_bind same_trans repo_reads collect_data options_data;
     auto intro!: keeps_intros repo_reads collect_data options_data split: prod.split)+


section \<open>The calls of the service\<close>

fun run_create ::
  "('d, 'z) session_scheme artifact_repo \<Rightarrow> artifact_kind \<Rightarrow> string \<Rightarrow> string \<Rightarrow> string
     \<Rightarrow> ('d, 'z) session_scheme \<Rightarrow> err option \<times> ('d, 'z) session_scheme" where
  "run_create r KStory p a title = failure_of (CreateStory r p a title)"
| "run_create r KJourney p a title = failure_of (CreateJourney r p a title)"
| "run_create r KProblem p a title = failure_of (CreateProblem r p a title)"
| "run_create r KIdea p a title = failure_of (CreateIdea r p a title)"
| "run_create r KTask p a title = failure_of (CreateTask r p a title)"
| "run_create r KFeedback p a title = failure_of (CreateFeedback r p a title)"

text \<open>A step of the data: a create or an update of the service over the repository, successful or not, or whatever
  the other modules do to the tables they share with this one.\<close>

inductive artifact_step :: "artifact_env \<Rightarrow> doc_session \<Rightarrow> doc_session \<Rightarrow> bool" for env where
  created: "run_create (artifact_repository env) k p a title s = (e, s') \<Longrightarrow> artifact_step env s s'"
| updated: "run_update (artifact_repository env) k p i a payload s = (e, s') \<Longrightarrow> artifact_step env s s'"
| elsewhere: "artifact_step env s (s\<lparr>ss_data := (ss_data s)\<lparr>ad_core := c, ad_owners := ow\<rparr>\<rparr>)"

lemma keeps_check: "reflp R \<Longrightarrow> keeps R (check r)"
  by (cases r) (simp_all add: check_def keeps_ret keeps_throw)

lemma failure_snd: "failure_of m s = (e, s') \<Longrightarrow> s' = snd (m s)"
  by (auto simp: failure_of_def split: prod.splits sum.splits)

lemma run_create_item:
  "\<exists>action invalid. run_create r k p a title
     = failure_of (create_item action id invalid (kr_create (repo_of r k) p a title None))"
proof -
  have decoded: "failure_of (create_item action d1 invalid m) = failure_of (create_item action d2 invalid m)"
    for action invalid m and d1 :: "amap \<Rightarrow> 'x" and d2 :: "amap \<Rightarrow> 'y"
    by (auto simp: fun_eq_iff failure_of_def create_item_def eff_bind_def eff_ret_def split: prod.splits sum.splits)
  show ?thesis
    by (cases k; simp only: run_create.simps repo_of.simps CreateStory_def CreateJourney_def CreateProblem_def CreateIdea_def
          CreateTask_def CreateFeedback_def; rule exI; rule exI; rule decoded)
qed

section \<open>Writing\<close>

text \<open>The writes beside the row of an artifact itself: links, assignees, the log, the shared tables.\<close>

locale artifact_support =
  fixes env :: artifact_env and R :: "artifact_data \<Rightarrow> artifact_data \<Rightarrow> bool"
  assumes refl: "reflp R" and trans: "transp R"
    and shared: "R d (d\<lparr>ad_core := c, ad_owners := ow\<rparr>)"
    and logged: "stmt_log (rx_uuid env) p a ty i action payload d = Inr (rows, d') \<Longrightarrow> R d d'"
    and unlinked: "stmt_delete_links (rx_uuid env) p ty i sources d = Inr (rows, d') \<Longrightarrow> R d d'"
    and linked: "stmt_insert_link (rx_uuid env) p ty i ty' i' kind a d = Inr (rows, d') \<Longrightarrow> R d d'"
    and cleared: "stmt_clear_assignees (rx_uuid env) p i d = Inr (rows, d') \<Longrightarrow> R d d'"
    and assigned: "stmt_assign (rx_uuid env) i p u a d = Inr (rows, d') \<Longrightarrow> R d d'"
begin

lemmas laws [simp] = on_data_refl [OF refl] on_data_trans [OF trans]

lemmas reads = repo_reads [THEN on_data_same [OF refl]]

lemma statement:
  assumes "\<And>d rows d'. st d = Inr (rows, d') \<Longrightarrow> R d d'"
  shows "keeps (on_data R) (RelationalExec st)" "keeps (on_data R) (RelationalQueryOne st scan)"
  unfolding RelationalExec_def RelationalQueryOne_def
  by (auto intro!: keeps_intros on_data_stmt [OF refl] assms split: list.split)

lemma wrapping: "keeps (on_data R) m \<Longrightarrow> keeps (on_data R) (wrap_store a m)"
  "keeps (on_data R) m \<Longrightarrow> keeps (on_data R) (one_or_missing w a m)"
  unfolding wrap_store_def one_or_missing_def by (auto intro!: keeps_intros)

lemma core_only: "keeps (on_data R) (on_core m)"
  using shared [where ow = "ad_owners d" and d = d for d]
  by (auto simp: keeps_def on_data_def on_core_def split: prod.splits)

lemma activity: "keeps (on_data R) (logActivity env p a ty i action payload)"
  unfolding logActivity_def by (auto intro!: keeps_intros statement logged split: option.split)

lemma recorded: "keeps (on_data R) (recordArtifactCreated env p a n ty i t g)" "keeps (on_data R) (recordArtifactUpdated env p a ty i t)"
  unfolding recordArtifactCreated_def recordArtifactUpdated_def by (auto intro!: keeps_intros activity core_only)

lemma problem_source: "keeps (on_data R) (link_problem_source env p i a raw)"
proof -
  have "keeps (on_data R) (eff_bind (resolveArtifactIDByIdentifier env p ty ref) (\<lambda>sourceID.
      eff_bind (ensureProblemSourceLocked env p ty sourceID) (\<lambda>_. wrap_store w (RelationalExec
        (stmt_insert_link (rx_uuid env) p ty sourceID ty' i' kind a')))))" for ty ref w ty' i' kind a'
    by (intro keeps_bind laws reads wrapping statement linked)
  then show ?thesis unfolding link_problem_source_def by (simp add: keeps_throw split: option.split)
qed

lemma relinked: "keeps (on_data R) (replaceProblemSourceLinks env p i a items)" "keeps (on_data R) (replacePrimaryLink env p ty i ty' i' a)"
  "keeps (on_data R) (replaceFeedbackLinks env p i a links)"
  unfolding replaceProblemSourceLinks_def replacePrimaryLink_def replaceFeedbackLinks_def
  by (auto intro!: keeps_intros wrapping statement problem_source dest: unlinked linked split: prod.split)

lemma reassigned: "keeps (on_data R) (replaceTaskAssignees env p i a ids)"
proof -
  have title: "keeps same_data (RelationalQueryOne (stmt_task_title (rx_uuid env) i p) Inr)"
    by (intro query_read_only) (auto simp: read_stmts)
  have "keeps (on_data R) (notifyTaskAssigned env p a i us)" for us
    unfolding notifyTaskAssigned_def
    by (auto intro!: keeps_intros core_only on_data_same [OF refl or_blank_data] title user_name_data)
  then show ?thesis
    unfolding replaceTaskAssignees_def Let_def by (intro keeps_bind laws reads wrapping statement keeps_each cleared assigned)
qed

end

text \<open>All of them.\<close>

locale artifact_relation = artifact_support +
  assumes inserts: "stmt_insert_story env a t p slug d = Inr (rows1, d') \<Longrightarrow> R d d'"
      "stmt_insert_journey env a t p slug d = Inr (rows2, d') \<Longrightarrow> R d d'"
      "stmt_insert_problem env a t p slug d = Inr (rows3, d') \<Longrightarrow> R d d'"
      "stmt_insert_idea env a t p slug d = Inr (rows4, d') \<Longrightarrow> R d d'"
      "stmt_insert_task env a t p slug d = Inr (rows5, d') \<Longrightarrow> R d d'"
      "stmt_insert_feedback env a t p slug d = Inr (rows6, d') \<Longrightarrow> R d d'"
    and updates: "stmt_update_story env p i t st persona n m d = Inr (hits1, d') \<Longrightarrow> R d d'"
      "stmt_update_journey env p i t st d = Inr (hits2, d') \<Longrightarrow> R d d'"
      "stmt_update_problem env p i t st d = Inr (hits3, d') \<Longrightarrow> R d d'"
      "stmt_update_idea env p i primary st d = Inr (hits4, d') \<Longrightarrow> R d d'"
      "stmt_update_task env p i primary due st d = Inr (hits5, d') \<Longrightarrow> R d d'"
      "stmt_update_feedback env p i outcome st primary d = Inr (hits6, d') \<Longrightarrow> R d d'"
begin

lemma created_row:
  assumes "\<And>p slug d rows d'. new_row p slug d = Inr (rows, d') \<Longrightarrow> R d d'" "\<And>p n row. keeps (on_data R) (finish p n row)"
  shows "keeps (on_data R) (create_row env table action p a t new_row finish)"
  unfolding create_row_def by (intro keeps_bind laws reads wrapping statement assms)

lemma creates: "keeps (on_data R) (kr_create (repo_of (artifact_repository env) k) p a t c)"
  by (cases k; simp add: artifact_repository_def repo_CreateStory_def repo_CreateJourney_def repo_CreateProblem_def repo_CreateIdea_def
      repo_CreateTask_def repo_CreateFeedback_def)
    (rule created_row, erule inserts, (auto simp: Let_def intro!: keeps_intros reads recorded reassigned))+

lemma idea_update: "keeps (on_data R) (RelationalQueryOne (\<lambda>d. sum_bind (stmt_update_idea env p i primary st d) (\<lambda>(hit, d'). Inr (f d' hit, d'))) scan)"
  by (rule statement) (auto dest: updates(4))

lemma task_update: "keeps (on_data R) (RelationalQueryOne (\<lambda>d. sum_bind (stmt_update_task env p i primary due st d) (\<lambda>(hit, d'). Inr (f d' hit, d'))) scan)"
  by (rule statement) (auto dest: updates(5))

lemma changes: "keeps (on_data R) (kr_update (repo_of (artifact_repository env) k) p i a patch)"
proof (cases k)
  case KStory
  then show ?thesis unfolding repo_of.simps artifact_repository_def artifact_repo.simps kind_repo.simps repo_UpdateStory_def Let_def
    by (auto intro!: keeps_intros reads recorded wrapping statement dest: updates)
next
  case KJourney
  then show ?thesis unfolding repo_of.simps artifact_repository_def artifact_repo.simps kind_repo.simps repo_UpdateJourney_def Let_def
    by (auto intro!: keeps_intros reads recorded wrapping statement dest: updates)
next
  case KProblem
  then show ?thesis unfolding repo_of.simps artifact_repository_def artifact_repo.simps kind_repo.simps repo_UpdateProblem_def Let_def
    by (auto intro!: keeps_intros reads recorded wrapping statement relinked dest: updates split: option.split)
next
  case KIdea
  then show ?thesis unfolding repo_of.simps artifact_repository_def artifact_repo.simps kind_repo.simps repo_UpdateIdea_def Let_def
    by (auto intro!: keeps_intros reads recorded wrapping idea_update relinked split: option.split)
next
  case KTask
  then show ?thesis unfolding repo_of.simps artifact_repository_def artifact_repo.simps kind_repo.simps repo_UpdateTask_def Let_def
    by (auto intro!: keeps_intros reads recorded wrapping task_update relinked reassigned split: option.split)
next
  case KFeedback
  then show ?thesis unfolding repo_of.simps artifact_repository_def artifact_repo.simps kind_repo.simps repo_UpdateFeedback_def Let_def
    by (auto intro!: keeps_intros reads recorded wrapping statement relinked dest: updates)
qed

lemma transactions: "keeps (on_data R) m \<Longrightarrow> keeps (on_data R) (in_tx action m)"
  unfolding in_tx_def by (auto intro!: keeps_intros on_data_tx refl)

lemma stepped: "artifact_step env s t \<Longrightarrow> R (ss_data s) (ss_data t)"
proof (induction rule: artifact_step.induct)
  case (created k p a title s e s')
  obtain action invalid where "failure_of (create_item action id invalid (kr_create (repo_of (artifact_repository env) k) p a title None)) s = (e, s')"
    using created run_create_item [of "artifact_repository env" k p a title] by auto
  moreover have "keeps (on_data R) (create_item action id invalid (kr_create (repo_of (artifact_repository env) k) p a title None))"
    unfolding create_item_def by (auto intro!: keeps_intros keeps_check transactions creates)
  ultimately show ?case by (auto simp: keeps_def on_data_def dest: failure_snd)
next
  case (updated k p i a payload s e s')
  have "keeps (on_data R) (update_item (kind_name k) id (validate_update k payload) (kr_get (repo_of (artifact_repository env) k) p i)
      (\<lambda>current patch. refusal k (current_status k current) patch) (\<lambda>patch. kr_update (repo_of (artifact_repository env) k) p i a patch))"
    unfolding update_item_def
    by (auto intro!: keeps_intros keeps_check transactions changes on_data_same [OF refl repo_gets_data])
  from keepsD [OF this] updated show ?case
    unfolding run_update_steps by (force simp: failure_of_def on_data_def split: prod.splits sum.splits)
next
  case (elsewhere s c ow)
  show ?case by (simp add: shared)
qed

lemma steps: "(artifact_step env)\<^sup>*\<^sup>* s t \<Longrightarrow> R (ss_data s) (ss_data t)"
proof (induction rule: rtranclp_induct)
  case base
  show ?case using refl by (simp add: reflpD)
next
  case (step t u)
  from step.IH stepped [OF step.hyps(2)] show ?case using trans by (blast dest: transpD)
qed

end

end
