(* ===== verification/Artifact_Consistent.thy ===== *)
theory Artifact_Consistent
  imports Artifact_Effects
begin

text \<open>
  The invariant of the artifact tables, and what is never undone: two interpretations of
  \<open>artifact_relation\<close>, so that both hold along every run of creates and updates of the service, with
  whatever failures.
\<close>

section \<open>Tables\<close>

definition table_ok :: "string list \<Rightarrow> ('x artifact_row_scheme \<Rightarrow> bool) \<Rightarrow> 'x artifact_row_scheme list \<Rightarrow> bool" where
  "table_ok labels P rows \<longleftrightarrow> distinct (map af_id rows) \<and> distinct (map (\<lambda>r. (af_project r, af_slug r)) rows)
     \<and> (\<forall>r \<in> set rows. af_status r \<in> set labels \<and> 1 \<le> af_revision r \<and> P r)"

lemma table_mono: "table_ok labels P rows \<Longrightarrow> (\<And>r. r \<in> set rows \<Longrightarrow> P r \<Longrightarrow> Q r) \<Longrightarrow> table_ok labels Q rows"
  by (auto simp: table_ok_def)

lemma table_insert:
  assumes "table_ok labels P rows" "insert_artifact row rows d = Inr rows'" "af_id row \<notin> af_id ` set rows"
    "af_status row \<in> set labels" "1 \<le> af_revision row" "P row"
  shows "table_ok labels P rows'" "rows' = rows @ [row]"
proof -
  from assms(2) have new: "rows' = rows @ [row]" "\<not> (\<exists>r \<in> set rows. af_project r = af_project row \<and> af_slug r = af_slug row)"
    unfolding insert_artifact_def by (simp_all only: sum.inject sum.distinct split: if_splits) blast+
  show "rows' = rows @ [row]" by (rule new)
  have "(af_project row, af_slug row) \<notin> (\<lambda>r. (af_project r, af_slug r)) ` set rows" using new(2) by auto
  with assms(1,3-) show "table_ok labels P rows'" by (simp add: table_ok_def new(1))
qed

definition same_key :: "'x artifact_row_scheme \<Rightarrow> 'x artifact_row_scheme \<Rightarrow> bool" where
  "same_key r r' \<longleftrightarrow> af_id r' = af_id r \<and> af_project r' = af_project r \<and> af_slug r' = af_slug r
     \<and> af_owner r' = af_owner r \<and> af_created r' = af_created r"

lemma update_rows_map:
  assumes "update_rows d p i guard f rows = (rows', hit)"
  obtains sel where "rows' = map (\<lambda>r. if sel r then f r else r) rows"
    "\<And>r. sel r \<Longrightarrow> guard r \<and> af_id r = i \<and> af_project r = p \<and> owner_of d (af_owner r) \<noteq> None"
    "hit = with_owner d (map f (filter sel rows))"
proof (rule that)
  let ?sel = "\<lambda>r. af_project r = p \<and> af_id r = i \<and> owner_of d (af_owner r) \<noteq> None \<and> guard r"
  show "rows' = map (\<lambda>r. if ?sel r then f r else r) rows" "hit = with_owner d (map f (filter ?sel rows))"
    using assms by (simp_all add: update_rows_def Let_def)
qed simp

lemma with_owner_in: "r \<in> set rows \<Longrightarrow> owner_of d (af_owner r) = Some u \<Longrightarrow> (r, u) \<in> set (with_owner d rows)"
  by (auto simp: with_owner_def split: option.splits)

lemma map_keys:
  "(\<And>r. same_key r (g r)) \<Longrightarrow> map af_id (map g rows) = map af_id rows
     \<and> map (\<lambda>r. (af_project r, af_slug r)) (map g rows) = map (\<lambda>r. (af_project r, af_slug r)) rows"
  by (simp add: same_key_def)

lemma update_rows_ids:
  assumes "update_rows d p i guard f rows = (rows', hit)" "\<And>r. same_key r (f r)"
  shows "af_id ` set rows' = af_id ` set rows"
proof -
  from assms(1) obtain sel where "rows' = map (\<lambda>r. if sel r then f r else r) rows" by (rule update_rows_map)
  moreover have "map af_id (map (\<lambda>r. if sel r then f r else r) rows) = map af_id rows"
    using assms(2) by (simp add: same_key_def)
  ultimately show ?thesis by (metis image_set)
qed

lemma table_update:
  assumes ok: "table_ok labels P rows" and upd: "update_rows d p i guard f rows = (rows', hit)"
    and key: "\<And>r. same_key r (f r)"
    and good: "\<And>r. guard r \<Longrightarrow> hit \<noteq> [] \<Longrightarrow> P r \<Longrightarrow> af_status r \<in> set labels \<Longrightarrow> 1 \<le> af_revision r
      \<Longrightarrow> af_status (f r) \<in> set labels \<and> 1 \<le> af_revision (f r) \<and> P (f r)"
  shows "table_ok labels P rows'"
proof -
  from upd obtain sel where rows': "rows' = map (\<lambda>r. if sel r then f r else r) rows"
    and sel: "\<And>r. sel r \<Longrightarrow> guard r \<and> af_id r = i \<and> af_project r = p \<and> owner_of d (af_owner r) \<noteq> None"
    and hit: "hit = with_owner d (map f (filter sel rows))"
    by (rule update_rows_map) blast
  have found: "hit \<noteq> []" if r: "r \<in> set rows" "sel r" for r
  proof -
    from sel [OF r(2)] key [of r] obtain u where "owner_of d (af_owner (f r)) = Some u" by (auto simp: same_key_def)
    with r with_owner_in [of "f r" "map f (filter sel rows)"] show ?thesis unfolding hit by force
  qed
  have old: "af_status r \<in> set labels \<and> 1 \<le> af_revision r \<and> P r" if "r \<in> set rows" for r
    using ok that by (auto simp: table_ok_def)
  have new: "af_status (f r) \<in> set labels \<and> 1 \<le> af_revision (f r) \<and> P (f r)" if "r \<in> set rows" "sel r" for r
    using old [OF that(1)] sel [OF that(2)] found [OF that] good by blast
  have "\<forall>r \<in> set rows'. af_status r \<in> set labels \<and> 1 \<le> af_revision r \<and> P r"
    using old new unfolding rows' by auto
  moreover have "map af_id rows' = map af_id rows" "map (\<lambda>r. (af_project r, af_slug r)) rows' = map (\<lambda>r. (af_project r, af_slug r)) rows"
    using key unfolding rows' by (simp_all add: same_key_def)
  ultimately show ?thesis using ok unfolding table_ok_def by metis
qed

text \<open>The columns of archiving: a remembered status is one the artifact can have, and only an archived artifact has one.\<close>

definition archive_ok :: "string list \<Rightarrow> 'x archivable_row_scheme \<Rightarrow> bool" where
  "archive_ok labels r \<longleftrightarrow>
     (case av_from r of None \<Rightarrow> True | Some s \<Rightarrow> af_status r = ''Archived'' \<and> s \<in> set labels \<and> s \<noteq> ''Archived'')"

lemma status_cases:
  assumes "new = None \<or> (\<exists>s \<in> set labels. new = Some s)" "old \<in> set labels" "initial \<in> set labels"
    "case archived_from of None \<Rightarrow> True | Some s \<Rightarrow> old = ''Archived'' \<and> s \<in> set labels \<and> s \<noteq> ''Archived''"
  shows "next_status initial new old archived_from \<in> set labels"
    "initial \<noteq> ''Archived'' \<Longrightarrow> case next_archived_from new old archived_from of None \<Rightarrow> True
       | Some s \<Rightarrow> next_status initial new old archived_from = ''Archived'' \<and> s \<in> set labels \<and> s \<noteq> ''Archived''"
  using assms by (auto simp: next_status_def next_archived_from_def split: option.splits)

lemma cast_label_cases: "cast_label labels x = Inr new \<Longrightarrow> new = None \<or> (\<exists>s \<in> set labels. new = Some s)"
  by (auto dest: cast_label_Inr)

section \<open>The invariant\<close>

definition stories_ok :: "story_row list \<Rightarrow> bool" where
  "stories_ok = table_ok storyStatuses (archive_ok storyStatuses)"

definition journeys_ok :: "journey_row list \<Rightarrow> bool" where
  "journeys_ok = table_ok journeyStatuses (archive_ok journeyStatuses)"

definition problems_ok :: "link_row list \<Rightarrow> problem_row list \<Rightarrow> bool" where
  "problems_ok links = table_ok problemStatuses (\<lambda>r. archive_ok problemStatuses r \<and> pm_locked r = (af_status r = ''Locked'')
     \<and> af_orphan r = problem_orphan links r)"

definition ideas_ok :: "string set \<Rightarrow> idea_row list \<Rightarrow> bool" where
  "ideas_ok problems = table_ok ideaStatuses (\<lambda>r. archive_ok ideaStatuses r \<and> af_orphan r = (id_problem r = None)
     \<and> (case id_problem r of None \<Rightarrow> True | Some i \<Rightarrow> i \<in> problems) \<and> (af_status r = ''Selected'' \<longrightarrow> id_selected_at r \<noteq> None))"

definition tasks_ok :: "string set \<Rightarrow> task_row list \<Rightarrow> bool" where
  "tasks_ok ideas = table_ok taskStatusLabels (\<lambda>r. af_orphan r = (tk_idea r = None)
     \<and> (case tk_idea r of None \<Rightarrow> True | Some i \<Rightarrow> i \<in> ideas)
     \<and> (af_status r = ''In Progress'' \<longrightarrow> tk_started r \<noteq> None) \<and> (af_status r = ''Completed'' \<longrightarrow> tk_completed r \<noteq> None))"

definition feedback_ok :: "string set \<Rightarrow> feedback_row list \<Rightarrow> bool" where
  "feedback_ok tasks = table_ok feedbackStatuses (\<lambda>r. archive_ok feedbackStatuses r \<and> af_orphan r = (fe_task r = None)
     \<and> (case fe_task r of None \<Rightarrow> True | Some i \<Rightarrow> i \<in> tasks))"

definition links_ok :: "link_row list \<Rightarrow> bool" where
  "links_ok links \<longleftrightarrow> distinct (map link_key links)
     \<and> (\<forall>l \<in> set links. \<not> (lk_source_type l = lk_target_type l \<and> lk_source l = lk_target l))"

definition assignees_ok :: "string set \<Rightarrow> assignee_row list \<Rightarrow> bool" where
  "assignees_ok tasks rows \<longleftrightarrow> distinct (map (\<lambda>a. (an_task a, an_user a)) rows) \<and> (\<forall>a \<in> set rows. an_task a \<in> tasks)"

abbreviation "ids rows \<equiv> af_id ` set rows"

definition artifact_data_ok :: "artifact_data \<Rightarrow> bool" where
  "artifact_data_ok d \<longleftrightarrow> stories_ok (ad_stories d) \<and> journeys_ok (ad_journeys d) \<and> problems_ok (ad_links d) (ad_problems d)
     \<and> ideas_ok (ids (ad_problems d)) (ad_ideas d) \<and> tasks_ok (ids (ad_ideas d)) (ad_tasks d)
     \<and> feedback_ok (ids (ad_tasks d)) (ad_feedback d) \<and> links_ok (ad_links d) \<and> assignees_ok (ids (ad_tasks d)) (ad_assignees d)"

text \<open>A new row gets an id that no artifact has.\<close>

definition fresh_ids :: "artifact_env \<Rightarrow> bool" where
  "fresh_ids env \<longleftrightarrow> (\<forall>d. rx_new_id env d \<notin> ids (ad_stories d) \<union> ids (ad_journeys d) \<union> ids (ad_problems d)
     \<union> ids (ad_ideas d) \<union> ids (ad_tasks d) \<union> ids (ad_feedback d))"

lemmas table_defs = stories_ok_def journeys_ok_def problems_ok_def ideas_ok_def tasks_ok_def feedback_ok_def

lemma ids_of_map: "map af_id xs = map af_id ys \<Longrightarrow> ids xs = ids ys"
  by (metis image_set)

lemma ideas_mono: "ideas_ok A rows \<Longrightarrow> A \<subseteq> B \<Longrightarrow> ideas_ok B rows"
  unfolding ideas_ok_def by (erule table_mono) (auto split: option.splits)

lemma tasks_mono: "tasks_ok A rows \<Longrightarrow> A \<subseteq> B \<Longrightarrow> tasks_ok B rows"
  unfolding tasks_ok_def by (erule table_mono) (auto split: option.splits)

lemma feedback_mono: "feedback_ok A rows \<Longrightarrow> A \<subseteq> B \<Longrightarrow> feedback_ok B rows"
  unfolding feedback_ok_def by (erule table_mono) (auto split: option.splits)

lemma assignees_mono: "assignees_ok A rows \<Longrightarrow> A \<subseteq> B \<Longrightarrow> assignees_ok B rows"
  by (auto simp: assignees_ok_def)

subsection \<open>Inserts\<close>

lemma stmt_insert_Inr:
  "stmt_insert env p slug t a st rows put build d = Inr (out, d') \<longleftrightarrow>
     (\<exists>q u rows'. rx_uuid env p = Some q \<and> rx_uuid env (trim_space a) = Some u
        \<and> insert_artifact (build d (new_artifact env q slug (trim_space t) u st d)) (rows d) d = Inr rows'
        \<and> out = [build d (new_artifact env q slug (trim_space t) u st d)] \<and> d' = put rows' d)"
  by (auto simp: stmt_insert_def Let_def)

lemma insert_table:
  assumes "stmt_insert env p slug t a st rows put build d = Inr (out, d')" "table_ok labels P (rows d)"
    and "\<And>b. af_id (build d b) = af_id b \<and> af_status (build d b) = af_status b \<and> af_revision (build d b) = af_revision b"
    and "\<And>b. af_orphan b \<Longrightarrow> af_status b = st \<Longrightarrow> P (build d b)"
    and "rx_new_id env d \<notin> ids (rows d)" "st \<in> set labels"
  shows "\<exists>r. d' = put (rows d @ [r]) d \<and> table_ok labels P (rows d @ [r])"
proof -
  from assms(1) obtain q u rows' where run:
      "insert_artifact (build d (new_artifact env q slug (trim_space t) u st d)) (rows d) d = Inr rows'" "d' = put rows' d"
    unfolding stmt_insert_Inr by blast
  let ?b = "new_artifact env q slug (trim_space t) u st d"
  have "af_id ?b = rx_new_id env d" "af_orphan ?b" "af_status ?b = st" "af_revision ?b = 1" by (simp_all add: new_artifact_def)
  then have "table_ok labels P rows'" "rows' = rows d @ [build d ?b]"
    using table_insert [OF assms(2) run(1)] assms(3) [of ?b] assms(4) [of ?b] assms(5,6) by simp_all
  with run(2) show ?thesis by blast
qed

lemma problem_orphan_cong: "af_id p' = af_id p \<Longrightarrow> af_project p' = af_project p \<Longrightarrow> problem_orphan links p' = problem_orphan links p"
  by (simp add: problem_orphan_def)

lemma extend_base [simp]: "af_id (artifact_row.extend b m) = af_id b" "af_project (artifact_row.extend b m) = af_project b"
  "af_slug (artifact_row.extend b m) = af_slug b" "af_status (artifact_row.extend b m) = af_status b"
  "af_orphan (artifact_row.extend b m) = af_orphan b" "af_revision (artifact_row.extend b m) = af_revision b"
  by (cases b; simp add: artifact_row.extend_def)+

lemma never_archived [simp]: "av_from r = None \<Longrightarrow> archive_ok labels r"
  by (simp add: archive_ok_def)

lemma insert_ok:
  assumes "fresh_ids env" "artifact_data_ok d"
  shows "stmt_insert_story env a t p slug d = Inr (rows1, d') \<Longrightarrow> artifact_data_ok d'"
    "stmt_insert_journey env a t p slug d = Inr (rows2, d') \<Longrightarrow> artifact_data_ok d'"
    "stmt_insert_problem env a t p slug d = Inr (rows3, d') \<Longrightarrow> artifact_data_ok d'"
    "stmt_insert_idea env a t p slug d = Inr (rows4, d') \<Longrightarrow> artifact_data_ok d'"
    "stmt_insert_task env a t p slug d = Inr (rows5, d') \<Longrightarrow> artifact_data_ok d'"
    "stmt_insert_feedback env a t p slug d = Inr (rows6, d') \<Longrightarrow> artifact_data_ok d'"
proof -
  note ok = assms(2) [unfolded artifact_data_ok_def]
  have fresh: "rx_new_id env d \<notin> ids (ad_stories d)" "rx_new_id env d \<notin> ids (ad_journeys d)" "rx_new_id env d \<notin> ids (ad_problems d)"
    "rx_new_id env d \<notin> ids (ad_ideas d)" "rx_new_id env d \<notin> ids (ad_tasks d)" "rx_new_id env d \<notin> ids (ad_feedback d)"
    using assms(1) by (simp_all add: fresh_ids_def)
  note grown = ideas_mono [OF _ subset_insertI] tasks_mono [OF _ subset_insertI] feedback_mono [OF _ subset_insertI]
    assignees_mono [OF _ subset_insertI]
  note build = artifact_row.extend_def status_lists taskStatusLabels_def
  note parts = stories_ok_def journeys_ok_def problems_ok_def ideas_ok_def tasks_ok_def feedback_ok_def
  show "artifact_data_ok d'" if "stmt_insert_story env a t p slug d = Inr (rows1, d')"
  proof -
    have "\<exists>r. d' = d\<lparr>ad_stories := ad_stories d @ [r]\<rparr> \<and> stories_ok (ad_stories d @ [r])"
      unfolding parts by (rule insert_table [OF that [unfolded stmt_insert_story_def]]) (use ok fresh in \<open>simp_all add: parts build\<close>)
    then show ?thesis using ok by (auto simp: artifact_data_ok_def intro: grown)
  qed
  show "artifact_data_ok d'" if "stmt_insert_journey env a t p slug d = Inr (rows2, d')"
  proof -
    have "\<exists>r. d' = d\<lparr>ad_journeys := ad_journeys d @ [r]\<rparr> \<and> journeys_ok (ad_journeys d @ [r])"
      unfolding parts by (rule insert_table [OF that [unfolded stmt_insert_journey_def]]) (use ok fresh in \<open>simp_all add: parts build\<close>)
    then show ?thesis using ok by (auto simp: artifact_data_ok_def intro: grown)
  qed
  show "artifact_data_ok d'" if "stmt_insert_problem env a t p slug d = Inr (rows3, d')"
  proof -
    have "\<exists>r. d' = d\<lparr>ad_problems := ad_problems d @ [r]\<rparr> \<and> problems_ok (ad_links d) (ad_problems d @ [r])"
      unfolding parts by (rule insert_table [OF that [unfolded stmt_insert_problem_def]]) (use ok fresh in \<open>simp_all add: parts build Let_def problem_orphan_def\<close>)
    then show ?thesis using ok by (auto simp: artifact_data_ok_def intro: grown)
  qed
  show "artifact_data_ok d'" if "stmt_insert_idea env a t p slug d = Inr (rows4, d')"
  proof -
    have "\<exists>r. d' = d\<lparr>ad_ideas := ad_ideas d @ [r]\<rparr> \<and> ideas_ok (ids (ad_problems d)) (ad_ideas d @ [r])"
      unfolding parts by (rule insert_table [OF that [unfolded stmt_insert_idea_def]]) (use ok fresh in \<open>simp_all add: parts build\<close>)
    then show ?thesis using ok by (auto simp: artifact_data_ok_def intro: grown)
  qed
  show "artifact_data_ok d'" if "stmt_insert_task env a t p slug d = Inr (rows5, d')"
  proof -
    have "\<exists>r. d' = d\<lparr>ad_tasks := ad_tasks d @ [r]\<rparr> \<and> tasks_ok (ids (ad_ideas d)) (ad_tasks d @ [r])"
      unfolding parts by (rule insert_table [OF that [unfolded stmt_insert_task_def]]) (use ok fresh in \<open>simp_all add: parts build\<close>)
    then show ?thesis using ok by (auto simp: artifact_data_ok_def intro: grown)
  qed
  show "artifact_data_ok d'" if "stmt_insert_feedback env a t p slug d = Inr (rows6, d')"
  proof -
    have "\<exists>r. d' = d\<lparr>ad_feedback := ad_feedback d @ [r]\<rparr> \<and> feedback_ok (ids (ad_tasks d)) (ad_feedback d @ [r])"
      unfolding parts by (rule insert_table [OF that [unfolded stmt_insert_feedback_def]]) (use ok fresh in \<open>simp_all add: parts build\<close>)
    then show ?thesis using ok by (auto simp: artifact_data_ok_def intro: grown)
  qed
qed

subsection \<open>Updates\<close>

lemma stmt_update_Inr:
  "stmt_update_story env p i title st persona n m d = Inr (hits1, d') \<longleftrightarrow> (\<exists>q new rows. rx_uuid env p = Some q
     \<and> cast_label storyStatuses st = Inr new \<and> d' = d\<lparr>ad_stories := rows\<rparr> \<and> update_rows d q i (\<lambda>r. holds (writable new (af_status r)))
        (changed_story (now d) new title persona n m) (ad_stories d) = (rows, hits1))"
  "stmt_update_journey env p i title st d = Inr (hits2, d') \<longleftrightarrow> (\<exists>q new rows. rx_uuid env p = Some q
     \<and> cast_label journeyStatuses st = Inr new \<and> d' = d\<lparr>ad_journeys := rows\<rparr> \<and> update_rows d q i (\<lambda>r. holds (writable new (af_status r)))
        (changed_journey (now d) new title) (ad_journeys d) = (rows, hits2))"
  "stmt_update_problem env p i title st d = Inr (hits3, d') \<longleftrightarrow> (\<exists>q new rows. rx_uuid env p = Some q
     \<and> cast_label problemStatuses st = Inr new \<and> d' = d\<lparr>ad_problems := rows\<rparr> \<and> update_rows d q i (\<lambda>r. holds (writable new (af_status r)))
        (changed_problem (now d) new title) (ad_problems d) = (rows, hits3))"
  "stmt_update_idea env p i ref st d = Inr (hits4, d') \<longleftrightarrow> (\<exists>q new rows primary. rx_uuid env p = Some q
     \<and> cast_ref env ref = Inr primary \<and> cast_label ideaStatuses st = Inr new \<and> d' = d\<lparr>ad_ideas := rows\<rparr>
     \<and> \<not> (hits4 \<noteq> [] \<and> primary \<notin> insert None (Some ` set (map af_id (ad_problems d))))
     \<and> update_rows d q i (\<lambda>r. holds (idea_writable d primary new r)) (changed_idea (now d) new primary) (ad_ideas d) = (rows, hits4))"
  "stmt_update_task env p i ref due st d = Inr (hits5, d') \<longleftrightarrow> (\<exists>q new rows primary. rx_uuid env p = Some q
     \<and> cast_ref env ref = Inr primary \<and> cast_label taskStatusLabels st = Inr new \<and> d' = d\<lparr>ad_tasks := rows\<rparr>
     \<and> \<not> (hits5 \<noteq> [] \<and> primary \<notin> insert None (Some ` set (map af_id (ad_ideas d))))
     \<and> update_rows d q i (\<lambda>r. holds (task_writable d primary new r)) (changed_task (now d) new primary due) (ad_tasks d) = (rows, hits5))"
  "stmt_update_feedback env p i out st ref d = Inr (hits6, d') \<longleftrightarrow> (\<exists>q new outcome rows primary. rx_uuid env p = Some q
     \<and> cast_label feedbackOutcomes out = Inr outcome \<and> cast_label feedbackStatuses st = Inr new \<and> cast_ref env ref = Inr primary
     \<and> d' = d\<lparr>ad_feedback := rows\<rparr> \<and> \<not> (hits6 \<noteq> [] \<and> primary \<notin> insert None (Some ` set (map af_id (ad_tasks d))))
     \<and> update_rows d q i (\<lambda>_. True) (changed_feedback (now d) new outcome primary) (ad_feedback d) = (rows, hits6))"
  unfolding stmt_update_story_def stmt_update_journey_def stmt_update_problem_def stmt_update_idea_def stmt_update_task_def
    stmt_update_feedback_def sum_bind_Inr cast_uuid_Inr Let_def
  by (fastforce split: prod.splits if_splits)+

lemma archive_ok_iff:
  "archive_ok labels r \<longleftrightarrow> (\<forall>s. av_from r = Some s \<longrightarrow> af_status r = ''Archived'' \<and> s \<in> set labels \<and> s \<noteq> ''Archived'')"
  by (auto simp: archive_ok_def split: option.splits)

lemma archived_row:
  assumes "archive_ok labels r" "af_status r \<in> set labels" "cast_label labels x = Inr new" "initial \<in> set labels" "initial \<noteq> ''Archived''"
  shows "archive_ok labels (with_status initial new r)" "af_status (with_status initial new r) \<in> set labels"
proof -
  have old: "case av_from r of None \<Rightarrow> True | Some s \<Rightarrow> af_status r = ''Archived'' \<and> s \<in> set labels \<and> s \<noteq> ''Archived''"
    using assms(1) unfolding archive_ok_def .
  note cases = status_cases [OF cast_label_cases [OF assms(3)] assms(2,4) old]
  show "af_status (with_status initial new r) \<in> set labels" using cases(1) by (simp add: with_status_def)
  show "archive_ok labels (with_status initial new r)"
    using cases(2) [OF assms(5)] by (auto simp: archive_ok_iff with_status_def split: option.splits)
qed

lemma touch_fields [simp]: "af_id (touch t r) = af_id r" "af_project (touch t r) = af_project r" "af_slug (touch t r) = af_slug r"
  "af_status (touch t r) = af_status r" "af_orphan (touch t r) = af_orphan r" "af_revision (touch t r) = af_revision r + 1"
  "artifact_row.more (touch t r) = artifact_row.more r"
  by (simp_all add: touch_def)

lemmas changed_defs = changed_story_def changed_journey_def changed_problem_def changed_idea_def changed_task_def changed_feedback_def
  touch_def with_status_def Let_def

lemma changed_key: "same_key r1 (changed_story t new title persona n m r1)" "same_key r2 (changed_journey t new title r2)"
  "same_key r3 (changed_problem t new title r3)" "same_key r4 (changed_idea t new ref r4)" "same_key r5 (changed_task t new ref due r5)"
  "same_key r6 (changed_feedback t new out ref r6)"
  by (simp_all add: same_key_def changed_defs)

lemma initial_labels: "''Draft'' \<in> set storyStatuses" "''Draft'' \<in> set journeyStatuses" "''Draft'' \<in> set problemStatuses"
  "''Considered'' \<in> set ideaStatuses" "''Draft'' \<noteq> ''Archived''" "''Considered'' \<noteq> ''Archived''"
  by (simp_all add: status_lists)

lemma changed_status:
  "af_status (changed_story t new title persona n m r1) = af_status (with_status ''Draft'' new r1)"
  "av_from (changed_story t new title persona n m r1) = av_from (with_status ''Draft'' new r1)"
  "af_status (changed_journey t new title r2) = af_status (with_status ''Draft'' new r2)"
  "av_from (changed_journey t new title r2) = av_from (with_status ''Draft'' new r2)"
  "af_status (changed_problem t new title r3) = af_status (with_status ''Draft'' new r3)"
  "av_from (changed_problem t new title r3) = av_from (with_status ''Draft'' new r3)"
  "af_status (changed_idea t new ref r4) = af_status (with_status ''Considered'' new r4)"
  "av_from (changed_idea t new ref r4) = av_from (with_status ''Considered'' new r4)"
  by (simp_all add: changed_story_def changed_journey_def changed_problem_def changed_idea_def touch_def Let_def)

lemma archive_ok_cong: "af_status r' = af_status r \<Longrightarrow> av_from r' = av_from r \<Longrightarrow> archive_ok labels r' = archive_ok labels r"
  by (simp add: archive_ok_iff)

lemma changed_archive:
  "cast_label storyStatuses x = Inr new \<Longrightarrow> archive_ok storyStatuses r1 \<Longrightarrow> af_status r1 \<in> set storyStatuses
     \<Longrightarrow> archive_ok storyStatuses (changed_story t new title persona n m r1) \<and> af_status (changed_story t new title persona n m r1) \<in> set storyStatuses"
  "cast_label journeyStatuses x = Inr new \<Longrightarrow> archive_ok journeyStatuses r2 \<Longrightarrow> af_status r2 \<in> set journeyStatuses
     \<Longrightarrow> archive_ok journeyStatuses (changed_journey t new title r2) \<and> af_status (changed_journey t new title r2) \<in> set journeyStatuses"
  "cast_label problemStatuses x = Inr new \<Longrightarrow> archive_ok problemStatuses r3 \<Longrightarrow> af_status r3 \<in> set problemStatuses
     \<Longrightarrow> archive_ok problemStatuses (changed_problem t new title r3) \<and> af_status (changed_problem t new title r3) \<in> set problemStatuses"
  "cast_label ideaStatuses x = Inr new \<Longrightarrow> archive_ok ideaStatuses r4 \<Longrightarrow> af_status r4 \<in> set ideaStatuses
     \<Longrightarrow> archive_ok ideaStatuses (changed_idea t new ref r4) \<and> af_status (changed_idea t new ref r4) \<in> set ideaStatuses"
  subgoal by (subst archive_ok_cong [OF changed_status(1,2)], unfold changed_status) (blast intro: archived_row initial_labels)
  subgoal by (subst archive_ok_cong [OF changed_status(3,4)], unfold changed_status) (blast intro: archived_row initial_labels)
  subgoal by (subst archive_ok_cong [OF changed_status(5,6)], unfold changed_status) (blast intro: archived_row initial_labels)
  subgoal by (subst archive_ok_cong [OF changed_status(7,8)], unfold changed_status) (blast intro: archived_row initial_labels)
  done

lemma update_ok:
  assumes "artifact_data_ok d"
  shows "stmt_update_story env p i t st persona n m d = Inr (hits1, d') \<Longrightarrow> artifact_data_ok d'"
    "stmt_update_journey env p i t st d = Inr (hits2, d') \<Longrightarrow> artifact_data_ok d'"
    "stmt_update_problem env p i t st d = Inr (hits3, d') \<Longrightarrow> artifact_data_ok d'"
    "stmt_update_idea env p i ref st d = Inr (hits4, d') \<Longrightarrow> artifact_data_ok d'"
    "stmt_update_task env p i ref due st d = Inr (hits5, d') \<Longrightarrow> artifact_data_ok d'"
    "stmt_update_feedback env p i out st ref d = Inr (hits6, d') \<Longrightarrow> artifact_data_ok d'"
proof -
  note ok = assms [unfolded artifact_data_ok_def]
  note parts = stories_ok_def journeys_ok_def problems_ok_def ideas_ok_def tasks_ok_def feedback_ok_def
  have rev: "1 \<le> af_revision r1 \<Longrightarrow> 1 \<le> af_revision (changed_story t1 new1 t persona n m r1)"
      "1 \<le> af_revision r2 \<Longrightarrow> 1 \<le> af_revision (changed_journey t1 new1 t r2)" "1 \<le> af_revision r3 \<Longrightarrow> 1 \<le> af_revision (changed_problem t1 new1 t r3)"
      "1 \<le> af_revision r4 \<Longrightarrow> 1 \<le> af_revision (changed_idea t1 new1 ref1 r4)" "1 \<le> af_revision r5 \<Longrightarrow> 1 \<le> af_revision (changed_task t1 new1 ref1 due r5)"
      "1 \<le> af_revision r6 \<Longrightarrow> 1 \<le> af_revision (changed_feedback t1 new1 out1 ref1 r6)" for r1 r2 r3 r4 r5 r6 t1 new1 ref1 out1
    by (simp_all add: changed_defs)
  show "artifact_data_ok d'" if "stmt_update_story env p i t st persona n m d = Inr (hits1, d')"
  proof -
    from that obtain q new rows where u: "cast_label storyStatuses st = Inr new" "d' = d\<lparr>ad_stories := rows\<rparr>"
      "update_rows d q i (\<lambda>r. holds (writable new (af_status r))) (changed_story (now d) new t persona n m) (ad_stories d) = (rows, hits1)"
      unfolding stmt_update_Inr by blast
    have "stories_ok rows" using ok unfolding parts
      by (intro table_update [OF _ u(3) changed_key(1)]) (auto simp: rev dest: changed_archive(1) [OF u(1)])
    with ok u(2) show ?thesis by (simp add: artifact_data_ok_def)
  qed
  show "artifact_data_ok d'" if "stmt_update_journey env p i t st d = Inr (hits2, d')"
  proof -
    from that obtain q new rows where u: "cast_label journeyStatuses st = Inr new" "d' = d\<lparr>ad_journeys := rows\<rparr>"
      "update_rows d q i (\<lambda>r. holds (writable new (af_status r))) (changed_journey (now d) new t) (ad_journeys d) = (rows, hits2)"
      unfolding stmt_update_Inr by blast
    have "journeys_ok rows" using ok unfolding parts
      by (intro table_update [OF _ u(3) changed_key(2)]) (auto simp: rev dest: changed_archive(2) [OF u(1)])
    with ok u(2) show ?thesis by (simp add: artifact_data_ok_def)
  qed
  show "artifact_data_ok d'" if "stmt_update_problem env p i t st d = Inr (hits3, d')"
  proof -
    from that obtain q new rows where u: "cast_label problemStatuses st = Inr new" "d' = d\<lparr>ad_problems := rows\<rparr>"
      "update_rows d q i (\<lambda>r. holds (writable new (af_status r))) (changed_problem (now d) new t) (ad_problems d) = (rows, hits3)"
      unfolding stmt_update_Inr by blast
    have orphan: "problem_orphan links (changed_problem (now d) new t r) = problem_orphan links r" for links r
      by (rule problem_orphan_cong) (simp_all add: changed_defs)
    have "problems_ok (ad_links d) rows" using ok unfolding parts
      by (intro table_update [OF _ u(3) changed_key(3)]) (auto simp: rev orphan dest: changed_archive(3) [OF u(1)], auto simp: changed_defs)
    with ok u(2) update_rows_ids [OF u(3) changed_key(3)] show ?thesis by (simp add: artifact_data_ok_def)
  qed
  show "artifact_data_ok d'" if "stmt_update_idea env p i ref st d = Inr (hits4, d')"
  proof -
    from that obtain q new rows primary where u: "cast_label ideaStatuses st = Inr new" "d' = d\<lparr>ad_ideas := rows\<rparr>"
      "\<not> (hits4 \<noteq> [] \<and> primary \<notin> insert None (Some ` set (map af_id (ad_problems d))))"
      "update_rows d q i (\<lambda>r. holds (idea_writable d primary new r)) (changed_idea (now d) new primary) (ad_ideas d) = (rows, hits4)"
      unfolding stmt_update_Inr by blast
    have "ideas_ok (ids (ad_problems d)) rows" unfolding ideas_ok_def
    proof (rule table_update [OF _ u(4) changed_key(4)], goal_cases)
      case 1
      then show ?case using ok by (simp add: ideas_ok_def)
    next
      case (2 r)
      have ref: "primary \<in> insert None (Some ` ids (ad_problems d))" using u(3) 2(2) by auto
      let ?r = "changed_idea (now d) new primary r"
      have "af_orphan ?r = (id_problem ?r = None)" by (simp add: changed_idea_def touch_def Let_def)
      moreover have "case id_problem ?r of None \<Rightarrow> True | Some i \<Rightarrow> i \<in> ids (ad_problems d)"
        using 2(3) ref by (auto simp: changed_idea_def touch_def Let_def split: option.splits)
      moreover have "af_status ?r = ''Selected'' \<longrightarrow> id_selected_at ?r \<noteq> None"
        by (simp add: changed_idea_def touch_def Let_def with_status_def split: option.split)
      ultimately show ?case using 2 changed_archive(4) [OF u(1), of r] rev(4) by blast
    qed
    with ok u(2) update_rows_ids [OF u(4) changed_key(4)] show ?thesis by (simp add: artifact_data_ok_def)
  qed
  show "artifact_data_ok d'" if "stmt_update_task env p i ref due st d = Inr (hits5, d')"
  proof -
    from that obtain q new rows primary where u: "cast_label taskStatusLabels st = Inr new" "d' = d\<lparr>ad_tasks := rows\<rparr>"
      "\<not> (hits5 \<noteq> [] \<and> primary \<notin> insert None (Some ` set (map af_id (ad_ideas d))))"
      "update_rows d q i (\<lambda>r. holds (task_writable d primary new r)) (changed_task (now d) new primary due) (ad_tasks d) = (rows, hits5)"
      unfolding stmt_update_Inr by blast
    have "tasks_ok (ids (ad_ideas d)) rows" unfolding tasks_ok_def
    proof (rule table_update [OF _ u(4) changed_key(5)], goal_cases)
      case 1
      then show ?case using ok by (simp add: tasks_ok_def)
    next
      case (2 r)
      have ref: "primary \<in> insert None (Some ` ids (ad_ideas d))" using u(3) 2(2) by auto
      let ?r = "changed_task (now d) new primary due r"
      have "af_orphan ?r = (tk_idea ?r = None)" by (simp add: changed_task_def touch_def Let_def)
      moreover have "case tk_idea ?r of None \<Rightarrow> True | Some i \<Rightarrow> i \<in> ids (ad_ideas d)"
        using 2(3) ref by (auto simp: changed_task_def touch_def Let_def split: option.splits)
      moreover have "af_status ?r = ''In Progress'' \<longrightarrow> tk_started ?r \<noteq> None" "af_status ?r = ''Completed'' \<longrightarrow> tk_completed ?r \<noteq> None"
        by (simp_all add: changed_task_def touch_def Let_def)
      moreover have "af_status ?r \<in> set taskStatusLabels"
        using 2(4) cast_label_cases [OF u(1)] by (auto simp: changed_task_def touch_def Let_def split: option.split)
      ultimately show ?case using 2 rev(5) by blast
    qed
    with ok u(2) update_rows_ids [OF u(4) changed_key(5)] show ?thesis by (simp add: artifact_data_ok_def)
  qed
  show "artifact_data_ok d'" if "stmt_update_feedback env p i out st ref d = Inr (hits6, d')"
  proof -
    from that obtain q new outcome rows primary where u: "cast_label feedbackStatuses st = Inr new" "d' = d\<lparr>ad_feedback := rows\<rparr>"
      "\<not> (hits6 \<noteq> [] \<and> primary \<notin> insert None (Some ` set (map af_id (ad_tasks d))))"
      "update_rows d q i (\<lambda>_. True) (changed_feedback (now d) new outcome primary) (ad_feedback d) = (rows, hits6)"
      unfolding stmt_update_Inr by blast
    have "feedback_ok (ids (ad_tasks d)) rows" unfolding feedback_ok_def
    proof (rule table_update [OF _ u(4) changed_key(6)], goal_cases)
      case 1
      then show ?case using ok by (simp add: feedback_ok_def)
    next
      case (2 r)
      have ref: "primary \<in> insert None (Some ` ids (ad_tasks d))" using u(3) 2(2) by auto
      let ?r = "changed_feedback (now d) new outcome primary r"
      have "af_orphan ?r = (fe_task ?r = None)" by (simp add: changed_feedback_def touch_def Let_def)
      moreover have "case fe_task ?r of None \<Rightarrow> True | Some i \<Rightarrow> i \<in> ids (ad_tasks d)"
        using ref by (auto simp: changed_feedback_def touch_def Let_def split: option.splits)
      moreover have "af_status ?r \<in> set feedbackStatuses"
        using 2(4) cast_label_cases [OF u(1)] by (auto simp: changed_feedback_def touch_def Let_def split: option.split)
      moreover have "archive_ok feedbackStatuses ?r"
        using 2(3,4) by (auto simp: changed_feedback_def touch_def Let_def archive_ok_iff split: if_splits)
      ultimately show ?case using rev(6) 2 by blast
    qed
    with ok u(2) show ?thesis by (simp add: artifact_data_ok_def)
  qed
qed

subsection \<open>Links, assignees and the log\<close>

lemma table_map:
  assumes "table_ok labels P rows" "\<And>r. same_key r (g r)"
    and "\<And>r. r \<in> set rows \<Longrightarrow> P r \<Longrightarrow> af_status (g r) = af_status r \<and> af_revision (g r) = af_revision r \<and> Q (g r)"
  shows "table_ok labels Q (map g rows)"
proof -
  have "map af_id (map g rows) = map af_id rows" "map (\<lambda>r. (af_project r, af_slug r)) (map g rows) = map (\<lambda>r. (af_project r, af_slug r)) rows"
    using assms(2) by (simp_all add: same_key_def)
  then show ?thesis using assms(1,3) by (simp add: table_ok_def del: map_map)
qed

lemma sync_data [simp]:
  "ad_stories (sync_problems T d) = ad_stories d" "ad_journeys (sync_problems T d) = ad_journeys d" "ad_ideas (sync_problems T d) = ad_ideas d"
  "ad_tasks (sync_problems T d) = ad_tasks d" "ad_feedback (sync_problems T d) = ad_feedback d" "ad_links (sync_problems T d) = ad_links d"
  "ad_assignees (sync_problems T d) = ad_assignees d" "ad_core (sync_problems T d) = ad_core d" "ad_log (sync_problems T d) = ad_log d"
  by (simp_all add: sync_problems_def)

lemma sync_problem_rows:
  "ad_problems (sync_problems T d) = map (\<lambda>p. if af_id p \<in> T then p\<lparr>af_orphan := problem_orphan (ad_links d) p\<rparr> else p) (ad_problems d)"
  by (simp add: sync_problems_def)

lemma sync_ids [simp]: "ids (ad_problems (sync_problems T d)) = ids (ad_problems d)"
proof -
  have "map af_id (ad_problems (sync_problems T d)) = map af_id (ad_problems d)" by (simp add: sync_problem_rows)
  then show ?thesis by (rule ids_of_map)
qed

lemma sync_ok:
  assumes "problems_ok links (ad_problems d)"
    and "\<And>p. af_id p \<notin> T \<Longrightarrow> problem_orphan (ad_links d) p = problem_orphan links p"
  shows "problems_ok (ad_links d) (ad_problems (sync_problems T d))"
proof -
  have orphan: "problem_orphan l (p\<lparr>af_orphan := b\<rparr>) = problem_orphan l p" for l p b
    by (rule problem_orphan_cong) simp_all
  have archive: "archive_ok labels (p\<lparr>af_orphan := b\<rparr>) = archive_ok labels p" for labels b and p :: problem_row
    by (rule archive_ok_cong) simp_all
  show ?thesis
    using assms(1) unfolding problems_ok_def sync_problem_rows
    by (rule table_map) (use assms(2) in \<open>auto simp: same_key_def orphan archive\<close>)
qed

lemma delete_links_ok: "artifact_data_ok d \<Longrightarrow> artifact_data_ok (delete_links P d)"
proof -
  assume ok: "artifact_data_ok d"
  let ?d = "d\<lparr>ad_links := filter (\<lambda>l. \<not> P l) (ad_links d)\<rparr>"
  let ?T = "lk_target ` set (filter (\<lambda>l. P l \<and> source_link l) (ad_links d))"
  have kept: "l \<in> set (ad_links ?d)" if "af_id p \<notin> ?T" "l \<in> set (ad_links d)" "source_link l" "lk_target l = af_id p" for p l
  proof -
    have "P l \<Longrightarrow> lk_target l \<in> ?T" using that(2,3) by simp
    with that(1,4) have "\<not> P l" by metis
    with that(2) show ?thesis by simp
  qed
  have orphan: "problem_orphan (ad_links ?d) p = problem_orphan (ad_links d) p" if "af_id p \<notin> ?T" for p
    unfolding problem_orphan_def using kept [OF that] by auto
  have "problems_ok (ad_links ?d) (ad_problems (sync_problems ?T ?d))"
    by (rule sync_ok [of "ad_links d"]) (use ok orphan in \<open>simp_all add: artifact_data_ok_def\<close>)
  moreover have "links_ok (filter (\<lambda>l. \<not> P l) (ad_links d))"
    using ok by (auto simp: artifact_data_ok_def links_ok_def distinct_map inj_on_def)
  ultimately show ?thesis using ok by (simp add: delete_links_def artifact_data_ok_def)
qed

lemma insert_link_ok: "artifact_data_ok d \<Longrightarrow> insert_link l d = Inr d' \<Longrightarrow> artifact_data_ok d'"
proof -
  assume ok: "artifact_data_ok d" and run: "insert_link l d = Inr d'"
  let ?d = "d\<lparr>ad_links := ad_links d @ [l]\<rparr>" and ?T = "if source_link l then {lk_target l} else {}"
  have new: "d' = d \<or> \<not> (lk_source_type l = lk_target_type l \<and> lk_source l = lk_target l) \<and> link_key l \<notin> link_key ` set (ad_links d)
      \<and> d' = sync_problems ?T ?d"
    using run unfolding insert_link_def by (simp split: if_splits)
  have "problems_ok (ad_links ?d) (ad_problems (sync_problems ?T ?d))"
    by (rule sync_ok [of "ad_links d"]) (use ok in \<open>auto simp: artifact_data_ok_def problem_orphan_def split: if_splits\<close>)
  then show ?thesis using ok new by (auto simp: artifact_data_ok_def links_ok_def)
qed

lemma link_statements_ok:
  "artifact_data_ok d \<Longrightarrow> stmt_delete_links uuid p ty i sources d = Inr (rows, d') \<Longrightarrow> artifact_data_ok d'"
  "artifact_data_ok d \<Longrightarrow> stmt_insert_link uuid p ty i ty' i' kind a d = Inr (rows, d') \<Longrightarrow> artifact_data_ok d'"
  by (auto simp: stmt_delete_links_def stmt_insert_link_def intro: delete_links_ok insert_link_ok)

lemma assignee_statements_ok:
  "artifact_data_ok d \<Longrightarrow> stmt_clear_assignees uuid p i d = Inr (rows, d') \<Longrightarrow> artifact_data_ok d'"
  "artifact_data_ok d \<Longrightarrow> stmt_assign uuid i p u a d = Inr (rows, d') \<Longrightarrow> artifact_data_ok d'"
proof -
  assume ok: "artifact_data_ok d"
  then have rows: "assignees_ok (ids (ad_tasks d)) (ad_assignees d)" by (simp add: artifact_data_ok_def)
  have key: "an_task (if h then x\<lparr>an_at := t, an_by := b\<rparr> else x) = an_task x"
    "an_user (if h then x\<lparr>an_at := t, an_by := b\<rparr> else x) = an_user x" for h t b and x :: assignee_row
    by simp_all
  have put: "assignees_ok (ids (ad_tasks d)) xs \<Longrightarrow> artifact_data_ok (d\<lparr>ad_assignees := xs\<rparr>)" for xs
    using ok by (simp add: artifact_data_ok_def)
  show "artifact_data_ok d'" if "stmt_clear_assignees uuid p i d = Inr (rows, d')"
    using that rows by (auto simp: stmt_clear_assignees_def assignees_ok_def distinct_map inj_on_def intro!: put)
  show "artifact_data_ok d'" if run: "stmt_assign uuid i p u a d = Inr (rows, d')"
    using run rows unfolding stmt_assign_def sum_bind_Inr Let_def
    by (auto simp: assignees_ok_def list_ex_iff comp_def key split: if_splits intro!: put) blast
qed

lemma log_ok: "artifact_data_ok d \<Longrightarrow> stmt_log uuid p a ty i action payload d = Inr (rows, d') \<Longrightarrow> artifact_data_ok d'"
  by (auto simp: stmt_log_def artifact_data_ok_def split: if_splits)

interpretation consistent: artifact_relation env "\<lambda>d d'. fresh_ids env \<longrightarrow> artifact_data_ok d \<longrightarrow> artifact_data_ok d'" for env
proof unfold_locales
  show "reflp (\<lambda>d d'. fresh_ids env \<longrightarrow> artifact_data_ok d \<longrightarrow> artifact_data_ok d')" by (simp add: reflp_def)
  show "transp (\<lambda>d d'. fresh_ids env \<longrightarrow> artifact_data_ok d \<longrightarrow> artifact_data_ok d')" by (auto simp: transp_def)
qed (intro impI, (erule (1) log_ok link_statements_ok assignee_statements_ok update_ok | erule (2) insert_ok | simp add: artifact_data_ok_def))+

section \<open>What lasts\<close>

text \<open>A row is never deleted. It keeps its id, project, slug, owner and time of creation, and its revision never decreases.\<close>

definition lasting :: "'x artifact_row_scheme list \<Rightarrow> 'x artifact_row_scheme list \<Rightarrow> bool" where
  "lasting rows rows' \<longleftrightarrow> (\<forall>r \<in> set rows. \<exists>r' \<in> set rows'. same_key r r' \<and> af_revision r \<le> af_revision r')"

definition artifacts_last :: "artifact_data \<Rightarrow> artifact_data \<Rightarrow> bool" where
  "artifacts_last d d' \<longleftrightarrow> lasting (ad_stories d) (ad_stories d') \<and> lasting (ad_journeys d) (ad_journeys d')
     \<and> lasting (ad_problems d) (ad_problems d') \<and> lasting (ad_ideas d) (ad_ideas d') \<and> lasting (ad_tasks d) (ad_tasks d')
     \<and> lasting (ad_feedback d) (ad_feedback d') \<and> (\<exists>new. ad_log d' = ad_log d @ new)"

lemma lasting_refl [simp]: "lasting rows rows"
  by (force simp: lasting_def same_key_def)

lemma lasting_trans: "lasting a b \<Longrightarrow> lasting b c \<Longrightarrow> lasting a c"
  unfolding lasting_def same_key_def by (metis order_trans)

lemma lasting_append [simp]: "lasting rows (rows @ new)"
  by (force simp: lasting_def same_key_def)

lemma lasting_map: "(\<And>r. same_key r (g r) \<and> af_revision r \<le> af_revision (g r)) \<Longrightarrow> lasting rows (map g rows)"
  by (auto simp: lasting_def)

lemma lasting_update:
  assumes "update_rows d p i guard f rows = (rows', hit)" "\<And>r. same_key r (f r)" "\<And>r. af_revision r \<le> af_revision (f r)"
  shows "lasting rows rows'"
proof -
  from assms(1) obtain sel where "rows' = map (\<lambda>r. if sel r then f r else r) rows" by (rule update_rows_map)
  then show ?thesis using lasting_map [of "\<lambda>r. if sel r then f r else r" rows] assms(2,3) by (simp add: same_key_def)
qed

lemma last_refl [simp]: "artifacts_last d d"
  by (simp add: artifacts_last_def)

lemma last_sync: "lasting (ad_problems d) (ad_problems (sync_problems T d))"
  unfolding sync_problem_rows by (rule lasting_map) (simp add: same_key_def)

lemma insert_lasts: "stmt_insert env p slug t a st rows put build d = Inr (out, d') \<Longrightarrow> \<exists>new. d' = put (rows d @ new) d"
  by (auto simp: stmt_insert_Inr insert_artifact_def split: if_splits)

lemma changed_revision: "af_revision r1 \<le> af_revision (changed_story t new title persona n m r1)" "af_revision r2 \<le> af_revision (changed_journey t new title r2)"
  "af_revision r3 \<le> af_revision (changed_problem t new title r3)" "af_revision r4 \<le> af_revision (changed_idea t new ref r4)"
  "af_revision r5 \<le> af_revision (changed_task t new ref due r5)" "af_revision r6 \<le> af_revision (changed_feedback t new out ref r6)"
  by (simp_all add: changed_defs)

lemma inserts_last: "stmt_insert_story env a t p slug d = Inr (rows1, d') \<Longrightarrow> artifacts_last d d'"
  "stmt_insert_journey env a t p slug d = Inr (rows2, d') \<Longrightarrow> artifacts_last d d'"
  "stmt_insert_problem env a t p slug d = Inr (rows3, d') \<Longrightarrow> artifacts_last d d'"
  "stmt_insert_idea env a t p slug d = Inr (rows4, d') \<Longrightarrow> artifacts_last d d'"
  "stmt_insert_task env a t p slug d = Inr (rows5, d') \<Longrightarrow> artifacts_last d d'"
  "stmt_insert_feedback env a t p slug d = Inr (rows6, d') \<Longrightarrow> artifacts_last d d'"
  unfolding stmt_insert_story_def stmt_insert_journey_def stmt_insert_problem_def stmt_insert_idea_def stmt_insert_task_def
    stmt_insert_feedback_def by (auto simp: artifacts_last_def dest!: insert_lasts)

lemma updates_last: "stmt_update_story env p i t st persona n m d = Inr (hits1, d') \<Longrightarrow> artifacts_last d d'"
  "stmt_update_journey env p i t st d = Inr (hits2, d') \<Longrightarrow> artifacts_last d d'"
  "stmt_update_problem env p i t st d = Inr (hits3, d') \<Longrightarrow> artifacts_last d d'"
  "stmt_update_idea env p i ref st d = Inr (hits4, d') \<Longrightarrow> artifacts_last d d'"
  "stmt_update_task env p i ref due st d = Inr (hits5, d') \<Longrightarrow> artifacts_last d d'"
  "stmt_update_feedback env p i out st ref d = Inr (hits6, d') \<Longrightarrow> artifacts_last d d'"
  unfolding stmt_update_Inr
  by (auto simp: artifacts_last_def dest: lasting_update [OF _ changed_key(1) changed_revision(1)]
      lasting_update [OF _ changed_key(2) changed_revision(2)] lasting_update [OF _ changed_key(3) changed_revision(3)]
      lasting_update [OF _ changed_key(4) changed_revision(4)] lasting_update [OF _ changed_key(5) changed_revision(5)]
      lasting_update [OF _ changed_key(6) changed_revision(6)])

lemma support_lasts:
  "stmt_log uuid p a ty i action payload d = Inr (rows, d') \<Longrightarrow> artifacts_last d d'"
  "stmt_delete_links uuid p ty i sources d = Inr (rows, d') \<Longrightarrow> artifacts_last d d'"
  "stmt_insert_link uuid p ty i ty' i' kind a d = Inr (rows, d') \<Longrightarrow> artifacts_last d d'"
  "stmt_clear_assignees uuid p i d = Inr (rows, d') \<Longrightarrow> artifacts_last d d'"
  "stmt_assign uuid i p u a d = Inr (rows, d') \<Longrightarrow> artifacts_last d d'"
proof -
  have sync: "artifacts_last d (sync_problems T (d\<lparr>ad_links := links\<rparr>))" for T links
    using last_sync [of "d\<lparr>ad_links := links\<rparr>" T] by (simp add: artifacts_last_def)
  show "artifacts_last d d'" if "stmt_log uuid p a ty i action payload d = Inr (rows, d')"
    using that by (auto simp: stmt_log_def artifacts_last_def split: if_splits)
  show "artifacts_last d d'" if "stmt_delete_links uuid p ty i sources d = Inr (rows, d')"
    using that by (auto simp: stmt_delete_links_def delete_links_def sync)
  show "artifacts_last d d'" if "stmt_insert_link uuid p ty i ty' i' kind a d = Inr (rows, d')"
    using that by (auto simp: stmt_insert_link_def insert_link_def sync split: if_splits)
  show "artifacts_last d d'" if "stmt_clear_assignees uuid p i d = Inr (rows, d')"
    using that by (auto simp: stmt_clear_assignees_def artifacts_last_def)
  show "artifacts_last d d'" if "stmt_assign uuid i p u a d = Inr (rows, d')"
    using that by (auto simp: stmt_assign_def artifacts_last_def Let_def split: if_splits)
qed

interpretation lasting: artifact_relation env artifacts_last for env
proof unfold_locales
  show "reflp artifacts_last" by (simp add: reflp_def)
  show "transp artifacts_last" by (rule transpI) (auto simp: artifacts_last_def intro: lasting_trans)
qed ((erule support_lasts inserts_last updates_last | simp add: artifacts_last_def))+

end
