(* ===== verification/Artifact_Moves.thy ===== *)
theory Artifact_Moves
  imports Artifact_Consistent
begin

text \<open>
  What an update of the service does to the stored status of an artifact: the repository on the life of an artifact
  that \<open>Artifact_Laws\<close> states for any repository.
\<close>

section \<open>Stored statuses\<close>

text \<open>The id, the status and the remembered status of every row of a kind.\<close>

fun row_states :: "artifact_kind \<Rightarrow> artifact_data \<Rightarrow> (string \<times> string \<times> string option) list" where
  "row_states KStory d = map (\<lambda>r. (af_id r, af_status r, av_from r)) (ad_stories d)"
| "row_states KJourney d = map (\<lambda>r. (af_id r, af_status r, av_from r)) (ad_journeys d)"
| "row_states KProblem d = map (\<lambda>r. (af_id r, af_status r, av_from r)) (ad_problems d)"
| "row_states KIdea d = map (\<lambda>r. (af_id r, af_status r, av_from r)) (ad_ideas d)"
| "row_states KTask d = map (\<lambda>r. (af_id r, af_status r, None)) (ad_tasks d)"
| "row_states KFeedback d = map (\<lambda>r. (af_id r, af_status r, av_from r)) (ad_feedback d)"

definition same_states :: "artifact_data \<Rightarrow> artifact_data \<Rightarrow> bool" where
  "same_states d d' \<longleftrightarrow> (\<forall>k. row_states k d' = row_states k d)"

lemma same_statesI:
  assumes "ad_stories d' = ad_stories d" "ad_journeys d' = ad_journeys d" "ad_ideas d' = ad_ideas d" "ad_tasks d' = ad_tasks d"
    "ad_feedback d' = ad_feedback d" "row_states KProblem d' = row_states KProblem d"
  shows "same_states d d'"
  unfolding same_states_def
proof
  fix k show "row_states k d' = row_states k d" using assms by (cases k) simp_all
qed

lemma same_states_sync: "same_states d (sync_problems T (d\<lparr>ad_links := links\<rparr>))"
  by (rule same_statesI) (simp_all add: sync_problem_rows)

lemma support_states:
  "stmt_log uuid p a ty i action payload d = Inr (rows, d') \<Longrightarrow> same_states d d'"
  "stmt_delete_links uuid p ty i sources d = Inr (rows, d') \<Longrightarrow> same_states d d'"
  "stmt_insert_link uuid p ty i ty' i' kind a d = Inr (rows, d') \<Longrightarrow> same_states d d'"
  "stmt_clear_assignees uuid p i d = Inr (rows, d') \<Longrightarrow> same_states d d'"
  "stmt_assign uuid i p u a d = Inr (rows, d') \<Longrightarrow> same_states d d'"
proof -
  show "same_states d d'" if "stmt_log uuid p a ty i action payload d = Inr (rows, d')"
    using that by (auto simp: stmt_log_def split: if_splits intro!: same_statesI)
  show "same_states d d'" if "stmt_delete_links uuid p ty i sources d = Inr (rows, d')"
    using that by (auto simp: stmt_delete_links_def delete_links_def same_states_sync)
  show "same_states d d'" if "stmt_insert_link uuid p ty i ty' i' kind a d = Inr (rows, d')"
    using that by (auto simp: stmt_insert_link_def insert_link_def same_states_sync same_statesI split: if_splits)
  show "same_states d d'" if "stmt_clear_assignees uuid p i d = Inr (rows, d')"
    using that by (auto simp: stmt_clear_assignees_def intro!: same_statesI)
  show "same_states d d'" if "stmt_assign uuid i p u a d = Inr (rows, d')"
    using that by (auto simp: stmt_assign_def Let_def split: if_splits intro!: same_statesI)
qed

interpretation states: artifact_support env same_states for env
proof unfold_locales
  show "reflp same_states" "transp same_states" by (auto simp: reflp_def transp_def same_states_def)
qed (erule support_states | (rule same_statesI; simp))+

section \<open>The row of an update\<close>

definition initial_of :: "artifact_kind \<Rightarrow> string" where
  "initial_of k = (if k = KIdea then ''Considered'' else ''Draft'')"

definition asked :: "string \<Rightarrow> string option" where
  "asked status = (if status = [] then None else Some status)"

definition next_state :: "artifact_kind \<Rightarrow> string option \<Rightarrow> string \<times> string option \<Rightarrow> string \<times> string option" where
  "next_state k new state =
     (let (old, from_status) = state; status = (case new of None \<Rightarrow> old | Some s \<Rightarrow> s) in
      if k = KTask then (status, None)
      else if k = KFeedback then (status, if status = ''Archived'' \<and> old \<noteq> ''Archived'' then Some old
        else if status \<noteq> ''Archived'' \<and> old = ''Archived'' then None else from_status)
      else (next_status (initial_of k) new old from_status, next_archived_from new old from_status))"

text \<open>The row of one artifact has moved, and no other row.\<close>

definition row_moved :: "artifact_kind \<Rightarrow> string \<Rightarrow> string \<Rightarrow> artifact_data \<Rightarrow> artifact_data \<Rightarrow> bool" where
  "row_moved k i status d d' \<longleftrightarrow> i \<in> fst ` set (row_states k d)
     \<and> row_states k d' = map (\<lambda>(j, st). (j, if j = i then next_state k (asked status) st else st)) (row_states k d)
     \<and> (\<forall>k'. k' \<noteq> k \<longrightarrow> row_states k' d' = row_states k' d)"

lemma row_moved_same: "row_moved k i status d d1 \<Longrightarrow> same_states d1 d' \<Longrightarrow> row_moved k i status d d'"
  by (simp add: row_moved_def same_states_def)

lemma cast_label_asked: "cast_label labels x = Inr new \<Longrightarrow> new = asked x"
  by (auto simp: cast_label_def asked_def split: if_splits)

lemma update_one_row:
  assumes "update_rows d p i guard f rows = (rows', h # hs)" "distinct (map af_id rows)"
  shows "rows' = map (\<lambda>r. if af_id r = i then f r else r) rows \<and> i \<in> ids rows"
proof -
  from assms(1) obtain sel where sel: "rows' = map (\<lambda>r. if sel r then f r else r) rows" "\<And>r. sel r \<Longrightarrow> af_id r = i"
    "h # hs = with_owner d (map f (filter sel rows))"
    by (rule update_rows_map) blast
  then have "filter sel rows \<noteq> []" by (auto simp: with_owner_def)
  then obtain r where r: "r \<in> set rows" "sel r" by (auto simp: filter_empty_conv)
  then have "sel r'" if "r' \<in> set rows" "af_id r' = i" for r'
    using that sel(2) [of r] assms(2) by (metis distinct_map inj_onD)
  then show ?thesis using r sel(1,2) by auto
qed

definition ids_distinct :: "artifact_data \<Rightarrow> bool" where
  "ids_distinct d \<longleftrightarrow> (\<forall>k. distinct (map fst (row_states k d)))"

lemma consistent_distinct: "artifact_data_ok d \<Longrightarrow> ids_distinct d"
  unfolding ids_distinct_def
proof
  fix k assume "artifact_data_ok d"
  then show "distinct (map fst (row_states k d))"
    by (cases k) (simp_all add: artifact_data_ok_def table_defs table_ok_def comp_def)
qed

lemma changed_state:
  "(af_status (changed_story t new title persona n m r1), av_from (changed_story t new title persona n m r1)) = next_state KStory new (af_status r1, av_from r1)"
  "(af_status (changed_journey t new title r2), av_from (changed_journey t new title r2)) = next_state KJourney new (af_status r2, av_from r2)"
  "(af_status (changed_problem t new title r3), av_from (changed_problem t new title r3)) = next_state KProblem new (af_status r3, av_from r3)"
  "(af_status (changed_idea t new ref r4), av_from (changed_idea t new ref r4)) = next_state KIdea new (af_status r4, av_from r4)"
  "(af_status (changed_task t new ref due r5), None) = next_state KTask new (af_status r5, None)"
  "(af_status (changed_feedback t new out ref r6), av_from (changed_feedback t new out ref r6)) = next_state KFeedback new (af_status r6, av_from r6)"
  unfolding changed_status
  by (simp_all add: next_state_def initial_of_def with_status_def changed_task_def changed_feedback_def touch_def Let_def)

lemma row_movedI:
  assumes "row_states k d = map (\<lambda>r. (af_id r, state r)) rows" "row_states k d' = map (\<lambda>r. (af_id r, state r)) rows'"
    and "update_rows d p i guard f rows = (rows', h # hs)" "distinct (map fst (row_states k d))"
    and "\<And>r. same_key r (f r)" "\<And>r. state (f r) = next_state k (asked status) (state r)"
    and "\<And>k'. k' \<noteq> k \<Longrightarrow> row_states k' d' = row_states k' d"
  shows "row_moved k i status d d'"
proof -
  have "distinct (map af_id rows)" using assms(1,4) by (simp add: comp_def)
  from update_one_row [OF assms(3) this] have "rows' = map (\<lambda>r. if af_id r = i then f r else r) rows" "i \<in> ids rows" by blast+
  then show ?thesis
    using assms(5,6,7) unfolding row_moved_def assms(1,2) by (auto simp: same_key_def image_image)
qed

lemma statement_moves:
  assumes "artifact_data_ok d"
  shows "stmt_update_story env p i t st persona n m d = Inr (h1 # hs1, d') \<Longrightarrow> row_moved KStory i st d d'"
    "stmt_update_journey env p i t st d = Inr (h2 # hs2, d') \<Longrightarrow> row_moved KJourney i st d d'"
    "stmt_update_problem env p i t st d = Inr (h3 # hs3, d') \<Longrightarrow> row_moved KProblem i st d d'"
    "stmt_update_idea env p i ref st d = Inr (h4 # hs4, d') \<Longrightarrow> row_moved KIdea i st d d'"
    "stmt_update_task env p i ref due st d = Inr (h5 # hs5, d') \<Longrightarrow> row_moved KTask i st d d'"
    "stmt_update_feedback env p i out st ref d = Inr (h6 # hs6, d') \<Longrightarrow> row_moved KFeedback i st d d'"
proof -
  have distinct_ids: "distinct (map fst (row_states k d))" for k
    using consistent_distinct [OF assms] by (simp add: ids_distinct_def)
  show "row_moved KStory i st d d'" if run: "stmt_update_story env p i t st persona n m d = Inr (h1 # hs1, d')"
  proof -
    from run obtain q new rows guard where u: "cast_label storyStatuses st = Inr new" "d' = d\<lparr>ad_stories := rows\<rparr>"
      "update_rows d q i guard (changed_story (now d) new t persona n m) (ad_stories d) = (rows, h1 # hs1)"
      unfolding stmt_update_Inr by blast
    show ?thesis
    proof (rule row_movedI [of _ _ "\<lambda>r. (af_status r, av_from r)", OF _ _ u(3) distinct_ids changed_key(1)])
      fix k' show "row_states k' d' = row_states k' d" if "k' \<noteq> KStory" using that u(2) by (cases k') simp_all
    qed (simp_all add: u(2) changed_state cast_label_asked [OF u(1)])
  qed
  show "row_moved KJourney i st d d'" if run: "stmt_update_journey env p i t st d = Inr (h2 # hs2, d')"
  proof -
    from run obtain q new rows guard where u: "cast_label journeyStatuses st = Inr new" "d' = d\<lparr>ad_journeys := rows\<rparr>"
      "update_rows d q i guard (changed_journey (now d) new t) (ad_journeys d) = (rows, h2 # hs2)"
      unfolding stmt_update_Inr by blast
    show ?thesis
    proof (rule row_movedI [of _ _ "\<lambda>r. (af_status r, av_from r)", OF _ _ u(3) distinct_ids changed_key(2)])
      fix k' show "row_states k' d' = row_states k' d" if "k' \<noteq> KJourney" using that u(2) by (cases k') simp_all
    qed (simp_all add: u(2) changed_state cast_label_asked [OF u(1)])
  qed
  show "row_moved KProblem i st d d'" if run: "stmt_update_problem env p i t st d = Inr (h3 # hs3, d')"
  proof -
    from run obtain q new rows guard where u: "cast_label problemStatuses st = Inr new" "d' = d\<lparr>ad_problems := rows\<rparr>"
      "update_rows d q i guard (changed_problem (now d) new t) (ad_problems d) = (rows, h3 # hs3)"
      unfolding stmt_update_Inr by blast
    show ?thesis
    proof (rule row_movedI [of _ _ "\<lambda>r. (af_status r, av_from r)", OF _ _ u(3) distinct_ids changed_key(3)])
      fix k' show "row_states k' d' = row_states k' d" if "k' \<noteq> KProblem" using that u(2) by (cases k') simp_all
    qed (simp_all add: u(2) changed_state cast_label_asked [OF u(1)])
  qed
  show "row_moved KIdea i st d d'" if run: "stmt_update_idea env p i ref st d = Inr (h4 # hs4, d')"
  proof -
    from run obtain q new rows primary guard where u: "cast_label ideaStatuses st = Inr new" "d' = d\<lparr>ad_ideas := rows\<rparr>"
      "update_rows d q i guard (changed_idea (now d) new primary) (ad_ideas d) = (rows, h4 # hs4)"
      unfolding stmt_update_Inr by blast
    show ?thesis
    proof (rule row_movedI [of _ _ "\<lambda>r. (af_status r, av_from r)", OF _ _ u(3) distinct_ids changed_key(4)])
      fix k' show "row_states k' d' = row_states k' d" if "k' \<noteq> KIdea" using that u(2) by (cases k') simp_all
    qed (simp_all add: u(2) changed_state cast_label_asked [OF u(1)])
  qed
  show "row_moved KTask i st d d'" if run: "stmt_update_task env p i ref due st d = Inr (h5 # hs5, d')"
  proof -
    from run obtain q new rows primary guard where u: "cast_label taskStatusLabels st = Inr new" "d' = d\<lparr>ad_tasks := rows\<rparr>"
      "update_rows d q i guard (changed_task (now d) new primary due) (ad_tasks d) = (rows, h5 # hs5)"
      unfolding stmt_update_Inr by blast
    show ?thesis
    proof (rule row_movedI [of _ _ "\<lambda>r. (af_status r, None)", OF _ _ u(3) distinct_ids changed_key(5)])
      fix k' show "row_states k' d' = row_states k' d" if "k' \<noteq> KTask" using that u(2) by (cases k') simp_all
    qed (simp_all add: u(2) changed_state cast_label_asked [OF u(1)])
  qed
  show "row_moved KFeedback i st d d'" if run: "stmt_update_feedback env p i out st ref d = Inr (h6 # hs6, d')"
  proof -
    from run obtain q new rows primary outcome guard where u: "cast_label feedbackStatuses st = Inr new" "d' = d\<lparr>ad_feedback := rows\<rparr>"
      "update_rows d q i guard (changed_feedback (now d) new outcome primary) (ad_feedback d) = (rows, h6 # hs6)"
      unfolding stmt_update_Inr by blast
    show ?thesis
    proof (rule row_movedI [of _ _ "\<lambda>r. (af_status r, av_from r)", OF _ _ u(3) distinct_ids changed_key(6)])
      fix k' show "row_states k' d' = row_states k' d" if "k' \<noteq> KFeedback" using that u(2) by (cases k') simp_all
    qed (simp_all add: u(2) changed_state cast_label_asked [OF u(1)])
  qed
qed

section \<open>An update of the repository\<close>

lemma read_step:
  assumes "eff_bind m f s = (Inr u, t)" "keeps same_data m" "ss_data s = d"
  obtains x s1 where "f x s1 = (Inr u, t)" "ss_data s1 = d"
proof -
  from assms(1) obtain x s1 where run: "m s = (Inr x, s1)" "f x s1 = (Inr u, t)" unfolding eff_bind_Inr by blast
  moreover have "ss_data s1 = d" using keepsD [OF assms(2) run(1)] assms(3) by (simp add: same_data_def)
  ultimately show ?thesis using that by blast
qed

lemma write_step:
  assumes "eff_bind (one_or_missing w a (RelationalQueryOne st Inr)) f s = (Inr u, t)" "ss_data s = d"
    and "\<And>x. keeps (on_data same_states) (f x)"
    and "\<And>row rows d1. st d = Inr (row # rows, d1) \<Longrightarrow> row_moved k i status d d1"
  shows "row_moved k i status d (ss_data t)"
proof -
  from assms(1) obtain x s1 where run: "RelationalQueryOne st Inr s = (Inr x, s1)" "f x s1 = (Inr u, t)"
    unfolding eff_bind_Inr one_or_missing_def by auto
  from run(1) obtain row rows where "st d = Inr (row # rows, ss_data s1)"
    unfolding RelationalQueryOne_def run_stmt_def eff_bind_Inr
    by (auto simp: assms(2) split: if_splits option.splits sum.splits prod.splits list.splits)
  moreover have "same_states (ss_data s1) (ss_data t)"
    using keepsD [OF assms(3) run(2)] by (simp add: on_data_def)
  ultimately show ?thesis using assms(4) row_moved_same by blast
qed

lemmas state_writes = states.recorded states.wrapping states.statement states.relinked states.reassigned

lemma update_moves:
  assumes "kr_update (repo_of (artifact_repository env) k) p i a patch s = (Inr u, t)" "artifact_data_ok (ss_data s)"
  shows "row_moved k (trim_space i) (patch_status patch) (ss_data s) (ss_data t)"
proof (cases k)
  case KStory
  from assms(1) show ?thesis
    unfolding KStory repo_of.simps artifact_repository_def artifact_repo.simps kind_repo.simps repo_UpdateStory_def Let_def patch_status_def
    apply (rule read_step [OF _ identity_data refl])
    apply (erule (1) write_step)
    subgoal by (auto intro!: keeps_intros states.reads state_writes split: prod.split)
    subgoal by (erule statement_moves(1) [OF assms(2)])
    done
next
  case KJourney
  from assms(1) show ?thesis
    unfolding KJourney repo_of.simps artifact_repository_def artifact_repo.simps kind_repo.simps repo_UpdateJourney_def Let_def patch_status_def
    apply (rule read_step [OF _ identity_data refl])
    apply (erule (1) write_step)
    subgoal by (auto intro!: keeps_intros states.reads state_writes split: prod.split)
    subgoal by (erule statement_moves(2) [OF assms(2)])
    done
next
  case KProblem
  from assms(1) show ?thesis
    unfolding KProblem repo_of.simps artifact_repository_def artifact_repo.simps kind_repo.simps repo_UpdateProblem_def Let_def patch_status_def
    apply (rule read_step [OF _ identity_data refl])
    apply (erule (1) write_step)
    subgoal by (auto intro!: keeps_intros states.reads state_writes split: prod.split option.split)
    subgoal by (erule statement_moves(3) [OF assms(2)])
    done
next
  case KIdea
  from assms(1) show ?thesis
    unfolding KIdea repo_of.simps artifact_repository_def artifact_repo.simps kind_repo.simps repo_UpdateIdea_def Let_def patch_status_def
    apply (rule read_step [OF _ identity_data refl])
    apply (erule read_step)
    apply (auto intro!: keeps_intros repo_reads split: option.split)[1]
    apply assumption
    apply (erule (1) write_step)
    subgoal by (auto intro!: keeps_intros states.reads state_writes split: prod.split option.split)
    subgoal by (auto split: prod.splits dest!: statement_moves(4) [OF assms(2)])
    done
next
  case KTask
  from assms(1) show ?thesis
    unfolding KTask repo_of.simps artifact_repository_def artifact_repo.simps kind_repo.simps repo_UpdateTask_def Let_def patch_status_def
    apply (rule read_step [OF _ identity_data refl])
    apply (erule read_step)
    apply (auto intro!: keeps_intros repo_reads split: option.split)[1]
    apply assumption
    apply (erule read_step)
    apply (auto intro!: keeps_intros repo_reads split: option.split)[1]
    apply assumption
    apply (erule read_step)
    apply (auto intro!: keeps_intros repo_reads split: option.split)[1]
    apply assumption
    apply (erule (1) write_step)
    subgoal by (auto intro!: keeps_intros states.reads state_writes split: prod.split option.split)
    subgoal by (auto split: prod.splits dest!: statement_moves(5) [OF assms(2)])
    done
next
  case KFeedback
  from assms(1) show ?thesis
    unfolding KFeedback repo_of.simps artifact_repository_def artifact_repo.simps kind_repo.simps repo_UpdateFeedback_def Let_def patch_status_def
    apply (rule read_step [OF _ identity_data refl])
    apply (erule read_step)
    apply (auto intro!: keeps_intros repo_reads split: option.split)[1]
    apply assumption
    apply (simp only: split: prod.splits)
    apply (erule (1) write_step)
    subgoal by (auto intro!: keeps_intros states.reads state_writes split: prod.split)
    subgoal by (erule statement_moves(6) [OF assms(2)])
    done
qed

section \<open>What an update loads\<close>

lemma get_step:
  assumes "eff_bind (one_or_missing w a (RelationalQueryOne (stmt_get uuid rows p i) Inr)) f s = (Inr u, t)" "ss_data s = d"
  obtains r x s1 where "f (r, x) s1 = (Inr u, t)" "r \<in> set (rows d)" "af_id r = i"
proof -
  from assms(1) obtain y s1 where run: "RelationalQueryOne (stmt_get uuid rows p i) Inr s = (Inr y, s1)" "f y s1 = (Inr u, t)"
    unfolding eff_bind_Inr one_or_missing_def by auto
  from run(1) obtain q ys where "take 1 (with_owner d (filter (\<lambda>r. af_project r = q \<and> af_id r = i) (rows d))) = y # ys"
    unfolding RelationalQueryOne_def run_stmt_def eff_bind_Inr stmt_get_def
    by (auto simp: assms(2) split: if_splits option.splits sum.splits prod.splits list.splits)
  then have "y \<in> set (with_owner d (filter (\<lambda>r. af_project r = q \<and> af_id r = i) (rows d)))"
    by (metis in_set_takeD list.set_intros(1))
  then have "fst y \<in> set (rows d)" "af_id (fst y) = i" by (auto simp: with_owner_def split: option.splits)
  with run(2) that [of "fst y" "snd y" s1] show ?thesis by simp
qed

lemma status_plain: "artifact_data_ok d \<Longrightarrow> (i, st, from_status) \<in> set (row_states k d) \<Longrightarrow> trim_space st = st \<and> st \<noteq> []"
proof -
  assume ok: "artifact_data_ok d" and row: "(i, st, from_status) \<in> set (row_states k d)"
  have labels: "plain_names (statuses k @ taskStatusLabels)"
    using statuses_plain(1) [of k] statuses_plain(1) [of KTask] by (auto simp: plain_names_def taskStatusLabels_def)
  have "st \<in> set (statuses k @ taskStatusLabels)"
    using ok row by (cases k) (auto simp: artifact_data_ok_def table_defs table_ok_def)
  with labels show ?thesis by (auto simp: plain_names_def list_all_iff trim_plain)
qed

lemma get_state:
  assumes "kr_get (repo_of (artifact_repository env) k) p i s = (Inr current, t)" "artifact_data_ok (ss_data s)"
  shows "\<exists>from_status. (trim_space i, current_status k current, from_status) \<in> set (row_states k (ss_data s))"
proof -
  have "\<exists>st from_status. (trim_space i, st, from_status) \<in> set (row_states k (ss_data s))
      \<and> nestedString current (kind_name k) ''status'' = trim_space st"
    (is ?found)
  proof (cases k)
    case KStory
    from assms(1) show ?thesis
      unfolding KStory repo_of.simps artifact_repository_def artifact_repo.simps kind_repo.simps repo_GetStory_def Let_def
      apply (rule read_step [OF _ identity_data refl])
      apply (erule (1) get_step)
      apply (force simp: eff_bind_Inr nestedString_def toMap_def)
      done
  next
    case KJourney
    from assms(1) show ?thesis
      unfolding KJourney repo_of.simps artifact_repository_def artifact_repo.simps kind_repo.simps repo_GetJourney_def Let_def
      apply (rule read_step [OF _ identity_data refl])
      apply (erule (1) get_step)
      apply (force simp: eff_bind_Inr nestedString_def toMap_def)
      done
  next
    case KProblem
    from assms(1) show ?thesis
      unfolding KProblem repo_of.simps artifact_repository_def artifact_repo.simps kind_repo.simps repo_GetProblem_def Let_def
      apply (rule read_step [OF _ identity_data refl])
      apply (erule (1) get_step)
      apply (force simp: eff_bind_Inr nestedString_def toMap_def)
      done
  next
    case KIdea
    from assms(1) show ?thesis
      unfolding KIdea repo_of.simps artifact_repository_def artifact_repo.simps kind_repo.simps repo_GetIdea_def Let_def
      apply (rule read_step [OF _ identity_data refl])
      apply (erule (1) get_step)
      apply (force simp: eff_bind_Inr nestedString_def toMap_def)
      done
  next
    case KTask
    from assms(1) show ?thesis
      unfolding KTask repo_of.simps artifact_repository_def artifact_repo.simps kind_repo.simps repo_GetTask_def Let_def
      apply (rule read_step [OF _ identity_data refl])
      apply (erule (1) get_step)
      apply (force simp: eff_bind_Inr nestedString_def toMap_def)
      done
  next
    case KFeedback
    from assms(1) show ?thesis
      unfolding KFeedback repo_of.simps artifact_repository_def artifact_repo.simps kind_repo.simps repo_GetFeedback_def Let_def
      apply (rule read_step [OF _ identity_data refl])
      apply (erule (1) get_step)
      apply (force simp: eff_bind_Inr nestedString_def toMap_def)
      done
  qed
  then obtain st from_status where row: "(trim_space i, st, from_status) \<in> set (row_states k (ss_data s))"
    "nestedString current (kind_name k) ''status'' = trim_space st" by blast
  with status_plain [OF assms(2) row(1)] show ?thesis by (auto simp: current_status_def)
qed

section \<open>The life of the stored artifacts\<close>

text \<open>What a client sees of the tables: the status of each artifact of each kind.\<close>

type_synonym status_table = "artifact_kind \<Rightarrow> string \<Rightarrow> string option"

definition stored :: "artifact_data \<Rightarrow> status_table" where
  "stored d k i = map_option fst (map_of (row_states k d) i)"

fun first_status :: "artifact_kind \<Rightarrow> string" where
  "first_status KIdea = ''Considered''"
| "first_status KTask = ''Planned''"
| "first_status KFeedback = ''Active''"
| "first_status _ = ''Draft''"

definition set_status :: "status_table \<Rightarrow> artifact_kind \<Rightarrow> string \<Rightarrow> string \<Rightarrow> status_table" where
  "set_status st k i new = st(k := (st k)(i \<mapsto> new))"

text \<open>The abstract system: an artifact appears with the first status of its kind, and then follows the moves of its
  kind, one artifact at a time.\<close>

inductive lifecycle :: "status_table \<Rightarrow> status_table \<Rightarrow> bool" where
  stay: "lifecycle st st"
| born: "st k i = None \<Longrightarrow> lifecycle st (set_status st k i (first_status k))"
| moves: "st k i = Some old \<Longrightarrow> (old, new) \<in> set (open_moves k @ settled_moves k) \<Longrightarrow> lifecycle st (set_status st k i new)"

lemma update_effect:
  assumes "run_update (artifact_repository env) k p i a payload s = (None, t)" "artifact_data_ok (ss_data s)"
  obtains patch from_status old where "validate_update k payload = Inr patch" "(trim_space i, old, from_status) \<in> set (row_states k (ss_data s))"
    "admitted k old patch" "row_moved k (trim_space i) (patch_status patch) (ss_data s) (ss_data t)"
proof -
  from assms(1) obtain patch current s1 updated where run: "validate_update k payload = Inr patch"
    "kr_get (repo_of (artifact_repository env) k) p i s = (Inr current, s1)" "refusal k (current_status k current) patch = None"
    "WithTx (kr_update (repo_of (artifact_repository env) k) p i a patch) s1 = (Inr updated, t)"
    unfolding run_update_steps update_item_steps by blast
  have same: "ss_data s1 = ss_data s" using keepsD [OF repo_gets_data run(2)] by (simp add: same_data_def)
  from run(4) obtain s2 where tx: "kr_update (repo_of (artifact_repository env) k) p i a patch ((tick s1)\<lparr>ss_tx := TxOpen\<rparr>) = (Inr updated, s2)"
    "ss_data t = ss_data s2" unfolding WithTx_Inr by auto
  have "row_moved k (trim_space i) (patch_status patch) (ss_data s) (ss_data t)"
    using update_moves [OF tx(1)] assms(2) by (simp add: same tx(2))
  moreover from get_state [OF run(2) assms(2)] obtain from_status
    where "(trim_space i, current_status k current, from_status) \<in> set (row_states k (ss_data s))" by blast
  moreover have "admitted k (current_status k current) patch"
    using run(3) refusal_None [OF current_status_trimmed validated_status [OF run(1)]] by blast
  ultimately show ?thesis using that run(1) by blast
qed

lemma failed_update_data:
  assumes "run_update (artifact_repository env) k p i a payload s = (Some e, t)"
  shows "ss_data t = ss_data s"
  using assms unfolding run_update_steps
  by (auto simp: failure_of_def update_item_def in_tx_def eff_bind_def eff_lift_def eff_map_err_def eff_case_def
      eff_throw_def eff_ret_def check_def same_data_def split: prod.splits sum.splits option.splits
      dest!: WithTx_error_data keepsD [OF repo_gets_data])

lemma stored_row: "ids_distinct d \<Longrightarrow> (i, st, from_status) \<in> set (row_states k d) \<Longrightarrow> stored d k i = Some st"
  by (simp add: stored_def ids_distinct_def)

lemma map_of_at: "map_of (map (\<lambda>(j, x). (j, if j = i then f x else x)) xs) j = (if j = i then map_option f (map_of xs j) else map_of xs j)"
  by (induction xs) auto

lemma row_moved_stored:
  assumes "row_moved k i status d d'" "ids_distinct d" "(i, old, from_status) \<in> set (row_states k d)"
  shows "stored d' = set_status (stored d) k i (fst (next_state k (asked status) (old, from_status)))"
proof (intro ext)
  fix k' j
  have row: "map_of (row_states k d) i = Some (old, from_status)" using assms(2,3) by (simp add: ids_distinct_def)
  show "stored d' k' j = set_status (stored d) k i (fst (next_state k (asked status) (old, from_status))) k' j"
    using assms(1) row by (auto simp: row_moved_def stored_def set_status_def map_of_at)
qed

lemma archived_rows:
  assumes "table_ok labels P rows" "\<And>r. P r \<Longrightarrow> archive_ok labels r"
    and "(i, old, Some st) \<in> set (map (\<lambda>r. (af_id r, af_status r, av_from r)) rows)"
  shows "old = ''Archived'' \<and> st \<in> set labels \<and> st \<noteq> ''Archived''"
proof -
  from assms(3) obtain r where r: "r \<in> set rows" "old = af_status r" "av_from r = Some st" by auto
  with assms(1,2) have "archive_ok labels r" unfolding table_ok_def by blast
  with r show ?thesis by (simp add: archive_ok_iff)
qed

lemma archived_state:
  assumes "artifact_data_ok d" "(i, old, Some st) \<in> set (row_states k d)"
  shows "old = ''Archived'' \<and> st \<in> set (statuses k) \<and> st \<noteq> ''Archived''"
proof -
  note ok = assms(1) [unfolded artifact_data_ok_def table_defs]
  show ?thesis
  proof (cases "k = KTask")
    case True
    with assms(2) show ?thesis by auto
  next
    case False
    with assms(2) ok show ?thesis by (cases k) (auto simp del: set_map dest!: archived_rows [rotated 2])
  qed
qed

text \<open>Whatever is asked of an artifact, the status it gets is reached by a move of its kind; also the one remembered
  from before it was archived.\<close>

lemma stored_moves:
  assumes "artifact_data_ok d" "(i, old, from_status) \<in> set (row_states k d)" "admitted k old patch"
  defines "new \<equiv> fst (next_state k (asked (patch_status patch)) (old, from_status))"
  shows "new = old \<or> (old, new) \<in> set (open_moves k @ settled_moves k)"
proof -
  have from_status: "old = ''Archived'' \<and> st \<in> set (statuses k) \<and> st \<noteq> ''Archived''" if "from_status = Some st" for st
    using archived_state [OF assms(1)] assms(2) that by blast
  show ?thesis
  proof (cases "patch_status patch = []")
    case True
    then show ?thesis by (simp add: new_def next_state_def asked_def next_status_def Let_def sql_eq_def)
  next
    case asked: False
    let ?st = "patch_status patch"
    have move: "(old, ?st) \<in> set (open_moves k @ settled_moves k)"
      using assms(3) asked by (auto simp: admitted_def split: if_splits)
    show ?thesis
    proof (cases "k \<in> {KTask, KFeedback} \<or> old \<noteq> ''Archived'' \<or> ?st = ''Archived''")
      case True
      then have "new = ?st" using asked by (auto simp: new_def next_state_def asked_def next_status_def Let_def)
      with move show ?thesis by simp
    next
      case False
      then have "new = (case from_status of None \<Rightarrow> initial_of k | Some x \<Rightarrow> x)"
        using asked by (simp add: new_def next_state_def asked_def next_status_def Let_def)
      moreover have "x \<in> set (statuses k) \<Longrightarrow> x \<noteq> ''Archived'' \<Longrightarrow> (''Archived'', x) \<in> set (settled_moves k)" for x
        using False by (cases k) (auto simp: status_lists)
      moreover have "initial_of k \<in> set (statuses k)" "initial_of k \<noteq> ''Archived''"
        using False by (cases k; simp add: initial_of_def status_lists)+
      ultimately show ?thesis using from_status False by (cases from_status) auto
    qed
  qed
qed

lemma update_refines:
  assumes "run_update (artifact_repository env) k p i a payload s = (e, t)" "artifact_data_ok (ss_data s)"
  shows "lifecycle (stored (ss_data s)) (stored (ss_data t))"
proof (cases e)
  case None
  with assms obtain patch from_status old where run: "(trim_space i, old, from_status) \<in> set (row_states k (ss_data s))"
    "admitted k old patch" "row_moved k (trim_space i) (patch_status patch) (ss_data s) (ss_data t)"
    by (blast elim: update_effect)
  note ids = consistent_distinct [OF assms(2)]
  let ?new = "fst (next_state k (asked (patch_status patch)) (old, from_status))"
  have stored_old: "stored (ss_data s) k (trim_space i) = Some old" by (rule stored_row [OF ids run(1)])
  then have stays: "set_status (stored (ss_data s)) k (trim_space i) old = stored (ss_data s)"
    by (auto simp: set_status_def fun_eq_iff)
  show ?thesis unfolding row_moved_stored [OF run(3) ids run(1)]
    using stored_moves [OF assms(2) run(1,2)] lifecycle.moves [of "stored (ss_data s)" k "trim_space i" old ?new] lifecycle.stay stored_old stays by metis
next
  case (Some e)
  with failed_update_data assms(1) show ?thesis by (auto intro: lifecycle.stay)
qed

section \<open>Creation\<close>

definition row_born :: "artifact_kind \<Rightarrow> string \<Rightarrow> artifact_data \<Rightarrow> artifact_data \<Rightarrow> bool" where
  "row_born k i d d' \<longleftrightarrow> row_states k d' = row_states k d @ [(i, first_status k, None)]
     \<and> (\<forall>k'. k' \<noteq> k \<longrightarrow> row_states k' d' = row_states k' d)"

lemma row_frames:
  "k \<noteq> KStory \<Longrightarrow> row_states k (d\<lparr>ad_stories := rows0\<rparr>) = row_states k d"
  "k \<noteq> KJourney \<Longrightarrow> row_states k (d\<lparr>ad_journeys := rows1\<rparr>) = row_states k d"
  "k \<noteq> KProblem \<Longrightarrow> row_states k (d\<lparr>ad_problems := rows2\<rparr>) = row_states k d"
  "k \<noteq> KIdea \<Longrightarrow> row_states k (d\<lparr>ad_ideas := rows3\<rparr>) = row_states k d"
  "k \<noteq> KTask \<Longrightarrow> row_states k (d\<lparr>ad_tasks := rows4\<rparr>) = row_states k d"
  "k \<noteq> KFeedback \<Longrightarrow> row_states k (d\<lparr>ad_feedback := rows5\<rparr>) = row_states k d"
  by (cases k; simp)+

lemma insert_born:
  "stmt_insert_story env a t p slug d = Inr (rows1, d') \<Longrightarrow> row_born KStory (rx_new_id env d) d d'"
  "stmt_insert_journey env a t p slug d = Inr (rows2, d') \<Longrightarrow> row_born KJourney (rx_new_id env d) d d'"
  "stmt_insert_problem env a t p slug d = Inr (rows3, d') \<Longrightarrow> row_born KProblem (rx_new_id env d) d d'"
  "stmt_insert_idea env a t p slug d = Inr (rows4, d') \<Longrightarrow> row_born KIdea (rx_new_id env d) d d'"
  "stmt_insert_task env a t p slug d = Inr (rows5, d') \<Longrightarrow> row_born KTask (rx_new_id env d) d d'"
  "stmt_insert_feedback env a t p slug d = Inr (rows6, d') \<Longrightarrow> row_born KFeedback (rx_new_id env d) d d'"
proof -
  note inserts = stmt_insert_story_def stmt_insert_journey_def stmt_insert_problem_def stmt_insert_idea_def stmt_insert_task_def
    stmt_insert_feedback_def stmt_insert_Inr insert_artifact_def new_artifact_def artifact_row.extend_def Let_def
  show "row_born KStory (rx_new_id env d) d d'" if "stmt_insert_story env a t p slug d = Inr (rows1, d')"
    using that by (auto simp: inserts row_born_def row_frames split: if_splits)
  show "row_born KJourney (rx_new_id env d) d d'" if "stmt_insert_journey env a t p slug d = Inr (rows2, d')"
    using that by (auto simp: inserts row_born_def row_frames split: if_splits)
  show "row_born KProblem (rx_new_id env d) d d'" if "stmt_insert_problem env a t p slug d = Inr (rows3, d')"
    using that by (auto simp: inserts row_born_def row_frames split: if_splits)
  show "row_born KIdea (rx_new_id env d) d d'" if "stmt_insert_idea env a t p slug d = Inr (rows4, d')"
    using that by (auto simp: inserts row_born_def row_frames split: if_splits)
  show "row_born KTask (rx_new_id env d) d d'" if "stmt_insert_task env a t p slug d = Inr (rows5, d')"
    using that by (auto simp: inserts row_born_def row_frames split: if_splits)
  show "row_born KFeedback (rx_new_id env d) d d'" if "stmt_insert_feedback env a t p slug d = Inr (rows6, d')"
    using that by (auto simp: inserts row_born_def row_frames split: if_splits)
qed

lemma create_step:
  assumes "create_row env table action p a title new_row finish s = (Inr u, t)"
    and "\<And>q n row. keeps (on_data same_states) (finish q n row)"
    and "\<And>q slug d rows d1. new_row q slug d = Inr (rows, d1) \<Longrightarrow> row_born k (rx_new_id env d) d d1"
  shows "row_born k (rx_new_id env (ss_data s)) (ss_data s) (ss_data t)"
proof -
  let ?d = "ss_data s"
  from assms(1) obtain q slug n s1 where run: "eff_bind (wrap_store action (RelationalQueryOne (new_row q slug) Inr)) (finish q n) s1 = (Inr u, t)"
    "ss_data s1 = ?d"
    unfolding create_row_def
    by (elim read_step [OF _ identity_data refl] read_step [OF _ slug_data] read_step [OF _ user_name_data]) blast
  from run(1) obtain row s2 where run2: "RelationalQueryOne (new_row q slug) Inr s1 = (Inr row, s2)" "finish q n row s2 = (Inr u, t)"
    unfolding eff_bind_Inr wrap_store_def by auto
  from run2(1) obtain rows where "new_row q slug ?d = Inr (rows, ss_data s2)"
    unfolding RelationalQueryOne_def run_stmt_def eff_bind_Inr
    by (auto simp: run(2) split: if_splits option.splits sum.splits prod.splits list.splits)
  from assms(3) [OF this] keepsD [OF assms(2) run2(2)] show ?thesis
    by (simp add: row_born_def same_states_def on_data_def)
qed

lemma create_born:
  assumes "kr_create (repo_of (artifact_repository env) k) p a title c s = (Inr u, t)"
  shows "row_born k (rx_new_id env (ss_data s)) (ss_data s) (ss_data t)"
  using assms
  by (cases k; simp add: artifact_repository_def repo_CreateStory_def repo_CreateJourney_def repo_CreateProblem_def repo_CreateIdea_def
      repo_CreateTask_def repo_CreateFeedback_def)
    (erule create_step, (auto simp: Let_def intro!: keeps_intros states.reads state_writes)[1], erule insert_born)+

end
