(* ===== verification/Artifact_Runs.thy ===== *)
theory Artifact_Runs
  imports Artifact_Moves
begin

text \<open>
  The properties of the artifacts module over its repository, along every run of creates and updates of the service:
  the tables stay consistent, nothing is lost, the statuses follow the life of an artifact, archiving is undone by
  restoring. Each is one step of a run put under the transitive closure by the laws of \<open>artifact_relation\<close>.
\<close>

lemma failed_create_data: "run_create (artifact_repository env) k p a title s = (Some e, t) \<Longrightarrow> ss_data t = ss_data s"
  using run_create_item [of "artifact_repository env" k p a title]
  by (auto simp: failure_of_def create_item_def in_tx_def eff_bind_def eff_map_err_def eff_case_def eff_throw_def eff_ret_def check_def
      split: prod.splits sum.splits option.splits dest!: WithTx_error_data)

lemma create_item_steps: "failure_of (create_item action decode invalid create) s = (None, t) \<longleftrightarrow>
    invalid = None \<and> (\<exists>created. WithTx create s = (Inr created, t))"
  by (auto simp: failure_of_def create_item_def in_tx_def eff_bind_def eff_map_err_def eff_case_def eff_throw_def eff_ret_def check_def
      split: prod.splits sum.splits option.splits)

lemma row_born_stored:
  "row_born k i d d' \<Longrightarrow> i \<notin> fst ` set (row_states k d) \<Longrightarrow> stored d k i = None \<and> stored d' = set_status (stored d) k i (first_status k)"
proof -
  assume born: "row_born k i d d'" and fresh: "i \<notin> fst ` set (row_states k d)"
  then have "map_of (row_states k d) i = None" by (simp add: map_of_eq_None_iff)
  with born show ?thesis
    by (auto simp: row_born_def stored_def set_status_def fun_eq_iff map_add_def split: option.split)
qed

lemma fresh_rows: "fresh_ids env \<Longrightarrow> rx_new_id env d \<notin> fst ` set (row_states k d)"
  unfolding fresh_ids_def by (drule spec [of _ d]) (cases k; force)

lemma create_refines:
  assumes "run_create (artifact_repository env) k p a title s = (e, t)" "fresh_ids env"
  shows "lifecycle (stored (ss_data s)) (stored (ss_data t))"
proof (cases e)
  case None
  obtain action invalid where "failure_of (create_item action id invalid (kr_create (repo_of (artifact_repository env) k) p a title None)) s = (None, t)"
    using assms(1) None run_create_item [of "artifact_repository env" k p a title] by auto
  then obtain created where "WithTx (kr_create (repo_of (artifact_repository env) k) p a title None) s = (Inr created, t)"
    unfolding create_item_steps by blast
  then obtain s2 where tx: "kr_create (repo_of (artifact_repository env) k) p a title None ((tick s)\<lparr>ss_tx := TxOpen\<rparr>) = (Inr created, s2)"
    "ss_data t = ss_data s2" unfolding WithTx_Inr by auto
  have "row_born k (rx_new_id env (ss_data s)) (ss_data s) (ss_data t)" using create_born [OF tx(1)] by (simp add: tx(2))
  from row_born_stored [OF this fresh_rows [OF assms(2)]] show ?thesis by (metis lifecycle.born)
next
  case (Some e)
  with failed_create_data assms(1) show ?thesis by (auto intro: lifecycle.stay)
qed

lemma stored_shared: "stored (d\<lparr>ad_core := c, ad_owners := ow\<rparr>) = stored d"
proof (intro ext)
  fix k i show "stored (d\<lparr>ad_core := c, ad_owners := ow\<rparr>) k i = stored d k i"
    by (cases k) (simp_all add: stored_def)
qed

lemma step_refines: "artifact_step env s t \<Longrightarrow> fresh_ids env \<Longrightarrow> artifact_data_ok (ss_data s)
    \<Longrightarrow> lifecycle (stored (ss_data s)) (stored (ss_data t))"
proof (induction rule: artifact_step.induct)
  case elsewhere
  then show ?case by (simp add: stored_shared lifecycle.stay)
qed (blast intro: create_refines update_refines)+

section \<open>Along every run\<close>

text \<open>C4: the tables of artifacts stay consistent through every sequence of creates and updates of the service, whatever
  the requests contain and whichever statements, documents, transactions and notifications fail on the way,
  provided a new row gets an id that no artifact has: ids are unique, a slug is unique in its project, every
  status is one of its kind, the status remembered by an archived artifact is one it can have, a problem is
  flagged locked exactly when its status is, orphan flags say whether the artifact is linked, ideas,
  tasks and feedback refer to rows that exist, a selected idea, a started task and a completed task have
  their dates, links and assignees are unique.\<close>

theorem artifacts_stay_consistent:
  assumes "(artifact_step env)\<^sup>*\<^sup>* s t" "fresh_ids env" "artifact_data_ok (ss_data s)"
  shows "artifact_data_ok (ss_data t)"
  using consistent.steps [OF assms(1)] assms(2,3) by blast

text \<open>C22: nothing is lost. Through every sequence of creates and updates, and with no assumption on the data, every row of
  every kind stays in its table with its id, project, slug, owner and time of creation, its revision
  never decreases, and the activity log only grows.\<close>

theorem artifacts_persist:
  assumes "(artifact_step env)\<^sup>*\<^sup>* s t"
  shows "artifacts_last (ss_data s) (ss_data t)"
  by (rule lasting.steps [OF assms])

text \<open>C2: the service over its repository refines the life of an artifact. Seen as the status of each artifact, every
  run of creates and updates on consistent tables is a run of the abstract system, in which an artifact
  appears with the first status of its kind and then one artifact at a time makes a move of its kind:
  the checks of the service, the WHERE clauses of the statements and what archiving remembers agree.\<close>

theorem artifacts_refine_lifecycle:
  assumes "(artifact_step env)\<^sup>*\<^sup>* s t" "fresh_ids env" "artifact_data_ok (ss_data s)"
  shows "lifecycle\<^sup>*\<^sup>* (stored (ss_data s)) (stored (ss_data t))"
  using assms(1)
proof (induction rule: rtranclp_induct)
  case (step t u)
  have "artifact_data_ok (ss_data t)" using consistent.steps [OF step.hyps(1)] assms(2,3) by blast
  with step.IH step_refines [OF step.hyps(2) assms(2)] show ?case by (simp add: rtranclp.rtrancl_into_rtrancl)
qed simp

text \<open>C21: archiving is undone by restoring. An artifact that can be archived for good (a story, a journey, a problem or an idea)
  and that an update archives gets back the status it had, and every other artifact has its status too,
  when the next update of it asks for a status other than \<open>Archived\<close>, whichever one it asks for.\<close>

theorem restore_gives_back_the_status:
  assumes "run_update (artifact_repository env) k p i a payload s = (None, s1)" "artifact_data_ok (ss_data s)" "fresh_ids env"
    and "run_update (artifact_repository env) k p i b request s1 = (None, t)"
    and "k \<in> {KStory, KJourney, KProblem, KIdea}" "stored (ss_data s) k (trim_space i) \<noteq> Some ''Archived''"
    and "stored (ss_data s1) k (trim_space i) = Some ''Archived''"
    and "validate_update k request = Inr patch" "patch_status patch \<notin> {[], ''Archived''}"
  shows "stored (ss_data t) = stored (ss_data s)"
proof -
  note ids = consistent_distinct [OF assms(2)]
  have ok1: "artifact_data_ok (ss_data s1)" using consistent.stepped [OF artifact_step.updated [OF assms(1)]] assms(2,3) by blast
  from assms(1,2) obtain patch1 from_status old where first: "(trim_space i, old, from_status) \<in> set (row_states k (ss_data s))"
    "row_moved k (trim_space i) (patch_status patch1) (ss_data s) (ss_data s1)"
    by (blast elim: update_effect)
  let ?state = "next_state k (asked (patch_status patch1)) (old, from_status)"
  have row: "(trim_space i, ?state) \<in> set (row_states k (ss_data s1))"
    using first by (force simp: row_moved_def)
  have at: "stored (ss_data s) k (trim_space i) = Some old" by (rule stored_row [OF ids first(1)])
  have "fst ?state = ''Archived''" "old \<noteq> ''Archived''"
    using row_moved_stored [OF first(2) ids first(1)] assms(6,7) at by (auto simp: set_status_def)
  then have state: "?state = (''Archived'', Some old)" using assms(5)
    by (auto simp: next_state_def next_status_def next_archived_from_def Let_def sql_eq_def asked_def split: if_splits)
  from assms(4) ok1 obtain from2 old2 where second: "(trim_space i, old2, from2) \<in> set (row_states k (ss_data s1))"
    "row_moved k (trim_space i) (patch_status patch) (ss_data s1) (ss_data t)"
    using update_effect assms(8) by (metis Inr_inject)
  have "(old2, from2) = (''Archived'', Some old)"
    using second(1) row consistent_distinct [OF ok1] unfolding state ids_distinct_def by (metis eq_key_imp_eq_value)
  then have "fst (next_state k (asked (patch_status patch)) (old2, from2)) = old"
    using assms(5,9) by (auto simp: next_state_def next_status_def Let_def asked_def)
  then have "stored (ss_data t) = set_status (stored (ss_data s1)) k (trim_space i) old"
    using row_moved_stored [OF second(2) consistent_distinct [OF ok1] second(1)] by simp
  also have "\<dots> = stored (ss_data s)"
    using at unfolding row_moved_stored [OF first(2) ids first(1)] by (auto simp: set_status_def fun_eq_iff)
  finally show ?thesis .
qed

section \<open>Ideas\<close>

text \<open>An idea that is updated without a status and without a problem must be linked to a locked problem already, since
  the condition on the status is NULL: any other idea is told to be missing.\<close>

lemma idea_without_status_needs_locked_problem:
  assumes "stmt_update_idea env p i None [] d = Inr (hits, d')" "hits \<noteq> []"
  shows "\<exists>r \<in> set (ad_ideas d). af_id r = i \<and> (\<exists>x \<in> set (ad_problems d). id_problem r = Some (af_id x) \<and> af_status x = ''Locked'')"
proof -
  from assms(1) obtain q new rows primary where u: "cast_ref env None = Inr primary" "cast_label ideaStatuses [] = Inr new"
    "update_rows d q i (\<lambda>r. holds (idea_writable d primary new r)) (changed_idea (now d) new primary) (ad_ideas d) = (rows, hits)"
    unfolding stmt_update_Inr by blast
  from u(3) obtain sel where sel: "\<And>r. sel r \<Longrightarrow> holds (idea_writable d primary new r) \<and> af_id r = i"
    "hits = with_owner d (map (changed_idea (now d) new primary) (filter sel (ad_ideas d)))"
    by (rule update_rows_map) blast
  have "filter sel (ad_ideas d) \<noteq> []"
  proof
    assume "filter sel (ad_ideas d) = []"
    with sel(2) assms(2) show False by (simp add: with_owner_def)
  qed
  then obtain r where r: "r \<in> set (ad_ideas d)" "sel r" by (auto simp: filter_empty_conv)
  moreover have "primary = None" "new = None" using u(1,2) by (simp_all add: cast_ref_def cast_label_def)
  ultimately show ?thesis using sel(1) [OF r(2)] by (fastforce simp: idea_writable_def Let_def)
qed

section \<open>A concrete run\<close>

definition demo_env :: artifact_env where
  "demo_env = \<lparr>rx_uuid = Some, rx_date = (\<lambda>_. ''d''), rx_day = (\<lambda>_. ''d''),
     rx_new_id = (\<lambda>d. ''n'' @ concat (map af_id (ad_stories d) @ map af_id (ad_journeys d) @ map af_id (ad_problems d)
       @ map af_id (ad_ideas d) @ map af_id (ad_tasks d) @ map af_id (ad_feedback d))), rx_codec = (\<lambda>m. m)\<rparr>"

definition demo_journey :: journey_row where
  "demo_journey = \<lparr>af_id = ''j'', af_project = ''p'', af_slug = ''way'', af_title = ''Way'', af_owner = ''u'', af_status = ''Locked'',
     af_orphan = True, af_created = 1, af_updated = 1, af_revision = 1, av_from = None\<rparr>"

definition demo_data :: artifact_data where
  "demo_data = \<lparr>ad_core = \<lparr>tb_projects = [\<lparr>pj_id = ''p'', pj_slug = ''alpha'', pj_name = ''Alpha''\<rparr>],
      tb_users = [\<lparr>us_id = ''u'', us_email = ''a@b'', us_name = ''Ann''\<rparr>], tb_members = [], tb_roles = [], tb_invites = [], tb_muted = [],
      tb_gates = [], tb_notifications = [], tb_now = 5\<rparr>, ad_owners = [(''p'', ''u'')], ad_stories = [], ad_journeys = [demo_journey],
     ad_problems = [], ad_ideas = [], ad_tasks = [], ad_feedback = [], ad_links = [], ad_assignees = [], ad_log = []\<rparr>"

definition demo_session :: doc_session where
  "demo_session = \<lparr>ss_data = demo_data, ss_tx = NoTx, ss_count = 0, ss_fault = (\<lambda>_. None), se_docs = (\<lambda>_. []), se_doc_count = 0,
     se_doc_fault = (\<lambda>_. None)\<rparr>"

definition demo_archived :: "err option \<times> doc_session" where
  "demo_archived = run_update (artifact_repository demo_env) KJourney ''p'' ''j'' ''u'' (Some [(''status'', AStr ''Archived'')]) demo_session"

definition demo_restored :: "err option \<times> doc_session" where
  "demo_restored = run_update (artifact_repository demo_env) KJourney ''p'' ''j'' ''u'' (Some [(''status'', AStr ''Draft'')]) (snd demo_archived)"

definition demo_created :: "err option \<times> doc_session" where
  "demo_created = run_create (artifact_repository demo_env) KStory ''p'' ''u'' ''Road'' (snd demo_restored)"

lemma demo_run: "(artifact_step demo_env)\<^sup>*\<^sup>* demo_session (snd demo_created)"
proof -
  have "artifact_step demo_env demo_session (snd demo_archived)" "artifact_step demo_env (snd demo_archived) (snd demo_restored)"
    "artifact_step demo_env (snd demo_restored) (snd demo_created)"
    unfolding demo_archived_def demo_restored_def demo_created_def
    by (rule artifact_step.updated artifact_step.created, rule prod.collapse [symmetric])+
  then show ?thesis by (meson converse_rtranclp_into_rtranclp rtranclp.rtrancl_refl)
qed

lemma demo_fresh: "fresh_ids demo_env"
proof -
  have longer: "length i \<le> length (concat xs)" if "i \<in> set xs" for i and xs :: "string list"
    using that by (induction xs) auto
  have "rx_new_id demo_env d \<noteq> i" if "i \<in> set (map af_id (ad_stories d) @ map af_id (ad_journeys d) @ map af_id (ad_problems d)
       @ map af_id (ad_ideas d) @ map af_id (ad_tasks d) @ map af_id (ad_feedback d))" for i d
    using longer [OF that] by (auto simp: demo_env_def)
  then show ?thesis unfolding fresh_ids_def by auto
qed

lemma demo_ok: "artifact_data_ok (ss_data demo_session)"
  by (simp add: demo_session_def demo_data_def demo_journey_def artifact_data_ok_def table_defs table_ok_def links_ok_def
      assignees_ok_def archive_ok_def status_lists)

lemma demo_archived_status: "fst demo_archived = None" "stored (ss_data (snd demo_archived)) KJourney ''j'' = Some ''Archived''"
  by code_simp+

lemma demo_restored_status: "fst demo_restored = None"
  by code_simp

lemma artifacts_stay_consistent_witness: "artifact_data_ok (ss_data (snd demo_created))"
  by (rule artifacts_stay_consistent [OF demo_run demo_fresh demo_ok])

lemma artifacts_persist_witness: "artifacts_last (ss_data demo_session) (ss_data (snd demo_created))"
  by (rule artifacts_persist [OF demo_run])

lemma artifacts_refine_lifecycle_witness: "lifecycle\<^sup>*\<^sup>* (stored (ss_data demo_session)) (stored (ss_data (snd demo_created)))"
  by (rule artifacts_refine_lifecycle [OF demo_run demo_fresh demo_ok])

text \<open>The journey was locked, and it is again, although the request asks for a draft.\<close>

lemma restore_gives_back_the_status_witness: "stored (ss_data (snd demo_restored)) KJourney ''j'' = Some ''Locked''"
proof -
  have first: "run_update (artifact_repository demo_env) KJourney ''p'' ''j'' ''u'' (Some [(''status'', AStr ''Archived'')]) demo_session
      = (None, snd demo_archived)"
    using demo_archived_status(1) by (simp add: demo_archived_def prod_eq_iff)
  have second: "run_update (artifact_repository demo_env) KJourney ''p'' ''j'' ''u'' (Some [(''status'', AStr ''Draft'')]) (snd demo_archived)
      = (None, snd demo_restored)"
    using demo_restored_status by (simp add: demo_restored_def prod_eq_iff)
  have request: "validate_update KJourney (Some [(''status'', AStr ''Draft'')]) = Inr [(''status'', AStr ''Draft'')]"
    by (rule status_payload) (simp add: status_lists)
  have trim: "trim_space ''j'' = ''j''" by (simp add: trim_plain)
  have locked: "stored (ss_data demo_session) KJourney ''j'' = Some ''Locked''"
    by (simp add: stored_def demo_session_def demo_data_def demo_journey_def)
  have "stored (ss_data (snd demo_restored)) = stored (ss_data demo_session)"
    by (rule restore_gives_back_the_status [OF first demo_ok demo_fresh second _ _ _ request])
      (simp_all add: demo_archived_status(2) trim locked trim_plain)
  with locked show ?thesis by simp
qed

end
