(* ===== verification/Auth_Users.thy ===== *)
theory Auth_Users
  imports Project_Tables
begin

text \<open>
  The accounts: the user repository and the user provider of the token engine (\<open>internal/core/auth/user_repository.go\<close>,
  \<open>provider_store.go\<close>), and the repository of the auth module (\<open>internal/modules/auth/repo.go\<close>), over the
  columns of \<open>users\<close> they read and write. \<open>email\<close> is \<open>citext\<close>, so it is compared up to case;
  \<open>account_version\<close> is an \<open>integer\<close>, read into 32 unsigned bits.
\<close>

section \<open>The table\<close>

record account_row =
  acc_id :: string
  acc_email :: string
  acc_name :: string
  acc_hash :: string
  acc_version :: int
  acc_verified :: bool
  acc_updated :: int

record accounts =
  adb_users :: "account_row list"
  adb_now :: int

abbreviation (input) "max_int32 \<equiv> 2147483647 :: int"

definition stmt_user_by_identifier :: "string \<Rightarrow> (accounts, account_row) stmt" where
  "stmt_user_by_identifier email d = Inr (filter (\<lambda>a. equal_fold (acc_email a) email) (adb_users d), d)"

definition stmt_user_by_id :: "uuid_cast \<Rightarrow> string \<Rightarrow> (accounts, account_row) stmt" where
  "stmt_user_by_id uuid uid d =
     sum_bind (cast_uuid uuid uid) (\<lambda>u. Inr (filter (\<lambda>a. acc_id a = u) (adb_users d), d))"

text \<open>An update of one account that counts its version up; the counter of an \<open>integer\<close> column can be full.\<close>

definition touched :: "(account_row \<Rightarrow> account_row) \<Rightarrow> accounts \<Rightarrow> account_row \<Rightarrow> account_row" where
  "touched f d a = (f a)\<lparr>acc_version := acc_version a + 1, acc_updated := adb_now d\<rparr>"

definition stmt_touch :: "uuid_cast \<Rightarrow> string \<Rightarrow> (account_row \<Rightarrow> account_row) \<Rightarrow> (accounts, account_row) stmt" where
  "stmt_touch uuid uid f d =
     sum_bind (cast_uuid uuid uid) (\<lambda>u.
       let hit = filter (\<lambda>a. acc_id a = u) (adb_users d) in
       if list_ex (\<lambda>a. acc_version a \<ge> max_int32) hit then Inl (EPg ''22003'')
       else Inr (map (touched f d) hit,
                 d\<lparr>adb_users := map (\<lambda>a. if acc_id a = u then touched f d a else a) (adb_users d)\<rparr>))"

definition stmt_update_hash :: "uuid_cast \<Rightarrow> string \<Rightarrow> string \<Rightarrow> (accounts, account_row) stmt" where
  "stmt_update_hash uuid uid newHash = stmt_touch uuid uid (\<lambda>a. a\<lparr>acc_hash := newHash\<rparr>)"

definition stmt_update_verification :: "uuid_cast \<Rightarrow> string \<Rightarrow> bool \<Rightarrow> (accounts, account_row) stmt" where
  "stmt_update_verification uuid uid flag = stmt_touch uuid uid (\<lambda>a. a\<lparr>acc_verified := flag\<rparr>)"

text \<open>\<open>new_id\<close> is what \<open>gen_random_uuid()\<close> gives. A version outside the column is refused by the driver.\<close>

definition stmt_create_user :: "string \<Rightarrow> string \<Rightarrow> string \<Rightarrow> string \<Rightarrow> bool \<Rightarrow> int \<Rightarrow> (accounts, account_row) stmt" where
  "stmt_create_user new_id email name pw_hash verified version d =
     (if version > max_int32 then Inl (EText ''is greater than maximum value for int4'')
      else if list_ex (\<lambda>a. equal_fold (acc_email a) email \<or> acc_id a = new_id) (adb_users d) then Inl (EPg ''23505'')
      else let row = \<lparr>acc_id = new_id, acc_email = email, acc_name = name, acc_hash = pw_hash, acc_version = version,
                      acc_verified = verified, acc_updated = adb_now d\<rparr>
           in Inr ([row], d\<lparr>adb_users := adb_users d @ [row]\<rparr>))"

definition stmt_update_name :: "uuid_cast \<Rightarrow> string \<Rightarrow> string \<Rightarrow> (accounts, string) stmt" where
  "stmt_update_name uuid uid name d =
     sum_bind (cast_uuid uuid uid) (\<lambda>u.
       Inr (map acc_id (filter (\<lambda>a. acc_id a = u) (adb_users d)),
            d\<lparr>adb_users := map (\<lambda>a. if acc_id a = u then a\<lparr>acc_name := name, acc_updated := adb_now d\<rparr> else a) (adb_users d)\<rparr>))"

section \<open>The user repository\<close>

record stored_user =
  sto_id :: string
  sto_email :: string
  sto_name :: string
  sto_hash :: string
  sto_version :: "32 word"
  sto_verified :: bool

record create_stored_user_input =
  csu_identifier :: string
  csu_name :: string
  csu_hash :: string
  csu_version :: "32 word"
  csu_verified :: bool

abbreviation "ErrAuthUserNotFound \<equiv> ESent ''auth.ErrAuthUserNotFound''"

definition scan_user :: "account_row \<Rightarrow> err + stored_user" where
  "scan_user a =
     (if acc_version a < 0 then Inl (EText ''is less than minimum value for uint32'')
      else Inr \<lparr>sto_id = acc_id a, sto_email = acc_email a, sto_name = acc_name a, sto_hash = acc_hash a,
                sto_version = word_of_int (acc_version a), sto_verified = acc_verified a\<rparr>)"

definition user_error :: "string \<Rightarrow> err \<Rightarrow> err" where
  "user_error what e = (if err_is ''pgx.ErrNoRows'' e then ErrAuthUserNotFound else EWrap what [e])"

definition statusToVerifiedFlag :: "string \<Rightarrow> bool" where
  "statusToVerifiedFlag status = equal_fold (trim_space status) ''active''"

definition coerceAccountVersion :: "32 word \<Rightarrow> int" where
  "coerceAccountVersion version = (if version = 0 then 1 else uint version)"

type_synonym ('z, 'a) account_eff = "((accounts, 'z) session_scheme, 'a) eff"

definition GetByIdentifier :: "string \<Rightarrow> ('z, stored_user) account_eff" where
  "GetByIdentifier identifier =
     eff_map_err (user_error ''get user by identifier'')
       (RelationalQueryOne (stmt_user_by_identifier (trim_space identifier)) scan_user)"

definition GetByID :: "uuid_cast \<Rightarrow> string \<Rightarrow> ('z, stored_user) account_eff" where
  "GetByID uuid userID =
     eff_map_err (user_error ''get user by id'') (RelationalQueryOne (stmt_user_by_id uuid (trim_space userID)) scan_user)"

definition UpdatePasswordHash :: "uuid_cast \<Rightarrow> string \<Rightarrow> string \<Rightarrow> ('z, unit) account_eff" where
  "UpdatePasswordHash uuid userID newHash =
     eff_map_err (user_error ''update password hash'')
       (RelationalQueryOne (stmt_update_hash uuid (trim_space userID) newHash) (\<lambda>a. Inr ()))"

definition Create :: "string \<Rightarrow> create_stored_user_input \<Rightarrow> ('z, stored_user) account_eff" where
  "Create new_id input =
     eff_map_err (\<lambda>e. EWrap ''create user'' [e])
       (RelationalQueryOne (stmt_create_user new_id (trim_space (csu_identifier input)) (trim_space (csu_name input))
          (csu_hash input) (csu_verified input) (coerceAccountVersion (csu_version input))) scan_user)"

definition UpdateStatus :: "uuid_cast \<Rightarrow> string \<Rightarrow> string \<Rightarrow> ('z, stored_user) account_eff" where
  "UpdateStatus uuid userID status =
     eff_map_err (user_error ''update account status'')
       (RelationalQueryOne (stmt_update_verification uuid (trim_space userID) (statusToVerifiedFlag status)) scan_user)"

section \<open>The provider of the token engine\<close>

datatype account_status = AccountActive | AccountPendingVerification | AccountDisabled | AccountLocked | AccountDeleted
  | OtherStatus nat

record user_record =
  usr_id :: string
  usr_identifier :: string
  usr_hash :: string
  usr_role :: string
  usr_status :: account_status
  usr_version :: "32 word"

record create_user_input =
  cui_identifier :: string
  cui_hash :: string
  cui_version :: "32 word"
  cui_status :: account_status

abbreviation "ErrUserNotFound \<equiv> ESent ''goauth.ErrUserNotFound''"

definition mapUserToRecord :: "stored_user \<Rightarrow> user_record" where
  "mapUserToRecord row =
     \<lparr>usr_id = sto_id row, usr_identifier = sto_email row, usr_hash = sto_hash row, usr_role = ''user'',
      usr_status = (if sto_verified row then AccountActive else AccountPendingVerification), usr_version = sto_version row\<rparr>"

fun mapAccountStatusToString :: "account_status \<Rightarrow> string" where
  "mapAccountStatusToString AccountActive = ''active''"
| "mapAccountStatusToString AccountPendingVerification = ''pending_verification''"
| "mapAccountStatusToString AccountDisabled = ''disabled''"
| "mapAccountStatusToString AccountLocked = ''locked''"
| "mapAccountStatusToString AccountDeleted = ''deleted''"
| "mapAccountStatusToString (OtherStatus n) = ''active''"

text \<open>The error of a call that found no repository, and the error a repository's error becomes.\<close>

definition with_users :: "bool \<Rightarrow> ('s, 'a) eff \<Rightarrow> ('s, 'a) eff" where
  "with_users has_repo m = (if \<not> has_repo then eff_throw ErrUserNotFound else m)"

definition provider_error :: "string \<Rightarrow> err \<Rightarrow> err" where
  "provider_error what e = (if err_is ''auth.ErrAuthUserNotFound'' e then ErrUserNotFound else EWrap what [e])"

definition GetUserByIdentifier :: "bool \<Rightarrow> string \<Rightarrow> ('z, user_record) account_eff" where
  "GetUserByIdentifier has_repo identifier =
     with_users has_repo (eff_bind (eff_map_err (provider_error ''get user by identifier'') (GetByIdentifier identifier))
       (\<lambda>row. eff_ret (mapUserToRecord row)))"

definition GetUserByID :: "bool \<Rightarrow> uuid_cast \<Rightarrow> string \<Rightarrow> ('z, user_record) account_eff" where
  "GetUserByID has_repo uuid userID =
     with_users has_repo (eff_bind (eff_map_err (provider_error ''get user by id'') (GetByID uuid userID))
       (\<lambda>row. eff_ret (mapUserToRecord row)))"

definition provider_UpdatePasswordHash :: "bool \<Rightarrow> uuid_cast \<Rightarrow> string \<Rightarrow> string \<Rightarrow> ('z, unit) account_eff" where
  "provider_UpdatePasswordHash has_repo uuid userID newHash =
     with_users has_repo (eff_map_err (provider_error ''update password hash'') (UpdatePasswordHash uuid userID newHash))"

definition CreateUser :: "bool \<Rightarrow> string \<Rightarrow> create_user_input \<Rightarrow> ('z, user_record) account_eff" where
  "CreateUser has_repo new_id input =
     with_users has_repo (eff_bind (eff_map_err (\<lambda>e. EWrap ''create user'' [e])
         (Create new_id \<lparr>csu_identifier = cui_identifier input, csu_name = trim_space (cui_identifier input),
            csu_hash = cui_hash input, csu_version = cui_version input, csu_verified = (cui_status input = AccountActive)\<rparr>))
       (\<lambda>row. eff_ret (mapUserToRecord row)))"

definition UpdateAccountStatus :: "bool \<Rightarrow> uuid_cast \<Rightarrow> string \<Rightarrow> account_status \<Rightarrow> ('z, user_record) account_eff" where
  "UpdateAccountStatus has_repo uuid userID status =
     with_users has_repo (eff_bind (eff_map_err (provider_error ''update account status'')
         (UpdateStatus uuid userID (mapAccountStatusToString status)))
       (\<lambda>row. eff_ret (mapUserToRecord row)))"

section \<open>The repository of the auth module\<close>

record user_lookup =
  ul_id :: string
  ul_email :: string
  ul_verified :: bool

abbreviation "auth_repository_unavailable \<equiv> app_new CodeDependencyFailure 503 ''auth repository unavailable''"

definition UpdateUserName :: "bool \<Rightarrow> uuid_cast \<Rightarrow> string \<Rightarrow> string \<Rightarrow> ('z, unit) account_eff" where
  "UpdateUserName has_store uuid userID name =
     (if \<not> has_store then eff_throw auth_repository_unavailable
      else eff_map_err (\<lambda>e.
          if err_is ''pgx.ErrNoRows'' e then with_cause (app_new CodeNotFound 404 ''user not found'') e
          else with_cause (app_new CodeInternal 500 ''failed to update user profile'') (EWrap ''update user name'' [e]))
        (RelationalQueryOne (stmt_update_name uuid (trim_space userID) (trim_space name)) (\<lambda>_. Inr ())))"

definition lookup_of :: "account_row \<Rightarrow> user_lookup" where
  "lookup_of a = \<lparr>ul_id = acc_id a, ul_email = acc_email a, ul_verified = acc_verified a\<rparr>"

text \<open>A lookup finds a user, finds none, or fails.\<close>

definition lookup_query :: "bool \<Rightarrow> string \<Rightarrow> (accounts, account_row) stmt \<Rightarrow> ('z, user_lookup option) account_eff" where
  "lookup_query has_store what st =
     (if \<not> has_store then eff_throw auth_repository_unavailable
      else eff_case (RelationalQueryOne st (\<lambda>a. Inr (lookup_of a)))
        (\<lambda>e. if err_is ''pgx.ErrNoRows'' e then eff_ret None
             else eff_throw (with_cause (app_new CodeInternal 500 ''failed to read user status'') (EWrap what [e])))
        (\<lambda>u. eff_ret (Some u)))"

definition auth_normalizeEmail :: "string \<Rightarrow> string" where
  "auth_normalizeEmail v = to_lower (trim_space v)"

definition LookupUserByEmail :: "bool \<Rightarrow> string \<Rightarrow> ('z, user_lookup option) account_eff" where
  "LookupUserByEmail has_store email =
     lookup_query has_store ''lookup user by email'' (stmt_user_by_identifier (auth_normalizeEmail email))"

definition LookupUserByID :: "bool \<Rightarrow> uuid_cast \<Rightarrow> string \<Rightarrow> ('z, user_lookup option) account_eff" where
  "LookupUserByID has_store uuid userID =
     lookup_query has_store ''lookup user by id'' (stmt_user_by_id uuid (trim_space userID))"

end
