(* ===== verification/Auth_Dto.thy ===== *)
theory Auth_Dto
  imports Auth_Users
begin

text \<open>
  The requests and responses of the auth module (\<open>internal/modules/auth/dto.go\<close>) and the checks a request passes
  before its handler runs. The classes of runes are those of the standard library's \<open>unicode\<close>, an argument; so is
  the address parser of \<open>net/mail\<close>.
\<close>

record signup_request =
  sur_name :: string
  sur_email :: string
  sur_password :: string
  sur_confirm :: string

record login_request =
  lor_email :: string
  lor_password :: string
  lor_remember :: bool

record verify_email_request =
  ver_id :: string
  ver_code :: string
  ver_token :: string

record reset_password_request =
  rsr_token :: string
  rsr_challenge :: string
  rsr_code :: string
  rsr_password :: string
  rsr_confirm :: string

record change_password_request =
  chr_challenge :: string
  chr_code :: string
  chr_current :: string
  chr_password :: string
  chr_confirm :: string

record signup_user_response =
  sup_id :: string
  sup_name :: string
  sup_email :: string
  sup_verified :: bool

record auth_token_response =
  atr_access :: string
  atr_refresh :: string
  atr_expires :: int

record status_response =
  sta_status :: string
  sta_message :: string
  sta_verification :: string
  sta_challenge :: string

definition zero_status :: status_response where
  "zero_status = \<lparr>sta_status = [], sta_message = [], sta_verification = [], sta_challenge = []\<rparr>"

section \<open>Checks\<close>

record 'r unicode =
  un_runes :: "string \<Rightarrow> 'r list"
  un_upper :: "'r \<Rightarrow> bool"
  un_lower :: "'r \<Rightarrow> bool"
  un_digit :: "'r \<Rightarrow> bool"
  un_punct :: "'r \<Rightarrow> bool"
  un_symbol :: "'r \<Rightarrow> bool"

definition isNumericCode :: "string \<Rightarrow> bool" where
  "isNumericCode v = list_all (\<lambda>c. CHR ''0'' \<le> c \<and> c \<le> CHR ''9'') v"

definition auth_isValidEmail :: "(string \<Rightarrow> string option) \<Rightarrow> string \<Rightarrow> bool" where
  "auth_isValidEmail parse_address email =
     (let normalized = auth_normalizeEmail email in
      if normalized = [] then False
      else case parse_address normalized of None \<Rightarrow> False | Some a \<Rightarrow> equal_fold a normalized)"

text \<open>The loop over the runes: whether an upper case letter, a lower case letter, a digit and a special rune were seen.\<close>

fun password_classes :: "'r unicode \<Rightarrow> 'r list \<Rightarrow> bool \<times> bool \<times> bool \<times> bool \<Rightarrow> bool \<times> bool \<times> bool \<times> bool" where
  "password_classes un [] seen = seen"
| "password_classes un (ch # rest) (hasUpper, hasLower, hasDigit, hasSpecial) =
     password_classes un rest
       (if un_upper un ch then (True, hasLower, hasDigit, hasSpecial)
        else if un_lower un ch then (hasUpper, True, hasDigit, hasSpecial)
        else if un_digit un ch then (hasUpper, hasLower, True, hasSpecial)
        else if un_punct un ch \<or> un_symbol un ch then (hasUpper, hasLower, hasDigit, True)
        else (hasUpper, hasLower, hasDigit, hasSpecial))"

definition validateStrongPassword :: "'r unicode \<Rightarrow> string \<Rightarrow> err option" where
  "validateStrongPassword un password =
     (if length password < 10 then Some (bad_request ''password must be at least 10 characters'')
      else case password_classes un (un_runes un password) (False, False, False, False) of (u, l, d, s) \<Rightarrow>
        if \<not> u \<or> \<not> l \<or> \<not> d \<or> \<not> s
        then Some (bad_request ''password must include uppercase, lowercase, number, and special character'') else None)"

text \<open>The first refusal of a list of checks.\<close>

fun first_error :: "err option list \<Rightarrow> err option" where
  "first_error [] = None"
| "first_error (Some e # rest) = Some e"
| "first_error (None # rest) = first_error rest"

definition refuse_if :: "bool \<Rightarrow> string \<Rightarrow> err option" where
  "refuse_if c msg = (if c then Some (bad_request msg) else None)"

definition code_checks :: "string \<Rightarrow> err option list" where
  "code_checks code =
     (let c = trim_space code in
      [refuse_if (c = []) ''code is required'', refuse_if (length c \<noteq> 6 \<or> \<not> isNumericCode c) ''code must be a 6-digit otp''])"

definition password_checks :: "'r unicode \<Rightarrow> string \<Rightarrow> string \<Rightarrow> err option list" where
  "password_checks un password confirm =
     [validateStrongPassword un password, refuse_if (password \<noteq> confirm) ''confirmPassword must match password'']"

definition email_check :: "(string \<Rightarrow> string option) \<Rightarrow> string \<Rightarrow> err option" where
  "email_check parse_address email = refuse_if (\<not> auth_isValidEmail parse_address email) ''email must be a valid email address''"

definition signup_validate :: "'r unicode \<Rightarrow> (string \<Rightarrow> string option) \<Rightarrow> signup_request \<Rightarrow> err option" where
  "signup_validate un parse_address r =
     first_error ([refuse_if (length (trim_space (sur_name r)) < 2) ''name must be at least 2 characters'',
        email_check parse_address (sur_email r)] @ password_checks un (sur_password r) (sur_confirm r))"

definition login_validate :: "(string \<Rightarrow> string option) \<Rightarrow> login_request \<Rightarrow> err option" where
  "login_validate parse_address r =
     first_error [email_check parse_address (lor_email r), refuse_if (trim_space (lor_password r) = []) ''password is required'']"

definition verify_validate :: "verify_email_request \<Rightarrow> err option" where
  "verify_validate r =
     (if trim_space (ver_token r) \<noteq> [] then None
      else first_error (refuse_if (trim_space (ver_id r) = []) ''verificationId is required'' # code_checks (ver_code r)))"

definition reset_validate :: "'r unicode \<Rightarrow> reset_password_request \<Rightarrow> err option" where
  "reset_validate un r =
     first_error ((if trim_space (rsr_token r) = []
        then refuse_if (trim_space (rsr_challenge r) = []) ''challengeId is required'' # code_checks (rsr_code r) else [])
      @ password_checks un (rsr_password r) (rsr_confirm r))"

definition change_otp_validate :: "string \<Rightarrow> err option" where
  "change_otp_validate currentPassword = refuse_if (trim_space currentPassword = []) ''currentPassword is required''"

definition change_validate :: "'r unicode \<Rightarrow> change_password_request \<Rightarrow> err option" where
  "change_validate un r =
     first_error (refuse_if (trim_space (chr_challenge r) = []) ''challengeId is required'' # code_checks (chr_code r)
       @ refuse_if (trim_space (chr_current r) = []) ''currentPassword is required'' # password_checks un (chr_password r) (chr_confirm r))"

definition refresh_validate :: "string \<Rightarrow> err option" where
  "refresh_validate refreshToken = refuse_if (trim_space refreshToken = []) ''refresh_token is required''"

section \<open>What the checks accept\<close>

lemma password_classes_seen:
  "password_classes un rs (u, l, d, s) =
     (u \<or> (\<exists>r \<in> set rs. un_upper un r), l \<or> (\<exists>r \<in> set rs. un_lower un r \<and> \<not> un_upper un r),
      d \<or> (\<exists>r \<in> set rs. un_digit un r \<and> \<not> un_upper un r \<and> \<not> un_lower un r),
      s \<or> (\<exists>r \<in> set rs. (un_punct un r \<or> un_symbol un r) \<and> \<not> un_upper un r \<and> \<not> un_lower un r \<and> \<not> un_digit un r))"
  by (induction rs arbitrary: u l d s) auto

definition strong_password :: "'r unicode \<Rightarrow> string \<Rightarrow> bool" where
  "strong_password un p \<longleftrightarrow> 10 \<le> length p \<and> (\<exists>r \<in> set (un_runes un p). un_upper un r)
     \<and> (\<exists>r \<in> set (un_runes un p). un_lower un r \<and> \<not> un_upper un r)
     \<and> (\<exists>r \<in> set (un_runes un p). un_digit un r \<and> \<not> un_upper un r \<and> \<not> un_lower un r)
     \<and> (\<exists>r \<in> set (un_runes un p). (un_punct un r \<or> un_symbol un r) \<and> \<not> un_upper un r \<and> \<not> un_lower un r \<and> \<not> un_digit un r)"

lemma validateStrongPassword_iff: "validateStrongPassword un p = None \<longleftrightarrow> strong_password un p"
  by (auto simp: validateStrongPassword_def password_classes_seen strong_password_def)

lemma first_error_all [simp]: "first_error cs = None \<longleftrightarrow> list_all (\<lambda>c. c = None) cs"
  by (induction cs rule: first_error.induct) auto

lemma refuse_if_None [simp]: "refuse_if c msg = None \<longleftrightarrow> \<not> c"
  by (simp add: refuse_if_def)

definition otp_code :: "string \<Rightarrow> bool" where
  "otp_code c \<longleftrightarrow> length (trim_space c) = 6 \<and> isNumericCode (trim_space c)"

lemma code_checks_None: "list_all (\<lambda>c. c = None) (code_checks code) \<longleftrightarrow> otp_code code"
  by (auto simp: code_checks_def otp_code_def Let_def)

text \<open>The reset and change of a password are accepted exactly when the new password is strong and confirmed, and
  the request carries a challenge with a six-digit code (a reset may carry a token instead, a change must carry the
  current password).\<close>

theorem password_requests_accepted:
  "(reset_validate un r = None \<longleftrightarrow>
      (if trim_space (rsr_token r) = [] then trim_space (rsr_challenge r) \<noteq> [] \<and> otp_code (rsr_code r) else True)
      \<and> strong_password un (rsr_password r) \<and> rsr_confirm r = rsr_password r)
   \<and> (change_validate un c = None \<longleftrightarrow> trim_space (chr_challenge c) \<noteq> [] \<and> otp_code (chr_code c)
      \<and> trim_space (chr_current c) \<noteq> [] \<and> strong_password un (chr_password c) \<and> chr_confirm c = chr_password c)"
  by (auto simp: reset_validate_def change_validate_def password_checks_def validateStrongPassword_iff code_checks_None)

end
