(* ===== verification/Auth_Service.thy ===== *)
theory Auth_Service
  imports Auth_Dto
begin

text \<open>
  The service of the auth module (\<open>internal/modules/auth/service.go\<close>). The token engine, a library, is a record of
  the operations the service calls; so are the mail sender, the URL functions and the JWT parser. The engine's
  sentinel errors go by their names, and its typed error by the category the service asks for.
\<close>

section \<open>Collaborators\<close>

record 's engine =
  eg_create :: "string \<Rightarrow> string \<Rightarrow> ('s, string) eff"
  eg_login_with :: "string \<Rightarrow> string \<Rightarrow> bool \<Rightarrow> ('s, string \<times> string) eff"
  eg_login :: "string \<Rightarrow> string \<Rightarrow> ('s, string \<times> string) eff"
  eg_refresh :: "string \<Rightarrow> ('s, string \<times> string) eff"
  eg_logout_token :: "string \<Rightarrow> ('s, unit) eff"
  eg_logout_all :: "string \<Rightarrow> ('s, unit) eff"
  eg_confirm_email :: "string \<Rightarrow> ('s, unit) eff"
  eg_confirm_code :: "string \<Rightarrow> string \<Rightarrow> ('s, unit) eff"
  eg_request_email :: "string \<Rightarrow> ('s, string) eff"
  eg_request_reset :: "string \<Rightarrow> ('s, string) eff"
  eg_confirm_reset :: "string \<Rightarrow> string \<Rightarrow> ('s, unit) eff"

text \<open>\<open>authErr.Category\<close>; a system error is internal or not by its code.\<close>

datatype auth_category = AuthAbuse | AuthState | AuthSystem bool | OtherCategory

text \<open>The \<open>exp\<close> claim of a parsed token: the dynamic type of its value.\<close>

datatype exp_claim = ExpMissing | ExpInteger int | ExpNumber "err + int" | ExpOther

record mail =
  ml_to :: string
  ml_subject :: string
  ml_html :: string
  ml_body :: string
  ml_flow :: string

record 's auth_env =
  ax_engine :: "'s engine option"
  ax_sender :: "(mail \<Rightarrow> ('s, unit) eff) option"
  ax_base :: string
  ax_url :: "string \<Rightarrow> (string \<Rightarrow> (string \<times> string) list \<Rightarrow> string) option"
  ax_jwt :: "string \<Rightarrow> err + exp_claim"
  ax_category :: "err \<Rightarrow> auth_category option"
  ax_repo :: bool
  ax_store :: bool
  ax_uuid :: uuid_cast

section \<open>Errors\<close>

definition caused :: "string \<Rightarrow> int \<Rightarrow> string \<Rightarrow> err \<Rightarrow> err" where
  "caused code st msg e = with_cause (app_new code st msg) e"

definition caused_with :: "string \<Rightarrow> int \<Rightarrow> string \<Rightarrow> amap \<Rightarrow> err \<Rightarrow> err" where
  "caused_with code st msg details e = with_cause (with_details (app_new code st msg) (AMap details)) e"

text \<open>The details of an unverified account: \<open>reason\<close> and what the caller adds.\<close>

definition unverified_details :: "amap \<Rightarrow> amap" where
  "unverified_details over =
     foldl (\<lambda>m (key, v). let k = trim_space key in
         if k = [] \<or> v = ANil then m else (k, v) # filter (\<lambda>(k', _). k' \<noteq> k) m)
       [(''reason'', AStr ''email_unverified'')] over"

definition mapAuthTokenError :: "(err \<Rightarrow> auth_category option) \<Rightarrow> err \<Rightarrow> string \<Rightarrow> amap \<Rightarrow> err" where
  "mapAuthTokenError category e invalidMessage over =
     (if err_is ''goauth.ErrAccountUnverified'' e
      then caused_with CodeForbidden 403 ''email verification required'' (unverified_details over) e
      else case category e of
        Some AuthAbuse \<Rightarrow> caused CodeTooManyRequests 429 ''authentication temporarily limited'' e
      | Some AuthState \<Rightarrow> caused CodeForbidden 403 ''authentication state rejected'' e
      | Some (AuthSystem internal) \<Rightarrow>
          if internal then caused CodeInternal 500 ''authentication failed'' e
          else caused CodeDependencyFailure 503 ''authentication unavailable'' e
      | Some OtherCategory \<Rightarrow> caused CodeUnauthorized 401 invalidMessage e
      | None \<Rightarrow>
          if err_is ''goauth.ErrLoginRateLimited'' e then caused CodeTooManyRequests 429 ''authentication temporarily limited'' e
          else caused CodeUnauthorized 401 invalidMessage e)"

definition mapSignupError :: "(err \<Rightarrow> auth_category option) \<Rightarrow> err \<Rightarrow> err" where
  "mapSignupError category e =
     (if err_is ''goauth.ErrAccountExists'' e \<or> err_is ''goauth.ErrProviderDuplicateIdentifier'' e
      then caused CodeConflict 409 ''email already registered'' e
      else if err_is ''goauth.ErrAccountCreationRateLimited'' e then caused CodeTooManyRequests 429 ''signup temporarily limited'' e
      else if err_is ''goauth.ErrAccountCreationUnavailable'' e then caused CodeDependencyFailure 503 ''signup unavailable'' e
      else if err_is ''goauth.ErrAccountCreationDisabled'' e then caused CodeForbidden 403 ''signup disabled'' e
      else if err_is ''goauth.ErrAccountCreationInvalid'' e \<or> err_is ''goauth.ErrPasswordPolicy'' e
          \<or> err_is ''goauth.ErrAccountRoleInvalid'' e
      then caused CodeBadRequest 400 ''invalid signup request'' e
      else mapAuthTokenError category e ''signup failed'' [])"

definition mapLogoutError :: "(err \<Rightarrow> auth_category option) \<Rightarrow> err \<Rightarrow> err" where
  "mapLogoutError category e =
     (if err_is ''goauth.ErrTokenInvalid'' e \<or> err_is ''goauth.ErrUnauthorized'' e \<or> err_is ''goauth.ErrSessionNotFound'' e
      then caused CodeUnauthorized 401 ''authentication required'' e
      else mapAuthTokenError category e ''logout failed'' [])"

definition mapVerifyEmailError :: "(err \<Rightarrow> auth_category option) \<Rightarrow> err \<Rightarrow> err" where
  "mapVerifyEmailError category e =
     (if err_is ''goauth.ErrEmailVerificationInvalid'' e then caused CodeBadRequest 400 ''verification token is invalid'' e
      else if err_is ''goauth.ErrEmailVerificationAttempts'' e then caused CodeTooManyRequests 429 ''verification temporarily limited'' e
      else if err_is ''goauth.ErrEmailVerificationRateLimited'' e then caused CodeTooManyRequests 429 ''verification temporarily limited'' e
      else if err_is ''goauth.ErrEmailVerificationDisabled'' e then caused CodeForbidden 403 ''email verification is disabled'' e
      else if err_is ''goauth.ErrEmailVerificationUnavailable'' e then caused CodeDependencyFailure 503 ''email verification unavailable'' e
      else mapAuthTokenError category e ''verification failed'' [])"

definition mapResendVerificationError :: "(err \<Rightarrow> auth_category option) \<Rightarrow> err \<Rightarrow> err" where
  "mapResendVerificationError category e =
     (if err_is ''goauth.ErrEmailVerificationAttempts'' e \<or> err_is ''goauth.ErrEmailVerificationRateLimited'' e
      then caused CodeTooManyRequests 429 ''verification temporarily limited'' e
      else if err_is ''goauth.ErrEmailVerificationDisabled'' e then caused CodeForbidden 403 ''email verification is disabled'' e
      else if err_is ''goauth.ErrEmailVerificationUnavailable'' e then caused CodeDependencyFailure 503 ''email verification unavailable'' e
      else mapVerifyEmailError category e)"

definition mapEmailDeliveryError :: "err \<Rightarrow> err" where
  "mapEmailDeliveryError e =
     (if err_is ''email.ErrRateLimited'' e then caused CodeTooManyRequests 429 ''email delivery temporarily limited'' e
      else if err_is ''email.ErrInvalidRecipient'' e then caused CodeBadRequest 400 ''email address is invalid'' e
      else if err_is ''email.ErrSenderIdentityRejected'' e
      then caused_with CodeDependencyFailure 503 ''email delivery unavailable'' [(''reason'', AStr ''sender_identity_unverified'')] e
      else caused CodeDependencyFailure 503 ''email delivery unavailable'' e)"

definition mapForgotPasswordError :: "(err \<Rightarrow> auth_category option) \<Rightarrow> err \<Rightarrow> err" where
  "mapForgotPasswordError category e =
     (if err_is ''goauth.ErrPasswordResetRateLimited'' e then caused CodeTooManyRequests 429 ''password reset temporarily limited'' e
      else if err_is ''goauth.ErrPasswordResetDisabled'' e then caused CodeForbidden 403 ''password reset is disabled'' e
      else if err_is ''goauth.ErrPasswordResetUnavailable'' e then caused CodeDependencyFailure 503 ''password reset unavailable'' e
      else mapAuthTokenError category e ''password reset request failed'' [])"

definition mapResetPasswordError :: "(err \<Rightarrow> auth_category option) \<Rightarrow> err \<Rightarrow> err" where
  "mapResetPasswordError category e =
     (if err_is ''goauth.ErrPasswordResetInvalid'' e then caused CodeBadRequest 400 ''reset challenge is invalid'' e
      else if err_is ''goauth.ErrPasswordPolicy'' e \<or> err_is ''goauth.ErrPasswordReuse'' e
      then caused CodeBadRequest 400 ''password does not satisfy policy'' e
      else if err_is ''goauth.ErrPasswordResetAttempts'' e \<or> err_is ''goauth.ErrPasswordResetRateLimited'' e
      then caused CodeTooManyRequests 429 ''password reset temporarily limited'' e
      else if err_is ''goauth.ErrPasswordResetUnavailable'' e then caused CodeDependencyFailure 503 ''password reset unavailable'' e
      else mapAuthTokenError category e ''password reset failed'' [])"

section \<open>Challenges, links and tokens\<close>

text \<open>\<open>strings.SplitN(s, sep, n)\<close> for a separator of one byte and a positive \<open>n\<close>.\<close>

fun split_n :: "nat \<Rightarrow> char \<Rightarrow> string \<Rightarrow> string list" where
  "split_n (Suc (Suc n)) c s =
     (if c \<in> set s then takeWhile (\<lambda>x. x \<noteq> c) s # split_n (Suc n) c (tl (dropWhile (\<lambda>x. x \<noteq> c) s)) else [s])"
| "split_n n c s = [s]"

definition splitVerificationChallenge :: "string \<Rightarrow> err + (string \<times> string)" where
  "splitVerificationChallenge challenge =
     (case split_n 3 (CHR '':'') (trim_space challenge) of
        [_, p1, p2] \<Rightarrow>
          let verificationID = trim_space p1; code = trim_space p2 in
          if verificationID = [] \<or> code = [] then Inl (EText ''verification challenge missing fields'') else Inr (verificationID, code)
      | _ \<Rightarrow> Inl (EText ''invalid verification challenge format''))"

definition splitPasswordResetOTPChallenge :: "string \<Rightarrow> err + (string \<times> string)" where
  "splitPasswordResetOTPChallenge challenge =
     (case split_n 2 (CHR ''.'') (trim_space challenge) of
        [p0, p1] \<Rightarrow>
          let challengeID = trim_space p0; code = trim_space p1 in
          if challengeID = [] \<or> code = [] then Inl (EText ''password reset challenge missing fields'')
          else if \<not> isNumericCode code then Inl (EText ''password reset code has invalid format'') else Inr (challengeID, code)
      | _ \<Rightarrow> Inl (EText ''invalid password reset challenge format''))"

definition joinPasswordResetOTPChallenge :: "string \<Rightarrow> string \<Rightarrow> string" where
  "joinPasswordResetOTPChallenge challengeID code = trim_space challengeID @ ''.'' @ trim_space code"

text \<open>\<open>url\<close> is \<open>url.Parse\<close>: for a base it accepts, the resolved path with a query set from a list.\<close>

definition buildWebAppLink ::
  "(string \<Rightarrow> (string \<Rightarrow> (string \<times> string) list \<Rightarrow> string) option) \<Rightarrow> string \<Rightarrow> string \<Rightarrow> (string \<times> string) list \<Rightarrow> string" where
  "buildWebAppLink url base_url routePath queryValues =
     (let base = (if trim_space base_url = [] then ''http://localhost:5173'' else trim_space base_url) in
      case url base of None \<Rightarrow> base
      | Some resolve \<Rightarrow>
          let p = (if trim_space routePath = [] then ''/'' else trim_space routePath);
              p' = (if prefix ''/'' p then p else ''/'' @ p)
          in resolve p' (map (\<lambda>(k, v). (trim_space k, trim_space v)) (filter (\<lambda>(k, v). trim_space v \<noteq> []) queryValues)))"

definition parseJWTExpiryUnix :: "(string \<Rightarrow> err + exp_claim) \<Rightarrow> string \<Rightarrow> err + int" where
  "parseJWTExpiryUnix jwt accessToken =
     (case jwt accessToken of Inl e \<Rightarrow> Inl e
      | Inr ExpMissing \<Rightarrow> Inl (EText ''jwt exp claim missing'')
      | Inr (ExpInteger n) \<Rightarrow> Inr n
      | Inr (ExpNumber r) \<Rightarrow> r
      | Inr ExpOther \<Rightarrow> Inl (EText ''jwt exp claim has invalid type''))"

definition buildAuthTokenResponse :: "(string \<Rightarrow> err + exp_claim) \<Rightarrow> string \<times> string \<Rightarrow> err + auth_token_response" where
  "buildAuthTokenResponse jwt tokens =
     (case parseJWTExpiryUnix jwt (fst tokens) of
        Inl e \<Rightarrow> Inl (caused CodeInternal 500 ''invalid access token payload'' e)
      | Inr n \<Rightarrow> Inr \<lparr>atr_access = fst tokens, atr_refresh = snd tokens, atr_expires = n\<rparr>)"

section \<open>Mails\<close>

definition html_char :: "char \<Rightarrow> string" where
  "html_char c =
     (if c = CHR ''&'' then ''&amp;'' else if c = CHR 0x27 then ''&#39;'' else if c = CHR ''<'' then ''&lt;''
      else if c = CHR ''>'' then ''&gt;'' else if c = CHR 0x22 then ''&#34;'' else [c])"

definition EscapeString :: "string \<Rightarrow> string" where
  "EscapeString s = concat (map html_char s)"

definition nl2 :: string where "nl2 = [CHR 0x0A, CHR 0x0A]"

text \<open>The three mails with a code differ in what the code is for and what to do with the link.\<close>

definition code_text :: "string \<Rightarrow> string \<Rightarrow> string \<Rightarrow> string \<Rightarrow> string" where
  "code_text purpose instruction code link =
     trim_space (''Your ProjectBook '' @ purpose @ '' code is: '' @ code @ nl2
       @ ''This OTP expires in 15 minutes and can only be used once.'' @ nl2 @ instruction @ '':'' @ [CHR 0x0A] @ link)"

definition code_html :: "string \<Rightarrow> string \<Rightarrow> string \<Rightarrow> string \<Rightarrow> string" where
  "code_html purpose instruction code link =
     (let q = [CHR 0x22]; escapedCode = EscapeString (trim_space code); escapedLink = EscapeString (trim_space link) in
      trim_space (''<p>Your ProjectBook '' @ purpose @ '' code is:</p><p style='' @ q
        @ ''font-size:24px;font-weight:700;letter-spacing:0.2em;'' @ q @ ''>'' @ escapedCode
        @ ''</p><p>This OTP expires in 15 minutes and can only be used once.</p><p>'' @ instruction @ '':</p><p><a href='' @ q
        @ escapedLink @ q @ ''>'' @ escapedLink @ ''</a></p>''))"

definition verifyInstruction :: string where
  "verifyInstruction = ''After signing in, open this verification page and enter the code''"

definition buildVerificationEmailText :: "string \<Rightarrow> string \<Rightarrow> string" where
  "buildVerificationEmailText = code_text ''verification'' verifyInstruction"

definition buildVerificationEmailHTML :: "string \<Rightarrow> string \<Rightarrow> string" where
  "buildVerificationEmailHTML = code_html ''verification'' verifyInstruction"

definition buildPasswordResetEmailText :: "string \<Rightarrow> string \<Rightarrow> string" where
  "buildPasswordResetEmailText = code_text ''password reset'' ''Open the reset page and enter the code''"

definition buildPasswordResetEmailHTML :: "string \<Rightarrow> string \<Rightarrow> string" where
  "buildPasswordResetEmailHTML = code_html ''password reset'' ''Open the reset page and enter the code''"

definition buildPasswordChangeEmailText :: "string \<Rightarrow> string \<Rightarrow> string" where
  "buildPasswordChangeEmailText = code_text ''password change'' ''Open your account settings and enter the code''"

definition buildPasswordChangeEmailHTML :: "string \<Rightarrow> string \<Rightarrow> string" where
  "buildPasswordChangeEmailHTML = code_html ''password change'' ''Open your account settings and enter the code''"

definition NormalizeRecipient :: "string \<Rightarrow> string" where
  "NormalizeRecipient v = to_lower (trim_space v)"

definition send_mail :: "('s, 'z) auth_env_scheme \<Rightarrow> mail \<Rightarrow> ('s, unit) eff" where
  "send_mail env m = (case ax_sender env of None \<Rightarrow> eff_throw (ESent ''email.ErrSenderUnavailable'') | Some send \<Rightarrow> send m)"

definition app_link :: "('s, 'z) auth_env_scheme \<Rightarrow> string \<Rightarrow> (string \<times> string) list \<Rightarrow> string" where
  "app_link env routePath queryValues = buildWebAppLink (ax_url env) (trim_space (ax_base env)) routePath queryValues"

definition sendVerificationEmail :: "('s, 'z) auth_env_scheme \<Rightarrow> string \<Rightarrow> string \<Rightarrow> string \<Rightarrow> ('s, unit) eff" where
  "sendVerificationEmail env recipient verificationID code =
     (let link = app_link env ''/auth/verify'' [(''verificationId'', verificationID), (''email'', auth_normalizeEmail recipient)] in
      send_mail env \<lparr>ml_to = NormalizeRecipient recipient, ml_subject = ''Verify your ProjectBook account'',
        ml_html = buildVerificationEmailHTML code link, ml_body = buildVerificationEmailText code link, ml_flow = ''verification''\<rparr>)"

definition sendPasswordResetEmail :: "('s, 'z) auth_env_scheme \<Rightarrow> string \<Rightarrow> string \<Rightarrow> string \<Rightarrow> ('s, unit) eff" where
  "sendPasswordResetEmail env recipient challengeID code =
     (let link = app_link env ''/auth/reset-password'' [(''challengeId'', challengeID), (''email'', auth_normalizeEmail recipient)] in
      send_mail env \<lparr>ml_to = NormalizeRecipient recipient, ml_subject = ''Reset your ProjectBook password'',
        ml_html = buildPasswordResetEmailHTML code link, ml_body = buildPasswordResetEmailText code link, ml_flow = ''password_reset''\<rparr>)"

definition sendPasswordChangeOTPEmail :: "('s, 'z) auth_env_scheme \<Rightarrow> string \<Rightarrow> string \<Rightarrow> string \<Rightarrow> ('s, unit) eff" where
  "sendPasswordChangeOTPEmail env recipient challengeID code =
     (let link = app_link env ''/account'' [(''challengeId'', challengeID)] in
      send_mail env \<lparr>ml_to = NormalizeRecipient recipient, ml_subject = ''Confirm your ProjectBook password change'',
        ml_html = buildPasswordChangeEmailHTML code link, ml_body = buildPasswordChangeEmailText code link, ml_flow = ''password_change''\<rparr>)"

definition sendPasswordChangedNoticeEmail :: "('s, 'z) auth_env_scheme \<Rightarrow> string \<Rightarrow> ('s, unit) eff" where
  "sendPasswordChangedNoticeEmail env recipient =
     (let link = app_link env ''/account'' []; q = [CHR 0x22] in
      send_mail env \<lparr>ml_to = NormalizeRecipient recipient, ml_subject = ''Your ProjectBook password was changed'',
        ml_html = trim_space (''<p>Your ProjectBook password has been changed.</p><p>If this was not you, reset your password immediately and contact support.</p><p>Manage account security: <a href='' @ q @ EscapeString link @ q @ ''>'' @ EscapeString link @ ''</a></p>''),
        ml_body = trim_space (''Your ProjectBook password has been changed. If this was not you, reset your password immediately and contact support.'' @ nl2 @ ''Manage account security: '' @ link),
        ml_flow = ''password_change''\<rparr>)"

section \<open>The workflows\<close>

type_synonym 'z auth_state = "(accounts, 'z) session_scheme"

definition authEngine :: "('s, 'y) auth_env_scheme \<Rightarrow> ('s engine \<Rightarrow> ('s, 'a) eff) \<Rightarrow> ('s, 'a) eff" where
  "authEngine env k =
     (case ax_engine env of None \<Rightarrow> eff_throw (app_new CodeDependencyFailure 503 ''auth engine unavailable'') | Some eg \<Rightarrow> k eg)"

definition need_repo :: "('s, 'y) auth_env_scheme \<Rightarrow> ('s, 'a) eff \<Rightarrow> ('s, 'a) eff" where
  "need_repo env m = (if \<not> ax_repo env then eff_throw auth_repository_unavailable else m)"

definition verification_unavailable :: "err \<Rightarrow> err" where
  "verification_unavailable e = caused CodeDependencyFailure 503 ''email verification unavailable'' e"

definition reset_unavailable :: "err \<Rightarrow> err" where
  "reset_unavailable e = caused CodeDependencyFailure 503 ''password reset unavailable'' e"

definition issueAndSendVerification :: "('s, 'y) auth_env_scheme \<Rightarrow> string \<Rightarrow> ('s, string) eff" where
  "issueAndSendVerification env email =
     authEngine env (\<lambda>eg.
     eff_bind (eff_map_err (mapResendVerificationError (ax_category env)) (eg_request_email eg email)) (\<lambda>challenge.
     eff_bind (eff_map_err verification_unavailable (eff_lift (splitVerificationChallenge challenge))) (\<lambda>(verificationID, code).
     eff_bind (eff_map_err mapEmailDeliveryError (sendVerificationEmail env email verificationID code)) (\<lambda>_.
     eff_ret verificationID))))"

definition verifyCurrentPassword :: "('s, 'y) auth_env_scheme \<Rightarrow> string \<Rightarrow> string \<Rightarrow> ('s, unit) eff" where
  "verifyCurrentPassword env email currentPassword =
     authEngine env (\<lambda>eg.
     eff_bind (eff_map_err (\<lambda>e. mapAuthTokenError (ax_category env) e ''current password is incorrect'' [])
         (eg_login eg (auth_normalizeEmail email) (trim_space currentPassword))) (\<lambda>(accessToken, _).
       if trim_space accessToken \<noteq> [] then eff_ignore (eg_logout_token eg accessToken) else eff_ret ()))"

definition Signup :: "('z auth_state, 'y) auth_env_scheme \<Rightarrow> signup_request \<Rightarrow> ('z auth_state, signup_user_response) eff" where
  "Signup env req =
     authEngine env (\<lambda>eg.
     eff_bind (eff_map_err (mapSignupError (ax_category env)) (eg_create eg (auth_normalizeEmail (sur_email req)) (sur_password req))) (\<lambda>userID.
     eff_bind (if ax_repo env then UpdateUserName (ax_store env) (ax_uuid env) userID (trim_space (sur_name req)) else eff_ret ()) (\<lambda>_.
     eff_bind (eff_ignore (issueAndSendVerification env (auth_normalizeEmail (sur_email req)))) (\<lambda>_.
     eff_ret \<lparr>sup_id = userID, sup_name = trim_space (sur_name req), sup_email = auth_normalizeEmail (sur_email req),
              sup_verified = False\<rparr>))))"

text \<open>A login refused for a missing verification issues a new challenge and tells its outcome in the details.\<close>

definition unverified_login :: "('s, 'y) auth_env_scheme \<Rightarrow> err \<Rightarrow> string \<Rightarrow> ('s, auth_token_response) eff" where
  "unverified_login env e email =
     eff_case (issueAndSendVerification env email)
       (\<lambda>_. eff_throw (mapAuthTokenError (ax_category env) e ''invalid credentials'' [(''verificationFlowStatus'', AStr ''unavailable'')]))
       (\<lambda>verificationID. eff_throw (mapAuthTokenError (ax_category env) e ''invalid credentials''
          (if verificationID \<noteq> [] then [(''verificationId'', AStr verificationID)] else [])))"

definition Login :: "('s, 'y) auth_env_scheme \<Rightarrow> login_request \<Rightarrow> ('s, auth_token_response) eff" where
  "Login env req =
     authEngine env (\<lambda>eg.
     eff_case (eg_login_with eg (auth_normalizeEmail (lor_email req)) (lor_password req) (lor_remember req))
       (\<lambda>e. if err_is ''goauth.ErrAccountUnverified'' e then unverified_login env e (auth_normalizeEmail (lor_email req))
            else eff_throw (mapAuthTokenError (ax_category env) e ''invalid credentials'' []))
       (\<lambda>tokens. eff_lift (buildAuthTokenResponse (ax_jwt env) tokens)))"

definition Refresh :: "('s, 'y) auth_env_scheme \<Rightarrow> string \<Rightarrow> ('s, auth_token_response) eff" where
  "Refresh env refreshToken =
     authEngine env (\<lambda>eg.
     eff_bind (eff_map_err (\<lambda>e. mapAuthTokenError (ax_category env) e ''invalid refresh token'' []) (eg_refresh eg (trim_space refreshToken)))
       (\<lambda>tokens. eff_lift (buildAuthTokenResponse (ax_jwt env) tokens)))"

abbreviation "authentication_required \<equiv> app_new CodeUnauthorized 401 ''authentication required''"

definition Logout :: "('s, 'y) auth_env_scheme \<Rightarrow> string \<Rightarrow> ('s, unit) eff" where
  "Logout env accessToken =
     authEngine env (\<lambda>eg.
       if trim_space accessToken = [] then eff_throw authentication_required
       else eff_map_err (mapLogoutError (ax_category env)) (eg_logout_token eg accessToken))"

definition VerifyEmail :: "('s, 'y) auth_env_scheme \<Rightarrow> verify_email_request \<Rightarrow> ('s, status_response) eff" where
  "VerifyEmail env req =
     authEngine env (\<lambda>eg.
     eff_bind (eff_map_err (mapVerifyEmailError (ax_category env))
         (if trim_space (ver_token req) \<noteq> [] then eg_confirm_email eg (trim_space (ver_token req))
          else eg_confirm_code eg (trim_space (ver_id req)) (trim_space (ver_code req))))
       (\<lambda>_. eff_ret (zero_status\<lparr>sta_status := ''success''\<rparr>)))"

definition ResendVerification :: "('z auth_state, 'y) auth_env_scheme \<Rightarrow> string \<Rightarrow> ('z auth_state, status_response) eff" where
  "ResendVerification env email =
     need_repo env (authEngine env (\<lambda>eg. let normalized = auth_normalizeEmail email in
     eff_bind (LookupUserByEmail (ax_store env) normalized) (\<lambda>user.
     eff_case (eg_request_email eg normalized)
       (\<lambda>e. if err_is ''goauth.ErrUserNotFound'' e then eff_ret (zero_status\<lparr>sta_status := ''sent''\<rparr>)
            else eff_throw (mapResendVerificationError (ax_category env) e))
       (\<lambda>challenge.
     eff_bind (eff_map_err verification_unavailable (eff_lift (splitVerificationChallenge challenge))) (\<lambda>(verificationID, code).
       if (case user of None \<Rightarrow> True | Some u \<Rightarrow> ul_verified u) then eff_ret (zero_status\<lparr>sta_status := ''sent''\<rparr>)
       else eff_bind (eff_map_err mapEmailDeliveryError (sendVerificationEmail env normalized verificationID code))
         (\<lambda>_. eff_ret (zero_status\<lparr>sta_status := ''sent'', sta_verification := verificationID\<rparr>)))))))"

definition forgotMessage :: string where
  "forgotMessage = ''If an account exists for this email, a reset code has been sent.''"

definition ForgotPassword :: "('z auth_state, 'y) auth_env_scheme \<Rightarrow> string \<Rightarrow> ('z auth_state, status_response) eff" where
  "ForgotPassword env email =
     need_repo env (authEngine env (\<lambda>eg. let normalized = auth_normalizeEmail email in
     eff_bind (LookupUserByEmail (ax_store env) normalized) (\<lambda>user.
     eff_bind (eff_map_err (mapForgotPasswordError (ax_category env)) (eg_request_reset eg normalized)) (\<lambda>challenge.
     eff_bind (eff_map_err reset_unavailable (eff_lift (splitPasswordResetOTPChallenge challenge))) (\<lambda>(challengeID, code).
     eff_bind (if user \<noteq> None then eff_map_err mapEmailDeliveryError (sendPasswordResetEmail env normalized challengeID code) else eff_ret ())
       (\<lambda>_. eff_ret (zero_status\<lparr>sta_status := ''sent'', sta_challenge := challengeID, sta_message := forgotMessage\<rparr>)))))))"

definition ResetPassword :: "('s, 'y) auth_env_scheme \<Rightarrow> reset_password_request \<Rightarrow> ('s, status_response) eff" where
  "ResetPassword env req =
     authEngine env (\<lambda>eg.
     let challenge = (if trim_space (rsr_token req) = [] then joinPasswordResetOTPChallenge (rsr_challenge req) (rsr_code req)
                      else trim_space (rsr_token req)) in
     eff_bind (eff_map_err (mapResetPasswordError (ax_category env)) (eg_confirm_reset eg challenge (rsr_password req)))
       (\<lambda>_. eff_ret (zero_status\<lparr>sta_message := ''Password has been reset successfully.''\<rparr>)))"

text \<open>The user behind an authenticated request.\<close>

definition current_user :: "('z auth_state, 'y) auth_env_scheme \<Rightarrow> string \<Rightarrow> ('z auth_state, user_lookup) eff" where
  "current_user env userID =
     eff_bind (LookupUserByID (ax_store env) (ax_uuid env) (trim_space userID)) (\<lambda>user.
       case user of None \<Rightarrow> eff_throw authentication_required | Some u \<Rightarrow> eff_ret u)"

definition RequestChangePasswordOTP ::
  "('z auth_state, 'y) auth_env_scheme \<Rightarrow> string \<Rightarrow> string \<Rightarrow> ('z auth_state, status_response) eff" where
  "RequestChangePasswordOTP env userID currentPassword =
     need_repo env (authEngine env (\<lambda>eg.
     eff_bind (current_user env userID) (\<lambda>user.
     eff_bind (verifyCurrentPassword env (ul_email user) currentPassword) (\<lambda>_.
     eff_bind (eff_map_err (mapForgotPasswordError (ax_category env)) (eg_request_reset eg (auth_normalizeEmail (ul_email user)))) (\<lambda>challenge.
     eff_bind (eff_map_err reset_unavailable (eff_lift (splitPasswordResetOTPChallenge challenge))) (\<lambda>(challengeID, code).
     eff_bind (eff_map_err mapEmailDeliveryError (sendPasswordChangeOTPEmail env (auth_normalizeEmail (ul_email user)) challengeID code))
       (\<lambda>_. eff_ret (zero_status\<lparr>sta_status := ''sent'', sta_challenge := challengeID\<rparr>))))))))"

definition ConfirmChangePassword ::
  "('z auth_state, 'y) auth_env_scheme \<Rightarrow> string \<Rightarrow> change_password_request \<Rightarrow> ('z auth_state, status_response) eff" where
  "ConfirmChangePassword env userID req =
     need_repo env (authEngine env (\<lambda>eg.
     eff_bind (current_user env userID) (\<lambda>user.
     eff_bind (verifyCurrentPassword env (ul_email user) (chr_current req)) (\<lambda>_.
     eff_bind (eff_map_err (mapResetPasswordError (ax_category env))
         (eg_confirm_reset eg (joinPasswordResetOTPChallenge (chr_challenge req) (chr_code req)) (chr_password req))) (\<lambda>_.
     eff_bind (eff_ignore (eg_logout_all eg (trim_space (ul_id user)))) (\<lambda>_.
     eff_bind (eff_ignore (sendPasswordChangedNoticeEmail env (auth_normalizeEmail (ul_email user))))
       (\<lambda>_. eff_ret (zero_status\<lparr>sta_message := ''Password changed successfully.''\<rparr>))))))))"

end
