(* ===== verification/Account_Laws.thy ===== *)
theory Account_Laws
  imports Auth_Users
begin

text \<open>
  What the accounts go through: any sequence of calls of the provider and of the auth repository, by any sessions, with
  the database failing at any request. Accounts are never lost and keep their identity, and the version of an
  account counts every change of its password or of its verification.
\<close>

definition accounts_ok :: "accounts \<Rightarrow> bool" where
  "accounts_ok d \<longleftrightarrow> distinct (map acc_id (adb_users d)) \<and> distinct (map (to_lower \<circ> acc_email) (adb_users d))
     \<and> (\<forall>a \<in> set (adb_users d). 0 < acc_version a \<and> acc_version a \<le> 2147483647)"

text \<open>An account and what became of it.\<close>

definition later :: "account_row \<Rightarrow> account_row \<Rightarrow> bool" where
  "later a b \<longleftrightarrow> acc_id b = acc_id a \<and> acc_email b = acc_email a \<and> acc_version a \<le> acc_version b
     \<and> (acc_hash b \<noteq> acc_hash a \<or> acc_verified b \<noteq> acc_verified a \<longrightarrow> acc_version a < acc_version b)"

definition advances :: "accounts \<Rightarrow> accounts \<Rightarrow> bool" where
  "advances d d' \<longleftrightarrow> (\<exists>xs ys. adb_users d' = xs @ ys \<and> list_all2 later (adb_users d) xs)"

lemma later_refl [simp]: "later a a"
  by (simp add: later_def)

lemma later_trans: "later a b \<Longrightarrow> later b c \<Longrightarrow> later a c"
  by (force simp: later_def)

lemma advances_refl: "adb_users d' = adb_users d \<Longrightarrow> advances d d'"
  by (simp add: advances_def) (rule exI [of _ "adb_users d"], simp add: list_all2_refl)

lemma advances_trans: "advances d d' \<Longrightarrow> advances d' d'' \<Longrightarrow> advances d d''"
proof -
  assume "advances d d'" "advances d' d''"
  then obtain xs ys us vs where "adb_users d' = xs @ ys" "list_all2 later (adb_users d) xs"
    "adb_users d'' = us @ vs" "list_all2 later (xs @ ys) us" by (auto simp: advances_def)
  moreover then obtain us1 us2 where "us = us1 @ us2" "list_all2 later xs us1" by (auto simp: list_all2_append1)
  ultimately have "adb_users d'' = us1 @ (us2 @ vs)" "list_all2 later (adb_users d) us1"
    by (auto intro: list_all2_trans [OF later_trans])
  then show ?thesis unfolding advances_def by blast
qed

lemma advances_account: "advances d d' \<Longrightarrow> a \<in> set (adb_users d) \<Longrightarrow> \<exists>b \<in> set (adb_users d'). later a b"
  by (fastforce simp: advances_def list_all2_conv_all_nth in_set_conv_nth nth_append)

text \<open>A statement is harmless when it keeps the checks of the table and every account advances.\<close>

definition good_change :: "accounts \<Rightarrow> accounts \<Rightarrow> bool" where
  "good_change d d' \<longleftrightarrow> (accounts_ok d \<longrightarrow> accounts_ok d') \<and> advances d d'"

lemma good_refl: "good_change d d"
  by (simp add: good_change_def advances_refl)

lemma good_trans: "good_change d d' \<Longrightarrow> good_change d' d'' \<Longrightarrow> good_change d d''"
  by (auto simp: good_change_def intro: advances_trans)

lemma good_map:
  assumes f: "adb_users d' = map f (adb_users d)" and l: "\<And>a. a \<in> set (adb_users d) \<Longrightarrow> later a (f a)"
    and v: "\<And>a. a \<in> set (adb_users d) \<Longrightarrow> acc_version a \<le> 2147483647 \<Longrightarrow> acc_version (f a) \<le> 2147483647"
  shows "good_change d d'"
proof -
  have keys: "map acc_id (adb_users d') = map acc_id (adb_users d)"
    "map (to_lower \<circ> acc_email) (adb_users d') = map (to_lower \<circ> acc_email) (adb_users d)"
    using f l by (auto simp: later_def)
  have pos: "0 < acc_version (f a)" if "a \<in> set (adb_users d)" "0 < acc_version a" for a
    using l [OF that(1)] that(2) by (simp add: later_def)
  have "accounts_ok d'" if "accounts_ok d"
    using that keys pos v unfolding accounts_ok_def by (simp add: f del: map_map)
  moreover have "list_all2 later (adb_users d) (map f (adb_users d))"
    using l by (simp add: list_all2_conv_all_nth)
  ultimately show ?thesis
    by (auto simp: good_change_def advances_def f)
qed

lemma good_touch:
  assumes "stmt_touch uuid uid f d = Inr (rows, d')" "\<And>a. acc_id (f a) = acc_id a \<and> acc_email (f a) = acc_email a"
  shows "good_change d d'"
  using assms by (auto simp: stmt_touch_def Let_def list_ex_iff touched_def later_def split: if_splits
      intro!: good_map [where f = "\<lambda>a. if acc_id a = the (uuid uid) then touched f d a else a"])

lemma advances_append: "adb_users d' = adb_users d @ ys \<Longrightarrow> advances d d'"
  unfolding advances_def by (rule exI [of _ "adb_users d"], rule exI [of _ ys]) (simp add: list_all2_refl)

lemma good_create:
  assumes "stmt_create_user new_id email name h v n d = Inr (rows, d')" "0 < n"
  shows "good_change d d'"
proof -
  have "to_lower email \<notin> (to_lower \<circ> acc_email) ` set (adb_users d)" "new_id \<notin> acc_id ` set (adb_users d)" "n \<le> 2147483647"
    and d': "\<exists>row. adb_users d' = adb_users d @ [row] \<and> acc_id row = new_id \<and> acc_email row = email \<and> acc_version row = n"
    using assms by (auto simp: stmt_create_user_def Let_def list_ex_iff equal_fold_def split: if_splits)
  then show ?thesis
    using assms(2) by (auto simp: good_change_def accounts_ok_def intro: advances_append)
qed

lemma good_name: "stmt_update_name uuid uid name d = Inr (rows, d') \<Longrightarrow> good_change d d'"
  by (auto simp: stmt_update_name_def later_def
      intro!: good_map [where f = "\<lambda>a. if acc_id a = the (uuid uid) then a\<lparr>acc_name := name, acc_updated := adb_now d\<rparr> else a"])

lemma good_reads: "stmt_user_by_identifier email d = Inr (rows, d') \<Longrightarrow> good_change d d'"
  "stmt_user_by_id uuid uid d = Inr (rows, d') \<Longrightarrow> good_change d d'"
  by (auto simp: stmt_user_by_identifier_def stmt_user_by_id_def good_refl)

section \<open>Sequences of calls\<close>

definition good :: "(accounts, 'z) session_scheme \<Rightarrow> (accounts, 'z) session_scheme \<Rightarrow> bool" where
  "good s t \<longleftrightarrow> good_change (ss_data s) (ss_data t)"

lemma good_rel [simp]: "reflp good" "transp good"
  by (auto simp: good_def reflp_def transp_def intro: good_refl good_trans)

lemma keeps_good_query:
  assumes "\<And>d rows d'. st d = Inr (rows, d') \<Longrightarrow> good_change d d'"
  shows "keeps good (RelationalQueryOne st scan)"
  using assms by (auto simp: keeps_def good_def RelationalQueryOne_def eff_bind_def run_stmt_def eff_throw_def eff_lift_def good_refl
      split: option.splits sum.splits prod.splits list.splits)

lemma coerced_positive: "0 < coerceAccountVersion v"
  by (simp add: coerceAccountVersion_def word_neq_0_conv word_less_def)

lemmas provider_defs = with_users_def GetUserByIdentifier_def GetUserByID_def provider_UpdatePasswordHash_def CreateUser_def
  UpdateAccountStatus_def GetByIdentifier_def GetByID_def UpdatePasswordHash_def Create_def UpdateStatus_def UpdateUserName_def
  LookupUserByEmail_def LookupUserByID_def lookup_query_def

lemma calls_good:
  "keeps good (GetUserByIdentifier hr identifier)" "keeps good (GetUserByID hr uuid uid)"
  "keeps good (provider_UpdatePasswordHash hr uuid uid h)" "keeps good (CreateUser hr new_id input)"
  "keeps good (UpdateAccountStatus hr uuid uid status)" "keeps good (UpdateUserName hs uuid uid name)"
  "keeps good (LookupUserByEmail hs email)" "keeps good (LookupUserByID hs uuid uid)"
  by (auto simp: provider_defs stmt_update_hash_def stmt_update_verification_def
      intro!: keeps_intros keeps_good_query good_rel
      dest: good_reads good_name good_create [OF _ coerced_positive] good_touch)

inductive account_step :: "(accounts, 'z) session_scheme \<Rightarrow> (accounts, 'z) session_scheme \<Rightarrow> bool" where
  create: "CreateUser hr new_id input s = (r, t) \<Longrightarrow> account_step s t"
| password: "provider_UpdatePasswordHash hr uuid uid h s = (r1, t) \<Longrightarrow> account_step s t"
| status: "UpdateAccountStatus hr uuid uid st s = (r, t) \<Longrightarrow> account_step s t"
| rename: "UpdateUserName hs uuid uid name s = (r1, t) \<Longrightarrow> account_step s t"
| by_name: "GetUserByIdentifier hr identifier s = (r, t) \<Longrightarrow> account_step s t"
| by_id: "GetUserByID hr uuid uid s = (r, t) \<Longrightarrow> account_step s t"
| email_lookup: "LookupUserByEmail hs email s = (r2, t) \<Longrightarrow> account_step s t"
| id_lookup: "LookupUserByID hs uuid uid s = (r2, t) \<Longrightarrow> account_step s t"
| session_change: "ss_data t = ss_data s \<Longrightarrow> account_step s t"
| clock: "ss_data t = (ss_data s)\<lparr>adb_now := n\<rparr> \<Longrightarrow> account_step s t"

lemma account_step_good: "account_step s t \<Longrightarrow> good s t"
proof (induction rule: account_step.induct)
  case (clock t s n)
  then show ?case by (auto simp: good_def good_change_def accounts_ok_def advances_refl)
qed (auto dest!: keepsD [OF calls_good(1)] keepsD [OF calls_good(2)] keepsD [OF calls_good(3)] keepsD [OF calls_good(4)]
      keepsD [OF calls_good(5)] keepsD [OF calls_good(6)] keepsD [OF calls_good(7)] keepsD [OF calls_good(8)]
      simp: good_def good_refl)

lemma account_steps_good: "account_step\<^sup>*\<^sup>* s t \<Longrightarrow> good s t"
  by (induction rule: rtranclp_induct) (blast intro: reflpD [OF good_rel(1)] transpD [OF good_rel(2)] account_step_good)+

text \<open>C23: whatever calls are made on the accounts, in whatever order and however the database fails, ids and email
  addresses (up to case) stay unique and versions stay in the range of the column. No account disappears or changes its
  id or address, its version never decreases, and an account whose password hash or verification has changed has a
  greater version.\<close>

theorem account_versions_count_changes:
  assumes "account_step\<^sup>*\<^sup>* s t" "accounts_ok (ss_data s)"
  shows "accounts_ok (ss_data t) \<and> (\<forall>a \<in> set (adb_users (ss_data s)). \<exists>b \<in> set (adb_users (ss_data t)).
    acc_id b = acc_id a \<and> acc_email b = acc_email a \<and> acc_version a \<le> acc_version b
    \<and> (acc_hash b \<noteq> acc_hash a \<or> acc_verified b \<noteq> acc_verified a \<longrightarrow> acc_version a < acc_version b))"
  using account_steps_good [OF assms(1)] assms(2)
  by (auto simp: good_def good_change_def dest!: advances_account simp: later_def)

section \<open>Status\<close>

lemma filter_unique_key: "distinct (map f xs) \<Longrightarrow> x \<in> set xs \<Longrightarrow> filter (\<lambda>y. f y = f x) xs = [x]"
  by (induction xs) (auto simp: filter_empty_conv image_iff)

text \<open>What one successful change of the status leaves.\<close>

lemma filter_update_key: "(\<And>a. acc_id (f a) = acc_id a) \<Longrightarrow>
    filter (\<lambda>a. acc_id a = u) (map (\<lambda>a. if acc_id a = u then f a else a) xs) = map f (filter (\<lambda>a. acc_id a = u) xs)"
  by (induction xs) auto

lemma UpdateAccountStatus_ok:
  assumes "UpdateAccountStatus hr uuid uid status s = (Inr r, t)"
  defines "f \<equiv> touched (\<lambda>a. a\<lparr>acc_verified := statusToVerifiedFlag (mapAccountStatusToString status)\<rparr>) (ss_data s)"
  shows "hr \<and> (\<exists>u x xs. uuid (trim_space uid) = Some u \<and> filter (\<lambda>a. acc_id a = u) (adb_users (ss_data s)) = x # xs
    \<and> map_sum id mapUserToRecord (scan_user (f x)) = Inr r
    \<and> adb_users (ss_data t) = map (\<lambda>a. if acc_id a = u then f a else a) (adb_users (ss_data s)))"
proof (cases hr)
  case True
  then show ?thesis using assms(1)
    by (auto simp: provider_defs stmt_ok eff_Inr stmt_update_verification_def stmt_touch_def Let_def f_def map_eq_Cons_conv
        split: if_splits)
next
  case False
  then show ?thesis using assms(1) by (simp add: provider_defs)
qed

lemma GetUserByID_ok:
  assumes "GetUserByID hr uuid uid s = (Inr r, t)"
  shows "\<exists>u x xs. uuid (trim_space uid) = Some u \<and> filter (\<lambda>a. acc_id a = u) (adb_users (ss_data s)) = x # xs
    \<and> map_sum id mapUserToRecord (scan_user x) = Inr r"
proof (cases hr)
  case True
  then show ?thesis using assms by (auto simp: provider_defs stmt_ok eff_Inr stmt_user_by_id_def)
next
  case False
  then show ?thesis using assms by (simp add: provider_defs)
qed

lemma status_flag: "statusToVerifiedFlag (mapAccountStatusToString status)
    \<longleftrightarrow> status = AccountActive \<or> (\<exists>n. status = OtherStatus n)"
  by (cases status) (simp_all add: statusToVerifiedFlag_def trim_literal equal_fold_def to_lower_def)

text \<open>An account is read back with the status it was given only if that is active or pending: disabling, locking or
  deleting an account stores no more than the loss of its verification, and the next read reports it as pending
  verification. Every change of the status, whatever it is, counts the version up by one.\<close>

theorem status_read_back:
  assumes ok: "accounts_ok (ss_data s)" and up: "UpdateAccountStatus hr uuid uid status s = (Inr r, t)"
    and again: "GetUserByID hr uuid uid t = (Inr r', t')"
  shows "r' = r \<and> usr_status r = (case status of AccountActive \<Rightarrow> AccountActive | OtherStatus n \<Rightarrow> AccountActive
      | _ \<Rightarrow> AccountPendingVerification)
    \<and> (\<exists>a \<in> set (adb_users (ss_data s)). usr_id r = acc_id a \<and> uint (usr_version r) = acc_version a + 1 \<and> usr_hash r = acc_hash a)"
proof -
  define f where "f = touched (\<lambda>a. a\<lparr>acc_verified := statusToVerifiedFlag (mapAccountStatusToString status)\<rparr>) (ss_data s)"
  obtain u a xs where u: "uuid (trim_space uid) = Some u" "filter (\<lambda>a. acc_id a = u) (adb_users (ss_data s)) = a # xs"
      "map_sum id mapUserToRecord (scan_user (f a)) = Inr r"
      "adb_users (ss_data t) = map (\<lambda>a. if acc_id a = u then f a else a) (adb_users (ss_data s))"
    using UpdateAccountStatus_ok [OF up] unfolding f_def by blast
  then have a: "a \<in> set (adb_users (ss_data s))" "acc_id a = u" by (auto simp: filter_eq_Cons_iff)
  then have only: "filter (\<lambda>b. acc_id b = u) (adb_users (ss_data s)) = [a]"
    using ok filter_unique_key [of acc_id "adb_users (ss_data s)" a] unfolding accounts_ok_def by blast
  have "filter (\<lambda>b. acc_id b = u) (adb_users (ss_data t)) = [f a]"
    using filter_update_key [of f u "adb_users (ss_data s)"] only by (simp add: u(4) f_def touched_def)
  then have "map_sum id mapUserToRecord (scan_user (f a)) = Inr r'"
    using GetUserByID_ok [OF again] u(1) by auto
  with u(3) have same: "r' = r" by simp
  have v: "0 < acc_version a" "acc_version a \<le> 2147483647" using ok a(1) by (auto simp: accounts_ok_def)
  then have "scan_user (f a) = Inr \<lparr>sto_id = acc_id a, sto_email = acc_email a, sto_name = acc_name a, sto_hash = acc_hash a,
      sto_version = word_of_int (acc_version a + 1), sto_verified = statusToVerifiedFlag (mapAccountStatusToString status)\<rparr>"
    by (simp add: scan_user_def f_def touched_def)
  with u(3) have "usr_id r = acc_id a" "usr_hash r = acc_hash a" "usr_version r = word_of_int (acc_version a + 1)"
    "usr_status r = (if statusToVerifiedFlag (mapAccountStatusToString status) then AccountActive else AccountPendingVerification)"
    by (auto simp: mapUserToRecord_def)
  note this(1-3) this(4) [unfolded status_flag]
  moreover have "uint (word_of_int (acc_version a + 1) :: 32 word) = acc_version a + 1"
    using v by (subst uint_word_of_int) simp
  ultimately show ?thesis using same a(1) by (cases status) auto
qed

section \<open>A disabled account\<close>

definition sample_account :: account_row where
  "sample_account = \<lparr>acc_id = ''u1'', acc_email = ''Ada@example.org'', acc_name = ''Ada'', acc_hash = ''h1'', acc_version = 3,
     acc_verified = True, acc_updated = 0\<rparr>"

definition sample_session :: "accounts session" where
  "sample_session = \<lparr>ss_data = \<lparr>adb_users = [sample_account], adb_now = 9\<rparr>, ss_tx = NoTx, ss_count = 0, ss_fault = (\<lambda>_. None)\<rparr>"

definition disabled_session :: "accounts session" where
  "disabled_session = snd (UpdateAccountStatus True Some ''u1'' AccountDisabled sample_session)"

lemmas account_run = provider_defs sample_session_def sample_account_def stmt_update_verification_def stmt_touch_def eff_defs
  stmt_user_by_id_def RelationalQueryOne_def run_stmt_def tick_def cast_uuid_def sum_bind_def scan_user_def touched_def
  statusToVerifiedFlag_def mapUserToRecord_def trim_literal

lemma sample_accounts_ok: "accounts_ok (ss_data sample_session)"
  by (simp add: accounts_ok_def sample_session_def sample_account_def)

lemma disabled_session_step: "\<exists>r. UpdateAccountStatus True Some ''u1'' AccountDisabled sample_session = (Inr r, disabled_session)
    \<and> usr_id r = ''u1''"
  unfolding disabled_session_def by (simp add: account_run)

lemma status_read_back_witness:
  "\<exists>r t. GetUserByID True Some ''u1'' disabled_session = (Inr r, t) \<and> usr_status r = AccountPendingVerification"
proof -
  obtain r where up: "UpdateAccountStatus True Some ''u1'' AccountDisabled sample_session = (Inr r, disabled_session)"
    using disabled_session_step by blast
  obtain r' t where again: "GetUserByID True Some ''u1'' disabled_session = (Inr r', t)"
    unfolding disabled_session_def by (auto simp: account_run)
  show ?thesis using status_read_back [OF sample_accounts_ok up again] again by auto
qed

lemma account_versions_count_changes_witness:
  "\<exists>b \<in> set (adb_users (ss_data disabled_session)). acc_email b = ''Ada@example.org'' \<and> 3 \<le> acc_version b"
proof -
  have "account_step\<^sup>*\<^sup>* sample_session disabled_session"
    using disabled_session_step account_step.status by blast
  from account_versions_count_changes [OF this sample_accounts_ok] show ?thesis
    by (auto simp: sample_session_def sample_account_def)
qed

end
