(* ===== verification/Auth_Laws.thy ===== *)
theory Auth_Laws
  imports Auth_Service Account_Laws
begin

text \<open>
  What the auth workflows guarantee for any token engine: every failure is an error the client can be told, mails
  reach the addresses of accounts only, a forgotten password does not reveal whether there is an account, and a
  change of the password needs the current one.
\<close>

section \<open>Every failure is an application error\<close>

definition client_statuses :: "int set" where
  "client_statuses = {400, 401, 403, 404, 409, 429, 500, 503}"

definition client_error :: "err \<Rightarrow> bool" where
  "client_error e \<longleftrightarrow> (\<exists>a. as_app_error e = Some a \<and> ae_status a \<in> client_statuses)"

definition answers :: "('s, 'a) eff \<Rightarrow> bool" where
  "answers m \<longleftrightarrow> (\<forall>s e t. m s = (Inl e, t) \<longrightarrow> client_error e)"

lemma client_error_new [simp]: "st \<in> client_statuses \<Longrightarrow> client_error (app_new c st msg)"
  by (simp add: client_error_def)

lemma client_error_caused [simp]: "st \<in> client_statuses \<Longrightarrow> client_error (caused c st msg e)"
  by (simp add: client_error_def caused_def)

lemma client_error_caused_with [simp]: "st \<in> client_statuses \<Longrightarrow> client_error (caused_with c st msg d e)"
  by (simp add: client_error_def caused_with_def with_cause_def with_details_def app_new_def)

lemma client_status [simp]: "400 \<in> client_statuses" "401 \<in> client_statuses" "403 \<in> client_statuses" "404 \<in> client_statuses"
  "409 \<in> client_statuses" "429 \<in> client_statuses" "500 \<in> client_statuses" "503 \<in> client_statuses"
  by (simp_all add: client_statuses_def)

lemma mapped_errors [simp]:
  "client_error (mapAuthTokenError cat e msg d)"
  by (simp add: mapAuthTokenError_def split: option.split auth_category.split)

lemma mapped_workflow_errors [simp]: "client_error (mapSignupError cat e)" "client_error (mapLogoutError cat e)" "client_error (mapVerifyEmailError cat e)"
  "client_error (mapResendVerificationError cat e)" "client_error (mapEmailDeliveryError e)"
  "client_error (mapForgotPasswordError cat e)" "client_error (mapResetPasswordError cat e)"
  "client_error (verification_unavailable e)" "client_error (reset_unavailable e)"
  by (simp_all add: mapSignupError_def mapLogoutError_def mapVerifyEmailError_def mapResendVerificationError_def
      mapEmailDeliveryError_def mapForgotPasswordError_def mapResetPasswordError_def verification_unavailable_def reset_unavailable_def)

lemma answers_bind: "answers m \<Longrightarrow> (\<And>a. answers (f a)) \<Longrightarrow> answers (eff_bind m f)"
  by (fastforce simp: answers_def eff_bind_def split: prod.splits sum.splits)

lemma answers_case: "(\<And>e. answers (h e)) \<Longrightarrow> (\<And>a. answers (f a)) \<Longrightarrow> answers (eff_case m h f)"
  by (fastforce simp: answers_def eff_case_def split: prod.splits sum.splits)

lemma answers_throw: "client_error e \<Longrightarrow> answers (eff_throw e)"
  by (simp add: answers_def eff_throw_def)

lemma answers_ret: "answers (eff_ret a)"
  by (simp add: answers_def eff_ret_def)

lemma answers_lift: "(\<And>e. r = Inl e \<Longrightarrow> client_error e) \<Longrightarrow> answers (eff_lift r)"
  by (simp add: answers_def eff_lift_def)

lemma answers_map_err: "(\<And>e. client_error (g e)) \<Longrightarrow> answers (eff_map_err g m)"
  unfolding eff_map_err_def by (intro answers_case answers_throw answers_ret)

lemma answers_ignore: "answers (eff_ignore m)"
  unfolding eff_ignore_def by (intro answers_case answers_ret)

lemma answers_engine: "(\<And>eg. answers (k eg)) \<Longrightarrow> answers (authEngine env k)"
  by (auto simp: authEngine_def intro: answers_throw split: option.split)

lemma answers_repo: "answers m \<Longrightarrow> answers (need_repo env m)"
  by (simp add: need_repo_def answers_throw)

lemma answers_if: "answers m \<Longrightarrow> answers m' \<Longrightarrow> answers (if c then m else m')"
  by simp

lemma answers_lookup: "answers (LookupUserByEmail hs email)" "answers (LookupUserByID hs uuid uid)" "answers (UpdateUserName hs uuid uid name)"
  unfolding LookupUserByEmail_def LookupUserByID_def UpdateUserName_def lookup_query_def caused_def [symmetric]
  by (intro answers_if answers_throw answers_case answers_ret answers_map_err; simp)+

lemma answers_token: "answers (eff_lift (buildAuthTokenResponse jwt tokens))"
  by (auto intro!: answers_lift simp: buildAuthTokenResponse_def split: sum.splits)

lemma answers_prod: "(\<And>a b. answers (f a b)) \<Longrightarrow> answers (case p of (a, b) \<Rightarrow> f a b)"
  by (simp split: prod.split)

lemma answers_option: "answers m \<Longrightarrow> (\<And>a. answers (f a)) \<Longrightarrow> answers (case x of None \<Rightarrow> m | Some a \<Rightarrow> f a)"
  by (simp split: option.split)

lemmas answers_intros = answers_bind answers_case answers_throw answers_ret answers_map_err answers_ignore answers_engine
  answers_repo answers_if answers_lookup answers_token answers_prod answers_option

lemmas workflow_defs = Signup_def Login_def Refresh_def Logout_def VerifyEmail_def ResendVerification_def ForgotPassword_def
  ResetPassword_def RequestChangePasswordOTP_def ConfirmChangePassword_def unverified_login_def issueAndSendVerification_def
  verifyCurrentPassword_def current_user_def


section \<open>Where mails go\<close>

lemma eff_bind_eq: "(\<And>a t. m s = (Inr a, t) \<Longrightarrow> f a t = g a t) \<Longrightarrow> eff_bind m f s = eff_bind m g s"
  by (auto simp: eff_bind_def split: prod.splits sum.splits)

lemma eff_case_eq: "(\<And>a t. m s = (Inr a, t) \<Longrightarrow> f a t = g a t) \<Longrightarrow> eff_case m h f s = eff_case m h g s"
  by (auto simp: eff_case_def split: prod.splits sum.splits)

lemma eff_map_err_eq: "m s = m' s \<Longrightarrow> eff_map_err g m s = eff_map_err g m' s"
  by (simp add: eff_map_err_def eff_case_def)

lemma eff_ignore_eq: "m s = m' s \<Longrightarrow> eff_ignore m s = eff_ignore m' s"
  by (simp add: eff_ignore_def eff_case_def)

lemma eff_bind_eq_first: "m s = m' s \<Longrightarrow> eff_bind m f s = eff_bind m' f s"
  by (simp add: eff_bind_def)

definition account_address :: "accounts \<Rightarrow> string \<Rightarrow> bool" where
  "account_address d addr \<longleftrightarrow> (\<exists>a \<in> set (adb_users d). addr = auth_normalizeEmail (acc_email a))"

lemma auth_normalizeEmail_idem [simp]: "auth_normalizeEmail (auth_normalizeEmail e) = auth_normalizeEmail e"
  by (simp add: auth_normalizeEmail_def trim_space_to_lower)

lemma NormalizeRecipient_is [simp]: "NormalizeRecipient e = auth_normalizeEmail e"
  by (simp add: NormalizeRecipient_def auth_normalizeEmail_def)

lemma normalize_equal_fold: "equal_fold a b \<Longrightarrow> auth_normalizeEmail a = auth_normalizeEmail b"
  by (simp add: equal_fold_def auth_normalizeEmail_def flip: trim_space_to_lower)

lemma lookup_query_Some:
  "lookup_query hs what st s = (Inr (Some u), t) \<Longrightarrow> \<exists>a rows. run_stmt st s = (Inr (a # rows), t) \<and> u = lookup_of a"
  by (auto simp: lookup_query_def eff_Inr RelationalQueryOne_ok split: if_splits)

lemma lookup_address:
  "LookupUserByEmail hs email s = (Inr (Some u), t) \<Longrightarrow> account_address (ss_data s) (auth_normalizeEmail email)"
  "LookupUserByID hs uuid uid s = (Inr (Some u), t) \<Longrightarrow> account_address (ss_data s) (auth_normalizeEmail (ul_email u))"
  by (auto simp: LookupUserByEmail_def LookupUserByID_def stmt_user_by_identifier_def stmt_user_by_id_def run_stmt_ok lookup_of_def
      account_address_def filter_eq_Cons_iff dest!: lookup_query_Some normalize_equal_fold)

lemma current_user_address:
  "current_user env uid s = (Inr u, t) \<Longrightarrow> account_address (ss_data s) (auth_normalizeEmail (ul_email u))"
  by (auto simp: current_user_def eff_bind_Inr dest: lookup_address split: option.splits)

definition with_sender :: "('s, 'y) auth_env_scheme \<Rightarrow> (mail \<Rightarrow> ('s, unit) eff) option \<Rightarrow> ('s, 'y) auth_env_scheme" where
  "with_sender env send' = env\<lparr>ax_sender := send'\<rparr>"

lemma with_sender_simps [simp]: "ax_engine (with_sender env s') = ax_engine env" "ax_base (with_sender env s') = ax_base env"
  "ax_url (with_sender env s') = ax_url env" "ax_category (with_sender env s') = ax_category env" "ax_repo (with_sender env s') = ax_repo env"
  "ax_store (with_sender env s') = ax_store env" "ax_uuid (with_sender env s') = ax_uuid env" "ax_sender (with_sender env s') = s'"
  by (simp_all add: with_sender_def)

lemma engine_same [simp]: "authEngine (with_sender env s') k = authEngine env k"
  "need_repo (with_sender env s') m = need_repo env m" "app_link (with_sender env s') = app_link env"
  "verifyCurrentPassword (with_sender env s') = verifyCurrentPassword env"
  by (auto simp: authEngine_def need_repo_def app_link_def verifyCurrentPassword_def fun_eq_iff)

lemma current_user_same [simp]: "current_user (with_sender env s') = current_user env"
  by (simp add: current_user_def fun_eq_iff)

text \<open>Senders that agree on the mails to the addresses of accounts.\<close>

definition same_for_accounts ::
  "accounts \<Rightarrow> (mail \<Rightarrow> ('s, unit) eff) option \<Rightarrow> (mail \<Rightarrow> ('s, unit) eff) option \<Rightarrow> bool" where
  "same_for_accounts d send send' \<longleftrightarrow> (send = None \<longleftrightarrow> send' = None)
     \<and> (\<forall>m. account_address d (ml_to m) \<longrightarrow> the send m = the send' m)"

lemma send_mail_same:
  "same_for_accounts d (ax_sender env) send' \<Longrightarrow> account_address d (ml_to m) \<Longrightarrow> send_mail (with_sender env send') m = send_mail env m"
  by (auto simp: send_mail_def same_for_accounts_def split: option.splits)

lemma mails_same:
  assumes "same_for_accounts d (ax_sender env) send'" "account_address d (auth_normalizeEmail to)"
  shows "sendVerificationEmail (with_sender env send') to i c = sendVerificationEmail env to i c"
    "sendPasswordResetEmail (with_sender env send') to i c = sendPasswordResetEmail env to i c"
    "sendPasswordChangeOTPEmail (with_sender env send') to i c = sendPasswordChangeOTPEmail env to i c"
    "sendPasswordChangedNoticeEmail (with_sender env send') to = sendPasswordChangedNoticeEmail env to"
  using assms by (simp_all add: sendVerificationEmail_def sendPasswordResetEmail_def sendPasswordChangeOTPEmail_def
      sendPasswordChangedNoticeEmail_def send_mail_same Let_def)

lemma engine_eq: "(\<And>eg. k eg s = k' eg s) \<Longrightarrow> need_repo env (authEngine env k) s = need_repo env (authEngine env k') s"
  by (simp add: need_repo_def authEngine_def split: option.split)

lemma eff_case_map_eq: "m s = m' s \<Longrightarrow> eff_case m h f s = eff_case m' h f s"
  by (simp add: eff_case_def)

text \<open>C39: mails go to the addresses of accounts. Replacing the sender by one that behaves differently for every other
  recipient changes nothing of a resent verification, a forgotten password, a request for a change code or a
  changed password: neither the answer nor the state.\<close>

theorem mails_reach_accounts_only:
  assumes "same_for_accounts (ss_data s) (ax_sender env) send'"
  shows "ResendVerification (with_sender env send') email s = ResendVerification env email s
    \<and> ForgotPassword (with_sender env send') email s = ForgotPassword env email s
    \<and> RequestChangePasswordOTP (with_sender env send') uid current s = RequestChangePasswordOTP env uid current s
    \<and> ConfirmChangePassword (with_sender env send') uid req s = ConfirmChangePassword env uid req s"
proof (intro conjI)
  note mails = mails_same [OF assms]
  show "ResendVerification (with_sender env send') email s = ResendVerification env email s"
    unfolding ResendVerification_def Let_def engine_same with_sender_simps
    by (intro engine_eq eff_bind_eq eff_case_eq) (auto simp: mails dest!: lookup_address split: option.splits)
  show "ForgotPassword (with_sender env send') email s = ForgotPassword env email s"
    unfolding ForgotPassword_def Let_def engine_same with_sender_simps
    by (intro engine_eq eff_bind_eq) (auto simp: mails dest!: lookup_address split: option.splits)
  show "RequestChangePasswordOTP (with_sender env send') uid current s = RequestChangePasswordOTP env uid current s"
    unfolding RequestChangePasswordOTP_def Let_def engine_same current_user_same with_sender_simps
    by (intro engine_eq eff_bind_eq) (auto simp: mails dest!: current_user_address)
  show "ConfirmChangePassword (with_sender env send') uid req s = ConfirmChangePassword env uid req s"
    unfolding ConfirmChangePassword_def Let_def engine_same current_user_same with_sender_simps
    by (intro engine_eq eff_bind_eq) (auto simp: mails dest!: current_user_address)
qed

section \<open>Forgotten passwords\<close>

lemma eff_bind_map_err: "eff_bind (eff_map_err g m) f s = (case m s of (Inl e, t) \<Rightarrow> (Inl (g e), t) | (Inr a, t) \<Rightarrow> f a t)"
  by (auto simp: eff_bind_def eff_map_err_def eff_case_def eff_throw_def eff_ret_def split: prod.splits sum.splits)

lemma ForgotPassword_answer:
  assumes "ax_engine env = Some eg" "LookupUserByEmail (ax_store env) (auth_normalizeEmail email) s = (Inr u, s1)"
    "ax_sender env = Some send" "\<And>m st. \<exists>st'. send m st = (Inr (), st')"
  shows "fst (ForgotPassword env email s) =
    (if \<not> ax_repo env then Inl auth_repository_unavailable
     else case fst (eg_request_reset eg (auth_normalizeEmail email) s1) of
       Inl e \<Rightarrow> Inl (mapForgotPasswordError (ax_category env) e)
     | Inr challenge \<Rightarrow> (case splitPasswordResetOTPChallenge challenge of Inl e \<Rightarrow> Inl (reset_unavailable e)
         | Inr (c, k) \<Rightarrow> Inr (zero_status\<lparr>sta_status := ''sent'', sta_challenge := c, sta_message := forgotMessage\<rparr>)))"
proof -
  have sent: "\<exists>st'. sendPasswordResetEmail env r c k st = (Inr (), st')" for r c k st
    using assms(3,4) by (simp add: sendPasswordResetEmail_def send_mail_def Let_def)
  have tail: "fst (eff_bind (if w \<noteq> None then eff_map_err mapEmailDeliveryError (sendPasswordResetEmail env n c k) else eff_ret ())
      (\<lambda>_. eff_ret x) st) = Inr x" for w :: "user_lookup option" and n c k st and x :: status_response
    using sent [of n c k st] by (auto simp: eff_bind_def eff_map_err_def eff_case_def eff_ret_def)
  obtain r s2 where r: "eg_request_reset eg (auth_normalizeEmail email) s1 = (r, s2)" by force
  have "ForgotPassword env email s = (if \<not> ax_repo env then (Inl auth_repository_unavailable, s)
      else eff_bind (eff_map_err (mapForgotPasswordError (ax_category env)) (eg_request_reset eg (auth_normalizeEmail email)))
        (\<lambda>challenge. eff_bind (eff_map_err reset_unavailable (eff_lift (splitPasswordResetOTPChallenge challenge))) (\<lambda>(c, k).
          eff_bind (if u \<noteq> None then eff_map_err mapEmailDeliveryError (sendPasswordResetEmail env (auth_normalizeEmail email) c k) else eff_ret ())
            (\<lambda>_. eff_ret (zero_status\<lparr>sta_status := ''sent'', sta_challenge := c, sta_message := forgotMessage\<rparr>)))) s1)"
    using assms(1,2) by (simp add: ForgotPassword_def need_repo_def authEngine_def Let_def eff_bind_def [of "LookupUserByEmail _ _"] eff_throw_def)
  then show ?thesis
    using r tail [simplified] by (auto simp: eff_bind_map_err eff_lift_def split: sum.splits prod.splits)
qed

text \<open>C40: the answer to a forgotten password does not depend on whether the address has an account, as long as the
  database and the mail sender work: in two states in which the token engine answers the same, the client gets
  the same answer.\<close>

theorem forgot_password_hides_accounts:
  assumes "ax_engine env = Some eg"
    "LookupUserByEmail (ax_store env) (auth_normalizeEmail email) s = (Inr u, s1)"
    "LookupUserByEmail (ax_store env) (auth_normalizeEmail email) t = (Inr v, t1)"
    "fst (eg_request_reset eg (auth_normalizeEmail email) s1) = fst (eg_request_reset eg (auth_normalizeEmail email) t1)"
    "ax_sender env = Some send" "\<And>m st. \<exists>st'. send m st = (Inr (), st')"
  shows "fst (ForgotPassword env email s) = fst (ForgotPassword env email t)"
  using ForgotPassword_answer [OF assms(1,2,5,6)] ForgotPassword_answer [OF assms(1,3,5,6)] assms(4) by simp

section \<open>Changing the password\<close>

text \<open>A signed-in user changes the password in one order: the current password must log the user in, the session
  this made is closed again, and only then is the challenge confirmed with the new password; then all sessions of
  the user end and a notice is sent, and neither can fail the change. A current password that is refused leaves the
  password alone. Both the address and the current password are compared without surrounding white space.\<close>

theorem change_password_order:
  assumes "ax_repo env" "ax_engine env = Some eg" "LookupUserByID (ax_store env) (ax_uuid env) (trim_space uid) s = (Inr (Some u), s1)"
  shows "ConfirmChangePassword env uid req s =
    (case eg_login eg (auth_normalizeEmail (ul_email u)) (trim_space (chr_current req)) s1 of
       (Inl e, s2) \<Rightarrow> (Inl (mapAuthTokenError (ax_category env) e ''current password is incorrect'' []), s2)
     | (Inr (access, _), s2) \<Rightarrow>
         let s3 = (if trim_space access = [] then s2 else snd (eg_logout_token eg access s2)) in
         (case eg_confirm_reset eg (trim_space (chr_challenge req) @ ''.'' @ trim_space (chr_code req)) (chr_password req) s3 of
            (Inl e, s4) \<Rightarrow> (Inl (mapResetPasswordError (ax_category env) e), s4)
          | (Inr _, s4) \<Rightarrow> (Inr (zero_status\<lparr>sta_message := ''Password changed successfully.''\<rparr>),
              snd (sendPasswordChangedNoticeEmail env (auth_normalizeEmail (ul_email u)) (snd (eg_logout_all eg (trim_space (ul_id u)) s4))))))"
proof -
  have user: "current_user env uid s = (Inr u, s1)"
    using assms(3) by (simp add: current_user_def eff_bind_def eff_ret_def)
  have ign: "eff_bind (eff_ignore m) f st = f () (snd (m st))" for m :: "('a auth_state, 'c) eff" and f :: "unit \<Rightarrow> ('a auth_state, 'd) eff" and st
    by (auto simp: eff_bind_def eff_ignore_def eff_case_def eff_ret_def split: prod.splits sum.splits)
  obtain r s2 where login: "eg_login eg (auth_normalizeEmail (ul_email u)) (trim_space (chr_current req)) s1 = (r, s2)" by force
  show ?thesis
  proof (cases r)
    case (Inl e)
    then show ?thesis using login user assms(1,2)
      by (simp add: ConfirmChangePassword_def need_repo_def authEngine_def verifyCurrentPassword_def eff_bind_def [of "current_user _ _"]
          eff_bind_map_err eff_bind_def [of "eff_bind _ _"])
  next
    case (Inr tokens)
    define s3 where "s3 = (if trim_space (fst tokens) = [] then s2 else snd (eg_logout_token eg (fst tokens) s2))"
    have check: "verifyCurrentPassword env (ul_email u) (chr_current req) s1 = (Inr (), s3)"
      using login Inr assms(2)
      by (auto simp: verifyCurrentPassword_def authEngine_def eff_bind_map_err s3_def eff_ignore_def eff_case_def eff_ret_def
          split: prod.splits sum.splits)
    show ?thesis using login Inr user check assms(1,2)
      by (auto simp: ConfirmChangePassword_def need_repo_def authEngine_def eff_bind_def [of "current_user _ _"] ign
          eff_bind_def [of "verifyCurrentPassword _ _ _"] eff_bind_map_err joinPasswordResetOTPChallenge_def s3_def Let_def eff_ret_def
          split: prod.splits sum.splits)
  qed
qed

section \<open>Challenges\<close>

lemma lead_len_no: "lead_len ws s = 0 \<Longrightarrow> [] \<notin> set ws \<Longrightarrow> w \<in> set ws \<Longrightarrow> \<not> prefix w s"
  by (induction ws) (auto split: if_splits)

lemma split_at_first: "c \<notin> set a \<Longrightarrow> takeWhile (\<lambda>x. x \<noteq> c) (a @ c # b) = a \<and> dropWhile (\<lambda>x. x \<noteq> c) (a @ c # b) = c # b"
  by (induction a) auto

lemma dot_no_space: "w \<in> set go_spaces \<Longrightarrow> CHR ''.'' \<notin> set w"
  by (auto simp: go_spaces_def ascii_spaces_def)

lemma decimal_graphic: "CHR ''0'' \<le> c \<Longrightarrow> c \<le> CHR ''9'' \<Longrightarrow> graphic c"
proof -
  assume "CHR ''0'' \<le> c" "c \<le> CHR ''9''"
  then have "(of_char c :: nat) \<in> {48..<58}" by (simp add: less_eq_char_def)
  then have "c \<in> char_of ` {48..<58 :: nat}" by (metis char_of_char imageI)
  also have "{48..<58 :: nat} = {48, 49, 50, 51, 52, 53, 54, 55, 56, 57}" by (simp add: atLeastLessThan_nat_numeral insert_commute)
  finally show ?thesis by (auto simp: char_of_def bit_Suc_0_iff)
qed

lemma trim_dotted:
  assumes "trim_space i \<noteq> []" "c \<noteq> []" "isNumericCode c"
  shows "trim_space (trim_space i @ ''.'' @ c) = trim_space i @ ''.'' @ c"
proof -
  let ?s = "trim_space i @ ''.'' @ c"
  have zero: "lead_len go_spaces (trim_space i) = 0"
    using strip_lead_lead [of go_spaces "trim_space i"] trim_left_trim_right_fix [OF trim_left_idem [of i]]
    by (simp add: trim_space_def) (simp add: trim_left_def)
  have "\<not> prefix w ?s" if "w \<in> set go_spaces" for w
  proof
    assume "prefix w ?s"
    then consider "prefix w (trim_space i)" | t where "w = trim_space i @ t" "prefix t (''.'' @ c)" "t \<noteq> []"
      unfolding prefix_append by (metis append.right_neutral prefix_order.refl)
    then show False
    proof cases
      case 1
      then show False using lead_len_no [OF zero go_spaces_nonempty that] by blast
    next
      case 2
      then have "CHR ''.'' \<in> set w" by (cases t) auto
      then show False using dot_no_space [OF that] by blast
    qed
  qed
  then have "strip_lead go_spaces ?s = ?s" by (intro strip_lead_fix lead_len_no_prefix) blast
  moreover have "graphic (hd (rev ?s))"
    using assms(2,3) by (simp add: hd_rev isNumericCode_def list_all_iff) (metis decimal_graphic last_in_set)
  then have "strip_lead (map rev go_spaces) (rev ?s) = rev ?s"
    using graphic_lead by (intro graphic_no_prefix) (auto simp: hd_rev)
  ultimately show ?thesis by (simp add: trim_space_def trim_left_def trim_right_def)
qed

text \<open>A reset challenge survives the two hands it passes: what the service splits for the mail, the user
  sends back in two fields, and joining them gives the parts again, for an id without a dot and a numeric code.\<close>

theorem otp_challenge_roundtrip:
  assumes "trim_space i \<noteq> []" "CHR ''.'' \<notin> set (trim_space i)" "trim_space code \<noteq> []" "isNumericCode (trim_space code)"
  shows "splitPasswordResetOTPChallenge (joinPasswordResetOTPChallenge i code) = Inr (trim_space i, trim_space code)"
proof -
  have "split_n 2 (CHR ''.'') (trim_space i @ ''.'' @ trim_space code) = [trim_space i, trim_space code]"
    using assms(2) split_at_first [of "CHR ''.''" "trim_space i"] by (simp add: numeral_2_eq_2)
  then show ?thesis
    using assms trim_dotted [OF assms(1,3,4)]
    by (simp add: splitPasswordResetOTPChallenge_def joinPasswordResetOTPChallenge_def Let_def)
qed

end
