(* ===== verification/Auth_Handler.thy ===== *)
theory Auth_Handler
  imports Auth_Laws Adapter
begin

text \<open>
  The handlers of the auth module (\<open>internal/modules/auth/handler.go\<close>), over the request and the state of its
  service, and a running service for the witnesses: one account, an engine that knows its password, a mailbox.
\<close>

section \<open>Handlers\<close>

definition bearerTokenFromHeader :: "string \<Rightarrow> err + string" where
  "bearerTokenFromHeader v =
     (let trimmed = trim_space v in
      if trimmed = [] then Inl authentication_required
      else case split_n 2 (CHR '' '') trimmed of
        [scheme, rest] \<Rightarrow>
          if \<not> equal_fold (trim_space scheme) ''Bearer'' then Inl authentication_required
          else if trim_space rest = [] then Inl authentication_required else Inr (trim_space rest)
      | _ \<Rightarrow> Inl authentication_required)"

definition handle_Signup ::
  "('z auth_state, 'y) auth_env_scheme \<Rightarrow> request \<Rightarrow> signup_request \<Rightarrow> ('z auth_state, signup_user_response http_result) eff" where
  "handle_Signup env r req =
     eff_bind (Signup env req) (\<lambda>resp. eff_ret \<lparr>hr_status = 201, hr_ok = None, hr_data = resp\<rparr>)"

definition handle_Logout :: "('s, 'y) auth_env_scheme \<Rightarrow> request \<Rightarrow> ('s, unit http_result) eff" where
  "handle_Logout env r =
     eff_bind (eff_lift (bearerTokenFromHeader (trim_space (header_get (rq_headers r) ''Authorization'')))) (\<lambda>accessToken.
     eff_bind (Logout env accessToken) (\<lambda>_. eff_ret \<lparr>hr_status = 200, hr_ok = None, hr_data = ()\<rparr>))"

text \<open>The signed-in user of the two handlers that change a password.\<close>

definition signed_in :: "request \<Rightarrow> (string \<Rightarrow> ('s, 'a) eff) \<Rightarrow> ('s, 'a) eff" where
  "signed_in r k =
     (case from_context r of None \<Rightarrow> eff_throw authentication_required
      | Some p \<Rightarrow> if trim_space (pr_user_id p) = [] then eff_throw authentication_required else k (trim_space (pr_user_id p)))"

definition handle_RequestChangePasswordOTP ::
  "('z auth_state, 'y) auth_env_scheme \<Rightarrow> request \<Rightarrow> string \<Rightarrow> ('z auth_state, status_response) eff" where
  "handle_RequestChangePasswordOTP env r currentPassword = signed_in r (\<lambda>uid. RequestChangePasswordOTP env uid currentPassword)"

definition handle_ConfirmChangePassword ::
  "('z auth_state, 'y) auth_env_scheme \<Rightarrow> request \<Rightarrow> change_password_request \<Rightarrow> ('z auth_state, status_response) eff" where
  "handle_ConfirmChangePassword env r req = signed_in r (\<lambda>uid. ConfirmChangePassword env uid req)"

lemma bearer_token_refused: "bearerTokenFromHeader v = Inl e \<Longrightarrow> e = authentication_required"
  by (auto simp: bearerTokenFromHeader_def Let_def split: list.splits if_splits)

lemma handlers_answer: "answers (handle_Signup env r q)" "answers (handle_Logout env r')"
  "answers (handle_RequestChangePasswordOTP env' r'' c)" "answers (handle_ConfirmChangePassword env' r'' q')"
proof -
  have "answers (Signup env q)" unfolding workflow_defs by (intro answers_intros; simp)
  then show "answers (handle_Signup env r q)"
    unfolding handle_Signup_def by (intro answers_intros)
  have "answers (Logout env token)" for token unfolding workflow_defs by (intro answers_intros; simp)
  then show "answers (handle_Logout env r')"
    unfolding handle_Logout_def by (intro answers_bind answers_ret answers_lift) (auto dest: bearer_token_refused)
  have "answers (RequestChangePasswordOTP env' uid c)" "answers (ConfirmChangePassword env' uid q')" for uid
    unfolding workflow_defs by (intro answers_intros; simp)+
  then show "answers (handle_RequestChangePasswordOTP env' r'' c)" "answers (handle_ConfirmChangePassword env' r'' q')"
    unfolding handle_RequestChangePasswordOTP_def handle_ConfirmChangePassword_def signed_in_def
    by (auto intro!: answers_intros)
qed

text \<open>The token of an \<open>Authorization\<close> header is found whatever the case of the scheme and the blanks around it.\<close>

lemma bearer_token_found: "bearerTokenFromHeader ''bearer  abc'' = Inr ''abc''"
proof -
  have "trim_space '' abc'' = ''abc''"
    by (simp add: trim_space_def trim_left_def trim_right_def strip_lead.simps go_spaces_def ascii_spaces_def)
  then show ?thesis by (simp add: bearerTokenFromHeader_def trim_literal numeral_2_eq_2 equal_fold_def case_literal)
qed

section \<open>A running service\<close>

text \<open>The mails that were sent, as the extension of the session.\<close>

type_synonym mailbox = "mail list"

definition sample_state :: "account_row list \<Rightarrow> (accounts, mailbox) session_scheme" where
  "sample_state users = \<lparr>ss_data = \<lparr>adb_users = users, adb_now = 9\<rparr>, ss_tx = NoTx, ss_count = 0, ss_fault = (\<lambda>_. None), \<dots> = []\<rparr>"

definition sample_engine :: "(accounts, mailbox) session_scheme engine" where
  "sample_engine = \<lparr>eg_create = (\<lambda>e p. eff_ret ''u2''), eg_login_with = (\<lambda>e p b. eff_ret (''a'', ''r'')),
     eg_login = (\<lambda>e p. if e = ''ada@example.org'' \<and> p = ''Secret1!secret'' then eff_ret (''token'', ''r'') else eff_throw (ESent ''goauth.ErrInvalidCredentials'')),
     eg_refresh = (\<lambda>t. eff_ret (''a'', ''r'')), eg_logout_token = (\<lambda>t. eff_ret ()), eg_logout_all = (\<lambda>u. eff_ret ()),
     eg_confirm_email = (\<lambda>t. eff_ret ()), eg_confirm_code = (\<lambda>i c. eff_ret ()), eg_request_email = (\<lambda>e. eff_ret ''t:v1:123456''),
     eg_request_reset = (\<lambda>e. eff_ret ''c1.123456''), eg_confirm_reset = (\<lambda>c p. eff_ret ())\<rparr>"

definition sample_env :: "(accounts, mailbox) session_scheme auth_env" where
  "sample_env = \<lparr>ax_engine = Some sample_engine, ax_sender = Some (\<lambda>m s. (Inr (), s\<lparr>session.more := m # session.more s\<rparr>)), ax_base = [],
     ax_url = (\<lambda>b. None), ax_jwt = (\<lambda>t. Inr (ExpInteger 7)), ax_category = (\<lambda>e. None), ax_repo = True, ax_store = True, ax_uuid = Some\<rparr>"

definition ada :: account_row where
  "ada = \<lparr>acc_id = ''u1'', acc_email = ''Ada@example.org'', acc_name = ''Ada'', acc_hash = ''h1'', acc_version = 3, acc_verified = True, acc_updated = 0\<rparr>"

lemma normalized_ada: "auth_normalizeEmail ''Ada@example.org'' = ''ada@example.org''" "auth_normalizeEmail ''ada@example.org'' = ''ada@example.org''"
  by (simp_all add: auth_normalizeEmail_def trim_literal case_literal)

lemmas lookup_run = LookupUserByEmail_def LookupUserByID_def lookup_query_def stmt_user_by_identifier_def stmt_user_by_id_def
  RelationalQueryOne_def run_stmt_def eff_defs tick_def cast_uuid_def lookup_of_def equal_fold_def

lemma forgot_password_hides_accounts_witness:
  "fst (ForgotPassword sample_env ''ada@example.org'' (sample_state [ada])) = fst (ForgotPassword sample_env ''ada@example.org'' (sample_state []))"
proof -
  have eg: "ax_engine sample_env = Some sample_engine" by (simp add: sample_env_def)
  obtain u s1 where 1: "LookupUserByEmail (ax_store sample_env) (auth_normalizeEmail ''ada@example.org'') (sample_state [ada]) = (Inr u, s1)"
    by (simp add: normalized_ada sample_env_def sample_state_def ada_def lookup_run case_literal)
  obtain v t1 where 2: "LookupUserByEmail (ax_store sample_env) (auth_normalizeEmail ''ada@example.org'') (sample_state []) = (Inr v, t1)"
    by (simp add: normalized_ada sample_env_def sample_state_def lookup_run)
  have 3: "fst (eg_request_reset sample_engine (auth_normalizeEmail ''ada@example.org'') s1)
      = fst (eg_request_reset sample_engine (auth_normalizeEmail ''ada@example.org'') t1)"
    by (simp add: sample_engine_def eff_ret_def)
  show ?thesis
    by (rule forgot_password_hides_accounts [OF eg 1 2 3]) (auto simp: sample_env_def)
qed

lemma change_password_order_witness:
  "fst (ConfirmChangePassword sample_env ''u1'' \<lparr>chr_challenge = ''c1'', chr_code = ''123456'', chr_current = ''Secret1!secret'',
     chr_password = ''Other2!other'', chr_confirm = ''Other2!other''\<rparr> (sample_state [ada]))
   = Inr (zero_status\<lparr>sta_message := ''Password changed successfully.''\<rparr>)"
proof -
  have 1: "ax_repo sample_env" "ax_engine sample_env = Some sample_engine" by (simp_all add: sample_env_def)
  obtain s1 where 2: "LookupUserByID (ax_store sample_env) (ax_uuid sample_env) (trim_space ''u1'') (sample_state [ada]) = (Inr (Some (lookup_of ada)), s1)"
    by (simp add: trim_literal sample_env_def sample_state_def ada_def lookup_run)
  show ?thesis
    unfolding change_password_order [OF 1 2]
    by (simp add: sample_engine_def eff_ret_def normalized_ada lookup_of_def ada_def trim_literal)
qed

definition silent_env :: "(accounts, mailbox) session_scheme auth_env" where
  "silent_env = with_sender sample_env (Some (\<lambda>m s. if account_address (ss_data (sample_state [ada])) (ml_to m)
      then (Inr (), s\<lparr>session.more := m # session.more s\<rparr>) else (Inl (ESent ''email.ErrInvalidRecipient''), s)))"

lemma mails_reach_accounts_only_witness:
  "ForgotPassword silent_env ''eve@example.org'' (sample_state [ada]) = ForgotPassword sample_env ''eve@example.org'' (sample_state [ada])"
proof -
  have "same_for_accounts (ss_data (sample_state [ada])) (ax_sender sample_env) (ax_sender silent_env)"
    by (auto simp: same_for_accounts_def sample_env_def silent_env_def)
  from mails_reach_accounts_only [OF this] show ?thesis by (simp add: silent_env_def)
qed

lemma otp_challenge_roundtrip_witness:
  "splitPasswordResetOTPChallenge (joinPasswordResetOTPChallenge ''c1'' ''123456'') = Inr (''c1'', ''123456'')"
  using otp_challenge_roundtrip [of "''c1''" "''123456''"] by (simp add: trim_literal isNumericCode_def less_eq_char_def)

text \<open>A password with blanks at an end passes the checks of a signup, and its owner can sign in, but every change of the
  password compares it without the blanks.\<close>

lemma padded_password_refused:
  assumes "ax_repo env" "ax_engine env = Some eg" "LookupUserByID (ax_store env) (ax_uuid env) (trim_space uid) s = (Inr (Some u), s1)"
    and exact: "\<And>p st. p \<noteq> password \<Longrightarrow> eg_login eg (auth_normalizeEmail (ul_email u)) p st = (Inl (ESent ''goauth.ErrInvalidCredentials''), st)"
    and padded: "trim_space password \<noteq> password" "chr_current req = password" and uncategorised: "ax_category env (ESent ''goauth.ErrInvalidCredentials'') = None"
  shows "\<exists>e. ConfirmChangePassword env uid req s = (Inl e, s1) \<and> err_status e = 401"
proof -
  have "current_user env uid s = (Inr u, s1)"
    using assms(3) by (simp add: current_user_def eff_bind_def eff_ret_def)
  then show ?thesis using assms(1,2) padded uncategorised exact [of "trim_space password"]
    by (simp add: ConfirmChangePassword_def need_repo_def authEngine_def verifyCurrentPassword_def eff_bind_def [of "current_user _ _"]
          eff_bind_map_err eff_bind_def [of "eff_bind _ _"] mapAuthTokenError_def caused_def)
qed

text \<open>A resent verification names its challenge only for an account that is still unverified, so the answer tells whether
  there is one.\<close>

lemma resend_tells_account:
  "fst (ResendVerification sample_env ''ada@example.org'' (sample_state [ada\<lparr>acc_verified := False\<rparr>]))
     = Inr (zero_status\<lparr>sta_status := ''sent'', sta_verification := ''v1''\<rparr>)"
  "fst (ResendVerification sample_env ''ada@example.org'' (sample_state [])) = Inr (zero_status\<lparr>sta_status := ''sent''\<rparr>)"
proof -
  have split: "splitVerificationChallenge ''t:v1:123456'' = Inr (''v1'', ''123456'')"
    by (simp add: splitVerificationChallenge_def trim_literal numeral_3_eq_3)
  have found: "\<exists>t. LookupUserByEmail True ''ada@example.org'' (sample_state [ada\<lparr>acc_verified := False\<rparr>])
      = (Inr (Some \<lparr>ul_id = ''u1'', ul_email = ''Ada@example.org'', ul_verified = False\<rparr>), t)"
    by (simp add: normalized_ada sample_state_def ada_def lookup_run case_literal)
  have absent: "\<exists>t. LookupUserByEmail True ''ada@example.org'' (sample_state []) = (Inr None, t)"
    by (simp add: normalized_ada sample_state_def lookup_run)
  note run = ResendVerification_def need_repo_def authEngine_def normalized_ada sample_engine_def split eff_defs
  show "fst (ResendVerification sample_env ''ada@example.org'' (sample_state [ada\<lparr>acc_verified := False\<rparr>]))
     = Inr (zero_status\<lparr>sta_status := ''sent'', sta_verification := ''v1''\<rparr>)"
    using found by (auto simp: sample_env_def run sendVerificationEmail_def send_mail_def Let_def)
  show "fst (ResendVerification sample_env ''ada@example.org'' (sample_state [])) = Inr (zero_status\<lparr>sta_status := ''sent''\<rparr>)"
    using absent by (auto simp: sample_env_def run Let_def)
qed

end
