(* ===== verification/Go_Duration.thy ===== *)
theory Go_Duration
  imports Go_Numbers
begin

text \<open>
  Durations as the program reads and prints them: \<open>time.ParseDuration\<close> and
  \<open>time.Duration.String\<close> of Go's standard library. A duration is its number of nanoseconds, an integer
  in the signed 64-bit range. The fraction of a unit is a product of floats in Go: \<open>frac f unit k\<close>,
  the nanoseconds of \<open>f / 10 ^ k\<close> units, is an argument of the parser.
\<close>

section \<open>Parsing\<close>

abbreviation "two63 \<equiv> 9223372036854775808 :: int"

text \<open>\<open>leadingInt\<close>: the value of the leading digits, an error past \<open>2 ^ 63\<close>, and the rest.\<close>

fun leadingInt :: "int \<Rightarrow> string \<Rightarrow> (int \<times> string) option" where
  "leadingInt x [] = Some (x, [])"
| "leadingInt x (c # s) =
     (case digit_val c of None \<Rightarrow> Some (x, c # s)
      | Some d \<Rightarrow> if two63 div 10 < x then None
          else if two63 < 10 * x + int d then None else leadingInt (10 * x + int d) s)"

text \<open>\<open>leadingFraction\<close>: digits past the range are skipped; the number of digits that count is the
  exponent of the scale.\<close>

fun leadingFraction :: "bool \<Rightarrow> int \<Rightarrow> nat \<Rightarrow> string \<Rightarrow> int \<times> nat \<times> string" where
  "leadingFraction overflow x k [] = (x, k, [])"
| "leadingFraction overflow x k (c # s) =
     (case digit_val c of None \<Rightarrow> (x, k, c # s)
      | Some d \<Rightarrow> if overflow \<or> (two63 - 1) div 10 < x \<or> two63 < 10 * x + int d then leadingFraction True x k s
          else leadingFraction False (10 * x + int d) (k + 1) s)"

lemma leadingInt_shorter: "leadingInt x s = Some (y, t) \<Longrightarrow> length t \<le> length s"
  by (induction x s rule: leadingInt.induct) (auto split: option.splits if_splits)

lemma leadingFraction_shorter: "leadingFraction b x k s = (y, j, t) \<Longrightarrow> length t \<le> length s"
  by (induction b x k s rule: leadingFraction.induct) (auto split: option.splits if_splits)

definition unit_names :: "(string \<times> int) list" where
  "unit_names =
     [(''ns'', 1), (''us'', 1000), ([CHR 0xC2, CHR 0xB5, CHR ''s''], 1000), ([CHR 0xCE, CHR 0xBC, CHR ''s''], 1000),
      (''ms'', 1000000), (''s'', 1000000000), (''m'', 60000000000), (''h'', 3600000000000)]"

definition unit_char :: "char \<Rightarrow> bool" where
  "unit_char c \<longleftrightarrow> c \<noteq> CHR ''.'' \<and> digit_val c = None"

text \<open>One term: digits, an optional fraction, a unit. The number of nanoseconds is checked against
  \<open>2 ^ 63\<close>.\<close>

definition scan_fraction :: "string \<Rightarrow> int \<times> nat \<times> string" where
  "scan_fraction s = (if s \<noteq> [] \<and> hd s = CHR ''.'' then leadingFraction False 0 0 (tl s) else (0, 0, s))"

definition has_fraction :: "string \<Rightarrow> string \<Rightarrow> bool" where
  "has_fraction s rest \<longleftrightarrow> s \<noteq> [] \<and> hd s = CHR ''.'' \<and> length rest \<noteq> length (tl s)"

definition term_value :: "(int \<Rightarrow> int \<Rightarrow> nat \<Rightarrow> nat) \<Rightarrow> int \<Rightarrow> int \<Rightarrow> nat \<Rightarrow> int \<Rightarrow> int option" where
  "term_value frac v f k unit =
     (if two63 div unit < v then None
      else let w = v * unit + (if 0 < f then int (frac f unit k) else 0) in if two63 < w then None else Some w)"

definition duration_term :: "(int \<Rightarrow> int \<Rightarrow> nat \<Rightarrow> nat) \<Rightarrow> string \<Rightarrow> (int \<times> string) option" where
  "duration_term frac s =
     (if hd s \<noteq> CHR ''.'' \<and> digit_val (hd s) = None then None
      else case leadingInt 0 s of None \<Rightarrow> None
      | Some (v, s1) \<Rightarrow> (case scan_fraction s1 of (f, k, s2) \<Rightarrow>
          if length s1 = length s \<and> \<not> has_fraction s1 s2 then None
          else if takeWhile unit_char s2 = [] then None
          else case map_of unit_names (takeWhile unit_char s2) of None \<Rightarrow> None
          | Some unit \<Rightarrow> (case term_value frac v f k unit of None \<Rightarrow> None
              | Some w \<Rightarrow> Some (w, dropWhile unit_char s2))))"

lemma scan_fraction_shorter: "scan_fraction s = (f, k, t) \<Longrightarrow> length t \<le> length s"
  by (auto simp: scan_fraction_def dest!: leadingFraction_shorter split: if_splits)

lemma dropWhile_shorter: "takeWhile P s \<noteq> [] \<Longrightarrow> length (dropWhile P s) < length s"
  by (cases s) (auto simp: less_Suc_eq_le length_dropWhile_le split: if_splits)

lemma duration_term_shorter: "duration_term frac s = Some (w, r) \<Longrightarrow> length r < length s"
  by (fastforce simp: duration_term_def split: if_splits option.splits prod.splits
      dest: leadingInt_shorter scan_fraction_shorter dropWhile_shorter)

text \<open>The terms of a duration, added up; every sum is checked.\<close>

function duration_terms :: "(int \<Rightarrow> int \<Rightarrow> nat \<Rightarrow> nat) \<Rightarrow> int \<Rightarrow> string \<Rightarrow> int option" where
  "duration_terms frac d s =
     (if s = [] then Some d
      else case duration_term frac s of None \<Rightarrow> None
      | Some (w, r) \<Rightarrow> if two63 < d + w then None else duration_terms frac (d + w) r)"
  by pat_completeness auto

termination
  by (relation "measure (\<lambda>(frac, d, s). length s)") (auto dest: duration_term_shorter)

declare duration_terms.simps [simp del]

lemma leadingInt_nonneg: "leadingInt x s = Some (y, t) \<Longrightarrow> 0 \<le> x \<Longrightarrow> 0 \<le> y"
  by (induction x s rule: leadingInt.induct) (auto split: option.splits if_splits)

lemma unit_names_pos: "map_of unit_names u = Some n \<Longrightarrow> 0 < n"
  by (simp add: unit_names_def split: if_splits)

lemma duration_term_nonneg: "duration_term frac s = Some (w, r) \<Longrightarrow> 0 \<le> w"
  by (fastforce simp: duration_term_def term_value_def Let_def split: if_splits option.splits prod.splits
      dest: leadingInt_nonneg unit_names_pos)

lemma duration_terms_bounds: "duration_terms frac d s = Some e \<Longrightarrow> 0 \<le> d \<Longrightarrow> d \<le> two63 \<Longrightarrow> 0 \<le> e \<and> e \<le> two63"
proof (induction frac d s rule: duration_terms.induct)
  case (1 frac d s)
  show ?case
  proof (cases "s = []")
    case True
    then show ?thesis using "1.prems" by (simp add: duration_terms.simps [of frac d])
  next
    case False
    with "1.prems"(1) obtain w r where w: "duration_term frac s = Some (w, r)" "d + w \<le> two63"
        "duration_terms frac (d + w) r = Some e"
      by (auto simp: duration_terms.simps [of frac d s] not_less split: if_splits option.splits)
    then show ?thesis
      using "1.IH" [OF False w(1) refl] "1.prems"(2) duration_term_nonneg [OF w(1)] by simp
  qed
qed

definition ParseDuration :: "(int \<Rightarrow> int \<Rightarrow> nat \<Rightarrow> nat) \<Rightarrow> string \<Rightarrow> int option" where
  "ParseDuration frac s =
     (let neg = (s \<noteq> [] \<and> hd s = CHR ''-'');
          body = (if s \<noteq> [] \<and> (hd s = CHR ''-'' \<or> hd s = CHR ''+'') then tl s else s)
      in if body = ''0'' then Some 0
         else if body = [] then None
         else case duration_terms frac 0 body of None \<Rightarrow> None
              | Some d \<Rightarrow> if neg then Some (- d) else if two63 - 1 < d then None else Some d)"

lemma ParseDuration_range: "ParseDuration frac s = Some d \<Longrightarrow> in_int64 d"
  by (auto simp: ParseDuration_def Let_def in_int64_def dest!: duration_terms_bounds split: option.splits if_splits)

section \<open>Printing\<close>

definition pad_left :: "nat \<Rightarrow> string \<Rightarrow> string" where
  "pad_left n s = replicate (n - length s) (CHR ''0'') @ s"

text \<open>\<open>fmtFrac\<close>: no trailing zeros, and no point when the fraction is zero.\<close>

definition frac_text :: "nat \<Rightarrow> int \<Rightarrow> string" where
  "frac_text prec u =
     (let r = u mod 10 ^ prec; digits = rev (dropWhile (\<lambda>c. c = CHR ''0'') (rev (pad_left prec (itoa r))))
      in if r = 0 then [] else CHR ''.'' # digits)"

definition decimal :: "nat \<Rightarrow> int \<Rightarrow> string" where
  "decimal prec u = itoa (u div 10 ^ prec) @ frac_text prec u"

definition Duration_String :: "int \<Rightarrow> string" where
  "Duration_String d =
     (let u = \<bar>d\<bar>; sign = (if d < 0 then ''-'' else []) in
      if u = 0 then ''0s''
      else if u < 1000 then sign @ itoa u @ ''ns''
      else if u < 1000000 then sign @ decimal 3 u @ [CHR 0xC2, CHR 0xB5, CHR ''s'']
      else if u < 1000000000 then sign @ decimal 6 u @ ''ms''
      else let total = u div 1000000000; secs_text = itoa (total mod 60) @ frac_text 9 u @ ''s'';
               minutes = total div 60; hours = minutes div 60
           in sign @ (if minutes = 0 then []
                      else (if hours = 0 then [] else itoa hours @ ''h'') @ itoa (minutes mod 60) @ ''m'') @ secs_text)"

lemma Duration_String_examples:
  "Duration_String 90000000000 = ''1m30s''" "Duration_String 1500000 = ''1.5ms''"
  "Duration_String (-3600000000000) = ''-1h0m0s''"
  unfolding Duration_String_def decimal_def frac_text_def pad_left_def itoa_def Let_def
  by (simp_all add: show_nat.simps digit_char_def char_of_def bit_0)

lemma ParseDuration_examples:
  "ParseDuration frac ''1h30m'' = Some 5400000000000" "ParseDuration frac ''-15s'' = Some (-15000000000)"
  "ParseDuration frac ''10'' = None" "ParseDuration frac [] = None"
  by (simp_all add: ParseDuration_def duration_terms.simps duration_term_def scan_fraction_def has_fraction_def
      term_value_def digit_val_def unit_names_def unit_char_def)

lemma ParseDuration_1m: "ParseDuration frac ''1m'' = Some 60000000000"
  by (simp add: ParseDuration_def duration_terms.simps duration_term_def scan_fraction_def has_fraction_def
      term_value_def digit_val_def unit_names_def unit_char_def)

end
