(* ===== verification/Config_Lint.thy ===== *)
theory Config_Lint
  imports Config
begin

text \<open>
  \<open>Lint\<close> (\<open>internal/core/config/config.go\<close>): the checks a configuration passes before the process
  starts, in their order, and the warnings about fallback secrets. A function that returns at the first failing
  check is \<open>first_error\<close> of the list of its checks.
\<close>

section \<open>Lists of checks\<close>

fun first_error :: "err option list \<Rightarrow> err option" where
  "first_error [] = None"
| "first_error (None # cs) = first_error cs"
| "first_error (Some e # cs) = Some e"

lemma first_error_None: "first_error cs = None \<longleftrightarrow> (\<forall>c\<in>set cs. c = None)"
  by (induction cs rule: first_error.induct) auto

lemma first_error_Cons [simp]: "first_error (c # cs) = None \<longleftrightarrow> c = None \<and> first_error cs = None"
  by (cases c) auto

lemma first_error_append [simp]: "first_error (cs @ ds) = None \<longleftrightarrow> first_error cs = None \<and> first_error ds = None"
  by (induction cs rule: first_error.induct) auto

definition fail_if :: "bool \<Rightarrow> string \<Rightarrow> err option" where
  "fail_if failing msg = (if failing then Some (EText msg) else None)"

lemma fail_if_None [simp]: "fail_if b msg = None \<longleftrightarrow> \<not> b"
  by (simp add: fail_if_def)

section \<open>Helpers\<close>

definition containsWildcard :: "string list \<Rightarrow> bool" where
  "containsWildcard items \<longleftrightarrow> list_ex (\<lambda>item. trim_space item = ''*'') items"

definition origin_error :: "parsers \<Rightarrow> string \<Rightarrow> string \<Rightarrow> err option" where
  "origin_error lb label origin =
     (let trimmed = trim_space origin;
          invalid = Some (EText (label @ '' contains invalid origin: '' @ go_quote origin)) in
      if trimmed = [] then None
      else if trimmed = ''*'' \<or> equal_fold trimmed ''null'' then None
      else case lb_url lb trimmed of None \<Rightarrow> invalid
      | Some u \<Rightarrow>
          if url_scheme u = [] \<or> url_host u = [] then invalid
          else fail_if (url_path u \<noteq> [] \<or> url_raw_query u \<noteq> [] \<or> url_fragment u \<noteq> [])
                 (label @ '' origin must not include path, query, or fragment: '' @ go_quote origin))"

definition validateOrigins :: "parsers \<Rightarrow> string \<Rightarrow> string list \<Rightarrow> err option" where
  "validateOrigins lb label origins = first_error (map (origin_error lb label) origins)"

definition token_error :: "string \<Rightarrow> string \<Rightarrow> err option" where
  "token_error label item =
     (let trimmed = trim_space item in
      if trimmed = [] then None
      else fail_if (list_ex (\<lambda>c. c \<in> {CHR '' '', CHR 0x09, CHR 0x0D, CHR 0x0A}) trimmed \<or> contains trimmed '','')
             (label @ '' contains invalid token: '' @ go_quote item))"

definition validateTokens :: "string \<Rightarrow> string list \<Rightarrow> err option" where
  "validateTokens label items = first_error (map (token_error label) items)"

definition proxy_error :: "parsers \<Rightarrow> string \<Rightarrow> err option" where
  "proxy_error lb item =
     (let trimmed = trim_space item in
      if trimmed = [] then None
      else if contains trimmed ''/'' then fail_if (\<not> lb_cidr lb trimmed) (''http trusted proxy is invalid cidr: '' @ go_quote item)
      else fail_if (\<not> lb_ip lb trimmed) (''http trusted proxy is invalid ip: '' @ go_quote item))"

definition validateTrustedProxies :: "parsers \<Rightarrow> string list \<Rightarrow> err option" where
  "validateTrustedProxies lb items = first_error (map (proxy_error lb) items)"

text \<open>An excluded path is not empty and starts with a slash; the access log does not trim it.\<close>

definition exclude_path_error :: "(string \<Rightarrow> string) \<Rightarrow> string \<Rightarrow> string \<Rightarrow> err option" where
  "exclude_path_error trim label p =
     (if trim p = [] then Some (EText (label @ '' exclude path cannot be empty''))
      else fail_if (hd p \<noteq> CHR ''/'') (label @ '' exclude path must start with '' @ [CHR 0x27, CHR ''/'', CHR 0x27] @ '': '' @ go_quote p))"

definition lintSenderIdentity :: "parsers \<Rightarrow> string \<Rightarrow> string \<Rightarrow> bool \<Rightarrow> err option" where
  "lintSenderIdentity lb name email required =
     (let trimmedName = trim_space name; trimmedEmail = trim_space email in
      if required \<and> trimmedEmail = [] then Some (EText ''email is required'')
      else if required \<and> trimmedName = [] then Some (EText ''name is required'')
      else if trimmedEmail = [] then None
      else case lb_address lb trimmedEmail of None \<Rightarrow> Some (EText ''email must be a valid address'')
      | Some address \<Rightarrow> fail_if (\<not> equal_fold address trimmedEmail) ''email must be a valid address'')"

definition wrapped :: "string \<Rightarrow> err option \<Rightarrow> err option" where
  "wrapped label r = (case r of None \<Rightarrow> None | Some e \<Rightarrow> Some (EWrap label [e]))"

lemma wrapped_None [simp]: "wrapped label r = None \<longleftrightarrow> r = None"
  by (simp add: wrapped_def split: option.split)

text \<open>\<open>(*url.URL).Hostname\<close>: the host without its port and without the brackets of an IPv6 address.\<close>

definition valid_optional_port :: "string \<Rightarrow> bool" where
  "valid_optional_port port \<longleftrightarrow> port = [] \<or> (hd port = CHR '':'' \<and> list_all (\<lambda>c. digit_val c \<noteq> None) (tl port))"

definition split_host :: "string \<Rightarrow> string" where
  "split_host hostPort =
     (let suffix = takeWhile (\<lambda>c. c \<noteq> CHR '':'') (rev hostPort); n = length hostPort - length suffix - 1 in
      if CHR '':'' \<in> set hostPort \<and> valid_optional_port (drop n hostPort) then take n hostPort else hostPort)"

definition Hostname :: "url \<Rightarrow> string" where
  "Hostname u =
     (let host = split_host (url_host u) in
      if host \<noteq> [] \<and> hd host = CHR ''['' \<and> hd (rev host) = CHR '']'' then butlast (tl host) else host)"

definition isLocalhost :: "string \<Rightarrow> bool" where
  "isLocalhost host =
     (let trimmed = trim_space host in
      equal_fold trimmed ''localhost'' \<or> trimmed = ''127.0.0.1'' \<or> trimmed = ''::1'')"

section \<open>Production\<close>

definition permissionContextSecretEnvKey :: string where
  "permissionContextSecretEnvKey = ''PROJECTBOOK_PERMISSION_CONTEXT_SECRET''"

definition permissionContextDevFallbackSecret :: string where
  "permissionContextDevFallbackSecret = ''projectbook-dev-permission-context-secret''"

definition lintProductionPermissionContextSecret :: "environment \<Rightarrow> err option" where
  "lintProductionPermissionContextSecret env =
     (let secret = trim_space (Getenv env permissionContextSecretEnvKey) in
      first_error
        [fail_if (length secret < 32) (permissionContextSecretEnvKey @ '' must be set to at least 32 characters in production''),
         fail_if (secret = permissionContextDevFallbackSecret)
           (permissionContextSecretEnvKey @ '' must not use the development fallback secret in production'')])"

definition lintProductionWebAppBaseURL :: "parsers \<Rightarrow> string \<Rightarrow> err option" where
  "lintProductionWebAppBaseURL lb raw =
     (let baseURL = trim_space raw; relative = Some (EText ''web app base url must be an absolute url in production'') in
      if baseURL = [] then Some (EText ''web app base url cannot be empty in production'')
      else case lb_url lb baseURL of None \<Rightarrow> relative
      | Some u \<Rightarrow>
          if url_scheme u = [] \<or> url_host u = [] then relative
          else fail_if (isLocalhost (trim_space (Hostname u))) ''web app base url must not target localhost in production'')"

definition lintStrongMetricsAuthToken :: "string \<Rightarrow> err option" where
  "lintStrongMetricsAuthToken raw =
     (let token = trim_space raw in
      first_error
        [fail_if (token = []) ''metrics auth token cannot be empty in production'',
         fail_if (equal_fold token ''change-me'') ''metrics auth token must not use placeholder values in production'',
         fail_if (length token < 24) ''metrics auth token must be at least 24 characters in production''])"

definition hasNonEmptyEnv :: "environment \<Rightarrow> string \<Rightarrow> bool" where
  "hasNonEmptyEnv env key \<longleftrightarrow> (case env key of None \<Rightarrow> False | Some v \<Rightarrow> trim_space v \<noteq> [])"

definition hasAnyNonEmptyEnv :: "environment \<Rightarrow> string list \<Rightarrow> bool" where
  "hasAnyNonEmptyEnv env keys \<longleftrightarrow> list_ex (hasNonEmptyEnv env) keys"

definition lintRequiredProductionEnvironmentVariables :: "environment \<Rightarrow> config \<Rightarrow> err option" where
  "lintRequiredProductionEnvironmentVariables env c =
     first_error
       [fail_if (\<not> hasAnyNonEmptyEnv env [''POSTGRES_URL'', ''DATABASE_URL''])
          ''POSTGRES_URL or DATABASE_URL must be explicitly set in production'',
        fail_if (\<not> hasAnyNonEmptyEnv env [''REDIS_ADDR'', ''REDIS_URL''])
          ''REDIS_ADDR or REDIS_URL must be explicitly set in production'',
        fail_if (\<not> hasNonEmptyEnv env ''MONGO_URL'') ''MONGO_URL must be explicitly set in production'',
        fail_if (\<not> hasNonEmptyEnv env ''MONGO_DB'') ''MONGO_DB must be explicitly set in production'',
        fail_if (\<not> hasNonEmptyEnv env permissionContextSecretEnvKey)
          (permissionContextSecretEnvKey @ '' must be explicitly set in production''),
        fail_if (\<not> hasNonEmptyEnv env ''WEB_APP_BASE_URL'') ''WEB_APP_BASE_URL must be explicitly set in production'',
        fail_if (em_enabled (cf_email c) \<and> \<not> hasNonEmptyEnv env ''RESEND_API_KEY'')
          ''RESEND_API_KEY must be explicitly set when email is enabled in production'',
        fail_if (mt_enabled (cf_metrics c) \<and> \<not> hasNonEmptyEnv env ''METRICS_AUTH_TOKEN'')
          ''METRICS_AUTH_TOKEN must be explicitly set when metrics is enabled in production'']"

section \<open>The variables\<close>

text \<open>A variable that is set, also to the empty text, must parse as its type.\<close>

datatype env_type = VBool | VInt | VInt32 | VInt64 | VDuration | VFloat

fun parses :: "parsers \<Rightarrow> env_type \<Rightarrow> string \<Rightarrow> bool" where
  "parses lb VBool v = (ParseBool v \<noteq> None)"
| "parses lb VInt v = (parse_int v \<noteq> None)"
| "parses lb VInt32 v = (parse_int32 v \<noteq> None)"
| "parses lb VInt64 v = (parse_int v \<noteq> None)"
| "parses lb VDuration v = (ParseDuration (lb_frac lb) v \<noteq> None)"
| "parses lb VFloat v = (lb_float lb v \<noteq> None)"

definition lint_env :: "parsers \<Rightarrow> environment \<Rightarrow> string \<times> env_type \<Rightarrow> err option" where
  "lint_env lb env kt =
     (case env (fst kt) of None \<Rightarrow> None
      | Some v \<Rightarrow> fail_if (\<not> parses lb (snd kt) v) (''invalid '' @ fst kt @ '': '' @ go_quote v))"

text \<open>The variables of the long run of checks, in their order.\<close>

definition linted_variables :: "(string \<times> env_type) list" where
  "linted_variables =
     [(''HTTP_MIDDLEWARE_ACCESS_LOG_ENABLED'', VBool),
      (''HTTP_MIDDLEWARE_CORS_ENABLED'', VBool),
      (''HTTP_MIDDLEWARE_CORS_ALLOW_CREDENTIALS'', VBool),
      (''HTTP_MIDDLEWARE_CORS_ALLOW_PRIVATE_NETWORK'', VBool),
      (''AUTH_ENABLED'', VBool),
      (''EMAIL_ENABLED'', VBool),
      (''RATELIMIT_ENABLED'', VBool),
      (''RATELIMIT_FAIL_OPEN'', VBool),
      (''RATELIMIT_DEFAULT_LIMIT'', VInt),
      (''RATELIMIT_DEFAULT_WINDOW'', VDuration),
      (''HTTP_MAX_HEADER_BYTES'', VInt),
      (''HTTP_MIDDLEWARE_MAX_BODY_BYTES'', VInt64),
      (''HTTP_READ_HEADER_TIMEOUT'', VDuration),
      (''HTTP_READ_TIMEOUT'', VDuration),
      (''HTTP_WRITE_TIMEOUT'', VDuration),
      (''HTTP_IDLE_TIMEOUT'', VDuration),
      (''HTTP_SHUTDOWN_TIMEOUT'', VDuration),
      (''HTTP_MIDDLEWARE_CORS_MAX_AGE'', VDuration),
      (''CACHE_TAG_VERSION_CACHE_TTL'', VDuration),
      (''PERMISSIONS_ENABLED'', VBool),
      (''PERMISSIONS_DB_QUERY_TIMEOUT'', VDuration),
      (''PERMISSIONS_REDIS_TTL'', VDuration),
      (''PERMISSIONS_BACKFILL_TIMEOUT'', VDuration),
      (''MONGO_ENABLED'', VBool),
      (''MONGO_MAX_POOL_SIZE'', VInt),
      (''MONGO_MIN_POOL_SIZE'', VInt),
      (''MONGO_CONNECT_TIMEOUT'', VDuration),
      (''MONGO_STARTUP_PING_TIMEOUT'', VDuration),
      (''MONGO_HEALTH_CHECK_TIMEOUT'', VDuration),
      (''MONGO_BOOTSTRAP_ENABLED'', VBool),
      (''MONGO_BOOTSTRAP_TIMEOUT'', VDuration),
      (''HTTP_MIDDLEWARE_ACCESS_LOG_SAMPLE_RATE'', VFloat),
      (''HTTP_MIDDLEWARE_ACCESS_LOG_SLOW_THRESHOLD'', VDuration),
      (''HTTP_MIDDLEWARE_ACCESS_LOG_INCLUDE_USER_AGENT'', VBool),
      (''HTTP_MIDDLEWARE_ACCESS_LOG_INCLUDE_REMOTE_IP'', VBool),
      (''POSTGRES_ENABLED'', VBool),
      (''POSTGRES_MAX_CONNS'', VInt32),
      (''POSTGRES_MIN_CONNS'', VInt32),
      (''POSTGRES_CONN_MAX_LIFETIME'', VDuration),
      (''POSTGRES_CONN_MAX_IDLE_TIME'', VDuration),
      (''POSTGRES_STARTUP_PING_TIMEOUT'', VDuration),
      (''POSTGRES_HEALTH_CHECK_TIMEOUT'', VDuration),
      (''REDIS_ENABLED'', VBool),
      (''REDIS_DB'', VInt),
      (''REDIS_POOL_SIZE'', VInt),
      (''REDIS_MIN_IDLE_CONNS'', VInt),
      (''REDIS_DIAL_TIMEOUT'', VDuration),
      (''REDIS_READ_TIMEOUT'', VDuration),
      (''REDIS_WRITE_TIMEOUT'', VDuration),
      (''REDIS_STARTUP_PING_TIMEOUT'', VDuration),
      (''REDIS_HEALTH_CHECK_TIMEOUT'', VDuration),
      (''METRICS_ENABLED'', VBool),
      (''TRACING_ENABLED'', VBool),
      (''TRACING_SAMPLE_RATIO'', VFloat),
      (''TRACING_INSECURE'', VBool)]"

section \<open>The parts of Lint\<close>

definition lint_http :: "parsers \<Rightarrow> config \<Rightarrow> err option list" where
  "lint_http lb c =
     (let h = cf_http c; mw = ht_middleware h; cors = mw_cors mw in
     [fail_if (cf_service_name c = []) ''service name cannot be empty'',
      fail_if (trim_space (ht_addr h) = []) ''http addr cannot be empty'',
      fail_if (ht_read_header_timeout h \<le> 0) ''http read header timeout must be > 0'',
      fail_if (ht_read_timeout h \<le> 0 \<or> ht_write_timeout h \<le> 0) ''http read/write timeout must be > 0'',
      fail_if (ht_idle_timeout h \<le> 0) ''http idle timeout must be > 0'',
      fail_if (ht_shutdown_timeout h \<le> 0) ''http shutdown timeout must be > 0'',
      fail_if (ht_max_header_bytes h < 4096) (''http max header bytes too low: '' @ itoa (ht_max_header_bytes h)),
      fail_if (mw_max_body_bytes mw < 0) ''http middleware max body bytes must be >= 0'',
      fail_if (mw_request_timeout mw < 0) ''http middleware request timeout must be >= 0'',
      fail_if (mw_request_timeout mw > 0 \<and> mw_request_timeout mw > ht_write_timeout h)
        (''http middleware request timeout ('' @ Duration_String (mw_request_timeout mw)
           @ '') cannot exceed http write timeout ('' @ Duration_String (ht_write_timeout h) @ '')''),
      fail_if (float_less (al_sample_rate (mw_access_log mw)) 0 \<or> float_greater (al_sample_rate (mw_access_log mw)) 1)
        ''http middleware access log sample rate must be in [0,1]'',
      fail_if (al_slow_threshold (mw_access_log mw) < 0) ''http middleware access log slow threshold must be >= 0'',
      fail_if (co_max_age cors < 0) ''http middleware cors max age must be >= 0'',
      fail_if (co_allow_credentials cors \<and> containsWildcard (co_allow_origins cors))
        ''http middleware cors allow credentials cannot be used with wildcard allow origins'',
      fail_if (cc_tag_version_cache_ttl (cf_cache c) < 0) ''cache tag version cache ttl must be >= 0'',
      validateOrigins lb ''http middleware cors allow origins'' (co_allow_origins cors),
      validateOrigins lb ''http middleware cors deny origins'' (co_deny_origins cors),
      validateTokens ''http middleware cors allow methods'' (co_allow_methods cors),
      validateTokens ''http middleware cors allow headers'' (co_allow_headers cors),
      validateTokens ''http middleware cors expose headers'' (co_expose_headers cors),
      validateTrustedProxies lb (ci_trusted_proxies (mw_client_ip mw)),
      first_error (map (exclude_path_error trim_space ''http middleware tracing'') (mw_tracing_exclude_paths mw))])"

definition lint_auth_mode :: "config \<Rightarrow> err option" where
  "lint_auth_mode c =
     fail_if (to_lower (trim_space (au_mode (cf_auth c))) \<notin> {''jwt_only'', ''jwt-only'', ''jwtonly'', ''hybrid'', ''strict'', []})
       (''invalid auth mode: '' @ go_quote (au_mode (cf_auth c)) @ '' (valid: jwt_only, hybrid, strict)'')"

definition lint_email :: "parsers \<Rightarrow> config \<Rightarrow> err option" where
  "lint_email lb c =
     (let em = cf_email c; baseURL = trim_space (em_web_app_base_url em) in
      if \<not> em_enabled em then None
      else first_error
        [fail_if (trim_space (em_resend_api_key em) = []) ''resend api key cannot be empty when email is enabled'',
         fail_if (baseURL = []) ''web app base url cannot be empty when email is enabled'',
         fail_if (case lb_url lb baseURL of None \<Rightarrow> True | Some u \<Rightarrow> url_scheme u = [] \<or> url_host u = [])
           ''web app base url must be an absolute url when email is enabled'',
         wrapped ''transactional sender invalid''
           (lintSenderIdentity lb (em_transactional_sender_name em) (em_transactional_sender_email em) True),
         wrapped ''verification sender invalid''
           (lintSenderIdentity lb (em_verification_sender_name em) (em_verification_sender_email em) False),
         wrapped ''password reset sender invalid''
           (lintSenderIdentity lb (em_password_reset_sender_name em) (em_password_reset_sender_email em) False),
         wrapped ''password change sender invalid''
           (lintSenderIdentity lb (em_password_change_sender_name em) (em_password_change_sender_email em) False)])"

definition requiresProductionHardening :: "config \<Rightarrow> bool" where
  "requiresProductionHardening c \<longleftrightarrow> isProductionEnvironment (cf_env c) \<or> equal_fold (trim_space (cf_profile c)) ''prod''"

definition lint_production :: "parsers \<Rightarrow> environment \<Rightarrow> config \<Rightarrow> err option" where
  "lint_production lb env c =
     (if \<not> requiresProductionHardening c then None
      else first_error
        [lintProductionPermissionContextSecret env,
         lintProductionWebAppBaseURL lb (em_web_app_base_url (cf_email c)),
         if mt_enabled (cf_metrics c) then lintStrongMetricsAuthToken (mt_auth_token (cf_metrics c)) else None,
         lintRequiredProductionEnvironmentVariables env c])"

definition lint_features :: "config \<Rightarrow> err option list" where
  "lint_features c =
     (let postgres = pg_enabled (cf_postgres c); redis = rd_enabled (cf_redis c) in
     [fail_if (\<not> postgres) ''postgres must be enabled for api startup'',
      fail_if (\<not> redis) ''redis must be enabled for api startup'',
      fail_if (\<not> mg_enabled (cf_mongo c)) ''mongo must be enabled for api startup'',
      fail_if (au_enabled (cf_auth c) \<and> \<not> redis) ''auth enabled requires redis enabled'',
      fail_if (au_enabled (cf_auth c) \<and> \<not> postgres) ''auth enabled requires postgres enabled'',
      fail_if (rl_enabled (cf_rate_limit c) \<and> \<not> redis) ''ratelimit enabled requires redis enabled'',
      fail_if (cc_enabled (cf_cache c) \<and> \<not> redis) ''cache enabled requires redis enabled'',
      fail_if (rl_default_limit (cf_rate_limit c) \<le> 0) ''ratelimit default limit must be > 0'',
      fail_if (rl_default_window (cf_rate_limit c) \<le> 0) ''ratelimit default window must be > 0'',
      fail_if (cc_default_max_bytes (cf_cache c) \<le> 0) ''cache default max bytes must be > 0'',
      fail_if (pm_enabled (cf_permissions c) \<and> \<not> postgres) ''permissions enabled requires postgres enabled'',
      fail_if (pm_db_query_timeout (cf_permissions c) \<le> 0) ''permissions db query timeout must be > 0'',
      fail_if (pm_redis_ttl (cf_permissions c) \<le> 0) ''permissions redis ttl must be > 0'',
      fail_if (pm_backfill_timeout (cf_permissions c) \<le> 0) ''permissions backfill timeout must be > 0''])"

definition lint_mongo :: "mongo_config \<Rightarrow> err option list" where
  "lint_mongo m =
     [fail_if (trim_space (mg_url m) = []) ''mongo url cannot be empty'',
      fail_if (trim_space (mg_database m) = []) ''mongo database cannot be empty'',
      fail_if (mg_max_pool_size m \<le> 0) ''mongo max pool size must be > 0'',
      fail_if (mg_min_pool_size m < 0) ''mongo min pool size must be >= 0'',
      fail_if (mg_min_pool_size m > mg_max_pool_size m) ''mongo min pool size cannot exceed max pool size'',
      fail_if (mg_connect_timeout m \<le> 0) ''mongo connect timeout must be > 0'',
      fail_if (mg_startup_ping_timeout m \<le> 0) ''mongo startup ping timeout must be > 0'',
      fail_if (mg_health_check_timeout m \<le> 0) ''mongo health check timeout must be > 0'',
      fail_if (mg_bootstrap_timeout m \<le> 0) ''mongo bootstrap timeout must be > 0'']"

definition lint_fail_open :: "config \<Rightarrow> err option list" where
  "lint_fail_open c =
     (if isProductionEnvironment (cf_env c) then
        [fail_if (rl_enabled (cf_rate_limit c) \<and> rl_fail_open (cf_rate_limit c)) ''ratelimit fail-open cannot be enabled in prod'',
         fail_if (cc_enabled (cf_cache c) \<and> cc_fail_open (cf_cache c)) ''cache fail-open cannot be enabled in prod'']
      else [])"

definition lint_access_log_paths :: "config \<Rightarrow> err option" where
  "lint_access_log_paths c =
     first_error (map (exclude_path_error (\<lambda>p. p) ''http middleware access log'') (al_exclude_paths (mw_access_log (ht_middleware (cf_http c)))))"

definition lint_postgres :: "postgres_config \<Rightarrow> err option list" where
  "lint_postgres p =
     [fail_if (trim_space (pg_url p) = []) ''postgres url cannot be empty'',
      fail_if (pg_max_conns p \<le> 0) ''postgres max conns must be > 0'',
      fail_if (pg_min_conns p < 0) ''postgres min conns must be >= 0'',
      fail_if (pg_min_conns p > pg_max_conns p) ''postgres min conns cannot exceed max conns'',
      fail_if (pg_conn_max_lifetime p < 0) ''postgres conn max lifetime must be >= 0'',
      fail_if (pg_conn_max_idle_time p < 0) ''postgres conn max idle time must be >= 0'',
      fail_if (pg_startup_ping_timeout p \<le> 0) ''postgres startup ping timeout must be > 0'',
      fail_if (pg_health_check_timeout p \<le> 0) ''postgres health check timeout must be > 0'']"

definition lint_redis :: "redis_config \<Rightarrow> err option list" where
  "lint_redis r =
     [fail_if (trim_space (rd_addr r) = []) ''redis addr cannot be empty'',
      fail_if (rd_db r < 0) ''redis db must be >= 0'',
      fail_if (rd_pool_size r \<le> 0) ''redis pool size must be > 0'',
      fail_if (rd_min_idle_conns r < 0) ''redis min idle conns must be >= 0'',
      fail_if (rd_min_idle_conns r > rd_pool_size r) ''redis min idle conns cannot exceed pool size'',
      fail_if (rd_dial_timeout r \<le> 0) ''redis dial timeout must be > 0'',
      fail_if (rd_read_timeout r \<le> 0) ''redis read timeout must be > 0'',
      fail_if (rd_write_timeout r \<le> 0) ''redis write timeout must be > 0'',
      fail_if (rd_startup_ping_timeout r \<le> 0) ''redis startup ping timeout must be > 0'',
      fail_if (rd_health_check_timeout r \<le> 0) ''redis health check timeout must be > 0'']"

definition lint_metrics :: "config \<Rightarrow> err option list" where
  "lint_metrics c =
     (let m = cf_metrics c in
     [fail_if (mt_path m = []) ''metrics path cannot be empty'',
      fail_if (hd (mt_path m) \<noteq> CHR ''/'') (''metrics path must start with '' @ [CHR 0x27, CHR ''/'', CHR 0x27]),
      first_error (map (exclude_path_error trim_space ''metrics'') (mt_exclude_paths m)),
      fail_if (isProductionEnvironment (cf_env c) \<and> mt_enabled m \<and> trim_space (mt_auth_token m) = [])
        ''metrics auth token cannot be empty in prod when metrics is enabled''])"

definition lint_tuning :: "tuning_config \<Rightarrow> err option list" where
  "lint_tuning t =
     (let a = tu_auth_rate_limit t; ttl = tu_cache_ttl t in
     [fail_if (at_window a \<le> 0) ''tuning auth rate-limit window must be > 0'',
      fail_if (at_signup a \<le> 0 \<or> at_login a \<le> 0 \<or> at_verify a \<le> 0 \<or> at_password a \<le> 0
          \<or> at_refresh a \<le> 0 \<or> at_change_password a \<le> 0 \<or> at_logout a \<le> 0)
        ''tuning auth rate-limit values must be > 0'',
      fail_if (ct_fast_read ttl \<le> 0 \<or> ct_standard_read ttl \<le> 0 \<or> ct_dashboard ttl \<le> 0)
        ''tuning cache ttl values must be > 0''])"

definition lint_tracing :: "tracing_config \<Rightarrow> err option" where
  "lint_tracing t =
     (if \<not> tr_enabled t then None
      else first_error
        [fail_if (tr_service_name t = []) ''tracing service name cannot be empty when enabled'',
         fail_if (tr_otlp_endpoint t = []) ''tracing otlp endpoint cannot be empty when enabled'',
         fail_if (tr_exporter t \<noteq> ''otlpgrpc'') (''invalid tracing exporter: '' @ go_quote (tr_exporter t) @ '' (valid: otlpgrpc)''),
         fail_if (tr_sampler t \<notin> {''always_on'', ''always_off'', ''traceidratio''})
           (''invalid tracing sampler: '' @ go_quote (tr_sampler t) @ '' (valid: always_on, always_off, traceidratio)''),
         fail_if (float_less (tr_sample_ratio t) 0 \<or> float_greater (tr_sample_ratio t) 1) ''tracing sample ratio must be in [0,1]''])"

text \<open>The checks of single variables before the long run.\<close>

definition lint_variables :: "parsers \<Rightarrow> environment \<Rightarrow> err option list" where
  "lint_variables lb env =
     map (lint_env lb env) [(''HTTP_MIDDLEWARE_REQUEST_ID_ENABLED'', VBool), (''HTTP_MIDDLEWARE_RECOVERER_ENABLED'', VBool),
       (''HTTP_MIDDLEWARE_SECURITY_HEADERS_ENABLED'', VBool)]
     @ [case env ''HTTP_MIDDLEWARE_REQUEST_TIMEOUT'' of None \<Rightarrow> None
        | Some v \<Rightarrow> (case ParseDuration (lb_frac lb) v of
            None \<Rightarrow> Some (EText (''invalid HTTP_MIDDLEWARE_REQUEST_TIMEOUT: '' @ go_quote v))
          | Some d \<Rightarrow> fail_if (d < 0) ''http middleware request timeout must be >= 0''),
        case env ''HTTP_ADDR'' of None \<Rightarrow> None | Some v \<Rightarrow> fail_if (trim_space v = []) ''http addr cannot be empty'']
     @ map (lint_env lb env) linted_variables"

definition lint_log :: "log_config \<Rightarrow> err option list" where
  "lint_log l =
     [fail_if (lg_level l \<notin> {''debug'', ''info'', ''warn'', ''warning'', ''error'', ''fatal'', []})
        (''invalid log level: '' @ go_quote (lg_level l) @ '' (valid: debug, info, warn, error, fatal)''),
      fail_if (lg_format l \<notin> {''json'', ''text'', []})
        (''invalid log format: '' @ go_quote (lg_format l) @ '' (valid: json, text)'')]"

definition lint_profile :: "environment \<Rightarrow> err option" where
  "lint_profile env =
     (let profile = trim_space (Getenv env ''APP_PROFILE'') in
      if profile = [] then None
      else case resolveProfileDefaults profile of Inl e \<Rightarrow> Some e | Inr _ \<Rightarrow> None)"

definition Lint :: "parsers \<Rightarrow> environment \<Rightarrow> config \<Rightarrow> err option" where
  "Lint lb env c =
     first_error
       (lint_profile env # lint_http lb c @ [lint_auth_mode c, lint_email lb c, lint_production lb env c] @ lint_features c
        @ lint_mongo (cf_mongo c) @ lint_fail_open c @ [lint_access_log_paths c] @ lint_postgres (cf_postgres c)
        @ lint_redis (cf_redis c) @ lint_metrics c @ lint_tuning (cf_tuning c) @ [lint_tracing (cf_tracing c)]
        @ lint_variables lb env @ lint_log (cf_log c))"

text \<open>\<open>SensitiveFallbackWarnings\<close>, on a configuration that is not nil.\<close>

definition SensitiveFallbackWarnings :: "environment \<Rightarrow> config \<Rightarrow> string list" where
  "SensitiveFallbackWarnings env c =
     (let permissionSecret = trim_space (Getenv env permissionContextSecretEnvKey) in
      (if permissionSecret = []
       then [''PROJECTBOOK_PERMISSION_CONTEXT_SECRET is unset; runtime is using development fallback signing behavior'']
       else if permissionSecret = permissionContextDevFallbackSecret
       then [''PROJECTBOOK_PERMISSION_CONTEXT_SECRET is set to the known development fallback value'']
       else [])
      @ (if mt_enabled (cf_metrics c) \<and> env ''METRICS_AUTH_TOKEN'' = None
         then [''METRICS_AUTH_TOKEN is unset; runtime is using default metrics token behavior''] else [])
      @ (if em_enabled (cf_email c) \<and> env ''RESEND_API_KEY'' = None
         then [''RESEND_API_KEY is unset; runtime is using default email provider key behavior''] else []))"

end
