(* ===== verification/Ratelimit.thy ===== *)
theory Ratelimit
  imports Http Store Go_Numbers Go_Sha256
begin

text \<open>
  The fixed-window rate limiter (\<open>internal/core/ratelimit/ratelimit.go\<close>): rules, identities, keys,
  the Lua script as an atomic step on Redis counters, and the decision of a request. Durations
  are nanoseconds; the script's numbers are exact (Lua's doubles are, up to \<open>2 ^ 53\<close>).
\<close>

section \<open>Rules, requests, decisions\<close>

abbreviation "ScopeAuto \<equiv> ''auto''"
abbreviation "ScopeAnon \<equiv> ''anon''"
abbreviation "ScopeIP \<equiv> ''ip''"
abbreviation "ScopeUser \<equiv> ''user''"
abbreviation "ScopeProject \<equiv> ''project''"
abbreviation "ScopeToken \<equiv> ''token''"

datatype limit_outcome = OutcomeAllowed | OutcomeBlocked | OutcomeFailOpen | OutcomeError

type_synonym keyer = "request \<Rightarrow> string \<times> string"

record rule =
  ru_limit :: int
  ru_window :: int
  ru_scope :: string
  ru_keyer :: "keyer option"

record limit_request =
  lr_route :: string
  lr_scope :: string
  lr_identifier :: string
  lr_limit :: int
  lr_window :: int

record decision =
  dc_allowed :: bool
  dc_remaining :: int
  dc_retry_after :: int
  dc_outcome :: limit_outcome

definition limits_error :: "int \<Rightarrow> int \<Rightarrow> err option" where
  "limits_error limit window =
     (if limit \<le> 0 then Some (EText ''rate limit must be > 0'')
      else if window \<le> 0 then Some (EText ''rate limit window must be > 0'') else None)"

definition rule_validate :: "rule \<Rightarrow> err option" where
  "rule_validate r = limits_error (ru_limit r) (ru_window r)"

definition validateRequest :: "limit_request \<Rightarrow> err option" where
  "validateRequest r = limits_error (lr_limit r) (lr_window r)"

section \<open>Keys\<close>

definition underscore_spaces :: "string \<Rightarrow> string" where
  "underscore_spaces s = map (\<lambda>c. if c = CHR '' '' then CHR ''_'' else c) s"

definition limiter_normalizeRoute :: "string \<Rightarrow> string" where
  "limiter_normalizeRoute route =
     (let r = trim_space route in if r = [] then ''unknown'' else take 240 (underscore_spaces r))"

definition sanitizeIdentifier :: "string \<Rightarrow> string" where
  "sanitizeIdentifier id_text =
     (let trimmed = trim_space id_text in
      if trimmed = [] then []
      else take 128 (map (\<lambda>c. if c \<in> {CHR '' '', CHR 0x0A, CHR 0x0D, CHR 0x09} then CHR ''_'' else c) trimmed))"

definition BuildKey :: "string \<Rightarrow> string \<Rightarrow> string \<Rightarrow> string \<Rightarrow> string" where
  "BuildKey env route scope id_text =
     (let e = (if trim_space env = [] then ''dev'' else trim_space env);
          s = (if scope = [] \<or> scope = ScopeAuto then ScopeAnon else scope);
          i = (if sanitizeIdentifier id_text = [] then ''anonymous'' else sanitizeIdentifier id_text)
      in ''rl:'' @ e @ '':'' @ limiter_normalizeRoute route @ '':'' @ s @ '':'' @ i)"

definition normalizeKey :: "string \<times> string \<Rightarrow> string \<times> string" where
  "normalizeKey key = (case key of (scope, id_text) \<Rightarrow>
     (let s = (if scope = [] \<or> scope = ScopeAuto then ScopeAnon else scope);
          i = sanitizeIdentifier id_text
      in if i = [] then (ScopeAnon, ''anonymous'') else (s, i)))"

section \<open>Identities\<close>

abbreviation "anonymous \<equiv> (ScopeAnon, ''anonymous'')"

definition KeyByAnonymous :: keyer where
  "KeyByAnonymous r = anonymous"

text \<open>\<open>net.SplitHostPort\<close>: the host, when the address has the form host:port.\<close>

definition last_index :: "char \<Rightarrow> string \<Rightarrow> nat option" where
  "last_index c s = (if c \<in> set s then Some (length s - 1 - length (takeWhile (\<lambda>x. x \<noteq> c) (rev s))) else None)"

definition SplitHostPort :: "string \<Rightarrow> string option" where
  "SplitHostPort hp =
     (case last_index CHR '':'' hp of None \<Rightarrow> None
      | Some i \<Rightarrow>
        if hd hp = CHR ''[''
        then (let e = length (takeWhile (\<lambda>c. c \<noteq> CHR '']'') hp) in
              if e = length hp \<or> e + 1 \<noteq> i then None
              else if CHR ''['' \<in> set (drop 1 hp) \<or> CHR '']'' \<in> set (drop (e + 1) hp) then None
              else Some (drop 1 (take e hp)))
        else (let host = take i hp in
              if CHR '':'' \<in> set host then None
              else if CHR ''['' \<in> set hp \<or> CHR '']'' \<in> set hp then None
              else Some host))"

definition KeyByIP :: keyer where
  "KeyByIP r =
     (case ClientIPFromContext r of Some ip \<Rightarrow> (ScopeIP, ip)
      | None \<Rightarrow>
        let addr = trim_space (rq_remote_addr r);
            host = (case SplitHostPort addr of None \<Rightarrow> addr | Some h \<Rightarrow> h)
        in if host = [] then anonymous else (ScopeIP, host))"

definition KeyByUser :: keyer where
  "KeyByUser r =
     (case from_context r of None \<Rightarrow> anonymous
      | Some p \<Rightarrow> if trim_space (pr_user_id p) = [] then anonymous else (ScopeUser, pr_user_id p))"

definition KeyByProject :: keyer where
  "KeyByProject r =
     (case from_context r of None \<Rightarrow> anonymous
      | Some p \<Rightarrow> if trim_space (pr_project_id p) = [] then anonymous else (ScopeProject, pr_project_id p))"

text \<open>\<open>strings.Fields\<close>: the runs between white space.\<close>

function fields_from :: "string \<Rightarrow> string \<Rightarrow> string list" where
  "fields_from cur s =
     (let done_now = (if cur = [] then [] else [rev cur]) in
      if s = [] then done_now
      else if lead_len go_spaces s \<noteq> 0 then done_now @ fields_from [] (drop (lead_len go_spaces s) s)
      else fields_from (hd s # cur) (tl s))"
  by pat_completeness auto
termination by (relation "measure (length \<circ> snd)") auto

declare fields_from.simps [simp del]

definition strings_Fields :: "string \<Rightarrow> string list" where
  "strings_Fields s = fields_from [] s"

definition bearerToken :: "string \<Rightarrow> string option" where
  "bearerToken header =
     (if header = [] then None
      else case strings_Fields header of
          [kind, token] \<Rightarrow> if \<not> equal_fold kind ''Bearer'' \<or> token = [] then None else Some token
        | _ \<Rightarrow> None)"

definition KeyByTokenHash :: "int \<Rightarrow> keyer" where
  "KeyByTokenHash prefixLen r =
     (let n = (if prefixLen \<le> 0 then 16 else prefixLen) in
      case bearerToken (header_get (rq_headers r) ''Authorization'') of
        None \<Rightarrow> anonymous
      | Some token \<Rightarrow> (ScopeToken, take (nat n) (hex_encode (sum256 token))))"

definition first_identity :: "(string \<times> string) list \<Rightarrow> string \<times> string" where
  "first_identity keys = (case find (\<lambda>k. fst k \<noteq> ScopeAnon) keys of Some k \<Rightarrow> k | None \<Rightarrow> anonymous)"

definition KeyByUserOrProjectOrTokenHash :: "int \<Rightarrow> keyer" where
  "KeyByUserOrProjectOrTokenHash prefixLen r =
     first_identity [KeyByUser r, KeyByProject r, KeyByTokenHash prefixLen r]"

definition scope_identity :: "request \<Rightarrow> string \<Rightarrow> string \<times> string" where
  "scope_identity r scope =
     (if scope = ScopeIP then normalizeKey (KeyByIP r)
      else if scope = ScopeUser
      then first_identity [normalizeKey (KeyByUser r), normalizeKey (KeyByTokenHash 16 r)]
      else if scope = ScopeProject then first_identity [normalizeKey (KeyByProject r)]
      else if scope = ScopeToken then first_identity [normalizeKey (KeyByTokenHash 16 r)]
      else if scope = ScopeAuto \<or> scope = []
      then first_identity [normalizeKey (KeyByUserOrProjectOrTokenHash 16 r)]
      else anonymous)"

definition ResolveScopeAndIdentifier :: "request \<Rightarrow> rule \<Rightarrow> string \<times> string" where
  "ResolveScopeAndIdentifier r rule =
     (case ru_keyer rule of
        None \<Rightarrow> scope_identity r (ru_scope rule)
      | Some keyer \<Rightarrow>
          let key = normalizeKey (keyer r) in
          if fst key \<noteq> ScopeAnon then key else scope_identity r (ru_scope rule))"

section \<open>The script on Redis\<close>

text \<open>A counter has a value and, usually, an expiry in milliseconds of the server's clock.\<close>

record limit_world =
  lw_counters :: "string \<rightharpoonup> int \<times> int option"
  lw_now :: int
  lw_count :: nat
  lw_fault :: "nat \<Rightarrow> err option"
  lw_observed :: "(string \<times> limit_outcome) list"

definition live_counter :: "limit_world \<Rightarrow> string \<Rightarrow> (int \<times> int option) option" where
  "live_counter w key = (case lw_counters w key of
       Some (n, Some until) \<Rightarrow> if until \<le> lw_now w then None else Some (n, Some until)
     | c \<Rightarrow> c)"

text \<open>\<open>INCR\<close>, \<open>PEXPIRE\<close> on the first hit (a time to live that is not positive deletes the key),
  \<open>PTTL\<close> (-2 without a key, -1 without an expiry).\<close>

definition fixedWindowScript ::
  "string \<Rightarrow> int \<Rightarrow> int \<Rightarrow> limit_world \<Rightarrow> (int \<times> int \<times> int) \<times> limit_world" where
  "fixedWindowScript key limit window_ms w =
     (let (old, until) = (case live_counter w key of None \<Rightarrow> (0, None) | Some c \<Rightarrow> c);
          current = old + 1;
          entry = (if current = 1
                   then (if window_ms \<le> 0 then None else Some (current, Some (lw_now w + window_ms)))
                   else Some (current, until));
          pttl = (case entry of None \<Rightarrow> -2 | Some (_, None) \<Rightarrow> -1 | Some (_, Some e) \<Rightarrow> e - lw_now w);
          ttl = (if pttl < 0 then window_ms else pttl)
      in ((if current \<le> limit then 1 else 0, current, ttl),
          w\<lparr>lw_counters := (lw_counters w)(key := entry)\<rparr>))"

text \<open>What the Redis client makes of the script's reply.\<close>

datatype reply_value = RvInt int | RvText string | RvOther
datatype reply = ReplyList "reply_value list" | ReplyOther

definition script_run :: "string \<Rightarrow> int \<Rightarrow> int \<Rightarrow> (limit_world, reply) eff" where
  "script_run key limit window_ms w =
     (let w' = w\<lparr>lw_count := lw_count w + 1\<rparr> in
      case lw_fault w (lw_count w) of
        Some e \<Rightarrow> (Inl e, w')
      | None \<Rightarrow> (case fixedWindowScript key limit window_ms w' of ((a, c, t), v) \<Rightarrow>
                  (Inr (ReplyList [RvInt a, RvInt c, RvInt t]), v)))"

text \<open>\<open>strconv.ParseInt\<close> with its error dropped: a value out of range reads as the nearest bound.\<close>

definition parse_int_clamped :: "string \<Rightarrow> int" where
  "parse_int_clamped s =
     (let neg = (s \<noteq> [] \<and> hd s = CHR ''-'');
          body = (if s \<noteq> [] \<and> (hd s = CHR ''-'' \<or> hd s = CHR ''+'') then tl s else s)
      in case parse_nat body of None \<Rightarrow> 0
         | Some n \<Rightarrow> let v = (if neg then - int n else int n) in max (- 9223372036854775808) (min 9223372036854775807 v))"

definition toInt64 :: "reply_value \<Rightarrow> int" where
  "toInt64 v = (case v of RvInt n \<Rightarrow> n | RvText s \<Rightarrow> parse_int_clamped s | RvOther \<Rightarrow> 0)"

definition maxIntBound :: int where "maxIntBound = 9223372036854775807"
definition minIntBound :: int where "minIntBound = - maxIntBound - 1"

definition int64ToIntBounded :: "int \<Rightarrow> int" where
  "int64ToIntBounded n = (if n > maxIntBound then maxIntBound else if n < minIntBound then minIntBound else n)"

section \<open>Decisions\<close>

record limiter =
  li_env :: string
  li_fail_open :: bool
  li_observes :: bool

definition NewRedisLimiter :: "bool \<Rightarrow> string \<Rightarrow> bool \<Rightarrow> bool \<Rightarrow> err + limiter" where
  "NewRedisLimiter has_client env fail_open observes =
     (if \<not> has_client then Inl (EText ''ratelimit requires redis client'')
      else Inr \<lparr>li_env = (if trim_space env = [] then ''dev'' else trim_space env),
                li_fail_open = fail_open, li_observes = observes\<rparr>)"

definition observeDecision :: "limiter \<Rightarrow> string \<Rightarrow> limit_outcome \<Rightarrow> (limit_world, unit) eff" where
  "observeDecision l route outcome w =
     (Inr (), if li_observes l then w\<lparr>lw_observed := lw_observed w @ [(limiter_normalizeRoute route, outcome)]\<rparr> else w)"

definition outage :: "limiter \<Rightarrow> limit_request \<Rightarrow> decision" where
  "outage l req =
     (if li_fail_open l
      then \<lparr>dc_allowed = True, dc_remaining = 0, dc_retry_after = 0, dc_outcome = OutcomeFailOpen\<rparr>
      else \<lparr>dc_allowed = False, dc_remaining = 0, dc_retry_after = lr_window req, dc_outcome = OutcomeError\<rparr>)"

definition decide :: "limit_request \<Rightarrow> int \<Rightarrow> int \<Rightarrow> int \<Rightarrow> decision" where
  "decide req allowed current ttl =
     (let used = (if current < 0 then 0 else current);
          left = wrap64 (lr_limit req - used);
          remaining = (if left < 0 then 0 else left);
          retry = (if ttl > 0 then wrap64 (ttl * 1000000) else 0)
      in if allowed = 1
         then \<lparr>dc_allowed = True, dc_remaining = int64ToIntBounded remaining, dc_retry_after = 0,
               dc_outcome = OutcomeAllowed\<rparr>
         else \<lparr>dc_allowed = False, dc_remaining = int64ToIntBounded remaining,
               dc_retry_after = (if retry \<le> 0 then lr_window req else retry), dc_outcome = OutcomeBlocked\<rparr>)"

definition decision_of :: "limiter \<Rightarrow> limit_request \<Rightarrow> reply \<Rightarrow> decision" where
  "decision_of l req raw = (case raw of
       ReplyList [a, c, t] \<Rightarrow> decide req (toInt64 a) (toInt64 c) (toInt64 t)
     | _ \<Rightarrow> outage l req)"

definition Allow :: "limiter \<Rightarrow> limit_request \<Rightarrow> (limit_world, decision) eff" where
  "Allow l req =
     (case validateRequest req of
        Some e \<Rightarrow> eff_throw e
      | None \<Rightarrow>
        eff_bind (eff_case
          (script_run (BuildKey (li_env l) (lr_route req) (lr_scope req) (lr_identifier req))
             (lr_limit req) (lr_window req div 1000000))
          (\<lambda>_. eff_ret (outage l req))
          (\<lambda>raw. eff_ret (decision_of l req raw)))
        (\<lambda>d. eff_bind (observeDecision l (lr_route req) (dc_outcome d)) (\<lambda>_. eff_ret d)))"

text \<open>\<open>RetryAfterSeconds\<close>; the detour of the source over a float is exact below 48 days.\<close>

definition RetryAfterSeconds :: "int \<Rightarrow> int" where
  "RetryAfterSeconds d = (if d \<le> 0 then 0 else (d + 999999999) div 1000000000)"

section \<open>One window\<close>

text \<open>A run of the same request at the given times.\<close>

fun limit_run :: "limiter \<Rightarrow> limit_request \<Rightarrow> int list \<Rightarrow> limit_world \<Rightarrow> (err + decision) list \<times> limit_world" where
  "limit_run l req [] w = ([], w)"
| "limit_run l req (t # ts) w =
     (let (d, w') = Allow l req (w\<lparr>lw_now := t\<rparr>); (ds, w'') = limit_run l req ts w' in (d # ds, w''))"

definition limit_key :: "limiter \<Rightarrow> limit_request \<Rightarrow> string" where
  "limit_key l req = BuildKey (li_env l) (lr_route req) (lr_scope req) (lr_identifier req)"

text \<open>What a fixed window promises its i-th request, at time \<open>t\<close>.\<close>

definition window_decision :: "limit_request \<Rightarrow> int \<Rightarrow> nat \<Rightarrow> int \<Rightarrow> decision" where
  "window_decision req until i t =
     (if int i < lr_limit req
      then \<lparr>dc_allowed = True, dc_remaining = lr_limit req - int i - 1, dc_retry_after = 0,
            dc_outcome = OutcomeAllowed\<rparr>
      else \<lparr>dc_allowed = False, dc_remaining = 0, dc_retry_after = (until - t) * 1000000,
            dc_outcome = OutcomeBlocked\<rparr>)"

lemma live_counter_count [simp]: "live_counter (w\<lparr>lw_count := n\<rparr>) key = live_counter w key"
  by (auto simp: live_counter_def split: option.splits)

lemma live_counter_None [simp]: "lw_counters w key = None \<Longrightarrow> live_counter w key = None"
  by (simp add: live_counter_def)

lemma decide_window:
  assumes "0 < lr_limit req" "in_int64 (lr_limit req)" "int i < 9223372036854775807"
    and "t < until" "(until - t) * 1000000 \<le> 9223372036854775807"
  shows "decide req (if int i + 1 \<le> lr_limit req then 1 else 0) (int i + 1) (until - t)
    = window_decision req until i t"
proof -
  have "wrap64 (lr_limit req - (int i + 1)) = lr_limit req - (int i + 1)"
    "wrap64 ((until - t) * 1000000) = (until - t) * 1000000"
    using assms by (intro wrap64_id; simp add: in_int64_def)+
  then show ?thesis
    using assms by (auto simp: decide_def window_decision_def int64ToIntBounded_def maxIntBound_def
        minIntBound_def in_int64_def Let_def)
qed

lemma Allow_hit:
  assumes "validateRequest req = None" "lw_fault w (lw_count w) = None"
  shows "Allow l req w =
    (let ((a, c, t), v) = fixedWindowScript (limit_key l req) (lr_limit req) (lr_window req div 1000000)
           (w\<lparr>lw_count := lw_count w + 1\<rparr>); d = decide req a c t
     in (Inr d, snd (observeDecision l (lr_route req) (dc_outcome d) v)))"
  using assms by (simp add: Allow_def script_run_def limit_key_def eff_defs decision_of_def toInt64_def Let_def
      observeDecision_def split: prod.split)

lemma Allow_next:
  assumes valid: "validateRequest req = None" "in_int64 (lr_limit req)" "in_int64 (lr_window req)"
    and ok: "\<forall>n. lw_fault w n = None" and t: "lw_now w = t" "t < until" "until - t \<le> lr_window req div 1000000"
    and live: "live_counter w (limit_key l req) = Some (int i, Some until)" "0 < i" "int i < 9223372036854775807"
  shows "\<exists>w'. Allow l req w = (Inr (window_decision req until i t), w')
    \<and> lw_counters w' (limit_key l req) = Some (int (Suc i), Some until) \<and> (\<forall>n. lw_fault w' n = None)"
proof -
  have "(until - t) * 1000000 \<le> lr_window req"
    using t(3) mult_right_mono [of "until - t" "lr_window req div 1000000" 1000000] by simp
  then have "decide req (if int i + 1 \<le> lr_limit req then 1 else 0) (int i + 1) (until - t)
      = window_decision req until i t"
    using valid t(2) live(3)
    by (intro decide_window) (auto simp: validateRequest_def limits_error_def in_int64_def split: if_splits)
  then show ?thesis
    using valid(1) ok t live
    by (simp add: Allow_hit fixedWindowScript_def observeDecision_def Let_def)
qed

lemma Allow_first:
  assumes valid: "validateRequest req = None" "in_int64 (lr_limit req)" "in_int64 (lr_window req)"
    and long: "1000000 \<le> lr_window req" and ok: "\<forall>n. lw_fault w n = None"
    and fresh: "live_counter w (limit_key l req) = None"
  shows "\<exists>w'. Allow l req w = (Inr (window_decision req (lw_now w + lr_window req div 1000000) 0 (lw_now w)), w')
    \<and> lw_counters w' (limit_key l req) = Some (1, Some (lw_now w + lr_window req div 1000000))
    \<and> (\<forall>n. lw_fault w' n = None)"
proof -
  let ?ms = "lr_window req div 1000000"
  have ms: "0 < ?ms" "?ms * 1000000 \<le> lr_window req" using long by simp_all
  then have "decide req (if int 0 + 1 \<le> lr_limit req then 1 else 0) (int 0 + 1) (lw_now w + ?ms - lw_now w)
      = window_decision req (lw_now w + ?ms) 0 (lw_now w)"
    using valid by (intro decide_window)
      (auto simp: validateRequest_def limits_error_def in_int64_def split: if_splits)
  then show ?thesis
    using valid(1) ok fresh ms by (simp add: Allow_hit fixedWindowScript_def observeDecision_def Let_def)
qed

lemma limit_run_rest:
  assumes valid: "validateRequest req = None" "in_int64 (lr_limit req)" "in_int64 (lr_window req)"
  shows "\<lbrakk>\<forall>n. lw_fault w n = None; lw_counters w (limit_key l req) = Some (int i, Some until); 0 < i;
      int (i + length ts) \<le> 9223372036854775807; \<forall>t \<in> set ts. t < until \<and> until - t \<le> lr_window req div 1000000\<rbrakk>
    \<Longrightarrow> fst (limit_run l req ts w) = map2 (\<lambda>i t. Inr (window_decision req until i t)) [i..<i + length ts] ts"
proof (induction ts arbitrary: w i)
  case (Cons t ts)
  have "live_counter (w\<lparr>lw_now := t\<rparr>) (limit_key l req) = Some (int i, Some until)"
    using Cons.prems by (simp add: live_counter_def)
  then obtain w' where w': "Allow l req (w\<lparr>lw_now := t\<rparr>) = (Inr (window_decision req until i t), w')"
      "lw_counters w' (limit_key l req) = Some (int (Suc i), Some until)" "\<forall>n. lw_fault w' n = None"
    using Allow_next [OF valid, of "w\<lparr>lw_now := t\<rparr>" t until l i] Cons.prems by auto
  have "fst (limit_run l req ts w') = map2 (\<lambda>i t. Inr (window_decision req until i t)) [Suc i..<Suc i + length ts] ts"
    using Cons.prems w' by (intro Cons.IH) auto
  then show ?case
    using w'(1) by (cases "limit_run l req ts w'") (simp add: upt_conv_Cons Let_def del: upt_Suc)
qed simp

text \<open>C6: within one window exactly the first \<open>limit\<close> requests of an identity are admitted,
  each told how much is left, and every further one is refused with the time until the window
  ends, whatever their times within the window.\<close>

theorem window_budget:
  assumes valid: "validateRequest req = None" "in_int64 (lr_limit req)" "in_int64 (lr_window req)"
    and long: "1000000 \<le> lr_window req"
    and ok: "\<forall>n. lw_fault w n = None"
    and fresh: "live_counter (w\<lparr>lw_now := t0\<rparr>) (limit_key l req) = None"
    and times: "\<forall>t \<in> set ts. t0 \<le> t \<and> t < t0 + lr_window req div 1000000"
    and few: "int (Suc (length ts)) \<le> 9223372036854775807"
  shows "fst (limit_run l req (t0 # ts) w)
    = map2 (\<lambda>i t. Inr (window_decision req (t0 + lr_window req div 1000000) i t)) [0..<Suc (length ts)] (t0 # ts)"
proof -
  let ?until = "t0 + lr_window req div 1000000"
  obtain w' where w': "Allow l req (w\<lparr>lw_now := t0\<rparr>) = (Inr (window_decision req ?until 0 t0), w')"
      "lw_counters w' (limit_key l req) = Some (int 1, Some ?until)" "\<forall>n. lw_fault w' n = None"
    using Allow_first [OF valid long _ fresh] ok by auto
  have "fst (limit_run l req ts w') = map2 (\<lambda>i t. Inr (window_decision req ?until i t)) [1..<1 + length ts] ts"
    using w' times few by (intro limit_run_rest valid) auto
  then show ?thesis
    using w'(1) by (cases "limit_run l req ts w'") (simp add: upt_conv_Cons Let_def del: upt_Suc)
qed

text \<open>A rule whose window is below a millisecond is accepted but limits nothing: the
  script's expiry is zero milliseconds, Redis deletes the counter at once, and every request is
  the first of its window.\<close>

theorem short_window_limits_nothing:
  assumes "validateRequest req = None" "lr_window req < 1000000" "lw_fault w (lw_count w) = None"
    and "live_counter w (limit_key l req) = None"
  shows "\<exists>d w'. Allow l req w = (Inr d, w') \<and> dc_allowed d \<and> live_counter w' (limit_key l req) = None"
proof -
  have "lr_window req div 1000000 = 0" "0 < lr_limit req"
    using assms(1,2) by (auto simp: validateRequest_def limits_error_def split: if_splits)
  then show ?thesis
    using assms(1,3,4)
    by (simp add: Allow_hit fixedWindowScript_def observeDecision_def decide_def Let_def)
qed

end
