(* ===== verification/Middleware.thy ===== *)
theory Middleware
  imports Ratelimit Config_Lint
begin

text \<open>
  The middleware that every request passes (\<open>internal/core/httpx\<close>): request ids, the client's address,
  recovery from panics, cross-origin requests, security headers, the body limit, the deadline and the
  access log, and their assembly. A middleware is a policy, a function from handlers to handlers. Where a
  middleware wraps the response writer, it looks at the calls the inner handler added.
\<close>

section \<open>Request ids\<close>

definition maxRequestIDLen :: nat where "maxRequestIDLen = 64"

definition request_id_char :: "char \<Rightarrow> bool" where
  "request_id_char c \<longleftrightarrow>
     (let n = (of_char c :: nat) in (97 \<le> n \<and> n \<le> 122) \<or> (65 \<le> n \<and> n \<le> 90) \<or> (48 \<le> n \<and> n \<le> 57)
        \<or> c = CHR ''-'' \<or> c = CHR ''_'' \<or> c = CHR ''.'')"

definition normalizeRequestID :: "string \<Rightarrow> string" where
  "normalizeRequestID raw =
     (let trimmed = trim_space raw in
      if trimmed = [] then [] else if length trimmed > maxRequestIDLen then []
      else if list_all request_id_char trimmed then trimmed else [])"

text \<open>\<open>newRequestID\<close> of what the random source gave, sixteen bytes or an error.\<close>

definition newRequestID :: "string option \<Rightarrow> string" where
  "newRequestID random = (case random of None \<Rightarrow> replicate 32 (CHR ''0'') | Some b \<Rightarrow> hex_encode b)"

definition RequestID :: "('w \<Rightarrow> string option \<times> 'w) \<Rightarrow> 'w policy" where
  "RequestID rand next r w s =
     (let given = normalizeRequestID (header_get (rq_headers r) ''X-Request-Id'');
          (rid, s1) = (if given = [] then (newRequestID (fst (rand s)), snd (rand s)) else (given, s))
      in next (r\<lparr>rq_id := rid\<rparr>) (set_header ''X-Request-Id'' rid w) s1)"

section \<open>The client's address\<close>

text \<open>The addresses and networks of Go's \<open>net\<close> package: parsing, printing, membership.\<close>

record 'ip netlib =
  nl_parse :: "string \<Rightarrow> 'ip option"
  nl_text :: "'ip \<Rightarrow> string"
  nl_cidr :: "string \<Rightarrow> ('ip \<Rightarrow> bool) option"

definition remoteIP :: "string \<Rightarrow> string" where
  "remoteIP remoteAddr =
     (let addr = trim_space remoteAddr in case SplitHostPort addr of None \<Rightarrow> addr | Some host \<Rightarrow> host)"

text \<open>A single address trusts itself: a network with a full mask.\<close>

definition trusted_network :: "'ip netlib \<Rightarrow> string \<Rightarrow> ('ip \<Rightarrow> bool) option" where
  "trusted_network nl raw =
     (let trimmed = trim_space raw in
      if trimmed = [] then None
      else if contains trimmed ''/'' then nl_cidr nl trimmed
      else case nl_parse nl trimmed of None \<Rightarrow> None | Some ip \<Rightarrow> Some (\<lambda>x. x = ip))"

fun parseTrustedProxies :: "'ip netlib \<Rightarrow> string list \<Rightarrow> ('ip \<Rightarrow> bool) list" where
  "parseTrustedProxies nl [] = []"
| "parseTrustedProxies nl (raw # items) =
     (case trusted_network nl raw of None \<Rightarrow> parseTrustedProxies nl items
      | Some n \<Rightarrow> n # parseTrustedProxies nl items)"

definition isTrustedProxy :: "'ip netlib \<Rightarrow> string \<Rightarrow> ('ip \<Rightarrow> bool) list \<Rightarrow> bool" where
  "isTrustedProxy nl remote trusted =
     (if trusted = [] then False
      else case nl_parse nl (trim_space remote) of None \<Rightarrow> False | Some ip \<Rightarrow> list_ex (\<lambda>n. n ip) trusted)"

definition trim_prefix :: "char \<Rightarrow> string \<Rightarrow> string" where
  "trim_prefix c s = (if s \<noteq> [] \<and> hd s = c then tl s else s)"

definition trim_suffix :: "char \<Rightarrow> string \<Rightarrow> string" where
  "trim_suffix c s = (if s \<noteq> [] \<and> hd (rev s) = c then butlast s else s)"

definition parseIPLiteral :: "'ip netlib \<Rightarrow> string \<Rightarrow> string" where
  "parseIPLiteral nl value =
     (let v = trim_space value in
      if v = [] then []
      else let v1 = trim_suffix (CHR '']'') (trim_prefix (CHR ''['') (trim_char (CHR 0x22) v));
               v2 = (case SplitHostPort v1 of None \<Rightarrow> v1 | Some host \<Rightarrow> host)
           in case nl_parse nl (trim_space v2) of None \<Rightarrow> [] | Some ip \<Rightarrow> nl_text nl ip)"

fun first_nonempty :: "string list \<Rightarrow> string" where
  "first_nonempty [] = []"
| "first_nonempty (s # ss) = (if s \<noteq> [] then s else first_nonempty ss)"

definition forwarded_directive :: "'ip netlib \<Rightarrow> string \<Rightarrow> string" where
  "forwarded_directive nl dir =
     (let d = trim_space dir in
      if length d < 4 \<or> \<not> equal_fold (take 4 d) ''for='' then [] else parseIPLiteral nl (trim_space (drop 4 d)))"

definition parseForwardedHeader :: "'ip netlib \<Rightarrow> string \<Rightarrow> string" where
  "parseForwardedHeader nl header =
     (let h = trim_space header in
      if h = [] then []
      else first_nonempty (concat (map (\<lambda>part.
        let section_text = trim_space part in
        if section_text = [] then [] else map (forwarded_directive nl) (split_on (CHR '';'') section_text)) (split_on (CHR '','') h))))"

definition parseXForwardedFor :: "'ip netlib \<Rightarrow> string \<Rightarrow> string" where
  "parseXForwardedFor nl header =
     (let h = trim_space header in if h = [] then [] else parseIPLiteral nl (hd (split_on (CHR '','') h)))"

definition resolve_client_ip :: "'ip netlib \<Rightarrow> ('ip \<Rightarrow> bool) list \<Rightarrow> request \<Rightarrow> string" where
  "resolve_client_ip nl trusted r =
     (let remote = remoteIP (rq_remote_addr r) in
      if isTrustedProxy nl remote trusted then
        first_nonempty [parseForwardedHeader nl (header_get (rq_headers r) ''Forwarded''),
          parseXForwardedFor nl (header_get (rq_headers r) ''X-Forwarded-For''),
          parseIPLiteral nl (header_get (rq_headers r) ''X-Real-IP''), remote]
      else remote)"

definition ClientIP :: "'ip netlib \<Rightarrow> client_ip_config \<Rightarrow> 'w policy" where
  "ClientIP nl cfg next r w s =
     next (r\<lparr>rq_client_ip := Some (resolve_client_ip nl (parseTrustedProxies nl (ci_trusted_proxies cfg)) r)\<rparr>) w s"

section \<open>Panics\<close>

text \<open>\<open>Recoverer\<close>: a panic is logged and answered with \<open>response.Error\<close> of nil, the generic 500.\<close>

definition Recoverer :: "(request \<Rightarrow> string \<Rightarrow> 'w \<Rightarrow> 'w) \<Rightarrow> 'w policy" where
  "Recoverer log_panic next r w s =
     (case next r w s of Done w1 s1 \<Rightarrow> Done w1 s1
      | Panic m w1 s1 \<Rightarrow> Done (response_error (EText []) (rq_id r) w1) (log_panic r m s1))"

section \<open>Cross-origin requests\<close>

definition isPreflight :: "request \<Rightarrow> bool" where
  "isPreflight r \<longleftrightarrow> rq_method r = ''OPTIONS'' \<and> header_get (rq_headers r) ''Access-Control-Request-Method'' \<noteq> []"

text \<open>The keys of the map of origins.\<close>

definition normalizeOrigins :: "string list \<Rightarrow> string list" where
  "normalizeOrigins values = map to_lower (filter (\<lambda>v. v \<noteq> []) (map trim_space values))"

definition isDeniedOrigin :: "string \<Rightarrow> string list \<Rightarrow> bool" where
  "isDeniedOrigin origin deny = (if deny = [] then False else if ''*'' \<in> set deny then True else to_lower origin \<in> set deny)"

definition isAllowedOrigin :: "string \<Rightarrow> string list \<Rightarrow> bool \<Rightarrow> bool \<Rightarrow> bool" where
  "isAllowedOrigin origin allow allowAll allowCredentials =
     (if allowAll then \<not> allowCredentials else if allow = [] then False else to_lower origin \<in> set allow)"

definition isLocalhostOrigin :: "parsers \<Rightarrow> string \<Rightarrow> bool" where
  "isLocalhostOrigin lb origin =
     (case lb_url lb (trim_space origin) of None \<Rightarrow> False
      | Some u \<Rightarrow>
          if url_scheme u = [] \<or> url_host u = [] then False
          else let hostname = trim_space (Hostname u) in
            if equal_fold hostname ''localhost'' then True else hostname = ''127.0.0.1'' \<or> hostname = ''::1'')"

definition normalizeTokens :: "string list \<Rightarrow> string list \<Rightarrow> string list" where
  "normalizeTokens values fallback =
     (let out = filter (\<lambda>v. v \<noteq> []) (map trim_space values) in if out = [] then fallback else out)"

definition appendVary :: "string \<Rightarrow> rw \<Rightarrow> rw" where
  "appendVary value w =
     (if list_ex (\<lambda>v. list_ex (\<lambda>part. equal_fold (trim_space part) value) (split_on (CHR '','') v)) (header_values (rw_header w) ''Vary'')
      then w else w\<lparr>rw_header := header_add (rw_header w) ''Vary'' value\<rparr>)"

text \<open>\<open>int(d.Seconds())\<close> as the whole seconds; the float is exact enough for this below 97 days.\<close>

definition maxAgeSeconds :: "int \<Rightarrow> string" where
  "maxAgeSeconds d = (if d \<le> 0 then [] else let n = d div 1000000000 in if n \<le> 0 then [] else itoa n)"

definition header_if :: "bool \<Rightarrow> string \<Rightarrow> string \<Rightarrow> rw \<Rightarrow> rw" where
  "header_if c name value w = (if c then set_header name value w else w)"

definition cors_methods :: "string list" where
  "cors_methods = [''GET'', ''POST'', ''PUT'', ''PATCH'', ''DELETE'', ''HEAD'', ''OPTIONS'']"

definition origin_allowed :: "parsers \<Rightarrow> cors_config \<Rightarrow> string \<Rightarrow> bool" where
  "origin_allowed lb cfg origin \<longleftrightarrow>
     (let allowOrigins = normalizeOrigins (co_allow_origins cfg) in
      isAllowedOrigin origin allowOrigins (''*'' \<in> set allowOrigins) (co_allow_credentials cfg) \<or> isLocalhostOrigin lb origin)"

definition grant_headers :: "cors_config \<Rightarrow> string \<Rightarrow> rw \<Rightarrow> rw" where
  "grant_headers cfg origin w =
     (let allowAll = ''*'' \<in> set (normalizeOrigins (co_allow_origins cfg)); expose = normalizeTokens (co_expose_headers cfg) [];
          w1 = appendVary ''Origin'' w;
          w2 = set_header ''Access-Control-Allow-Origin'' (if allowAll \<and> \<not> co_allow_credentials cfg then ''*'' else origin) w1;
          w3 = header_if (co_allow_credentials cfg) ''Access-Control-Allow-Credentials'' ''true'' w2
      in header_if (expose \<noteq> []) ''Access-Control-Expose-Headers'' (join '', '' expose) w3)"

definition preflight_headers :: "cors_config \<Rightarrow> request \<Rightarrow> rw \<Rightarrow> rw" where
  "preflight_headers cfg r w =
     (let methods = normalizeTokens (co_allow_methods cfg) cors_methods; allow = normalizeTokens (co_allow_headers cfg) [];
          requested = trim_space (header_get (rq_headers r) ''Access-Control-Request-Headers''); age = maxAgeSeconds (co_max_age cfg);
          w1 = appendVary ''Access-Control-Request-Headers'' (appendVary ''Access-Control-Request-Method'' w);
          w2 = header_if (methods \<noteq> []) ''Access-Control-Allow-Methods'' (join '', '' methods) w1;
          w3 = (if allow \<noteq> [] then set_header ''Access-Control-Allow-Headers'' (join '', '' allow) w2
                else header_if (requested \<noteq> []) ''Access-Control-Allow-Headers'' requested w2);
          w4 = header_if (age \<noteq> []) ''Access-Control-Max-Age'' age w3
      in header_if (co_allow_private_network cfg
             \<and> equal_fold (trim_space (header_get (rq_headers r) ''Access-Control-Request-Private-Network'')) ''true'')
           ''Access-Control-Allow-Private-Network'' ''true'' w4)"

definition CORS :: "parsers \<Rightarrow> cors_config \<Rightarrow> 'w policy" where
  "CORS lb cfg next r w s =
     (if \<not> co_enabled cfg then next r w s
      else let origin = trim_space (header_get (rq_headers r) ''Origin'') in
        if origin = [] then next r w s
        else if isDeniedOrigin origin (normalizeOrigins (co_deny_origins cfg)) \<or> \<not> origin_allowed lb cfg origin then
          if isPreflight r then reject (app_new CodeForbidden 403 ''origin not allowed'') r w s else next r w s
        else let w1 = grant_headers cfg origin w in
          if isPreflight r then Done (WriteHeader 204 (preflight_headers cfg r w1)) s else next r w1 s)"

section \<open>Headers, body and deadline\<close>

definition SecurityHeaders :: "'w policy" where
  "SecurityHeaders next r w s =
     next r (set_header ''Referrer-Policy'' ''no-referrer'' (set_header ''X-Frame-Options'' ''DENY''
       (set_header ''X-Content-Type-Options'' ''nosniff'' w))) s"

definition shouldLimitBody :: "request \<Rightarrow> bool" where
  "shouldLimitBody r \<longleftrightarrow>
     (if rq_method r \<in> {''POST'', ''PUT'', ''PATCH''} then True else rq_content_length r > 0 \<or> rq_transfer_encoding r \<noteq> [])"

text \<open>The limited reader is the limit of the request's body.\<close>

definition MaxBodyBytes :: "int \<Rightarrow> 'w policy" where
  "MaxBodyBytes limit next r w s = next (if shouldLimitBody r then r\<lparr>rq_body_limit := Some limit\<rparr> else r) w s"

definition shouldBypassRequestTimeout :: "request \<Rightarrow> bool" where
  "shouldBypassRequestTimeout r \<longleftrightarrow>
     (if equal_fold (trim_space (header_get (rq_headers r) ''Upgrade'')) ''websocket'' then True
      else if contains (to_lower (header_get (rq_headers r) ''Connection'')) ''upgrade'' then True
      else contains (to_lower (header_get (rq_headers r) ''Accept'')) ''text/event-stream'')"

text \<open>The calls an inner handler added to a writer.\<close>

definition added_ops :: "rw \<Rightarrow> rw \<Rightarrow> wop list" where
  "added_ops w w' = drop (length (rw_ops w)) (rw_ops w')"

fun op_answers :: "wop \<Rightarrow> bool" where
  "op_answers (OpHeader n h) = True"
| "op_answers (OpWrite bs h) = True"
| "op_answers OpFlush = False"

definition wrote_header :: "rw \<Rightarrow> rw \<Rightarrow> bool" where
  "wrote_header w w' \<longleftrightarrow> list_ex op_answers (added_ops w w')"

text \<open>\<open>expired\<close> tells whether the deadline of the request's context has passed.\<close>

definition RequestTimeout :: "(request \<Rightarrow> 'w \<Rightarrow> bool) \<Rightarrow> int \<Rightarrow> 'w policy" where
  "RequestTimeout expired timeout next r w s =
     (if timeout \<le> 0 then next r w s
      else if shouldBypassRequestTimeout r then next r w s
      else case next r w s of Panic m w1 s1 \<Rightarrow> Panic m w1 s1
      | Done w1 s1 \<Rightarrow>
          if expired r s1 \<and> \<not> wrote_header w w1
          then Done (response_error (app_new CodeTimeout 504 ''request timed out'') (rq_id r) w1) s1 else Done w1 s1)"

section \<open>The access log\<close>

text \<open>What the middleware reads from the running process: the path, the clock, the deadline and the pattern
  that the router recorded.\<close>

record 'w observer =
  ob_path :: "request \<Rightarrow> string"
  ob_elapsed :: "'w \<Rightarrow> int"
  ob_expired :: "request \<Rightarrow> 'w \<Rightarrow> bool"
  ob_pattern :: "'w \<Rightarrow> string"
  ob_threshold :: "go_float \<Rightarrow> 64 word"

datatype log_level = LInfo | LWarn | LError

record access_entry =
  en_level :: log_level
  en_method :: string
  en_route :: string
  en_http_status :: int
  en_duration_ms :: int
  en_bytes :: nat
  en_sampled :: bool
  en_request_id :: string
  en_user_agent :: "string option"
  en_remote_ip :: "string option"

definition hexNibble :: "char \<Rightarrow> 64 word option" where
  "hexNibble ch =
     (let n = (of_char ch :: nat) in
      if 48 \<le> n \<and> n \<le> 57 then Some (of_nat (n - 48))
      else if 97 \<le> n \<and> n \<le> 102 then Some (of_nat (n - 87))
      else if 65 \<le> n \<and> n \<le> 70 then Some (of_nat (n - 55)) else None)"

fun hex_prefix :: "64 word \<Rightarrow> string \<Rightarrow> 64 word option" where
  "hex_prefix out [] = Some out"
| "hex_prefix out (c # s) =
     (case hexNibble c of None \<Rightarrow> None | Some nibble \<Rightarrow> hex_prefix (or (push_bit 4 out) nibble) s)"

definition parseHexPrefix64 :: "string \<Rightarrow> 64 word option" where
  "parseHexPrefix64 v = (if length v < 16 then None else hex_prefix 0 (take 16 v))"

definition mixUint64 :: "64 word \<Rightarrow> 64 word" where
  "mixUint64 v =
     (let v1 = xor v (drop_bit 33 v); v2 = v1 * 0xff51afd7ed558ccd; v3 = xor v2 (drop_bit 33 v2);
          v4 = v3 * 0xc4ceb9fe1a85ec53 in xor v4 (drop_bit 33 v4))"

definition sampleKeyFromRequestID :: "string \<Rightarrow> 64 word" where
  "sampleKeyFromRequestID requestID =
     (case parseHexPrefix64 requestID of Some key \<Rightarrow> key
      | None \<Rightarrow> let key = fold (\<lambda>c k. or (push_bit 8 k) (of_nat (of_char c))) (take 8 requestID) 0
          in mixUint64 (xor key (of_nat (length requestID) * 0x9e3779b97f4a7c15)))"

fun at_least_one :: "go_float \<Rightarrow> bool" where
  "at_least_one FNaN = False" | "at_least_one (FInf neg) = (\<not> neg)" | "at_least_one (FNum x) = (1 \<le> x)"

fun at_most_zero :: "go_float \<Rightarrow> bool" where
  "at_most_zero FNaN = False" | "at_most_zero (FInf neg) = neg" | "at_most_zero (FNum x) = (x \<le> 0)"

text \<open>\<open>threshold rate\<close> is \<open>uint64(rate * float64(^uint64(0)))\<close>.\<close>

definition shouldSampleRequest :: "(go_float \<Rightarrow> 64 word) \<Rightarrow> string \<Rightarrow> go_float \<Rightarrow> bool" where
  "shouldSampleRequest threshold requestID sampleRate =
     (if at_least_one sampleRate then True
      else if at_most_zero sampleRate then False
      else if requestID = [] then False else sampleKeyFromRequestID requestID \<le> threshold sampleRate)"

text \<open>The status and the bytes that the wrapping writer saw: the last \<open>WriteHeader\<close>, 200 without one.\<close>

fun seen_status :: "int \<Rightarrow> wop list \<Rightarrow> int" where
  "seen_status st [] = st"
| "seen_status st (OpHeader n h # xs) = seen_status n xs"
| "seen_status st (OpWrite bs h # xs) = seen_status st xs"
| "seen_status st (OpFlush # xs) = seen_status st xs"

definition RoutePattern :: "int \<Rightarrow> string \<Rightarrow> string" where
  "RoutePattern statusCode capturedPattern =
     (if statusCode = 404 then ''not_found'' else if capturedPattern \<noteq> [] then capturedPattern else ''unknown'')"

definition access_entry_of :: "'w observer \<Rightarrow> access_log_config \<Rightarrow> request \<Rightarrow> rw \<Rightarrow> rw \<Rightarrow> 'w \<Rightarrow> access_entry option" where
  "access_entry_of ob cfg r w w1 s1 =
     (let seen = seen_status 200 (added_ops w w1);
          status = (if ob_expired ob r s1 \<and> \<not> wrote_header w w1 then 504 else seen);
          slow = (al_slow_threshold cfg > 0 \<and> ob_elapsed ob s1 \<ge> al_slow_threshold cfg);
          sampled = shouldSampleRequest (ob_threshold ob) (rq_id r) (al_sample_rate cfg)
      in if \<not> (status \<ge> 500 \<or> slow) \<and> \<not> sampled then None
         else Some \<lparr>en_level = (if status \<ge> 500 then LError else if slow \<or> status \<ge> 400 then LWarn else LInfo),
           en_method = rq_method r, en_route = RoutePattern status (ob_pattern ob s1), en_http_status = status,
           en_duration_ms = ob_elapsed ob s1 div 1000000, en_bytes = length (concat (map op_bytes (added_ops w w1))),
           en_sampled = sampled, en_request_id = rq_id r,
           en_user_agent = (if al_include_user_agent cfg then Some (header_get (rq_headers r) ''User-Agent'') else None),
           en_remote_ip = (if al_include_remote_ip cfg
             then Some (case ClientIPFromContext r of Some ip \<Rightarrow> ip | None \<Rightarrow> remoteIP (rq_remote_addr r)) else None)\<rparr>)"

definition AccessLog :: "'w observer \<Rightarrow> (access_entry \<Rightarrow> 'w \<Rightarrow> 'w) \<Rightarrow> access_log_config \<Rightarrow> 'w policy" where
  "AccessLog ob log_entry cfg next r w s =
     (if \<not> al_enabled cfg then next r w s
      else if ob_path ob r \<in> set (al_exclude_paths cfg) then next r w s
      else case next r w s of Panic m w1 s1 \<Rightarrow> Panic m w1 s1
      | Done w1 s1 \<Rightarrow> Done w1 (case access_entry_of ob cfg r w w1 s1 of None \<Rightarrow> s1 | Some e \<Rightarrow> log_entry e s1))"

section \<open>The assembly\<close>

text \<open>The collaborators of the assembly: the random source, the network library, the URL parser, the observations,
  the two logs, and the tracing middleware of the telemetry library.\<close>

record ('w, 'ip) surroundings =
  su_rand :: "'w \<Rightarrow> string option \<times> 'w"
  su_net :: "'ip netlib"
  su_parsers :: parsers
  su_observer :: "'w observer"
  su_log_access :: "access_entry \<Rightarrow> 'w \<Rightarrow> 'w"
  su_log_panic :: "request \<Rightarrow> string \<Rightarrow> 'w \<Rightarrow> 'w"
  su_tracing :: "'w policy"

definition AssembleGlobalMiddleware :: "('w, 'ip) surroundings \<Rightarrow> middleware_config \<Rightarrow> 'w handler \<Rightarrow> 'w handler" where
  "AssembleGlobalMiddleware su cfg base =
     (let h1 = AccessLog (su_observer su) (su_log_access su) (mw_access_log cfg) base;
          h2 = su_tracing su h1;
          h3 = RequestTimeout (ob_expired (su_observer su)) (mw_request_timeout cfg) h2;
          h4 = (if mw_max_body_bytes cfg > 0 then MaxBodyBytes (mw_max_body_bytes cfg) h3 else h3);
          h5 = (if mw_security_headers_enabled cfg then SecurityHeaders h4 else h4);
          h6 = (if co_enabled (mw_cors cfg) then CORS (su_parsers su) (mw_cors cfg) h5 else h5);
          h7 = (if mw_recoverer_enabled cfg then Recoverer (su_log_panic su) h6 else h6);
          h8 = ClientIP (su_net su) (mw_client_ip cfg) h7
      in if mw_request_id_enabled cfg then RequestID (su_rand su) h8 else h8)"

end
