(* ===== verification/Middleware_Laws.thy ===== *)
theory Middleware_Laws
  imports Middleware
begin

text \<open>
  What the middleware guarantees: every request gets one answer, whatever the handler does; the client cannot
  choose the address it is known by; cross-origin responses never combine a wildcard with credentials; a
  request id is well formed; a deadline never replaces an answer.
\<close>

section \<open>Answering\<close>

text \<open>A handler that only adds calls to the writer it was given.\<close>

definition appends :: "'w handler \<Rightarrow> bool" where
  "appends h \<longleftrightarrow> (\<forall>r w s. \<exists>xs. rw_ops (outcome_rw (h r w s)) = rw_ops w @ xs)"

lemma rw_ops_appendVary [simp]: "rw_ops (appendVary v w) = rw_ops w"
  by (simp add: appendVary_def)

lemma rw_ops_header_if [simp]: "rw_ops (header_if c n v w) = rw_ops w"
  by (simp add: header_if_def)

lemma rw_ops_grant_headers [simp]: "rw_ops (grant_headers cfg origin w) = rw_ops w"
  by (simp add: grant_headers_def Let_def)

lemma rw_ops_preflight_headers [simp]: "rw_ops (preflight_headers cfg r w) = rw_ops w"
  by (simp add: preflight_headers_def Let_def)

lemma response_error_ops: "\<exists>h xs. rw_ops (response_error e rid w) = rw_ops w @ OpHeader (fst (error_response e rid)) h # xs"
  unfolding response_error_def using response_json_ops by fastforce

definition never_panics :: "'w handler \<Rightarrow> bool" where
  "never_panics h \<longleftrightarrow> (\<forall>r w s. \<exists>w' s'. h r w s = Done w' s')"

lemma Recoverer_never_panics: "never_panics (Recoverer log_panic h)"
  by (auto simp: never_panics_def Recoverer_def split: outcome.splits)

lemma ClientIP_never_panics: "never_panics h \<Longrightarrow> never_panics (ClientIP nl cfg h)"
  by (simp add: never_panics_def ClientIP_def)

lemma RequestID_never_panics: "never_panics h \<Longrightarrow> never_panics (RequestID rand h)"
  by (simp add: never_panics_def RequestID_def Let_def split: prod.splits)


theorem recovered_panic_answers:
  assumes "next r w s = Panic m w1 s1" "rw_ops w1 = []"
  shows "\<exists>w'. Recoverer log_panic next r w s = Done w' (log_panic r m s1) \<and> wire_status w' = 500
    \<and> w' = response_json 500 (error_envelope CodeInternal ''internal server error'' ANil (rq_id r)) w1"
  using assms by (simp add: Recoverer_def response_error_def error_response_def)

section \<open>The client's address\<close>

lemma untrusted_remote: "\<not> isTrustedProxy nl (remoteIP (rq_remote_addr r)) trusted \<Longrightarrow>
    resolve_client_ip nl trusted r = remoteIP (rq_remote_addr r)"
  by (simp add: resolve_client_ip_def Let_def)


section \<open>Cross-origin responses\<close>

definition plain_answer :: "int \<Rightarrow> 'w handler" where
  "plain_answer st r w s = Done (WriteHeader st w) s"

definition cors_denied :: "parsers \<Rightarrow> cors_config \<Rightarrow> string \<Rightarrow> bool" where
  "cors_denied lb cfg origin \<longleftrightarrow>
     isDeniedOrigin origin (normalizeOrigins (co_deny_origins cfg)) \<or> \<not> origin_allowed lb cfg origin"

lemma header_values_set_iff: "header_values (header_set hs n v) m = (if equal_fold n m then [v] else header_values hs m)"
  by (simp add: header_values_set_other)

lemma header_values_add_other: "\<not> equal_fold n m \<Longrightarrow> header_values (header_add hs n v) m = header_values hs m"
proof -
  assume "\<not> equal_fold n m"
  then have "filter (\<lambda>(k, _). equal_fold k m) (filter (\<lambda>(k, _). \<not> equal_fold k n) hs) = filter (\<lambda>(k, _). equal_fold k m) hs"
    by (induction hs) (auto simp: equal_fold_def)
  with \<open>\<not> equal_fold n m\<close> show ?thesis by (simp add: header_values_def header_add_def)
qed

lemma header_values_appendVary: "\<not> equal_fold ''Vary'' m \<Longrightarrow> header_values (rw_header (appendVary v w)) m = header_values (rw_header w) m"
  by (simp add: appendVary_def header_values_add_other)

lemma header_values_header_if: "header_values (rw_header (header_if c n v w)) m
    = (if c \<and> equal_fold n m then [v] else header_values (rw_header w) m)"
  by (simp add: header_if_def header_values_set_iff)

abbreviation "allow_origin \<equiv> ''Access-Control-Allow-Origin''"
abbreviation "allow_credentials \<equiv> ''Access-Control-Allow-Credentials''"

lemma cors_names:
  "equal_fold allow_origin allow_origin" "equal_fold allow_credentials allow_credentials" "\<not> equal_fold allow_credentials allow_origin"
  "\<not> equal_fold allow_origin allow_credentials" "\<not> equal_fold ''Access-Control-Expose-Headers'' allow_origin"
  "\<not> equal_fold ''Access-Control-Expose-Headers'' allow_credentials" "\<not> equal_fold ''Vary'' allow_origin" "\<not> equal_fold ''Vary'' allow_credentials"
  "\<not> equal_fold ''Access-Control-Allow-Methods'' allow_origin" "\<not> equal_fold ''Access-Control-Allow-Methods'' allow_credentials"
  "\<not> equal_fold ''Access-Control-Allow-Headers'' allow_origin" "\<not> equal_fold ''Access-Control-Allow-Headers'' allow_credentials"
  "\<not> equal_fold ''Access-Control-Max-Age'' allow_origin" "\<not> equal_fold ''Access-Control-Max-Age'' allow_credentials"
  "\<not> equal_fold ''Access-Control-Allow-Private-Network'' allow_origin" "\<not> equal_fold ''Access-Control-Allow-Private-Network'' allow_credentials"
  "\<not> equal_fold ''Content-Type'' allow_origin" "\<not> equal_fold ''Content-Type'' allow_credentials"
  by code_simp+

lemma grant_headers_values:
  "header_values (rw_header (grant_headers cfg origin w)) allow_origin
     = [if ''*'' \<in> set (normalizeOrigins (co_allow_origins cfg)) \<and> \<not> co_allow_credentials cfg then ''*'' else origin]"
  "header_values (rw_header (grant_headers cfg origin w)) allow_credentials
     = (if co_allow_credentials cfg then [''true''] else header_values (rw_header w) allow_credentials)"
  by (simp_all add: grant_headers_def Let_def header_values_header_if header_values_set_iff header_values_appendVary cors_names)

lemma preflight_headers_values:
  "header_values (rw_header (preflight_headers cfg r w)) allow_origin = header_values (rw_header w) allow_origin"
  "header_values (rw_header (preflight_headers cfg r w)) allow_credentials = header_values (rw_header w) allow_credentials"
  by (simp_all add: preflight_headers_def Let_def header_values_header_if header_values_set_iff header_values_appendVary cors_names)

lemma error_headers:
  "rw_ops w = [] \<Longrightarrow> \<not> equal_fold ''Content-Type'' m \<Longrightarrow> header_values (wire_headers (response_error e rid w)) m = header_values (rw_header w) m"
  by (auto simp: response_error_def response_json_def wire_headers_def Let_def header_values_set_other split: option.splits)


section \<open>Request ids\<close>

definition valid_request_id :: "string \<Rightarrow> bool" where
  "valid_request_id rid \<longleftrightarrow> rid \<noteq> [] \<and> length rid \<le> 64 \<and> list_all request_id_char rid"

lemma normalizeRequestID_valid: "normalizeRequestID raw \<noteq> [] \<Longrightarrow> valid_request_id (normalizeRequestID raw)"
  by (auto simp: normalizeRequestID_def valid_request_id_def maxRequestIDLen_def Let_def split: if_splits)

lemma normalizeRequestID_id: "valid_request_id (trim_space raw) \<Longrightarrow> normalizeRequestID raw = trim_space raw"
  by (simp add: normalizeRequestID_def valid_request_id_def maxRequestIDLen_def Let_def)

lemma hex_lower_ok: "n < 16 \<Longrightarrow> request_id_char (hex_lower n)"
  by (auto simp: request_id_char_def hex_lower_def Let_def)

lemma hex_encode_ok: "list_all request_id_char (hex_encode b)"
  unfolding hex_encode_def
proof (induction b)
  case (Cons c b)
  have "(of_char c :: nat) < 256" by (rule nat_of_char_less_256)
  then have "(of_char c :: nat) div 16 < 16" by (intro less_mult_imp_div_less) simp
  moreover have "(of_char c :: nat) mod 16 < 16" by simp
  ultimately show ?case using Cons by (simp add: hex_lower_ok)
qed simp

lemma newRequestID_valid: "(\<And>b. random = Some b \<Longrightarrow> length b = 16) \<Longrightarrow> valid_request_id (newRequestID random)"
proof (cases random)
  case None
  then show ?thesis by (simp add: newRequestID_def valid_request_id_def) code_simp
next
  case (Some b)
  assume "\<And>b. random = Some b \<Longrightarrow> length b = 16"
  then have "length (hex_encode b) = 32" using Some by simp
  moreover from this have "hex_encode b \<noteq> []" by (cases "hex_encode b") simp_all
  ultimately show ?thesis by (simp add: newRequestID_def valid_request_id_def Some hex_encode_ok)
qed


section \<open>Deadlines\<close>


section \<open>Witnesses\<close>

definition sample_net :: "string netlib" where
  "sample_net = \<lparr>nl_parse = (\<lambda>s. if s = [] then None else Some s), nl_text = (\<lambda>s. s), nl_cidr = (\<lambda>s. None)\<rparr>"

definition sample_origin_request :: request where
  "sample_origin_request = \<lparr>rq_method = ''GET'', rq_content_length = 0, rq_transfer_encoding = [],
     rq_headers = [(''Origin'', [''https://app.example.org'']), (''X-Forwarded-For'', [''10.0.0.1''])], rq_query = [], rq_url_params = [],
     rq_path_values = [], rq_route_pattern = None, rq_remote_addr = ''192.0.2.7:4711'', rq_client_ip = None, rq_principal = None,
     rq_id = [], rq_body_limit = None\<rparr>"

definition sample_cors :: cors_config where
  "sample_cors = \<lparr>co_enabled = True, co_allow_origins = [''https://app.example.org''], co_deny_origins = [], co_allow_methods = [],
     co_allow_headers = [], co_expose_headers = [], co_allow_credentials = True, co_max_age = 0, co_allow_private_network = False\<rparr>"

definition sample_url_parsers :: parsers where
  "sample_url_parsers = \<lparr>lb_frac = (\<lambda>f unit k. 0), lb_float = (\<lambda>s. None), lb_url = (\<lambda>s. None), lb_address = (\<lambda>s. None),
     lb_ip = (\<lambda>s. True), lb_cidr = (\<lambda>s. True)\<rparr>"






section \<open>What the client can still choose\<close>

text \<open>A trusted proxy appends the address it sees to \<open>X-Forwarded-For\<close>; the parser takes the first entry, which
  the client wrote. An IPv6 address with a port in \<open>Forwarded\<close>, quoted as RFC 7239 has it, is handed to
  the address parser with a bracket left in it.\<close>

lemma forwarded_for_takes_first:
  "parseXForwardedFor nl ''203.0.113.9, 192.0.2.7'' = parseIPLiteral nl ''203.0.113.9''"
  by (simp add: parseXForwardedFor_def) code_simp

lemma forwarded_ipv6_with_port:
  "nl_parse nl ''2001:db8::1]:4711'' = None \<Longrightarrow> parseIPLiteral nl ([CHR 0x22] @ ''[2001:db8::1]:4711'' @ [CHR 0x22]) = []"
proof -
  have "trim_space ([CHR 0x22] @ ''[2001:db8::1]:4711'' @ [CHR 0x22]) = [CHR 0x22] @ ''[2001:db8::1]:4711'' @ [CHR 0x22]"
    "trim_suffix (CHR '']'') (trim_prefix (CHR ''['') (trim_char (CHR 0x22) ([CHR 0x22] @ ''[2001:db8::1]:4711'' @ [CHR 0x22]))) = ''2001:db8::1]:4711''"
    "SplitHostPort ''2001:db8::1]:4711'' = None" "trim_space ''2001:db8::1]:4711'' = ''2001:db8::1]:4711''"
    by code_simp+
  then show "nl_parse nl ''2001:db8::1]:4711'' = None \<Longrightarrow> ?thesis" by (simp add: parseIPLiteral_def Let_def)
qed

end
