(* ===== verification/Policy_Meta.thy ===== *)
theory Policy_Meta
  imports Http
begin

text \<open>
  Policy metadata, its registry and the route validator (\<open>internal/core/policy/metadata.go\<close>,
  \<open>validator.go\<close>, \<open>validator_rules.go\<close>). A Go \<open>error\<close> that is returned or nil is a
  \<open>string option\<close> here: \<open>None\<close> is nil. A policy is a closure: the code pointer of the
  function literal it was made from, and what it does.
\<close>

section \<open>Metadata\<close>

type_synonym policy_type = string

abbreviation "PolicyTypeUnknown \<equiv> ''unknown''"
abbreviation "PolicyTypeNoop \<equiv> ''noop''"
abbreviation "PolicyTypeRequireJSON \<equiv> ''require_json''"
abbreviation "PolicyTypeWithHeader \<equiv> ''with_header''"
abbreviation "PolicyTypeCacheControl \<equiv> ''cache_control''"
abbreviation "PolicyTypeAuthRequired \<equiv> ''auth_required''"
abbreviation "PolicyTypeRequirePermission \<equiv> ''require_permission''"
abbreviation "PolicyTypeRequireAnyPermission \<equiv> ''require_any_permission''"
abbreviation "PolicyTypeRequireAllPermissions \<equiv> ''require_all_permissions''"
abbreviation "PolicyTypeProjectRequired \<equiv> ''project_required''"
abbreviation "PolicyTypeProjectMatchFromPath \<equiv> ''project_match_from_path''"
abbreviation "PolicyTypeResolvePermissions \<equiv> ''resolve_permissions''"
abbreviation "PolicyTypeRateLimit \<equiv> ''rate_limit''"
abbreviation "PolicyTypeCacheRead \<equiv> ''cache_read''"
abbreviation "PolicyTypeCacheInvalidate \<equiv> ''cache_invalidate''"
abbreviation "PolicyTypeCustom \<equiv> ''custom''"

record cache_read_metadata =
  crm_allow_authenticated :: bool
  crm_shared_authenticated :: bool
  crm_vary_by_user_id :: bool
  crm_vary_by_project_id :: bool

record metadata =
  md_type :: policy_type
  md_name :: string
  md_project_path_param :: string
  md_cache_read :: cache_read_metadata
  md_tag_spec_count :: int

definition zero_cache_read :: cache_read_metadata where
  "zero_cache_read = \<lparr>crm_allow_authenticated = False, crm_shared_authenticated = False,
     crm_vary_by_user_id = False, crm_vary_by_project_id = False\<rparr>"

text \<open>The composite literal \<open>Metadata{Type: t, Name: n}\<close>.\<close>

definition metadata_of :: "policy_type \<Rightarrow> string \<Rightarrow> metadata" where
  "metadata_of t n = \<lparr>md_type = t, md_name = n, md_project_path_param = [],
     md_cache_read = zero_cache_read, md_tag_spec_count = 0\<rparr>"

section \<open>Registry\<close>

text \<open>\<open>policyMetadata\<close> is a \<open>sync.Map\<close> keyed by \<open>policyPointer\<close>, the entry address of
  the closure's code: two closures of one function literal have the same key.\<close>

type_synonym registry = "string \<rightharpoonup> metadata"

record 'p policy_value =
  pv_code :: string
  pv_run :: 'p

definition policyPointer :: "'p policy_value \<Rightarrow> string" where
  "policyPointer p = pv_code p"

definition annotated_metadata :: "metadata \<Rightarrow> metadata" where
  "annotated_metadata meta =
     (let m1 = (if md_type meta = [] then meta\<lparr>md_type := PolicyTypeUnknown\<rparr> else meta)
      in if trim_space (md_name m1) = [] then m1\<lparr>md_name := md_type m1\<rparr> else m1)"

definition annotatePolicy ::
  "'p policy_value option \<Rightarrow> metadata \<Rightarrow> registry \<Rightarrow> 'p policy_value option \<times> registry" where
  "annotatePolicy p meta reg =
     (case p of None \<Rightarrow> (None, reg)
      | Some pv \<Rightarrow> (Some pv, reg(policyPointer pv \<mapsto> annotated_metadata meta)))"

definition AnnotateCustom ::
  "string \<Rightarrow> 'p policy_value option \<Rightarrow> registry \<Rightarrow> 'p policy_value option \<times> registry" where
  "AnnotateCustom name p reg =
     (let trimmed = trim_space name;
          trimmed = (if trimmed = [] then ''custom'' else trimmed)
      in annotatePolicy p (metadata_of PolicyTypeCustom trimmed) reg)"

definition DescribePolicy :: "registry \<Rightarrow> 'p policy_value option \<Rightarrow> metadata option" where
  "DescribePolicy reg p = (case p of None \<Rightarrow> None | Some pv \<Rightarrow> reg (policyPointer pv))"

fun describe_from ::
  "registry \<Rightarrow> int \<Rightarrow> 'p policy_value option list \<Rightarrow> string + metadata list" where
  "describe_from reg i [] = Inr []"
| "describe_from reg i (p # ps) =
     (case p of None \<Rightarrow> Inl (''nil policy at index '' @ itoa i)
      | Some _ \<Rightarrow>
        (case DescribePolicy reg p of
           None \<Rightarrow> Inl (''policy at index '' @ itoa i @ '' is not annotated'')
         | Some m \<Rightarrow>
           (case describe_from reg (i + 1) ps of Inl e \<Rightarrow> Inl e | Inr ms \<Rightarrow> Inr (m # ms))))"

definition DescribePolicies ::
  "registry \<Rightarrow> 'p policy_value option list \<Rightarrow> string + metadata list" where
  "DescribePolicies reg ps = describe_from reg 0 ps"

section \<open>Validation rules\<close>

fun hasPolicyType :: "metadata list \<Rightarrow> policy_type \<Rightarrow> bool" where
  "hasPolicyType [] t = False"
| "hasPolicyType (m # ms) t = (if md_type m = t then True else hasPolicyType ms t)"

definition findPolicies :: "metadata list \<Rightarrow> policy_type \<Rightarrow> metadata list" where
  "findPolicies ms t = filter (\<lambda>m. md_type m = t) ms"

definition policyOrderStage :: "policy_type \<Rightarrow> nat" where
  "policyOrderStage t =
     (if t = PolicyTypeAuthRequired then 1
      else if t = PolicyTypeProjectRequired \<or> t = PolicyTypeProjectMatchFromPath then 2
      else if t = PolicyTypeResolvePermissions then 3
      else if t = PolicyTypeRequirePermission \<or> t = PolicyTypeRequireAnyPermission
              \<or> t = PolicyTypeRequireAllPermissions then 4
      else if t = PolicyTypeRateLimit then 5
      else if t = PolicyTypeCacheRead \<or> t = PolicyTypeCacheInvalidate then 6
      else if t = PolicyTypeCacheControl then 7
      else 0)"

text \<open>The loop of \<open>validatePolicyOrdering\<close>: the index, the last staged policy, and the first
  index of each project policy (\<open>None\<close> for the source's -1).\<close>

fun ordering_loop ::
  "nat \<Rightarrow> nat \<Rightarrow> policy_type \<Rightarrow> nat option \<Rightarrow> nat option \<Rightarrow> metadata list
     \<Rightarrow> string + (nat option \<times> nat option)" where
  "ordering_loop i prev prevType required match [] = Inr (required, match)"
| "ordering_loop i prev prevType required match (m # ms) =
     (let stage = policyOrderStage (md_type m) in
      if stage > 0 \<and> stage < prev
      then Inl (''policy '' @ md_name m @ '' cannot appear after '' @ prevType)
      else ordering_loop (i + 1)
             (if stage > 0 then stage else prev)
             (if stage > 0 then md_type m else prevType)
             (if md_type m = PolicyTypeProjectRequired \<and> required = None then Some i else required)
             (if md_type m = PolicyTypeProjectMatchFromPath \<and> match = None then Some i else match)
             ms)"

definition validatePolicyOrdering :: "metadata list \<Rightarrow> string option" where
  "validatePolicyOrdering metas =
     (case ordering_loop 0 0 PolicyTypeUnknown None None metas of
        Inl e \<Rightarrow> Some e
      | Inr (Some r, Some m) \<Rightarrow>
          if m < r then Some (''policy '' @ PolicyTypeProjectMatchFromPath @ '' must appear after ''
                              @ PolicyTypeProjectRequired)
          else None
      | Inr _ \<Rightarrow> None)"

definition validateAuthDependencies :: "metadata list \<Rightarrow> string option" where
  "validateAuthDependencies metas =
     (if hasPolicyType metas PolicyTypeAuthRequired then None
      else if hasPolicyType metas PolicyTypeRequirePermission
           \<or> hasPolicyType metas PolicyTypeRequireAnyPermission
           \<or> hasPolicyType metas PolicyTypeRequireAllPermissions
           \<or> hasPolicyType metas PolicyTypeProjectRequired
           \<or> hasPolicyType metas PolicyTypeResolvePermissions
      then Some (PolicyTypeAuthRequired
                 @ '' is required when RBAC or project policies are configured'')
      else None)"

abbreviation "projectIDParam \<equiv> ''project_id''"
abbreviation "projectIDParamAlias \<equiv> ''projectId''"
abbreviation "projectIDParamCamel \<equiv> ''projectid''"

definition patternContainsProjectID :: "string \<Rightarrow> bool" where
  "patternContainsProjectID pattern =
     (let lowered = to_lower (trim_space pattern)
      in contains lowered (''{'' @ projectIDParam @ ''}'')
         \<or> contains lowered (''{'' @ projectIDParamCamel @ ''}''))"

definition normalizePathParam :: "string \<Rightarrow> string" where
  "normalizePathParam param = to_lower (trim_space param)"

definition routeProjectPathParam :: "string \<Rightarrow> string" where
  "routeProjectPathParam pattern =
     (let lowered = to_lower (trim_space pattern)
      in if contains lowered (''{'' @ projectIDParam @ ''}'') then projectIDParam
         else if contains lowered (''{'' @ projectIDParamCamel @ ''}'') then projectIDParamCamel
         else [])"

definition isProjectPathParam :: "string \<Rightarrow> bool" where
  "isProjectPathParam pathParam =
     (let n = normalizePathParam pathParam in n = projectIDParam \<or> n = projectIDParamCamel)"

definition displayProjectPathParam :: "string \<Rightarrow> string" where
  "displayProjectPathParam pathParam =
     (if pathParam = projectIDParamCamel then projectIDParamAlias else projectIDParam)"

definition quoted :: "string \<Rightarrow> string" where
  "quoted s = dquote # s @ [dquote]"

fun match_params_loop :: "string \<Rightarrow> string \<Rightarrow> metadata list \<Rightarrow> string option" where
  "match_params_loop pattern expected [] = None"
| "match_params_loop pattern expected (m # ms) =
     (let n = normalizePathParam (md_project_path_param m) in
      if \<not> isProjectPathParam n
      then Some (PolicyTypeProjectMatchFromPath @ '' for route '' @ pattern
             @ '' must use path param '' @ quoted projectIDParam @ '' or ''
             @ quoted projectIDParamAlias)
      else if expected \<noteq> [] \<and> n \<noteq> expected
      then Some (PolicyTypeProjectMatchFromPath @ '' for route '' @ pattern
             @ '' must use path param '' @ quoted (displayProjectPathParam expected))
      else match_params_loop pattern expected ms)"

definition validateProjectRules :: "string \<Rightarrow> metadata list \<Rightarrow> string option" where
  "validateProjectRules pattern metas =
     (let hasRequired = hasPolicyType metas PolicyTypeProjectRequired;
          matches = findPolicies metas PolicyTypeProjectMatchFromPath;
          hasPath = patternContainsProjectID pattern;
          expected = routeProjectPathParam pattern
      in if hasRequired \<and> \<not> hasPath
         then Some (''route '' @ pattern
           @ '' requires path parameter {project_id} or {projectId} when ''
           @ PolicyTypeProjectRequired @ '' is configured'')
         else if hasRequired \<and> matches = []
         then Some (PolicyTypeProjectRequired @ '' requires '' @ PolicyTypeProjectMatchFromPath)
         else if matches \<noteq> [] \<and> \<not> hasRequired
         then Some (PolicyTypeProjectMatchFromPath @ '' requires '' @ PolicyTypeProjectRequired)
         else if hasPath
         then (if \<not> hasRequired
               then Some (''route '' @ pattern @ '' requires '' @ PolicyTypeProjectRequired)
               else if matches = []
               then Some (''route '' @ pattern @ '' requires '' @ PolicyTypeProjectMatchFromPath)
               else match_params_loop pattern expected matches)
         else None)"

definition hasRBAC :: "metadata list \<Rightarrow> bool" where
  "hasRBAC metas \<longleftrightarrow> hasPolicyType metas PolicyTypeRequirePermission
     \<or> hasPolicyType metas PolicyTypeRequireAnyPermission
     \<or> hasPolicyType metas PolicyTypeRequireAllPermissions"

definition validateResolverRules :: "metadata list \<Rightarrow> string option" where
  "validateResolverRules metas =
     (let hasResolver = hasPolicyType metas PolicyTypeResolvePermissions;
          hasRequired = hasPolicyType metas PolicyTypeProjectRequired
      in if hasResolver \<and> \<not> hasRequired
         then Some (PolicyTypeResolvePermissions @ '' requires '' @ PolicyTypeProjectRequired)
         else if hasRBAC metas \<and> \<not> hasResolver
         then Some (PolicyTypeResolvePermissions
                    @ '' is required when RBAC policies are configured'')
         else None)"

fun cache_safety_loop :: "metadata list \<Rightarrow> string option" where
  "cache_safety_loop [] = None"
| "cache_safety_loop (m # ms) =
     (if crm_shared_authenticated (md_cache_read m) then cache_safety_loop ms
      else if \<not> crm_vary_by_user_id (md_cache_read m) \<and> \<not> crm_vary_by_project_id (md_cache_read m)
      then Some (PolicyTypeCacheRead
        @ '' on authenticated routes requires VaryBy.UserID or VaryBy.ProjectID unless ''
        @ ''SharedAuthenticated is true'')
      else cache_safety_loop ms)"

definition validateCacheSafety :: "metadata list \<Rightarrow> string option" where
  "validateCacheSafety metas =
     (if \<not> hasPolicyType metas PolicyTypeAuthRequired then None
      else cache_safety_loop (findPolicies metas PolicyTypeCacheRead))"

fun first_error :: "string option list \<Rightarrow> string option" where
  "first_error [] = None"
| "first_error (e # es) = (case e of Some m \<Rightarrow> Some m | None \<Rightarrow> first_error es)"

definition validateRouteRules :: "string \<Rightarrow> metadata list \<Rightarrow> string option" where
  "validateRouteRules pattern metas =
     first_error [validatePolicyOrdering metas, validateAuthDependencies metas,
       validateProjectRules pattern metas, validateResolverRules metas, validateCacheSafety metas]"

section \<open>Entry points\<close>

definition ValidateRouteMetadata ::
  "string \<Rightarrow> string \<Rightarrow> metadata list \<Rightarrow> string option" where
  "ValidateRouteMetadata method pattern metas =
     (let trimmedMethod = to_upper (trim_space method);
          trimmedPattern = trim_space pattern
      in if trimmedMethod = [] then Some ''http method is required''
         else if trimmedPattern = [] then Some ''route pattern is required''
         else if metas = [] then None
         else validateRouteRules trimmedPattern metas)"

definition ValidateRoute ::
  "registry \<Rightarrow> string \<Rightarrow> string \<Rightarrow> 'p policy_value option list \<Rightarrow> string option" where
  "ValidateRoute reg method pattern policies =
     (let trimmedMethod = trim_space method; trimmedPattern = trim_space pattern
      in if trimmedMethod = [] then Some ''http method is required''
         else if trimmedPattern = [] then Some ''route pattern is required''
         else (case DescribePolicies reg policies of
                 Inl e \<Rightarrow> Some e
               | Inr metas \<Rightarrow> ValidateRouteMetadata (to_upper trimmedMethod) trimmedPattern metas))"

text \<open>\<open>Inl\<close> is the panic message of \<open>panicInvalidRouteConfig\<close>.\<close>

definition panicInvalidRouteConfig :: "string \<Rightarrow> string" where
  "panicInvalidRouteConfig message = ''invalid route config: '' @ trim_space message"

definition MustValidateRoute ::
  "registry \<Rightarrow> string \<Rightarrow> string \<Rightarrow> 'p policy_value option list \<Rightarrow> string + unit" where
  "MustValidateRoute reg method pattern policies =
     (case ValidateRoute reg method pattern policies of
        Some e \<Rightarrow> Inl (panicInvalidRouteConfig e) | None \<Rightarrow> Inr ())"

section \<open>What the validator accepts\<close>

lemma hasPolicyType_iff: "hasPolicyType ms t \<longleftrightarrow> t \<in> md_type ` set ms"
  by (induction ms) auto

lemma findPolicies_empty_iff: "findPolicies ms t = [] \<longleftrightarrow> \<not> hasPolicyType ms t"
  by (auto simp: findPolicies_def hasPolicyType_iff filter_empty_conv)

definition stages :: "metadata list \<Rightarrow> nat list" where
  "stages metas = filter (\<lambda>s. 0 < s) (map (\<lambda>m. policyOrderStage (md_type m)) metas)"

lemma stages_simps [simp]:
  "stages [] = []"
  "stages (m # ms) = (if 0 < policyOrderStage (md_type m)
     then policyOrderStage (md_type m) # stages ms else stages ms)"
  by (simp_all add: stages_def)

lemma stages_append [simp]: "stages (xs @ ys) = stages xs @ stages ys"
  by (simp add: stages_def)

fun first_index :: "nat \<Rightarrow> policy_type \<Rightarrow> metadata list \<Rightarrow> nat option" where
  "first_index i t [] = None"
| "first_index i t (m # ms) = (if md_type m = t then Some i else first_index (i + 1) t ms)"

lemma first_index_None: "first_index i t ms = None \<longleftrightarrow> \<not> hasPolicyType ms t"
  by (induction ms arbitrary: i) auto

lemma first_index_ge: "first_index i t ms = Some k \<Longrightarrow> i \<le> k"
  by (induction ms arbitrary: i) (fastforce split: if_splits)+

lemma ordering_loop_Inr:
  "ordering_loop i prev pt r m ms = Inr (r', m') \<longleftrightarrow>
     sorted (prev # stages ms)
     \<and> r' = (if r = None then first_index i PolicyTypeProjectRequired ms else r)
     \<and> m' = (if m = None then first_index i PolicyTypeProjectMatchFromPath ms else m)"
proof (induction ms arbitrary: i prev pt r m)
  case Nil
  show ?case by auto
next
  case (Cons a ms)
  show ?case
  proof (cases "0 < policyOrderStage (md_type a) \<and> policyOrderStage (md_type a) < prev")
    case True
    then show ?thesis by (auto simp: Let_def)
  next
    case False
    then show ?thesis by (auto simp: Let_def Cons.IH simp del: Un_iff)
  qed
qed

definition match_follows_required :: "metadata list \<Rightarrow> bool" where
  "match_follows_required metas \<longleftrightarrow>
     hasPolicyType metas PolicyTypeProjectRequired
     \<longrightarrow> hasPolicyType metas PolicyTypeProjectMatchFromPath
     \<longrightarrow> hasPolicyType (takeWhile (\<lambda>m. md_type m \<noteq> PolicyTypeProjectMatchFromPath) metas)
          PolicyTypeProjectRequired"

lemma first_index_takeWhile:
  "\<lbrakk>first_index i s ms = Some a; first_index i t ms = Some b; s \<noteq> t\<rbrakk> \<Longrightarrow>
     hasPolicyType (takeWhile (\<lambda>m. md_type m \<noteq> t) ms) s \<longleftrightarrow> a < b"
proof (induction ms arbitrary: i)
  case Nil
  then show ?case by simp
next
  case (Cons m ms)
  then show ?case
    using first_index_ge [of "i + 1" s ms a] first_index_ge [of "i + 1" t ms b]
    by (auto split: if_splits)
qed

lemma first_index_distinct:
  "\<lbrakk>first_index i s ms = Some a; first_index i t ms = Some b; s \<noteq> t\<rbrakk> \<Longrightarrow> a \<noteq> b"
proof (induction ms arbitrary: i)
  case Nil
  then show ?case by simp
next
  case (Cons m ms)
  then show ?case
    using first_index_ge [of "i + 1" s ms a] first_index_ge [of "i + 1" t ms b]
    by (auto split: if_splits)
qed

lemma validatePolicyOrdering_None:
  "validatePolicyOrdering metas = None \<longleftrightarrow>
     sorted (stages metas) \<and> match_follows_required metas"
proof (cases "sorted (stages metas)")
  case False
  then have "\<exists>e. ordering_loop 0 0 PolicyTypeUnknown None None metas = Inl e"
    using ordering_loop_Inr [of 0 0 PolicyTypeUnknown None None metas]
    by (cases "ordering_loop 0 0 PolicyTypeUnknown None None metas") auto
  with False show ?thesis by (auto simp: validatePolicyOrdering_def)
next
  case True
  let ?r = "first_index 0 PolicyTypeProjectRequired metas"
  let ?m = "first_index 0 PolicyTypeProjectMatchFromPath metas"
  have loop: "ordering_loop 0 0 PolicyTypeUnknown None None metas = Inr (?r, ?m)"
    using True by (simp add: ordering_loop_Inr)
  show ?thesis
  proof (cases "?r = None \<or> ?m = None")
    case True
    then have "match_follows_required metas"
      by (auto simp: match_follows_required_def first_index_None)
    with loop True \<open>sorted (stages metas)\<close> show ?thesis
      by (auto simp: validatePolicyOrdering_def split: option.splits)
  next
    case False
    then obtain a b where ab: "?r = Some a" "?m = Some b" by force
    have ne: "PolicyTypeProjectRequired \<noteq> PolicyTypeProjectMatchFromPath" by simp
    have "hasPolicyType metas PolicyTypeProjectRequired"
      "hasPolicyType metas PolicyTypeProjectMatchFromPath"
      using ab by (metis first_index_None option.distinct(1))+
    with loop ab \<open>sorted (stages metas)\<close> first_index_takeWhile [OF ab ne]
      first_index_distinct [OF ab ne]
    show ?thesis
      by (auto simp: validatePolicyOrdering_def match_follows_required_def)
  qed
qed

lemma match_params_loop_None:
  "expected = projectIDParam \<or> expected = projectIDParamCamel \<Longrightarrow>
     match_params_loop pattern expected ms = None
     \<longleftrightarrow> (\<forall>m \<in> set ms. normalizePathParam (md_project_path_param m) = expected)"
  by (induction ms) (auto simp: Let_def isProjectPathParam_def normalizePathParam_def
      trim_literal case_literal trim_space_to_lower)

lemma cache_safety_loop_None:
  "cache_safety_loop ms = None \<longleftrightarrow>
     (\<forall>m \<in> set ms. crm_shared_authenticated (md_cache_read m)
        \<or> crm_vary_by_user_id (md_cache_read m) \<or> crm_vary_by_project_id (md_cache_read m))"
  by (induction ms) auto

lemma routeProjectPathParam_cases:
  "patternContainsProjectID pattern \<longleftrightarrow>
     routeProjectPathParam pattern = projectIDParam
     \<or> routeProjectPathParam pattern = projectIDParamCamel"
  by (simp add: patternContainsProjectID_def routeProjectPathParam_def Let_def)

text \<open>The wiring rules, as a property of the list of metadata.\<close>

record wiring =
  wr_auth :: bool
  wr_required :: bool
  wr_match :: bool
  wr_resolver :: bool
  wr_rbac :: bool

definition wiring_of :: "metadata list \<Rightarrow> wiring" where
  "wiring_of metas = \<lparr>
     wr_auth = hasPolicyType metas PolicyTypeAuthRequired,
     wr_required = hasPolicyType metas PolicyTypeProjectRequired,
     wr_match = hasPolicyType metas PolicyTypeProjectMatchFromPath,
     wr_resolver = hasPolicyType metas PolicyTypeResolvePermissions,
     wr_rbac = hasRBAC metas\<rparr>"

definition well_wired :: "string \<Rightarrow> metadata list \<Rightarrow> bool" where
  "well_wired pattern metas \<longleftrightarrow>
     sorted (stages metas)
     \<and> match_follows_required metas
     \<and> (wr_rbac (wiring_of metas) \<longrightarrow> wr_resolver (wiring_of metas))
     \<and> (wr_resolver (wiring_of metas) \<longrightarrow> wr_required (wiring_of metas))
     \<and> (wr_required (wiring_of metas) \<longrightarrow> wr_auth (wiring_of metas))
     \<and> (wr_required (wiring_of metas) \<longleftrightarrow> wr_match (wiring_of metas))
     \<and> (wr_required (wiring_of metas) \<longleftrightarrow> patternContainsProjectID pattern)
     \<and> (\<forall>m \<in> set metas. md_type m = PolicyTypeProjectMatchFromPath \<longrightarrow>
          normalizePathParam (md_project_path_param m) = routeProjectPathParam pattern)
     \<and> (wr_auth (wiring_of metas) \<longrightarrow> (\<forall>m \<in> set metas. md_type m = PolicyTypeCacheRead \<longrightarrow>
          crm_shared_authenticated (md_cache_read m) \<or> crm_vary_by_user_id (md_cache_read m)
          \<or> crm_vary_by_project_id (md_cache_read m)))"

lemma wiring_of_simps [simp]:
  "wr_auth (wiring_of ms) = hasPolicyType ms PolicyTypeAuthRequired"
  "wr_required (wiring_of ms) = hasPolicyType ms PolicyTypeProjectRequired"
  "wr_match (wiring_of ms) = hasPolicyType ms PolicyTypeProjectMatchFromPath"
  "wr_resolver (wiring_of ms) = hasPolicyType ms PolicyTypeResolvePermissions"
  "wr_rbac (wiring_of ms) = hasRBAC ms"
  by (simp_all add: wiring_of_def)

lemma validateProjectRules_None:
  "validateProjectRules pattern metas = None \<longleftrightarrow>
     (hasPolicyType metas PolicyTypeProjectRequired
        \<longleftrightarrow> hasPolicyType metas PolicyTypeProjectMatchFromPath)
     \<and> (hasPolicyType metas PolicyTypeProjectRequired \<longleftrightarrow> patternContainsProjectID pattern)
     \<and> (\<forall>m \<in> set metas. md_type m = PolicyTypeProjectMatchFromPath \<longrightarrow>
          normalizePathParam (md_project_path_param m) = routeProjectPathParam pattern)"
proof (cases "patternContainsProjectID pattern")
  case True
  then have loop: "match_params_loop pattern (routeProjectPathParam pattern) ms = None
      \<longleftrightarrow> (\<forall>m \<in> set ms. normalizePathParam (md_project_path_param m)
             = routeProjectPathParam pattern)" for ms
    using match_params_loop_None routeProjectPathParam_cases by blast
  show ?thesis
    using True
    by (auto simp: validateProjectRules_def loop findPolicies_empty_iff Let_def)
       (auto simp: findPolicies_def)
next
  case False
  then show ?thesis
    by (auto simp: validateProjectRules_def Let_def findPolicies_empty_iff hasPolicyType_iff)
       force
qed

lemma validateRouteRules_None: "validateRouteRules pattern metas = None \<longleftrightarrow> well_wired pattern metas"
proof -
  have rest: "validateAuthDependencies metas = None \<longleftrightarrow>
      hasPolicyType metas PolicyTypeAuthRequired \<or>
      \<not> hasRBAC metas \<and> \<not> hasPolicyType metas PolicyTypeProjectRequired
      \<and> \<not> hasPolicyType metas PolicyTypeResolvePermissions"
    by (simp add: validateAuthDependencies_def hasRBAC_def)
  have resolver: "validateResolverRules metas = None \<longleftrightarrow>
      (hasPolicyType metas PolicyTypeResolvePermissions
         \<longrightarrow> hasPolicyType metas PolicyTypeProjectRequired)
      \<and> (hasRBAC metas \<longrightarrow> hasPolicyType metas PolicyTypeResolvePermissions)"
    by (simp add: validateResolverRules_def Let_def)
  have cache: "validateCacheSafety metas = None \<longleftrightarrow>
      (hasPolicyType metas PolicyTypeAuthRequired \<longrightarrow>
       (\<forall>m \<in> set metas. md_type m = PolicyTypeCacheRead \<longrightarrow>
          crm_shared_authenticated (md_cache_read m) \<or> crm_vary_by_user_id (md_cache_read m)
          \<or> crm_vary_by_project_id (md_cache_read m)))"
    by (auto simp: validateCacheSafety_def cache_safety_loop_None findPolicies_def)
  have errors: "first_error es = None \<longleftrightarrow> (\<forall>e \<in> set es. e = None)" for es
    by (induction es) (auto split: option.splits)
  show ?thesis
    unfolding validateRouteRules_def well_wired_def errors
    by (simp add: validatePolicyOrdering_None validateProjectRules_None rest resolver cache)
      blast
qed

section \<open>The registry\<close>

lemma describe_from_Inr:
  "describe_from reg i ps = Inr ms \<longleftrightarrow>
     None \<notin> set ps \<and> map (\<lambda>p. DescribePolicy reg p) ps = map Some ms"
proof (induction ps arbitrary: i ms)
  case Nil
  then show ?case by auto
next
  case (Cons p ps)
  show ?case
  proof (cases "p = None \<or> DescribePolicy reg p = None")
    case True
    then show ?thesis by (auto split: option.splits)
  next
    case False
    then obtain pv m where pm: "p = Some pv" "DescribePolicy reg p = Some m"
      by (metis option.exhaust)
    show ?thesis
      using Cons.IH [of "i + 1"] pm
      by (cases ms; cases "describe_from reg (i + 1) ps") auto
  qed
qed

lemma ValidateRouteMetadata_None:
  "ValidateRouteMetadata method pattern ms = None \<longleftrightarrow>
     \<not> blank method \<and> \<not> blank pattern \<and> (ms = [] \<or> well_wired (trim_space pattern) ms)"
  by (simp add: ValidateRouteMetadata_def Let_def validateRouteRules_None blank_def)

lemma ValidateRoute_None:
  "ValidateRoute reg method pattern ps = None \<longleftrightarrow>
     \<not> blank method \<and> \<not> blank pattern
     \<and> (\<exists>ms. DescribePolicies reg ps = Inr ms \<and> (ms = [] \<or> well_wired (trim_space pattern) ms))"
  by (auto simp: ValidateRoute_def ValidateRouteMetadata_None Let_def blank_def [symmetric]
      split: sum.splits)

text \<open>C17: the route validator accepts a route exactly when its method and its pattern are not
  blank, every policy is non-nil and annotated, and the metadata found under the policies' code
  pointers is empty or satisfies the wiring rules of \<open>well_wired\<close> (stage order, RBAC needs a
  resolver needs a project guard needs authentication, project guard and path match go together
  and with a project parameter in the pattern, authenticated cached routes vary by caller).\<close>

theorem ValidateRoute_accepts:
  "ValidateRoute reg method pattern ps = None \<longleftrightarrow>
     trim_space method \<noteq> [] \<and> trim_space pattern \<noteq> []
     \<and> None \<notin> set ps
     \<and> (\<exists>ms. map (\<lambda>p. DescribePolicy reg p) ps = map Some ms
           \<and> (ps = [] \<or> well_wired (trim_space pattern) ms))"
  by (auto simp: ValidateRoute_None DescribePolicies_def describe_from_Inr blank_def)

end
