(* ===== verification/Permissions.thy ===== *)
theory Permissions
  imports Http Project_Tables
begin

text \<open>
  Permission resolution (\<open>internal/core/permissions\<close>): the relational resolver, the Redis-first
  hybrid resolver with its backfill, the resolver cache, permission tags, and the lifecycle
  that seeds and resynchronises masks at startup.
\<close>

section \<open>State\<close>

record resolution =
  rs_user :: string
  rs_project :: string
  rs_role :: string
  rs_mask :: mask
  rs_custom :: bool
  rs_updated :: int

record cache_entry =
  ce_project :: string
  ce_mask :: mask
  ce_role :: string
  ce_custom :: bool
  ce_updated :: int

text \<open>A Redis value, at the level of what \<open>encoding/json\<close> reads from it: an object of
  entries, or any other text, which does not decode unless it is blank.\<close>

datatype redis_value = RText string | REntries "string \<rightharpoonup> cache_entry"

text \<open>The pending backfills are the goroutines \<open>backfillAsync\<close> has started. The Redis requests
  are numbered like those of a session, and may fail.\<close>

record perm_world = "tables session" +
  pw_redis :: "string \<rightharpoonup> redis_value"
  pw_redis_count :: nat
  pw_redis_fault :: "nat \<Rightarrow> err option"
  pw_pending :: "(string \<times> string \<times> resolution) list"
  pw_bumped :: "string list"

abbreviation "ErrMembershipNotFound \<equiv> ESent ''permissions.ErrMembershipNotFound''"
abbreviation "ErrMaskInconsistent \<equiv> ESent ''permissions.ErrMaskInconsistent''"
abbreviation "ErrDependencyFailure \<equiv> ESent ''permissions.ErrDependencyFailure''"

definition IsMembershipNotFound :: "err \<Rightarrow> bool" where
  "IsMembershipNotFound e = err_is ''permissions.ErrMembershipNotFound'' e"

definition IsMaskInconsistent :: "err \<Rightarrow> bool" where
  "IsMaskInconsistent e = err_is ''permissions.ErrMaskInconsistent'' e"

definition IsDependencyFailure :: "err \<Rightarrow> bool" where
  "IsDependencyFailure e = err_is ''permissions.ErrDependencyFailure'' e"

lemmas resolver_error_defs = IsMembershipNotFound_def IsMaskInconsistent_def IsDependencyFailure_def

type_synonym ('s) resolver = "string \<Rightarrow> string \<Rightarrow> ('s, resolution) eff"

section \<open>Relational resolver\<close>

record membership_row =
  ms_project :: string
  ms_role :: string
  ms_custom :: bool
  ms_mask :: int
  ms_role_mask :: "int option"
  ms_member_updated :: int
  ms_role_updated :: int

text \<open>\<open>queryResolveProjectMembership\<close>: projects by id or slug, joined with the active memberships
  of the user and, when there is one, the row of the member's role. The order of rows behind
  \<open>LIMIT 1\<close> is the tables' order here; PostgreSQL promises none.\<close>

definition membership_row_of :: "tables \<Rightarrow> project_row \<Rightarrow> member_row \<Rightarrow> membership_row" where
  "membership_row_of d p m =
     (let rp = find_role_row d (mb_project m) (mb_role m) in
      \<lparr>ms_project = pj_id p, ms_role = mb_role m, ms_custom = mb_custom m, ms_mask = mb_mask m,
       ms_role_mask = map_option rp_mask rp, ms_member_updated = mb_updated m,
       ms_role_updated = (case rp of None \<Rightarrow> 0 | Some r \<Rightarrow> rp_updated r)\<rparr>)"

definition membership_matches ::
  "tables \<Rightarrow> string \<Rightarrow> string \<Rightarrow> project_row \<Rightarrow> membership_row list" where
  "membership_matches d key u p =
     (if pj_id p = key \<or> pj_slug p = key
      then map (membership_row_of d p)
             (filter (\<lambda>m. mb_project m = pj_id p \<and> mb_user m = u \<and> mb_status m = ''Active'')
                (tb_members d))
      else [])"

definition query_membership ::
  "uuid_cast \<Rightarrow> string \<Rightarrow> string \<Rightarrow> (tables, membership_row) stmt" where
  "query_membership uuid project user d =
     sum_bind (cast_uuid uuid user) (\<lambda>u.
       Inr (take 1 (concat (map (membership_matches d project u) (tb_projects d))), d))"

text \<open>The row is scanned into plain variables: what pgx does with a NULL role mask there is
  \<open>null_mask\<close> (an error, or the number it stores).\<close>

definition scan_membership ::
  "err + int \<Rightarrow> membership_row \<Rightarrow> err + (membership_row \<times> int)" where
  "scan_membership null_mask row =
     (case ms_role_mask row of Some n \<Rightarrow> Inr (row, n)
      | None \<Rightarrow> sum_bind null_mask (\<lambda>n. Inr (row, n)))"

definition missing_ids :: err where
  "missing_ids = EWrap ''missing user or project id'' [ErrMaskInconsistent]"

text \<open>The checks of \<open>(*RelationalResolver).Resolve\<close> after the query; \<open>now\<close> is the clock.\<close>

definition resolution_of ::
  "int \<Rightarrow> string \<Rightarrow> membership_row \<times> int \<Rightarrow> err + resolution" where
  "resolution_of now user scanned =
     (let row = fst scanned; roleMask = snd scanned;
          hasRoleMask = (ms_role_mask row \<noteq> None)
      in if ms_mask row < 0
         then Inl (EWrap ''member permission mask is negative'' [ErrMaskInconsistent])
         else if \<not> ms_custom row \<and> \<not> hasRoleMask
         then Inl (EWrap ''role permission mask missing'' [ErrMaskInconsistent])
         else if \<not> ms_custom row \<and> roleMask < 0
         then Inl (EWrap ''role permission mask is negative'' [ErrMaskInconsistent])
         else if trim_space (ms_project row) = []
         then Inl (EWrap ''resolved project id is empty'' [ErrMaskInconsistent])
         else
           (let effective = (if ms_custom row then word_of_int (ms_mask row)
                             else word_of_int roleMask);
                updated = (if \<not> ms_custom row \<and> ms_role_updated row > ms_member_updated row
                           then ms_role_updated row else ms_member_updated row)
            in Inr \<lparr>rs_user = user, rs_project = trim_space (ms_project row),
                    rs_role = ms_role row, rs_mask = effective, rs_custom = ms_custom row,
                    rs_updated = (if updated \<le> 0 then now else updated)\<rparr>))"

definition membership_error :: "err \<Rightarrow> err" where
  "membership_error e =
     (if err_is ''pgx.ErrNoRows'' e
      then EWrap ''project membership not found'' [ErrMembershipNotFound]
      else EWrap ''resolve project membership'' [ErrDependencyFailure, e])"

definition RelationalResolve ::
  "uuid_cast \<Rightarrow> err + int \<Rightarrow> int \<Rightarrow> ((tables, 'z) session_scheme) resolver" where
  "RelationalResolve uuid null_mask now userID projectID =
     (let user = trim_space userID; project = trim_space projectID in
      if user = [] \<or> project = [] then eff_throw missing_ids
      else eff_bind
        (eff_map_err membership_error
          (RelationalQueryOne (query_membership uuid project user) (scan_membership null_mask)))
        (\<lambda>scanned. eff_lift (resolution_of now user scanned)))"

section \<open>Resolver cache\<close>

definition rbacKey :: "string \<Rightarrow> string" where
  "rbacKey userID = ''rbac:'' @ trim_space userID"

definition redis_request ::
  "(perm_world \<Rightarrow> 'a \<times> perm_world) \<Rightarrow> (perm_world, 'a) eff" where
  "redis_request f w =
     (let w' = w\<lparr>pw_redis_count := pw_redis_count w + 1\<rparr> in
      case pw_redis_fault w (pw_redis_count w) of
        Some e \<Rightarrow> (Inl e, w') | None \<Rightarrow> (case f w' of (a, v) \<Rightarrow> (Inr a, v)))"

definition redis_get :: "string \<Rightarrow> (perm_world, redis_value option) eff" where
  "redis_get key = redis_request (\<lambda>w. (pw_redis w key, w))"

definition redis_set :: "string \<Rightarrow> redis_value \<Rightarrow> (perm_world, unit) eff" where
  "redis_set key v = redis_request (\<lambda>w. ((), w\<lparr>pw_redis := (pw_redis w)(key \<mapsto> v)\<rparr>))"

definition redis_del :: "string list \<Rightarrow> (perm_world, unit) eff" where
  "redis_del keys = redis_request (\<lambda>w. ((), w\<lparr>pw_redis := (pw_redis w) |` (- set keys)\<rparr>))"

text \<open>\<open>decodeUserMaskCache\<close>; no value reads as the empty payload.\<close>

definition decodeUserMaskCache :: "redis_value option \<Rightarrow> (string \<rightharpoonup> cache_entry) option" where
  "decodeUserMaskCache payload =
     (case payload of None \<Rightarrow> Some Map.empty
      | Some (REntries m) \<Rightarrow> Some m
      | Some (RText t) \<Rightarrow> if trim_space t = [] then Some Map.empty else None)"

definition resolvedProjectID :: "string \<Rightarrow> string \<Rightarrow> string" where
  "resolvedProjectID requested resolved =
     (if trim_space resolved \<noteq> [] then trim_space resolved else trim_space requested)"

definition resolution_of_entry :: "string \<Rightarrow> string \<Rightarrow> cache_entry \<Rightarrow> resolution" where
  "resolution_of_entry user project e =
     \<lparr>rs_user = user, rs_project = resolvedProjectID project (ce_project e),
      rs_role = ce_role e, rs_mask = ce_mask e, rs_custom = ce_custom e,
      rs_updated = ce_updated e\<rparr>"

definition resolveFromCache ::
  "string \<Rightarrow> string \<Rightarrow> (perm_world, resolution option) eff" where
  "resolveFromCache user project =
     eff_bind (redis_get (rbacKey user)) (\<lambda>payload. eff_ret
       (case payload of None \<Rightarrow> None
        | Some v \<Rightarrow> (case decodeUserMaskCache (Some v) of None \<Rightarrow> None
            | Some m \<Rightarrow> map_option (resolution_of_entry user project) (m project))))"

definition entry_of_resolution :: "resolution \<Rightarrow> cache_entry" where
  "entry_of_resolution r =
     \<lparr>ce_project = trim_space (rs_project r), ce_mask = rs_mask r, ce_role = rs_role r,
      ce_custom = rs_custom r, ce_updated = rs_updated r\<rparr>"

definition backfill_keys :: "string \<Rightarrow> resolution \<Rightarrow> string list" where
  "backfill_keys project r =
     (let canonical = trim_space (rs_project r) in
      project # (if canonical \<noteq> [] \<and> \<not> equal_fold canonical project then [canonical] else []))"

text \<open>The loop over the keys: the map and whether it changed.\<close>

fun backfill_loop ::
  "resolution \<Rightarrow> string list \<Rightarrow> (string \<rightharpoonup> cache_entry) \<times> bool
     \<Rightarrow> (string \<rightharpoonup> cache_entry) \<times> bool" where
  "backfill_loop r [] (m, changed) = (m, changed)"
| "backfill_loop r (key # keys) (m, changed) =
     (let k = trim_space key in
      if k = [] then backfill_loop r keys (m, changed)
      else if (case m k of None \<Rightarrow> False | Some e \<Rightarrow> ce_updated e > rs_updated r)
      then backfill_loop r keys (m, changed)
      else backfill_loop r keys (m(k \<mapsto> entry_of_resolution r), True))"

definition backfillOnce :: "string \<Rightarrow> string \<Rightarrow> resolution \<Rightarrow> (perm_world, unit) eff" where
  "backfillOnce userID projectID resolved =
     eff_bind (redis_get (rbacKey userID)) (\<lambda>payload.
       (let start = (case decodeUserMaskCache payload of Some m \<Rightarrow> m | None \<Rightarrow> Map.empty);
            result = backfill_loop resolved (backfill_keys projectID resolved) (start, False)
        in if \<not> snd result then eff_ret ()
           else eff_case (redis_set (rbacKey userID) (REntries (fst result)))
                  (\<lambda>e. if err_is ''redis.TxFailedErr'' e then eff_ret () else eff_throw e)
                  eff_ret))"

definition backfillAsync :: "string \<Rightarrow> string \<Rightarrow> resolution \<Rightarrow> (perm_world, unit) eff" where
  "backfillAsync userID projectID resolved w =
     (Inr (), w\<lparr>pw_pending := pw_pending w @ [(userID, projectID, resolved)]\<rparr>)"

text \<open>\<open>has_redis\<close> is \<open>r.redis != nil\<close>.\<close>

definition HybridResolve :: "bool \<Rightarrow> perm_world resolver \<Rightarrow> perm_world resolver" where
  "HybridResolve has_redis fallback userID projectID =
     (let user = trim_space userID; project = trim_space projectID;
          ask = eff_bind (fallback user project) (\<lambda>r.
                  if has_redis then eff_bind (backfillAsync user project r) (\<lambda>_. eff_ret r)
                  else eff_ret r)
      in if user = [] \<or> project = [] then eff_throw missing_ids
         else if has_redis
         then eff_case (resolveFromCache user project) (\<lambda>_. ask)
                (\<lambda>cached. case cached of Some r \<Rightarrow> eff_ret r | None \<Rightarrow> ask)
         else ask)"

definition cache_keys :: "string list \<Rightarrow> string list" where
  "cache_keys userIDs =
     dedupe (\<lambda>u. let key = rbacKey u in if trim_space key = [] then None else Some (key, key))
       [] userIDs"

definition InvalidateResolverUserCache :: "bool \<Rightarrow> string list \<Rightarrow> (perm_world, unit) eff" where
  "InvalidateResolverUserCache has_redis userIDs =
     (if \<not> has_redis \<or> userIDs = [] then eff_ret ()
      else if cache_keys userIDs = [] then eff_ret ()
      else eff_map_err (\<lambda>e. EWrap ''invalidate resolver user cache'' [e])
             (redis_del (cache_keys userIDs)))"

section \<open>Tags\<close>

definition PermissionTags :: "string \<Rightarrow> string \<Rightarrow> string list" where
  "PermissionTags userID projectID =
     (let user = trim_space userID; project = trim_space projectID in
      if user = [] \<or> project = [] then []
      else [''permissions:user='' @ user, ''permissions:project='' @ project,
            ''permissions:project_user='' @ project @ '':'' @ user])"

type_synonym 's tag_invalidator = "(string list \<Rightarrow> ('s, unit) eff) option"

definition InvalidatePermissionTags ::
  "'s tag_invalidator \<Rightarrow> string \<Rightarrow> string \<Rightarrow> ('s, unit) eff" where
  "InvalidatePermissionTags invalidator userID projectID =
     (case invalidator of
        None \<Rightarrow> eff_throw (EText ''permission tag invalidator is nil'')
      | Some bump \<Rightarrow> let tags = PermissionTags userID projectID in
          if tags = [] then eff_ret () else bump tags)"

section \<open>Lifecycle\<close>

definition stmt_seed_role :: "string \<Rightarrow> int \<Rightarrow> (tables, unit) stmt" where
  "stmt_seed_role role k d =
     sum_bind (cast_role role) (\<lambda>r.
       let missing = filter (\<lambda>p. find_role_row d (pj_id p) r = None) (tb_projects d) in
       if k < 0 \<and> missing \<noteq> [] then Inl (EPg ''23514'')
       else Inr ([], d\<lparr>tb_roles := tb_roles d
              @ map (\<lambda>p. \<lparr>rp_project = pj_id p, rp_role = r, rp_mask = k,
                         rp_updated_by = None, rp_updated = tb_now d\<rparr>) missing\<rparr>))"

definition out_of_sync :: "tables \<Rightarrow> member_row \<Rightarrow> int option" where
  "out_of_sync d m =
     (case find_role_row d (mb_project m) (mb_role m) of None \<Rightarrow> None
      | Some r \<Rightarrow> if \<not> mb_custom m \<and> mb_mask m \<noteq> rp_mask r then Some (rp_mask r) else None)"

definition resync_member :: "tables \<Rightarrow> member_row \<Rightarrow> member_row" where
  "resync_member d m =
     (case out_of_sync d m of None \<Rightarrow> m
      | Some k \<Rightarrow> m\<lparr>mb_mask := k, mb_updated := tb_now d\<rparr>)"

definition stmt_resync :: "(tables, string \<times> string) stmt" where
  "stmt_resync d =
     Inr (map (\<lambda>m. (mb_user m, mb_project m)) (filter (\<lambda>m. out_of_sync d m \<noteq> None) (tb_members d)),
          d\<lparr>tb_members := map (resync_member d) (tb_members d)\<rparr>)"

definition seed_role :: "string \<Rightarrow> ((tables, 'z) session_scheme, unit) eff" where
  "seed_role role =
     (case DefaultRoleMask role of
        None \<Rightarrow> eff_throw (EText (''default role mask missing for role '' @ role))
      | Some bits \<Rightarrow>
          if uint bits > max_int64
          then eff_throw (EText (''default role mask overflow for role '' @ role))
          else eff_map_err (\<lambda>e. EWrap (''seed role mask for '' @ role) [e])
                 (RelationalExec (stmt_seed_role role (sint bits))))"

definition SeedRoleMasks :: "((tables, 'z) session_scheme, unit) eff" where
  "SeedRoleMasks = eff_each seed_role canonicalRoles"

definition uniqueAffectedScopes :: "(string \<times> string) list \<Rightarrow> (string \<times> string) list" where
  "uniqueAffectedScopes scopes =
     dedupe (\<lambda>(u, p). let user = trim_space u; project = trim_space p in
         if user = [] \<or> project = [] then None
         else Some (project @ '':'' @ user, (user, project))) [] scopes"

definition uniqueUserIDs :: "(string \<times> string) list \<Rightarrow> string list" where
  "uniqueUserIDs scopes = trim_unique (\<lambda>u. u) [] (map fst scopes)"

definition uniquePermissionTags :: "(string \<times> string) list \<Rightarrow> string list" where
  "uniquePermissionTags scopes =
     trim_unique (\<lambda>t. t) [] (concat (map (\<lambda>(u, p). PermissionTags u p) scopes))"

definition ResyncNonCustomMemberMasks ::
  "((tables, 'z) session_scheme, (string \<times> string) list) eff" where
  "ResyncNonCustomMemberMasks =
     eff_bind
       (eff_map_err (\<lambda>e. EWrap ''resync non-custom member masks'' [e])
         (RelationalQueryMany stmt_resync (\<lambda>row acc. Inr (acc @ [row])) []))
       (\<lambda>scopes. eff_ret (uniqueAffectedScopes scopes))"

definition RunStartup :: "bool \<Rightarrow> perm_world tag_invalidator \<Rightarrow> (perm_world, unit) eff" where
  "RunStartup has_redis invalidator =
     eff_bind SeedRoleMasks (\<lambda>_.
     eff_bind ResyncNonCustomMemberMasks (\<lambda>scopes.
       if scopes = [] then eff_ret ()
       else eff_bind (InvalidateResolverUserCache has_redis (uniqueUserIDs scopes)) (\<lambda>_.
         let tags = uniquePermissionTags scopes in
         case invalidator of
           Some bump \<Rightarrow> if tags = [] then eff_ret ()
             else eff_map_err (\<lambda>e. EWrap ''invalidate permission tags'' [e]) (bump tags)
         | None \<Rightarrow> eff_ret ())))"

section \<open>The relational answer\<close>

text \<open>What the tables say of a user and a project key, whatever the clock.\<close>

definition relational_truth ::
  "uuid_cast \<Rightarrow> err + int \<Rightarrow> tables \<Rightarrow> string \<Rightarrow> string \<Rightarrow> resolution \<Rightarrow> bool" where
  "relational_truth uuid null_mask d u p r \<longleftrightarrow>
     u \<noteq> [] \<and> p \<noteq> [] \<and>
     (\<exists>v row rows scanned now. uuid u = Some v
        \<and> concat (map (membership_matches d p v) (tb_projects d)) = row # rows
        \<and> scan_membership null_mask row = Inr scanned
        \<and> resolution_of now u scanned = Inr r)"

lemma query_membership_one:
  "RelationalQueryOne (query_membership uuid p u) scan s = (Inr a, s') \<longleftrightarrow>
     ss_tx s \<noteq> TxAborted \<and> ss_fault s (ss_count s) = None \<and> s' = tick s
     \<and> (\<exists>v row rows. uuid u = Some v
          \<and> concat (map (membership_matches (ss_data s) p v) (tb_projects (ss_data s))) = row # rows
          \<and> scan row = Inr a)"
proof -
  have "take 1 xs = r # rs \<longleftrightarrow> rs = [] \<and> (\<exists>ys. xs = r # ys)" for xs :: "membership_row list" and r rs
    by (cases xs) auto
  then show ?thesis
    by (auto simp: RelationalQueryOne_ok run_stmt_ok query_membership_def tick_def)
qed

lemma RelationalResolve_sound:
  "RelationalResolve uuid null_mask now u p w = (Inr r, w') \<Longrightarrow>
     relational_truth uuid null_mask (ss_data w) (trim_space u) (trim_space p) r"
  by (auto simp: RelationalResolve_def relational_truth_def Let_def eff_Inr query_membership_one
      split: if_splits)

lemma query_membership_read_only: "query_membership uuid p u d = Inr (rows, d') \<Longrightarrow> d' = d"
  by (auto simp: query_membership_def)

lemma RelationalResolve_frame:
  "keeps same_data (RelationalResolve uuid null_mask now u p)"
  "keeps same_more (RelationalResolve uuid null_mask now u p)"
  unfolding RelationalResolve_def Let_def
  by (auto intro!: keeps_intros query_more query_read_only dest: query_membership_read_only)

lemma same_more_world:
  "same_more w w' \<Longrightarrow> pw_redis w' = pw_redis (w :: perm_world) \<and> pw_pending w' = pw_pending w
     \<and> pw_redis_fault w' = pw_redis_fault w \<and> pw_bumped w' = pw_bumped w"
  by (cases w; cases w') (simp add: same_more_def)

section \<open>Coherence of the cache\<close>

text \<open>Every cached entry, and every backfill still to run, is what the tables say.\<close>

definition coherent ::
  "(tables \<Rightarrow> string \<Rightarrow> string \<Rightarrow> resolution \<Rightarrow> bool) \<Rightarrow> perm_world \<Rightarrow> bool" where
  "coherent truth w \<longleftrightarrow>
     (\<forall>u m k e. trim_space u = u \<longrightarrow> pw_redis w (rbacKey u) = Some (REntries m) \<longrightarrow> m k = Some e
        \<longrightarrow> truth (ss_data w) u k (resolution_of_entry u k e))
     \<and> (\<forall>(u, p, r) \<in> set (pw_pending w). trim_space u = u \<and> trim_space p = p
          \<and> truth (ss_data w) u p r)"

lemma coherent_cong:
  "\<lbrakk>coherent truth w; ss_data w' = ss_data w; pw_redis w' = pw_redis w; pw_pending w' = pw_pending w\<rbrakk>
     \<Longrightarrow> coherent truth w'"
  by (simp add: coherent_def)

lemma coherent_fewer:
  assumes "coherent truth w" "ss_data w' = ss_data w" "pw_redis w' \<subseteq>\<^sub>m pw_redis w"
    "set (pw_pending w') \<subseteq> set (pw_pending w)"
  shows "coherent truth w'"
proof -
  have "pw_redis w k = Some v" if "pw_redis w' k = Some v" for k v
    using that assms(3) by (auto simp: map_le_def dom_def)
  with assms(1,2,4) show ?thesis by (fastforce simp: coherent_def)
qed

lemma rbacKey_inj: "rbacKey u = rbacKey v \<longleftrightarrow> trim_space u = trim_space v"
  by (simp add: rbacKey_def)

lemma redis_get_ok:
  "redis_get k w = (Inr v, w') \<longleftrightarrow> pw_redis_fault w (pw_redis_count w) = None
     \<and> v = pw_redis w k \<and> w' = w\<lparr>pw_redis_count := pw_redis_count w + 1\<rparr>"
  by (auto simp: redis_get_def redis_request_def Let_def split: option.splits)

lemma redis_get_world: "\<exists>n. snd (redis_get k w) = w\<lparr>pw_redis_count := n\<rparr>"
  by (auto simp: redis_get_def redis_request_def Let_def split: option.splits)

lemma redis_set_world:
  "\<exists>n. snd (redis_set k v w) = w\<lparr>pw_redis_count := n\<rparr>
     \<or> snd (redis_set k v w) = w\<lparr>pw_redis_count := n, pw_redis := (pw_redis w)(k \<mapsto> v)\<rparr>"
  by (auto simp: redis_set_def redis_request_def Let_def split: option.splits)

lemma resolution_entry_roundtrip:
  "\<lbrakk>rs_user r = u; rs_project r \<noteq> []; trim_space (rs_project r) = rs_project r\<rbrakk>
     \<Longrightarrow> resolution_of_entry u k (entry_of_resolution r) = r"
  by (simp add: resolution_of_entry_def entry_of_resolution_def resolvedProjectID_def)

lemma entry_updated [simp]: "ce_updated (entry_of_resolution r) = rs_updated r"
  by (simp add: entry_of_resolution_def)

lemma backfill_loop_entries:
  assumes "fst (backfill_loop r ks (m, c)) k = Some e"
  shows "m k = Some e \<or> (k \<in> trim_space ` set ks \<and> e = entry_of_resolution r)"
  using assms
  by (induction ks arbitrary: m c) (fastforce simp: Let_def split: if_splits)+

text \<open>Entries are only ever replaced by entries that are not older.\<close>

lemma backfill_loop_monotone:
  "m k = Some e \<Longrightarrow>
     \<exists>e'. fst (backfill_loop r ks (m, c)) k = Some e' \<and> ce_updated e \<le> ce_updated e'"
proof (induction ks arbitrary: m c e)
  case (Cons key ks)
  show ?case
  proof (cases "trim_space key = k")
    case True
    show ?thesis
    proof (cases "ce_updated e > rs_updated r")
      case older: True
      with Cons.IH [of m e c] Cons.prems True show ?thesis by (auto simp: Let_def)
    next
      case False
      have here: "(m(k \<mapsto> entry_of_resolution r)) k = Some (entry_of_resolution r)" by simp
      have "\<exists>e'. fst (backfill_loop r ks (m(k \<mapsto> entry_of_resolution r), True)) k = Some e'
          \<and> rs_updated r \<le> ce_updated e'"
        using Cons.IH [where m = "m(k \<mapsto> entry_of_resolution r)"
            and e = "entry_of_resolution r" and c = True, OF here] unfolding entry_updated .
      then show ?thesis
        using False Cons.IH [of m e c] Cons.prems True
        by (cases "k = []") (auto simp: Let_def simp del: fun_upd_apply intro: order_trans)
    qed
  next
    case False
    then have here: "(m(trim_space key \<mapsto> entry_of_resolution r)) k = Some e"
      using Cons.prems by simp
    show ?thesis
      using Cons.IH [of m e c] Cons.prems Cons.IH [where m = "m(trim_space key \<mapsto> entry_of_resolution r)"
          and e = e and c = True, OF here]
      by (auto simp: Let_def simp del: fun_upd_apply)
  qed
qed auto

section \<open>Contract of a resolver\<close>

text \<open>
  What the hybrid resolver relies on: the fallback answers what the tables say, changes neither
  the tables nor Redis, and an answer names its project by a key that has the same answer.
\<close>

locale permission_resolver =
  fixes resolve :: "perm_world resolver"
    and truth :: "tables \<Rightarrow> string \<Rightarrow> string \<Rightarrow> resolution \<Rightarrow> bool"
    and unambiguous :: "tables \<Rightarrow> bool"
  assumes resolve_sound:
      "resolve u p w = (Inr r, w') \<Longrightarrow> truth (ss_data w) (trim_space u) (trim_space p) r"
    and resolve_data: "keeps same_data (resolve u p)"
    and resolve_more: "keeps same_more (resolve u p)"
    and truth_named: "truth d u p r \<Longrightarrow>
      rs_user r = u \<and> rs_project r \<noteq> [] \<and> trim_space (rs_project r) = rs_project r"
    and truth_canonical: "unambiguous d \<Longrightarrow> truth d u p r \<Longrightarrow> truth d u (rs_project r) r"
begin

lemma coherent_cached:
  assumes "coherent truth w" and "trim_space u = u"
    and "resolveFromCache u p w = (Inr (Some r), w')"
  shows "truth (ss_data w) u p r"
proof -
  from assms(3) obtain v m e where "pw_redis w (rbacKey u) = Some v"
      "decodeUserMaskCache (Some v) = Some m" "m p = Some e" "r = resolution_of_entry u p e"
    by (auto simp: resolveFromCache_def redis_get_def redis_request_def eff_Inr Let_def
        split: option.splits)
  then have "pw_redis w (rbacKey u) = Some (REntries m)"
    by (auto simp: decodeUserMaskCache_def split: redis_value.splits if_splits)
  with assms(1,2) \<open>m p = Some e\<close> \<open>r = _\<close> show ?thesis by (auto simp: coherent_def)
qed

lemma hybrid_resolve:
  assumes c: "coherent truth w" and run: "HybridResolve h resolve u p w = (x, w')"
  shows "coherent truth w' \<and> ss_data w' = ss_data w
    \<and> (\<forall>r. x = Inr r \<longrightarrow> truth (ss_data w) (trim_space u) (trim_space p) r)"
proof -
  let ?u = "trim_space u" and ?p = "trim_space p"
  define ask where "ask = eff_bind (resolve ?u ?p) (\<lambda>r.
      if h then eff_bind (backfillAsync ?u ?p r) (\<lambda>_. eff_ret r) else eff_ret r)"
  have asked: "coherent truth v' \<and> ss_data v' = ss_data v
      \<and> (\<forall>r. y = Inr r \<longrightarrow> truth (ss_data v) ?u ?p r)"
    if v: "coherent truth v" and a: "ask v = (y, v')" for v y v'
  proof -
    obtain z t where z: "resolve ?u ?p v = (z, t)" by force
    have t: "ss_data t = ss_data v" "pw_redis t = pw_redis v" "pw_pending t = pw_pending v"
      using keepsD [OF resolve_data z] keepsD [OF resolve_more z] same_more_world
      by (auto simp: same_data_def)
    have ct: "coherent truth t" using v t by (rule coherent_cong)
    show ?thesis
    proof (cases z)
      case (Inl e)
      with a z t ct show ?thesis by (auto simp: ask_def eff_bind_def)
    next
      case (Inr r)
      have tr: "truth (ss_data v) ?u ?p r" using resolve_sound z Inr by force
      moreover have "coherent truth (t\<lparr>pw_pending := pw_pending t @ [(?u, ?p, r)]\<rparr>)"
        using ct tr t by (auto simp: coherent_def)
      ultimately show ?thesis
        using a z Inr t ct
        by (auto simp: ask_def eff_bind_def eff_ret_def backfillAsync_def split: if_splits)
    qed
  qed
  have missing: "missing \<Longrightarrow> ?thesis" if "x = Inl missing_ids" "w' = w" for missing
    using that c by simp
  show ?thesis
  proof (cases "?u = [] \<or> ?p = []")
    case True
    with run c show ?thesis by (auto simp: HybridResolve_def Let_def eff_throw_def)
  next
    case False
    show ?thesis
    proof (cases h)
      case False
      with \<open>\<not> (?u = [] \<or> ?p = [])\<close> run have "ask w = (x, w')"
        by (auto simp: HybridResolve_def Let_def ask_def)
      with asked [OF c] show ?thesis by simp
    next
      case True
      obtain y v where y: "resolveFromCache ?u ?p w = (y, v)" by force
      have v: "ss_data v = ss_data w" "pw_redis v = pw_redis w" "pw_pending v = pw_pending w"
        using y redis_get_world [of "rbacKey ?u" w]
        by (auto simp: resolveFromCache_def eff_bind_def eff_ret_def
            split: prod.splits sum.splits)
      have cv: "coherent truth v" using c v by (rule coherent_cong)
      have run': "(case y of Inl _ \<Rightarrow> ask v | Inr None \<Rightarrow> ask v | Inr (Some r) \<Rightarrow> (Inr r, v)) = (x, w')"
        using run y True \<open>\<not> (?u = [] \<or> ?p = [])\<close>
        by (auto simp: HybridResolve_def Let_def ask_def eff_case_def eff_ret_def
            split: sum.splits option.splits)
      show ?thesis
      proof (cases "\<exists>r. y = Inr (Some r)")
        case True
        then obtain r where r: "y = Inr (Some r)" by blast
        with coherent_cached [OF c _ y [unfolded r]] run' v cv show ?thesis by auto
      next
        case False
        with run' have "ask v = (x, w')" by (auto split: sum.splits option.splits)
        with asked [OF cv] v show ?thesis by simp
      qed
    qed
  qed
qed

lemma backfill_coherent:
  assumes c: "coherent truth w" and amb: "unambiguous (ss_data w)"
    and job: "(u, p, r) \<in> set (pw_pending w)"
  shows "coherent truth (snd (backfillOnce u p r w)) \<and> ss_data (snd (backfillOnce u p r w)) = ss_data w
    \<and> pw_pending (snd (backfillOnce u p r w)) = pw_pending w"
proof -
  have up: "trim_space u = u" "trim_space p = p" "truth (ss_data w) u p r"
    using c job by (auto simp: coherent_def)
  have r: "rs_user r = u" "rs_project r \<noteq> []" "trim_space (rs_project r) = rs_project r"
    using truth_named up(3) by auto
  have tr: "truth (ss_data w) u k r" if "k \<in> trim_space ` set (backfill_keys p r)" for k
    using that up truth_canonical [OF amb up(3)] r
    by (auto simp: backfill_keys_def Let_def split: if_splits)
  obtain n1 payload where get: "redis_get (rbacKey u) w = (payload, w\<lparr>pw_redis_count := n1\<rparr>)"
    using redis_get_world [of "rbacKey u" w] by (metis prod.collapse)
  define w1 where "w1 = w\<lparr>pw_redis_count := n1\<rparr>"
  have c1: "coherent truth w1" using c by (simp add: coherent_def w1_def)
  show ?thesis
  proof (cases payload)
    case (Inl e)
    with get c1 show ?thesis by (simp add: backfillOnce_def eff_bind_def w1_def)
  next
    case (Inr v)
    have v: "v = pw_redis w (rbacKey u)" using get Inr by (simp add: redis_get_ok)
    define m where "m = (case decodeUserMaskCache v of Some m \<Rightarrow> m | None \<Rightarrow> Map.empty)"
    define m' where "m' = fst (backfill_loop r (backfill_keys p r) (m, False))"
    have mk: "truth (ss_data w) u k (resolution_of_entry u k e)" if "m k = Some e" for k e
      using that v c up(1)
      by (auto simp: m_def decodeUserMaskCache_def coherent_def
          split: option.splits redis_value.splits if_splits)
    have mk': "truth (ss_data w) u k (resolution_of_entry u k e)" if "m' k = Some e" for k e
      using backfill_loop_entries [of r "backfill_keys p r" m False k e] that mk tr
        resolution_entry_roundtrip [OF r]
      by (auto simp: m'_def)
    have c2: "coherent truth (w1\<lparr>pw_redis_count := n, pw_redis := (pw_redis w1)(rbacKey u \<mapsto> REntries m')\<rparr>)"
      for n
      using c1 mk' up(1) by (auto simp: coherent_def w1_def rbacKey_inj)
    have c3: "coherent truth (w1\<lparr>pw_redis_count := n\<rparr>)" for n
      using c1 by (simp add: coherent_def)
    have "snd (backfillOnce u p r w) = w1 \<or>
        snd (backfillOnce u p r w) = snd (redis_set (rbacKey u) (REntries m') w1)"
      using get Inr
      by (auto simp: backfillOnce_def eff_bind_def eff_case_def eff_ret_def eff_throw_def Let_def
          m_def m'_def w1_def split: prod.splits sum.splits)
    moreover note redis_set_world [of "rbacKey u" "REntries m'" w1]
    ultimately show ?thesis
      using c1 c2 c3 by (auto simp: w1_def)
  qed
qed

end

section \<open>The relational resolver meets the contract\<close>

definition unambiguous_projects :: "tables \<Rightarrow> bool" where
  "unambiguous_projects d \<longleftrightarrow>
     distinct (map pj_id (tb_projects d))
     \<and> (\<forall>p \<in> set (tb_projects d). trim_space (pj_id p) = pj_id p
          \<and> (\<forall>q \<in> set (tb_projects d). pj_slug q = pj_id p \<longrightarrow> q = p))"

lemma concat_first:
  "concat (map F ps) = x # xs \<Longrightarrow> \<exists>p \<in> set ps. \<exists>ys. F p = x # ys"
proof (induction ps)
  case (Cons p ps)
  then show ?case by (cases "F p") auto
qed simp

lemma concat_only:
  "\<lbrakk>p \<in> set ps; distinct ps; \<And>q. q \<in> set ps \<Longrightarrow> q \<noteq> p \<Longrightarrow> G q = []\<rbrakk> \<Longrightarrow> concat (map G ps) = G p"
proof (induction ps)
  case (Cons q ps)
  show ?case
  proof (cases "q = p")
    case True
    with Cons.prems have "concat (map G ps) = []" by auto
    with True show ?thesis by simp
  next
    case False
    with Cons show ?thesis by auto
  qed
qed simp

lemma relational_named:
  "relational_truth uuid null_mask d u p r \<Longrightarrow>
     rs_user r = u \<and> rs_project r \<noteq> [] \<and> trim_space (rs_project r) = rs_project r"
  by (auto simp: relational_truth_def resolution_of_def Let_def split: if_splits)

lemma relational_canonical:
  assumes amb: "unambiguous_projects d" and tr: "relational_truth uuid null_mask d u key r"
  shows "relational_truth uuid null_mask d u (rs_project r) r"
proof -
  from tr obtain v row rows scanned now where
    v: "u \<noteq> []" "uuid u = Some v"
      "concat (map (membership_matches d key v) (tb_projects d)) = row # rows"
      "scan_membership null_mask row = Inr scanned" "resolution_of now u scanned = Inr r"
    by (auto simp: relational_truth_def)
  obtain p ys where p: "p \<in> set (tb_projects d)" "membership_matches d key v p = row # ys"
    using concat_first [OF v(3)] by auto
  have "ms_project row = pj_id p"
    using p(2) by (auto simp: membership_matches_def membership_row_of_def Let_def split: if_splits)
  moreover have "fst scanned = row"
    using v(4) by (auto simp: scan_membership_def split: option.splits)
  moreover have "trim_space (pj_id p) = pj_id p" using amb p(1) by (auto simp: unambiguous_projects_def)
  ultimately have r: "rs_project r = pj_id p" "pj_id p \<noteq> []"
    using v(5) by (auto simp: resolution_of_def Let_def split: if_splits)
  have "concat (map (membership_matches d (pj_id p) v) (tb_projects d))
      = membership_matches d (pj_id p) v p"
  proof (rule concat_only [OF p(1)])
    show "distinct (tb_projects d)"
      using amb by (simp add: unambiguous_projects_def distinct_map)
    fix q assume "q \<in> set (tb_projects d)" "q \<noteq> p"
    with amb p(1) show "membership_matches d (pj_id p) v q = []"
      by (auto simp: unambiguous_projects_def membership_matches_def distinct_map inj_on_def)
  qed
  also have "\<dots> = row # ys"
    using p(2) by (auto simp: membership_matches_def split: if_splits)
  finally show ?thesis
    using v r unfolding relational_truth_def by metis
qed

interpretation relational: permission_resolver
  "RelationalResolve uuid null_mask now" "relational_truth uuid null_mask" unambiguous_projects
  for uuid null_mask now
  by unfold_locales
    (auto intro: RelationalResolve_sound RelationalResolve_frame relational_canonical
      dest: relational_named)

section \<open>Runs of the cache\<close>

text \<open>What may happen to the cache while the tables stay as they are: a request, a backfill
  goroutine that gets to run, an expiry or eviction, an invalidation.\<close>

inductive cache_step :: "bool \<Rightarrow> perm_world resolver \<Rightarrow> perm_world \<Rightarrow> perm_world \<Rightarrow> bool"
  for h resolve where
  request: "HybridResolve h resolve u p w = (x, w') \<Longrightarrow> cache_step h resolve w w'"
| backfill: "(u, p, r) \<in> set (pw_pending w) \<Longrightarrow> backfillOnce u p r w = (x, w') \<Longrightarrow>
    cache_step h resolve w (w'\<lparr>pw_pending := remove1 (u, p, r) (pw_pending w')\<rparr>)"
| expire: "cache_step h resolve w (w\<lparr>pw_redis := (pw_redis w)(key := None)\<rparr>)"
| invalidate: "InvalidateResolverUserCache h us w = (x, w') \<Longrightarrow> cache_step h resolve w w'"

lemma invalidate_world:
  "InvalidateResolverUserCache h us w = (x, w') \<Longrightarrow>
     ss_data w' = ss_data w \<and> pw_pending w' = pw_pending w \<and> pw_redis w' \<subseteq>\<^sub>m pw_redis w"
  by (auto simp: InvalidateResolverUserCache_def redis_del_def redis_request_def eff_map_err_def
      eff_case_def eff_ret_def eff_throw_def Let_def restrict_map_def map_le_def
      split: if_splits option.splits)

context permission_resolver
begin

lemma cache_step_coherent:
  assumes "cache_step h resolve w w'" "coherent truth w" "unambiguous (ss_data w)"
  shows "coherent truth w' \<and> ss_data w' = ss_data w"
  using assms
proof (induction rule: cache_step.induct)
  case (request u p w x w')
  then show ?case using hybrid_resolve by blast
next
  case (backfill u p r w x w')
  then have "coherent truth w' \<and> ss_data w' = ss_data w"
    using backfill_coherent [of w u p r] by simp
  then show ?case
    using coherent_fewer [of truth w' "w'\<lparr>pw_pending := remove1 (u, p, r) (pw_pending w')\<rparr>"]
      set_remove1_subset by fastforce
next
  case (expire w key)
  then show ?case using coherent_fewer [of truth w] by (auto simp: map_le_def)
next
  case (invalidate us w x w')
  then show ?case using invalidate_world [of h us w x w'] coherent_fewer [of truth w w'] by auto
qed

lemma cache_run_coherent:
  assumes "(cache_step h resolve)\<^sup>*\<^sup>* w w'" "coherent truth w" "unambiguous (ss_data w)"
  shows "coherent truth w' \<and> ss_data w' = ss_data w"
  using assms by (induction rule: rtranclp_induct) (auto dest!: cache_step_coherent)

end

text \<open>C7: while the tables do not change, every answer of the hybrid resolver over the relational
  one is an answer the tables give: whatever requests, late backfills, expiries and invalidations
  came before, started from a cache that holds only such answers, a resolution it returns is the
  one the membership query and its checks yield for that user and project.\<close>

theorem HybridResolve_agrees_with_tables:
  assumes "coherent (relational_truth uuid null_mask) w"
    and "unambiguous_projects (ss_data w)"
    and "(cache_step h (RelationalResolve uuid null_mask now))\<^sup>*\<^sup>* w w'"
    and "HybridResolve h (RelationalResolve uuid null_mask now) u p w' = (Inr r, w'')"
  shows "relational_truth uuid null_mask (ss_data w) (trim_space u) (trim_space p) r"
  using relational.cache_run_coherent [OF assms(3,1,2)] relational.hybrid_resolve [OF _ assms(4)]
  by auto

text \<open>C18: a backfill never makes a cached entry older: after it ran, every project key the user's
  cache had is still there with a timestamp at least as recent, whatever failed on the way.\<close>

theorem backfillOnce_never_older:
  assumes "decodeUserMaskCache (pw_redis w (rbacKey u)) = Some m" and "m k = Some e"
  shows "\<exists>m' e'. decodeUserMaskCache (pw_redis (snd (backfillOnce u p r w)) (rbacKey u)) = Some m'
           \<and> m' k = Some e' \<and> ce_updated e \<le> ce_updated e'"
proof -
  obtain n1 payload where get: "redis_get (rbacKey u) w = (payload, w\<lparr>pw_redis_count := n1\<rparr>)"
    using redis_get_world [of "rbacKey u" w] by (metis prod.collapse)
  define w1 where "w1 = w\<lparr>pw_redis_count := n1\<rparr>"
  obtain e' where e': "fst (backfill_loop r (backfill_keys p r) (m, False)) k = Some e'"
      "ce_updated e \<le> ce_updated e'"
    using backfill_loop_monotone [of m k e] assms(2) by blast
  have "snd (backfillOnce u p r w) = w1 \<or>
      snd (backfillOnce u p r w) = snd (redis_set (rbacKey u)
        (REntries (fst (backfill_loop r (backfill_keys p r) (m, False)))) w1)"
    using get assms(1)
    by (auto simp: backfillOnce_def eff_bind_def eff_case_def eff_ret_def eff_throw_def Let_def
        redis_get_ok w1_def split: prod.splits sum.splits)
  moreover note redis_set_world [of "rbacKey u"
      "REntries (fst (backfill_loop r (backfill_keys p r) (m, False)))" w1]
  ultimately show ?thesis
    using assms e' by (auto simp: w1_def decodeUserMaskCache_def)
qed


section \<open>Startup\<close>

definition grows_roles :: "tables \<Rightarrow> tables \<Rightarrow> bool" where
  "grows_roles d d' \<longleftrightarrow> tb_projects d' = tb_projects d \<and> tb_members d' = tb_members d
     \<and> (\<exists>extra. tb_roles d' = tb_roles d @ extra)"

lemma grows_roles_refl: "grows_roles d d"
  by (simp add: grows_roles_def)

lemma grows_roles_trans: "grows_roles d e \<Longrightarrow> grows_roles e f \<Longrightarrow> grows_roles d f"
  by (auto simp: grows_roles_def)

lemma grows_roles_find:
  "grows_roles d d' \<Longrightarrow> find_role_row d p r = Some x \<Longrightarrow> find_role_row d' p r = Some x"
  by (auto simp: grows_roles_def find_role_row_def find_append)

lemma stmt_seed_role_ok:
  assumes "stmt_seed_role role k d = Inr (rows, d')"
  shows "grows_roles d d' \<and> (\<forall>p \<in> set (tb_projects d). find_role_row d' (pj_id p) role \<noteq> None)"
proof -
  define missing where
    "missing = filter (\<lambda>p. find_role_row d (pj_id p) role = None) (tb_projects d)"
  have d': "d' = d\<lparr>tb_roles := tb_roles d
              @ map (\<lambda>p. \<lparr>rp_project = pj_id p, rp_role = role, rp_mask = k,
                         rp_updated_by = None, rp_updated = tb_now d\<rparr>) missing\<rparr>"
    using assms by (auto simp: stmt_seed_role_def Let_def missing_def split: if_splits)
  have g: "grows_roles d d'" by (simp add: d' grows_roles_def)
  have "find_role_row d' (pj_id p) role \<noteq> None" if p: "p \<in> set (tb_projects d)" for p
  proof (cases "find_role_row d (pj_id p) role")
    case None
    with p have "p \<in> set missing" by (simp add: missing_def)
    then have "\<exists>x \<in> set (tb_roles d'). rp_project x = pj_id p \<and> rp_role x = role"
      by (auto simp: d' intro!: bexI [of _ "\<lparr>rp_project = pj_id p, rp_role = role, rp_mask = k,
            rp_updated_by = None, rp_updated = tb_now d\<rparr>"])
    then show ?thesis by (auto simp: find_role_row_None)
  next
    case (Some x)
    with grows_roles_find [OF g] show ?thesis by simp
  qed
  with g show ?thesis by blast
qed

lemma seed_role_ok:
  "seed_role role s = (Inr u, s') \<Longrightarrow>
     grows_roles (ss_data s) (ss_data s')
     \<and> (\<forall>p \<in> set (tb_projects (ss_data s)). find_role_row (ss_data s') (pj_id p) role \<noteq> None)"
  by (auto simp: seed_role_def stmt_ok split: option.splits if_splits dest: stmt_seed_role_ok)

lemma seed_roles_ok:
  "eff_each seed_role roles s = (Inr u, s') \<Longrightarrow>
     grows_roles (ss_data s) (ss_data s')
     \<and> (\<forall>role \<in> set roles. \<forall>p \<in> set (tb_projects (ss_data s)).
          find_role_row (ss_data s') (pj_id p) role \<noteq> None)"
proof (induction roles arbitrary: s)
  case Nil
  then show ?case by (simp add: grows_roles_refl)
next
  case (Cons role roles)
  then obtain t v where step: "seed_role role s = (Inr v, t)" "eff_each seed_role roles t = (Inr u, s')"
    by (auto simp: eff_bind_Inr)
  note first = seed_role_ok [OF step(1)] and rest = Cons.IH [OF step(2)]
  have "find_role_row (ss_data s') (pj_id p) role \<noteq> None" if "p \<in> set (tb_projects (ss_data s))" for p
    using first rest that grows_roles_find by (metis not_None_eq)
  moreover have "tb_projects (ss_data t) = tb_projects (ss_data s)"
    using first by (simp add: grows_roles_def)
  ultimately show ?case using first rest grows_roles_trans by auto
qed

lemma seed_roles_more: "keeps same_more (eff_each seed_role roles)"
  unfolding seed_role_def
  by (auto intro!: keeps_intros query_more split: option.split)

lemma resync_member_simps [simp]:
  "mb_project (resync_member d m) = mb_project m" "mb_role (resync_member d m) = mb_role m"
  "mb_custom (resync_member d m) = mb_custom m" "mb_user (resync_member d m) = mb_user m"
  by (simp_all add: resync_member_def split: option.split)

lemma members_synced_resync:
  "members_synced (d\<lparr>tb_members := map (resync_member d) (tb_members d)\<rparr>)"
  by (auto simp: members_synced_def find_role_row_def resync_member_def out_of_sync_def
      split: option.splits)

lemma scan_rows_append: "scan_rows (\<lambda>row acc. Inr (acc @ [row])) rows acc = Inr (acc @ rows)"
  by (induction rows arbitrary: acc) auto

lemma Resync_ok:
  assumes "ResyncNonCustomMemberMasks s = (Inr scopes, s')"
  shows "ss_data s' = (ss_data s)\<lparr>tb_members := map (resync_member (ss_data s)) (tb_members (ss_data s))\<rparr>"
    and "scopes = uniqueAffectedScopes (map (\<lambda>m. (mb_user m, mb_project m))
           (filter (\<lambda>m. out_of_sync (ss_data s) m \<noteq> None) (tb_members (ss_data s))))"
  using assms
  by (auto simp: ResyncNonCustomMemberMasks_def eff_bind_Inr stmt_ok stmt_resync_def scan_rows_append)

lemma Resync_more: "keeps same_more ResyncNonCustomMemberMasks"
  unfolding ResyncNonCustomMemberMasks_def by (auto intro!: keeps_intros query_more)

lemma uniqueAffectedScopes_set:
  assumes "\<And>u p. (u, p) \<in> set scopes \<Longrightarrow> CHR '':'' \<notin> set (trim_space p)"
  shows "set (uniqueAffectedScopes scopes) =
    {(trim_space u, trim_space p) |u p. (u, p) \<in> set scopes \<and> trim_space u \<noteq> [] \<and> trim_space p \<noteq> []}"
proof -
  let ?f = "\<lambda>(u, p). let user = trim_space u; project = trim_space p in
         if user = [] \<or> project = [] then None
         else Some (project @ '':'' @ user, (user, project))"
  have "set (dedupe ?f [] scopes) = {v. \<exists>x \<in> set scopes. \<exists>k. ?f x = Some (k, v)}"
  proof (rule dedupe_set)
    fix x x' k v v'
    assume "x \<in> set scopes" "x' \<in> set scopes" "?f x = Some (k, v)" "?f x' = Some (k, v')"
    with assms show "v = v'"
      by (cases x; cases x') (auto simp: Let_def separator_split split: if_splits)
  qed
  then show ?thesis by (fastforce simp: uniqueAffectedScopes_def Let_def split: if_splits)
qed

definition keeps_tables_and_redis :: "perm_world \<Rightarrow> perm_world \<Rightarrow> bool" where
  "keeps_tables_and_redis w v \<longleftrightarrow> ss_data v = ss_data w \<and> pw_redis v = pw_redis w"

lemma Invalidate_ok:
  assumes "InvalidateResolverUserCache h us w = (Inr x, w')"
  shows "ss_data w' = ss_data w" "h \<Longrightarrow> u \<in> set us \<Longrightarrow> pw_redis w' (rbacKey u) = None"
proof -
  show "ss_data w' = ss_data w" using invalidate_world [OF assms] by simp
  assume "h" "u \<in> set us"
  moreover have "trim_space (rbacKey v) \<noteq> []" for v
    by (rule trim_space_visible) (simp_all add: rbacKey_def)
  ultimately have "rbacKey u \<in> set (cache_keys us)"
    by (subst cache_keys_def, subst dedupe_set) (auto simp: Let_def)
  then show "pw_redis w' (rbacKey u) = None"
    using assms \<open>h\<close> \<open>u \<in> set us\<close>
    by (auto simp: InvalidateResolverUserCache_def redis_del_def redis_request_def Let_def
        split: if_splits option.splits)
qed

lemma RunStartup_ok:
  assumes run: "RunStartup h invalidator w = (Inr x, w')"
    and inv: "\<And>bump tags. invalidator = Some bump \<Longrightarrow> keeps keeps_tables_and_redis (bump tags)"
  shows "\<exists>w1 w2 scopes. SeedRoleMasks w = (Inr (), w1)
    \<and> ResyncNonCustomMemberMasks w1 = (Inr scopes, w2)
    \<and> (scopes = [] \<and> w' = w2 \<or> scopes \<noteq> [] \<and> (\<exists>w3 y.
        InvalidateResolverUserCache h (uniqueUserIDs scopes) w2 = (Inr y, w3)
        \<and> keeps_tables_and_redis w3 w'))"
proof -
  obtain w1 scopes w2 where a: "SeedRoleMasks w = (Inr (), w1)"
      "ResyncNonCustomMemberMasks w1 = (Inr scopes, w2)"
    and b: "(if scopes = [] then eff_ret ()
         else eff_bind (InvalidateResolverUserCache h (uniqueUserIDs scopes)) (\<lambda>_.
         let tags = uniquePermissionTags scopes in
         case invalidator of
           Some bump \<Rightarrow> if tags = [] then eff_ret ()
             else eff_map_err (\<lambda>e. EWrap ''invalidate permission tags'' [e]) (bump tags)
         | None \<Rightarrow> eff_ret ())) w2 = (Inr x, w')"
    using run unfolding RunStartup_def eff_bind_Inr by auto
  have "keeps_tables_and_redis v v" for v by (simp add: keeps_tables_and_redis_def)
  then have "scopes = [] \<and> w' = w2 \<or> scopes \<noteq> [] \<and> (\<exists>w3 y.
        InvalidateResolverUserCache h (uniqueUserIDs scopes) w2 = (Inr y, w3)
        \<and> keeps_tables_and_redis w3 w')"
    using b inv by (auto simp: eff_bind_Inr Let_def split: if_splits option.splits dest!: keepsD)
  with a show ?thesis by blast
qed

text \<open>C13: when startup succeeds, with an invalidator that leaves tables and Redis alone, every
  project has a row for every canonical role, the rows that were there are unchanged, every
  member that is not custom has its role's mask, custom members are untouched, and the resolver
  cache of each user whose mask changed is gone.\<close>

theorem RunStartup_synchronises:
  assumes run: "RunStartup h invalidator w = (Inr x, w')"
    and inv: "\<And>bump tags. invalidator = Some bump \<Longrightarrow> keeps keeps_tables_and_redis (bump tags)"
    and ids: "\<And>m. m \<in> set (tb_members (ss_data w)) \<Longrightarrow> CHR '':'' \<notin> set (trim_space (mb_project m))
                \<and> trim_space (mb_project m) \<noteq> [] \<and> trim_space (mb_user m) \<noteq> []"
  shows "(\<forall>role \<in> set canonicalRoles. \<forall>p \<in> set (tb_projects (ss_data w)).
            find_role_row (ss_data w') (pj_id p) role \<noteq> None)
    \<and> (\<exists>extra. tb_roles (ss_data w') = tb_roles (ss_data w) @ extra)
    \<and> members_synced (ss_data w')
    \<and> length (tb_members (ss_data w')) = length (tb_members (ss_data w))
    \<and> (\<forall>(m, m') \<in> set (zip (tb_members (ss_data w)) (tb_members (ss_data w'))).
         (mb_custom m \<longrightarrow> m' = m)
         \<and> (h \<and> mb_mask m' \<noteq> mb_mask m \<longrightarrow> pw_redis w' (rbacKey (mb_user m)) = None))"
proof -
  obtain w1 w2 scopes where s1: "SeedRoleMasks w = (Inr (), w1)"
    and s2: "ResyncNonCustomMemberMasks w1 = (Inr scopes, w2)"
    and rest: "scopes = [] \<and> w' = w2 \<or> scopes \<noteq> [] \<and> (\<exists>w3 y.
        InvalidateResolverUserCache h (uniqueUserIDs scopes) w2 = (Inr y, w3)
        \<and> keeps_tables_and_redis w3 w')"
    using RunStartup_ok [OF run] inv by blast
  let ?d = "ss_data w" and ?d1 = "ss_data w1"
  note seeded = seed_roles_ok [OF s1 [unfolded SeedRoleMasks_def]]
  have d1: "tb_members ?d1 = tb_members ?d" using seeded by (simp add: grows_roles_def)
  have d2: "ss_data w2 = ?d1\<lparr>tb_members := map (resync_member ?d1) (tb_members ?d1)\<rparr>"
    using Resync_ok(1) [OF s2] .
  have d': "ss_data w' = ss_data w2"
    using rest Invalidate_ok(1) by (auto simp: keeps_tables_and_redis_def)
  have find: "find_role_row (ss_data w') = find_role_row ?d1"
    by (simp add: d' d2 find_role_row_def fun_eq_iff)
  have gone: "pw_redis w' (rbacKey (mb_user m)) = None"
    if m: "m \<in> set (tb_members ?d)" "out_of_sync ?d1 m \<noteq> None" and h: h for m
  proof -
    let ?changed = "map (\<lambda>m. (mb_user m, mb_project m))
        (filter (\<lambda>m. out_of_sync ?d1 m \<noteq> None) (tb_members ?d1))"
    have "(trim_space (mb_user m), trim_space (mb_project m)) \<in> set scopes"
      unfolding Resync_ok(2) [OF s2]
      by (subst uniqueAffectedScopes_set) (use m ids d1 in auto)
    then have "scopes \<noteq> []" "trim_space (mb_user m) \<in> trim_space ` fst ` set scopes"
      by (auto simp: image_iff intro!: bexI [of _ "(trim_space (mb_user m), trim_space (mb_project m))"])
    moreover from this(2) have "trim_space (mb_user m) \<in> set (uniqueUserIDs scopes)"
      using ids m(1) by (simp add: uniqueUserIDs_def trim_unique_set_id)
    ultimately show ?thesis
      using rest h Invalidate_ok(2) [of h "uniqueUserIDs scopes" w2 _ _ "trim_space (mb_user m)"]
      by (auto simp: keeps_tables_and_redis_def rbacKey_def)
  qed
  have "(mb_custom m \<longrightarrow> resync_member ?d1 m = m)
      \<and> (h \<and> mb_mask (resync_member ?d1 m) \<noteq> mb_mask m \<longrightarrow> pw_redis w' (rbacKey (mb_user m)) = None)"
    if "m \<in> set (tb_members ?d)" for m
    using gone [OF that] by (auto simp: resync_member_def out_of_sync_def split: option.splits)
  then have "\<forall>(m, m') \<in> set (zip (tb_members ?d) (tb_members (ss_data w'))).
         (mb_custom m \<longrightarrow> m' = m)
         \<and> (h \<and> mb_mask m' \<noteq> mb_mask m \<longrightarrow> pw_redis w' (rbacKey (mb_user m)) = None)"
    by (auto simp: d' d2 d1 zip_map2 zip_same_conv_map)
  moreover have "members_synced (ss_data w')"
    using members_synced_resync [of ?d1] by (simp add: d' d2)
  moreover have "\<exists>extra. tb_roles (ss_data w') = tb_roles ?d @ extra"
    "length (tb_members (ss_data w')) = length (tb_members ?d)"
    using seeded by (auto simp: d' d2 d1 grows_roles_def)
  moreover have "\<forall>role \<in> set canonicalRoles. \<forall>p \<in> set (tb_projects ?d).
      find_role_row (ss_data w') (pj_id p) role \<noteq> None"
    using seeded by (simp add: find)
  ultimately show ?thesis by blast
qed

lemma backfill_loop_keeps:
  "m k = Some (entry_of_resolution r) \<Longrightarrow>
     fst (backfill_loop r ks (m, True)) k = Some (entry_of_resolution r)
     \<and> snd (backfill_loop r ks (m, True))"
  by (induction ks arbitrary: m) (auto simp: Let_def)

definition no_faults :: "perm_world \<Rightarrow> bool" where
  "no_faults w \<longleftrightarrow> (\<forall>n. ss_fault w n = None) \<and> (\<forall>n. pw_redis_fault w n = None) \<and> ss_tx w = NoTx"

lemma run_stmt_no_faults:
  "no_faults w \<Longrightarrow> st (ss_data w) = Inr (rows, d) \<Longrightarrow>
     run_stmt st w = (Inr rows, (tick w)\<lparr>ss_data := d\<rparr>) \<and> no_faults ((tick w)\<lparr>ss_data := d\<rparr>)"
  by (simp add: run_stmt_def no_faults_def tick_def)

lemma seed_role_succeeds:
  assumes "role \<in> set canonicalRoles" and "no_faults w"
  shows "\<exists>w'. seed_role role w = (Inr (), w') \<and> no_faults w'"
proof -
  obtain k where m: "defaultRoleMasks role = Some k"
    using defaultRoleMasks_canonical [OF assms(1)] by blast
  have k: "DefaultRoleMask role = Some k" "\<not> uint k > max_int64" "0 \<le> sint k"
    using DefaultRoleMask_canonical [OF assms(1)] m default_mask_int64 [OF m] default_mask_signed [OF m]
    by simp_all
  have "\<exists>d. stmt_seed_role role (sint k) (ss_data w) = Inr ([], d)"
    using assms(1) k(3) by (auto simp: stmt_seed_role_def role_enum_canonical Let_def cast_role_def)
  then obtain d where "stmt_seed_role role (sint k) (ss_data w) = Inr ([], d)" ..
  with run_stmt_no_faults [OF assms(2), of "stmt_seed_role role (sint k)"] k show ?thesis
    by (auto simp: seed_role_def eff_map_err_def eff_case_def RelationalExec_def eff_bind_def
        eff_ret_def)
qed

lemma seed_roles_succeed:
  "set roles \<subseteq> set canonicalRoles \<Longrightarrow> no_faults w \<Longrightarrow>
     \<exists>w'. eff_each seed_role roles w = (Inr (), w') \<and> no_faults w'"
proof (induction roles arbitrary: w)
  case (Cons role roles)
  then obtain v where "seed_role role w = (Inr (), v)" "no_faults v"
    using seed_role_succeeds [of role w] by auto
  with Cons show ?case by (simp add: eff_bind_def)
qed (simp add: eff_ret_def)

lemma RunStartup_progress:
  assumes "no_faults w"
    and "\<And>bump tags v. invalidator = Some bump \<Longrightarrow> \<exists>v'. bump tags v = (Inr (), v')"
  shows "\<exists>w'. RunStartup h invalidator w = (Inr (), w')"
proof -
  obtain w1 where w1: "SeedRoleMasks w = (Inr (), w1)" "no_faults w1"
    using seed_roles_succeed [OF order_refl assms(1)] by (auto simp: SeedRoleMasks_def)
  obtain scopes w2 where w2: "ResyncNonCustomMemberMasks w1 = (Inr scopes, w2)" "no_faults w2"
    using run_stmt_no_faults [OF w1(2), of stmt_resync]
    by (auto simp: ResyncNonCustomMemberMasks_def eff_map_err_def eff_case_def eff_bind_def
        eff_ret_def RelationalQueryMany_def eff_lift_def scan_rows_append stmt_resync_def)
  obtain w3 where w3: "InvalidateResolverUserCache h us w2 = (Inr (), w3 us)" for us
    using w2(2)
    by (atomize_elim, intro choice allI)
      (auto simp: InvalidateResolverUserCache_def eff_ret_def eff_map_err_def eff_case_def
        redis_del_def redis_request_def no_faults_def Let_def)
  show ?thesis
  proof (cases "scopes = [] \<or> invalidator = None \<or> uniquePermissionTags scopes = []")
    case True
    with w1(1) w2(1) w3 show ?thesis
      by (auto simp: RunStartup_def eff_bind_def eff_ret_def Let_def split: option.split)
  next
    case False
    then obtain bump where bump: "invalidator = Some bump" by auto
    then obtain v' where "bump (uniquePermissionTags scopes) (w3 (uniqueUserIDs scopes)) = (Inr (), v')"
      using assms(2) by blast
    with w1(1) w2(1) w3 False bump show ?thesis
      by (simp add: RunStartup_def eff_bind_def eff_ret_def eff_map_err_def eff_case_def Let_def)
  qed
qed

text \<open>C25: startup does not fail on its own: when no request to PostgreSQL or Redis fails and the
  invalidator succeeds, it returns no error, whatever projects, members and masks there are.\<close>

theorem RunStartup_succeeds:
  assumes "no_faults w"
    and "\<And>bump tags v. invalidator = Some bump \<Longrightarrow> \<exists>v'. bump tags v = (Inr (), v')"
  shows "\<exists>w'. RunStartup h invalidator w = (Inr (), w')"
  using assms by (rule RunStartup_progress)

text \<open>A backfill that runs late installs whatever was resolved when it was queued: when the
  user's cache is empty, as it is right after an invalidation, and Redis answers, then after the
  backfill the hybrid resolver returns the old resolution, whatever the tables say by then. The
  timestamp comparison only protects entries that are still there.\<close>

theorem late_backfill_wins_after_invalidation:
  assumes "pw_redis w (rbacKey u) = None" and "\<And>n. pw_redis_fault w n = None"
    and "trim_space u = u" "u \<noteq> []" "trim_space p = p" "p \<noteq> []"
  shows "fst (HybridResolve True fallback u p (snd (backfillOnce u p r w)))
       = Inr (resolution_of_entry u p (entry_of_resolution r))"
proof -
  obtain m where m: "backfill_loop r (backfill_keys p r) (Map.empty, False) = (m, True)"
      "m p = Some (entry_of_resolution r)"
    using assms backfill_loop_keeps [where m = "[p \<mapsto> entry_of_resolution r]" and k = p and r = r]
    by (fastforce simp: backfill_keys_def Let_def prod_eq_iff simp del: backfill_loop.simps(2)
        simp add: backfill_loop.simps(2) [of r p])
  have "snd (backfillOnce u p r w)
      = w\<lparr>pw_redis_count := pw_redis_count w + 2, pw_redis := (pw_redis w)(rbacKey u \<mapsto> REntries m)\<rparr>"
    using assms(1,2) m(1)
    by (simp add: backfillOnce_def redis_get_def redis_set_def redis_request_def eff_bind_def
        eff_case_def eff_ret_def decodeUserMaskCache_def Let_def)
  then show ?thesis
    using assms m(2)
    by (simp add: HybridResolve_def resolveFromCache_def redis_get_def redis_request_def
        eff_bind_def eff_case_def eff_ret_def decodeUserMaskCache_def Let_def)
qed

text \<open>A member whose role has no row in \<open>role_permissions\<close> makes the NULL role mask reach a plain
  integer variable: when the driver refuses that scan, the resolver reports a dependency failure
  and never the inconsistency its own check for a missing role mask would report, and custom
  members, whose mask needs no role row, fail too.\<close>

theorem missing_role_row_is_dependency_failure:
  assumes "trim_space u \<noteq> []" "trim_space p \<noteq> []" "uuid (trim_space u) = Some v"
    and "ss_tx w = NoTx" "ss_fault w (ss_count w) = None"
    and "concat (map (membership_matches (ss_data w) (trim_space p) v) (tb_projects (ss_data w)))
           = row # rows"
    and "ms_role_mask row = None"
  shows "\<exists>e. fst (RelationalResolve uuid (Inl (EText cannot_scan)) now u p w) = Inl e
           \<and> IsDependencyFailure e \<and> \<not> IsMaskInconsistent e"
  using assms
  by (simp add: RelationalResolve_def Let_def eff_map_err_def eff_case_def eff_bind_def
      RelationalQueryOne_def run_stmt_def query_membership_def scan_membership_def eff_lift_def
      eff_throw_def membership_error_def resolver_error_defs cast_uuid_def)

section \<open>A small world\<close>

definition sample_member :: "string \<Rightarrow> bool \<Rightarrow> member_row" where
  "sample_member role custom =
     \<lparr>mb_id = ''m1'', mb_project = ''p1'', mb_user = ''u1'', mb_role = role, mb_mask = 3,
      mb_custom = custom, mb_status = ''Active'', mb_joined = [], mb_updated = 10\<rparr>"

definition sample_tables :: "member_row list \<Rightarrow> role_row list \<Rightarrow> tables" where
  "sample_tables ms rs =
     \<lparr>tb_projects = [\<lparr>pj_id = ''p1'', pj_slug = ''alpha'', pj_name = ''Alpha''\<rparr>],
      tb_users = [\<lparr>us_id = ''u1'', us_email = ''ann@example.com'', us_name = ''Ann''\<rparr>],
      tb_members = ms, tb_roles = rs, tb_invites = [], tb_muted = [], tb_gates = [], tb_notifications = [],
      tb_now = 100\<rparr>"

definition sample_role :: "string \<Rightarrow> int \<Rightarrow> role_row" where
  "sample_role role k = \<lparr>rp_project = ''p1'', rp_role = role, rp_mask = k, rp_updated_by = None,
     rp_updated = 20\<rparr>"

definition sample_world :: "tables \<Rightarrow> perm_world" where
  "sample_world d =
     \<lparr>ss_data = d, ss_tx = NoTx, ss_count = 0, ss_fault = (\<lambda>_. None), pw_redis = Map.empty,
      pw_redis_count = 0, pw_redis_fault = (\<lambda>_. None), pw_pending = [], pw_bumped = []\<rparr>"

lemmas sample_defs = sample_member_def sample_tables_def sample_role_def sample_world_def

definition sample_editor :: perm_world where
  "sample_editor = sample_world (sample_tables [sample_member ''Editor'' False]
     [sample_role ''Editor'' 5])"

definition sample_resolution :: resolution where
  "sample_resolution = \<lparr>rs_user = ''u1'', rs_project = ''p1'', rs_role = ''Editor'', rs_mask = 5,
     rs_custom = False, rs_updated = 20\<rparr>"

lemma sample_resolve:
  "RelationalResolve Some (Inl (EText [])) 0 ''u1'' ''alpha'' sample_editor
     = (Inr sample_resolution, tick sample_editor)"
  by (simp add: RelationalResolve_def sample_editor_def sample_resolution_def sample_defs
      trim_literal eff_defs RelationalQueryOne_def run_stmt_def query_membership_def
      cast_uuid_def membership_matches_def membership_row_of_def find_role_row_def
      scan_membership_def resolution_of_def tick_def Let_def)


lemma sample_coherent: "coherent t (sample_world d)"
  by (simp add: coherent_def sample_world_def)

lemma HybridResolve_agrees_with_tables_witness:
  "relational_truth Some (Inl (EText [])) (ss_data sample_editor) ''u1'' ''alpha'' sample_resolution"
proof -
  have "HybridResolve False (RelationalResolve Some (Inl (EText [])) 0) ''u1'' ''alpha'' sample_editor
      = (Inr sample_resolution, tick sample_editor)"
    by (simp add: HybridResolve_def trim_literal eff_bind_def sample_resolve eff_ret_def)
  moreover have "unambiguous_projects (ss_data sample_editor)"
    by (simp add: unambiguous_projects_def sample_editor_def sample_defs trim_literal)
  moreover have "coherent (relational_truth Some (Inl (EText []))) sample_editor"
    unfolding sample_editor_def by (rule sample_coherent)
  ultimately show ?thesis
    using HybridResolve_agrees_with_tables [of Some "Inl (EText [])" sample_editor False 0
        sample_editor "''u1''" "''alpha''" sample_resolution "tick sample_editor"]
    by (simp add: trim_literal)
qed

definition sample_cached :: perm_world where
  "sample_cached = sample_editor\<lparr>pw_redis := [rbacKey ''u1'' \<mapsto>
     REntries [''p1'' \<mapsto> (entry_of_resolution sample_resolution)\<lparr>ce_updated := 90\<rparr>]]\<rparr>"

lemma backfillOnce_never_older_witness:
  "\<exists>m' e'. decodeUserMaskCache (pw_redis (snd (backfillOnce ''u1'' ''p1'' sample_resolution
       sample_cached)) (rbacKey ''u1'')) = Some m' \<and> m' ''p1'' = Some e' \<and> 90 \<le> ce_updated e'"
proof -
  have "decodeUserMaskCache (pw_redis sample_cached (rbacKey ''u1''))
      = Some [''p1'' \<mapsto> (entry_of_resolution sample_resolution)\<lparr>ce_updated := 90\<rparr>]"
    by (simp add: sample_cached_def decodeUserMaskCache_def)
  from backfillOnce_never_older [OF this, of "''p1''" _ "''p1''" sample_resolution]
  show ?thesis by simp
qed

text \<open>The role's mask is lowered from 5 to 0 and the user's cache invalidated after the request
  queued its backfill: the tables answer 0, the cache answers 5.\<close>

lemma late_backfill_wins_after_invalidation_witness:
  "fst (HybridResolve True (RelationalResolve Some (Inl (EText [])) 0) ''u1'' ''p1''
     (snd (backfillOnce ''u1'' ''p1'' sample_resolution
       (sample_world (sample_tables [sample_member ''Editor'' False] [sample_role ''Editor'' 0])))))
   = Inr sample_resolution"
  by (subst late_backfill_wins_after_invalidation)
    (simp_all add: sample_world_def trim_literal resolution_of_entry_def entry_of_resolution_def
      sample_resolution_def resolvedProjectID_def)

lemma missing_role_row_is_dependency_failure_witness:
  "\<exists>e. fst (RelationalResolve Some (Inl (EText ''cannot scan NULL into *int64'')) 0 ''u1'' ''p1''
         (sample_world (sample_tables [sample_member ''Editor'' True] []))) = Inl e
     \<and> IsDependencyFailure e \<and> \<not> IsMaskInconsistent e"
  by (rule missing_role_row_is_dependency_failure [where v = "''u1''" and rows = "[]"
        and row = "\<lparr>ms_project = ''p1'', ms_role = ''Editor'', ms_custom = True, ms_mask = 3,
          ms_role_mask = None, ms_member_updated = 10, ms_role_updated = 0\<rparr>"])
    (simp_all add: sample_defs trim_literal membership_matches_def membership_row_of_def
      find_role_row_def Let_def)


lemma RunStartup_succeeds_witness: "\<exists>w'. RunStartup True None sample_editor = (Inr (), w')"
  by (rule RunStartup_succeeds) (simp_all add: no_faults_def sample_editor_def sample_world_def)

lemma RunStartup_synchronises_witness:
  "\<exists>w'. RunStartup True None sample_editor = (Inr (), w') \<and> members_synced (ss_data w')"
proof -
  obtain w' where w': "RunStartup True None sample_editor = (Inr (), w')"
    using RunStartup_progress [of sample_editor None True]
    by (auto simp: no_faults_def sample_editor_def sample_world_def)
  have "CHR '':'' \<notin> set (trim_space (mb_project m)) \<and> trim_space (mb_project m) \<noteq> []
      \<and> trim_space (mb_user m) \<noteq> []" if "m \<in> set (tb_members (ss_data sample_editor))" for m
    using that by (auto simp: sample_editor_def sample_defs trim_literal)
  with RunStartup_synchronises [OF w'] w' show ?thesis by auto
qed

end
