(* ===== verification/Policy_Run.thy ===== *)
theory Policy_Run
  imports Policy_Meta Permissions
begin

text \<open>
  The policies that decide whether a request reaches its handler (\<open>internal/core/policy\<close>:
  \<open>policy.go\<close>, \<open>auth.go\<close>, \<open>permissions.go\<close>, \<open>rbac.go\<close>; \<open>internal/core/projectscope\<close>;
  \<open>Mux.Handle\<close>). A policy is a function from the next handler to a handler; a constructor
  yields the policy value and the registry with its metadata, or the message it panics with.
\<close>

section \<open>Composition\<close>

type_synonym 'w pol = "'w policy policy_value"

text \<open>\<open>Chain\<close> applies the last policy first and skips nil ones.\<close>

definition Chain :: "'w handler \<Rightarrow> 'w pol option list \<Rightarrow> 'w handler" where
  "Chain h policies = foldr (\<lambda>p next. case p of None \<Rightarrow> next | Some pv \<Rightarrow> pv_run pv next) policies h"

type_synonym 'w built = "string + ('w pol option \<times> registry)"

definition build :: "string \<Rightarrow> 'w policy \<Rightarrow> metadata \<Rightarrow> registry \<Rightarrow> 'w pol option \<times> registry" where
  "build code run meta reg = annotatePolicy (Some \<lparr>pv_code = code, pv_run = run\<rparr>) meta reg"

section \<open>Content type\<close>

text \<open>\<open>mime.ParseMediaType\<close> of the standard library, as far as the media type and the error go.\<close>

definition t_special :: "char \<Rightarrow> bool" where
  "t_special c \<longleftrightarrow> c \<in> set (''()<>@,;:/[]?='' @ [bslash, dquote])"

definition token_char :: "char \<Rightarrow> bool" where
  "token_char c \<longleftrightarrow> 0x20 < (of_char c :: nat) \<and> (of_char c :: nat) < 0x7F \<and> \<not> t_special c"

definition consumeToken :: "string \<Rightarrow> string \<times> string" where
  "consumeToken v = (takeWhile token_char v, dropWhile token_char v)"

text \<open>After the opening quote: the text and what follows the closing quote, or \<open>None\<close>.\<close>

fun consume_quoted :: "string \<Rightarrow> string \<Rightarrow> (string \<times> string) option" where
  "consume_quoted buf [] = None"
| "consume_quoted buf (c # v) =
     (if c = dquote then Some (rev buf, v)
      else case v of
        d # v' \<Rightarrow> if c = bslash \<and> t_special d then consume_quoted (d # buf) v'
                  else if c = CHR 0x0D \<or> c = CHR 0x0A then None
                  else consume_quoted (c # buf) v
      | [] \<Rightarrow> None)"

definition consumeValue :: "string \<Rightarrow> string \<times> string" where
  "consumeValue v =
     (case v of [] \<Rightarrow> ([], [])
      | c # rest \<Rightarrow> if c \<noteq> dquote then consumeToken v
          else (case consume_quoted [] rest of None \<Rightarrow> ([], v) | Some r \<Rightarrow> r))"

definition consumeMediaParam :: "string \<Rightarrow> string \<times> string \<times> string" where
  "consumeMediaParam v =
     (case trim_left v of
        c # r1 \<Rightarrow> if c \<noteq> CHR '';'' then ([], [], v)
          else let (param, r2) = consumeToken (trim_left r1) in
            if param = [] then ([], [], v)
            else (case trim_left r2 of
                d # r3 \<Rightarrow> if d \<noteq> CHR ''='' then ([], [], v)
                  else let r4 = trim_left r3; (value, r5) = consumeValue r4 in
                    if value = [] \<and> r5 = r4 then ([], [], v) else (to_lower param, value, r5)
              | [] \<Rightarrow> ([], [], v))
      | [] \<Rightarrow> ([], [], v))"

text \<open>The parameters must be well formed and not repeated with another value; fuel is the
  length of the text, and each round consumes some of it.\<close>

fun media_params_ok :: "nat \<Rightarrow> (string \<times> string) list \<Rightarrow> string \<Rightarrow> bool" where
  "media_params_ok 0 seen v = (trim_left v = [])"
| "media_params_ok (Suc n) seen v =
     (let v = trim_left v in
      if v = [] then True
      else let (key, value, rest) = consumeMediaParam v in
        if key = [] then trim_space rest = '';''
        else (case map_of seen key of
            Some old \<Rightarrow> old = value \<and> media_params_ok n seen rest
          | None \<Rightarrow> media_params_ok n ((key, value) # seen) rest))"

definition media_type_ok :: "string \<Rightarrow> bool" where
  "media_type_ok s =
     (let (typ, rest) = consumeToken s in
      typ \<noteq> [] \<and> (case rest of [] \<Rightarrow> True
        | c # r \<Rightarrow> c = CHR ''/'' \<and> (let (sub, more) = consumeToken r in sub \<noteq> [] \<and> more = [])))"

definition ParseMediaType :: "string \<Rightarrow> string option" where
  "ParseMediaType v =
     (let base = takeWhile (\<lambda>c. c \<noteq> CHR '';'') v;
          mediatype = trim_space (to_lower base)
      in if media_type_ok mediatype
            \<and> media_params_ok (length v) [] (drop (length base) v)
         then Some mediatype else None)"

definition isJSONContentType :: "string \<Rightarrow> bool" where
  "isJSONContentType contentType =
     (let trimmed = trim_space contentType in
      if trimmed = [] then False
      else (case ParseMediaType trimmed of None \<Rightarrow> False
            | Some m \<Rightarrow> equal_fold m ''application/json''))"

definition requiresJSONBody :: "request \<Rightarrow> bool" where
  "requiresJSONBody r =
     (if rq_method r \<in> {''POST'', ''PUT'', ''PATCH''} then True
      else rq_content_length r > 0 \<or> rq_transfer_encoding r \<noteq> [])"

section \<open>Small policies\<close>

definition Noop_run :: "'w policy" where
  "Noop_run next r w s = next r w s"

definition Noop :: "registry \<Rightarrow> 'w pol option \<times> registry" where
  "Noop = build ''policy.Noop.func1'' Noop_run (metadata_of PolicyTypeNoop ''Noop'')"

definition RequireJSON_run :: "'w policy" where
  "RequireJSON_run next r w s =
     (if \<not> requiresJSONBody r then next r w s
      else if \<not> isJSONContentType (header_get (rq_headers r) ''Content-Type'')
      then reject (app_new CodeUnsupportedMedia 415 ''content type must be application/json'') r w s
      else next r w s)"

definition RequireJSON :: "registry \<Rightarrow> 'w pol option \<times> registry" where
  "RequireJSON = build ''policy.RequireJSON.func1'' RequireJSON_run
     (metadata_of PolicyTypeRequireJSON ''RequireJSON'')"

definition WithHeader_run :: "string \<Rightarrow> string \<Rightarrow> 'w policy" where
  "WithHeader_run key value next r w s = next r (set_header key value w) s"

definition WithHeader :: "string \<Rightarrow> string \<Rightarrow> registry \<Rightarrow> 'w pol option \<times> registry" where
  "WithHeader key value = build ''policy.WithHeader.func1'' (WithHeader_run key value)
     (metadata_of PolicyTypeWithHeader ''WithHeader'')"

section \<open>Authentication\<close>

text \<open>The goAuth engine is not part of the repository. Its guard looks at a request and either
  answers it itself, by calls on the writer it is given, or calls the next handler once, with
  an authentication result in the context or without.\<close>

datatype mask_value = MNone | MUint "64 word" | MInt int | MOther

record auth_result =
  ar_user :: string
  ar_role :: string
  ar_mask :: mask_value
  ar_permissions :: "string list"

datatype writer_call = CallSet string string | CallHeader int | CallWrite string | CallFlush

datatype guard_decision = GuardStop "writer_call list" | GuardNext "auth_result option"

datatype guard_mode = ModeInherit | ModeJWTOnly | ModeStrict

type_synonym 'w engine_guard = "guard_mode \<Rightarrow> request \<Rightarrow> 'w \<Rightarrow> guard_decision \<times> 'w"

definition routeMode :: "string \<Rightarrow> guard_mode" where
  "routeMode mode = (if mode = ''jwt_only'' then ModeJWTOnly
     else if mode = ''strict'' then ModeStrict else ModeInherit)"

definition maskValueToUint64 :: "mask_value \<Rightarrow> 64 word" where
  "maskValueToUint64 v = (case v of MNone \<Rightarrow> 0 | MUint n \<Rightarrow> n
     | MInt i \<Rightarrow> if i < 0 then 0 else word_of_int i | MOther \<Rightarrow> 0)"

text \<open>\<open>authGuardResponseWriter\<close> while the next handler has not been called: the underlying
  writer and the flag \<open>unauthorized\<close>.\<close>

fun guard_writer_call :: "writer_call \<Rightarrow> rw \<times> bool \<Rightarrow> rw \<times> bool" where
  "guard_writer_call (CallSet k v) (w, un) = (set_header k v w, un)"
| "guard_writer_call (CallHeader n) (w, un) = (if n = 401 then (w, True) else (WriteHeader n w, un))"
| "guard_writer_call (CallWrite bs) (w, un) = (if un then (w, un) else (Write bs w, un))"
| "guard_writer_call CallFlush (w, un) = (Flush w, un)"

abbreviation "unauthorized \<equiv> app_new CodeUnauthorized 401 ''authentication required''"
abbreviation "forbidden msg \<equiv> app_new CodeForbidden 403 msg"

definition principal_of_result :: "auth_result \<Rightarrow> principal" where
  "principal_of_result res = \<lparr>pr_user_id = ar_user res, pr_project_id = [],
     pr_role = ar_role res, pr_mask = maskValueToUint64 (ar_mask res),
     pr_permissions = ar_permissions res\<rparr>"

definition AuthRequired_run :: "'w engine_guard \<Rightarrow> string \<Rightarrow> 'w policy" where
  "AuthRequired_run guard mode next r w s =
     (case guard (routeMode mode) r s of
        (GuardStop calls, s') \<Rightarrow>
          (let (w', un) = fold guard_writer_call calls (w, False)
           in if un then reject unauthorized r w' s' else Done w' s')
      | (GuardNext None, s') \<Rightarrow> reject unauthorized r w s'
      | (GuardNext (Some res), s') \<Rightarrow>
          if trim_space (ar_user res) = [] then reject unauthorized r w s'
          else next (with_principal r (principal_of_result res)) w s')"

definition AuthRequired ::
  "'w engine_guard \<Rightarrow> string \<Rightarrow> registry \<Rightarrow> 'w pol option \<times> registry" where
  "AuthRequired guard mode =
     build ''policy.authRequiredWithEngine.func1'' (AuthRequired_run guard mode)
       (metadata_of PolicyTypeAuthRequired ''AuthRequired'')"

section \<open>Project scope\<close>

text \<open>\<open>projectscope\<close>.\<close>

definition ProjectIDFromContext :: "request \<Rightarrow> string option" where
  "ProjectIDFromContext r =
     (case from_context r of None \<Rightarrow> None
      | Some p \<Rightarrow> if trim_space (pr_project_id p) = [] then None
                  else Some (trim_space (pr_project_id p)))"

definition RequireProject :: "request \<Rightarrow> err option" where
  "RequireProject r = (case ProjectIDFromContext r of Some _ \<Rightarrow> None
     | None \<Rightarrow> Some (forbidden ''project scope required''))"

definition IsSameProject :: "string \<Rightarrow> string \<Rightarrow> bool" where
  "IsSameProject principalProjectID resourceProjectID \<longleftrightarrow>
     trim_space principalProjectID \<noteq> []
     \<and> trim_space principalProjectID = trim_space resourceProjectID"

definition requestProjectID :: "request \<Rightarrow> string option" where
  "requestProjectID r =
     (let candidate = (\<lambda>name.
        if trim_space (URLParam r name) \<noteq> [] then Some (trim_space (URLParam r name))
        else if trim_space (PathValue r name) \<noteq> [] then Some (trim_space (PathValue r name))
        else None)
      in case candidate ''project_id'' of Some v \<Rightarrow> Some v | None \<Rightarrow> candidate ''projectId'')"

definition ProjectRequired_run :: "'w policy" where
  "ProjectRequired_run next r w s =
     (case from_context r of None \<Rightarrow> reject unauthorized r w s
      | Some p \<Rightarrow>
        if trim_space (pr_user_id p) = [] then reject unauthorized r w s
        else (case requestProjectID r of
            None \<Rightarrow> reject (forbidden ''project scope required'') r w s
          | Some pathProjectID \<Rightarrow>
            if trim_space (pr_project_id p) \<noteq> []
               \<and> \<not> IsSameProject (trim_space (pr_project_id p)) pathProjectID
            then reject (forbidden ''project scope mismatch'') r w s
            else next (with_principal r (p\<lparr>pr_project_id := pathProjectID\<rparr>)) w s))"

definition ProjectRequired :: "registry \<Rightarrow> 'w pol option \<times> registry" where
  "ProjectRequired = build ''policy.ProjectRequired.func1'' ProjectRequired_run
     (metadata_of PolicyTypeProjectRequired ''ProjectRequired'')"

definition ProjectMatchFromPath_run :: "string \<Rightarrow> 'w policy" where
  "ProjectMatchFromPath_run paramName next r w s =
     (case from_context r of None \<Rightarrow> reject unauthorized r w s
      | Some p \<Rightarrow>
        let resourceProject = trim_space (URLParam r paramName) in
        if resourceProject = []
        then reject (app_new CodeBadRequest 400 (paramName @ '' is required'')) r w s
        else if trim_space (pr_project_id p) = []
        then reject (forbidden ''project scope required'') r w s
        else if \<not> IsSameProject (pr_project_id p) resourceProject
        then reject (forbidden ''project scope mismatch'') r w s
        else next r w s)"

definition match_metadata :: "string \<Rightarrow> metadata" where
  "match_metadata paramName =
     (metadata_of PolicyTypeProjectMatchFromPath ''ProjectMatchFromPath'')
       \<lparr>md_project_path_param := paramName\<rparr>"

definition ProjectMatchFromPath :: "string \<Rightarrow> registry \<Rightarrow> 'w built" where
  "ProjectMatchFromPath paramName reg =
     (if trim_space paramName = []
      then Inl (panicInvalidRouteConfig (PolicyTypeProjectMatchFromPath
                  @ '' requires a non-empty path parameter name''))
      else Inr (build ''policy.ProjectMatchFromPath.func1''
                  (ProjectMatchFromPath_run (trim_space paramName))
                  (match_metadata (trim_space paramName)) reg))"

section \<open>Permissions\<close>

definition resolve_failure :: "err \<Rightarrow> err" where
  "resolve_failure e =
     (if IsMembershipNotFound e then forbidden ''project membership required''
      else if IsMaskInconsistent e then app_new CodeInternal 500 ''permission mask unavailable''
      else if IsDependencyFailure e
      then app_new CodeDependencyFailure 503 ''permission resolver unavailable''
      else app_new CodeInternal 500 ''permission resolution failed'')"

definition resolved_principal :: "principal \<Rightarrow> string \<Rightarrow> resolution \<Rightarrow> principal" where
  "resolved_principal p projectID res =
     p\<lparr>pr_mask := rs_mask res,
       pr_role := (if trim_space (rs_role res) \<noteq> [] then trim_space (rs_role res) else pr_role p),
       pr_project_id := (if trim_space (rs_project res) \<noteq> [] then trim_space (rs_project res)
                         else projectID)\<rparr>"

definition ResolvePermissions_run :: "'w resolver \<Rightarrow> 'w policy" where
  "ResolvePermissions_run resolve next r w s =
     (case from_context r of None \<Rightarrow> reject unauthorized r w s
      | Some p \<Rightarrow>
        if trim_space (pr_user_id p) = [] then reject unauthorized r w s
        else let projectID = trim_space (pr_project_id p) in
          if projectID = [] then reject (forbidden ''project scope required'') r w s
          else (case resolve (pr_user_id p) projectID s of
              (Inl e, s') \<Rightarrow> reject (resolve_failure e) r w s'
            | (Inr res, s') \<Rightarrow> next (with_principal r (resolved_principal p projectID res)) w s'))"

definition ResolvePermissions :: "'w resolver option \<Rightarrow> registry \<Rightarrow> 'w built" where
  "ResolvePermissions resolver reg =
     (case resolver of
        None \<Rightarrow> Inl (panicInvalidRouteConfig (PolicyTypeResolvePermissions
                      @ '' requires a non-nil permissions resolver''))
      | Some resolve \<Rightarrow> Inr (build ''policy.ResolvePermissions.func1''
          (ResolvePermissions_run resolve)
          (metadata_of PolicyTypeResolvePermissions ''ResolvePermissions'') reg))"

definition GetUserMask :: "request \<Rightarrow> mask" where
  "GetUserMask r = (case from_context r of None \<Rightarrow> 0 | Some p \<Rightarrow> pr_mask p)"

definition HasPerm :: "mask \<Rightarrow> mask \<Rightarrow> bool" where
  "HasPerm m p \<longleftrightarrow> and m p \<noteq> 0"

definition HasRole :: "request \<Rightarrow> string \<Rightarrow> bool" where
  "HasRole r role =
     (case from_context r of None \<Rightarrow> False
      | Some p \<Rightarrow> if trim_space role = [] then False
                  else equal_fold (trim_space (pr_role p)) (trim_space role))"

definition RequirePermission_run :: "mask \<Rightarrow> 'w policy" where
  "RequirePermission_run p next r w s =
     (if \<not> HasPerm (GetUserMask r) p then reject (forbidden ''forbidden'') r w s else next r w s)"

definition RequirePermission :: "mask \<Rightarrow> registry \<Rightarrow> 'w built" where
  "RequirePermission p reg =
     (if p = 0 then Inl (panicInvalidRouteConfig (PolicyTypeRequirePermission
                      @ '' requires a non-zero permission''))
      else Inr (build ''policy.RequirePermission.func1'' (RequirePermission_run p)
                  (metadata_of PolicyTypeRequirePermission ''RequirePermission'') reg))"

definition normalizeRequiredPermissions :: "mask list \<Rightarrow> mask list" where
  "normalizeRequiredPermissions perms = filter (\<lambda>p. p \<noteq> 0) perms"

fun any_permission_loop :: "mask \<Rightarrow> mask list \<Rightarrow> bool" where
  "any_permission_loop m [] = False"
| "any_permission_loop m (p # ps) = (if HasPerm m p then True else any_permission_loop m ps)"

definition RequireAnyPermission_run :: "mask list \<Rightarrow> 'w policy" where
  "RequireAnyPermission_run required next r w s =
     (if any_permission_loop (GetUserMask r) required then next r w s
      else reject (forbidden ''forbidden'') r w s)"

definition RequireAnyPermission :: "mask list \<Rightarrow> registry \<Rightarrow> 'w built" where
  "RequireAnyPermission perms reg =
     (let required = normalizeRequiredPermissions perms in
      if required = [] then Inl (panicInvalidRouteConfig (PolicyTypeRequireAnyPermission
                              @ '' requires at least one non-zero permission''))
      else Inr (build ''policy.RequireAnyPermission.func1'' (RequireAnyPermission_run required)
                  (metadata_of PolicyTypeRequireAnyPermission ''RequireAnyPermission'') reg))"

fun all_permission_loop :: "mask \<Rightarrow> mask list \<Rightarrow> bool" where
  "all_permission_loop m [] = True"
| "all_permission_loop m (p # ps) = (if \<not> HasPerm m p then False else all_permission_loop m ps)"

definition RequireAllPermissions_run :: "mask list \<Rightarrow> 'w policy" where
  "RequireAllPermissions_run required next r w s =
     (if all_permission_loop (GetUserMask r) required then next r w s
      else reject (forbidden ''forbidden'') r w s)"

definition RequireAllPermissions :: "mask list \<Rightarrow> registry \<Rightarrow> 'w built" where
  "RequireAllPermissions perms reg =
     (let required = normalizeRequiredPermissions perms in
      if required = [] then Inl (panicInvalidRouteConfig (PolicyTypeRequireAllPermissions
                              @ '' requires at least one non-zero permission''))
      else Inr (build ''policy.RequireAllPermissions.func1'' (RequireAllPermissions_run required)
                  (metadata_of PolicyTypeRequireAllPermissions ''RequireAllPermissions'') reg))"

section \<open>Routes\<close>

text \<open>\<open>Mux.Handle\<close>: what it hands to the router, or the panic of the validator.\<close>

definition Mux_Handle ::
  "registry \<Rightarrow> string \<Rightarrow> string \<Rightarrow> 'w handler \<Rightarrow> 'w pol option list \<Rightarrow> string + 'w handler" where
  "Mux_Handle reg method pattern h policies =
     (case MustValidateRoute reg method pattern policies of
        Inl m \<Rightarrow> Inl m | Inr _ \<Rightarrow> Inr (Chain h policies))"

end
