(* ===== verification/Policy_Limit.thy ===== *)
theory Policy_Limit
  imports Policy_Run Ratelimit
begin

text \<open>
  The rate limiting policy (\<open>internal/core/policy/ratelimit.go\<close>) over any limiter; the contract of
  the \<open>ratelimit.Limiter\<close> interface is a locale, interpreted on the Redis limiter.
\<close>

section \<open>The policy\<close>

definition routePattern :: "request \<Rightarrow> string" where
  "routePattern r = (case rq_route_pattern r of None \<Rightarrow> ''unknown''
     | Some p \<Rightarrow> if p \<noteq> [] then p else ''unknown'')"

type_synonym 'w allow = "limit_request \<Rightarrow> ('w, decision) eff"

definition limit_request_of :: "request \<Rightarrow> rule \<Rightarrow> limit_request" where
  "limit_request_of r rule =
     \<lparr>lr_route = routePattern r, lr_scope = fst (ResolveScopeAndIdentifier r rule),
      lr_identifier = snd (ResolveScopeAndIdentifier r rule), lr_limit = ru_limit rule,
      lr_window = ru_window rule\<rparr>"

definition RateLimit_run :: "'w allow \<Rightarrow> rule \<Rightarrow> 'w policy" where
  "RateLimit_run allow rule next r w s =
     (case allow (limit_request_of r rule) s of
        (Inl e, s') \<Rightarrow> reject (app_new CodeInternal 500 ''internal server error'') r w s'
      | (Inr d, s') \<Rightarrow>
          if dc_allowed d then next r w s'
          else if dc_outcome d = OutcomeError
          then reject (app_new CodeDependencyFailure 503 ''rate limiter unavailable'') r w s'
          else (let seconds = RetryAfterSeconds (dc_retry_after d);
                    w' = (if seconds > 0 then set_header ''Retry-After'' (itoa seconds) w else w)
                in reject (app_new CodeTooManyRequests 429 ''rate limit exceeded'') r w' s'))"

definition RateLimitWithKeyer ::
  "'w allow option \<Rightarrow> rule \<Rightarrow> keyer option \<Rightarrow> (err \<Rightarrow> string) \<Rightarrow> registry \<Rightarrow> 'w built" where
  "RateLimitWithKeyer limiter rule keyer show_err reg =
     (case limiter of
        None \<Rightarrow> Inl (panicInvalidRouteConfig (PolicyTypeRateLimit @ '' requires a non-nil limiter''))
      | Some allow \<Rightarrow>
          let rule' = (case keyer of None \<Rightarrow> rule | Some k \<Rightarrow> rule\<lparr>ru_keyer := Some k\<rparr>) in
          (case rule_validate rule' of
             Some e \<Rightarrow> Inl (panicInvalidRouteConfig (PolicyTypeRateLimit @ '' rule is invalid: '' @ show_err e))
           | None \<Rightarrow> Inr (build ''policy.RateLimitWithKeyer.func1'' (RateLimit_run allow rule')
                            (metadata_of PolicyTypeRateLimit ''RateLimit'') reg)))"

definition RateLimit :: "'w allow option \<Rightarrow> rule \<Rightarrow> (err \<Rightarrow> string) \<Rightarrow> registry \<Rightarrow> 'w built" where
  "RateLimit limiter rule = RateLimitWithKeyer limiter rule None"

section \<open>The contract of a limiter\<close>

text \<open>A limiter answers every valid request, and a refusal says how long to wait unless the limiter
  itself is down.\<close>

locale limit_service =
  fixes allow :: "limit_request \<Rightarrow> ('w, decision) eff"
  assumes answers: "validateRequest req = None \<Longrightarrow> \<exists>d s'. allow req s = (Inr d, s')"
    and refusal: "allow req s = (Inr d, s') \<Longrightarrow> \<not> dc_allowed d \<Longrightarrow> 0 < dc_retry_after d"
begin

lemma refuses_with_wait:
  assumes "rule_validate rule = None"
  shows "\<exists>d s'. allow (limit_request_of r rule) s = (Inr d, s')
    \<and> RateLimit_run allow rule next r w s =
        (if dc_allowed d then next r w s'
         else if dc_outcome d = OutcomeError
         then reject (app_new CodeDependencyFailure 503 ''rate limiter unavailable'') r w s'
         else reject (app_new CodeTooManyRequests 429 ''rate limit exceeded'') r
                (set_header ''Retry-After'' (itoa (RetryAfterSeconds (dc_retry_after d))) w) s')
    \<and> (\<not> dc_allowed d \<longrightarrow> 1 \<le> RetryAfterSeconds (dc_retry_after d))"
proof -
  have "validateRequest (limit_request_of r rule) = None"
    using assms by (simp add: rule_validate_def validateRequest_def limit_request_of_def)
  then obtain d s' where d: "allow (limit_request_of r rule) s = (Inr d, s')" using answers by blast
  have "1 \<le> RetryAfterSeconds (dc_retry_after d)" if "\<not> dc_allowed d"
    using refusal [OF d that] by (simp add: RetryAfterSeconds_def)
  with d show ?thesis by (intro exI [of _ d] exI [of _ s']) (auto simp: RateLimit_run_def Let_def)
qed

end

lemma Allow_answers: "validateRequest req = None \<Longrightarrow> \<exists>d s'. Allow l req s = (Inr d, s')"
  by (auto simp: Allow_def eff_defs observeDecision_def split: sum.splits prod.splits)

lemma outage_retry: "validateRequest req = None \<Longrightarrow> \<not> dc_allowed (outage l req) \<Longrightarrow> 0 < dc_retry_after (outage l req)"
  by (auto simp: outage_def validateRequest_def limits_error_def split: if_splits)

lemma decide_retry:
  "validateRequest req = None \<Longrightarrow> \<not> dc_allowed (decide req a c t) \<Longrightarrow> 0 < dc_retry_after (decide req a c t)"
  by (auto simp: decide_def Let_def validateRequest_def limits_error_def split: if_splits)

lemma decision_of_retry:
  "validateRequest req = None \<Longrightarrow> \<not> dc_allowed (decision_of l req raw) \<Longrightarrow> 0 < dc_retry_after (decision_of l req raw)"
  unfolding decision_of_def by (auto simp: outage_retry decide_retry split: reply.splits list.splits)

lemma Allow_refusal:
  "Allow l req s = (Inr d, s') \<Longrightarrow> \<not> dc_allowed d \<Longrightarrow> 0 < dc_retry_after d"
  by (auto simp: Allow_def eff_bind_Inr eff_case_Inr observeDecision_def outage_retry decision_of_retry
      split: option.splits)

interpretation redis_limiter: limit_service "Allow l" for l
  using Allow_answers Allow_refusal by unfold_locales blast+

text \<open>A route limited by the Redis limiter with an accepted rule either runs its handler, or
  answers 429 with a wait of at least a second, or, when Redis is down and the limiter fails
  closed, 503; it never reports an internal error.\<close>

theorem RateLimit_outcomes:
  assumes "rule_validate rule = None"
  shows "\<exists>d s'. Allow l (limit_request_of r rule) s = (Inr d, s')
    \<and> RateLimit_run (Allow l) rule next r w s =
        (if dc_allowed d then next r w s'
         else if dc_outcome d = OutcomeError
         then reject (app_new CodeDependencyFailure 503 ''rate limiter unavailable'') r w s'
         else reject (app_new CodeTooManyRequests 429 ''rate limit exceeded'') r
                (set_header ''Retry-After'' (itoa (RetryAfterSeconds (dc_retry_after d))) w) s')
    \<and> (\<not> dc_allowed d \<longrightarrow> 1 \<le> RetryAfterSeconds (dc_retry_after d))"
  using assms by (rule redis_limiter.refuses_with_wait)

section \<open>Identities\<close>

definition identity_ok :: "string \<times> string \<Rightarrow> bool" where
  "identity_ok key \<longleftrightarrow> fst key \<noteq> [] \<and> fst key \<noteq> ScopeAuto \<and> snd key \<noteq> [] \<and> length (snd key) \<le> 128"

lemma identity_ok_normalizeKey: "identity_ok (normalizeKey key)"
  by (cases key) (auto simp: identity_ok_def normalizeKey_def sanitizeIdentifier_def Let_def)

lemma identity_ok_first: "\<forall>k \<in> set ks. identity_ok k \<Longrightarrow> identity_ok (first_identity ks)"
  by (force simp: first_identity_def identity_ok_def split: option.split dest: find_member)

text \<open>Whatever the rule, its keyer and the request, the identity a request is counted under has a
  definite scope and a non-empty identifier of at most 128 bytes.\<close>

theorem ResolveScopeAndIdentifier_ok: "identity_ok (ResolveScopeAndIdentifier r rule)"
proof -
  have "identity_ok (scope_identity r scope)" for scope
  proof -
    have "identity_ok (first_identity [normalizeKey a])" "identity_ok (first_identity [normalizeKey a, normalizeKey b])"
      "identity_ok anonymous" for a b
      by (simp_all add: identity_ok_first identity_ok_normalizeKey) (simp add: identity_ok_def)
    then show ?thesis by (simp add: scope_identity_def identity_ok_normalizeKey)
  qed
  then show ?thesis
    by (auto simp: ResolveScopeAndIdentifier_def identity_ok_normalizeKey Let_def split: option.split)
qed

section \<open>A small limiter\<close>

definition sample_limiter :: limiter where
  "sample_limiter = \<lparr>li_env = ''dev'', li_fail_open = False, li_observes = True\<rparr>"

definition sample_rule :: rule where
  "sample_rule = \<lparr>ru_limit = 2, ru_window = 60000000000, ru_scope = ScopeProject, ru_keyer = None\<rparr>"

definition sample_limit_request :: limit_request where
  "sample_limit_request = \<lparr>lr_route = ''/r'', lr_scope = ScopeProject, lr_identifier = ''p1'', lr_limit = 2,
     lr_window = 60000000000\<rparr>"

definition sample_limit_world :: limit_world where
  "sample_limit_world = \<lparr>lw_counters = Map.empty, lw_now = 0, lw_count = 0, lw_fault = (\<lambda>_. None), lw_observed = []\<rparr>"

lemmas sample_limit_defs = sample_limiter_def sample_rule_def sample_limit_request_def sample_limit_world_def
  validateRequest_def limits_error_def in_int64_def

lemma RateLimit_outcomes_witness:
  "\<exists>d s'. Allow sample_limiter (limit_request_of (\<lparr>rq_method = ''GET'', rq_content_length = 0, rq_transfer_encoding = [],
     rq_headers = [], rq_query = [], rq_url_params = [], rq_path_values = [], rq_route_pattern = None,
     rq_remote_addr = [], rq_client_ip = None, rq_principal = None, rq_id = [], rq_body_limit = None\<rparr>) sample_rule) sample_limit_world = (Inr d, s')"
proof -
  have "rule_validate sample_rule = None" by (simp add: rule_validate_def sample_limit_defs)
  from RateLimit_outcomes [OF this] show ?thesis by blast
qed

lemma window_budget_witness:
  "map (\<lambda>d. case d of Inr d \<Rightarrow> dc_allowed d | _ \<Rightarrow> False)
     (fst (limit_run sample_limiter sample_limit_request [5, 6, 59000] sample_limit_world)) = [True, True, False]"
proof -
  have "fst (limit_run sample_limiter sample_limit_request (5 # [6, 59000]) sample_limit_world)
    = map2 (\<lambda>i t. Inr (window_decision sample_limit_request (5 + lr_window sample_limit_request div 1000000) i t))
        [0..<Suc (length [6, 59000 :: int])] (5 # [6, 59000])"
    by (rule window_budget) (simp_all add: sample_limit_defs)
  then show ?thesis
    by (simp add: upt_rec window_decision_def) (simp add: sample_limit_defs)
qed

lemma short_window_limits_nothing_witness:
  "\<exists>d w'. Allow sample_limiter (sample_limit_request\<lparr>lr_window := 999999\<rparr>) sample_limit_world = (Inr d, w')
     \<and> dc_allowed d"
  using short_window_limits_nothing [of "sample_limit_request\<lparr>lr_window := 999999\<rparr>" sample_limit_world sample_limiter]
  by (auto simp: sample_limit_defs)

end
