(* ===== verification/Cache_Manager.thy ===== *)
theory Cache_Manager
  imports Policy_Meta Store Go_Sha256 "HOL-Library.Product_Lexorder"
begin

text \<open>
  The response cache (\<open>internal/core/cache/manager.go\<close>): normalisation of the configured names and
  tags, the read key of a request, and the operations on Redis. A response is stored under a
  key that contains the versions of the request's tags, so that bumping a tag makes every key
  built before unreachable.
\<close>

section \<open>Configuration\<close>

record vary_by =
  vb_method :: bool
  vb_project_id :: bool
  vb_user_id :: bool
  vb_role :: bool
  vb_path_params :: "string list"
  vb_query_params :: "string list"
  vb_headers :: "string list"

record tag_literal =
  tl_key :: string
  tl_value :: string

record tag_spec =
  ts_name :: string
  ts_path_params :: "string list"
  ts_project_id :: bool
  ts_user_id :: bool
  ts_literals :: "tag_literal list"

record cache_read_config =
  rc_key :: string
  rc_ttl :: int
  rc_max_bytes :: int
  rc_tag_specs :: "tag_spec list"
  rc_methods :: "string list"
  rc_statuses :: "int list"
  rc_vary_by :: vary_by
  rc_fail_open :: "bool option"
  rc_allow_authenticated :: bool
  rc_shared_authenticated :: bool

record cache_invalidate_config =
  ic_tag_specs :: "tag_spec list"
  ic_fail_open :: "bool option"

record key_template =
  kt_route_part :: string
  kt_method :: bool
  kt_project_id :: bool
  kt_user_id :: bool
  kt_role :: bool
  kt_path_params :: "string list"
  kt_query_params :: "string list"
  kt_headers :: "string list"
  kt_tag_specs :: "tag_spec list"
  kt_allow_authenticated :: bool

record cached_response =
  cr_status :: int
  cr_body :: string
  cr_content_type :: string

record manager =
  mg_env :: string
  mg_fail_open :: bool
  mg_max_bytes :: int
  mg_token_ttl :: int
  mg_observes :: bool

text \<open>The client itself is the state below; \<open>NewManager\<close> only asks whether there is one.\<close>

definition NewManager :: "bool \<Rightarrow> string \<Rightarrow> bool \<Rightarrow> int \<Rightarrow> int \<Rightarrow> bool \<Rightarrow> err + manager" where
  "NewManager has_client env fail_open max_bytes token_ttl observes =
     (if \<not> has_client then Inl (EText ''cache manager requires redis client'')
      else Inr \<lparr>mg_env = (if trim_space env = [] then ''dev'' else trim_space env),
                mg_fail_open = fail_open,
                mg_max_bytes = (if max_bytes \<le> 0 then 256 * 1024 else max_bytes),
                mg_token_ttl = (if token_ttl < 0 then 0 else token_ttl),
                mg_observes = observes\<rparr>)"

definition ResolveFailOpen :: "manager option \<Rightarrow> bool option \<Rightarrow> bool" where
  "ResolveFailOpen m override = (case override of Some b \<Rightarrow> b
     | None \<Rightarrow> (case m of None \<Rightarrow> False | Some m \<Rightarrow> mg_fail_open m))"

definition DefaultMaxBytes :: "manager option \<Rightarrow> int" where
  "DefaultMaxBytes m = (case m of None \<Rightarrow> 0 | Some m \<Rightarrow> mg_max_bytes m)"

section \<open>Normalisation\<close>

definition normalizedNames :: "string list \<Rightarrow> string list" where
  "normalizedNames items = sort_key (\<lambda>s. (to_lower s, s)) (trim_unique to_lower [] items)"

definition normalizeResolvedTags :: "string list \<Rightarrow> string list" where
  "normalizeResolvedTags tags = sort (trim_unique (\<lambda>t. t) [] tags)"

text \<open>The loop that drops an item whose key is that of its predecessor.\<close>

fun drop_repeats :: "('a \<Rightarrow> string) \<Rightarrow> string \<Rightarrow> 'a list \<Rightarrow> 'a list" where
  "drop_repeats key prev [] = []"
| "drop_repeats key prev (x # xs) =
     (if key x = prev then drop_repeats key prev xs else x # drop_repeats key (key x) xs)"

definition literal_text :: "tag_literal \<Rightarrow> string" where
  "literal_text l = tl_key l @ ''='' @ tl_value l"

definition normalizeTagLiterals :: "tag_literal list \<Rightarrow> tag_literal list" where
  "normalizeTagLiterals items =
     (let trimmed = map (\<lambda>l. \<lparr>tl_key = trim_space (to_lower (tl_key l)), tl_value = trim_space (tl_value l)\<rparr>) items;
          kept = filter (\<lambda>l. tl_key l \<noteq> [] \<and> tl_value l \<noteq> []) trimmed
      in drop_repeats literal_text [] (sort_key (\<lambda>l. (tl_key l, tl_value l)) kept))"

definition normalizeTagName :: "string \<Rightarrow> string" where
  "normalizeTagName name = take 120 (replace_char CHR '' '' CHR ''_'' (trim_space (to_lower name)))"

definition tagSpecKey :: "tag_spec \<Rightarrow> string" where
  "tagSpecKey spec = join ''|''
     ([ts_name spec] @ map (\<lambda>p. ''path.'' @ p) (ts_path_params spec)
      @ (if ts_project_id spec then [''project''] else [])
      @ (if ts_user_id spec then [''user''] else [])
      @ map (\<lambda>l. ''lit.'' @ literal_text l) (ts_literals spec))"

definition normalizeTagSpecs :: "tag_spec list \<Rightarrow> tag_spec list" where
  "normalizeTagSpecs specs =
     (let prepared = map (\<lambda>s. \<lparr>ts_name = normalizeTagName (ts_name s),
            ts_path_params = normalizedNames (ts_path_params s), ts_project_id = ts_project_id s,
            ts_user_id = ts_user_id s, ts_literals = normalizeTagLiterals (ts_literals s)\<rparr>)
            (filter (\<lambda>s. normalizeTagName (ts_name s) \<noteq> []) specs)
      in drop_repeats tagSpecKey [] (sort_key tagSpecKey prepared))"

definition cache_normalizeRoute :: "string \<Rightarrow> string" where
  "cache_normalizeRoute route =
     (let r = trim_space route in
      if r = [] then ''unknown'' else take 240 (replace_char CHR '' '' CHR ''_'' r))"

definition PrepareReadKeyTemplate :: "cache_read_config \<Rightarrow> key_template" where
  "PrepareReadKeyTemplate cfg =
     (let customKey = trim_space (rc_key cfg); v = rc_vary_by cfg in
      \<lparr>kt_route_part = (if customKey \<noteq> [] then cache_normalizeRoute customKey else []),
       kt_method = vb_method v, kt_project_id = vb_project_id v, kt_user_id = vb_user_id v,
       kt_role = vb_role v, kt_path_params = normalizedNames (vb_path_params v),
       kt_query_params = normalizedNames (vb_query_params v),
       kt_headers = normalizedNames (vb_headers v),
       kt_tag_specs = normalizeTagSpecs (rc_tag_specs cfg),
       kt_allow_authenticated = rc_allow_authenticated cfg\<rparr>)"

section \<open>Tags of a request\<close>

text \<open>\<open>url.QueryEscape\<close> of the standard library.\<close>

definition hex_upper :: "nat \<Rightarrow> char" where
  "hex_upper n = ''0123456789ABCDEF'' ! n"

definition unreserved :: "char \<Rightarrow> bool" where
  "unreserved c \<longleftrightarrow> (let k = of_char c :: nat in
     48 \<le> k \<and> k \<le> 57 \<or> 65 \<le> k \<and> k \<le> 90 \<or> 97 \<le> k \<and> k \<le> 122 \<or> c \<in> set ''-_.~'')"

definition QueryEscape :: "string \<Rightarrow> string" where
  "QueryEscape s = concat (map (\<lambda>c. if unreserved c then [c] else if c = CHR '' '' then ''+''
     else [CHR ''%'', hex_upper (of_char c div 16), hex_upper (of_char c mod 16)]) s)"

definition escapeTagValue :: "string \<Rightarrow> string" where
  "escapeTagValue v = QueryEscape (trim_space v)"

fun path_parts :: "request \<Rightarrow> string \<Rightarrow> string list \<Rightarrow> err + string list" where
  "path_parts r name [] = Inr []"
| "path_parts r name (p # ps) =
     (let value = trim_space (URLParam r p) in
      if value = []
      then Inl (EText (''missing path param '' @ quoted p @ '' for cache tag '' @ quoted name))
      else map_sum id (\<lambda>parts. (''path.'' @ p @ ''='' @ escapeTagValue value) # parts)
             (path_parts r name ps))"

definition identity_part :: "bool \<Rightarrow> string \<Rightarrow> string \<Rightarrow> string \<Rightarrow> string \<Rightarrow> err + string list" where
  "identity_part wanted value label missing name =
     (if \<not> wanted then Inr []
      else if trim_space value = [] then Inl (EText (''missing '' @ missing @ '' for cache tag '' @ quoted name))
      else Inr [label @ ''='' @ escapeTagValue (trim_space value)])"

definition resolveTagName :: "request \<Rightarrow> principal \<Rightarrow> tag_spec \<Rightarrow> err + string" where
  "resolveTagName r pr spec =
     (if ts_name spec = [] then Inr []
      else case path_parts r (ts_name spec) (ts_path_params spec) of Inl e \<Rightarrow> Inl e | Inr paths \<Rightarrow>
        (case identity_part (ts_project_id spec) (pr_project_id pr) ''project'' ''project id'' (ts_name spec) of
          Inl e \<Rightarrow> Inl e | Inr projects \<Rightarrow>
        (case identity_part (ts_user_id spec) (pr_user_id pr) ''user'' ''user id'' (ts_name spec) of
          Inl e \<Rightarrow> Inl e | Inr users \<Rightarrow>
          let parts = paths @ projects @ users
                @ map (\<lambda>l. ''lit.'' @ tl_key l @ ''='' @ escapeTagValue (tl_value l)) (ts_literals spec)
          in if parts = [] then Inr (ts_name spec)
             else Inr (ts_name spec @ ''|'' @ join ''|'' (sort parts)))))"

fun resolve_specs :: "request \<Rightarrow> principal \<Rightarrow> tag_spec list \<Rightarrow> err + string list" where
  "resolve_specs r pr [] = Inr []"
| "resolve_specs r pr (s # specs) =
     (case resolveTagName r pr s of Inl e \<Rightarrow> Inl e
      | Inr tag \<Rightarrow> (case resolve_specs r pr specs of Inl e \<Rightarrow> Inl e
          | Inr tags \<Rightarrow> Inr (if tag = [] then tags else tag # tags)))"

definition request_principal :: "request \<Rightarrow> principal" where
  "request_principal r = (case from_context r of None \<Rightarrow> zero_principal | Some p \<Rightarrow> p)"

definition resolveTagNamesPrepared :: "request \<Rightarrow> tag_spec list \<Rightarrow> err + string list" where
  "resolveTagNamesPrepared r specs =
     map_sum id normalizeResolvedTags (resolve_specs r (request_principal r) specs)"

section \<open>The text of a read key\<close>

definition isCursorLikeQueryParam :: "string \<Rightarrow> bool" where
  "isCursorLikeQueryParam name =
     (let normalized = to_lower (trim_space name) in
      normalized = ''cursor'' \<or> suffix ''.cursor'' normalized)"

definition selected_values :: "request \<Rightarrow> string \<Rightarrow> string list" where
  "selected_values r name =
     (let vals = query_values r name in
      sort (if isCursorLikeQueryParam name
            then (if list_ex (\<lambda>raw. trim_space raw \<noteq> []) vals then [''__present__''] else [])
            else vals))"

definition short_hash :: "string \<Rightarrow> string" where
  "short_hash s = hex_encode (take 16 (sum256 s))"

definition query_text :: "request \<Rightarrow> string list \<Rightarrow> string" where
  "query_text r selected =
     join ''&'' (map (\<lambda>name. name @ ''='' @ join '','' (selected_values r name)) selected)"

definition queryParamHashSelected :: "request \<Rightarrow> string list \<Rightarrow> string" where
  "queryParamHashSelected r selected = (if selected = [] then [] else short_hash (query_text r selected))"

definition opt_value :: "bool \<Rightarrow> string \<Rightarrow> string \<Rightarrow> string list" where
  "opt_value wanted label value = (if wanted then [label @ ''='' @ value] else [])"

definition key_values :: "request \<Rightarrow> string \<Rightarrow> key_template \<Rightarrow> string list" where
  "key_values r routePart tpl =
     (let pr = request_principal r; queryHash = queryParamHashSelected r (kt_query_params tpl) in
      [''route='' @ routePart]
      @ opt_value (kt_method tpl) ''method'' (to_upper (trim_space (rq_method r)))
      @ opt_value (kt_project_id tpl) ''project'' (trim_space (pr_project_id pr))
      @ opt_value (kt_user_id tpl) ''user'' (trim_space (pr_user_id pr))
      @ opt_value (kt_role tpl) ''role'' (trim_space (pr_role pr))
      @ map (\<lambda>p. ''path.'' @ p @ ''='' @ trim_space (URLParam r p)) (kt_path_params tpl)
      @ map (\<lambda>h. ''header.'' @ h @ ''='' @ join '','' (header_values (rq_headers r) h)) (kt_headers tpl)
      @ opt_value (queryHash \<noteq> []) ''query_hash'' queryHash
      @ opt_value (from_context r \<noteq> None \<and> kt_allow_authenticated tpl) ''auth'' ''allowed'')"

definition key_route_part :: "string \<Rightarrow> key_template \<Rightarrow> string" where
  "key_route_part route tpl =
     (let part = trim_space (kt_route_part tpl) in if part = [] then cache_normalizeRoute route else part)"

section \<open>Redis and the token cache\<close>

text \<open>
  A key holds the text of a counter or the JSON of a response, with an optional expiry; times are
  nanoseconds of one clock. The n-th call can fail, before the server ran it or after (the
  reply was lost). \<open>cw_tokens\<close> is the \<open>sync.Map\<close> of the process.
\<close>

datatype redis_value = StText string | StResponse cached_response

record cache_world =
  cw_store :: "string \<rightharpoonup> redis_value \<times> int option"
  cw_now :: int
  cw_count :: nat
  cw_fault :: "nat \<Rightarrow> (err \<times> bool) option"
  cw_tokens :: "string \<rightharpoonup> string \<times> int"
  cw_observed :: "(string \<times> string) list"

definition redis_call :: "(cache_world \<Rightarrow> (err + 'a) \<times> cache_world) \<Rightarrow> (cache_world, 'a) eff" where
  "redis_call f w =
     (let w' = w\<lparr>cw_count := cw_count w + 1\<rparr> in
      case cw_fault w (cw_count w) of
        None \<Rightarrow> f w'
      | Some (e, applied) \<Rightarrow> (Inl e, if applied then snd (f w') else w'))"

definition live_value :: "cache_world \<Rightarrow> string \<Rightarrow> (redis_value \<times> int option) option" where
  "live_value w key = (case cw_store w key of
       Some (v, Some until) \<Rightarrow> if until \<le> cw_now w then None else Some (v, Some until)
     | c \<Rightarrow> c)"

definition redis_put :: "string \<Rightarrow> redis_value \<times> int option \<Rightarrow> cache_world \<Rightarrow> cache_world" where
  "redis_put key v w = w\<lparr>cw_store := (cw_store w)(key \<mapsto> v)\<rparr>"

text \<open>\<open>INCR\<close>; the expiry of the key stays.\<close>

definition redis_incr :: "string \<Rightarrow> cache_world \<Rightarrow> err option \<times> cache_world" where
  "redis_incr key w = (case live_value w key of
       None \<Rightarrow> (None, redis_put key (StText ''1'', None) w)
     | Some (StText s, until) \<Rightarrow> (case parse_int s of
           Some n \<Rightarrow> if in_int64 (n + 1) then (None, redis_put key (StText (itoa (n + 1)), until) w)
             else (Some (EText ''ERR increment or decrement would overflow''), w)
         | None \<Rightarrow> (Some (EText ''ERR value is not an integer or out of range''), w))
     | Some (StResponse _, _) \<Rightarrow> (Some (EText ''ERR value is not an integer or out of range''), w))"

text \<open>A pipeline runs all its commands; \<open>Exec\<close> reports the first error.\<close>

fun redis_incr_all :: "string list \<Rightarrow> cache_world \<Rightarrow> err option \<times> cache_world" where
  "redis_incr_all [] w = (None, w)"
| "redis_incr_all (k # ks) w =
     (case redis_incr k w of (e, w1) \<Rightarrow> (case redis_incr_all ks w1 of (e', w2) \<Rightarrow>
        (if e = None then e' else e, w2)))"

definition tagVersionKey :: "manager \<Rightarrow> string \<Rightarrow> string" where
  "tagVersionKey m tag = ''cver:'' @ mg_env m @ '':'' @ tag"

definition version_of_value :: "redis_value option \<Rightarrow> int" where
  "version_of_value v = (case v of
       Some (StText s) \<Rightarrow> (case parse_int (trim_space s) of
           Some n \<Rightarrow> if 0 < n then n else 0 | None \<Rightarrow> 0)
     | _ \<Rightarrow> 0)"

definition tag_version :: "manager \<Rightarrow> cache_world \<Rightarrow> string \<Rightarrow> int" where
  "tag_version m w tag = version_of_value (map_option fst (live_value w (tagVersionKey m tag)))"

definition token_text :: "(string \<Rightarrow> int) \<Rightarrow> string list \<Rightarrow> string" where
  "token_text version tags = join '','' (map (\<lambda>t. t @ ''='' @ itoa (version t)) tags)"

definition tagTokenFromCache :: "manager \<Rightarrow> string \<Rightarrow> cache_world \<Rightarrow> string option \<times> cache_world" where
  "tagTokenFromCache m key w =
     (if mg_token_ttl m \<le> 0 \<or> trim_space key = [] then (None, w)
      else case cw_tokens w key of
        None \<Rightarrow> (None, w)
      | Some (token, expires) \<Rightarrow>
          if expires < cw_now w then (None, w\<lparr>cw_tokens := (cw_tokens w)(key := None)\<rparr>)
          else (Some token, w))"

definition storeTagToken :: "manager \<Rightarrow> string \<Rightarrow> string \<Rightarrow> cache_world \<Rightarrow> cache_world" where
  "storeTagToken m key token w =
     (if mg_token_ttl m \<le> 0 \<or> trim_space key = [] then w
      else w\<lparr>cw_tokens := (cw_tokens w)(key \<mapsto> (token, cw_now w + mg_token_ttl m))\<rparr>)"

definition token_cache_key :: "string list \<Rightarrow> string" where
  "token_cache_key tags = join [CHR 0x1F] tags"

text \<open>The \<open>MGET\<close> of the versions.\<close>

definition fetch_token :: "manager \<Rightarrow> string list \<Rightarrow> (cache_world, string) eff" where
  "fetch_token m tags = redis_call (\<lambda>w. (Inr (token_text (tag_version m w) tags), w))"

definition tagVersionTokenNormalized :: "manager \<Rightarrow> string list \<Rightarrow> (cache_world, string) eff" where
  "tagVersionTokenNormalized m tags w =
     (if tags = [] then (Inr [], w)
      else case tagTokenFromCache m (token_cache_key tags) w of
        (Some token, w1) \<Rightarrow> (Inr token, w1)
      | (None, w1) \<Rightarrow> (case fetch_token m tags w1 of
            (Inl e, w2) \<Rightarrow> (Inl e, w2)
          | (Inr token, w2) \<Rightarrow> (Inr token, storeTagToken m (token_cache_key tags) token w2)))"

definition TagVersionToken :: "manager \<Rightarrow> string list \<Rightarrow> (cache_world, string) eff" where
  "TagVersionToken m tags = tagVersionTokenNormalized m (normalizeResolvedTags tags)"

section \<open>Operations\<close>

definition key_text :: "manager \<Rightarrow> request \<Rightarrow> string \<Rightarrow> key_template \<Rightarrow> (cache_world, string) eff" where
  "key_text m r route tpl =
     eff_bind (eff_lift (resolveTagNamesPrepared r (kt_tag_specs tpl))) (\<lambda>tags.
     eff_bind (tagVersionTokenNormalized m tags) (\<lambda>token.
     eff_ret (join ''|'' (key_values r (key_route_part route tpl) tpl
                          @ opt_value (token \<noteq> []) ''tags'' token))))"

definition redis_key :: "manager \<Rightarrow> string \<Rightarrow> string \<Rightarrow> string" where
  "redis_key m routePart text = ''cache:'' @ mg_env m @ '':'' @ routePart @ '':'' @ short_hash text"

definition BuildReadKeyWithTemplate ::
  "manager option \<Rightarrow> request \<Rightarrow> string \<Rightarrow> key_template \<Rightarrow> (cache_world, string) eff" where
  "BuildReadKeyWithTemplate mo r route tpl =
     (case mo of None \<Rightarrow> eff_throw (EText ''cache manager is nil'')
      | Some m \<Rightarrow> eff_bind (key_text m r route tpl)
          (\<lambda>text. eff_ret (redis_key m (key_route_part route tpl) text)))"

definition BuildReadKey ::
  "manager option \<Rightarrow> request \<Rightarrow> string \<Rightarrow> cache_read_config \<Rightarrow> (cache_world, string) eff" where
  "BuildReadKey mo r route cfg = BuildReadKeyWithTemplate mo r route (PrepareReadKeyTemplate cfg)"

text \<open>A counter read as a response is a JSON number, which the struct refuses.\<close>

definition Get :: "manager option \<Rightarrow> string \<Rightarrow> (cache_world, cached_response option) eff" where
  "Get mo key =
     (case mo of None \<Rightarrow> eff_throw (EText ''cache manager is nil'')
      | Some m \<Rightarrow> eff_bind (redis_call (\<lambda>w. (Inr (live_value w key), w))) (\<lambda>v.
          case v of None \<Rightarrow> eff_ret None
          | Some (StText s, _) \<Rightarrow> eff_throw (EText ''json: cannot unmarshal'')
          | Some (StResponse item, _) \<Rightarrow> eff_ret (if cr_status item \<le> 0 then None else Some item)))"

text \<open>The client sends whole milliseconds, and at least one.\<close>

definition expiry :: "int \<Rightarrow> int \<Rightarrow> int" where
  "expiry now ttl = now + 1000000 * max 1 (ttl div 1000000)"

definition Set :: "manager option \<Rightarrow> string \<Rightarrow> cached_response \<Rightarrow> int \<Rightarrow> (cache_world, unit) eff" where
  "Set mo key v ttl =
     (case mo of None \<Rightarrow> eff_throw (EText ''cache manager is nil'')
      | Some m \<Rightarrow> if ttl \<le> 0 then eff_throw (EText ''cache ttl must be > 0'')
          else redis_call (\<lambda>w. (Inr (), redis_put key (StResponse v, Some (expiry (cw_now w) ttl)) w)))"

definition err_result :: "err option \<times> 's \<Rightarrow> (err + unit) \<times> 's" where
  "err_result r = (case fst r of None \<Rightarrow> Inr () | Some e \<Rightarrow> Inl e, snd r)"

definition BumpTags :: "manager option \<Rightarrow> string list \<Rightarrow> (cache_world, unit) eff" where
  "BumpTags mo tags =
     (case mo of None \<Rightarrow> eff_throw (EText ''cache manager is nil'')
      | Some m \<Rightarrow> let ts = normalizeResolvedTags tags in
          if ts = [] then eff_ret ()
          else eff_bind (redis_call (\<lambda>w. err_result (redis_incr_all (map (tagVersionKey m) ts) w)))
                 (\<lambda>_ w. (Inr (), w\<lparr>cw_tokens := Map.empty\<rparr>)))"

definition Observe :: "manager option \<Rightarrow> string \<Rightarrow> string \<Rightarrow> cache_world \<Rightarrow> cache_world" where
  "Observe mo route outcome w =
     (case mo of None \<Rightarrow> w | Some m \<Rightarrow>
        if \<not> mg_observes m then w
        else w\<lparr>cw_observed := cw_observed w
          @ [(if trim_space route = [] then ''unknown'' else trim_space route,
              if trim_space outcome = [] then ''unknown'' else trim_space outcome)]\<rparr>)"

end
