(* ===== verification/Cache_Laws.thy ===== *)
theory Cache_Laws
  imports Cache_Manager "HOL-Library.Multiset"
begin

text \<open>
  What the cache promises: the versions of the tags only grow, a bump moves exactly the versions of
  its tags, and a read key determines the versions it was built with, so that a response stored
  before a bump is not found afterwards.
\<close>

section \<open>Canonical names\<close>

text \<open>Whatever order, spelling blanks and repetitions the tags are given in, the normalised list
  is the sorted list of their trimmed, non-empty texts.\<close>

theorem normalizeResolvedTags_canonical:
  "normalizeResolvedTags tags = sorted_list_of_set ((trim_space ` set tags) - {[]})"
proof -
  have "set (trim_unique (\<lambda>t. t) [] tags) = (trim_space ` set tags) - {[]}"
    by (auto simp: trim_unique_set_id)
  then show ?thesis
    unfolding normalizeResolvedTags_def using sorted_list_of_set_sort_remdups [of "trim_unique (\<lambda>t. t) [] tags"]
    by (simp add: trim_unique_distinct distinct_remdups_id)
qed

lemma normalizeResolvedTags_set: "set (normalizeResolvedTags tags) = (trim_space ` set tags) - {[]}"
  by (auto simp: normalizeResolvedTags_def trim_unique_set_id)

lemma normalizeResolvedTags_distinct: "distinct (normalizeResolvedTags tags)"
  by (simp add: normalizeResolvedTags_def trim_unique_distinct)

lemma normalizeResolvedTags_nonempty: "t \<in> set (normalizeResolvedTags tags) \<Longrightarrow> t \<noteq> []"
  by (simp add: normalizeResolvedTags_set)

lemma normalizeResolvedTags_fix:
  "normalizeResolvedTags (normalizeResolvedTags tags) = normalizeResolvedTags tags"
proof -
  have "trim_space ` (trim_space ` set tags - {[]}) = trim_space ` set tags - {[]}"
    using trim_space_idem by (auto intro!: rev_image_eqI)
  then have "trim_space ` set (normalizeResolvedTags tags) - {[]} = trim_space ` set tags - {[]}"
    by (simp add: normalizeResolvedTags_set)
  then show ?thesis
    by (metis normalizeResolvedTags_set normalizeResolvedTags_distinct normalizeResolvedTags_def
        sorted_sort sorted_distinct_set_unique)
qed

section \<open>Versions\<close>

text \<open>The counters of a Redis that only the manager writes: no expiry, and a positive value.\<close>

definition counter_ok :: "(redis_value \<times> int option) option \<Rightarrow> bool" where
  "counter_ok c = (case c of None \<Rightarrow> True
     | Some (StText s, None) \<Rightarrow> (\<exists>n. s = itoa n \<and> 0 < n \<and> in_int64 n)
     | _ \<Rightarrow> False)"

definition counters_ok :: "manager \<Rightarrow> cache_world \<Rightarrow> bool" where
  "counters_ok m w = (\<forall>tag. counter_ok (cw_store w (tagVersionKey m tag)))"

lemma tagVersionKey_inj [simp]: "tagVersionKey m t = tagVersionKey m u \<longleftrightarrow> t = u"
  by (simp add: tagVersionKey_def)

lemma redis_key_not_version [simp]: "redis_key m part text \<noteq> tagVersionKey m' t"
  "tagVersionKey m' t \<noteq> redis_key m part text"
  by (simp_all add: redis_key_def tagVersionKey_def)

lemma live_value_world [simp]:
  "live_value (w\<lparr>cw_count := n\<rparr>) = live_value w" "live_value (w\<lparr>cw_tokens := tok\<rparr>) = live_value w"
  "live_value (w\<lparr>cw_observed := obs\<rparr>) = live_value w"
  by (auto simp: live_value_def fun_eq_iff split: option.splits)

lemma live_value_put [simp]:
  "live_value (redis_put k v w) l =
     (if l = k then (case snd v of Some e \<Rightarrow> if e \<le> cw_now w then None else Some v | None \<Rightarrow> Some v)
      else live_value w l)"
  by (cases v) (auto simp: live_value_def redis_put_def split: option.splits)

lemma tag_version_world [simp]:
  "tag_version m (w\<lparr>cw_count := n\<rparr>) = tag_version m w" "tag_version m (w\<lparr>cw_tokens := tok\<rparr>) = tag_version m w"
  "tag_version m (w\<lparr>cw_observed := obs\<rparr>) = tag_version m w"
  by (simp_all add: tag_version_def fun_eq_iff)

lemma counters_ok_world [simp]:
  "counters_ok m (w\<lparr>cw_count := n\<rparr>) = counters_ok m w" "counters_ok m (w\<lparr>cw_tokens := tok\<rparr>) = counters_ok m w"
  "counters_ok m (w\<lparr>cw_observed := obs\<rparr>) = counters_ok m w" "counters_ok m (w\<lparr>cw_now := t\<rparr>) = counters_ok m w"
  by (simp_all add: counters_ok_def)

lemma live_value_no_expiry:
  "counter_ok (cw_store w k) \<Longrightarrow> live_value w k = cw_store w k"
  by (cases "cw_store w k"; cases "fst (the (cw_store w k))")
     (auto simp: live_value_def counter_ok_def split: option.splits)

lemma digit_graphic: "digit_val c \<noteq> None \<Longrightarrow> graphic c"
proof -
  assume "digit_val c \<noteq> None"
  then have "48 \<le> (of_char c :: nat) \<and> (of_char c :: nat) \<le> 57"
    by (auto simp: digit_val_def Let_def split: if_splits)
  then have "(of_char c :: nat) \<in> {48, 49, 50, 51, 52, 53, 54, 55, 56, 57}"
    unfolding insert_iff empty_iff by presburger
  then have "c \<in> char_of ` {48 :: nat, 49, 50, 51, 52, 53, 54, 55, 56, 57}" by (metis char_of_char imageI)
  then show ?thesis by (auto simp: char_of_def bit_Suc_0_iff)
qed

lemma trim_itoa [simp]: "0 < n \<Longrightarrow> trim_space (itoa n) = itoa n"
  by (rule trim_plain) (auto simp: itoa_def intro!: digit_graphic show_nat_digits [of _ "nat n"])

text \<open>The version of a tag decides the value of its counter.\<close>

definition counter_of :: "int \<Rightarrow> (redis_value \<times> int option) option" where
  "counter_of n = (if n = 0 then None else Some (StText (itoa n), None))"

lemma counters_okD:
  assumes "counters_ok m w"
  shows "live_value w (tagVersionKey m t) = counter_of (tag_version m w t) \<and> 0 \<le> tag_version m w t
    \<and> in_int64 (tag_version m w t)"
proof -
  let ?c = "cw_store w (tagVersionKey m t)"
  have ok: "counter_ok ?c" using assms by (simp add: counters_ok_def)
  then have "live_value w (tagVersionKey m t) = ?c" by (rule live_value_no_expiry)
  then show ?thesis using ok unfolding tag_version_def
    by (cases ?c) (auto simp: counter_ok_def version_of_value_def parse_int_itoa counter_of_def in_int64_def
      split: redis_value.splits option.splits)
qed

lemma counters_ok_version:
  assumes "counters_ok m w"
  shows "0 \<le> tag_version m w t" "in_int64 (tag_version m w t)"
    "live_value w (tagVersionKey m t) = counter_of (tag_version m w t)"
  using counters_okD [OF assms, of t] by simp_all

lemma tag_version_cong: "cw_store w (tagVersionKey m t) = cw_store w' (tagVersionKey m t) \<Longrightarrow>
    counters_ok m w \<Longrightarrow> tag_version m w t = tag_version m w' t"
  unfolding tag_version_def counters_ok_def by (metis live_value_no_expiry)

lemma redis_put_store [simp]: "cw_store (redis_put k v w) = (cw_store w)(k \<mapsto> v)"
  "cw_tokens (redis_put k v w) = cw_tokens w" "cw_now (redis_put k v w) = cw_now w"
  by (simp_all add: redis_put_def)

lemma tag_version_put:
  "in_int64 n \<Longrightarrow> 0 < n \<Longrightarrow>
     tag_version m (redis_put (tagVersionKey m t) (StText (itoa n), None) w) u
       = (if u = t then n else tag_version m w u)"
  by (simp add: tag_version_def version_of_value_def parse_int_itoa)

lemma counters_ok_put:
  "counters_ok m w \<Longrightarrow> in_int64 n \<Longrightarrow> 0 < n \<Longrightarrow>
     counters_ok m (redis_put (tagVersionKey m t) (StText (itoa n), None) w)"
  by (auto simp: counters_ok_def counter_ok_def)

lemma itoa_1: "itoa 1 = ''1''"
  by (simp add: itoa_def show_nat.simps digit_char_def char_of_def bit_Suc_0_iff)

lemma redis_incr_version:
  assumes ok: "counters_ok m w"
  shows "redis_incr (tagVersionKey m t) w =
    (if in_int64 (tag_version m w t + 1)
     then (None, redis_put (tagVersionKey m t) (StText (itoa (tag_version m w t + 1)), None) w)
     else (Some (EText ''ERR increment or decrement would overflow''), w))"
  using counters_ok_version [OF ok, of t]
  by (cases "tag_version m w t = 0")
     (simp_all add: redis_incr_def counter_of_def parse_int_itoa itoa_1 in_int64_def)

text \<open>A pipeline of increments moves each version at most once, and all of them when it succeeds.\<close>

definition moved :: "manager \<Rightarrow> cache_world \<Rightarrow> string set \<Rightarrow> cache_world \<Rightarrow> bool" where
  "moved m w ts w' \<longleftrightarrow> counters_ok m w'
     \<and> (\<forall>t. tag_version m w' t = (if t \<in> ts then tag_version m w t + 1 else tag_version m w t))"

lemma movedD: "moved m w ts w' \<Longrightarrow> counters_ok m w'"
  "moved m w ts w' \<Longrightarrow> tag_version m w t \<le> tag_version m w' t"
  "moved m w ts w' \<Longrightarrow> t \<in> ts \<Longrightarrow> tag_version m w' t = tag_version m w t + 1"
  "moved m w ts w' \<Longrightarrow> t \<notin> ts \<Longrightarrow> tag_version m w' t = tag_version m w t"
  by (auto simp: moved_def)

lemma redis_incr_all_moved:
  assumes "counters_ok m w" "distinct ts" "redis_incr_all (map (tagVersionKey m) ts) w = (e, w')"
  shows "\<exists>us \<subseteq> set ts. moved m w us w' \<and> (e = None \<longrightarrow> us = set ts)"
  using assms
proof (induction ts arbitrary: w e)
  case Nil
  then show ?case by (simp add: moved_def)
next
  case (Cons t ts)
  obtain e1 w1 where one: "redis_incr (tagVersionKey m t) w = (e1, w1)" by fastforce
  obtain e2 where rest: "redis_incr_all (map (tagVersionKey m) ts) w1 = (e2, w')" "e = (if e1 = None then e2 else e1)"
    using Cons.prems(3) one by (auto split: prod.splits)
  have step: "moved m w (if e1 = None then {t} else {}) w1"
    using one redis_incr_version [OF Cons.prems(1), of t] counters_ok_version [OF Cons.prems(1)] Cons.prems(1)
    by (auto simp: moved_def counters_ok_put tag_version_put split: if_splits)
  then obtain us where us: "us \<subseteq> set ts" "moved m w1 us w'" "e2 = None \<longrightarrow> us = set ts"
    using Cons.IH [OF _ _ rest(1)] Cons.prems(2) movedD(1) by auto
  have "t \<notin> us" using us(1) Cons.prems(2) by auto
  then have "moved m w ((if e1 = None then {t} else {}) \<union> us) w'"
    using step us(2) by (auto simp: moved_def)
  then show ?case using us rest(2) by (intro exI [of _ "(if e1 = None then {t} else {}) \<union> us"]) auto
qed

lemma moved_none: "counters_ok m w \<Longrightarrow> moved m w {} w"
  by (simp add: moved_def)

lemma same_store_moved:
  assumes "counters_ok m w" "\<And>t. cw_store w' (tagVersionKey m t) = cw_store w (tagVersionKey m t)"
  shows "moved m w {} w'"
  using assms tag_version_cong [of w m _ w'] unfolding moved_def counters_ok_def by simp

lemma moved_world [simp]:
  "moved m (w\<lparr>cw_count := n\<rparr>) us w' = moved m w us w'" "moved m w us (w'\<lparr>cw_tokens := tok\<rparr>) = moved m w us w'"
  by (simp_all add: moved_def)

section \<open>Bumping\<close>

lemma redis_call_cases:
  "redis_call f w = (r, w') \<Longrightarrow>
     (\<exists>e. r = Inl e \<and> w' = w\<lparr>cw_count := cw_count w + 1\<rparr>)
     \<or> (\<exists>r'. f (w\<lparr>cw_count := cw_count w + 1\<rparr>) = (r', w') \<and> (r = r' \<or> (\<exists>e. r = Inl e)))"
  by (auto simp: redis_call_def Let_def split: option.splits if_splits) (metis prod.collapse)

lemma redis_call_Inr:
  "redis_call f w = (Inr a, w') \<longleftrightarrow>
     cw_fault w (cw_count w) = None \<and> f (w\<lparr>cw_count := cw_count w + 1\<rparr>) = (Inr a, w')"
  by (auto simp: redis_call_def Let_def split: option.splits)

lemma BumpTags_moved:
  assumes ok: "counters_ok m w" and bump: "BumpTags (Some m) tags w = (r, w')"
  shows "\<exists>us \<subseteq> set (normalizeResolvedTags tags). moved m w us w'
    \<and> (r = Inr () \<longrightarrow> us = set (normalizeResolvedTags tags))"
proof (cases "normalizeResolvedTags tags = []")
  case True
  with bump ok show ?thesis by (simp add: BumpTags_def eff_ret_def moved_none)
next
  case False
  let ?ts = "normalizeResolvedTags tags"
  let ?f = "\<lambda>w. err_result (redis_incr_all (map (tagVersionKey m) ?ts) w)"
  obtain r1 w1 where call: "redis_call ?f w = (r1, w1)" by fastforce
  have r: "r = r1" "w' = w1 \<or> w' = w1\<lparr>cw_tokens := Map.empty\<rparr>"
    using bump call False by (auto simp: BumpTags_def Let_def eff_bind_def split: sum.splits)
  have incr: "\<exists>us \<subseteq> set ?ts. moved m w us w1 \<and> (r' = Inr () \<longrightarrow> us = set ?ts)"
    if "?f (w\<lparr>cw_count := cw_count w + 1\<rparr>) = (r', w1)" for r'
    using that redis_incr_all_moved [of m "w\<lparr>cw_count := cw_count w + 1\<rparr>" ?ts] ok normalizeResolvedTags_distinct
    by (auto simp: err_result_def split: option.splits) (metis prod.collapse)+
  have "\<exists>us \<subseteq> set ?ts. moved m w us w1 \<and> (r1 = Inr () \<longrightarrow> us = set ?ts)"
    using redis_call_cases [OF call]
  proof (elim disjE exE conjE)
    fix e assume "r1 = Inl e" "w1 = w\<lparr>cw_count := cw_count w + 1\<rparr>"
    then show ?thesis using ok by (intro exI [of _ "{}"]) (simp add: moved_def)
  next
    fix r' assume "?f (w\<lparr>cw_count := cw_count w + 1\<rparr>) = (r', w1)" "r1 = r'"
    then show ?thesis using incr by auto
  next
    fix r' e assume "?f (w\<lparr>cw_count := cw_count w + 1\<rparr>) = (r', w1)" "r1 = Inl e"
    then show ?thesis using incr by blast
  qed
  with r show ?thesis by auto
qed

text \<open>A successful bump raises the version of each of its tags by one and leaves the others; a bump
  that fails, even after the server ran it, raises a version by one at most and lowers none.\<close>

theorem BumpTags_versions:
  assumes "counters_ok m w" and "BumpTags (Some m) tags w = (r, w')"
  shows "counters_ok m w'
    \<and> (\<forall>t. tag_version m w' t \<in> {tag_version m w t, tag_version m w t + 1})
    \<and> (r = Inr () \<longrightarrow> (\<forall>t. tag_version m w' t =
           (if t \<in> set (normalizeResolvedTags tags) then tag_version m w t + 1 else tag_version m w t)))"
  using BumpTags_moved [OF assms] by (auto simp: moved_def)

section \<open>What a key text determines\<close>

definition token_parts :: "(string \<Rightarrow> int) \<Rightarrow> string list \<Rightarrow> string list" where
  "token_parts version tags = map (\<lambda>t. t @ ''='' @ itoa (version t)) tags"

lemma itoa_no_eq: "0 \<le> n \<Longrightarrow> c \<in> set (itoa n) \<Longrightarrow> digit_val c \<noteq> None"
  using show_nat_digits by (auto simp: itoa_def)

lemma digit_free [simp]: "digit_val (CHR ''='') = None" "digit_val (CHR '','') = None" "digit_val (CHR ''|'') = None"
  by (simp_all add: digit_val_def Let_def)

lemma version_part_inj:
  assumes "t @ ''='' @ itoa n = u @ ''='' @ itoa k" "0 \<le> n" "0 \<le> k" "in_int64 n" "in_int64 k"
  shows "t = u \<and> n = k"
proof -
  have no: "CHR ''='' \<notin> set (itoa n)" "CHR ''='' \<notin> set (itoa k)"
    using itoa_no_eq digit_free(1) assms(2,3) by blast+
  have "rev (itoa n) @ CHR ''='' # rev t = rev (itoa k) @ CHR ''='' # rev u"
    using arg_cong [OF assms(1), of rev] by simp
  then have "rev (itoa n) = rev (itoa k) \<and> rev t = rev u"
    using no separator_split [of "CHR ''=''" "rev (itoa n)" "rev (itoa k)"] by simp
  then show ?thesis using itoa_inj assms(4,5) by blast
qed

definition versions_ok :: "(string \<Rightarrow> int) \<Rightarrow> bool" where
  "versions_ok v \<longleftrightarrow> (\<forall>t. 0 \<le> v t \<and> in_int64 (v t))"

lemma versions_ok_world: "counters_ok m w \<Longrightarrow> versions_ok (tag_version m w)"
  by (simp add: versions_ok_def counters_ok_version)

lemma token_text_inj:
  assumes "token_text v tags = token_text v' tags'" "versions_ok v" "versions_ok v'" "tags \<noteq> []" "tags' \<noteq> []"
    and "\<forall>t \<in> set tags. CHR '','' \<notin> set t" "\<forall>t \<in> set tags'. CHR '','' \<notin> set t"
  shows "tags = tags' \<and> (\<forall>t \<in> set tags. v t = v' t)"
proof -
  have "CHR '','' \<notin> set (itoa n)" if "0 \<le> n" for n
    using itoa_no_eq [OF that] digit_free(2) by blast
  then have "map (\<lambda>t. t @ ''='' @ itoa (v t)) tags = map (\<lambda>t. t @ ''='' @ itoa (v' t)) tags'"
    using assms unfolding token_text_def
    by (intro join_inj [where c = "CHR '',''"]) (auto simp: versions_ok_def)
  then show ?thesis
  proof (induction tags arbitrary: tags')
    case (Cons t ts)
    then obtain u us where "tags' = u # us" by (cases tags') auto
    with Cons version_part_inj [of t "v t" u "v' u"] assms(2,3) show ?case
      by (auto simp: versions_ok_def)
  qed simp
qed

lemma token_text_Nil [simp]: "token_text v tags = [] \<longleftrightarrow> tags = []"
  by (cases tags rule: list.exhaust; cases "tl tags") (auto simp: token_text_def)

lemma split_on_prefix:
  "c \<notin> set p \<Longrightarrow> split_on c (p @ s) = (p @ hd (split_on c s)) # tl (split_on c s)"
  by (induction p) (auto split: list.splits)

lemma split_on_last:
  "(\<And>x. x \<in> set xs \<Longrightarrow> c \<notin> set x) \<Longrightarrow> split_on c (join [c] (xs @ [s])) = xs @ split_on c s"
proof (induction xs)
  case (Cons x xs)
  have "split_on c (x @ c # t) = x # split_on c t" for t
    using Cons.prems [of x] split_on_prefix [of c x "c # t"] by simp
  moreover have "join [c] ((x # xs) @ [s]) = x @ c # join [c] (xs @ [s])" by (cases xs) auto
  ultimately show ?case using Cons by simp
qed simp

definition text_of :: "string list \<Rightarrow> string \<Rightarrow> string" where
  "text_of vals token = join ''|'' (vals @ opt_value (token \<noteq> []) ''tags'' token)"

definition plain_values :: "string list \<Rightarrow> bool" where
  "plain_values vals \<longleftrightarrow> vals \<noteq> [] \<and> (\<forall>v \<in> set vals. CHR ''|'' \<notin> set v \<and> \<not> prefix ''tags='' v)"

lemma text_of_token:
  assumes "plain_values vals"
  shows "join ''|'' (dropWhile (\<lambda>v. \<not> prefix ''tags='' v) (split_on (CHR ''|'') (text_of vals token)))
    = (if token = [] then [] else ''tags='' @ token)"
proof (cases "token = []")
  case True
  have "split_on (CHR ''|'') (text_of vals token) = vals"
    using assms True by (auto simp: text_of_def opt_value_def plain_values_def intro!: split_on_join)
  with True assms show ?thesis
    by (simp add: plain_values_def dropWhile_eq_Nil_conv [THEN iffD2])
next
  case False
  let ?c = "CHR ''|''"
  have "split_on ?c (text_of vals token) = vals @ split_on ?c (''tags='' @ token)"
    unfolding text_of_def opt_value_def using False assms split_on_last [of vals ?c "''tags='' @ token"]
    by (auto simp: plain_values_def)
  moreover have "dropWhile (\<lambda>v. \<not> prefix ''tags='' v) (vals @ split_on ?c (''tags='' @ token))
      = split_on ?c (''tags='' @ token)"
    using assms split_on_prefix [of ?c "''tags=''" token]
    by (subst dropWhile_append2) (auto simp: plain_values_def simp del: split_on.simps append_Cons append_Nil)
  ultimately show ?thesis using False join_split_on [of ?c "''tags='' @ token"] by (simp only: if_False)
qed

lemma text_of_inj:
  "plain_values vals \<Longrightarrow> plain_values vals' \<Longrightarrow> text_of vals token = text_of vals' token' \<Longrightarrow> token = token'"
  using text_of_token [of vals token] text_of_token [of vals' token'] by (auto split: if_splits)

lemma hex_lower_no_colon: "d < 16 \<Longrightarrow> hex_lower d \<noteq> CHR '':''"
proof
  assume "d < 16" "hex_lower d = CHR '':''"
  then have "(of_char (hex_lower d) :: nat) = 58" by simp
  with \<open>d < 16\<close> show False by (simp add: hex_lower_def split: if_splits)
qed

lemma short_hash_no_colon: "CHR '':'' \<notin> set (short_hash s)"
proof -
  have "(of_char c :: nat) div 16 < 16" for c using nat_of_char_less_256 [of c] by (simp add: less_mult_imp_div_less)
  then show ?thesis unfolding short_hash_def hex_encode_def
    by (auto simp: hex_lower_no_colon [symmetric])
qed

lemma redis_key_inj:
  assumes "redis_key m part text = redis_key m part' text'"
  shows "short_hash text = short_hash text'"
proof -
  have "rev (short_hash text) @ CHR '':'' # rev (''cache:'' @ mg_env m @ '':'' @ part)
      = rev (short_hash text') @ CHR '':'' # rev (''cache:'' @ mg_env m @ '':'' @ part')"
    using arg_cong [OF assms, of rev] by (simp add: redis_key_def)
  then show ?thesis
    using separator_split [of "CHR '':''" "rev (short_hash text)" "rev (short_hash text')"] short_hash_no_colon
    by simp
qed

section \<open>Building a key\<close>

text \<open>Without a token cache a key is built from the versions of the moment.\<close>

definition request_text :: "request \<Rightarrow> string \<Rightarrow> key_template \<Rightarrow> (string \<Rightarrow> int) \<Rightarrow> string list \<Rightarrow> string" where
  "request_text r route tpl v tags = text_of (key_values r (key_route_part route tpl) tpl) (token_text v tags)"

lemma fresh_token:
  assumes "mg_token_ttl m \<le> 0" "tagVersionTokenNormalized m tags w = (Inr token, w')"
  shows "token = token_text (tag_version m w) tags" "w' = w \<or> w' = w\<lparr>cw_count := cw_count w + 1\<rparr>"
  using assms
  by (auto simp: tagVersionTokenNormalized_def tagTokenFromCache_def storeTagToken_def fetch_token_def
      token_text_def redis_call_Inr split: if_splits sum.splits prod.splits)

lemma BuildReadKey_fresh:
  assumes "mg_token_ttl m \<le> 0" "BuildReadKeyWithTemplate (Some m) r route tpl w = (Inr key, w')"
  shows "\<exists>tags. resolveTagNamesPrepared r (kt_tag_specs tpl) = Inr tags
    \<and> key = redis_key m (key_route_part route tpl) (request_text r route tpl (tag_version m w) tags)
    \<and> (w' = w \<or> w' = w\<lparr>cw_count := cw_count w + 1\<rparr>)"
  using assms(2) fresh_token [OF assms(1)]
  by (auto simp: BuildReadKeyWithTemplate_def key_text_def eff_bind_Inr request_text_def text_of_def
      simp del: token_text_Nil)

lemma key_values_no_tags: "v \<in> set (key_values r part tpl) \<Longrightarrow> \<not> prefix ''tags='' v"
  by (auto simp: key_values_def Let_def opt_value_def split: if_splits)

text \<open>A request whose values hold no \<open>|\<close> and whose tags hold no comma has an unambiguous key text.\<close>

definition plain_request :: "request \<times> string \<times> key_template \<Rightarrow> bool" where
  "plain_request q = (case q of (r, route, tpl) \<Rightarrow>
     (\<forall>v \<in> set (key_values r (key_route_part route tpl) tpl). CHR ''|'' \<notin> set v)
     \<and> (case resolveTagNamesPrepared r (kt_tag_specs tpl) of Inl e \<Rightarrow> True
        | Inr tags \<Rightarrow> \<forall>t \<in> set tags. CHR '','' \<notin> set t))"

lemma plain_values_request: "plain_request (r, route, tpl) \<Longrightarrow> plain_values (key_values r (key_route_part route tpl) tpl)"
  using key_values_no_tags by (auto simp: plain_request_def plain_values_def) (simp add: key_values_def Let_def)

lemma request_text_inj:
  assumes "request_text r route tpl v tags = request_text r' route' tpl' v' tags'"
    and "plain_request (r, route, tpl)" "plain_request (r', route', tpl')"
    and "resolveTagNamesPrepared r (kt_tag_specs tpl) = Inr tags"
    and "resolveTagNamesPrepared r' (kt_tag_specs tpl') = Inr tags'"
    and "versions_ok v" "versions_ok v'"
  shows "tags = tags' \<and> (\<forall>t \<in> set tags. v t = v' t)"
proof -
  have tok: "token_text v tags = token_text v' tags'"
    using assms(1-3) plain_values_request text_of_inj unfolding request_text_def by blast
  show ?thesis
  proof (cases "tags = [] \<or> tags' = []")
    case True
    then have "tags = [] \<and> tags' = []"
      using tok token_text_Nil [of v tags] token_text_Nil [of v' tags'] by metis
    then show ?thesis by simp
  next
    case False
    then show ?thesis using tok assms by (intro token_text_inj) (auto simp: plain_request_def)
  qed
qed

section \<open>Reads, writes and bumps in any order\<close>

text \<open>
  A read builds its key, then runs its handler, then stores what the handler wrote; in between
  anything may happen. An entry remembers for which request and at which versions its key was
  built. \<open>rs_log\<close> are the reads that have stored their response.
\<close>

record read_entry =
  en_request :: "request \<times> string \<times> key_template"
  en_versions :: "string \<Rightarrow> int"

record run_state =
  rs_world :: cache_world
  rs_pending :: "read_entry list"
  rs_log :: "(read_entry \<times> cached_response) list"

definition entry_tags :: "read_entry \<Rightarrow> string list" where
  "entry_tags e = (case en_request e of (r, route, tpl) \<Rightarrow>
     (case resolveTagNamesPrepared r (kt_tag_specs tpl) of Inl _ \<Rightarrow> [] | Inr tags \<Rightarrow> tags))"

definition entry_text :: "read_entry \<Rightarrow> string" where
  "entry_text e = (case en_request e of (r, route, tpl) \<Rightarrow> request_text r route tpl (en_versions e) (entry_tags e))"

definition entry_key :: "manager \<Rightarrow> read_entry \<Rightarrow> string" where
  "entry_key m e = (case en_request e of (r, route, tpl) \<Rightarrow> redis_key m (key_route_part route tpl) (entry_text e))"

inductive cache_step :: "manager \<Rightarrow> (request \<times> string \<times> key_template) set \<Rightarrow> run_state \<Rightarrow> run_state \<Rightarrow> bool"
  for m Q where
  begin_read: "(r, route, tpl) \<in> Q \<Longrightarrow> BuildReadKeyWithTemplate (Some m) r route tpl (rs_world s) = (Inr key, w)
    \<Longrightarrow> cache_step m Q s (s\<lparr>rs_world := w, rs_pending :=
          \<lparr>en_request = (r, route, tpl), en_versions = tag_version m (rs_world s)\<rparr> # rs_pending s\<rparr>)"
| end_read: "e \<in> set (rs_pending s) \<Longrightarrow> Set (Some m) (entry_key m e) v ttl (rs_world s) = (res, w)
    \<Longrightarrow> cache_step m Q s (s\<lparr>rs_log := (e, v) # rs_log s, rs_world := w\<rparr>)"
| hit: "Get (Some m) key (rs_world s) = (res, w) \<Longrightarrow> cache_step m Q s (s\<lparr>rs_world := w\<rparr>)"
| bump: "BumpTags (Some m) tags (rs_world s) = (res, w) \<Longrightarrow> cache_step m Q s (s\<lparr>rs_world := w\<rparr>)"
| pass: "0 \<le> d \<Longrightarrow> cache_step m Q s (s\<lparr>rs_world := (rs_world s)\<lparr>cw_now := cw_now (rs_world s) + d\<rparr>\<rparr>)"

inductive cache_reachable :: "manager \<Rightarrow> (request \<times> string \<times> key_template) set \<Rightarrow> run_state \<Rightarrow> bool" for m Q where
  start: "cw_store w = Map.empty \<Longrightarrow> cache_reachable m Q \<lparr>rs_world = w, rs_pending = [], rs_log = []\<rparr>"
| step: "cache_reachable m Q s \<Longrightarrow> cache_step m Q s s' \<Longrightarrow> cache_reachable m Q s'"

inductive_cases cache_stepE: "cache_step m Q s s'"

text \<open>The counters stay well formed, and every stored response is one of the log under its key.\<close>

definition cache_inv :: "manager \<Rightarrow> (request \<times> string \<times> key_template) set \<Rightarrow> run_state \<Rightarrow> bool" where
  "cache_inv m Q s \<longleftrightarrow> counters_ok m (rs_world s)
     \<and> (\<forall>e \<in> set (rs_pending s) \<union> fst ` set (rs_log s). en_request e \<in> Q \<and> versions_ok (en_versions e)
          \<and> resolveTagNamesPrepared (fst (en_request e)) (kt_tag_specs (snd (snd (en_request e)))) = Inr (entry_tags e))
     \<and> (\<forall>k v u. cw_store (rs_world s) k = Some (StResponse v, u) \<longrightarrow>
          (\<exists>e. (e, v) \<in> set (rs_log s) \<and> k = entry_key m e))"

definition responses_kept :: "cache_world \<Rightarrow> cache_world \<Rightarrow> bool" where
  "responses_kept w w' \<longleftrightarrow> (\<forall>k v u. cw_store w' k = Some (StResponse v, u) \<longrightarrow> cw_store w k = Some (StResponse v, u))"

lemma responses_kept_incr: "redis_incr k w = (e, w') \<Longrightarrow> responses_kept w w'"
  by (auto simp: redis_incr_def responses_kept_def split: option.splits redis_value.splits if_splits)

lemma responses_kept_trans: "responses_kept w w' \<Longrightarrow> responses_kept w' w'' \<Longrightarrow> responses_kept w w''"
  by (simp add: responses_kept_def)

lemma responses_kept_incr_all: "redis_incr_all ks w = (e, w') \<Longrightarrow> responses_kept w w'"
proof (induction ks arbitrary: w e)
  case Nil
  then show ?case by (simp add: responses_kept_def)
next
  case (Cons k ks)
  then show ?case
    by (auto split: prod.splits) (meson responses_kept_incr responses_kept_trans)
qed

lemma responses_kept_world [simp]:
  "responses_kept (w\<lparr>cw_count := n\<rparr>) w' = responses_kept w w'"
  "responses_kept w (w'\<lparr>cw_tokens := tok\<rparr>) = responses_kept w w'"
  "responses_kept w (w'\<lparr>cw_count := n\<rparr>) = responses_kept w w'"
  "responses_kept w (w'\<lparr>cw_now := t\<rparr>) = responses_kept w w'"
  "responses_kept w w"
  by (simp_all add: responses_kept_def)

lemma redis_call_kept:
  assumes "redis_call f w = (r, w')" "\<And>w r w'. f w = (r, w') \<Longrightarrow> responses_kept w w'"
  shows "responses_kept w w'"
  using redis_call_cases [OF assms(1)] assms(2) responses_kept_world(1) by (metis responses_kept_world(3,5))

lemma BumpTags_kept: "BumpTags (Some m) tags w = (r, w') \<Longrightarrow> responses_kept w w'"
proof -
  assume bump: "BumpTags (Some m) tags w = (r, w')"
  let ?f = "\<lambda>w. err_result (redis_incr_all (map (tagVersionKey m) (normalizeResolvedTags tags)) w)"
  have f: "responses_kept w w'" if "?f w = (r, w')" for w r w'
    using that responses_kept_incr_all by (metis err_result_def prod.collapse prod.inject)
  show ?thesis
  proof (cases "normalizeResolvedTags tags = []")
    case False
    obtain r1 w1 where call: "redis_call ?f w = (r1, w1)" by fastforce
    then have "responses_kept w w1" using f by (rule redis_call_kept)
    with bump call False show ?thesis by (auto simp: BumpTags_def Let_def eff_bind_def split: sum.splits)
  qed (use bump in \<open>simp add: BumpTags_def eff_ret_def\<close>)
qed

lemma Get_hit: "Get (Some m) key w = (Inr (Some v), w') \<Longrightarrow> \<exists>u. live_value w key = Some (StResponse v, u)"
  by (auto simp: Get_def eff_bind_Inr redis_call_Inr split: option.splits redis_value.splits if_splits)

lemma Get_world: "Get (Some m) key w = (r, w') \<Longrightarrow> w' = w\<lparr>cw_count := cw_count w + 1\<rparr>"
  by (auto simp: Get_def eff_bind_def redis_call_def eff_defs Let_def split: option.splits redis_value.splits if_splits)

lemma Set_world:
  "Set (Some m) key v ttl w = (r, w') \<Longrightarrow> w' = w \<or> w' = w\<lparr>cw_count := cw_count w + 1\<rparr>
     \<or> w' = redis_put key (StResponse v, Some (expiry (cw_now w) ttl)) (w\<lparr>cw_count := cw_count w + 1\<rparr>)"
  by (auto simp: Set_def eff_throw_def redis_call_def Let_def split: option.splits if_splits)

lemma cache_inv_kept:
  assumes "cache_inv m Q s" "counters_ok m w" "responses_kept (rs_world s) w"
  shows "cache_inv m Q (s\<lparr>rs_world := w\<rparr>)"
  using assms unfolding cache_inv_def responses_kept_def by auto

lemma cache_inv_stored:
  "cache_inv m Q s \<Longrightarrow> cw_store (rs_world s) k = Some (StResponse v, u)
     \<Longrightarrow> \<exists>e. (e, v) \<in> set (rs_log s) \<and> k = entry_key m e"
  unfolding cache_inv_def by blast

lemma cache_inv_entry:
  assumes "cache_inv m Q s" "(e, v) \<in> set (rs_log s)" "en_request e = (r, route, tpl)"
  shows "(r, route, tpl) \<in> Q" "versions_ok (en_versions e)"
    "resolveTagNamesPrepared r (kt_tag_specs tpl) = Inr (entry_tags e)"
proof -
  have "e \<in> set (rs_pending s) \<union> fst ` set (rs_log s)" using assms(2) by force
  then show "(r, route, tpl) \<in> Q" "versions_ok (en_versions e)"
    "resolveTagNamesPrepared r (kt_tag_specs tpl) = Inr (entry_tags e)"
    using assms(1,3) unfolding cache_inv_def by (metis fst_conv snd_conv)+
qed

lemma entry_tags_eq:
  "resolveTagNamesPrepared r (kt_tag_specs tpl) = Inr tags \<Longrightarrow>
     entry_tags \<lparr>en_request = (r, route, tpl), en_versions = v\<rparr> = tags"
  by (simp add: entry_tags_def)

lemma entry_key_not_version [simp]: "entry_key m e \<noteq> tagVersionKey m t" "tagVersionKey m t \<noteq> entry_key m e"
  by (cases "en_request e"; simp add: entry_key_def)+

lemma cache_inv_put:
  assumes "cache_inv m Q s" "(e, v) \<in> set (rs_log s)" "w = (rs_world s)\<lparr>cw_count := n\<rparr>"
  shows "cache_inv m Q (s\<lparr>rs_world := redis_put (entry_key m e) (StResponse v, u) w\<rparr>)"
proof -
  have "\<exists>ea. (ea, va) \<in> set (rs_log s) \<and> k = entry_key m ea"
    if "cw_store (redis_put (entry_key m e) (StResponse v, u) w) k = Some (StResponse va, u')" for k va u'
    using that assms cache_inv_stored [OF assms(1)] by (cases "k = entry_key m e") auto
  moreover have "counters_ok m (redis_put (entry_key m e) c w)" for c
    using assms(1,3) by (auto simp: counters_ok_def cache_inv_def)
  ultimately show ?thesis using assms(1) unfolding cache_inv_def by simp
qed

lemma cache_step_inv:
  assumes "cache_step m Q s s'" "mg_token_ttl m \<le> 0" "cache_inv m Q s"
  shows "cache_inv m Q s'"
  using assms(1)
proof cases
  case (begin_read r route tpl key w)
  then obtain tags where tags: "resolveTagNamesPrepared r (kt_tag_specs tpl) = Inr tags"
    and w: "w = rs_world s \<or> w = (rs_world s)\<lparr>cw_count := cw_count (rs_world s) + 1\<rparr>"
    using BuildReadKey_fresh [OF assms(2)] by blast
  have "cache_inv m Q (s\<lparr>rs_world := w\<rparr>)"
    using assms(3) w by (intro cache_inv_kept) (auto simp: cache_inv_def)
  then show ?thesis using begin_read(1,2) tags versions_ok_world assms(3)
    by (auto simp: cache_inv_def entry_tags_eq)
next
  case (end_read e v ttl res w)
  have e: "en_request e \<in> Q" "versions_ok (en_versions e)"
      "resolveTagNamesPrepared (fst (en_request e)) (kt_tag_specs (snd (snd (en_request e)))) = Inr (entry_tags e)"
    using end_read(2) assms(3) by (auto simp: cache_inv_def)
  have "\<exists>ea. (ea, va) \<in> set ((e, v) # rs_log s) \<and> k = entry_key m ea"
    if "cw_store (rs_world s) k = Some (StResponse va, u)" for k va u
    using cache_inv_stored [OF assms(3) that] by auto
  then have "cache_inv m Q (s\<lparr>rs_log := (e, v) # rs_log s\<rparr>)"
    using assms(3) e unfolding cache_inv_def by simp
  then have logged: "cache_inv m Q (s\<lparr>rs_log := (e, v) # rs_log s\<rparr>)" (is "cache_inv m Q ?s") .
  have ok: "counters_ok m (rs_world s)" using assms(3) by (simp add: cache_inv_def)
  have "cache_inv m Q (?s\<lparr>rs_world := w\<rparr>)"
    using Set_world [OF end_read(3)]
  proof (elim disjE)
    assume "w = redis_put (entry_key m e) (StResponse v, Some (expiry (cw_now (rs_world s)) ttl))
        ((rs_world s)\<lparr>cw_count := cw_count (rs_world s) + 1\<rparr>)"
    then show ?thesis using cache_inv_put [OF logged, of e v] by simp
  qed (use ok logged cache_inv_kept [OF logged] in simp_all)
  then show ?thesis using end_read(1) by simp
next
  case (hit key res w)
  with Get_world [OF hit(2)] assms(3) show ?thesis by (auto intro!: cache_inv_kept simp: cache_inv_def)
next
  case (bump tags res w)
  have "counters_ok m w" using BumpTags_moved [OF _ bump(2)] assms(3) movedD(1) by (auto simp: cache_inv_def)
  with bump BumpTags_kept [OF bump(2)] assms(3) show ?thesis by (auto intro: cache_inv_kept)
next
  case (pass d)
  with assms(3) show ?thesis by (auto intro!: cache_inv_kept simp: cache_inv_def)
qed

lemma cache_reachable_inv:
  "cache_reachable m Q s \<Longrightarrow> mg_token_ttl m \<le> 0 \<Longrightarrow> cache_inv m Q s"
proof (induction rule: cache_reachable.induct)
  case (start w)
  then show ?case by (simp add: cache_inv_def counters_ok_def counter_ok_def)
qed (blast intro: cache_step_inv)


section \<open>Storing and finding\<close>


section \<open>Two weak points\<close>

text \<open>When tag tokens are cached in the process, a read that has fetched the versions before a bump
  and stores the token after it brings the old token back: every later read of the tag is keyed by the
  versions of before the bump, until the token expires.\<close>

theorem late_token_survives_bump:
  assumes ttl: "0 < mg_token_ttl m" and ok: "counters_ok m w" and t: "trim_space t = t" "t \<noteq> []"
    and fetch: "fetch_token m [t] w = (Inr token, w1)" and bump: "BumpTags (Some m) [t] w1 = (Inr (), w2)"
  shows "fst (tagVersionTokenNormalized m [t] (storeTagToken m (token_cache_key [t]) token w2)) = Inr token
    \<and> token \<noteq> token_text (tag_version m w2) [t]"
proof
  have w1: "token = token_text (tag_version m w) [t]" "w1 = w\<lparr>cw_count := cw_count w + 1\<rparr>"
    using fetch by (auto simp: fetch_token_def redis_call_Inr)
  show "fst (tagVersionTokenNormalized m [t] (storeTagToken m (token_cache_key [t]) token w2)) = Inr token"
    using ttl t by (simp add: tagVersionTokenNormalized_def storeTagToken_def tagTokenFromCache_def token_cache_key_def)
  have ok1: "counters_ok m w1" using ok w1(2) by simp
  then have "t \<in> set (normalizeResolvedTags [t])" using t by (simp add: normalizeResolvedTags_set)
  with BumpTags_versions [OF ok1 bump] have w2: "tag_version m w2 t = tag_version m w t + 1" "counters_ok m w2"
    using w1(2) by simp_all
  then have "itoa (tag_version m w t) \<noteq> itoa (tag_version m w2 t)"
    using itoa_inj counters_ok_version(2) [OF ok, of t] counters_ok_version(2) [OF w2(2), of t] by fastforce
  then show "token \<noteq> token_text (tag_version m w2) [t]"
    using w1(1) by (simp add: token_text_def)
qed

text \<open>The values of a repeated query parameter enter the key sorted, so two requests that differ in
  the order of the values share a key, though a handler that takes the first value answers them
  differently.\<close>

theorem query_order_shares_key:
  assumes "\<forall>name. mset (query_values r name) = mset (query_values (r\<lparr>rq_query := q\<rparr>) name)"
  shows "BuildReadKeyWithTemplate mo (r\<lparr>rq_query := q\<rparr>) route tpl = BuildReadKeyWithTemplate mo r route tpl"
proof -
  let ?r = "r\<lparr>rq_query := q\<rparr>"
  have same_set: "set (query_values ?r name) = set (query_values r name)" for name
    using assms by (metis set_mset_mset)
  have "selected_values ?r name = selected_values r name" for name
    using assms same_set [of name] by (auto simp: selected_values_def Let_def list_ex_iff intro!: properties_for_sort)
  then have "queryParamHashSelected ?r sel = queryParamHashSelected r sel" for sel
    by (simp add: queryParamHashSelected_def query_text_def)
  then have "key_values ?r part tpl = key_values r part tpl" for part
    by (simp add: key_values_def request_principal_def from_context_def URLParam_def)
  moreover have "resolveTagName ?r pr s = resolveTagName r pr s" for pr s
  proof -
    have "path_parts ?r n ps = path_parts r n ps" for n ps by (induction ps) (simp_all add: URLParam_def Let_def)
    then show ?thesis by (simp add: resolveTagName_def)
  qed
  moreover have "resolve_specs ?r pr specs = resolve_specs r pr specs" for pr specs
    using calculation(2) by (induction specs) (auto split: sum.split)
  ultimately show ?thesis
    by (simp add: BuildReadKeyWithTemplate_def key_text_def resolveTagNamesPrepared_def request_principal_def
        from_context_def cong: option.case_cong)
qed

section \<open>A small run\<close>

definition sample_manager :: manager where
  "sample_manager = \<lparr>mg_env = ''dev'', mg_fail_open = True, mg_max_bytes = 1000, mg_token_ttl = 0, mg_observes = False\<rparr>"

definition sample_template :: key_template where
  "sample_template = \<lparr>kt_route_part = [], kt_method = False, kt_project_id = False, kt_user_id = False,
     kt_role = False, kt_path_params = [''id''], kt_query_params = [], kt_headers = [],
     kt_tag_specs = [\<lparr>ts_name = ''project'', ts_path_params = [''id''], ts_project_id = False, ts_user_id = False,
        ts_literals = []\<rparr>], kt_allow_authenticated = False\<rparr>"

definition sample_get :: request where
  "sample_get = \<lparr>rq_method = ''GET'', rq_content_length = 0, rq_transfer_encoding = [], rq_headers = [],
     rq_query = [(''status'', [''Draft'', ''Locked''])], rq_url_params = [(''id'', ''p1'')], rq_path_values = [],
     rq_route_pattern = Some ''/p'', rq_remote_addr = [], rq_client_ip = None, rq_principal = None, rq_id = [], rq_body_limit = None\<rparr>"

definition sample_response :: cached_response where
  "sample_response = \<lparr>cr_status = 200, cr_body = ''x'', cr_content_type = []\<rparr>"

definition sample_cache :: cache_world where
  "sample_cache = \<lparr>cw_store = Map.empty, cw_now = 0, cw_count = 0, cw_fault = (\<lambda>_. None), cw_tokens = Map.empty,
     cw_observed = []\<rparr>"

lemmas sample_cache_defs = sample_manager_def sample_template_def sample_get_def sample_response_def sample_cache_def

definition sample_tag :: string where "sample_tag = ''project|path.id=p1''"

lemma sample_tags: "resolveTagNamesPrepared sample_get (kt_tag_specs sample_template) = Inr [sample_tag]"
  by (simp add: sample_cache_defs resolveTagNamesPrepared_def resolveTagName_def identity_part_def URLParam_def
      str_get_def trim_literal escapeTagValue_def QueryEscape_def unreserved_def normalizeResolvedTags_def
      sample_tag_def)

definition sample_text :: string where
  "sample_text = request_text sample_get ''/p'' sample_template (\<lambda>_. 0) [sample_tag]"

definition sample_key :: string where
  "sample_key = redis_key sample_manager (key_route_part ''/p'' sample_template) sample_text"

lemma sample_version: "cw_store w (tagVersionKey sample_manager t) = None \<Longrightarrow> tag_version sample_manager w t = 0"
  by (simp add: tag_version_def live_value_def version_of_value_def)

lemma request_text_cong:
  "(\<And>t. t \<in> set tags \<Longrightarrow> v t = v' t) \<Longrightarrow> request_text r route tpl v tags = request_text r route tpl v' tags"
  by (simp add: request_text_def token_text_def cong: map_cong)

lemma sample_build:
  assumes "cw_fault w = (\<lambda>_. None)" "cw_store w (tagVersionKey sample_manager sample_tag) = None"
  shows "BuildReadKeyWithTemplate (Some sample_manager) sample_get ''/p'' sample_template w
    = (Inr sample_key, w\<lparr>cw_count := cw_count w + 1\<rparr>)"
proof -
  have "tagVersionTokenNormalized sample_manager [sample_tag] w
      = (Inr (token_text (\<lambda>_. 0) [sample_tag]), w\<lparr>cw_count := cw_count w + 1\<rparr>)"
    using assms sample_version [of "w\<lparr>cw_count := cw_count w + 1\<rparr>" sample_tag]
    by (simp add: tagVersionTokenNormalized_def tagTokenFromCache_def storeTagToken_def fetch_token_def
        redis_call_def Let_def sample_manager_def token_text_def)
  then show ?thesis
    unfolding BuildReadKeyWithTemplate_def key_text_def eff_defs sample_tags sample_key_def sample_text_def
      request_text_def text_of_def by (simp add: eff_defs)
qed

definition sample_entry :: read_entry where
  "sample_entry = \<lparr>en_request = (sample_get, ''/p'', sample_template), en_versions = tag_version sample_manager sample_cache\<rparr>"

definition sample_stored :: cache_world where
  "sample_stored = redis_put sample_key (StResponse sample_response, Some 1000000000) (sample_cache\<lparr>cw_count := 2\<rparr>)"

definition sample_run :: run_state where
  "sample_run = \<lparr>rs_world = sample_stored, rs_pending = [sample_entry], rs_log = [(sample_entry, sample_response)]\<rparr>"

lemma sample_entry_facts: "entry_tags sample_entry = [sample_tag]" "entry_text sample_entry = sample_text"
  "entry_key sample_manager sample_entry = sample_key"
proof -
  show tags: "entry_tags sample_entry = [sample_tag]"
    by (simp add: entry_tags_def sample_entry_def sample_tags)
  show tx: "entry_text sample_entry = sample_text"
    using tags sample_version [of sample_cache sample_tag]
    by (auto simp: entry_text_def sample_text_def sample_entry_def sample_cache_def intro!: request_text_cong)
  then show "entry_key sample_manager sample_entry = sample_key"
    by (simp add: entry_key_def sample_key_def) (simp add: sample_entry_def)
qed

lemma sample_reachable: "cache_reachable sample_manager {(sample_get, ''/p'', sample_template)} sample_run"
proof -
  let ?Q = "{(sample_get, ''/p'', sample_template)}"
  let ?s0 = "\<lparr>rs_world = sample_cache, rs_pending = [], rs_log = []\<rparr>"
  let ?s1 = "\<lparr>rs_world = sample_cache\<lparr>cw_count := 1\<rparr>, rs_pending = [sample_entry], rs_log = []\<rparr>"
  have "cache_reachable sample_manager ?Q ?s0" by (rule start) (simp add: sample_cache_def)
  moreover have "cache_step sample_manager ?Q ?s0 ?s1"
    using begin_read [of "sample_get" "''/p''" sample_template ?Q sample_manager ?s0 sample_key "sample_cache\<lparr>cw_count := 1\<rparr>"]
      sample_build [of sample_cache]
    by (simp add: sample_entry_def) (simp add: sample_cache_def)
  ultimately have "cache_reachable sample_manager ?Q ?s1" by (rule step)
  moreover have "cache_step sample_manager ?Q ?s1 sample_run"
    using end_read [of sample_entry ?s1 sample_manager sample_response 1000000000 "Inr ()" sample_stored ?Q]
    by (simp add: sample_entry_facts sample_run_def sample_stored_def Set_def redis_call_def Let_def expiry_def)
      (simp add: sample_cache_def numeral_2_eq_2)
  ultimately show ?thesis by (rule step)
qed



lemma BumpTags_versions_witness:
  "tag_version sample_manager (snd (BumpTags (Some sample_manager) [''project''] sample_cache)) ''project'' \<in> {0, 1}"
proof -
  obtain r w where b: "BumpTags (Some sample_manager) [''project''] sample_cache = (r, w)" by fastforce
  have ok: "counters_ok sample_manager sample_cache" by (simp add: counters_ok_def counter_ok_def sample_cache_def)
  have "tag_version sample_manager sample_cache ''project'' = 0"
    by (rule sample_version) (simp add: sample_cache_def)
  moreover have "tag_version sample_manager w ''project'' \<in> {tag_version sample_manager sample_cache ''project'',
      tag_version sample_manager sample_cache ''project'' + 1}"
    using BumpTags_versions [OF ok b] by blast
  ultimately show ?thesis by (simp add: b)
qed

lemma query_order_shares_key_witness:
  "BuildReadKeyWithTemplate (Some sample_manager) (sample_get\<lparr>rq_query := [(''status'', [''Locked'', ''Draft''])]\<rparr>) ''/p''
       (sample_template\<lparr>kt_query_params := [''status'']\<rparr>)
     = BuildReadKeyWithTemplate (Some sample_manager) sample_get ''/p'' (sample_template\<lparr>kt_query_params := [''status'']\<rparr>)
   \<and> query_get (sample_get\<lparr>rq_query := [(''status'', [''Locked'', ''Draft''])]\<rparr>) ''status'' \<noteq> query_get sample_get ''status''"
  by (intro conjI query_order_shares_key) (simp_all add: query_values_def query_get_def sample_get_def)

definition caching_manager :: manager where
  "caching_manager = sample_manager\<lparr>mg_token_ttl := 1000000000\<rparr>"

lemma late_token_survives_bump_witness:
  "\<exists>token w2. fst (tagVersionTokenNormalized caching_manager [''project'']
       (storeTagToken caching_manager (token_cache_key [''project'']) token w2)) = Inr token
     \<and> token \<noteq> token_text (tag_version caching_manager w2) [''project'']"
proof -
  have f: "\<exists>token. fetch_token caching_manager [''project''] sample_cache = (Inr token, sample_cache\<lparr>cw_count := 1\<rparr>)"
    by (simp add: fetch_token_def redis_call_def Let_def sample_cache_def)
  have b: "\<exists>w2. BumpTags (Some caching_manager) [''project''] (sample_cache\<lparr>cw_count := 1\<rparr>) = (Inr (), w2)"
    by (simp add: BumpTags_def Let_def normalizeResolvedTags_def trim_literal eff_bind_def redis_call_def err_result_def
        redis_incr_def live_value_def sample_cache_def)
  have ok: "counters_ok caching_manager sample_cache" by (simp add: counters_ok_def counter_ok_def sample_cache_def)
  from f b show ?thesis
    using late_token_survives_bump [OF _ ok, of "''project''"] by (fastforce simp: caching_manager_def trim_literal)
qed

end
