(* ===== verification/Policy_Cache.thy ===== *)
theory Policy_Cache
  imports Policy_Limit Cache_Laws
begin

text \<open>
  The caching policies (\<open>internal/core/policy/cache.go\<close>, \<open>cachecontrol.go\<close>, \<open>cache_optional.go\<close>). They
  reach the cache through the operations of the manager, which are a record of functions on the
  state of the handlers; \<open>manager_service\<close> is the Redis manager.
\<close>

section \<open>Operations of a manager\<close>

record 'w cache_service =
  cs_fail_open :: "bool option \<Rightarrow> bool"
  cs_max_bytes :: int
  cs_key :: "request \<Rightarrow> string \<Rightarrow> key_template \<Rightarrow> ('w, string) eff"
  cs_get :: "string \<Rightarrow> ('w, cached_response option) eff"
  cs_set :: "string \<Rightarrow> cached_response \<Rightarrow> int \<Rightarrow> ('w, unit) eff"
  cs_bump :: "string list \<Rightarrow> ('w, unit) eff"
  cs_observe :: "string \<Rightarrow> string \<Rightarrow> 'w \<Rightarrow> 'w"

definition manager_service :: "manager \<Rightarrow> cache_world cache_service" where
  "manager_service m = \<lparr>cs_fail_open = ResolveFailOpen (Some m), cs_max_bytes = DefaultMaxBytes (Some m),
     cs_key = BuildReadKeyWithTemplate (Some m), cs_get = Get (Some m), cs_set = Set (Some m),
     cs_bump = BumpTags (Some m), cs_observe = Observe (Some m)\<rparr>"

section \<open>Configuration of a cached route\<close>

definition buildMethodSet :: "string list \<Rightarrow> string list" where
  "buildMethodSet configured =
     (let out = filter (\<lambda>m. m \<noteq> []) (map (\<lambda>c. to_upper (trim_space c)) configured)
      in if configured = [] \<or> out = [] then [''GET'', ''HEAD''] else out)"

definition buildCacheStatusSet :: "int list \<Rightarrow> int list" where
  "buildCacheStatusSet statuses = (if statuses = [] then [200] else statuses)"

record read_runtime =
  rr_template :: key_template
  rr_methods :: "string list"
  rr_statuses :: "int list"
  rr_max_bytes :: int
  rr_auth_safety :: bool

definition newCacheReadRuntime :: "int \<Rightarrow> cache_read_config \<Rightarrow> read_runtime" where
  "newCacheReadRuntime default_max cfg =
     (let tpl = PrepareReadKeyTemplate cfg in
      \<lparr>rr_template = tpl, rr_methods = buildMethodSet (rc_methods cfg),
       rr_statuses = buildCacheStatusSet (rc_statuses cfg),
       rr_max_bytes = (if rc_max_bytes cfg \<le> 0 then default_max else rc_max_bytes cfg),
       rr_auth_safety = (\<not> rc_shared_authenticated cfg \<and> \<not> kt_user_id tpl \<and> \<not> kt_project_id tpl)\<rparr>)"

definition methodAllowed :: "read_runtime \<Rightarrow> string \<Rightarrow> bool" where
  "methodAllowed rt method \<longleftrightarrow> to_upper (trim_space method) \<in> set (rr_methods rt)"

text \<open>The source memoises \<open>NormalizeRoute\<close> under the trimmed route, of which it is a function.\<close>

definition routeLabel :: "read_runtime \<Rightarrow> string \<Rightarrow> string" where
  "routeLabel rt route =
     (if kt_route_part (rr_template rt) \<noteq> [] then kt_route_part (rr_template rt) else cache_normalizeRoute route)"

definition hasAuthPrincipal :: "request \<Rightarrow> bool" where
  "hasAuthPrincipal r = (case from_context r of None \<Rightarrow> False
     | Some p \<Rightarrow> trim_space (pr_user_id p) \<noteq> [] \<or> trim_space (pr_project_id p) \<noteq> [] \<or> trim_space (pr_role p) \<noteq> [])"

definition auth_safety_panic :: string where
  "auth_safety_panic = panicInvalidRouteConfig (PolicyTypeCacheRead
     @ '' on authenticated routes requires VaryBy.UserID or VaryBy.ProjectID unless SharedAuthenticated is true'')"

definition shouldBypassCursorCache :: "request \<Rightarrow> string list \<Rightarrow> bool" where
  "shouldBypassCursorCache r params \<longleftrightarrow>
     list_ex (\<lambda>name. trim_space (to_lower name) \<in> {''cursor'', ''pagination.cursor''}) params
     \<and> (trim_space (query_get r ''pagination.cursor'') \<noteq> [] \<or> trim_space (query_get r ''cursor'') \<noteq> [])"

fun first_some :: "('a \<Rightarrow> 'b option) \<Rightarrow> 'a list \<Rightarrow> 'b option" where
  "first_some f [] = None"
| "first_some f (x # xs) = (case f x of None \<Rightarrow> first_some f xs | Some b \<Rightarrow> Some b)"

definition tag_literal_error :: "string \<Rightarrow> tag_literal \<Rightarrow> string option" where
  "tag_literal_error name l =
     (if trim_space (tl_key l) = [] then Some (''tag spec '' @ quoted name @ '' contains literal with empty key'')
      else if trim_space (tl_value l) = []
      then Some (''tag spec '' @ quoted name @ '' contains literal '' @ quoted (tl_key l) @ '' with empty value'')
      else None)"

definition tag_spec_error :: "nat \<times> tag_spec \<Rightarrow> string option" where
  "tag_spec_error ispec = (case ispec of (i, spec) \<Rightarrow>
     if trim_space (ts_name spec) = [] then Some (''tag spec at index '' @ itoa (int i) @ '' has empty name'')
     else if list_ex (\<lambda>p. trim_space p = []) (ts_path_params spec)
     then Some (''tag spec '' @ quoted (ts_name spec) @ '' contains empty path param'')
     else first_some (tag_literal_error (ts_name spec)) (ts_literals spec))"

definition validateCacheTagSpecs :: "tag_spec list \<Rightarrow> bool \<Rightarrow> string option" where
  "validateCacheTagSpecs specs requireAtLeastOne =
     (if specs = [] then (if requireAtLeastOne then Some ''at least one tag spec is required'' else None)
      else first_some tag_spec_error (zip [0..<length specs] specs))"

section \<open>Recording a response\<close>

text \<open>\<open>cachingResponseWriter\<close>: what it has seen of the calls that its handler made.\<close>

record caching =
  ca_status :: int
  ca_body :: string
  ca_too_large :: bool
  ca_streaming :: bool

definition newCachingResponseWriter :: caching where
  "newCachingResponseWriter = \<lparr>ca_status = 200, ca_body = [], ca_too_large = False, ca_streaming = False\<rparr>"

fun caching_call :: "int \<Rightarrow> wop \<Rightarrow> caching \<Rightarrow> caching" where
  "caching_call max_bytes (OpHeader n h) c = c\<lparr>ca_status := n\<rparr>"
| "caching_call max_bytes (OpWrite bs h) c =
     (if max_bytes \<le> 0 \<or> ca_too_large c then c
      else if int (length (ca_body c) + length bs) > max_bytes then c\<lparr>ca_too_large := True\<rparr>
      else c\<lparr>ca_body := ca_body c @ bs\<rparr>)"
| "caching_call max_bytes OpFlush c = c\<lparr>ca_streaming := True\<rparr>"

definition calls_added :: "rw \<Rightarrow> rw \<Rightarrow> wop list" where
  "calls_added w w' = drop (length (rw_ops w)) (rw_ops w')"

definition Cacheable :: "int list \<Rightarrow> rw \<Rightarrow> caching \<Rightarrow> bool" where
  "Cacheable statuses w c \<longleftrightarrow> \<not> ca_streaming c \<and> \<not> ca_too_large c
     \<and> header_get (rw_header w) ''Set-Cookie'' = [] \<and> ca_status c \<in> set statuses"

definition recorded :: "int \<Rightarrow> rw \<Rightarrow> rw \<Rightarrow> caching" where
  "recorded max_bytes w w' = fold (caching_call max_bytes) (calls_added w w') newCachingResponseWriter"

definition stored_response :: "caching \<Rightarrow> rw \<Rightarrow> cached_response" where
  "stored_response c w = \<lparr>cr_status = ca_status c, cr_body = ca_body c,
     cr_content_type = header_get (rw_header w) ''Content-Type''\<rparr>"

definition replay :: "cached_response \<Rightarrow> rw \<Rightarrow> rw" where
  "replay v w =
     (let w1 = (if cr_content_type v \<noteq> [] then set_header ''Content-Type'' (cr_content_type v) w else w)
      in Write (cr_body v) (WriteHeader (cr_status v) w1))"

section \<open>Cached reads\<close>

abbreviation "cache_unavailable \<equiv> app_new CodeDependencyFailure 503 ''cache unavailable''"

text \<open>After a miss: run the handler and store what it wrote.\<close>

definition read_through :: "'w cache_service \<Rightarrow> read_runtime \<Rightarrow> int \<Rightarrow> string \<Rightarrow> 'w policy" where
  "read_through cs rt ttl key next r w s =
     (let route = routePattern r in
      case next r w (cs_observe cs route ''miss'' s) of
        Panic msg w' s' \<Rightarrow> Panic msg w' s'
      | Done w' s' \<Rightarrow>
          let c = recorded (rr_max_bytes rt) w w' in
          if \<not> Cacheable (rr_statuses rt) w' c then Done w' (cs_observe cs route ''bypass'' s')
          else (case cs_set cs key (stored_response c w') ttl s' of
              (Inl _, s'') \<Rightarrow> Done w' (cs_observe cs route ''error'' s'')
            | (Inr _, s'') \<Rightarrow> Done w' (cs_observe cs route ''set'' s'')))"

definition CacheRead_run :: "'w cache_service \<Rightarrow> cache_read_config \<Rightarrow> 'w policy" where
  "CacheRead_run cs cfg next r w s =
     (let rt = newCacheReadRuntime (cs_max_bytes cs) cfg;
          route = routePattern r; failOpen = cs_fail_open cs (rc_fail_open cfg)
      in if \<not> methodAllowed rt (rq_method r) then next r w (cs_observe cs route ''bypass'' s)
         else if rr_auth_safety rt \<and> hasAuthPrincipal r then Panic auth_safety_panic w s
         else if shouldBypassCursorCache r (kt_query_params (rr_template rt))
         then next r w (cs_observe cs route ''bypass'' s)
         else case cs_key cs r (routeLabel rt route) (rr_template rt) s of
           (Inl _, s1) \<Rightarrow>
             let s2 = cs_observe cs route ''error'' s1 in
             if \<not> failOpen then reject cache_unavailable r w s2 else next r w s2
         | (Inr key, s1) \<Rightarrow>
             (case cs_get cs key s1 of
                (Inl _, s2) \<Rightarrow>
                  let s3 = cs_observe cs route ''error'' s2 in
                  if \<not> failOpen then reject cache_unavailable r w s3
                  else read_through cs rt (rc_ttl cfg) key next r w s3
              | (Inr (Some cached), s2) \<Rightarrow> Done (replay cached w) (cs_observe cs route ''hit'' s2)
              | (Inr None, s2) \<Rightarrow> read_through cs rt (rc_ttl cfg) key next r w s2))"

definition cache_read_metadata_of :: "cache_read_config \<Rightarrow> metadata" where
  "cache_read_metadata_of cfg = (metadata_of PolicyTypeCacheRead ''CacheRead'')\<lparr>md_cache_read :=
     \<lparr>crm_allow_authenticated = rc_allow_authenticated cfg, crm_shared_authenticated = rc_shared_authenticated cfg,
      crm_vary_by_user_id = vb_user_id (rc_vary_by cfg), crm_vary_by_project_id = vb_project_id (rc_vary_by cfg)\<rparr>\<rparr>"

definition CacheRead :: "'w cache_service option \<Rightarrow> cache_read_config \<Rightarrow> registry \<Rightarrow> 'w built" where
  "CacheRead manager cfg reg =
     (case manager of
        None \<Rightarrow> Inl (panicInvalidRouteConfig (PolicyTypeCacheRead @ '' requires a non-nil cache manager''))
      | Some cs \<Rightarrow>
        if rc_ttl cfg \<le> 0
        then Inl (panicInvalidRouteConfig (PolicyTypeCacheRead @ '' requires a TTL greater than zero''))
        else case validateCacheTagSpecs (rc_tag_specs cfg) False of
          Some e \<Rightarrow> Inl (panicInvalidRouteConfig (PolicyTypeCacheRead @ '' tag specs are invalid: '' @ e))
        | None \<Rightarrow> Inr (build ''policy.CacheRead.func1'' (CacheRead_run cs cfg) (cache_read_metadata_of cfg) reg))"

section \<open>Invalidation\<close>

text \<open>\<open>statusCodeRecorder\<close>: the last status, 200 without one.\<close>

definition recorded_status :: "rw \<Rightarrow> rw \<Rightarrow> int" where
  "recorded_status w w' = fold (\<lambda>c n. case c of OpHeader k _ \<Rightarrow> k | _ \<Rightarrow> n) (calls_added w w') 200"

definition CacheInvalidate_run :: "'w cache_service \<Rightarrow> cache_invalidate_config \<Rightarrow> 'w policy" where
  "CacheInvalidate_run cs cfg next r w s =
     (let route = routePattern r in
      case next r w s of
        Panic msg w' s' \<Rightarrow> Panic msg w' s'
      | Done w' s' \<Rightarrow>
          let n = recorded_status w w' in
          if n < 200 \<or> n \<ge> 300 then Done w' s'
          else (case resolveTagNamesPrepared r (normalizeTagSpecs (ic_tag_specs cfg)) of
              Inl _ \<Rightarrow> Done w' (cs_observe cs route ''error'' s')
            | Inr tags \<Rightarrow>
                if tags = [] then Done w' s'
                else (case cs_bump cs tags s' of
                    (Inl _, s'') \<Rightarrow> Done w' (cs_observe cs route ''error'' s'')
                  | (Inr _, s'') \<Rightarrow> Done w' s'')))"

definition CacheInvalidate :: "'w cache_service option \<Rightarrow> cache_invalidate_config \<Rightarrow> registry \<Rightarrow> 'w built" where
  "CacheInvalidate manager cfg reg =
     (case manager of
        None \<Rightarrow> Inl (panicInvalidRouteConfig (PolicyTypeCacheInvalidate @ '' requires a non-nil cache manager''))
      | Some cs \<Rightarrow>
        case validateCacheTagSpecs (ic_tag_specs cfg) True of
          Some e \<Rightarrow> Inl (panicInvalidRouteConfig (PolicyTypeCacheInvalidate @ '' tag specs are invalid: '' @ e))
        | None \<Rightarrow> Inr (build ''policy.CacheInvalidate.func1'' (CacheInvalidate_run cs cfg)
            ((metadata_of PolicyTypeCacheInvalidate ''CacheInvalidate'')
               \<lparr>md_tag_spec_count := int (length (normalizeTagSpecs (ic_tag_specs cfg)))\<rparr>) reg))"

section \<open>Cache-Control\<close>

record cache_control =
  cc_public :: bool
  cc_private :: bool
  cc_no_store :: bool
  cc_no_cache :: bool
  cc_must_revalidate :: bool
  cc_immutable :: bool
  cc_max_age :: int
  cc_shared_max_age :: int
  cc_stale_while_revalidate :: int
  cc_stale_if_error :: int
  cc_vary :: "string list"

text \<open>The detour of the source over float seconds is exact below 104 days.\<close>

definition seconds_directive :: "string \<Rightarrow> int \<Rightarrow> bool \<Rightarrow> string list" where
  "seconds_directive name d no_store =
     (if 0 < d \<and> \<not> no_store then [name @ ''='' @ itoa (d div 1000000000)] else [])"

definition cache_directives :: "cache_control \<Rightarrow> string list" where
  "cache_directives cfg =
     (if cc_public cfg then [''public''] else [])
     @ (if cc_private cfg then [''private''] else [])
     @ (if cc_no_store cfg then [''no-store''] else [])
     @ (if cc_no_cache cfg then [''no-cache''] else [])
     @ seconds_directive ''max-age'' (cc_max_age cfg) (cc_no_store cfg)
     @ seconds_directive ''s-maxage'' (cc_shared_max_age cfg) (cc_no_store cfg)
     @ seconds_directive ''stale-while-revalidate'' (cc_stale_while_revalidate cfg) (cc_no_store cfg)
     @ seconds_directive ''stale-if-error'' (cc_stale_if_error cfg) (cc_no_store cfg)
     @ (if cc_must_revalidate cfg then [''must-revalidate''] else [])
     @ (if cc_immutable cfg \<and> \<not> cc_no_store cfg then [''immutable''] else [])"

definition normalizeHeaderList :: "string list \<Rightarrow> string list" where
  "normalizeHeaderList items = trim_unique to_lower [] items"

definition buildCacheControl :: "cache_control \<Rightarrow> string + (string \<times> string list)" where
  "buildCacheControl cfg =
     (if cc_max_age cfg < 0 \<or> cc_shared_max_age cfg < 0 \<or> cc_stale_while_revalidate cfg < 0 \<or> cc_stale_if_error cfg < 0
      then Inl ''durations must be >= 0''
      else if cc_public cfg \<and> cc_private cfg then Inl ''public and private cannot both be set''
      else if cc_no_store cfg \<and> (cc_max_age cfg > 0 \<or> cc_shared_max_age cfg > 0 \<or> cc_immutable cfg
                 \<or> cc_stale_while_revalidate cfg > 0 \<or> cc_stale_if_error cfg > 0)
      then Inl ''no-store cannot be combined with max-age, s-maxage, stale directives, or immutable''
      else let directives = cache_directives cfg; vary = normalizeHeaderList (cc_vary cfg) in
        if directives = [] \<and> vary = [] then Inl ''at least one cache directive or vary header is required''
        else Inr (join '', '' directives, vary))"

definition appendVaryHeader :: "headers \<Rightarrow> string \<Rightarrow> headers" where
  "appendVaryHeader h value =
     (if list_ex (\<lambda>current. list_ex (\<lambda>part. equal_fold (trim_space part) value) (split_on CHR '','' current))
           (header_values h ''Vary'')
      then h else header_add h ''Vary'' value)"

definition CacheControl_run :: "string \<Rightarrow> string list \<Rightarrow> 'w policy" where
  "CacheControl_run directive vary next r w s =
     (let w1 = (if directive \<noteq> [] then set_header ''Cache-Control'' directive w else w);
          w2 = w1\<lparr>rw_header := fold (\<lambda>v h. appendVaryHeader h v) vary (rw_header w1)\<rparr>
      in next r w2 s)"

definition CacheControl :: "cache_control \<Rightarrow> registry \<Rightarrow> 'w built" where
  "CacheControl cfg reg = (case buildCacheControl cfg of
       Inl e \<Rightarrow> Inl (panicInvalidRouteConfig (PolicyTypeCacheControl @ '' is invalid: '' @ e))
     | Inr (directive, vary) \<Rightarrow> Inr (build ''policy.CacheControl.func1'' (CacheControl_run directive vary)
         (metadata_of PolicyTypeCacheControl ''CacheControl'') reg))"

definition private_for :: "int \<Rightarrow> cache_control" where
  "private_for ttl = \<lparr>cc_public = False, cc_private = True, cc_no_store = False, cc_no_cache = False,
     cc_must_revalidate = False, cc_immutable = False, cc_max_age = ttl, cc_shared_max_age = 0,
     cc_stale_while_revalidate = 0, cc_stale_if_error = 0, cc_vary = []\<rparr>"

section \<open>Optional caching\<close>

definition CacheReadOptional :: "'w cache_service option \<Rightarrow> cache_read_config \<Rightarrow> registry \<Rightarrow> 'w built" where
  "CacheReadOptional manager cfg reg = (if manager = None then Inr (Noop reg) else CacheRead manager cfg reg)"

definition CacheInvalidateOptional :: "'w cache_service option \<Rightarrow> cache_invalidate_config \<Rightarrow> registry \<Rightarrow> 'w built" where
  "CacheInvalidateOptional manager cfg reg =
     (if manager = None then Inr (Noop reg) else CacheInvalidate manager cfg reg)"

definition CacheControlOptional :: "'w cache_service option \<Rightarrow> int \<Rightarrow> registry \<Rightarrow> 'w built" where
  "CacheControlOptional manager ttl reg =
     (if manager = None then Inr (Noop reg) else CacheControl (private_for ttl) reg)"

section \<open>What a cached read answers\<close>

definition read_answer ::
  "'w cache_service \<Rightarrow> cache_read_config \<Rightarrow> 'w handler \<Rightarrow> request \<Rightarrow> rw \<Rightarrow> 'w \<Rightarrow> 'w outcome \<Rightarrow> bool" where
  "read_answer cs cfg next r w s out \<longleftrightarrow>
     (\<exists>s1. outcome_rw out = outcome_rw (next r w s1))
     \<or> (\<exists>key s1 v s2. cs_get cs key s1 = (Inr (Some v), s2) \<and> outcome_rw out = replay v w)
     \<or> (cs_fail_open cs (rc_fail_open cfg) = False \<and> outcome_rw out = response_error cache_unavailable (rq_id r) w)
     \<or> (out = Panic auth_safety_panic w s \<and> hasAuthPrincipal r \<and> rr_auth_safety (newCacheReadRuntime (cs_max_bytes cs) cfg))"

lemma read_answer_next: "read_answer cs cfg next r w s (next r w s1)"
  unfolding read_answer_def by blast

lemma read_answer_through: "read_answer cs cfg next r w s (read_through cs rt ttl key next r w s1)"
proof -
  have "outcome_rw (read_through cs rt ttl key next r w s1)
      = outcome_rw (next r w (cs_observe cs (routePattern r) ''miss'' s1))"
    by (auto simp: read_through_def Let_def split: outcome.split sum.split prod.split)
  then show ?thesis unfolding read_answer_def by blast
qed

lemma read_answer_hit: "cs_get cs key s1 = (Inr (Some v), s2) \<Longrightarrow> read_answer cs cfg next r w s (Done (replay v w) s3)"
  unfolding read_answer_def by force

lemma read_answer_down: "\<not> cs_fail_open cs (rc_fail_open cfg) \<Longrightarrow> read_answer cs cfg next r w s (reject cache_unavailable r w s1)"
  unfolding read_answer_def reject_def by simp

lemma read_answer_panic: "rr_auth_safety (newCacheReadRuntime (cs_max_bytes cs) cfg) \<Longrightarrow> hasAuthPrincipal r \<Longrightarrow>
    read_answer cs cfg next r w s (Panic auth_safety_panic w s)"
  unfolding read_answer_def by simp

text \<open>A cached route answers as its handler answers, or with a stored response, or, when the cache is
  down and may not be bypassed, with 503; it panics only when a principal reaches a route that
  is not shared and whose key varies by neither user nor project.\<close>

theorem CacheRead_answers: "read_answer cs cfg next r w s (CacheRead_run cs cfg next r w s)"
  unfolding CacheRead_run_def Let_def
  by (auto split: sum.splits prod.splits option.splits
      intro: read_answer_next read_answer_through read_answer_hit read_answer_down read_answer_panic)

section \<open>Replaying a stored response\<close>

text \<open>A handler that answers once: at most one status, before the body, and no flush.\<close>

fun only_writes :: "wop list \<Rightarrow> bool" where
  "only_writes [] = True"
| "only_writes (OpWrite bs h # ops) = only_writes ops"
| "only_writes (op # ops) = False"

fun answers_once :: "wop list \<Rightarrow> bool" where
  "answers_once (OpHeader n h # ops) = only_writes ops"
| "answers_once ops = only_writes ops"

lemma recorded_writes:
  assumes "only_writes ops"
  shows "ca_status (fold (caching_call k) ops c) = ca_status c
    \<and> (ca_too_large c \<longrightarrow> ca_too_large (fold (caching_call k) ops c))
    \<and> (0 < k \<longrightarrow> \<not> ca_too_large (fold (caching_call k) ops c) \<longrightarrow>
        ca_body (fold (caching_call k) ops c) = ca_body c @ concat (map op_bytes ops))"
  using assms
proof (induction ops arbitrary: c rule: only_writes.induct)
  case (2 bs h ops)
  then show ?case by (auto split: if_splits)
qed auto

lemma status_writes: "only_writes (rw_ops w) \<Longrightarrow> wire_status w = 200"
  by (cases "rw_ops w" rule: only_writes.cases) (simp_all add: wire_status_def)

lemma answers_once_cases: "answers_once ops \<Longrightarrow> only_writes ops \<or> (\<exists>n h ops'. ops = OpHeader n h # ops' \<and> only_writes ops')"
  by (cases ops rule: answers_once.cases) auto


section \<open>Invalidation follows success\<close>

lemma CacheInvalidate_done:
  assumes "CacheInvalidate_run cs cfg next r w s = Done w'' s''" "next r w s = Done w' s'"
    and "200 \<le> recorded_status w w'" "recorded_status w w' < 300"
    and "resolveTagNamesPrepared r (normalizeTagSpecs (ic_tag_specs cfg)) = Inr tags" "tags \<noteq> []"
    and "cs_bump cs tags s' = (Inr (), s1)"
  shows "w'' = w' \<and> s'' = s1"
  using assms by (simp add: CacheInvalidate_run_def Let_def)


section \<open>Samples\<close>

definition sample_written :: "int \<Rightarrow> rw" where
  "sample_written n = \<lparr>rw_header = [], rw_ops = [OpHeader n [], OpWrite ''ok'' []]\<rparr>"

definition sample_invalidate :: cache_invalidate_config where
  "sample_invalidate = \<lparr>ic_tag_specs = [\<lparr>ts_name = ''project'', ts_path_params = [''id''], ts_project_id = False,
     ts_user_id = False, ts_literals = []\<rparr>], ic_fail_open = None\<rparr>"

lemma sample_invalidate_tags:
  "resolveTagNamesPrepared sample_get (normalizeTagSpecs (ic_tag_specs sample_invalidate)) = Inr [sample_tag]"
proof -
  have "normalizeTagSpecs (ic_tag_specs sample_invalidate) = kt_tag_specs sample_template"
    by (simp add: sample_invalidate_def sample_template_def normalizeTagSpecs_def normalizeTagName_def normalizedNames_def
        normalizeTagLiterals_def trim_literal case_literal replace_char_def tagSpecKey_def)
  then show ?thesis using sample_tags by simp
qed

lemma sample_plain: "plain_request (sample_get, ''/p'', sample_template)"
  by (simp add: plain_request_def sample_tags)
     (simp add: sample_cache_defs sample_tag_def key_values_def opt_value_def key_route_part_def cache_normalizeRoute_def
        trim_literal replace_char_def queryParamHashSelected_def URLParam_def str_get_def from_context_def)



end
