(* ===== verification/Guard.thy ===== *)
theory Guard
  imports Policy_Run
begin

text \<open>
  What the policies guarantee about the requests that reach a handler. A policy's behaviour on
  a request may depend on the next handler only at the requests it hands on: when two handlers
  agree on those, the policy cannot tell them apart. The contract of a guard is a relation
  between the request it gets and the requests it hands on; contracts compose along a chain.
\<close>

section \<open>The contract of a guard\<close>

definition only_calls :: "'w policy \<Rightarrow> (request \<Rightarrow> request \<Rightarrow> bool) \<Rightarrow> bool" where
  "only_calls pol R \<longleftrightarrow>
     (\<forall>r n1 n2. (\<forall>r' w s. R r r' \<longrightarrow> n1 r' w s = n2 r' w s) \<longrightarrow> (\<forall>w s. pol n1 r w s = pol n2 r w s))"

lemma only_callsI:
  "(\<And>r n1 n2 w s. (\<And>r' w s. R r r' \<Longrightarrow> n1 r' w s = n2 r' w s) \<Longrightarrow> pol n1 r w s = pol n2 r w s)
     \<Longrightarrow> only_calls pol R"
  unfolding only_calls_def by blast

lemma only_callsD:
  "only_calls pol R \<Longrightarrow> (\<And>r' w s. R r r' \<Longrightarrow> n1 r' w s = n2 r' w s) \<Longrightarrow> pol n1 r w s = pol n2 r w s"
  unfolding only_calls_def by blast

text \<open>Guards change nothing of a request but its principal.\<close>

definition same_route :: "request \<Rightarrow> request \<Rightarrow> bool" where
  "same_route r r' \<longleftrightarrow> r'\<lparr>rq_principal := rq_principal r\<rparr> = r"

lemma same_route_refl [simp]: "same_route r r"
  by (simp add: same_route_def)

lemma same_route_with [simp]: "same_route r (with_principal r p)"
  by (simp add: same_route_def with_principal_def)

lemma same_route_fields:
  "same_route r r' \<Longrightarrow> rq_url_params r' = rq_url_params r \<and> rq_path_values r' = rq_path_values r
     \<and> rq_id r' = rq_id r \<and> rq_method r' = rq_method r"
  by (cases r; cases r') (simp add: same_route_def)

lemma same_route_trans: "same_route r s \<Longrightarrow> same_route s t \<Longrightarrow> same_route r t"
  by (cases r; cases s; cases t) (simp add: same_route_def)

lemma same_route_project:
  "same_route r r' \<Longrightarrow> requestProjectID r' = requestProjectID r \<and> URLParam r' n = URLParam r n"
  using same_route_fields [of r r']
  by (simp add: requestProjectID_def URLParam_def PathValue_def)

locale guard =
  fixes pol :: "'w policy" and R :: "request \<Rightarrow> request \<Rightarrow> bool"
  assumes calls: "only_calls pol R"
    and route: "R r r' \<Longrightarrow> same_route r r'"
begin

lemma agree: "(\<And>r' w s. R r r' \<Longrightarrow> n1 r' w s = n2 r' w s) \<Longrightarrow> pol n1 r w s = pol n2 r w s"
  using calls unfolding only_calls_def by blast

text \<open>A request the guard hands on to nobody is answered the same whatever the handler is.\<close>

lemma blocked: "(\<And>r'. \<not> R r r') \<Longrightarrow> pol n1 r w s = pol n2 r w s"
  by (rule agree) blast

lemma weaken: "(\<And>r r'. R r r' \<Longrightarrow> S r r') \<Longrightarrow> only_calls pol S"
  unfolding only_calls_def using agree by metis

end

text \<open>Composition along a chain: the relations compose.\<close>

fun chain_rel :: "(request \<Rightarrow> request \<Rightarrow> bool) list \<Rightarrow> request \<Rightarrow> request \<Rightarrow> bool" where
  "chain_rel [] r r' \<longleftrightarrow> r' = r"
| "chain_rel (R # Rs) r r' \<longleftrightarrow> (\<exists>m. R r m \<and> chain_rel Rs m r')"

lemma chain_only_calls:
  assumes "list_all2 (\<lambda>p R. only_calls (pv_run p) R) ps Rs"
  shows "only_calls (\<lambda>h. Chain h (map Some ps)) (chain_rel Rs)"
  using assms
proof (induction rule: list_all2_induct)
  case Nil
  then show ?case by (simp add: only_calls_def Chain_def)
next
  case (Cons p ps R Rs)
  show ?case
  proof (rule only_callsI)
    fix r and n1 n2 :: "'a handler" and w s
    assume agree: "\<And>r' w s. chain_rel (R # Rs) r r' \<Longrightarrow> n1 r' w s = n2 r' w s"
    have "Chain n1 (map Some ps) m v t = Chain n2 (map Some ps) m v t" if "R r m" for m v t
      by (rule only_callsD [OF Cons.IH]) (use agree that in auto)
    then have "pv_run p (Chain n1 (map Some ps)) r w s = pv_run p (Chain n2 (map Some ps)) r w s"
      by (rule only_callsD [OF Cons.hyps(1)])
    then show "Chain n1 (map Some (p # ps)) r w s = Chain n2 (map Some (p # ps)) r w s"
      by (simp add: Chain_def)
  qed
qed

section \<open>The guards of the program\<close>

definition auth_rel :: "request \<Rightarrow> request \<Rightarrow> bool" where
  "auth_rel r r' \<longleftrightarrow> (\<exists>res. trim_space (ar_user res) \<noteq> []
     \<and> r' = with_principal r (principal_of_result res))"

definition project_rel :: "request \<Rightarrow> request \<Rightarrow> bool" where
  "project_rel r r' \<longleftrightarrow> (\<exists>p v. rq_principal r = Some p \<and> trim_space (pr_user_id p) \<noteq> []
     \<and> requestProjectID r = Some v
     \<and> (trim_space (pr_project_id p) \<noteq> [] \<longrightarrow> trim_space (pr_project_id p) = trim_space v)
     \<and> r' = with_principal r (p\<lparr>pr_project_id := v\<rparr>))"

definition match_rel :: "string \<Rightarrow> request \<Rightarrow> request \<Rightarrow> bool" where
  "match_rel param r r' \<longleftrightarrow> r' = r \<and> (\<exists>p. rq_principal r = Some p
     \<and> trim_space (pr_project_id p) \<noteq> []
     \<and> trim_space (pr_project_id p) = trim_space (URLParam r param))"

definition resolve_rel :: "'w resolver \<Rightarrow> request \<Rightarrow> request \<Rightarrow> bool" where
  "resolve_rel resolve r r' \<longleftrightarrow> (\<exists>p res s s'. rq_principal r = Some p
     \<and> trim_space (pr_user_id p) \<noteq> [] \<and> trim_space (pr_project_id p) \<noteq> []
     \<and> resolve (pr_user_id p) (trim_space (pr_project_id p)) s = (Inr res, s')
     \<and> r' = with_principal r (resolved_principal p (trim_space (pr_project_id p)) res))"

definition require_rel :: "(mask \<Rightarrow> bool) \<Rightarrow> request \<Rightarrow> request \<Rightarrow> bool" where
  "require_rel ok r r' \<longleftrightarrow> r' = r \<and> ok (GetUserMask r)"

definition same_rel :: "request \<Rightarrow> request \<Rightarrow> bool" where
  "same_rel r r' \<longleftrightarrow> same_route r r' \<and> rq_principal r' = rq_principal r"

lemma requestProjectID_trimmed: "requestProjectID r = Some v \<Longrightarrow> trim_space v = v \<and> v \<noteq> []"
  by (auto simp: requestProjectID_def Let_def split: if_splits option.splits)

interpretation auth: guard "AuthRequired_run g mode" auth_rel for g mode
  by unfold_locales
    (auto simp: only_calls_def auth_rel_def AuthRequired_run_def
      split: prod.splits guard_decision.splits option.splits)

interpretation project: guard ProjectRequired_run project_rel
  by unfold_locales
    (auto simp: only_calls_def project_rel_def ProjectRequired_run_def from_context_def
      IsSameProject_def split: option.splits)

interpretation path_match: guard "ProjectMatchFromPath_run param" "match_rel param" for param
  by unfold_locales
    (auto simp: only_calls_def match_rel_def ProjectMatchFromPath_run_def from_context_def
      IsSameProject_def Let_def split: option.splits)

interpretation resolved: guard "ResolvePermissions_run resolve" "resolve_rel resolve" for resolve
proof (unfold_locales, rule only_callsI)
  fix r and n1 n2 :: "'a handler" and w s
  assume agree: "\<And>r' w s. resolve_rel resolve r r' \<Longrightarrow> n1 r' w s = n2 r' w s"
  have "n1 (with_principal r (resolved_principal p (trim_space (pr_project_id p)) res)) w s'
      = n2 (with_principal r (resolved_principal p (trim_space (pr_project_id p)) res)) w s'"
    if "rq_principal r = Some p" "trim_space (pr_user_id p) \<noteq> []" "trim_space (pr_project_id p) \<noteq> []"
      "resolve (pr_user_id p) (trim_space (pr_project_id p)) s = (Inr res, s')" for p res s'
    by (rule agree) (use that in \<open>auto simp: resolve_rel_def\<close>)
  then show "ResolvePermissions_run resolve n1 r w s = ResolvePermissions_run resolve n2 r w s"
    by (auto simp: ResolvePermissions_run_def from_context_def Let_def
        split: option.splits prod.splits sum.splits)
qed (auto simp: resolve_rel_def)

interpretation one_permission: guard "RequirePermission_run p" "require_rel (\<lambda>m. HasPerm m p)" for p
  by unfold_locales (auto simp: only_calls_def require_rel_def RequirePermission_run_def)

interpretation any_permission:
  guard "RequireAnyPermission_run ps" "require_rel (\<lambda>m. \<exists>p \<in> set ps. HasPerm m p)" for ps
proof unfold_locales
  have "any_permission_loop m ps \<longleftrightarrow> (\<exists>p \<in> set ps. HasPerm m p)" for m
    by (induction ps) auto
  then show "only_calls (RequireAnyPermission_run ps :: 'a policy) (require_rel (\<lambda>m. \<exists>p \<in> set ps. HasPerm m p))"
    by (simp add: only_calls_def require_rel_def RequireAnyPermission_run_def)
qed (simp add: require_rel_def)

interpretation all_permissions:
  guard "RequireAllPermissions_run ps" "require_rel (\<lambda>m. \<forall>p \<in> set ps. HasPerm m p)" for ps
proof unfold_locales
  have "all_permission_loop m ps \<longleftrightarrow> (\<forall>p \<in> set ps. HasPerm m p)" for m
    by (induction ps) auto
  then show "only_calls (RequireAllPermissions_run ps :: 'a policy) (require_rel (\<lambda>m. \<forall>p \<in> set ps. HasPerm m p))"
    by (intro only_callsI) (simp add: require_rel_def RequireAllPermissions_run_def)
qed (simp add: require_rel_def)

interpretation json: guard RequireJSON_run same_rel
  by unfold_locales (auto simp: only_calls_def same_rel_def RequireJSON_run_def)

interpretation with_header: guard "WithHeader_run k v" same_rel for k v
  by unfold_locales (auto simp: only_calls_def same_rel_def WithHeader_run_def)

interpretation noop: guard Noop_run same_rel
  by unfold_locales (auto simp: only_calls_def same_rel_def Noop_run_def)

section \<open>Routes made of the program's policies\<close>

text \<open>The policies of a route by constructor. Any other policy (content type, header, rate limit,
  cache, custom) stands with its metadata and its behaviour.\<close>

datatype 'w route_kind =
    KAuth "'w engine_guard" string
  | KProject
  | KMatch string
  | KResolve "'w resolver"
  | KOne mask
  | KAny "mask list"
  | KAll "mask list"
  | KOther metadata "'w policy"

fun kind_run :: "'w route_kind \<Rightarrow> 'w policy" where
  "kind_run (KAuth g mode) = AuthRequired_run g mode"
| "kind_run KProject = ProjectRequired_run"
| "kind_run (KMatch param) = ProjectMatchFromPath_run (trim_space param)"
| "kind_run (KResolve resolve) = ResolvePermissions_run resolve"
| "kind_run (KOne p) = RequirePermission_run p"
| "kind_run (KAny ps) = RequireAnyPermission_run (normalizeRequiredPermissions ps)"
| "kind_run (KAll ps) = RequireAllPermissions_run (normalizeRequiredPermissions ps)"
| "kind_run (KOther m run) = run"

fun kind_meta :: "'w route_kind \<Rightarrow> metadata" where
  "kind_meta (KAuth g mode) = metadata_of PolicyTypeAuthRequired ''AuthRequired''"
| "kind_meta KProject = metadata_of PolicyTypeProjectRequired ''ProjectRequired''"
| "kind_meta (KMatch param) = match_metadata (trim_space param)"
| "kind_meta (KResolve resolve) = metadata_of PolicyTypeResolvePermissions ''ResolvePermissions''"
| "kind_meta (KOne p) = metadata_of PolicyTypeRequirePermission ''RequirePermission''"
| "kind_meta (KAny ps) = metadata_of PolicyTypeRequireAnyPermission ''RequireAnyPermission''"
| "kind_meta (KAll ps) = metadata_of PolicyTypeRequireAllPermissions ''RequireAllPermissions''"
| "kind_meta (KOther m run) = m"

fun kind_code :: "'w route_kind \<Rightarrow> string" where
  "kind_code (KAuth g mode) = ''policy.authRequiredWithEngine.func1''"
| "kind_code KProject = ''policy.ProjectRequired.func1''"
| "kind_code (KMatch param) = ''policy.ProjectMatchFromPath.func1''"
| "kind_code (KResolve resolve) = ''policy.ResolvePermissions.func1''"
| "kind_code (KOne p) = ''policy.RequirePermission.func1''"
| "kind_code (KAny ps) = ''policy.RequireAnyPermission.func1''"
| "kind_code (KAll ps) = ''policy.RequireAllPermissions.func1''"
| "kind_code (KOther m run) = ''other''"

definition kind_policy :: "'w route_kind \<Rightarrow> 'w pol" where
  "kind_policy k = \<lparr>pv_code = kind_code k, pv_run = kind_run k\<rparr>"

text \<open>The constructors build exactly these policies and register exactly this metadata.\<close>

lemma annotated_literal [simp]:
  "t \<noteq> [] \<Longrightarrow> trim_space n \<noteq> [] \<Longrightarrow> annotated_metadata (metadata_of t n) = metadata_of t n"
  by (simp add: annotated_metadata_def metadata_of_def)

lemma annotated_match [simp]: "annotated_metadata (match_metadata n) = match_metadata n"
  by (simp add: annotated_metadata_def metadata_of_def match_metadata_def trim_literal)

lemma constructors_build_kinds:
  "AuthRequired g mode reg = (Some (kind_policy (KAuth g mode)),
     reg(kind_code (KAuth g mode) \<mapsto> kind_meta (KAuth g mode)))"
  "ProjectRequired reg = (Some (kind_policy KProject),
     reg(kind_code (KProject :: 'w route_kind) \<mapsto> kind_meta (KProject :: 'w route_kind)))"
  "trim_space param \<noteq> [] \<Longrightarrow> ProjectMatchFromPath param reg =
     Inr (Some (kind_policy (KMatch param)), reg(kind_code (KMatch param) \<mapsto> kind_meta (KMatch param)))"
  "ResolvePermissions (Some resolve) reg = Inr (Some (kind_policy (KResolve resolve)),
     reg(kind_code (KResolve resolve) \<mapsto> kind_meta (KResolve resolve)))"
  "p \<noteq> 0 \<Longrightarrow> RequirePermission p reg = Inr (Some (kind_policy (KOne p)),
     reg(kind_code (KOne p) \<mapsto> kind_meta (KOne p)))"
  "normalizeRequiredPermissions ps \<noteq> [] \<Longrightarrow> RequireAnyPermission ps reg =
     Inr (Some (kind_policy (KAny ps)), reg(kind_code (KAny ps) \<mapsto> kind_meta (KAny ps)))"
  "normalizeRequiredPermissions ps \<noteq> [] \<Longrightarrow> RequireAllPermissions ps reg =
     Inr (Some (kind_policy (KAll ps)), reg(kind_code (KAll ps) \<mapsto> kind_meta (KAll ps)))"
  by (simp_all add: AuthRequired_def ProjectRequired_def ProjectMatchFromPath_def
      ResolvePermissions_def RequirePermission_def RequireAnyPermission_def
      RequireAllPermissions_def build_def annotatePolicy_def policyPointer_def kind_policy_def
      trim_literal)

fun kind_rel :: "'w route_kind \<Rightarrow> request \<Rightarrow> request \<Rightarrow> bool" where
  "kind_rel (KAuth g mode) = auth_rel"
| "kind_rel KProject = project_rel"
| "kind_rel (KMatch param) = match_rel (trim_space param)"
| "kind_rel (KResolve resolve) = resolve_rel resolve"
| "kind_rel (KOne p) = require_rel (\<lambda>m. HasPerm m p)"
| "kind_rel (KAny ps) = require_rel (\<lambda>m. \<exists>p \<in> set (normalizeRequiredPermissions ps). HasPerm m p)"
| "kind_rel (KAll ps) = require_rel (\<lambda>m. \<forall>p \<in> set (normalizeRequiredPermissions ps). HasPerm m p)"
| "kind_rel (KOther m run) = same_rel"

text \<open>A policy of another kind must not pose as a guard and must hand on its request with the
  principal it got.\<close>

fun kind_ok :: "'w route_kind \<Rightarrow> bool" where
  "kind_ok (KOther m run) \<longleftrightarrow> policyOrderStage (md_type m) \<notin> {1, 2, 3, 4} \<and> only_calls run same_rel"
| "kind_ok _ \<longleftrightarrow> True"

lemma kind_only_calls: "kind_ok k \<Longrightarrow> only_calls (kind_run k) (kind_rel k)"
  by (cases k) (simp_all add: auth.calls project.calls path_match.calls resolved.calls
      one_permission.calls any_permission.calls all_permissions.calls)

lemma kind_same_route: "kind_rel k r r' \<Longrightarrow> same_route r r'"
  by (cases k) (auto intro: auth.route project.route path_match.route resolved.route
      one_permission.route any_permission.route all_permissions.route simp: same_rel_def)

definition kind_stage :: "'w route_kind \<Rightarrow> nat" where
  "kind_stage k = policyOrderStage (md_type (kind_meta k))"

lemma kind_stage_simps [simp]:
  "kind_stage (KAuth g mode) = 1" "kind_stage KProject = 2" "kind_stage (KMatch param) = 2"
  "kind_stage (KResolve resolve) = 3" "kind_stage (KOne p) = 4" "kind_stage (KAny ps) = 4"
  "kind_stage (KAll ps) = 4"
  by (simp_all add: kind_stage_def policyOrderStage_def metadata_of_def match_metadata_def)

fun kind_grants :: "'w route_kind \<Rightarrow> mask \<Rightarrow> bool" where
  "kind_grants (KOne p) m \<longleftrightarrow> HasPerm m p"
| "kind_grants (KAny ps) m \<longleftrightarrow> (\<exists>p \<in> set (normalizeRequiredPermissions ps). HasPerm m p)"
| "kind_grants (KAll ps) m \<longleftrightarrow> (\<forall>p \<in> set (normalizeRequiredPermissions ps). HasPerm m p)"
| "kind_grants _ m \<longleftrightarrow> True"

fun is_resolve :: "'w route_kind \<Rightarrow> bool" where
  "is_resolve (KResolve resolve) \<longleftrightarrow> True"
| "is_resolve _ \<longleftrightarrow> False"

text \<open>A request as the handler of a project route may rely on it: an authenticated user, the
  project of the path, a mask the route's resolver gave for this user and this project, and
  every permission check passed on that mask.\<close>

definition authorised :: "'w route_kind list \<Rightarrow> request \<Rightarrow> bool" where
  "authorised ks r \<longleftrightarrow>
     (\<exists>p project resolve res s s'. rq_principal r = Some p
        \<and> trim_space (pr_user_id p) \<noteq> []
        \<and> requestProjectID r = Some project
        \<and> KResolve resolve \<in> set ks
        \<and> resolve (pr_user_id p) project s = (Inr res, s')
        \<and> pr_mask p = rs_mask res
        \<and> (\<forall>k \<in> set ks. kind_grants k (rs_mask res))
        \<and> (\<forall>param. KMatch param \<in> set ks \<longrightarrow> trim_space (URLParam r (trim_space param)) = project))"

section \<open>Requests along a validated chain\<close>

lemma chain_rel_append:
  "chain_rel (Rs @ Ss) r r' \<longleftrightarrow> (\<exists>m. chain_rel Rs r m \<and> chain_rel Ss m r')"
  by (induction Rs arbitrary: r) auto

lemma chain_same_route: "chain_rel (map kind_rel ks) r r' \<Longrightarrow> same_route r r'"
  by (induction ks arbitrary: r) (auto dest: kind_same_route intro: same_route_trans)

definition in_project :: "request \<Rightarrow> bool" where
  "in_project r \<longleftrightarrow> (\<exists>p v. rq_principal r = Some p \<and> trim_space (pr_user_id p) \<noteq> []
     \<and> requestProjectID r = Some v \<and> pr_project_id p = v)"

lemma in_project_same: "in_project r \<Longrightarrow> same_rel r r' \<Longrightarrow> in_project r'"
  by (auto simp: in_project_def same_rel_def same_route_project)

lemma in_project_after: "project_rel r r' \<Longrightarrow> in_project r'"
  by (auto simp: project_rel_def in_project_def with_principal_def requestProjectID_def
      URLParam_def PathValue_def)

text \<open>Between the first project guard and the resolver, the project of the path stays.\<close>

lemma chain_in_project:
  assumes "chain_rel (map kind_rel ks) r r'" and "in_project r"
    and "\<And>k. k \<in> set ks \<Longrightarrow> kind_ok k \<and> \<not> is_resolve k \<and> kind_stage k \<noteq> 1 \<and> kind_stage k \<noteq> 4"
  shows "in_project r' \<and> (\<forall>param. KMatch param \<in> set ks \<longrightarrow>
    requestProjectID r' = Some (trim_space (URLParam r' (trim_space param))))"
  using assms
proof (induction ks arbitrary: r)
  case (Cons k ks)
  then obtain m where m: "kind_rel k r m" "chain_rel (map kind_rel ks) m r'" by auto
  have k: "kind_ok k \<and> \<not> is_resolve k \<and> kind_stage k \<noteq> 1 \<and> kind_stage k \<noteq> 4"
    using Cons.prems(3) by simp
  have im: "in_project m"
    using m(1) Cons.prems(2) k in_project_same in_project_after
    by (cases k) (auto simp: match_rel_def)
  note IH = Cons.IH [OF m(2) im]
  have "same_route m r'" by (rule chain_same_route [OF m(2)])
  moreover have "requestProjectID m = Some (trim_space (URLParam m (trim_space param)))"
    if "k = KMatch param" for param
    using that m(1) Cons.prems(2) requestProjectID_trimmed
    by (auto simp: match_rel_def in_project_def)
  ultimately show ?case
    using IH Cons.prems(3) same_route_project by auto
qed auto

lemma chain_grants:
  assumes "chain_rel (map kind_rel ks) r r'"
    and "\<And>k. k \<in> set ks \<Longrightarrow> kind_ok k \<and> \<not> is_resolve k \<and> kind_stage k \<noteq> 1 \<and> kind_stage k \<noteq> 2"
  shows "same_rel r r' \<and> (\<forall>k \<in> set ks. kind_grants k (GetUserMask r'))"
  using assms
proof (induction ks arbitrary: r)
  case Nil
  then show ?case by (simp add: same_rel_def)
next
  case (Cons k ks)
  then obtain m where m: "kind_rel k r m" "chain_rel (map kind_rel ks) m r'" by auto
  have k: "kind_ok k \<and> \<not> is_resolve k \<and> kind_stage k \<noteq> 1 \<and> kind_stage k \<noteq> 2"
    using Cons.prems(2) by simp
  have same: "same_rel r m" "kind_grants k (GetUserMask m)"
    using m(1) k by (cases k; simp add: same_rel_def require_rel_def)+
  have IH: "same_rel m r' \<and> (\<forall>k \<in> set ks. kind_grants k (GetUserMask r'))"
    using Cons.IH [OF m(2)] Cons.prems(2) by simp
  then have "GetUserMask r' = GetUserMask m"
    by (simp add: same_rel_def GetUserMask_def from_context_def)
  with same IH show ?case
    using same_route_trans by (auto simp: same_rel_def)
qed

lemma kind_stages: "k \<in> set ks \<Longrightarrow> kind_stage k \<noteq> 0 \<Longrightarrow> kind_stage k \<in> set (stages (map kind_meta ks))"
  by (auto simp: stages_def kind_stage_def)

lemma kind_project_type:
  "kind_ok k \<Longrightarrow> md_type (kind_meta k) = PolicyTypeProjectRequired \<Longrightarrow> k = KProject"
  by (cases k) (auto simp: metadata_of_def match_metadata_def policyOrderStage_def)

lemma grants_other: "kind_stage k \<noteq> 4 \<Longrightarrow> kind_grants k m"
  by (cases k) simp_all

lemma split_resolver:
  "length (filter is_resolve ks) = 1 \<Longrightarrow>
     \<exists>a resolve b. ks = a @ KResolve resolve # b \<and> (\<forall>k \<in> set a \<union> set b. \<not> is_resolve k)"
proof -
  assume one: "length (filter is_resolve ks) = 1"
  then obtain k where k: "filter is_resolve ks = [k]" by (auto simp: length_Suc_conv)
  then obtain a b where ab: "ks = a @ k # b" "filter is_resolve a = []" "filter is_resolve b = []"
      "is_resolve k"
    by (auto simp: filter_eq_Cons_iff append_eq_Cons_conv)
  then obtain resolve where "k = KResolve resolve" by (cases k) auto
  with ab show ?thesis
    by (intro exI [of _ a] exI [of _ resolve] exI [of _ b]) (auto simp: filter_empty_conv)
qed

text \<open>The list of a validated route with one resolver: authentication before the first project
  guard, path matches and nothing else that matters up to the resolver, then the checks.\<close>

lemma validated_shape:
  assumes wired: "well_wired pattern (map kind_meta ks)" and ok: "\<forall>k \<in> set ks. kind_ok k"
    and one: "length (filter is_resolve ks) = 1"
  shows "\<exists>a1 a2 resolve b. ks = a1 @ KProject # a2 @ KResolve resolve # b
    \<and> (\<forall>k \<in> set a1. kind_stage k \<noteq> 4 \<and> (\<forall>param. k \<noteq> KMatch param))
    \<and> (\<forall>k \<in> set a2. kind_ok k \<and> \<not> is_resolve k \<and> kind_stage k \<noteq> 1 \<and> kind_stage k \<noteq> 4)
    \<and> (\<forall>k \<in> set b. kind_ok k \<and> \<not> is_resolve k \<and> kind_stage k \<noteq> 1 \<and> kind_stage k \<noteq> 2)"
proof -
  obtain a resolve b where ab: "ks = a @ KResolve resolve # b"
      "\<forall>k \<in> set a \<union> set b. \<not> is_resolve k"
    using split_resolver [OF one] by blast
  have "policyOrderStage (md_type (kind_meta (KResolve resolve))) = 3"
    using kind_stage_simps(4) unfolding kind_stage_def .
  then have "sorted (stages (map kind_meta a) @ 3 # stages (map kind_meta b))"
    using wired ab(1) by (simp add: well_wired_def)
  then have before: "\<forall>k \<in> set a. kind_stage k \<le> 3" and after: "\<forall>k \<in> set b. kind_stage k = 0 \<or> 3 \<le> kind_stage k"
    and sorted_a: "sorted (stages (map kind_meta a))"
    using kind_stages by (fastforce simp: sorted_append)+
  have "hasPolicyType (map kind_meta ks) PolicyTypeResolvePermissions"
    using ab(1) by (simp add: hasPolicyType_iff metadata_of_def)
  then have req: "hasPolicyType (map kind_meta ks) PolicyTypeProjectRequired"
    using wired unfolding well_wired_def wiring_of_simps by blast
  then obtain k where "k \<in> set ks" "md_type (kind_meta k) = PolicyTypeProjectRequired"
    by (auto simp: hasPolicyType_iff)
  then have "KProject \<in> set ks" using ok kind_project_type by metis
  then have "KProject \<in> set a" using ab(1) after by auto
  then obtain a1 a2 where a: "a = a1 @ KProject # a2" "KProject \<notin> set a1"
    using split_list_first by metis
  have "policyOrderStage (md_type (kind_meta (KProject :: 'a route_kind))) = 2"
    using kind_stage_simps(2) unfolding kind_stage_def .
  then have a2: "\<forall>k \<in> set a2. kind_stage k = 0 \<or> 2 \<le> kind_stage k"
    using sorted_a a(1) kind_stages [of _ a2] by (fastforce simp: sorted_append)
  have nomatch: "k \<noteq> KMatch param" if "k \<in> set a1" for k param
  proof
    assume k: "k = KMatch param"
    let ?t = "\<lambda>m. md_type m \<noteq> PolicyTypeProjectMatchFromPath"
    have type: "md_type (kind_meta k) = PolicyTypeProjectMatchFromPath"
      using k by (simp add: match_metadata_def metadata_of_def)
    have "takeWhile ?t (map kind_meta ks) = takeWhile ?t (map kind_meta a1)"
      using that type ab(1) a(1) by (simp add: takeWhile_append1 [of "kind_meta k"])
    moreover have "hasPolicyType (map kind_meta ks) PolicyTypeProjectMatchFromPath"
      using wired req by (simp add: well_wired_def)
    moreover have "match_follows_required (map kind_meta ks)"
      using wired by (simp add: well_wired_def)
    ultimately have "hasPolicyType (takeWhile ?t (map kind_meta a1)) PolicyTypeProjectRequired"
      using req by (simp add: match_follows_required_def)
    then obtain k' where k': "k' \<in> set a1" "md_type (kind_meta k') = PolicyTypeProjectRequired"
      by (auto simp: hasPolicyType_iff dest!: set_takeWhileD)
    then have "kind_ok k'" using ok ab(1) a(1) by simp
    with k' show False using kind_project_type [of k'] a(2) by simp
  qed
  have low: "kind_stage k \<noteq> 4" if "k \<in> set a" for k
    using bspec [OF before that] by simp
  then have "\<forall>k \<in> set a1. kind_stage k \<noteq> 4" using a(1) by simp
  then have "\<forall>k \<in> set a1. kind_stage k \<noteq> 4 \<and> (\<forall>param. k \<noteq> KMatch param)"
    using nomatch by blast
  moreover have "\<forall>k \<in> set a2. kind_ok k \<and> \<not> is_resolve k \<and> kind_stage k \<noteq> 1 \<and> kind_stage k \<noteq> 4"
    using ok ab a low a2 by fastforce
  moreover have "\<forall>k \<in> set b. kind_ok k \<and> \<not> is_resolve k \<and> kind_stage k \<noteq> 1 \<and> kind_stage k \<noteq> 2"
    using ok ab after by fastforce
  ultimately show ?thesis using ab(1) a(1) by auto
qed

lemma chain_authorised:
  assumes shape: "ks = a1 @ KProject # a2 @ KResolve resolve # b"
    and a1: "\<forall>k \<in> set a1. kind_stage k \<noteq> 4 \<and> (\<forall>param. k \<noteq> KMatch param)"
    and a2: "\<forall>k \<in> set a2. kind_ok k \<and> \<not> is_resolve k \<and> kind_stage k \<noteq> 1 \<and> kind_stage k \<noteq> 4"
    and b: "\<forall>k \<in> set b. kind_ok k \<and> \<not> is_resolve k \<and> kind_stage k \<noteq> 1 \<and> kind_stage k \<noteq> 2"
    and path: "chain_rel (map kind_rel ks) r r'"
  shows "authorised ks r'"
proof -
  from path shape obtain m1 m2 m3 m4 where m: "project_rel m1 m2"
      "chain_rel (map kind_rel a2) m2 m3" "resolve_rel resolve m3 m4" "chain_rel (map kind_rel b) m4 r'"
    by (auto simp: chain_rel_append)
  have m3: "in_project m3" "\<forall>param. KMatch param \<in> set a2 \<longrightarrow>
      requestProjectID m3 = Some (trim_space (URLParam m3 (trim_space param)))"
    using chain_in_project [OF m(2) in_project_after [OF m(1)]] a2 by auto
  have m4: "same_rel m4 r'" "\<forall>k \<in> set b. kind_grants k (GetUserMask r')"
    using chain_grants [OF m(4)] b by auto
  have route: "same_route m3 r'"
    using resolved.route [OF m(3)] m4(1) same_route_trans unfolding same_rel_def by blast
  obtain p project where p: "rq_principal m3 = Some p" "trim_space (pr_user_id p) \<noteq> []"
      "requestProjectID m3 = Some project" "pr_project_id p = project"
    using m3(1) by (auto simp: in_project_def)
  obtain res s s' where res: "resolve (pr_user_id p) project s = (Inr res, s')"
      "m4 = with_principal m3 (resolved_principal p project res)"
    using m(3) p requestProjectID_trimmed [OF p(3)] by (auto simp: resolve_rel_def)
  let ?p = "resolved_principal p project res"
  have r': "rq_principal r' = Some ?p"
    using m4(1) res(2) by (simp add: same_rel_def with_principal_def)
  then have mask: "GetUserMask r' = rs_mask res"
    by (simp add: GetUserMask_def from_context_def resolved_principal_def)
  have grants: "\<forall>k \<in> set ks. kind_grants k (rs_mask res)"
    using m4(2) a1 a2 shape by (auto simp: mask intro: grants_other)
  have matches: "trim_space (URLParam r' (trim_space param)) = project" if "KMatch param \<in> set ks" for param
  proof -
    have "KMatch param \<in> set a2" using that shape a1 b by auto
    then show ?thesis using m3(2) p(3) same_route_project [OF route] by auto
  qed
  have "KResolve resolve \<in> set ks" "requestProjectID r' = Some project"
    using shape p(3) same_route_project [OF route] by auto
  then show ?thesis
    unfolding authorised_def using r' p(2) res(1) grants matches
    by (intro exI [of _ ?p] exI [of _ project] exI [of _ resolve] exI [of _ res] exI [of _ s]
        exI [of _ s']) (simp add: resolved_principal_def)
qed

lemma validated_route_agrees:
  assumes "ValidateRouteMetadata method pattern (map kind_meta ks) = None"
    and "\<forall>k \<in> set ks. kind_ok k"
    and "length (filter is_resolve ks) = 1"
    and "\<forall>r'. authorised ks r' \<longrightarrow> (\<forall>w s. handler r' w s = other_handler r' w s)"
  shows "Chain handler (map (\<lambda>k. Some (kind_policy k)) ks) r w s
       = Chain other_handler (map (\<lambda>k. Some (kind_policy k)) ks) r w s"
proof -
  have "ks \<noteq> []" using assms(3) by auto
  then have "well_wired (trim_space pattern) (map kind_meta ks)"
    using assms(1) by (auto simp: ValidateRouteMetadata_None)
  from validated_shape [OF this assms(2,3)] have path: "authorised ks r'"
    if "chain_rel (map kind_rel ks) r r'" for r r'
    using chain_authorised that by blast
  have "list_all2 (\<lambda>p R. only_calls (pv_run p) R) (map kind_policy ks) (map kind_rel ks)"
    using assms(2) by (auto simp: list_all2_conv_all_nth kind_policy_def intro!: kind_only_calls)
  from only_callsD [OF chain_only_calls [OF this], of r handler other_handler w s]
  show ?thesis using path assms(4) by (simp add: comp_def)
qed

text \<open>C11: a route that the validator accepts and that resolves permissions runs its handler for
  authorised requests only. Whatever the other policies are, as long as they neither pose as
  guards nor change the principal, and with one resolver, the outcome depends on the handler
  only at requests whose principal is a user with a non-blank id, in the project the path
  names (by every matched path parameter), with the mask the resolver returned for exactly this
  user and this project, and with every required permission in that mask.\<close>

theorem validated_route_authorises:
  assumes "ValidateRouteMetadata method pattern (map kind_meta ks) = None"
    and "\<forall>k \<in> set ks. kind_ok k"
    and "length (filter is_resolve ks) = 1"
    and "\<forall>r'. authorised ks r' \<longrightarrow> (\<forall>w s. handler r' w s = other_handler r' w s)"
  shows "Chain handler (map (\<lambda>k. Some (kind_policy k)) ks) r w s
       = Chain other_handler (map (\<lambda>k. Some (kind_policy k)) ks) r w s"
  using assms by (rule validated_route_agrees)

section \<open>The usual project route\<close>

definition project_route ::
  "'w engine_guard \<Rightarrow> string \<Rightarrow> string \<Rightarrow> 'w resolver \<Rightarrow> mask \<Rightarrow> 'w route_kind list" where
  "project_route g mode param resolve p = [KAuth g mode, KProject, KMatch param, KResolve resolve, KOne p]"

definition run_route :: "'w handler \<Rightarrow> 'w route_kind list \<Rightarrow> 'w handler" where
  "run_route h ks = Chain h (map (\<lambda>k. Some (kind_policy k)) ks)"

text \<open>The guards let the right requests through: when the engine authenticates a user, the
  path names a project in the matched parameter and the resolver's mask for them has the
  permission, the handler runs, once, on the request with this principal, the untouched writer
  and the state the engine and the resolver left.\<close>

theorem project_route_admits:
  assumes "g (routeMode mode) r s = (GuardNext (Some res), s1)" "trim_space (ar_user res) \<noteq> []"
    and "requestProjectID r = Some v" "trim_space (URLParam r (trim_space param)) = v"
    and "resolve (ar_user res) v s1 = (Inr rs, s2)" "HasPerm (rs_mask rs) p"
  shows "run_route h (project_route g mode param resolve p) r w s
    = h (with_principal r (resolved_principal ((principal_of_result res)\<lparr>pr_project_id := v\<rparr>) v rs)) w s2"
proof -
  have v: "trim_space v = v" "v \<noteq> []" using requestProjectID_trimmed [OF assms(3)] by simp_all
  have params: "requestProjectID (with_principal r q) = Some v"
      "URLParam (with_principal r q) n = URLParam r n" for q n
    using same_route_project [of r "with_principal r q"] assms(3) by simp_all
  show ?thesis
    using assms v params
    by (simp add: run_route_def project_route_def Chain_def kind_policy_def AuthRequired_run_def
        ProjectRequired_run_def ProjectMatchFromPath_run_def ResolvePermissions_run_def
        RequirePermission_run_def from_context_def with_principal_def principal_of_result_def
        IsSameProject_def GetUserMask_def resolved_principal_def Let_def)
qed

text \<open>The resolver's errors are answered with their status and the handler does not run: 403
  for no membership, 500 for an inconsistent mask, 503 for a failed dependency, 500 for anything
  else, one JSON error in each case.\<close>

theorem ResolvePermissions_error_status:
  assumes "rq_principal r = Some p" "trim_space (pr_user_id p) \<noteq> []"
    and "trim_space (pr_project_id p) \<noteq> []"
    and "resolve (pr_user_id p) (trim_space (pr_project_id p)) s = (Inl e, s')" "rw_ops w = []"
  shows "\<exists>w'. ResolvePermissions_run resolve h r w s = Done w' s'
    \<and> wire_status w' = (if IsMembershipNotFound e then 403 else if IsMaskInconsistent e then 500
                         else if IsDependencyFailure e then 503 else 500)"
  using assms
  by (simp add: ResolvePermissions_run_def from_context_def Let_def reject_def resolve_failure_def)

lemma guard_calls_suppressed:
  assumes "\<forall>c \<in> set calls. c \<noteq> CallFlush \<and> (\<forall>n. c = CallHeader n \<longrightarrow> n = 401)"
    and "un \<or> (\<exists>pre post. calls = pre @ CallHeader 401 # post \<and> (\<forall>c \<in> set pre. \<exists>k v. c = CallSet k v))"
  shows "\<exists>hs. fold guard_writer_call calls (w, un) = (w\<lparr>rw_header := hs\<rparr>, True)"
  using assms
proof (induction calls arbitrary: w un)
  case Nil
  then show ?case by (auto intro: exI [of _ "rw_header w"])
next
  case (Cons c calls)
  have calls: "\<forall>c \<in> set calls. c \<noteq> CallFlush \<and> (\<forall>n. c = CallHeader n \<longrightarrow> n = 401)"
    using Cons.prems(1) by simp
  show ?case
  proof (cases c)
    case (CallSet k v)
    have "un \<or> (\<exists>pre post. calls = pre @ CallHeader 401 # post \<and> (\<forall>c \<in> set pre. \<exists>k v. c = CallSet k v))"
      using Cons.prems(2) CallSet by (auto simp: Cons_eq_append_conv)
    from Cons.IH [OF calls this, of "set_header k v w"] CallSet show ?thesis
      by (auto simp: set_header_def)
  next
    case (CallHeader n)
    with Cons.prems(1) Cons.IH [OF calls, of True w] show ?thesis by auto
  next
    case (CallWrite bs)
    with Cons.prems(2) have un by (auto simp: Cons_eq_append_conv)
    with CallWrite Cons.IH [OF calls, of True w] show ?thesis by auto
  next
    case CallFlush
    with Cons.prems(1) show ?thesis by simp
  qed
qed

text \<open>When the engine's guard refuses a request the way \<open>http.Error\<close> does (headers, a 401, then
  text), none of its text reaches the client: the response is a 401 whose body is exactly the
  JSON error envelope with the request id.\<close>

theorem AuthRequired_refusal_is_json:
  assumes "g (routeMode mode) r s = (GuardStop calls, s')"
    and "\<forall>c \<in> set calls. c \<noteq> CallFlush \<and> (\<forall>n. c = CallHeader n \<longrightarrow> n = 401)"
    and "calls = pre @ CallHeader 401 # post" "\<forall>c \<in> set pre. \<exists>k v. c = CallSet k v"
    and "rw_ops w = []"
  shows "\<exists>w'. AuthRequired_run g mode h r w s = Done w' s' \<and> wire_status w' = 401
    \<and> Some (wire_body w') = map_option (\<lambda>j. j @ [newline])
         (json_envelope (error_envelope CodeUnauthorized ''authentication required'' ANil (rq_id r)))"
proof -
  obtain hs where hs: "fold guard_writer_call calls (w, False) = (w\<lparr>rw_header := hs\<rparr>, True)"
    using guard_calls_suppressed [OF assms(2), of False w] assms(3,4) by blast
  obtain j where j: "json_envelope (error_envelope CodeUnauthorized ''authentication required'' ANil (rq_id r)) = Some j"
    using json_envelope_error_defined by blast
  show ?thesis
    using assms(1,5) hs j
    by (simp add: AuthRequired_run_def reject_def response_error_def response_json_def Let_def
        wire_body_def wire_status_def set_header_def WriteHeader_def Write_def)
qed

section \<open>Examples\<close>

definition sample_guard :: "perm_world engine_guard" where
  "sample_guard mode r s = (GuardNext (Some \<lparr>ar_user = ''u1'', ar_role = [], ar_mask = MNone,
     ar_permissions = []\<rparr>), s)"

definition sample_request :: request where
  "sample_request = \<lparr>rq_method = ''GET'', rq_content_length = 0, rq_transfer_encoding = [],
     rq_headers = [], rq_query = [], rq_url_params = [(''project_id'', ''alpha'')],
     rq_path_values = [], rq_route_pattern = None, rq_remote_addr = [], rq_client_ip = None,
     rq_principal = None, rq_id = ''r1'', rq_body_limit = None\<rparr>"

definition sample_route :: "perm_world route_kind list" where
  "sample_route = project_route sample_guard ''jwt_only'' ''project_id''
     (RelationalResolve Some (Inl (EText [])) 0) 4"

definition sample_handler :: "perm_world handler" where
  "sample_handler r w s = Done (response_ok (AStr ''done'') (rq_id r) w) s"

lemma sample_project: "requestProjectID sample_request = Some ''alpha''"
  "URLParam sample_request ''project_id'' = ''alpha''"
  by (simp_all add: requestProjectID_def URLParam_def sample_request_def str_get_def trim_literal Let_def)

lemma sample_permission: "HasPerm (rs_mask sample_resolution) 4"
  by (simp add: HasPerm_def sample_resolution_def)

lemma project_route_admits_witness:
  "outcome_rw (run_route sample_handler sample_route sample_request rw_new sample_editor)
     = response_ok (AStr ''done'') ''r1'' rw_new"
proof -
  have "run_route sample_handler sample_route sample_request rw_new sample_editor
    = sample_handler (with_principal sample_request (resolved_principal
        ((principal_of_result \<lparr>ar_user = ''u1'', ar_role = [], ar_mask = MNone, ar_permissions = []\<rparr>)
           \<lparr>pr_project_id := ''alpha''\<rparr>) ''alpha'' sample_resolution)) rw_new (tick sample_editor)"
    unfolding sample_route_def
    by (rule project_route_admits [OF _ _ _ _ _ sample_permission])
      (simp_all add: sample_guard_def sample_project trim_literal, rule sample_resolve)
  then show ?thesis by (simp add: sample_handler_def with_principal_def sample_request_def)
qed

lemma sample_route_valid:
  "ValidateRouteMetadata ''GET'' ''/projects/{project_id}/tasks'' (map kind_meta sample_route) = None"
  "hasRBAC (map kind_meta sample_route)"
  by (simp_all add: ValidateRouteMetadata_None blank_def trim_literal sample_route_def
      project_route_def well_wired_def hasRBAC_def metadata_of_def match_metadata_def
      policyOrderStage_def match_follows_required_def patternContainsProjectID_def
      routeProjectPathParam_def normalizePathParam_def case_literal)

text \<open>The same route with a handler that panics when it is not authorised.\<close>

lemma validated_route_authorises_witness:
  "run_route sample_handler sample_route sample_request rw_new sample_editor
   = run_route (\<lambda>r w s. if authorised sample_route r then sample_handler r w s
                         else Panic ''not authorised'' w s)
       sample_route sample_request rw_new sample_editor"
  unfolding run_route_def
  by (rule validated_route_authorises [OF sample_route_valid(1)])
    (simp_all add: sample_route_def project_route_def)

definition sample_outsider :: request where
  "sample_outsider = with_principal sample_request \<lparr>pr_user_id = ''u2'', pr_project_id = ''alpha'',
     pr_role = [], pr_mask = 0, pr_permissions = []\<rparr>"

lemma sample_no_member:
  "RelationalResolve Some (Inl (EText [])) 0 ''u2'' ''alpha'' sample_editor
     = (Inl (EWrap ''project membership not found'' [ErrMembershipNotFound]), tick sample_editor)"
  by (simp add: RelationalResolve_def sample_editor_def sample_defs trim_literal eff_defs
      RelationalQueryOne_def run_stmt_def query_membership_def cast_uuid_def
      membership_matches_def membership_error_def tick_def Let_def)

lemma ResolvePermissions_error_status_witness:
  "\<exists>w'. ResolvePermissions_run (RelationalResolve Some (Inl (EText [])) 0) sample_handler
      sample_outsider rw_new sample_editor = Done w' (tick sample_editor) \<and> wire_status w' = 403"
proof -
  have p: "rq_principal sample_outsider = Some \<lparr>pr_user_id = ''u2'', pr_project_id = ''alpha'',
      pr_role = [], pr_mask = 0, pr_permissions = []\<rparr>"
    by (simp add: sample_outsider_def with_principal_def)
  from ResolvePermissions_error_status [OF p, of "RelationalResolve Some (Inl (EText [])) 0"
      sample_editor "EWrap ''project membership not found'' [ErrMembershipNotFound]"
      "tick sample_editor" rw_new sample_handler] sample_no_member
  show ?thesis by (simp add: trim_literal rw_new_def resolver_error_defs)
qed

definition sample_refusal :: "perm_world engine_guard" where
  "sample_refusal mode r s =
     (GuardStop [CallSet ''Content-Type'' ''text/plain'', CallHeader 401, CallWrite ''unauthorized''], s)"

lemma AuthRequired_refusal_is_json_witness:
  "\<exists>w'. AuthRequired_run sample_refusal ''jwt_only'' sample_handler sample_request rw_new
      sample_editor = Done w' sample_editor \<and> wire_status w' = 401"
proof -
  have call: "sample_refusal (routeMode ''jwt_only'') sample_request sample_editor
      = (GuardStop [CallSet ''Content-Type'' ''text/plain'', CallHeader 401,
           CallWrite ''unauthorized''], sample_editor)"
    by (simp add: sample_refusal_def)
  have "\<exists>w'. AuthRequired_run sample_refusal ''jwt_only'' sample_handler sample_request rw_new
      sample_editor = Done w' sample_editor \<and> wire_status w' = 401
    \<and> Some (wire_body w') = map_option (\<lambda>j. j @ [newline]) (json_envelope (error_envelope
        CodeUnauthorized ''authentication required'' ANil (rq_id sample_request)))"
    by (rule AuthRequired_refusal_is_json [where g = sample_refusal and mode = "''jwt_only''",
          OF call, of "[CallSet ''Content-Type'' ''text/plain'']" "[CallWrite ''unauthorized'']"])
      (simp_all add: rw_new_def)
  then show ?thesis by blast
qed

end
