(* ===== verification/Module_Routes.thy ===== *)
theory Module_Routes
  imports Policy_Cache Guard Config
begin

text \<open>
  The routes of the modules (\<open>internal/modules/*/routes.go\<close>): for every module its table of methods,
  patterns, handlers and policies, and the registration that builds the policies one after the
  other and hands them to \<open>Mux.Handle\<close>. Where the code writes out a variant for each combination
  of a limiter and a cache manager, the table takes the two as flags.
\<close>

section \<open>Policies by constructor\<close>

datatype policy_spec =
    SAuth
  | SProject
  | SMatch string
  | SResolve
  | SPerm mask
  | SJson
  | SLimit rule "keyer option"
  | SLimitOptional rule
  | SRead cache_read_config
  | SReadOptional cache_read_config
  | SInvalidate cache_invalidate_config
  | SInvalidateOptional cache_invalidate_config
  | SControl cache_control
  | SControlOptional int

record route_spec =
  rt_method :: string
  rt_pattern :: string
  rt_handler :: string
  rt_policies :: "policy_spec list"

text \<open>What the runtime of a module hands to the constructors.\<close>

record 'w deps =
  dp_guard :: "'w engine_guard"
  dp_mode :: string
  dp_resolver :: "'w resolver option"
  dp_limiter :: "'w allow option"
  dp_cache :: "'w cache_service option"

text \<open>\<open>RateLimitOptional\<close>.\<close>

definition RateLimitOptional :: "'w allow option \<Rightarrow> rule \<Rightarrow> (err \<Rightarrow> string) \<Rightarrow> registry \<Rightarrow> 'w built" where
  "RateLimitOptional limiter rule show_err reg =
     (if limiter = None then Inr (Noop reg) else RateLimit limiter rule show_err reg)"

fun build_policy :: "'w deps \<Rightarrow> (err \<Rightarrow> string) \<Rightarrow> policy_spec \<Rightarrow> registry \<Rightarrow> 'w built" where
  "build_policy d f SAuth reg = Inr (AuthRequired (dp_guard d) (dp_mode d) reg)"
| "build_policy d f SProject reg = Inr (ProjectRequired reg)"
| "build_policy d f (SMatch param) reg = ProjectMatchFromPath param reg"
| "build_policy d f SResolve reg = ResolvePermissions (dp_resolver d) reg"
| "build_policy d f (SPerm p) reg = RequirePermission p reg"
| "build_policy d f SJson reg = Inr (RequireJSON reg)"
| "build_policy d f (SLimit rule k) reg = RateLimitWithKeyer (dp_limiter d) rule k f reg"
| "build_policy d f (SLimitOptional rule) reg = RateLimitOptional (dp_limiter d) rule f reg"
| "build_policy d f (SRead cfg) reg = CacheRead (dp_cache d) cfg reg"
| "build_policy d f (SReadOptional cfg) reg = CacheReadOptional (dp_cache d) cfg reg"
| "build_policy d f (SInvalidate cfg) reg = CacheInvalidate (dp_cache d) cfg reg"
| "build_policy d f (SInvalidateOptional cfg) reg = CacheInvalidateOptional (dp_cache d) cfg reg"
| "build_policy d f (SControl cfg) reg = CacheControl cfg reg"
| "build_policy d f (SControlOptional ttl) reg = CacheControlOptional (dp_cache d) ttl reg"

fun build_policies :: "'w deps \<Rightarrow> (err \<Rightarrow> string) \<Rightarrow> policy_spec list \<Rightarrow> registry \<Rightarrow> string + ('w pol option list \<times> registry)" where
  "build_policies d f [] reg = Inr ([], reg)"
| "build_policies d f (p # ps) reg =
     (case build_policy d f p reg of Inl m \<Rightarrow> Inl m
      | Inr (pol, reg1) \<Rightarrow> (case build_policies d f ps reg1 of Inl m \<Rightarrow> Inl m
          | Inr (pols, reg2) \<Rightarrow> Inr (pol # pols, reg2)))"

text \<open>One call of \<open>r.Handle\<close>; its arguments are built first.\<close>

definition handle_route ::
  "'w deps \<Rightarrow> (err \<Rightarrow> string) \<Rightarrow> (string \<Rightarrow> 'w handler) \<Rightarrow> route_spec \<Rightarrow> registry \<Rightarrow> string + ('w handler \<times> registry)" where
  "handle_route d f handlers rt reg =
     (case build_policies d f (rt_policies rt) reg of Inl m \<Rightarrow> Inl m
      | Inr (pols, reg') \<Rightarrow>
        (case Mux_Handle reg' (rt_method rt) (rt_pattern rt) (handlers (rt_handler rt)) pols of
           Inl m \<Rightarrow> Inl m | Inr h \<Rightarrow> Inr (h, reg')))"

fun register_routes ::
  "'w deps \<Rightarrow> (err \<Rightarrow> string) \<Rightarrow> (string \<Rightarrow> 'w handler) \<Rightarrow> route_spec list \<Rightarrow> registry
     \<Rightarrow> string + ((route_spec \<times> 'w handler) list \<times> registry)" where
  "register_routes d f handlers [] reg = Inr ([], reg)"
| "register_routes d f handlers (rt # rts) reg =
     (case handle_route d f handlers rt reg of Inl m \<Rightarrow> Inl m
      | Inr (h, reg1) \<Rightarrow> (case register_routes d f handlers rts reg1 of Inl m \<Rightarrow> Inl m
          | Inr (hs, reg2) \<Rightarrow> Inr ((rt, h) # hs, reg2)))"

section \<open>Shared configuration\<close>

definition per_minute :: "int \<Rightarrow> string \<Rightarrow> rule" where
  "per_minute n scope = \<lparr>ru_limit = n, ru_window = seconds 60, ru_scope = scope, ru_keyer = None\<rparr>"

definition tag_by :: "string list \<Rightarrow> bool \<Rightarrow> bool \<Rightarrow> string \<Rightarrow> tag_spec" where
  "tag_by params by_project by_user name = \<lparr>ts_name = name, ts_path_params = params, ts_project_id = by_project,
     ts_user_id = by_user, ts_literals = []\<rparr>"

definition vary :: "bool \<Rightarrow> bool \<Rightarrow> string list \<Rightarrow> string list \<Rightarrow> vary_by" where
  "vary by_project by_user params queries = \<lparr>vb_method = False, vb_project_id = by_project, vb_user_id = by_user,
     vb_role = False, vb_path_params = params, vb_query_params = queries, vb_headers = []\<rparr>"

definition read_config :: "int \<Rightarrow> int \<Rightarrow> tag_spec list \<Rightarrow> bool \<Rightarrow> vary_by \<Rightarrow> cache_read_config" where
  "read_config ttl max_bytes tags shared v = \<lparr>rc_key = [], rc_ttl = ttl, rc_max_bytes = max_bytes, rc_tag_specs = tags,
     rc_methods = [], rc_statuses = [], rc_vary_by = v, rc_fail_open = None, rc_allow_authenticated = True,
     rc_shared_authenticated = shared\<rparr>"

definition invalidate :: "tag_spec list \<Rightarrow> cache_invalidate_config" where
  "invalidate tags = \<lparr>ic_tag_specs = tags, ic_fail_open = None\<rparr>"

definition route :: "string \<Rightarrow> string \<Rightarrow> string \<Rightarrow> policy_spec list \<Rightarrow> route_spec" where
  "route method pattern h ps = \<lparr>rt_method = method, rt_pattern = pattern, rt_handler = h, rt_policies = ps\<rparr>"

definition project_guards :: "policy_spec list" where
  "project_guards = [SAuth, SProject, SMatch ''projectId'', SResolve]"

definition cached_read :: "bool \<Rightarrow> cache_read_config \<Rightarrow> policy_spec list" where
  "cached_read c cfg = (if c then [SRead cfg, SControl (private_for (rc_ttl cfg))] else [])"

definition limited_write :: "bool \<Rightarrow> bool \<Rightarrow> rule \<Rightarrow> tag_spec list \<Rightarrow> policy_spec list" where
  "limited_write l c rule tags = (if l then [SLimit rule None] else []) @ (if c then [SInvalidate (invalidate tags)] else [])"

section \<open>Modules\<close>

text \<open>Lists, details and writes of an artifact kind share one shape.\<close>

definition list_queries :: "string list" where
  "list_queries = [''filter.status'', ''status'', ''pagination.cursor'', ''cursor'', ''pagination.limit'', ''limit'']"

definition read_optional :: "mask \<Rightarrow> int \<Rightarrow> tag_spec list \<Rightarrow> string list \<Rightarrow> string list \<Rightarrow> policy_spec list" where
  "read_optional view ttl tags params queries = project_guards @ [SPerm view,
     SReadOptional (read_config ttl (100 * 1024) tags False (vary True False params queries)), SControlOptional ttl]"

definition write_optional :: "mask \<Rightarrow> tag_spec list \<Rightarrow> policy_spec list" where
  "write_optional p tags = project_guards @ [SJson, SPerm p, SLimitOptional (per_minute 40 ScopeProject),
     SInvalidateOptional (invalidate tags)]"

definition item_routes ::
  "string \<Rightarrow> string \<Rightarrow> domain \<Rightarrow> tag_spec list \<Rightarrow> string list \<Rightarrow> string \<Rightarrow> string \<Rightarrow> route_spec list" where
  "item_routes path param dm tags queries item items =
     (let base = ''/api/v1/projects/{projectId}/'' @ path; detail = base @ ''/{'' @ param @ ''}'' in
      [route ''GET'' base (''List'' @ items) (read_optional (perm dm AView) (seconds 30) tags [''projectId''] queries),
       route ''POST'' base (''Create'' @ item) (write_optional (perm dm ACreate) tags),
       route ''GET'' detail (''Get'' @ item) (read_optional (perm dm AView) (seconds 90) tags [''projectId'', param] []),
       route ''PATCH'' detail (''Update'' @ item) (write_optional (perm dm AEdit) tags)])"

definition project_tags :: "string list \<Rightarrow> tag_spec list" where
  "project_tags names = map (tag_by [''projectId''] False False) names"

definition story_routes :: "route_spec list" where
  "story_routes = item_routes ''stories'' ''storyId'' DStory (project_tags [''artifacts.project'', ''artifacts.story'']) list_queries
     ''Story'' ''Stories''"

definition journey_routes :: "route_spec list" where
  "journey_routes = item_routes ''journeys'' ''journeyId'' DStory (project_tags [''artifacts.project'', ''artifacts.journey'']) list_queries
     ''Journey'' ''Journeys''"

definition problem_routes :: "route_spec list" where
  "problem_routes = item_routes ''problems'' ''problemId'' DProblem (project_tags [''artifacts.project'', ''artifacts.problem'']) list_queries
     ''Problem'' ''Problems''"

definition idea_routes :: "route_spec list" where
  "idea_routes = item_routes ''ideas'' ''ideaId'' DIdea (project_tags [''artifacts.project'', ''artifacts.idea'']) list_queries
     ''Idea'' ''Ideas''"

definition task_routes :: "route_spec list" where
  "task_routes = item_routes ''tasks'' ''taskId'' DTask (project_tags [''artifacts.project'', ''artifacts.task'']) list_queries
     ''Task'' ''Tasks''"

definition artifact_feedback_routes :: "route_spec list" where
  "artifact_feedback_routes = item_routes ''feedback'' ''feedbackId'' DFeedback (project_tags [''artifacts.project'', ''artifacts.feedback''])
     [''filter.status'', ''status'', ''filter.outcome'', ''outcome'', ''pagination.cursor'', ''cursor'', ''pagination.limit'', ''limit'']
     ''Feedback'' ''Feedback''"

definition artifacts_routes :: "route_spec list" where
  "artifacts_routes = story_routes @ journey_routes @ problem_routes @ idea_routes @ task_routes @ artifact_feedback_routes"

definition pages_routes :: "route_spec list" where
  "pages_routes =
     (let tags = project_tags [''pages.project'', ''pages.page''] in
      item_routes ''pages'' ''pageId'' DPage tags list_queries ''Page'' ''Pages''
      @ [route ''PATCH'' ''/api/v1/projects/{projectId}/pages/{pageId}/rename'' ''RenamePage'' (write_optional (perm DPage AEdit) tags)])"

definition resources_routes :: "route_spec list" where
  "resources_routes =
     item_routes ''resources'' ''resourceId'' DResource (project_tags [''resources.project'', ''resources.resource''])
       [''filter.status'', ''status'', ''filter.docType'', ''docType'', ''sorting.sort'', ''sort'', ''sorting.order'', ''order'',
        ''pagination.cursor'', ''cursor'', ''pagination.limit'', ''limit''] ''Resource'' ''Resources''"

definition calendar_routes :: "route_spec list" where
  "calendar_routes =
     (let base = ''/api/v1/projects/{projectId}/calendar''; detail = base @ ''/{eventId}'';
          limit = SLimitOptional (per_minute 40 ScopeProject) in
      [route ''GET'' base ''ListCalendarData'' (project_guards @ [SPerm (perm DCalendar AView)]),
       route ''POST'' base ''CreateCalendarEvent'' (project_guards @ [SJson, SPerm (perm DCalendar ACreate), limit]),
       route ''GET'' detail ''GetCalendarEvent'' (project_guards @ [SPerm (perm DCalendar AView)]),
       route ''PATCH'' detail ''UpdateCalendarEvent'' (project_guards @ [SJson, SPerm (perm DCalendar AEdit), limit]),
       route ''DELETE'' detail ''DeleteCalendarEvent'' (project_guards @ [SPerm (perm DCalendar ADelete), limit])])"

definition activity_routes :: "route_spec list" where
  "activity_routes =
     [route ''GET'' ''/api/v1/projects/{projectId}/activity'' ''ListProjectActivity'' (project_guards @ [SPerm (perm DProject AView)])]"

definition feedback_routes :: "bool \<Rightarrow> route_spec list" where
  "feedback_routes l =
     [route ''POST'' ''/api/v1/feedback'' ''Submit''
        ([SAuth, SJson] @ (if l then [SLimit (per_minute 5 ScopeUser) None] else []))]"

definition health_routes :: "route_spec list" where
  "health_routes = [route ''GET'' ''/healthz'' ''healthz'' [], route ''GET'' ''/readyz'' ''readyz'' []]"

definition team_tags :: "tag_spec list" where
  "team_tags = map (tag_by [] True False) [''team.members'', ''team.roles'']"

definition team_routes :: "bool \<Rightarrow> bool \<Rightarrow> route_spec list" where
  "team_routes l c =
     (let base = ''/api/v1/projects/{projectId}/team'';
          read = (\<lambda>tag. cached_read c (read_config (seconds 30) 0 [tag_by [] True False tag] False (vary True False [] [])));
          write = (\<lambda>n. limited_write l c (per_minute n ScopeProject) team_tags) in
      [route ''GET'' (base @ ''/members'') ''ListMembers'' (project_guards @ [SPerm (perm DMember AView)] @ read ''team.members''),
       route ''GET'' (base @ ''/roles'') ''ListRoles'' (project_guards @ [SPerm (perm DMember AView)] @ read ''team.roles''),
       route ''POST'' (base @ ''/invites'') ''CreateInvite'' (project_guards @ [SPerm (perm DMember ACreate), SJson] @ write 30),
       route ''POST'' (base @ ''/invites/batch'') ''BatchInvites'' (project_guards @ [SPerm (perm DMember ACreate), SJson] @ write 10),
       route ''DELETE'' (base @ ''/invites/{email}'') ''CancelInvite'' (project_guards @ [SPerm (perm DMember ADelete)] @ write 30),
       route ''PATCH'' (base @ ''/members/{memberId}/permissions'') ''UpdateMemberPermissions''
         (project_guards @ [SPerm (perm DMember AEdit), SJson] @ write 20),
       route ''PATCH'' (base @ ''/roles/{role}/permissions'') ''UpdateRolePermissions''
         (project_guards @ [SPerm (perm DMember AEdit), SJson] @ write 20)])"

definition project_routes :: "bool \<Rightarrow> bool \<Rightarrow> route_spec list" where
  "project_routes l c =
     (let base = ''/api/v1/projects/{projectId}''; view = SPerm (perm DProject AView);
          read = (\<lambda>ttl tag by_user. cached_read c
             (read_config ttl (100 * 1024) [tag_by [] True False tag] False (vary True by_user [] [])));
          tags = map (tag_by [] True False) [''project.dashboard'', ''project.overview'', ''project.access'', ''project.settings''];
          write = (\<lambda>n. limited_write l c (per_minute n ScopeProject) tags) in
      [route ''GET'' (base @ ''/dashboard'') ''Dashboard'' (project_guards @ [view] @ read (seconds 30) ''project.dashboard'' False),
       route ''GET'' (base @ ''/overview'') ''Overview'' (project_guards @ [view] @ read (seconds 300) ''project.overview'' False),
       route ''GET'' (base @ ''/search'') ''Search'' (project_guards @ [view]),
       route ''GET'' (base @ ''/access'') ''Access'' (project_guards @ read (seconds 30) ''project.access'' True),
       route ''GET'' (base @ ''/settings'') ''GetSettings'' (project_guards @ [view] @ read (seconds 300) ''project.settings'' False),
       route ''PATCH'' (base @ ''/settings'') ''UpdateSettings'' (project_guards @ [SPerm (perm DProject AEdit), SJson] @ write 20),
       route ''POST'' (base @ ''/archive'') ''Archive'' (project_guards @ [SPerm (perm DProject AArchive)] @ write 10),
       route ''DELETE'' base ''Delete'' (project_guards @ [SPerm (perm DProject ADelete)] @ write 5)])"

definition user_tags :: "string list \<Rightarrow> tag_spec list" where
  "user_tags names = map (tag_by [] False True) names"

definition home_read :: "bool \<Rightarrow> int \<Rightarrow> string \<Rightarrow> string list \<Rightarrow> policy_spec list" where
  "home_read c ttl tag queries = SAuth # cached_read c
     (read_config (seconds ttl) 0 (user_tags [tag]) False (vary False True [] queries))"

definition home_routes :: "bool \<Rightarrow> bool \<Rightarrow> route_spec list" where
  "home_routes l c =
     (let write = (\<lambda>n tags. limited_write l c (per_minute n ScopeUser) (user_tags tags)) in
      [route ''GET'' ''/api/v1/home/dashboard'' ''Dashboard'' (home_read c 30 ''home.dashboard'' []),
       route ''GET'' ''/api/v1/home/projects'' ''ListProjects'' (home_read c 30 ''home.projects'' [''limit'', ''offset'']),
       route ''GET'' ''/api/v1/home/projects/reference'' ''ProjectReference'' (home_read c 60 ''home.reference'' []),
       route ''GET'' ''/api/v1/home/invites'' ''ListInvites'' (home_read c 20 ''home.invites'' []),
       route ''GET'' ''/api/v1/home/notifications'' ''ListNotifications'' (home_read c 15 ''home.notifications'' [''limit'']),
       route ''GET'' ''/api/v1/home/activity'' ''ListActivity'' (home_read c 15 ''home.activity'' [''limit'', ''type'', ''projectId'']),
       route ''GET'' ''/api/v1/home/dashboard-activity'' ''DashboardActivity'' (home_read c 15 ''home.dashboard_activity'' [''limit'']),
       route ''GET'' ''/api/v1/home/account'' ''GetAccountSettings'' (home_read c 60 ''home.account'' []),
       route ''GET'' ''/api/v1/home/docs'' ''Docs'' (SAuth # cached_read c
         (read_config (seconds 300) 0 [tag_by [] False False ''home.docs''] True (vary False False [] []))),
       route ''POST'' ''/api/v1/home/projects'' ''CreateProject'' ([SAuth, SJson] @ write 10 [''home.dashboard'', ''home.projects'', ''home.reference'']),
       route ''POST'' ''/api/v1/home/invites/{inviteId}/accept'' ''AcceptInvite''
         ([SAuth] @ write 30 [''home.dashboard'', ''home.invites'', ''home.projects'']),
       route ''POST'' ''/api/v1/home/invites/{inviteId}/decline'' ''DeclineInvite'' ([SAuth] @ write 30 [''home.invites'', ''home.dashboard'']),
       route ''PATCH'' ''/api/v1/home/account'' ''UpdateAccountSettings'' ([SAuth, SJson] @ write 20 [''home.account'', ''home.dashboard''])])"

text \<open>The limits of the authentication routes come from the configuration; a value that is not positive
  means the default.\<close>

definition or_default :: "int \<Rightarrow> int \<Rightarrow> int" where
  "or_default v d = (if v \<le> 0 then d else v)"

text \<open>\<open>refreshTokenRateLimitKeyer\<close>: \<open>body_token\<close> is the refresh token of a JSON body of at most 4096 bytes,
  if it has one.\<close>

definition refreshTokenRateLimitKeyer :: "(request \<Rightarrow> string option) \<Rightarrow> int \<Rightarrow> keyer" where
  "refreshTokenRateLimitKeyer body_token prefixLen r =
     (let prefixLen = (if prefixLen \<le> 0 then 16 else prefixLen) in
      case body_token r of None \<Rightarrow> KeyByIP r
      | Some raw \<Rightarrow> let token = trim_space raw in
          if token = [] then KeyByIP r
          else (ScopeToken, take (nat prefixLen) (hex_encode (sum256 token))))"

definition auth_routes :: "bool \<Rightarrow> auth_tuning \<Rightarrow> (request \<Rightarrow> string option) \<Rightarrow> route_spec list" where
  "auth_routes l t body_token =
     (let window = or_default (at_window t) (seconds 60);
          limit = (\<lambda>n scope keyer. if l then [SLimit \<lparr>ru_limit = n, ru_window = window, ru_scope = scope, ru_keyer = None\<rparr> (Some keyer)] else []);
          verify = or_default (at_verify t) 20; password = or_default (at_password t) 15;
          change = limit (or_default (at_change_password t) 10) ScopeUser KeyByUser in
      [route ''POST'' ''/api/v1/auth/signup'' ''Signup'' (SJson # limit (or_default (at_signup t) 20) ScopeIP KeyByIP),
       route ''POST'' ''/api/v1/auth/login'' ''Login'' (SJson # limit (or_default (at_login t) 30) ScopeIP KeyByIP),
       route ''POST'' ''/api/v1/auth/verify-email'' ''VerifyEmail'' (SJson # limit verify ScopeIP KeyByIP),
       route ''POST'' ''/api/v1/auth/resend-verification'' ''ResendVerification'' (SJson # limit verify ScopeIP KeyByIP),
       route ''POST'' ''/api/v1/auth/forgot-password'' ''ForgotPassword'' (SJson # limit password ScopeIP KeyByIP),
       route ''POST'' ''/api/v1/auth/reset-password'' ''ResetPassword'' (SJson # limit password ScopeIP KeyByIP),
       route ''POST'' ''/api/v1/auth/change-password/request-otp'' ''RequestChangePasswordOTP'' ([SJson, SAuth] @ change),
       route ''POST'' ''/api/v1/auth/change-password/confirm'' ''ConfirmChangePassword'' ([SJson, SAuth] @ change),
       route ''POST'' ''/api/v1/auth/refresh'' ''Refresh''
         (SJson # limit (or_default (at_refresh t) 45) ScopeIP (refreshTokenRateLimitKeyer body_token 16)),
       route ''POST'' ''/api/v1/auth/logout'' ''Logout''
         (SAuth # limit (or_default (at_logout t) 60) ScopeUser (KeyByUserOrProjectOrTokenHash 16))])"

definition system_routes :: "bool \<Rightarrow> rule \<Rightarrow> route_spec list" where
  "system_routes l rule =
     (let limit = (if l then [SLimit rule (Some (KeyByUserOrProjectOrTokenHash 16))] else []) in
      [route ''POST'' ''/system/parse-duration'' ''parseDuration'' [SJson],
       route ''GET'' ''/api/v1/system/whoami'' ''whoami'' (SAuth # limit),
       route ''GET'' ''/api/v1/system/session-context'' ''sessionContext'' (SAuth # limit)])"

text \<open>\<open>BindDependencies\<close> of the system module.\<close>

definition system_rule :: "int \<Rightarrow> int \<Rightarrow> rule" where
  "system_rule limit window = \<lparr>ru_limit = or_default limit 10, ru_window = or_default window (seconds 60),
     ru_scope = ScopeUser, ru_keyer = None\<rparr>"

section \<open>All modules\<close>

record app_config =
  ac_tuning :: auth_tuning
  ac_default_limit :: int
  ac_default_window :: int
  ac_body_token :: "request \<Rightarrow> string option"

text \<open>In registration order: the name, whether the module insists on a permission resolver, its routes.\<close>

definition modules :: "app_config \<Rightarrow> bool \<Rightarrow> bool \<Rightarrow> (string \<times> bool \<times> route_spec list) list" where
  "modules cfg l c =
     [(''auth'', False, auth_routes l (ac_tuning cfg) (ac_body_token cfg)),
      (''home'', False, home_routes l c),
      (''project'', True, project_routes l c),
      (''artifacts'', True, artifacts_routes),
      (''resources'', True, resources_routes),
      (''pages'', True, pages_routes),
      (''calendar'', True, calendar_routes),
      (''activity'', True, activity_routes),
      (''team'', True, team_routes l c),
      (''feedback'', False, feedback_routes l),
      (''health'', False, health_routes),
      (''system'', False, system_routes l (system_rule (ac_default_limit cfg) (ac_default_window cfg)))]"

fun register_modules ::
  "'w deps \<Rightarrow> (err \<Rightarrow> string) \<Rightarrow> (string \<Rightarrow> string \<Rightarrow> 'w handler) \<Rightarrow> (string \<times> bool \<times> route_spec list) list \<Rightarrow> registry
     \<Rightarrow> string + ((route_spec \<times> 'w handler) list \<times> registry)" where
  "register_modules d f handlers [] reg = Inr ([], reg)"
| "register_modules d f handlers ((name, needs_resolver, rts) # ms) reg =
     (if needs_resolver \<and> dp_resolver d = None then Inl (name @ '' module requires permission resolver'')
      else case register_routes d f (handlers name) rts reg of Inl m \<Rightarrow> Inl m
      | Inr (hs, reg1) \<Rightarrow> (case register_modules d f handlers ms reg1 of Inl m \<Rightarrow> Inl m
          | Inr (hs', reg2) \<Rightarrow> Inr (hs @ hs', reg2)))"

definition Register ::
  "app_config \<Rightarrow> 'w deps \<Rightarrow> (err \<Rightarrow> string) \<Rightarrow> (string \<Rightarrow> string \<Rightarrow> 'w handler) \<Rightarrow> registry
     \<Rightarrow> string + ((route_spec \<times> 'w handler) list \<times> registry)" where
  "Register cfg d f handlers reg =
     register_modules d f handlers (modules cfg (dp_limiter d \<noteq> None) (dp_cache d \<noteq> None)) reg"

end
