(* ===== verification/Route_Laws.thy ===== *)
theory Route_Laws
  imports Module_Routes
begin

text \<open>
  Every route of the program is accepted by the validator when it is registered, and the routes that
  check a permission run their handlers for authorised requests only.
\<close>

section \<open>The remaining policies are guards that change nothing\<close>

interpretation limited: guard "RateLimit_run allow rule" same_rel for allow rule
  by unfold_locales (auto simp: only_calls_def same_rel_def RateLimit_run_def split: prod.splits sum.splits)

interpretation controlled: guard "CacheControl_run directive vary" same_rel for directive vary
  by unfold_locales (auto simp: only_calls_def same_rel_def CacheControl_run_def Let_def)

interpretation invalidating: guard "CacheInvalidate_run cs cfg" same_rel for cs cfg
  by unfold_locales (simp_all add: only_calls_def same_rel_def CacheInvalidate_run_def)

lemma read_through_only_calls: "(\<And>w s. n1 r w s = n2 r w s) \<Longrightarrow>
    read_through cs rt ttl key n1 r w s = read_through cs rt ttl key n2 r w s"
  by (simp add: read_through_def)

interpretation cached: guard "CacheRead_run cs cfg" same_rel for cs cfg
proof unfold_locales
  show "only_calls (CacheRead_run cs cfg) same_rel"
  proof (rule only_callsI)
    fix r and n1 n2 :: "'a handler" and w s
    assume "\<And>r' w s. same_rel r r' \<Longrightarrow> n1 r' w s = n2 r' w s"
    then have same: "n1 r w s = n2 r w s" for w s by (simp add: same_rel_def)
    have through: "read_through cs rt ttl key n1 r w s = read_through cs rt ttl key n2 r w s" for rt ttl key w s
      using same by (rule read_through_only_calls)
    show "CacheRead_run cs cfg n1 r w s = CacheRead_run cs cfg n2 r w s"
      unfolding CacheRead_run_def by (simp only: same through)
  qed
qed (simp add: same_rel_def)

section \<open>What a constructor yields\<close>

text \<open>The policy value, its code pointer and its metadata; \<open>l\<close> and \<open>c\<close> say whether there are a limiter
  and a cache manager.\<close>

abbreviation "noop_meta \<equiv> metadata_of PolicyTypeNoop ''Noop''"
abbreviation "limit_meta \<equiv> metadata_of PolicyTypeRateLimit ''RateLimit''"
abbreviation "control_meta \<equiv> metadata_of PolicyTypeCacheControl ''CacheControl''"

definition invalidate_meta :: "cache_invalidate_config \<Rightarrow> metadata" where
  "invalidate_meta cfg = (metadata_of PolicyTypeCacheInvalidate ''CacheInvalidate'')
     \<lparr>md_tag_spec_count := int (length (normalizeTagSpecs (ic_tag_specs cfg)))\<rparr>"

fun spec_meta :: "bool \<Rightarrow> bool \<Rightarrow> policy_spec \<Rightarrow> metadata" where
  "spec_meta l c SAuth = metadata_of PolicyTypeAuthRequired ''AuthRequired''"
| "spec_meta l c SProject = metadata_of PolicyTypeProjectRequired ''ProjectRequired''"
| "spec_meta l c (SMatch param) = match_metadata (trim_space param)"
| "spec_meta l c SResolve = metadata_of PolicyTypeResolvePermissions ''ResolvePermissions''"
| "spec_meta l c (SPerm p) = metadata_of PolicyTypeRequirePermission ''RequirePermission''"
| "spec_meta l c SJson = metadata_of PolicyTypeRequireJSON ''RequireJSON''"
| "spec_meta l c (SLimit rule k) = limit_meta"
| "spec_meta l c (SLimitOptional rule) = (if l then limit_meta else noop_meta)"
| "spec_meta l c (SRead cfg) = cache_read_metadata_of cfg"
| "spec_meta l c (SReadOptional cfg) = (if c then cache_read_metadata_of cfg else noop_meta)"
| "spec_meta l c (SInvalidate cfg) = invalidate_meta cfg"
| "spec_meta l c (SInvalidateOptional cfg) = (if c then invalidate_meta cfg else noop_meta)"
| "spec_meta l c (SControl cfg) = control_meta"
| "spec_meta l c (SControlOptional ttl) = (if c then control_meta else noop_meta)"

fun spec_code :: "bool \<Rightarrow> bool \<Rightarrow> policy_spec \<Rightarrow> string" where
  "spec_code l c SAuth = ''policy.authRequiredWithEngine.func1''"
| "spec_code l c SProject = ''policy.ProjectRequired.func1''"
| "spec_code l c (SMatch param) = ''policy.ProjectMatchFromPath.func1''"
| "spec_code l c SResolve = ''policy.ResolvePermissions.func1''"
| "spec_code l c (SPerm p) = ''policy.RequirePermission.func1''"
| "spec_code l c SJson = ''policy.RequireJSON.func1''"
| "spec_code l c (SLimit rule k) = ''policy.RateLimitWithKeyer.func1''"
| "spec_code l c (SLimitOptional rule) = (if l then ''policy.RateLimitWithKeyer.func1'' else ''policy.Noop.func1'')"
| "spec_code l c (SRead cfg) = ''policy.CacheRead.func1''"
| "spec_code l c (SReadOptional cfg) = (if c then ''policy.CacheRead.func1'' else ''policy.Noop.func1'')"
| "spec_code l c (SInvalidate cfg) = ''policy.CacheInvalidate.func1''"
| "spec_code l c (SInvalidateOptional cfg) = (if c then ''policy.CacheInvalidate.func1'' else ''policy.Noop.func1'')"
| "spec_code l c (SControl cfg) = ''policy.CacheControl.func1''"
| "spec_code l c (SControlOptional ttl) = (if c then ''policy.CacheControl.func1'' else ''policy.Noop.func1'')"

definition control_run :: "cache_control \<Rightarrow> 'w policy" where
  "control_run cfg = (case buildCacheControl cfg of Inl e \<Rightarrow> Noop_run | Inr (d, v) \<Rightarrow> CacheControl_run d v)"

definition with_keyer :: "rule \<Rightarrow> keyer option \<Rightarrow> rule" where
  "with_keyer rule k = (case k of None \<Rightarrow> rule | Some kf \<Rightarrow> rule\<lparr>ru_keyer := Some kf\<rparr>)"

fun spec_run :: "'w deps \<Rightarrow> policy_spec \<Rightarrow> 'w policy" where
  "spec_run d SAuth = AuthRequired_run (dp_guard d) (dp_mode d)"
| "spec_run d SProject = ProjectRequired_run"
| "spec_run d (SMatch param) = ProjectMatchFromPath_run (trim_space param)"
| "spec_run d SResolve = ResolvePermissions_run (the (dp_resolver d))"
| "spec_run d (SPerm p) = RequirePermission_run p"
| "spec_run d SJson = RequireJSON_run"
| "spec_run d (SLimit rule k) = RateLimit_run (the (dp_limiter d)) (with_keyer rule k)"
| "spec_run d (SLimitOptional rule) = (if dp_limiter d = None then Noop_run else RateLimit_run (the (dp_limiter d)) rule)"
| "spec_run d (SRead cfg) = CacheRead_run (the (dp_cache d)) cfg"
| "spec_run d (SReadOptional cfg) = (if dp_cache d = None then Noop_run else CacheRead_run (the (dp_cache d)) cfg)"
| "spec_run d (SInvalidate cfg) = CacheInvalidate_run (the (dp_cache d)) cfg"
| "spec_run d (SInvalidateOptional cfg) = (if dp_cache d = None then Noop_run else CacheInvalidate_run (the (dp_cache d)) cfg)"
| "spec_run d (SControl cfg) = control_run cfg"
| "spec_run d (SControlOptional ttl) = (if dp_cache d = None then Noop_run else control_run (private_for ttl))"

text \<open>The arguments a constructor accepts.\<close>

definition read_ok :: "cache_read_config \<Rightarrow> bool" where
  "read_ok cfg \<longleftrightarrow> 0 < rc_ttl cfg \<and> validateCacheTagSpecs (rc_tag_specs cfg) False = None"

definition control_ok :: "cache_control \<Rightarrow> bool" where
  "control_ok cfg \<longleftrightarrow> (case buildCacheControl cfg of Inl e \<Rightarrow> False | Inr r \<Rightarrow> True)"

fun spec_ok :: "bool \<Rightarrow> bool \<Rightarrow> policy_spec \<Rightarrow> bool" where
  "spec_ok l c (SMatch param) \<longleftrightarrow> trim_space param \<noteq> []"
| "spec_ok l c (SPerm p) \<longleftrightarrow> p \<noteq> 0"
| "spec_ok l c (SLimit rule k) \<longleftrightarrow> l \<and> rule_validate rule = None"
| "spec_ok l c (SLimitOptional rule) \<longleftrightarrow> rule_validate rule = None"
| "spec_ok l c (SRead cfg) \<longleftrightarrow> c \<and> read_ok cfg"
| "spec_ok l c (SReadOptional cfg) \<longleftrightarrow> read_ok cfg"
| "spec_ok l c (SInvalidate cfg) \<longleftrightarrow> c \<and> validateCacheTagSpecs (ic_tag_specs cfg) True = None"
| "spec_ok l c (SInvalidateOptional cfg) \<longleftrightarrow> validateCacheTagSpecs (ic_tag_specs cfg) True = None"
| "spec_ok l c (SControl cfg) \<longleftrightarrow> control_ok cfg"
| "spec_ok l c (SControlOptional ttl) \<longleftrightarrow> control_ok (private_for ttl)"
| "spec_ok l c _ \<longleftrightarrow> True"

definition spec_pol :: "'w deps \<Rightarrow> policy_spec \<Rightarrow> 'w pol" where
  "spec_pol d s = \<lparr>pv_code = spec_code (dp_limiter d \<noteq> None) (dp_cache d \<noteq> None) s, pv_run = spec_run d s\<rparr>"

lemma annotated_cache [simp]: "annotated_metadata (cache_read_metadata_of cfg) = cache_read_metadata_of cfg"
  "annotated_metadata (invalidate_meta ic) = invalidate_meta ic"
  by (simp_all add: annotated_metadata_def cache_read_metadata_of_def invalidate_meta_def metadata_of_def trim_literal)

lemma rule_validate_keyer [simp]: "rule_validate (rule\<lparr>ru_keyer := k\<rparr>) = rule_validate rule"
  by (simp add: rule_validate_def)

lemma build_policy_ok:
  assumes "dp_resolver d \<noteq> None" "spec_ok (dp_limiter d \<noteq> None) (dp_cache d \<noteq> None) s"
  shows "build_policy d f s reg = Inr (Some (spec_pol d s),
     reg(pv_code (spec_pol d s) \<mapsto> spec_meta (dp_limiter d \<noteq> None) (dp_cache d \<noteq> None) s))"
  using assms
  by (cases s)
    (auto simp: spec_pol_def build_def annotatePolicy_def policyPointer_def AuthRequired_def ProjectRequired_def
      ProjectMatchFromPath_def ResolvePermissions_def RequirePermission_def RequireJSON_def RateLimitWithKeyer_def
      RateLimitOptional_def RateLimit_def CacheRead_def CacheReadOptional_def CacheInvalidate_def
      CacheInvalidateOptional_def CacheControl_def CacheControlOptional_def Noop_def control_run_def control_ok_def
      read_ok_def with_keyer_def invalidate_meta_def [symmetric] trim_literal Let_def fun_eq_iff
      split: sum.splits prod.splits option.splits)

section \<open>Registering a route\<close>

definition spec_consistent :: "bool \<Rightarrow> bool \<Rightarrow> policy_spec list \<Rightarrow> bool" where
  "spec_consistent l c ss \<longleftrightarrow>
     list_all (\<lambda>s. list_all (\<lambda>t. spec_code l c s = spec_code l c t \<longrightarrow> spec_meta l c s = spec_meta l c t) ss) ss"

definition route_ok :: "bool \<Rightarrow> bool \<Rightarrow> route_spec \<Rightarrow> bool" where
  "route_ok l c rt \<longleftrightarrow> list_all (spec_ok l c) (rt_policies rt) \<and> spec_consistent l c (rt_policies rt)
     \<and> ValidateRouteMetadata (rt_method rt) (rt_pattern rt) (map (spec_meta l c) (rt_policies rt)) = None"

lemma build_policies_ok:
  assumes "dp_resolver d \<noteq> None" "list_all (spec_ok (dp_limiter d \<noteq> None) (dp_cache d \<noteq> None)) ss"
  shows "\<exists>reg'. build_policies d f ss reg = Inr (map (\<lambda>s. Some (spec_pol d s)) ss, reg')
    \<and> (\<forall>k. reg' k \<noteq> reg k \<longrightarrow> k \<in> (\<lambda>s. pv_code (spec_pol d s)) ` set ss)
    \<and> (\<forall>k \<in> (\<lambda>s. pv_code (spec_pol d s)) ` set ss. \<exists>s \<in> set ss. pv_code (spec_pol d s) = k
          \<and> reg' k = Some (spec_meta (dp_limiter d \<noteq> None) (dp_cache d \<noteq> None) s))"
  using assms(2)
proof (induction ss arbitrary: reg)
  case (Cons s ss)
  let ?m = "spec_meta (dp_limiter d \<noteq> None) (dp_cache d \<noteq> None)"
  let ?reg1 = "reg(pv_code (spec_pol d s) \<mapsto> ?m s)"
  have one: "build_policy d f s reg = Inr (Some (spec_pol d s), ?reg1)"
    using build_policy_ok [OF assms(1)] Cons.prems by simp
  have oks: "list_all (spec_ok (dp_limiter d \<noteq> None) (dp_cache d \<noteq> None)) ss" using Cons.prems by simp
  from Cons.IH [OF oks, of ?reg1] obtain reg' where rest: "build_policies d f ss ?reg1 = Inr (map (\<lambda>s. Some (spec_pol d s)) ss, reg')"
    "\<forall>k. reg' k \<noteq> ?reg1 k \<longrightarrow> k \<in> (\<lambda>s. pv_code (spec_pol d s)) ` set ss"
    "\<forall>k \<in> (\<lambda>s. pv_code (spec_pol d s)) ` set ss. \<exists>s \<in> set ss. pv_code (spec_pol d s) = k \<and> reg' k = Some (?m s)"
    by blast
  have found: "\<exists>u \<in> set (s # ss). pv_code (spec_pol d u) = k \<and> reg' k = Some (?m u)"
    if k: "k \<in> (\<lambda>s. pv_code (spec_pol d s)) ` set (s # ss)" for k
  proof (cases "k \<in> (\<lambda>s. pv_code (spec_pol d s)) ` set ss")
    case True
    with rest(3) show ?thesis by auto
  next
    case False
    with rest(2) have "reg' k = ?reg1 k" by blast
    moreover from k False have "k = pv_code (spec_pol d s)" by simp
    ultimately show ?thesis by simp
  qed
  have changed: "k \<in> (\<lambda>s. pv_code (spec_pol d s)) ` set (s # ss)" if "reg' k \<noteq> reg k" for k
    using that rest(2) by (cases "reg' k = ?reg1 k") (auto split: if_splits)
  show ?case
  proof (intro exI [of _ reg'] conjI)
    show "build_policies d f (s # ss) reg = Inr (map (\<lambda>s. Some (spec_pol d s)) (s # ss), reg')"
      by (simp only: build_policies.simps one rest(1) sum.case prod.case list.map)
  qed (use found changed in blast)+
qed simp

lemma describe_from_ok:
  "(\<And>p. p \<in> set ps \<Longrightarrow> reg (pv_code p) = Some (meta p)) \<Longrightarrow> describe_from reg i (map Some ps) = Inr (map meta ps)"
  by (induction ps arbitrary: i) (simp_all add: DescribePolicy_def policyPointer_def)

lemma DescribePolicies_spec:
  assumes "\<And>s. s \<in> set ss \<Longrightarrow> reg (pv_code (spec_pol d s)) = Some (m s)"
  shows "DescribePolicies reg (map (\<lambda>s. Some (spec_pol d s)) ss) = Inr (map m ss)"
proof -
  have "describe_from reg i (map (\<lambda>s. Some (spec_pol d s)) ss) = Inr (map m ss)" for i
    using assms by (induction ss arbitrary: i) (simp_all add: DescribePolicy_def policyPointer_def)
  then show ?thesis by (simp add: DescribePolicies_def)
qed

lemma spec_consistentD:
  "spec_consistent l c ss \<Longrightarrow> s \<in> set ss \<Longrightarrow> t \<in> set ss \<Longrightarrow> spec_code l c s = spec_code l c t
     \<Longrightarrow> spec_meta l c s = spec_meta l c t"
  unfolding spec_consistent_def list_all_iff by blast

lemma spec_pol_code: "pv_code (spec_pol d s) = spec_code (dp_limiter d \<noteq> None) (dp_cache d \<noteq> None) s"
  by (simp add: spec_pol_def)

lemma handle_route_ok:
  assumes "dp_resolver d \<noteq> None" "route_ok (dp_limiter d \<noteq> None) (dp_cache d \<noteq> None) rt"
  shows "\<exists>reg'. handle_route d f handlers rt reg
    = Inr (Chain (handlers (rt_handler rt)) (map (\<lambda>s. Some (spec_pol d s)) (rt_policies rt)), reg')"
proof -
  let ?m = "spec_meta (dp_limiter d \<noteq> None) (dp_cache d \<noteq> None)"
  have oks: "list_all (spec_ok (dp_limiter d \<noteq> None) (dp_cache d \<noteq> None)) (rt_policies rt)"
    using assms(2) unfolding route_ok_def by blast
  from build_policies_ok [OF assms(1) oks, of f reg]
  obtain reg' where reg': "build_policies d f (rt_policies rt) reg = Inr (map (\<lambda>s. Some (spec_pol d s)) (rt_policies rt), reg')"
    "\<forall>k \<in> (\<lambda>s. pv_code (spec_pol d s)) ` set (rt_policies rt). \<exists>s \<in> set (rt_policies rt). pv_code (spec_pol d s) = k \<and> reg' k = Some (?m s)"
    by blast
  have "reg' (pv_code (spec_pol d s)) = Some (?m s)" if s: "s \<in> set (rt_policies rt)" for s
  proof -
    obtain u where u: "u \<in> set (rt_policies rt)" "pv_code (spec_pol d u) = pv_code (spec_pol d s)"
        "reg' (pv_code (spec_pol d s)) = Some (?m u)"
      using reg'(2) s by blast
    have "spec_consistent (dp_limiter d \<noteq> None) (dp_cache d \<noteq> None) (rt_policies rt)"
      using assms(2) unfolding route_ok_def by blast
    from spec_consistentD [OF this u(1) s] u(2) have "?m u = ?m s" by (simp only: spec_pol_code)
    with u(3) show ?thesis by simp
  qed
  then have "DescribePolicies reg' (map (\<lambda>s. Some (spec_pol d s)) (rt_policies rt)) = Inr (map ?m (rt_policies rt))"
    by (rule DescribePolicies_spec)
  then have "ValidateRoute reg' (rt_method rt) (rt_pattern rt) (map (\<lambda>s. Some (spec_pol d s)) (rt_policies rt)) = None"
    using assms(2) unfolding ValidateRoute_None route_ok_def ValidateRouteMetadata_None by blast
  then show ?thesis
    using reg'(1) by (simp add: handle_route_def Mux_Handle_def MustValidateRoute_def)
qed

end
