(* ===== verification/Route_Check.thy ===== *)
theory Route_Check
  imports Route_Laws
begin

text \<open>
  The tables of the modules against the validator: what a list of policy constructors must be for
  its route to be accepted, and the check of every table.
\<close>

section \<open>Constructors and stages\<close>

fun spec_stage :: "bool \<Rightarrow> bool \<Rightarrow> policy_spec \<Rightarrow> nat" where
  "spec_stage l c SAuth = 1"
| "spec_stage l c SProject = 2"
| "spec_stage l c (SMatch param) = 2"
| "spec_stage l c SResolve = 3"
| "spec_stage l c (SPerm p) = 4"
| "spec_stage l c SJson = 0"
| "spec_stage l c (SLimit rule k) = 5"
| "spec_stage l c (SLimitOptional rule) = (if l then 5 else 0)"
| "spec_stage l c (SRead cfg) = 6"
| "spec_stage l c (SReadOptional cfg) = (if c then 6 else 0)"
| "spec_stage l c (SInvalidate cfg) = 6"
| "spec_stage l c (SInvalidateOptional cfg) = (if c then 6 else 0)"
| "spec_stage l c (SControl cfg) = 7"
| "spec_stage l c (SControlOptional ttl) = (if c then 7 else 0)"

text \<open>A number for each code pointer; 3, 7 and 8 are those whose metadata depends on the arguments.\<close>

fun spec_class :: "bool \<Rightarrow> bool \<Rightarrow> policy_spec \<Rightarrow> nat" where
  "spec_class l c SAuth = 1"
| "spec_class l c SProject = 2"
| "spec_class l c (SMatch param) = 3"
| "spec_class l c SResolve = 4"
| "spec_class l c (SPerm p) = 5"
| "spec_class l c SJson = 6"
| "spec_class l c (SLimit rule k) = 10"
| "spec_class l c (SLimitOptional rule) = (if l then 10 else 0)"
| "spec_class l c (SRead cfg) = 7"
| "spec_class l c (SReadOptional cfg) = (if c then 7 else 0)"
| "spec_class l c (SInvalidate cfg) = 8"
| "spec_class l c (SInvalidateOptional cfg) = (if c then 8 else 0)"
| "spec_class l c (SControl cfg) = 9"
| "spec_class l c (SControlOptional ttl) = (if c then 9 else 0)"

fun spec_read :: "bool \<Rightarrow> policy_spec \<Rightarrow> cache_read_config option" where
  "spec_read c (SRead cfg) = Some cfg"
| "spec_read c (SReadOptional cfg) = (if c then Some cfg else None)"
| "spec_read c _ = None"

lemma stage_of_meta [simp]: "policyOrderStage (md_type (spec_meta l c s)) = spec_stage l c s"
  by (cases s) (simp_all add: metadata_of_def match_metadata_def cache_read_metadata_of_def invalidate_meta_def
      policyOrderStage_def)

lemma type_of_meta:
  "md_type (spec_meta l c s) = PolicyTypeAuthRequired \<longleftrightarrow> spec_class l c s = 1"
  "md_type (spec_meta l c s) = PolicyTypeProjectRequired \<longleftrightarrow> spec_class l c s = 2"
  "md_type (spec_meta l c s) = PolicyTypeProjectMatchFromPath \<longleftrightarrow> spec_class l c s = 3"
  "md_type (spec_meta l c s) = PolicyTypeResolvePermissions \<longleftrightarrow> spec_class l c s = 4"
  "md_type (spec_meta l c s) = PolicyTypeRequirePermission \<longleftrightarrow> spec_class l c s = 5"
  "md_type (spec_meta l c s) = PolicyTypeCacheRead \<longleftrightarrow> spec_class l c s = 7"
  "md_type (spec_meta l c s) \<noteq> PolicyTypeRequireAnyPermission"
  "md_type (spec_meta l c s) \<noteq> PolicyTypeRequireAllPermissions"
  by (cases s; simp add: metadata_of_def match_metadata_def cache_read_metadata_of_def invalidate_meta_def)+

lemma code_class: "spec_code l c s = spec_code l c t \<longleftrightarrow> spec_class l c s = spec_class l c t"
  by (cases s; cases t) simp_all

lemma class_meta:
  "spec_class l c s = spec_class l c t \<Longrightarrow> spec_class l c s \<notin> {3, 7, 8} \<Longrightarrow> spec_meta l c s = spec_meta l c t"
  by (cases s; cases t) (auto split: if_splits)

text \<open>At most one policy of each kind whose metadata depends on its arguments.\<close>

definition one_each :: "bool \<Rightarrow> bool \<Rightarrow> policy_spec list \<Rightarrow> bool" where
  "one_each l c ss \<longleftrightarrow> distinct (filter (\<lambda>n. n = 3 \<or> n = 7 \<or> n = 8) (map (spec_class l c) ss))"

lemma one_each_consistent: "one_each l c ss \<Longrightarrow> spec_consistent l c ss"
proof -
  have unique: "s = t" if "one_each l c ss" "s \<in> set ss" "t \<in> set ss" "spec_class l c s = spec_class l c t"
      "spec_class l c s \<in> {3, 7, 8}" for ss s t
    using that by (induction ss) (auto simp: one_each_def split: if_splits)
  show "one_each l c ss \<Longrightarrow> spec_consistent l c ss"
    unfolding spec_consistent_def list_all_iff code_class using unique class_meta by metis
qed

section \<open>Routes\<close>

definition project_pattern :: "string \<Rightarrow> bool" where
  "project_pattern pattern \<longleftrightarrow> \<not> blank pattern \<and> routeProjectPathParam (trim_space pattern) = projectIDParamCamel"

definition plain_pattern :: "string \<Rightarrow> bool" where
  "plain_pattern pattern \<longleftrightarrow> \<not> blank pattern \<and> routeProjectPathParam (trim_space pattern) = []"

definition reads_vary :: "bool \<Rightarrow> policy_spec list \<Rightarrow> bool" where
  "reads_vary c ss \<longleftrightarrow> list_all (\<lambda>s. case spec_read c s of None \<Rightarrow> True
     | Some cfg \<Rightarrow> rc_shared_authenticated cfg \<or> vb_user_id (rc_vary_by cfg) \<or> vb_project_id (rc_vary_by cfg)) ss"

definition spec_wired :: "bool \<Rightarrow> bool \<Rightarrow> policy_spec list \<Rightarrow> bool" where
  "spec_wired l c ss \<longleftrightarrow> list_all (spec_ok l c) ss \<and> one_each l c ss
     \<and> sorted (filter (\<lambda>n. 0 < n) (map (spec_stage l c) ss)) \<and> reads_vary c ss"

lemma has_type_specs:
  "hasPolicyType (map (spec_meta l c) ss) PolicyTypeAuthRequired \<longleftrightarrow> 1 \<in> spec_class l c ` set ss"
  "hasPolicyType (map (spec_meta l c) ss) PolicyTypeProjectRequired \<longleftrightarrow> 2 \<in> spec_class l c ` set ss"
  "hasPolicyType (map (spec_meta l c) ss) PolicyTypeProjectMatchFromPath \<longleftrightarrow> 3 \<in> spec_class l c ` set ss"
  "hasPolicyType (map (spec_meta l c) ss) PolicyTypeResolvePermissions \<longleftrightarrow> 4 \<in> spec_class l c ` set ss"
  "hasRBAC (map (spec_meta l c) ss) \<longleftrightarrow> 5 \<in> spec_class l c ` set ss"
  by (induction ss) (auto simp: type_of_meta hasRBAC_def)

lemma read_of_class: "spec_class l c s = 7 \<Longrightarrow> \<exists>cfg. spec_read c s = Some cfg \<and> spec_meta l c s = cache_read_metadata_of cfg"
  by (cases s) (auto split: if_splits)

lemma stages_specs: "stages (map (spec_meta l c) ss) = filter (\<lambda>n. 0 < n) (map (spec_stage l c) ss)"
  by (simp add: stages_def comp_def)

lemma reads_vary_metas:
  assumes "reads_vary c ss" "m \<in> set (map (spec_meta l c) ss)" "md_type m = PolicyTypeCacheRead"
  shows "crm_shared_authenticated (md_cache_read m) \<or> crm_vary_by_user_id (md_cache_read m)
    \<or> crm_vary_by_project_id (md_cache_read m)"
proof -
  obtain s where s: "s \<in> set ss" "m = spec_meta l c s" using assms(2) by auto
  with assms(3) obtain cfg where cfg: "spec_read c s = Some cfg" "m = cache_read_metadata_of cfg"
    using type_of_meta(6) [of l c s] read_of_class [of l c s] by auto
  have "case spec_read c s of None \<Rightarrow> True
     | Some cfg \<Rightarrow> rc_shared_authenticated cfg \<or> vb_user_id (rc_vary_by cfg) \<or> vb_project_id (rc_vary_by cfg)"
    using assms(1) s(1) unfolding reads_vary_def list_all_iff by blast
  with cfg show ?thesis by (auto simp: cache_read_metadata_of_def metadata_of_def)
qed

lemma plain_route_ok:
  assumes "spec_wired l c ss" "plain_pattern pattern" "list_all (\<lambda>s. spec_class l c s \<notin> {2, 3, 4, 5}) ss"
    and "\<not> blank method" "rt = route method pattern h ss"
  shows "route_ok l c rt"
proof -
  have none: "k \<notin> spec_class l c ` set ss" if "k \<in> {2, 3, 4, 5}" for k
    using assms(3) that by (auto simp: list_all_iff)
  have "\<not> patternContainsProjectID (trim_space pattern)"
    using assms(2) by (simp add: plain_pattern_def routeProjectPathParam_cases)
  moreover have "md_type m \<noteq> PolicyTypeProjectMatchFromPath" if "m \<in> set (map (spec_meta l c) ss)" for m
    using that none [of 3] type_of_meta(3) by auto
  ultimately have "well_wired (trim_space pattern) (map (spec_meta l c) ss)"
    unfolding well_wired_def wiring_of_simps has_type_specs match_follows_required_def stages_specs
    using none assms(1) reads_vary_metas [of c ss _ l] by (auto simp: spec_wired_def)
  with assms show ?thesis
    by (auto simp: route_ok_def route_def ValidateRouteMetadata_None plain_pattern_def spec_wired_def
        intro: one_each_consistent)
qed

lemma project_param_meta: "md_project_path_param (spec_meta l c (SMatch ''projectId'')) = ''projectId''"
  by (simp add: match_metadata_def trim_literal)

lemma project_param_lower: "normalizePathParam ''projectId'' = projectIDParamCamel"
  by (simp add: normalizePathParam_def trim_literal case_literal)

lemma project_route_ok:
  assumes "spec_wired l c ss" "project_pattern pattern" "take 4 ss = project_guards"
    and "list_all (\<lambda>s. spec_class l c s \<notin> {2, 3, 4}) (drop 4 ss)" "\<not> blank method" "rt = route method pattern h ss"
  shows "route_ok l c rt"
proof -
  define extra where "extra = drop 4 ss"
  have ss: "ss = project_guards @ extra" using append_take_drop_id [of 4 ss] assms(3) by (simp add: extra_def)
  have "patternContainsProjectID (trim_space pattern)"
    using assms(2) by (simp add: project_pattern_def routeProjectPathParam_cases)
  moreover have "normalizePathParam (md_project_path_param m) = routeProjectPathParam (trim_space pattern)"
    if m: "m \<in> set (map (spec_meta l c) ss)" "md_type m = PolicyTypeProjectMatchFromPath" for m
  proof -
    obtain s where s: "s \<in> set ss" "m = spec_meta l c s" "spec_class l c s = 3"
      using m type_of_meta(3) by auto
    then have "s = SMatch ''projectId''"
      using assms(4) unfolding extra_def [symmetric] ss by (auto simp: project_guards_def list_all_iff)
    with s(2) have "md_project_path_param m = ''projectId''" by (simp only: project_param_meta)
    then show ?thesis using assms(2) by (simp only: project_param_lower project_pattern_def)
  qed
  moreover have "match_follows_required (map (spec_meta l c) ss)"
    by (simp add: ss match_follows_required_def project_guards_def metadata_of_def)
  moreover have "{1, 2, 3, 4} \<subseteq> spec_class l c ` set ss"
    by (simp add: ss project_guards_def)
  ultimately have "well_wired (trim_space pattern) (map (spec_meta l c) ss)"
    unfolding well_wired_def wiring_of_simps has_type_specs stages_specs
    using assms(1) reads_vary_metas [of c ss _ l] by (auto simp: spec_wired_def)
  with assms show ?thesis
    by (auto simp: route_ok_def route_def ValidateRouteMetadata_None project_pattern_def spec_wired_def
        intro: one_each_consistent)
qed

section \<open>The configurations of the tables\<close>

lemma first_some_None: "first_some f xs = None \<longleftrightarrow> list_all (\<lambda>x. f x = None) xs"
  by (induction xs) (auto split: option.splits)

lemma tag_specs_ok:
  "list_all (\<lambda>s. trim_space (ts_name s) \<noteq> [] \<and> list_all (\<lambda>p. trim_space p \<noteq> []) (ts_path_params s) \<and> ts_literals s = []) specs
     \<Longrightarrow> specs \<noteq> [] \<Longrightarrow> validateCacheTagSpecs specs b = None"
  by (auto simp: validateCacheTagSpecs_def first_some_None list_all_iff list_ex_iff tag_spec_error_def
      dest!: set_zip_rightD)

definition visible :: "string \<Rightarrow> bool" where
  "visible s \<longleftrightarrow> s \<noteq> [] \<and> graphic (hd s)"

lemma tags_by_ok:
  assumes "names \<noteq> []" "list_all visible names" "list_all visible params"
  shows "validateCacheTagSpecs (map (tag_by params p u) names) b = None"
  using assms
  by (intro tag_specs_ok) (auto simp: list_all_iff tag_by_def visible_def dest: trim_space_visible)

lemma tag_by_ok: "visible name \<Longrightarrow> list_all visible params \<Longrightarrow> validateCacheTagSpecs [tag_by params p u name] b = None"
  using tags_by_ok [of "[name]" params p u b] by simp

lemma project_tags_ok: "names \<noteq> [] \<Longrightarrow> list_all visible names \<Longrightarrow> validateCacheTagSpecs (project_tags names) b = None"
  unfolding project_tags_def by (rule tags_by_ok) (simp_all add: visible_def)

lemma user_tags_ok: "names \<noteq> [] \<Longrightarrow> list_all visible names \<Longrightarrow> validateCacheTagSpecs (user_tags names) b = None"
  unfolding user_tags_def by (rule tags_by_ok) simp_all

lemma per_minute_ok: "0 < n \<Longrightarrow> rule_validate (per_minute n scope) = None"
  by (simp add: rule_validate_def limits_error_def per_minute_def seconds_def)

lemma private_for_ok: "0 < ttl \<Longrightarrow> control_ok (private_for ttl)"
  by (simp add: control_ok_def buildCacheControl_def private_for_def cache_directives_def Let_def)

lemma read_config_ok [simp]:
  "read_ok (read_config ttl n tags shared v) \<longleftrightarrow> 0 < ttl \<and> validateCacheTagSpecs tags False = None"
  "rc_shared_authenticated (read_config ttl n tags shared v) = shared"
  "rc_vary_by (read_config ttl n tags shared v) = v" "rc_ttl (read_config ttl n tags shared v) = ttl"
  by (simp_all add: read_ok_def read_config_def)

lemma vary_project [simp]: "vb_project_id (vary p u params queries) = p" "vb_user_id (vary p u params queries) = u"
  by (simp_all add: vary_def)

lemma secs_pos [simp]: "0 < seconds n \<longleftrightarrow> 0 < n"
  by (simp add: seconds_def)

lemmas wired_defs = spec_wired_def one_each_def reads_vary_def project_guards_def private_for_ok trim_space_visible

lemma invalidate_tags [simp]: "ic_tag_specs (invalidate tags) = tags"
  by (simp add: invalidate_def)

lemma read_optional_wired:
  assumes "p \<noteq> 0" "0 < ttl" "validateCacheTagSpecs tags False = None"
  shows "spec_wired l c (read_optional p ttl tags params queries)"
  using assms by (simp add: wired_defs read_optional_def)

lemma write_optional_wired:
  assumes "p \<noteq> 0" "validateCacheTagSpecs tags True = None"
  shows "spec_wired l c (write_optional p tags)"
  using assms by (simp add: wired_defs write_optional_def per_minute_ok)

lemma write_wired:
  assumes "p \<noteq> 0" "0 < n" "validateCacheTagSpecs tags True = None"
  shows "spec_wired l c (project_guards @ [SPerm p] @ limited_write l c (per_minute n scope) tags)"
    "spec_wired l c (project_guards @ [SPerm p, SJson] @ limited_write l c (per_minute n scope) tags)"
  using assms by (cases l; cases c; simp add: wired_defs limited_write_def per_minute_ok)+

lemma cached_read_wired:
  assumes "0 < ttl" "validateCacheTagSpecs tags False = None"
  shows "p \<noteq> 0 \<Longrightarrow> spec_wired l c (project_guards @ [SPerm p] @ cached_read c (read_config ttl n tags False (vary True u params queries)))"
    "spec_wired l c (project_guards @ cached_read c (read_config ttl n tags False (vary True u params queries)))"
  using assms by (cases c; simp add: wired_defs cached_read_def)+

lemma user_read_wired:
  assumes "0 < ttl" "validateCacheTagSpecs tags False = None" "u \<or> shared"
  shows "spec_wired l c (SAuth # cached_read c (read_config ttl n tags shared (vary p u params queries)))"
  using assms by (cases c) (auto simp: wired_defs cached_read_def)

lemma user_write_wired:
  assumes "0 < n" "validateCacheTagSpecs tags True = None"
  shows "spec_wired l c ([SAuth] @ limited_write l c (per_minute n scope) tags)"
    "spec_wired l c ([SAuth, SJson] @ limited_write l c (per_minute n scope) tags)"
  using assms by (cases l; cases c; simp add: wired_defs limited_write_def per_minute_ok)+

text \<open>No policy after the four guards of a project is a guard of that kind again.\<close>

abbreviation "no_guard l c ss \<equiv> list_all (\<lambda>s. spec_class l c s \<notin> {2, 3, 4}) ss"

lemma no_guard_limited [simplified]: "no_guard l c (limited_write l' c' rule tags)" "no_guard l c (cached_read c' cfg)"
  by (simp_all add: limited_write_def cached_read_def)

section \<open>Every table\<close>

lemma methods_visible: "\<not> blank ''GET''" "\<not> blank ''POST''" "\<not> blank ''PATCH''" "\<not> blank ''DELETE''"
  by (simp_all add: blank_def trim_space_visible)

lemma item_routes_ok:
  assumes "validateCacheTagSpecs tags False = None" "validateCacheTagSpecs tags True = None"
    and "project_pattern (''/api/v1/projects/{projectId}/'' @ path)"
    and "project_pattern (''/api/v1/projects/{projectId}/'' @ path @ ''/{'' @ param @ ''}'')"
  shows "list_all (route_ok l c) (item_routes path param dm tags queries item items)"
proof -
  have read: "route_ok l c (route ''GET'' pattern h (read_optional (perm dm AView) ttl tags params qs))"
    if "project_pattern pattern" "0 < ttl" for pattern h ttl params qs
    using that assms(1)
    by (intro project_route_ok [OF read_optional_wired _ _ _ methods_visible(1) refl, of _ _ tags])
      (simp_all add: read_optional_def project_guards_def)
  have post: "route_ok l c (route ''POST'' pattern h (write_optional (perm dm a) tags))"
    if "project_pattern pattern" for pattern h a
    using that assms(2)
    by (intro project_route_ok [OF write_optional_wired _ _ _ methods_visible(2) refl, of _ tags])
      (simp_all add: write_optional_def project_guards_def)
  have patch: "route_ok l c (route ''PATCH'' pattern h (write_optional (perm dm a) tags))"
    if "project_pattern pattern" for pattern h a
    using that assms(2)
    by (intro project_route_ok [OF write_optional_wired _ _ _ methods_visible(3) refl, of _ tags])
      (simp_all add: write_optional_def project_guards_def)
  show ?thesis
    using read post patch assms(3,4) by (simp add: item_routes_def Let_def)
qed

lemma artifacts_ok: "list_all (route_ok l c) artifacts_routes"
proof -
  have tags: "validateCacheTagSpecs (project_tags [''artifacts.project'', name]) b = None" if "visible name" for name b
    using that by (intro project_tags_ok) (simp_all add: visible_def)
  show ?thesis
    unfolding artifacts_routes_def story_routes_def journey_routes_def problem_routes_def idea_routes_def
      task_routes_def artifact_feedback_routes_def list_all_append
    by (intro conjI item_routes_ok tags) (code_simp | simp add: visible_def)+
qed

lemma pages_ok: "list_all (route_ok l c) pages_routes"
proof -
  have tags: "validateCacheTagSpecs (project_tags [''pages.project'', ''pages.page'']) b = None" for b
    by (intro project_tags_ok) (simp_all add: visible_def)
  have pattern: "project_pattern ''/api/v1/projects/{projectId}/pages/{pageId}/rename''" by code_simp
  have "route_ok l c (route ''PATCH'' ''/api/v1/projects/{projectId}/pages/{pageId}/rename'' ''RenamePage''
      (write_optional (perm DPage AEdit) (project_tags [''pages.project'', ''pages.page''])))"
    by (rule project_route_ok [OF write_optional_wired pattern _ _ methods_visible(3) refl])
      (simp_all add: tags write_optional_def project_guards_def)
  moreover have "list_all (route_ok l c) (item_routes ''pages'' ''pageId'' DPage
      (project_tags [''pages.project'', ''pages.page'']) list_queries ''Page'' ''Pages'')"
    by (intro item_routes_ok tags) code_simp+
  ultimately show ?thesis by (simp add: pages_routes_def Let_def)
qed

lemma resources_ok: "list_all (route_ok l c) resources_routes"
  unfolding resources_routes_def
  by (intro item_routes_ok project_tags_ok) (code_simp | simp add: visible_def)+

lemma wired_project_route:
  assumes "take 4 ss = project_guards" "spec_wired l c ss" "no_guard l c (drop 4 ss)"
    and "project_pattern pattern" "\<not> blank method"
  shows "route_ok l c (route method pattern h ss)"
  using assms(2,4,1,3,5) by (rule project_route_ok) simp

lemma wired_plain_route:
  assumes "spec_wired l c ss" "list_all (\<lambda>s. spec_class l c s \<notin> {2, 3, 4, 5}) ss" "plain_pattern pattern" "\<not> blank method"
  shows "route_ok l c (route method pattern h ss)"
  using assms(1,3,2,4) by (rule plain_route_ok) simp

lemma calendar_ok: "list_all (route_ok l c) calendar_routes"
proof -
  have pattern: "project_pattern ''/api/v1/projects/{projectId}/calendar''"
    "project_pattern ''/api/v1/projects/{projectId}/calendar/{eventId}''" by code_simp+
  have wired: "spec_wired l c (project_guards @ [SPerm (perm DCalendar a)])"
    "spec_wired l c (project_guards @ [SPerm (perm DCalendar a), SLimitOptional (per_minute 40 ScopeProject)])"
    "spec_wired l c (project_guards @ [SJson, SPerm (perm DCalendar a), SLimitOptional (per_minute 40 ScopeProject)])" for a
    by (simp_all add: wired_defs per_minute_ok)
  show ?thesis
    unfolding calendar_routes_def Let_def
    by (simp only: list.pred_inject append.simps)
      (intro conjI TrueI wired_project_route wired pattern methods_visible; simp add: project_guards_def pattern)
qed

lemma activity_ok: "list_all (route_ok l c) activity_routes"
proof -
  have pattern: "project_pattern ''/api/v1/projects/{projectId}/activity''" by code_simp
  show ?thesis
    unfolding activity_routes_def
    by (simp only: list.pred_inject)
      (intro conjI TrueI wired_project_route pattern methods_visible; simp add: wired_defs)
qed

lemma feedback_ok: "list_all (route_ok l c) (feedback_routes l)"
proof -
  have pattern: "plain_pattern ''/api/v1/feedback''" by code_simp
  show ?thesis
    unfolding feedback_routes_def
    by (simp only: list.pred_inject)
      (intro conjI TrueI wired_plain_route pattern methods_visible; simp add: wired_defs per_minute_ok)
qed

lemma health_ok: "list_all (route_ok l c) health_routes"
proof -
  have pattern: "plain_pattern ''/healthz''" "plain_pattern ''/readyz''" by code_simp+
  show ?thesis
    unfolding health_routes_def
    by (simp only: list.pred_inject)
      (intro conjI TrueI wired_plain_route pattern methods_visible; simp add: wired_defs)
qed

lemma team_tags_ok: "validateCacheTagSpecs team_tags b = None"
  unfolding team_tags_def by (rule tags_by_ok) (simp_all add: visible_def)

lemma team_ok: "list_all (route_ok l c) (team_routes l c)"
proof -
  let ?base = "''/api/v1/projects/{projectId}/team''"
  have pattern: "project_pattern (?base @ ''/members'')" "project_pattern (?base @ ''/roles'')"
    "project_pattern (?base @ ''/invites'')" "project_pattern (?base @ ''/invites/batch'')"
    "project_pattern (?base @ ''/invites/{email}'')" "project_pattern (?base @ ''/members/{memberId}/permissions'')"
    "project_pattern (?base @ ''/roles/{role}/permissions'')" by code_simp+
  show ?thesis
    unfolding team_routes_def Let_def list.pred_inject
    by (intro conjI TrueI wired_project_route pattern methods_visible;
        ((rule cached_read_wired write_wired; simp add: team_tags_ok tag_by_ok visible_def; fail)
         | simp add: project_guards_def no_guard_limited))
qed

lemma project_ok: "list_all (route_ok l c) (project_routes l c)"
proof -
  let ?base = "''/api/v1/projects/{projectId}''"
  have pattern: "project_pattern (?base @ ''/dashboard'')" "project_pattern (?base @ ''/overview'')"
    "project_pattern (?base @ ''/search'')" "project_pattern (?base @ ''/access'')"
    "project_pattern (?base @ ''/settings'')" "project_pattern (?base @ ''/archive'')"
    "project_pattern ?base" by code_simp+
  have tags: "validateCacheTagSpecs (map (tag_by [] True False)
      [''project.dashboard'', ''project.overview'', ''project.access'', ''project.settings'']) b = None" for b
    by (rule tags_by_ok) (simp_all add: visible_def)
  have tags_list: "validateCacheTagSpecs [tag_by [] True False ''project.dashboard'', tag_by [] True False ''project.overview'',
      tag_by [] True False ''project.access'', tag_by [] True False ''project.settings''] b = None" for b
    using tags [of b] by simp
  have search: "spec_wired l c (project_guards @ [SPerm (perm DProject AView)])" by (simp add: wired_defs)
  show ?thesis
    unfolding project_routes_def Let_def list.pred_inject
    by (intro conjI TrueI wired_project_route pattern methods_visible;
        (rule search
         | (rule cached_read_wired write_wired; simp add: tags_list tag_by_ok visible_def; fail)
         | simp add: project_guards_def no_guard_limited))
qed

lemma no_class_limited [simplified]:
  "list_all (\<lambda>s. spec_class l c s \<notin> {2, 3, 4, 5}) (limited_write l' c' rule tags)"
  "list_all (\<lambda>s. spec_class l c s \<notin> {2, 3, 4, 5}) (cached_read c' cfg)"
  by (simp_all add: limited_write_def cached_read_def)

lemma home_ok: "list_all (route_ok l c) (home_routes l c)"
proof -
  have pattern: "plain_pattern ''/api/v1/home/dashboard''" "plain_pattern ''/api/v1/home/projects''"
    "plain_pattern ''/api/v1/home/projects/reference''" "plain_pattern ''/api/v1/home/invites''"
    "plain_pattern ''/api/v1/home/notifications''" "plain_pattern ''/api/v1/home/activity''"
    "plain_pattern ''/api/v1/home/dashboard-activity''" "plain_pattern ''/api/v1/home/account''"
    "plain_pattern ''/api/v1/home/docs''" "plain_pattern ''/api/v1/home/invites/{inviteId}/accept''"
    "plain_pattern ''/api/v1/home/invites/{inviteId}/decline''" by code_simp+
  show ?thesis
    unfolding home_routes_def Let_def list.pred_inject home_read_def
    by (intro conjI TrueI wired_plain_route pattern methods_visible;
        ((rule user_read_wired user_write_wired; simp add: user_tags_ok tag_by_ok visible_def; fail)
         | simp add: no_class_limited))
qed

lemma or_default_pos: "0 < d \<Longrightarrow> 0 < or_default v d"
  by (simp add: or_default_def)

lemma auth_ok: "list_all (route_ok l c) (auth_routes l t body_token)"
proof -
  have pattern: "plain_pattern ''/api/v1/auth/signup''" "plain_pattern ''/api/v1/auth/login''"
    "plain_pattern ''/api/v1/auth/verify-email''" "plain_pattern ''/api/v1/auth/resend-verification''"
    "plain_pattern ''/api/v1/auth/forgot-password''" "plain_pattern ''/api/v1/auth/reset-password''"
    "plain_pattern ''/api/v1/auth/change-password/request-otp''" "plain_pattern ''/api/v1/auth/change-password/confirm''"
    "plain_pattern ''/api/v1/auth/refresh''" "plain_pattern ''/api/v1/auth/logout''" by code_simp+
  have rule: "rule_validate \<lparr>ru_limit = or_default n d, ru_window = or_default v (seconds 60), ru_scope = scope, ru_keyer = k\<rparr> = None"
    if "0 < d" for n d v scope k
    using or_default_pos [OF that, of n] or_default_pos [of "seconds 60" v]
    by (simp add: rule_validate_def limits_error_def seconds_def)
  show ?thesis
    unfolding auth_routes_def Let_def list.pred_inject
    by (intro conjI TrueI wired_plain_route pattern methods_visible; cases l; simp add: wired_defs rule)
qed

lemma system_ok: "list_all (route_ok l c) (system_routes l (system_rule limit window))"
proof -
  have pattern: "plain_pattern ''/system/parse-duration''" "plain_pattern ''/api/v1/system/whoami''"
    "plain_pattern ''/api/v1/system/session-context''" by code_simp+
  have rule: "rule_validate (system_rule limit window) = None"
    using or_default_pos [of 10 limit] or_default_pos [of "seconds 60" window]
    by (simp add: rule_validate_def limits_error_def seconds_def system_rule_def)
  show ?thesis
    unfolding system_routes_def Let_def list.pred_inject
    by (intro conjI TrueI wired_plain_route pattern methods_visible; cases l; simp add: wired_defs rule)
qed

definition all_routes :: "app_config \<Rightarrow> bool \<Rightarrow> bool \<Rightarrow> route_spec list" where
  "all_routes cfg l c = concat (map (\<lambda>(name, needs_resolver, rts). rts) (modules cfg l c))"

lemma modules_ok: "list_all (\<lambda>(name, needs_resolver, rts). list_all (route_ok l c) rts) (modules cfg l c)"
  by (simp add: modules_def artifacts_ok pages_ok resources_ok calendar_ok activity_ok feedback_ok health_ok team_ok
      project_ok home_ok auth_ok system_ok)

lemma all_routes_ok: "rt \<in> set (all_routes cfg l c) \<Longrightarrow> route_ok l c rt"
  using modules_ok [of l c cfg] by (fastforce simp: all_routes_def list_all_iff)

end
