(* ===== verification/Route_Register.thy ===== *)
theory Route_Register
  imports Route_Check
begin

text \<open>
  Registration of all modules: it goes through, and every registered route runs its handler only for
  requests that its guards admit.
\<close>

section \<open>Registration goes through\<close>

definition served :: "'w deps \<Rightarrow> (string \<Rightarrow> 'w handler) \<Rightarrow> route_spec \<Rightarrow> 'w handler" where
  "served d handlers rt = Chain (handlers (rt_handler rt)) (map (\<lambda>s. Some (spec_pol d s)) (rt_policies rt))"

lemma register_routes_ok:
  assumes "dp_resolver d \<noteq> None" "list_all (route_ok (dp_limiter d \<noteq> None) (dp_cache d \<noteq> None)) rts"
  shows "\<exists>reg'. register_routes d f handlers rts reg = Inr (map (\<lambda>rt. (rt, served d handlers rt)) rts, reg')"
  using assms(2)
proof (induction rts arbitrary: reg)
  case (Cons rt rts)
  then have ok: "route_ok (dp_limiter d \<noteq> None) (dp_cache d \<noteq> None) rt"
    and oks: "list_all (route_ok (dp_limiter d \<noteq> None) (dp_cache d \<noteq> None)) rts" by simp_all
  from handle_route_ok [OF assms(1) ok] obtain reg1 where one: "handle_route d f handlers rt reg = Inr (served d handlers rt, reg1)"
    unfolding served_def by blast
  from Cons.IH [OF oks] obtain reg2 where "register_routes d f handlers rts reg1 = Inr (map (\<lambda>rt. (rt, served d handlers rt)) rts, reg2)"
    by blast
  with one show ?case by simp
qed simp

definition module_served :: "'w deps \<Rightarrow> (string \<Rightarrow> string \<Rightarrow> 'w handler) \<Rightarrow> string \<times> bool \<times> route_spec list
    \<Rightarrow> (route_spec \<times> 'w handler) list" where
  "module_served d handlers m = (case m of (name, needs_resolver, rts) \<Rightarrow> map (\<lambda>rt. (rt, served d (handlers name) rt)) rts)"

lemma register_modules_ok:
  assumes "dp_resolver d \<noteq> None"
    and "list_all (\<lambda>(name, needs_resolver, rts). list_all (route_ok (dp_limiter d \<noteq> None) (dp_cache d \<noteq> None)) rts) ms"
  shows "\<exists>reg'. register_modules d f handlers ms reg = Inr (concat (map (module_served d handlers) ms), reg')"
  using assms(2)
proof (induction ms arbitrary: reg)
  case (Cons m ms)
  obtain name needs rts where m: "m = (name, needs, rts)" by (cases m) auto
  with Cons.prems have ok: "list_all (route_ok (dp_limiter d \<noteq> None) (dp_cache d \<noteq> None)) rts"
    and oks: "list_all (\<lambda>(name, needs_resolver, rts). list_all (route_ok (dp_limiter d \<noteq> None) (dp_cache d \<noteq> None)) rts) ms"
    by simp_all
  from register_routes_ok [OF assms(1) ok] obtain reg1
    where one: "register_routes d f (handlers name) rts reg = Inr (module_served d handlers m, reg1)"
    unfolding module_served_def m by fastforce
  from Cons.IH [OF oks] obtain reg2 where "register_modules d f handlers ms reg1 = Inr (concat (map (module_served d handlers) ms), reg2)"
    by blast
  with one assms(1) show ?case by (simp add: m)
qed simp

text \<open>All modules register whatever optional services are configured. With a permission resolver, and
  with or without a limiter and a cache manager, no constructor and no call of \<open>Mux.Handle\<close> panics:
  every route of every module is accepted by the validator and is served by its handler behind its
  policies, in the order of the tables.\<close>

theorem Register_succeeds:
  assumes "dp_resolver d \<noteq> None"
  shows "\<exists>hs reg'. Register cfg d f handlers reg = Inr (hs, reg')
    \<and> map fst hs = all_routes cfg (dp_limiter d \<noteq> None) (dp_cache d \<noteq> None)
    \<and> hs = concat (map (module_served d handlers) (modules cfg (dp_limiter d \<noteq> None) (dp_cache d \<noteq> None)))"
proof -
  have "map fst (concat (map (module_served d handlers) ms)) = concat (map (\<lambda>(name, needs_resolver, rts). rts) ms)" for ms
    by (induction ms) (auto simp: module_served_def comp_def)
  moreover obtain reg' where "Register cfg d f handlers reg
      = Inr (concat (map (module_served d handlers) (modules cfg (dp_limiter d \<noteq> None) (dp_cache d \<noteq> None))), reg')"
    unfolding Register_def using register_modules_ok [OF assms modules_ok] by blast
  ultimately show ?thesis by (simp add: all_routes_def)
qed

section \<open>What the guards of a registered route admit\<close>

fun spec_kind :: "'w deps \<Rightarrow> policy_spec \<Rightarrow> 'w route_kind" where
  "spec_kind d SAuth = KAuth (dp_guard d) (dp_mode d)"
| "spec_kind d SProject = KProject"
| "spec_kind d (SMatch param) = KMatch param"
| "spec_kind d SResolve = KResolve (the (dp_resolver d))"
| "spec_kind d (SPerm p) = KOne p"
| "spec_kind d s = KOther (spec_meta (dp_limiter d \<noteq> None) (dp_cache d \<noteq> None) s) (spec_run d s)"

lemma kind_of_spec [simp]:
  "kind_meta (spec_kind d s) = spec_meta (dp_limiter d \<noteq> None) (dp_cache d \<noteq> None) s"
  "kind_run (spec_kind d s) = spec_run d s"
  by (cases s; simp)+

lemma Chain_run: "map (map_option pv_run) ps = map (map_option pv_run) qs \<Longrightarrow> Chain h ps = Chain h qs"
proof (induction ps arbitrary: qs)
  case (Cons p ps)
  then obtain q qs' where qs: "qs = q # qs'" by (cases qs) auto
  with Cons have "Chain h ps = Chain h qs'" "map_option pv_run p = map_option pv_run q" by auto
  then show ?case by (auto simp: Chain_def qs split: option.splits)
qed (simp add: Chain_def)

lemma served_kinds: "served d handlers rt = Chain (handlers (rt_handler rt)) (map (\<lambda>k. Some (kind_policy k)) (map (spec_kind d) (rt_policies rt)))"
  unfolding served_def by (rule Chain_run) (simp add: kind_policy_def spec_pol_def)

lemma json_calls: "only_calls RequireJSON_run same_rel"
  by (auto simp: only_calls_def same_rel_def RequireJSON_run_def)

lemma noop_calls: "only_calls Noop_run same_rel"
  by (auto simp: only_calls_def same_rel_def Noop_run_def)

lemma control_calls: "only_calls (control_run cfg) same_rel"
  by (auto simp: control_run_def noop_calls controlled.calls split: sum.splits)

lemma other_ok: "kind_ok (KOther (spec_meta l c s) run) \<longleftrightarrow> spec_stage l c s \<notin> {1, 2, 3, 4} \<and> only_calls run same_rel"
  by simp

lemma spec_kind_ok: "kind_ok (spec_kind d s)"
  by (cases s) (simp_all add: other_ok limited.calls cached.calls invalidating.calls control_calls json_calls noop_calls
      del: kind_ok.simps(1) spec_meta.simps)

lemma resolve_specs: "is_resolve (spec_kind d s) \<longleftrightarrow> s = SResolve"
  by (cases s) simp_all

text \<open>A route either has the four guards of a project, in front and once, or none of them.\<close>

definition guarded :: "route_spec \<Rightarrow> bool" where
  "guarded rt \<longleftrightarrow> take 4 (rt_policies rt) = project_guards \<and> SProject \<notin> set (drop 4 (rt_policies rt))
     \<and> SResolve \<notin> set (drop 4 (rt_policies rt))"

definition unguarded :: "route_spec \<Rightarrow> bool" where
  "unguarded rt \<longleftrightarrow> SProject \<notin> set (rt_policies rt) \<and> SResolve \<notin> set (rt_policies rt)
     \<and> (rt_policies rt = [] \<longrightarrow> \<not> patternContainsProjectID (trim_space (rt_pattern rt)))"

lemma guarded_route [simp]:
  "guarded (route m p h (project_guards @ ss)) \<longleftrightarrow> SProject \<notin> set ss \<and> SResolve \<notin> set ss"
  "guarded (route m p h (write_optional q tags))" "guarded (route m p h (read_optional q ttl tags params queries))"
  "unguarded (route m p h (s # ss)) \<longleftrightarrow> SProject \<notin> set (s # ss) \<and> SResolve \<notin> set (s # ss)"
  by (simp_all add: guarded_def unguarded_def route_def project_guards_def write_optional_def read_optional_def)

lemma optional_policies [simp]: "SProject \<notin> set (cached_read c cfg)" "SResolve \<notin> set (cached_read c cfg)"
  "SProject \<notin> set (limited_write l c rule tags)" "SResolve \<notin> set (limited_write l c rule tags)"
  by (simp_all add: cached_read_def limited_write_def)

lemma guarded_tables: "list_all guarded artifacts_routes" "list_all guarded pages_routes" "list_all guarded resources_routes"
  "list_all guarded calendar_routes" "list_all guarded activity_routes" "list_all guarded (team_routes l c)"
  "list_all guarded (project_routes l c)"
  by (simp_all add: artifacts_routes_def story_routes_def journey_routes_def problem_routes_def idea_routes_def
      task_routes_def artifact_feedback_routes_def item_routes_def pages_routes_def resources_routes_def calendar_routes_def
      activity_routes_def team_routes_def project_routes_def Let_def)

lemma unguarded_tables: "list_all unguarded health_routes" "list_all unguarded (feedback_routes l)"
  "list_all unguarded (home_routes l c)" "list_all unguarded (auth_routes l t b)" "list_all unguarded (system_routes l rule)"
proof -
  have "\<not> patternContainsProjectID (trim_space ''/healthz'')" "\<not> patternContainsProjectID (trim_space ''/readyz'')"
    by code_simp+
  then show "list_all unguarded health_routes" by (simp add: health_routes_def unguarded_def route_def)
qed (simp_all add: feedback_routes_def home_routes_def home_read_def auth_routes_def system_routes_def Let_def)

lemma list_all_or: "list_all P xs \<Longrightarrow> list_all (\<lambda>x. P x \<or> Q x) xs" "list_all Q xs \<Longrightarrow> list_all (\<lambda>x. P x \<or> Q x) xs"
  by (simp_all add: list_all_iff)

lemma all_routes_guarded: "rt \<in> set (all_routes cfg l c) \<Longrightarrow> guarded rt \<or> unguarded rt"
proof -
  have "list_all (\<lambda>rt. guarded rt \<or> unguarded rt) (all_routes cfg l c)"
    unfolding all_routes_def modules_def
    by (simp add: guarded_tables unguarded_tables list_all_or)
  then show "rt \<in> set (all_routes cfg l c) \<Longrightarrow> guarded rt \<or> unguarded rt" unfolding list_all_iff by blast
qed

lemma class_project: "spec_class l c s = 2 \<longleftrightarrow> s = SProject"
  by (cases s) simp_all

lemma project_route_guarded:
  assumes "rt \<in> set (all_routes cfg l c)" "patternContainsProjectID (trim_space (rt_pattern rt))"
  shows "guarded rt"
proof -
  have wired: "rt_policies rt = [] \<or> well_wired (trim_space (rt_pattern rt)) (map (spec_meta l c) (rt_policies rt))"
    using all_routes_ok [OF assms(1)] by (auto simp: route_ok_def ValidateRouteMetadata_None)
  show ?thesis
  proof (rule ccontr)
    assume "\<not> guarded rt"
    then have un: "unguarded rt" using all_routes_guarded [OF assms(1)] by blast
    then have "rt_policies rt \<noteq> []" using assms(2) by (auto simp: unguarded_def)
    with wired assms(2) have "2 \<in> spec_class l c ` set (rt_policies rt)"
      unfolding well_wired_def wiring_of_simps has_type_specs by blast
    then have "SProject \<in> set (rt_policies rt)" using class_project by auto
    with un show False by (simp add: unguarded_def)
  qed
qed

text \<open>C1: nobody reaches the handler of a project route without membership. Take any route of the program
  whose pattern names a project, in any configuration: the answer depends on its handler only at
  requests whose principal has a non-blank user id, in the project that the path names, with the mask
  the resolver returned for this user and this project, and with the route's permission in that
  mask.\<close>

theorem registered_routes_authorise:
  assumes "rt \<in> set (all_routes cfg (dp_limiter d \<noteq> None) (dp_cache d \<noteq> None))"
    and "patternContainsProjectID (trim_space (rt_pattern rt))"
    and "\<forall>r'. authorised (map (spec_kind d) (rt_policies rt)) r'
          \<longrightarrow> (\<forall>w s. handlers (rt_handler rt) r' w s = other (rt_handler rt) r' w s)"
  shows "served d handlers rt r w s = served d other rt r w s"
proof -
  have ok: "route_ok (dp_limiter d \<noteq> None) (dp_cache d \<noteq> None) rt" by (rule all_routes_ok [OF assms(1)])
  have "guarded rt" by (rule project_route_guarded [OF assms(1,2)])
  then obtain ss where ss: "rt_policies rt = project_guards @ ss" "SResolve \<notin> set ss"
    using append_take_drop_id [of 4 "rt_policies rt"] unfolding guarded_def by metis
  then have one: "length (filter is_resolve (map (spec_kind d) (rt_policies rt))) = 1"
    by (auto simp: project_guards_def resolve_specs filter_map comp_def filter_empty_conv)
  have meta: "ValidateRouteMetadata (rt_method rt) (rt_pattern rt) (map kind_meta (map (spec_kind d) (rt_policies rt))) = None"
    using ok by (simp add: route_ok_def comp_def)
  have oks: "\<forall>k \<in> set (map (spec_kind d) (rt_policies rt)). kind_ok k" by (simp add: spec_kind_ok)
  show ?thesis
    unfolding served_kinds by (rule validated_route_agrees [OF meta oks one assms(3)])
qed

definition sample_deps :: "perm_world deps" where
  "sample_deps = \<lparr>dp_guard = sample_guard, dp_mode = ''jwt_only'',
     dp_resolver = Some (RelationalResolve Some (Inl (EText [])) 0), dp_limiter = None, dp_cache = None\<rparr>"

definition sample_tuning :: app_config where
  "sample_tuning = \<lparr>ac_tuning = \<lparr>at_window = 0, at_signup = 0, at_login = 0, at_verify = 0, at_password = 0, at_refresh = 0,
     at_change_password = 0, at_logout = 0\<rparr>, ac_default_limit = 0, ac_default_window = 0, ac_body_token = (\<lambda>r. None)\<rparr>"

abbreviation "activity_route \<equiv> hd activity_routes"

text \<open>The activity route with a handler that panics when it is not authorised.\<close>

lemma registered_routes_authorise_witness:
  "served sample_deps (\<lambda>h. sample_handler) activity_route sample_request rw_new sample_editor
   = served sample_deps (\<lambda>h r w s. if authorised (map (spec_kind sample_deps) (rt_policies activity_route)) r
        then sample_handler r w s else Panic ''not authorised'' w s)
       activity_route sample_request rw_new sample_editor"
proof -
  have pattern: "patternContainsProjectID (trim_space (rt_pattern activity_route))" by code_simp
  have in_tables: "activity_route \<in> set (all_routes sample_tuning (dp_limiter sample_deps \<noteq> None) (dp_cache sample_deps \<noteq> None))"
    by (simp add: all_routes_def modules_def activity_routes_def)
  show ?thesis by (rule registered_routes_authorise [OF in_tables pattern]) simp
qed

lemma Register_succeeds_witness:
  "\<exists>hs reg'. Register sample_tuning sample_deps (\<lambda>e. []) (\<lambda>m h. sample_handler) Map.empty = Inr (hs, reg')
    \<and> map fst hs = all_routes sample_tuning False False"
  using Register_succeeds [of sample_deps sample_tuning "\<lambda>e. []" "\<lambda>m h. sample_handler" Map.empty]
  by (auto simp: sample_deps_def)

end
