(* ===== verification/Team_Repo.thy ===== *)
theory Team_Repo
  imports Notify Permissions
begin

text \<open>
  The team repository (\<open>internal/modules/team/repo.go\<close>): one function per SQL statement and per
  method. Dates are formatted by PostgreSQL's \<open>to_char\<close>, an argument \<open>fmt_date\<close> here;
  new ids are the argument \<open>new_id\<close> of the insert.
\<close>

abbreviation "ErrTeamProjectNotFound \<equiv> ESent ''team.ErrTeamProjectNotFound''"
abbreviation "ErrTeamInviteExists \<equiv> ESent ''team.ErrTeamInviteExists''"
abbreviation "ErrTeamInviteNotFound \<equiv> ESent ''team.ErrTeamInviteNotFound''"
abbreviation "ErrTeamInviteNotPending \<equiv> ESent ''team.ErrTeamInviteNotPending''"
abbreviation "ErrTeamMemberNotFound \<equiv> ESent ''team.ErrTeamMemberNotFound''"
abbreviation "ErrTeamUserNotFound \<equiv> ESent ''team.ErrTeamUserNotFound''"
abbreviation "ErrTeamRoleNotFound \<equiv> ESent ''team.ErrTeamRoleNotFound''"
abbreviation "ErrTeamOwnerImmutable \<equiv> ESent ''team.ErrTeamOwnerImmutable''"
abbreviation "ErrTeamMemberAlreadyExist \<equiv> ESent ''team.ErrTeamMemberAlreadyExist''"

section \<open>Inputs and responses\<close>

record create_invite_input =
  ci_project :: string
  ci_email :: string
  ci_role :: string
  ci_invited_by :: string
  ci_expires :: int

record update_member_input =
  um_project :: string
  um_member :: string
  um_role :: string
  um_custom :: bool
  um_mask :: mask

record update_role_input =
  ur_project :: string
  ur_role :: string
  ur_mask :: mask
  ur_updated_by :: string

record team_member =
  tm_id :: string
  tm_name :: string
  tm_email :: string
  tm_role :: string
  tm_status :: string
  tm_joined :: string

record team_invite =
  ti_email :: string
  ti_role :: string
  ti_sent :: string
  ti_status :: string

record team_role_member = team_member +
  tr_custom :: bool
  tr_mask :: string

type_synonym role_masks = "string \<rightharpoonup> string"

record update_member_response =
  mr_member :: string
  mr_role :: string
  mr_custom :: bool
  mr_mask :: mask

record update_role_response =
  rr_role :: string
  rr_mask :: mask
  rr_custom_unaffected :: int

definition normalizeEmail :: "string \<Rightarrow> string" where
  "normalizeEmail email = to_lower (trim_space email)"

definition wrapRepoError :: "string \<Rightarrow> err \<Rightarrow> err" where
  "wrapRepoError action e =
     with_cause (app_new CodeInternal 500 ''failed to process team data'') (EWrap action [e])"

definition isUniqueViolation :: "err \<Rightarrow> bool" where
  "isUniqueViolation e = (as_pg_error e = Some ''23505'')"

definition is_no_rows :: "err \<Rightarrow> bool" where
  "is_no_rows e = err_is ''pgx.ErrNoRows'' e"

section \<open>Statements\<close>

definition stmt_identity :: "string \<Rightarrow> (tables, string \<times> string) stmt" where
  "stmt_identity pid d =
     Inr (take 1 (map (\<lambda>p. (pj_id p, pj_slug p)) (filter (\<lambda>p. pj_id p = pid) (tb_projects d))), d)"

definition expire_invite :: "tables \<Rightarrow> string \<Rightarrow> invite_row \<Rightarrow> invite_row" where
  "expire_invite d project i =
     (if iv_project i = project \<and> iv_status i = ''pending'' \<and> iv_expires i < tb_now d
      then i\<lparr>iv_status := ''expired''\<rparr> else i)"

definition stmt_expire :: "uuid_cast \<Rightarrow> string \<Rightarrow> (tables, unit) stmt" where
  "stmt_expire uuid project d =
     sum_bind (cast_uuid uuid project) (\<lambda>p.
       Inr ([], d\<lparr>tb_invites := map (expire_invite d p) (tb_invites d)\<rparr>))"

definition find_user :: "tables \<Rightarrow> string \<Rightarrow> user_row option" where
  "find_user d u = find (\<lambda>x. us_id x = u) (tb_users d)"

definition stmt_list_members :: "uuid_cast \<Rightarrow> string \<Rightarrow> (tables, member_row \<times> user_row) stmt" where
  "stmt_list_members uuid project d =
     sum_bind (cast_uuid uuid project) (\<lambda>p.
       Inr (concat (map (\<lambda>m. case find_user d (mb_user m) of None \<Rightarrow> [] | Some u \<Rightarrow> [(m, u)])
              (filter (\<lambda>m. mb_project m = p) (tb_members d))), d))"

definition by_sent_desc :: "invite_row list \<Rightarrow> invite_row list" where
  "by_sent_desc is = sort_key (\<lambda>i. - iv_sent i) is"

definition stmt_list_invites :: "uuid_cast \<Rightarrow> string \<Rightarrow> (tables, invite_row) stmt" where
  "stmt_list_invites uuid project d =
     sum_bind (cast_uuid uuid project) (\<lambda>p.
       Inr (by_sent_desc (filter (\<lambda>i. iv_project i = p \<and> iv_status i \<in> {''pending'', ''expired''})
              (tb_invites d)), d))"

definition stmt_list_invited :: "uuid_cast \<Rightarrow> string \<Rightarrow> (tables, invite_row \<times> user_row) stmt" where
  "stmt_list_invited uuid project d =
     sum_bind (cast_uuid uuid project) (\<lambda>p.
       Inr (concat (map (\<lambda>i. map (\<lambda>u. (i, u))
                (filter (\<lambda>u. equal_fold (us_email u) (iv_email i)) (tb_users d)))
              (by_sent_desc (filter (\<lambda>i. iv_project i = p \<and> iv_status i = ''pending'')
                 (tb_invites d)))), d))"

definition stmt_list_role_masks :: "uuid_cast \<Rightarrow> string \<Rightarrow> (tables, string \<times> int) stmt" where
  "stmt_list_role_masks uuid project d =
     sum_bind (cast_uuid uuid project) (\<lambda>p.
       Inr (map (\<lambda>r. (rp_role r, rp_mask r)) (filter (\<lambda>r. rp_project r = p) (tb_roles d)), d))"

definition stmt_is_member_email :: "uuid_cast \<Rightarrow> string \<Rightarrow> string \<Rightarrow> (tables, bool) stmt" where
  "stmt_is_member_email uuid project email d =
     sum_bind (cast_uuid uuid project) (\<lambda>p.
       Inr ([\<exists>m \<in> set (tb_members d). \<exists>u \<in> set (tb_users d).
              us_id u = mb_user m \<and> mb_project m = p \<and> equal_fold (us_email u) email], d))"

definition stmt_is_user_email :: "string \<Rightarrow> (tables, bool) stmt" where
  "stmt_is_user_email email d =
     Inr ([\<exists>u \<in> set (tb_users d). equal_fold (us_email u) email], d)"

definition is_pending :: "string \<Rightarrow> string \<Rightarrow> invite_row \<Rightarrow> bool" where
  "is_pending project email i \<longleftrightarrow>
     iv_project i = project \<and> equal_fold (iv_email i) email \<and> iv_status i = ''pending''"

definition stmt_pending_invite :: "uuid_cast \<Rightarrow> string \<Rightarrow> string \<Rightarrow> (tables, string) stmt" where
  "stmt_pending_invite uuid project email d =
     sum_bind (cast_uuid uuid project) (\<lambda>p.
       Inr (take 1 (map iv_id (filter (is_pending p email) (tb_invites d))), d))"

definition stmt_invite_status :: "uuid_cast \<Rightarrow> string \<Rightarrow> string \<Rightarrow> (tables, string) stmt" where
  "stmt_invite_status uuid project email d =
     sum_bind (cast_uuid uuid project) (\<lambda>p.
       Inr (take 1 (map iv_status (by_sent_desc
         (filter (\<lambda>i. iv_project i = p \<and> equal_fold (iv_email i) email) (tb_invites d)))), d))"

definition stmt_inviter_role :: "uuid_cast \<Rightarrow> string \<Rightarrow> string \<Rightarrow> (tables, string) stmt" where
  "stmt_inviter_role uuid project user d =
     sum_bind (cast_uuid uuid project) (\<lambda>p. sum_bind (cast_uuid uuid user) (\<lambda>u.
       Inr (take 1 (map mb_role (filter (\<lambda>m. mb_project m = p \<and> mb_user m = u
              \<and> mb_status m = ''Active'') (tb_members d))), d)))"

definition stmt_role_mask :: "uuid_cast \<Rightarrow> string \<Rightarrow> string \<Rightarrow> (tables, int) stmt" where
  "stmt_role_mask uuid project role d =
     sum_bind (cast_uuid uuid project) (\<lambda>p. sum_bind (cast_role role) (\<lambda>r.
       Inr (take 1 (map rp_mask (filter (\<lambda>x. rp_project x = p \<and> rp_role x = r) (tb_roles d))), d)))"

text \<open>The insert checks the mask, the pending-email index and the inviter's foreign key.\<close>

definition stmt_create_invite ::
  "uuid_cast \<Rightarrow> string \<Rightarrow> create_invite_input \<Rightarrow> int \<Rightarrow> string \<Rightarrow> string \<Rightarrow> (tables, invite_row) stmt" where
  "stmt_create_invite uuid project input k inviter_role new_id d =
     sum_bind (cast_uuid uuid project) (\<lambda>p. sum_bind (cast_role (ci_role input)) (\<lambda>r.
     sum_bind (cast_uuid uuid (trim_space (ci_invited_by input))) (\<lambda>by.
     sum_bind (cast_role inviter_role) (\<lambda>by_role.
       let email = normalizeEmail (ci_email input) in
       if k < 0 then Inl (EPg ''23514'')
       else if \<exists>i \<in> set (tb_invites d). is_pending p email i then Inl (EPg ''23505'')
       else if by \<notin> us_id ` set (tb_users d) then Inl (EPg ''23503'')
       else (let row = \<lparr>iv_id = new_id, iv_project = p, iv_email = email, iv_role = r, iv_mask = k,
                        iv_invited_by = by, iv_inviter_role = by_role, iv_status = ''pending'',
                        iv_sent = tb_now d, iv_expires = ci_expires input\<rparr>
             in Inr ([row], d\<lparr>tb_invites := tb_invites d @ [row]\<rparr>))))))"

definition cancel_invite :: "string \<Rightarrow> string \<Rightarrow> invite_row \<Rightarrow> invite_row" where
  "cancel_invite project email i =
     (if is_pending project email i then i\<lparr>iv_status := ''cancelled''\<rparr> else i)"

definition stmt_cancel_invite :: "uuid_cast \<Rightarrow> string \<Rightarrow> string \<Rightarrow> (tables, string) stmt" where
  "stmt_cancel_invite uuid project email d =
     sum_bind (cast_uuid uuid project) (\<lambda>p.
       Inr (map iv_email (filter (is_pending p email) (tb_invites d)),
            d\<lparr>tb_invites := map (cancel_invite p email) (tb_invites d)\<rparr>))"

definition stmt_member :: "uuid_cast \<Rightarrow> string \<Rightarrow> string \<Rightarrow> (tables, member_row) stmt" where
  "stmt_member uuid project member_id d =
     sum_bind (cast_uuid uuid project) (\<lambda>p. sum_bind (cast_uuid uuid member_id) (\<lambda>k.
       Inr (take 1 (filter (\<lambda>m. mb_project m = p \<and> mb_id m = k) (tb_members d)), d)))"

definition stmt_update_member ::
  "uuid_cast \<Rightarrow> string \<Rightarrow> string \<Rightarrow> string \<Rightarrow> bool \<Rightarrow> int \<Rightarrow> (tables, member_row) stmt" where
  "stmt_update_member uuid project member_id role custom k d =
     sum_bind (cast_uuid uuid project) (\<lambda>p. sum_bind (cast_uuid uuid member_id) (\<lambda>mid.
     sum_bind (cast_role role) (\<lambda>r.
       let hit = (\<lambda>m. mb_project m = p \<and> mb_id m = mid);
           upd = (\<lambda>m. if hit m then m\<lparr>mb_role := r, mb_custom := custom, mb_mask := k,
                                     mb_updated := tb_now d\<rparr> else m)
       in if k < 0 \<and> (\<exists>m \<in> set (tb_members d). hit m) then Inl (EPg ''23514'')
          else Inr (map upd (filter hit (tb_members d)),
                    d\<lparr>tb_members := map upd (tb_members d)\<rparr>))))"

definition stmt_update_role ::
  "uuid_cast \<Rightarrow> string \<Rightarrow> string \<Rightarrow> int \<Rightarrow> string \<Rightarrow> (tables, string \<times> int) stmt" where
  "stmt_update_role uuid project role k by d =
     sum_bind (cast_uuid uuid project) (\<lambda>p. sum_bind (cast_role role) (\<lambda>r.
     sum_bind (cast_uuid_opt uuid by) (\<lambda>updated_by.
       let hit = (\<lambda>x. rp_project x = p \<and> rp_role x = r) in
       if \<not> (\<exists>x \<in> set (tb_roles d). hit x) then Inr ([], d)
       else if k < 0 then Inl (EPg ''23514'')
       else if (case updated_by of None \<Rightarrow> False | Some u \<Rightarrow> u \<notin> us_id ` set (tb_users d))
       then Inl (EPg ''23503'')
       else Inr ([(r, k)], d\<lparr>tb_roles := map (\<lambda>x. if hit x
              then x\<lparr>rp_mask := k, rp_updated_by := updated_by, rp_updated := tb_now d\<rparr> else x)
              (tb_roles d)\<rparr>))))"

definition stmt_sync_members ::
  "uuid_cast \<Rightarrow> string \<Rightarrow> string \<Rightarrow> int \<Rightarrow> (tables, string) stmt" where
  "stmt_sync_members uuid project role k d =
     sum_bind (cast_uuid uuid project) (\<lambda>p. sum_bind (cast_role role) (\<lambda>r.
       let hit = (\<lambda>m. mb_project m = p \<and> mb_role m = r \<and> \<not> mb_custom m \<and> mb_mask m \<noteq> k) in
       Inr (map mb_user (filter hit (tb_members d)),
            d\<lparr>tb_members := map (\<lambda>m. if hit m then m\<lparr>mb_mask := k, mb_updated := tb_now d\<rparr> else m)
               (tb_members d)\<rparr>)))"

definition stmt_count_custom :: "uuid_cast \<Rightarrow> string \<Rightarrow> string \<Rightarrow> (tables, int) stmt" where
  "stmt_count_custom uuid project role d =
     sum_bind (cast_uuid uuid project) (\<lambda>p. sum_bind (cast_role role) (\<lambda>r.
       Inr ([int (length (filter (\<lambda>m. mb_project m = p \<and> mb_role m = r \<and> mb_custom m)
              (tb_members d)))], d)))"

definition stmt_invitee :: "uuid_cast \<Rightarrow> string \<Rightarrow> string \<Rightarrow> (tables, string \<times> string) stmt" where
  "stmt_invitee uuid email project d =
     sum_bind (cast_uuid uuid project) (\<lambda>p.
       Inr ([((case find (\<lambda>u. equal_fold (us_email u) email) (tb_users d) of None \<Rightarrow> [] | Some u \<Rightarrow> us_id u),
              (case find (\<lambda>x. pj_id x = p) (tb_projects d) of None \<Rightarrow> [] | Some x \<Rightarrow> pj_name x))], d))"

section \<open>Lookups\<close>

type_synonym 'a team = "(perm_world, 'a) eff"

definition ResolveProjectIdentity :: "string \<Rightarrow> (string \<times> string) team" where
  "ResolveProjectIdentity projectID =
     eff_map_err (\<lambda>e. if is_no_rows e then ErrTeamProjectNotFound
                      else wrapRepoError ''resolve project identity'' e)
       (RelationalQueryOne (stmt_identity (trim_space projectID)) Inr)"

definition expireStalePendingInvites :: "uuid_cast \<Rightarrow> string \<Rightarrow> unit team" where
  "expireStalePendingInvites uuid project =
     eff_map_err (wrapRepoError ''expire stale invites'') (RelationalExec (stmt_expire uuid project))"

definition userEmailExists :: "string \<Rightarrow> bool team" where
  "userEmailExists email =
     eff_map_err (wrapRepoError ''check registered user email'')
       (RelationalQueryOne (stmt_is_user_email (normalizeEmail email)) Inr)"

definition memberEmailExists :: "uuid_cast \<Rightarrow> string \<Rightarrow> string \<Rightarrow> bool team" where
  "memberEmailExists uuid project email =
     eff_map_err (wrapRepoError ''check member email'')
       (RelationalQueryOne (stmt_is_member_email uuid project (normalizeEmail email)) Inr)"

text \<open>No row reads as the empty text.\<close>

definition or_empty :: "string \<Rightarrow> string team \<Rightarrow> string team" where
  "or_empty action m = eff_case m (\<lambda>e. if is_no_rows e then eff_ret []
     else eff_throw (wrapRepoError action e)) eff_ret"

definition pendingInviteID :: "uuid_cast \<Rightarrow> string \<Rightarrow> string \<Rightarrow> string team" where
  "pendingInviteID uuid project email =
     or_empty ''get pending invite id''
       (RelationalQueryOne (stmt_pending_invite uuid project (normalizeEmail email)) Inr)"

definition inviteStatus :: "uuid_cast \<Rightarrow> string \<Rightarrow> string \<Rightarrow> string team" where
  "inviteStatus uuid project email =
     eff_bind (or_empty ''get invite status''
         (RelationalQueryOne (stmt_invite_status uuid project (normalizeEmail email)) Inr))
       (\<lambda>status. eff_ret (trim_space status))"

text \<open>\<open>canonicalRole\<close> of \<open>dto.go\<close>.\<close>

definition role_of_slug :: "string \<Rightarrow> string option" where
  "role_of_slug slug =
     (if slug = ''owner'' then Some RoleOwner else if slug = ''admin'' then Some RoleAdmin
      else if slug = ''editor'' then Some RoleEditor else if slug = ''member'' then Some RoleMember
      else if slug = ''viewer'' then Some RoleViewer
      else if slug = ''limited-access'' then Some RoleLimitedAccess else None)"

definition canonicalRole :: "string \<Rightarrow> string option" where
  "canonicalRole raw =
     (let trimmed = trim_space raw; slug = to_lower trimmed in
      if trimmed = [] then None
      else case role_of_slug slug of Some r \<Rightarrow> Some r
        | None \<Rightarrow> if slug = ''limited access'' then Some RoleLimitedAccess
                  else find (\<lambda>role. equal_fold role trimmed) canonicalRoles)"

definition canonicalRoleFromSlug :: "string \<Rightarrow> string option" where
  "canonicalRoleFromSlug raw = role_of_slug (to_lower (trim_space raw))"

definition inviterRole :: "uuid_cast \<Rightarrow> string \<Rightarrow> string \<Rightarrow> string team" where
  "inviterRole uuid project user =
     (if trim_space user = [] then eff_ret RoleMember
      else eff_case (RelationalQueryOne (stmt_inviter_role uuid project (trim_space user)) Inr)
        (\<lambda>e. if is_no_rows e then eff_ret RoleMember
             else eff_throw (wrapRepoError ''resolve inviter role'' e))
        (\<lambda>role. eff_ret (case canonicalRole role of Some r \<Rightarrow> r | None \<Rightarrow> RoleMember)))"

definition invalid_mask :: "string \<Rightarrow> err" where
  "invalid_mask what = app_new CodeInternal 500 (what @ '' permission mask is invalid'')"

definition roleMask :: "uuid_cast \<Rightarrow> string \<Rightarrow> string \<Rightarrow> mask team" where
  "roleMask uuid project role =
     eff_bind (eff_map_err (\<lambda>e. if is_no_rows e then ErrTeamRoleNotFound
                                else wrapRepoError ''get role mask'' e)
         (RelationalQueryOne (stmt_role_mask uuid project role) Inr))
       (\<lambda>k. if k < 0 then eff_throw (invalid_mask ''role'') else eff_ret (word_of_int k))"

definition memberByID :: "uuid_cast \<Rightarrow> string \<Rightarrow> string \<Rightarrow> member_row team" where
  "memberByID uuid project memberID =
     eff_map_err (\<lambda>e. if is_no_rows e then ErrTeamMemberNotFound
                      else wrapRepoError ''get member by id'' e)
       (RelationalQueryOne (stmt_member uuid project (trim_space memberID)) Inr)"

definition customMembersCount :: "uuid_cast \<Rightarrow> string \<Rightarrow> string \<Rightarrow> int team" where
  "customMembersCount uuid project role =
     eff_map_err (wrapRepoError ''count custom members'')
       (RelationalQueryOne (stmt_count_custom uuid project role) Inr)"

definition uniqueStrings :: "string list \<Rightarrow> string list" where
  "uniqueStrings values = sort (trim_unique (\<lambda>t. t) [] values)"

section \<open>Methods\<close>

definition member_of_row :: "member_row \<times> user_row \<Rightarrow> team_member" where
  "member_of_row row = (case row of (m, u) \<Rightarrow>
     \<lparr>tm_id = mb_id m, tm_name = us_name u, tm_email = us_email u, tm_role = mb_role m,
      tm_status = mb_status m, tm_joined = mb_joined m\<rparr>)"

definition invited_of_row :: "invite_row \<times> user_row \<Rightarrow> team_member" where
  "invited_of_row row = (case row of (i, u) \<Rightarrow>
     \<lparr>tm_id = iv_id i, tm_name = us_name u, tm_email = us_email u, tm_role = iv_role i,
      tm_status = ''Invited'', tm_joined = []\<rparr>)"

definition invite_of_row :: "(int \<Rightarrow> string) \<Rightarrow> invite_row \<Rightarrow> team_invite" where
  "invite_of_row fmt_date i =
     \<lparr>ti_email = iv_email i, ti_role = iv_role i, ti_sent = fmt_date (iv_sent i),
      ti_status = iv_status i\<rparr>"

definition ListMembersAndInvites ::
  "uuid_cast \<Rightarrow> (int \<Rightarrow> string) \<Rightarrow> string \<Rightarrow> (team_member list \<times> team_invite list) team" where
  "ListMembersAndInvites uuid fmt_date projectID =
     eff_bind (ResolveProjectIdentity projectID) (\<lambda>identity.
     eff_bind (eff_ignore (expireStalePendingInvites uuid (fst identity))) (\<lambda>_.
     eff_bind (eff_map_err (wrapRepoError ''list team members'')
       (RelationalQueryMany (stmt_list_members uuid (fst identity))
          (\<lambda>row acc. Inr (acc @ [member_of_row row])) [])) (\<lambda>members.
     eff_bind (eff_map_err (wrapRepoError ''list invited members'')
       (RelationalQueryMany (stmt_list_invited uuid (fst identity))
          (\<lambda>row acc. Inr (acc @ [invited_of_row row])) members)) (\<lambda>all_members.
     eff_bind (eff_map_err (wrapRepoError ''list team invites'')
       (RelationalQueryMany (stmt_list_invites uuid (fst identity))
          (\<lambda>row acc. Inr (acc @ [invite_of_row fmt_date row])) [])) (\<lambda>invites.
       eff_ret (all_members, invites))))))"

definition default_role_masks :: role_masks where
  "default_role_masks role =
     (if role \<in> set canonicalRoles then map_option (\<lambda>m. itoa (uint m)) (DefaultRoleMask role) else None)"

definition role_member_of_row :: "member_row \<times> user_row \<Rightarrow> team_role_member" where
  "role_member_of_row row = team_member.extend (member_of_row row)
     (team_role_member.fields (mb_custom (fst row)) (itoa (mb_mask (fst row))))"

definition ListRoles :: "uuid_cast \<Rightarrow> string \<Rightarrow> (role_masks \<times> team_role_member list) team" where
  "ListRoles uuid projectID =
     eff_bind (ResolveProjectIdentity projectID) (\<lambda>identity.
     eff_bind (eff_map_err (wrapRepoError ''list role permission masks'')
       (RelationalQueryMany (stmt_list_role_masks uuid (fst identity))
          (\<lambda>(role, k) acc. if k < 0 then Inl (invalid_mask ''role'') else Inr (acc(role \<mapsto> itoa k)))
          default_role_masks)) (\<lambda>masks.
     eff_bind (eff_map_err (wrapRepoError ''list role members'')
       (RelationalQueryMany (stmt_list_members uuid (fst identity))
          (\<lambda>row acc. if mb_mask (fst row) < 0 then Inl (invalid_mask ''member'')
                     else Inr (acc @ [role_member_of_row row])) [])) (\<lambda>members.
       eff_ret (masks, members))))"

definition quote_open :: string where "quote_open = [CHR 0xE2, CHR 0x80, CHR 0x9C]"
definition quote_close :: string where "quote_close = [CHR 0xE2, CHR 0x80, CHR 0x9D]"

definition invite_message :: "string \<Rightarrow> string \<Rightarrow> string" where
  "invite_message project_name role =
     (let message = (if project_name \<noteq> []
            then ''You were invited to join '' @ quote_open @ project_name @ quote_close
            else ''You were invited to join a project'')
      in if trim_space role \<noteq> [] then message @ '' as '' @ role else message)"

definition invite_event :: "string \<Rightarrow> string \<Rightarrow> string \<Rightarrow> string \<Rightarrow> event" where
  "invite_event project inviter message user =
     \<lparr>ev_project = project, ev_actor = inviter, ev_source_type = ''Project Invitation'',
      ev_gate = [], ev_title = ''Project invitation'', ev_message = message, ev_source_id = [],
      ev_recipients = [trim_space user]\<rparr>"

definition notifyInvitee ::
  "uuid_cast \<Rightarrow> string \<Rightarrow> string \<Rightarrow> string \<Rightarrow> string \<Rightarrow> unit team" where
  "notifyInvitee uuid project inviter email role =
     eff_case (RelationalQueryOne (stmt_invitee uuid (normalizeEmail email) project) Inr)
       (\<lambda>_. eff_ret ())
       (\<lambda>(user, name). if trim_space user = [] then eff_ret ()
          else eff_ignore (Publish uuid (invite_event project inviter (invite_message name role) user)))"

definition CreateInvite ::
  "uuid_cast \<Rightarrow> (int \<Rightarrow> string) \<Rightarrow> string \<Rightarrow> create_invite_input \<Rightarrow> team_invite team" where
  "CreateInvite uuid fmt_date new_id input =
     eff_bind (ResolveProjectIdentity (ci_project input)) (\<lambda>identity.
     eff_bind (expireStalePendingInvites uuid (fst identity)) (\<lambda>_.
     eff_bind (userEmailExists (ci_email input)) (\<lambda>userExists.
     eff_bind (eff_guard (\<not> userExists) ErrTeamUserNotFound) (\<lambda>_.
     eff_bind (memberEmailExists uuid (fst identity) (ci_email input)) (\<lambda>exists.
     eff_bind (eff_guard exists ErrTeamMemberAlreadyExist) (\<lambda>_.
     eff_bind (pendingInviteID uuid (fst identity) (ci_email input)) (\<lambda>pending.
     eff_bind (eff_guard (pending \<noteq> []) ErrTeamInviteExists) (\<lambda>_.
     eff_bind (roleMask uuid (fst identity) (ci_role input)) (\<lambda>k.
     eff_bind (inviterRole uuid (fst identity) (ci_invited_by input)) (\<lambda>inviter_role.
     eff_bind (eff_map_err (\<lambda>e. if isUniqueViolation e then ErrTeamInviteExists
                                else wrapRepoError ''create invite'' e)
       (RelationalQueryOne (stmt_create_invite uuid (fst identity) input (sint k) inviter_role new_id)
          (\<lambda>row. Inr (invite_of_row fmt_date row)))) (\<lambda>response.
     eff_bind (notifyInvitee uuid (fst identity) (ci_invited_by input) (ci_email input)
                 (ti_role response)) (\<lambda>_.
       eff_ret response))))))))))))"

definition CancelInvite :: "uuid_cast \<Rightarrow> string \<Rightarrow> string \<Rightarrow> string team" where
  "CancelInvite uuid projectID email =
     eff_bind (ResolveProjectIdentity projectID) (\<lambda>identity.
     eff_bind (inviteStatus uuid (fst identity) email) (\<lambda>status.
     eff_bind (eff_guard (status = []) ErrTeamInviteNotFound) (\<lambda>_.
     eff_bind (eff_guard (\<not> equal_fold status ''pending'') ErrTeamInviteNotPending) (\<lambda>_.
       eff_map_err (\<lambda>e. if is_no_rows e then ErrTeamInviteNotFound
                        else wrapRepoError ''cancel invite'' e)
         (RelationalQueryOne (stmt_cancel_invite uuid (fst identity) (normalizeEmail email)) Inr)))))"

definition UpdateMemberPermissions ::
  "uuid_cast \<Rightarrow> update_member_input \<Rightarrow> (update_member_response \<times> string) team" where
  "UpdateMemberPermissions uuid input =
     eff_bind (ResolveProjectIdentity (um_project input)) (\<lambda>identity.
     eff_bind (memberByID uuid (fst identity) (um_member input)) (\<lambda>current.
     eff_bind (eff_guard (mb_role current = RoleOwner) ErrTeamOwnerImmutable) (\<lambda>_.
       eff_map_err (\<lambda>e. if is_no_rows e then ErrTeamMemberNotFound
                        else wrapRepoError ''update member permissions'' e)
         (RelationalQueryOne
            (stmt_update_member uuid (fst identity) (trim_space (um_member input)) (um_role input)
               (um_custom input) (sint (um_mask input)))
            (\<lambda>m. if mb_mask m < 0 then Inl (invalid_mask ''member'')
                 else Inr (\<lparr>mr_member = mb_id m, mr_role = mb_role m, mr_custom = mb_custom m,
                            mr_mask = word_of_int (mb_mask m)\<rparr>, mb_user m))))))"

definition UpdateRolePermissions ::
  "uuid_cast \<Rightarrow> update_role_input \<Rightarrow> (update_role_response \<times> string list) team" where
  "UpdateRolePermissions uuid input =
     eff_bind (ResolveProjectIdentity (ur_project input)) (\<lambda>identity.
     eff_bind (eff_guard (equal_fold (ur_role input) RoleOwner) ErrTeamOwnerImmutable) (\<lambda>_.
     eff_bind (roleMask uuid (fst identity) (ur_role input)) (\<lambda>_.
     eff_bind (eff_map_err (\<lambda>e. if is_no_rows e then ErrTeamRoleNotFound
                                else wrapRepoError ''update role permissions'' e)
       (RelationalQueryOne (stmt_update_role uuid (fst identity) (ur_role input)
            (sint (ur_mask input)) (trim_space (ur_updated_by input)))
          (\<lambda>(role, k). if k < 0 then Inl (invalid_mask ''role'') else Inr (role, word_of_int k :: mask))))
       (\<lambda>updated.
     eff_bind (eff_map_err (wrapRepoError ''sync non-custom members'')
       (RelationalQueryMany (stmt_sync_members uuid (fst identity) (ur_role input)
            (sint (ur_mask input))) (\<lambda>user acc. Inr (acc @ [trim_space user])) [])) (\<lambda>affected.
     eff_bind (customMembersCount uuid (fst identity) (ur_role input)) (\<lambda>customs.
       eff_ret (\<lparr>rr_role = fst updated, rr_mask = snd updated, rr_custom_unaffected = customs\<rparr>,
                uniqueStrings affected)))))))"

end
