(* ===== verification/Team_Service.thy ===== *)
theory Team_Service
  imports Team_Repo
begin

text \<open>
  The team service (\<open>internal/modules/team/service.go\<close>, \<open>dto.go\<close>). The address parser of
  \<open>net/mail\<close> is an argument \<open>parse_address\<close> (the bare address of a text it accepts); the
  service's dependencies that may be nil are arguments.
\<close>

section \<open>Requests\<close>

record invite_request =
  ir_email :: string
  ir_role :: string

record update_member_request =
  umr_role :: string
  umr_custom :: bool
  umr_mask :: mask

record update_role_request =
  urr_role :: string
  urr_mask :: mask

record batch_failure =
  bf_email :: string
  bf_role :: string
  bf_code :: string
  bf_message :: string

record batch_response =
  br_project :: string
  br_invited :: "(string \<times> string) list"
  br_failed :: "batch_failure list"


type_synonym address_parser = "string \<Rightarrow> string option"

definition isValidEmail :: "address_parser \<Rightarrow> string \<Rightarrow> bool" where
  "isValidEmail parse_address email =
     (if trim_space email = [] then False
      else case parse_address email of None \<Rightarrow> False
        | Some a \<Rightarrow> equal_fold (trim_space a) (trim_space email))"

definition invite_request_validate :: "address_parser \<Rightarrow> invite_request \<Rightarrow> err option" where
  "invite_request_validate parse_address r =
     (let email = normalizeEmail (ir_email r) in
      if email = [] \<or> \<not> isValidEmail parse_address email then Some (bad_request ''email is invalid'')
      else if canonicalRole (ir_role r) = None then Some (bad_request ''role is invalid'')
      else None)"

definition maxBatchInvites :: nat where "maxBatchInvites = 100"

definition batch_request_validate :: "invite_request list \<Rightarrow> err option" where
  "batch_request_validate invites =
     (if invites = [] then Some (bad_request ''invites must contain at least one item'')
      else if length invites > maxBatchInvites
      then Some (bad_request ''invites exceeds maximum batch size'') else None)"

definition update_member_request_validate :: "update_member_request \<Rightarrow> err option" where
  "update_member_request_validate r =
     (case canonicalRole (umr_role r) of
        None \<Rightarrow> Some (bad_request ''role is invalid'')
      | Some role \<Rightarrow> if role = RoleOwner then Some (bad_request ''owner role cannot be assigned'')
                     else None)"

definition update_role_request_validate :: "update_role_request \<Rightarrow> err option" where
  "update_role_request_validate r =
     (if canonicalRole (urr_role r) = None then Some (bad_request ''role is invalid'') else None)"

section \<open>Errors\<close>

definition mapTeamRepoError :: "err \<Rightarrow> err" where
  "mapTeamRepoError e =
     (case app_node e of Some a \<Rightarrow> a
      | None \<Rightarrow>
        if err_is ''team.ErrTeamProjectNotFound'' e then app_new CodeNotFound 404 ''project not found''
        else if err_is ''team.ErrTeamInviteExists'' e
        then app_new ''invite_exists'' 409 ''pending invite already exists for this email''
        else if err_is ''team.ErrTeamInviteNotFound'' e
        then app_new ''invite_not_found'' 404 ''pending invite not found''
        else if err_is ''team.ErrTeamInviteNotPending'' e
        then app_new ''already_cancelled'' 400 ''only pending invites can be cancelled''
        else if err_is ''team.ErrTeamMemberNotFound'' e then app_new CodeNotFound 404 ''member not found''
        else if err_is ''team.ErrTeamUserNotFound'' e
        then app_new ''user_not_found'' 404 ''user not found for invite email''
        else if err_is ''team.ErrTeamRoleNotFound'' e
        then app_new ''role_config_missing'' 404 ''role permissions not configured for project''
        else if err_is ''team.ErrTeamOwnerImmutable'' e then bad_request ''owner role cannot be modified''
        else if err_is ''team.ErrTeamMemberAlreadyExist'' e
        then app_new ''member_exists'' 409 ''user is already a project member''
        else with_cause (app_new CodeInternal 500 ''team operation failed'') e)"

definition requireStore :: "bool \<Rightarrow> unit team" where
  "requireStore has_store =
     eff_guard (\<not> has_store) (app_new CodeDependencyFailure 503 ''team service unavailable'')"

text \<open>\<open>validatePermissionMaskDependencies\<close>: the loop over the ten domains of six bits.\<close>

definition view_bit :: "nat \<Rightarrow> mask" where
  "view_bit domain = push_bit (domain * 6) 1"

definition elevated_bits :: "nat \<Rightarrow> mask" where
  "elevated_bits domain = fold (\<lambda>action m. or m (push_bit (domain * 6 + action) 1)) [1..<6] 0"

fun mask_dependency_loop :: "mask \<Rightarrow> nat list \<Rightarrow> err option" where
  "mask_dependency_loop m [] = None"
| "mask_dependency_loop m (domain # ds) =
     (if and m (elevated_bits domain) \<noteq> 0 \<and> and m (view_bit domain) = 0
      then Some (bad_request ''permission mask violates view dependency rule'')
      else mask_dependency_loop m ds)"

definition validatePermissionMaskDependencies :: "mask \<Rightarrow> err option" where
  "validatePermissionMaskDependencies m = mask_dependency_loop m [0..<10]"

section \<open>Operations\<close>

definition service_ListMembers ::
  "uuid_cast \<Rightarrow> (int \<Rightarrow> string) \<Rightarrow> string \<Rightarrow> (team_member list \<times> team_invite list) team" where
  "service_ListMembers uuid fmt_date projectID =
     (if trim_space projectID = [] then eff_throw (bad_request ''projectId is required'')
      else eff_map_err mapTeamRepoError (ListMembersAndInvites uuid fmt_date projectID))"

definition service_ListRoles ::
  "uuid_cast \<Rightarrow> string \<Rightarrow> (role_masks \<times> team_role_member list) team" where
  "service_ListRoles uuid projectID =
     (if trim_space projectID = [] then eff_throw (bad_request ''projectId is required'')
      else eff_map_err mapTeamRepoError (ListRoles uuid projectID))"

definition inviteTTL :: int where "inviteTTL = 7 * 24 * 3600"

definition service_CreateInvite ::
  "uuid_cast \<Rightarrow> (int \<Rightarrow> string) \<Rightarrow> bool \<Rightarrow> int \<Rightarrow> string \<Rightarrow> string \<Rightarrow> string \<Rightarrow> invite_request
     \<Rightarrow> team_invite team" where
  "service_CreateInvite uuid fmt_date has_store now new_id projectID actor req =
     (if trim_space projectID = [] then eff_throw (bad_request ''projectId is required'')
      else if trim_space actor = [] then eff_throw (app_new CodeUnauthorized 401 ''authentication required'')
      else eff_bind (requireStore has_store) (\<lambda>_.
        case canonicalRole (ir_role req) of
          None \<Rightarrow> eff_throw (bad_request ''role is invalid'')
        | Some role \<Rightarrow> eff_map_err mapTeamRepoError (WithTx (CreateInvite uuid fmt_date new_id
            \<lparr>ci_project = projectID, ci_email = normalizeEmail (ir_email req), ci_role = role,
             ci_invited_by = trim_space actor, ci_expires = now + inviteTTL\<rparr>))))"

text \<open>One round of the batch: the entry for the response, or the error that ends it.\<close>

definition batch_step ::
  "uuid_cast \<Rightarrow> (int \<Rightarrow> string) \<Rightarrow> address_parser \<Rightarrow> int \<Rightarrow> string \<Rightarrow> string \<Rightarrow> string \<Rightarrow> invite_request
     \<Rightarrow> (batch_failure + (string \<times> string)) team" where
  "batch_step uuid fmt_date parse_address now new_id project actor invite =
     (let email = normalizeEmail (ir_email invite);
          failure = (\<lambda>role code message.
            Inl \<lparr>bf_email = email, bf_role = role, bf_code = code, bf_message = message\<rparr>)
      in if email = [] \<or> \<not> isValidEmail parse_address email
         then eff_ret (failure (ir_role invite) CodeBadRequest ''email is invalid'')
         else case canonicalRole (ir_role invite) of
           None \<Rightarrow> eff_ret (failure (ir_role invite) CodeBadRequest ''role is invalid'')
         | Some role \<Rightarrow>
             eff_case (WithTx (CreateInvite uuid fmt_date new_id
                 \<lparr>ci_project = project, ci_email = email, ci_role = role,
                  ci_invited_by = trim_space actor, ci_expires = now + inviteTTL\<rparr>))
               (\<lambda>e. case as_app_error (mapTeamRepoError e) of
                  None \<Rightarrow> eff_throw (mapTeamRepoError e)
                | Some ae \<Rightarrow> if ae_code ae = CodeInternal \<or> ae_code ae = CodeDependencyFailure
                    then eff_throw (mapTeamRepoError e)
                    else eff_ret (failure role (ae_code ae) (ae_message ae)))
               (\<lambda>_. eff_ret (Inr (email, role))))"

fun batch_loop ::
  "(invite_request \<Rightarrow> (batch_failure + (string \<times> string)) team) \<Rightarrow> invite_request list
     \<Rightarrow> batch_response \<Rightarrow> batch_response team" where
  "batch_loop step [] response = eff_ret response"
| "batch_loop step (i # is) response =
     eff_bind (step i) (\<lambda>r. case r of
         Inl f \<Rightarrow> batch_loop step is (response\<lparr>br_failed := br_failed response @ [f]\<rparr>)
       | Inr ok \<Rightarrow> batch_loop step is (response\<lparr>br_invited := br_invited response @ [ok]\<rparr>))"

text \<open>The id of the invite of the n-th entry is \<open>new_id\<close> of its email here; ids are only
  compared for emptiness.\<close>

definition service_BatchInvites ::
  "uuid_cast \<Rightarrow> (int \<Rightarrow> string) \<Rightarrow> address_parser \<Rightarrow> bool \<Rightarrow> int \<Rightarrow> (string \<Rightarrow> string) \<Rightarrow> string \<Rightarrow> string
     \<Rightarrow> invite_request list \<Rightarrow> (batch_response \<times> bool) team" where
  "service_BatchInvites uuid fmt_date parse_address has_store now new_id projectID actor invites =
     (if trim_space projectID = [] then eff_throw (bad_request ''projectId is required'')
      else if trim_space actor = [] then eff_throw (app_new CodeUnauthorized 401 ''authentication required'')
      else eff_bind (requireStore has_store) (\<lambda>_.
        eff_bind (eff_map_err mapTeamRepoError (ResolveProjectIdentity projectID)) (\<lambda>identity.
        eff_bind (batch_loop (\<lambda>i. batch_step uuid fmt_date parse_address now (new_id (ir_email i))
                     (fst identity) actor i) invites
                   \<lparr>br_project = fst identity, br_invited = [], br_failed = []\<rparr>) (\<lambda>response.
          eff_ret (response, br_failed response \<noteq> [])))))"

definition service_CancelInvite ::
  "uuid_cast \<Rightarrow> address_parser \<Rightarrow> bool \<Rightarrow> string \<Rightarrow> string \<Rightarrow> string team" where
  "service_CancelInvite uuid parse_address has_store projectID email =
     (if trim_space projectID = [] then eff_throw (bad_request ''projectId is required'')
      else if normalizeEmail email = [] \<or> \<not> isValidEmail parse_address (normalizeEmail email)
      then eff_throw (bad_request ''email is invalid'')
      else eff_bind (requireStore has_store) (\<lambda>_.
        eff_map_err mapTeamRepoError (WithTx (CancelInvite uuid projectID email))))"

definition resolveRoleMask :: "uuid_cast \<Rightarrow> string \<Rightarrow> string \<Rightarrow> mask team" where
  "resolveRoleMask uuid projectID role =
     eff_bind (eff_map_err mapTeamRepoError (ResolveProjectIdentity projectID)) (\<lambda>identity.
     eff_bind (eff_map_err mapTeamRepoError (ListRoles uuid (fst identity))) (\<lambda>roles.
       case fst roles role of
         None \<Rightarrow> eff_throw (app_new ''role_config_missing'' 404
                   ''role permissions not configured for project'')
       | Some raw \<Rightarrow> (case scan_uint raw of
           None \<Rightarrow> eff_throw (app_new CodeInternal 500 ''role permission mask is invalid'')
         | Some m \<Rightarrow> eff_ret m)))"

definition invalidatePermissionScopes ::
  "bool \<Rightarrow> perm_world tag_invalidator \<Rightarrow> string \<Rightarrow> string list \<Rightarrow> unit team" where
  "invalidatePermissionScopes has_redis invalidator projectID userIDs =
     (let users = uniqueStrings userIDs in
      if users = [] then eff_ret ()
      else eff_bind (eff_ignore (InvalidateResolverUserCache has_redis users)) (\<lambda>_.
        case invalidator of None \<Rightarrow> eff_ret ()
        | Some bump \<Rightarrow> eff_ignore (bump (concat (map (\<lambda>u. PermissionTags u projectID) users)))))"

definition service_UpdateMemberPermissions ::
  "uuid_cast \<Rightarrow> bool \<Rightarrow> bool \<Rightarrow> perm_world tag_invalidator \<Rightarrow> string \<Rightarrow> string
     \<Rightarrow> update_member_request \<Rightarrow> update_member_response team" where
  "service_UpdateMemberPermissions uuid has_store has_redis invalidator projectID memberID req =
     (if trim_space projectID = [] then eff_throw (bad_request ''projectId is required'')
      else if trim_space memberID = [] then eff_throw (bad_request ''memberId is required'')
      else eff_bind (requireStore has_store) (\<lambda>_.
        case canonicalRole (umr_role req) of
          None \<Rightarrow> eff_throw (bad_request ''role is invalid'')
        | Some role \<Rightarrow>
            if role = RoleOwner then eff_throw (bad_request ''owner role cannot be assigned'')
            else eff_bind (check (validatePermissionMaskDependencies (umr_mask req))) (\<lambda>_.
              eff_bind (resolveRoleMask uuid projectID role) (\<lambda>role_mask.
              eff_bind (eff_guard (\<not> umr_custom req \<and> umr_mask req \<noteq> role_mask)
                 (bad_request ''permissionMask must match role mask when isCustom is false'')) (\<lambda>_.
              eff_bind (eff_map_err mapTeamRepoError (WithTx (UpdateMemberPermissions uuid
                  \<lparr>um_project = projectID, um_member = memberID, um_role = role,
                   um_custom = (if umr_custom req \<and> umr_mask req = role_mask then False
                                else umr_custom req),
                   um_mask = umr_mask req\<rparr>))) (\<lambda>updated.
              eff_bind (invalidatePermissionScopes has_redis invalidator projectID
                          [trim_space (snd updated)]) (\<lambda>_.
                eff_ret (fst updated))))))))"

definition service_UpdateRolePermissions ::
  "uuid_cast \<Rightarrow> bool \<Rightarrow> bool \<Rightarrow> perm_world tag_invalidator \<Rightarrow> string \<Rightarrow> string \<Rightarrow> string
     \<Rightarrow> update_role_request \<Rightarrow> update_role_response team" where
  "service_UpdateRolePermissions uuid has_store has_redis invalidator projectID pathRole actor req =
     (if trim_space projectID = [] then eff_throw (bad_request ''projectId is required'')
      else if trim_space pathRole = [] then eff_throw (bad_request ''role path parameter is required'')
      else if trim_space actor = [] then eff_throw (app_new CodeUnauthorized 401 ''authentication required'')
      else eff_bind (requireStore has_store) (\<lambda>_.
        case canonicalRole (urr_role req) of
          None \<Rightarrow> eff_throw (bad_request ''role is invalid'')
        | Some bodyRole \<Rightarrow>
            if \<not> equal_fold bodyRole pathRole then eff_throw (bad_request ''role must match path role'')
            else if equal_fold pathRole RoleOwner
            then eff_throw (bad_request ''owner role cannot be modified'')
            else eff_bind (check (validatePermissionMaskDependencies (urr_mask req))) (\<lambda>_.
              eff_bind (eff_map_err mapTeamRepoError (WithTx (UpdateRolePermissions uuid
                  \<lparr>ur_project = projectID, ur_role = pathRole, ur_mask = urr_mask req,
                   ur_updated_by = actor\<rparr>))) (\<lambda>updated.
              eff_bind (invalidatePermissionScopes has_redis invalidator projectID (snd updated)) (\<lambda>_.
                eff_ret (fst updated))))))"

end
