(* ===== verification/Team_Laws.thy ===== *)
theory Team_Laws
  imports Team_Service
begin

text \<open>
  What the team module guarantees: the view rule of masks, the effect of changing a member's or a
  role's permissions on tables and caches, and the life of an invite.
\<close>

section \<open>The view rule\<close>

lemma mask_dependency_loop_None:
  "mask_dependency_loop m ds = None
     \<longleftrightarrow> (\<forall>d \<in> set ds. and m (elevated_bits d) \<noteq> 0 \<longrightarrow> and m (view_bit d) \<noteq> 0)"
  by (induction ds) auto

lemma and_or_zero: "and m (or a b) = 0 \<longleftrightarrow> and m a = 0 \<and> and m b = (0 :: mask)"
  by (simp add: bit.conj_disj_distrib or_eq_0_iff)

lemma and_fold_bits:
  "and m (fold (\<lambda>a k. or k (push_bit (f a) 1)) xs acc) = 0
     \<longleftrightarrow> and m acc = (0 :: mask) \<and> (\<forall>a \<in> set xs. \<not> bit m (f a))"
  by (induction xs arbitrary: acc) (auto simp: and_or_zero and_exp_eq_0_iff_not_bit)

lemma elevated_bits_iff: "and m (elevated_bits d) = 0 \<longleftrightarrow> (\<forall>a \<in> {1..<6}. \<not> bit m (d * 6 + a))"
  unfolding elevated_bits_def and_fold_bits by simp

lemma view_bit_iff: "and m (view_bit d) = 0 \<longleftrightarrow> \<not> bit m (d * 6)"
  by (simp add: view_bit_def and_exp_eq_0_iff_not_bit)

lemma domain_of_index: "n < 10 \<Longrightarrow> \<exists>d. domain_index d = n"
proof -
  assume "n < 10"
  then have "n \<in> {0,1,2,3,4,5,6,7,8,9}" by auto
  then show ?thesis by (metis domain_index.simps insert_iff empty_iff)
qed

lemma action_of_index: "1 \<le> n \<Longrightarrow> n < 6 \<Longrightarrow> \<exists>a. action_index a = n"
proof -
  assume "1 \<le> n" "n < 6"
  then have "n \<in> {1,2,3,4,5}" by auto
  then show ?thesis by (metis action_index.simps insert_iff empty_iff)
qed

lemma validate_mask_bits:
  "validatePermissionMaskDependencies m = None
     \<longleftrightarrow> (\<forall>n < 10. \<forall>a. 1 \<le> a \<and> a < 6 \<and> bit m (n * 6 + a) \<longrightarrow> bit m (n * 6))"
  unfolding validatePermissionMaskDependencies_def mask_dependency_loop_None elevated_bits_iff
    view_bit_iff by (simp add: Ball_def Bex_def)

text \<open>The loop over bit positions accepts a mask exactly when every domain in which the mask
  grants some action also grants viewing.\<close>

theorem validatePermissionMaskDependencies_iff:
  "validatePermissionMaskDependencies m = None
     \<longleftrightarrow> (\<forall>d a. and m (perm d a) \<noteq> 0 \<longrightarrow> and m (perm d AView) \<noteq> 0)"
    (is "?l \<longleftrightarrow> ?r")
proof -
  have pos: "perm_bit d a = domain_index d * 6 + action_index a" for d a
    by (simp add: perm_bit_def)
  have r: "?r \<longleftrightarrow> (\<forall>d a. bit m (domain_index d * 6 + action_index a) \<longrightarrow> bit m (domain_index d * 6))"
    by (simp add: and_perm_iff pos)
  show ?thesis
    unfolding r validate_mask_bits
  proof (intro iffI allI impI, goal_cases)
    case (1 d a)
    moreover have "1 \<le> action_index a \<and> action_index a < 6" if "a \<noteq> AView"
      using that by (cases a) simp_all
    ultimately show ?case using domain_index_less [of d] by (cases "a = AView") (simp, metis)
  next
    case (2 n a)
    then obtain d a' where "domain_index d = n" "action_index a' = a"
      using domain_of_index action_of_index by metis
    with 2 show ?case by metis
  qed
qed

section \<open>The repository\<close>

lemma first_row:
  "take (Suc 0) (map f (filter P xs)) = r # rs \<longleftrightarrow> rs = [] \<and> (\<exists>x. find P xs = Some x \<and> r = f x)"
  "take (Suc 0) (filter P xs) = y # ys \<longleftrightarrow> ys = [] \<and> find P xs = Some y"
  by (induction xs) auto

lemma ResolveProjectIdentity_ok:
  "ResolveProjectIdentity p s = (Inr i, s') \<longleftrightarrow>
     ss_tx s \<noteq> TxAborted \<and> ss_fault s (ss_count s) = None \<and> s' = tick s
     \<and> (\<exists>x. find (\<lambda>x. pj_id x = trim_space p) (tb_projects (ss_data s)) = Some x
          \<and> i = (pj_id x, pj_slug x))"
  by (auto simp: ResolveProjectIdentity_def RelationalQueryOne_ok run_stmt_ok stmt_identity_def
      first_row tick_def)

lemma ResolveProjectIdentity_id: "ResolveProjectIdentity p s = (Inr i, s') \<Longrightarrow> fst i = trim_space p"
  by (auto simp: ResolveProjectIdentity_ok dest: find_member)

lemma memberByID_ok:
  "memberByID uuid p k s = (Inr m, s') \<longleftrightarrow>
     ss_tx s \<noteq> TxAborted \<and> ss_fault s (ss_count s) = None \<and> s' = tick s
     \<and> (\<exists>q j. uuid p = Some q \<and> uuid (trim_space k) = Some j
          \<and> find (\<lambda>m. mb_project m = q \<and> mb_id m = j) (tb_members (ss_data s)) = Some m)"
  by (auto simp: memberByID_def RelationalQueryOne_ok run_stmt_ok stmt_member_def first_row tick_def)

lemma roleMask_ok:
  "roleMask uuid p role s = (Inr k, s') \<longleftrightarrow>
     ss_tx s \<noteq> TxAborted \<and> ss_fault s (ss_count s) = None \<and> s' = tick s
     \<and> role \<in> set role_enum \<and> (\<exists>q x. uuid p = Some q
          \<and> find_role_row (ss_data s) q role = Some x \<and> 0 \<le> rp_mask x \<and> k = word_of_int (rp_mask x))"
  by (auto simp: roleMask_def eff_Inr RelationalQueryOne_ok run_stmt_ok stmt_role_mask_def first_row
      tick_def find_role_row_def not_less split: if_splits) (metis order_refl)?

lemma UpdateMemberPermissions_ok:
  assumes "UpdateMemberPermissions uuid input s = (Inr (resp, user), s')"
  obtains q j m where
    "uuid (trim_space (um_project input)) = Some q" "uuid (trim_space (um_member input)) = Some j"
    "m \<in> set (tb_members (ss_data s))" "mb_project m = q" "mb_id m = j" "mb_role m \<noteq> RoleOwner"
    "um_role input \<in> set role_enum" "0 \<le> sint (um_mask input)" "user = mb_user m"
    "ss_data s' = (ss_data s)\<lparr>tb_members := map (\<lambda>m. if mb_project m = q \<and> mb_id m = j
       then m\<lparr>mb_role := um_role input, mb_custom := um_custom input,
              mb_mask := sint (um_mask input), mb_updated := tb_now (ss_data s)\<rparr> else m)
       (tb_members (ss_data s))\<rparr>"
    "resp = \<lparr>mr_member = j, mr_role = um_role input, mr_custom = um_custom input,
             mr_mask = um_mask input\<rparr>"
proof -
  obtain q j m where a: "uuid (trim_space (um_project input)) = Some q" "uuid (trim_space (um_member input)) = Some j"
      "find (\<lambda>m. mb_project m = q \<and> mb_id m = j) (tb_members (ss_data s)) = Some m"
      "mb_role m \<noteq> RoleOwner"
    and r: "RelationalQueryOne
            (stmt_update_member uuid (trim_space (um_project input)) (trim_space (um_member input)) (um_role input)
               (um_custom input) (sint (um_mask input)))
            (\<lambda>m. if mb_mask m < 0 then Inl (invalid_mask ''member'')
                 else Inr (\<lparr>mr_member = mb_id m, mr_role = mb_role m, mr_custom = mb_custom m,
                            mr_mask = word_of_int (mb_mask m)\<rparr>, mb_user m)) (tick (tick s)) = (Inr (resp, user), s')"
    using assms by (auto simp: UpdateMemberPermissions_def eff_bind_Inr ResolveProjectIdentity_ok
        memberByID_ok dest: find_member)
  have m: "m \<in> set (tb_members (ss_data s))" "mb_project m = q" "mb_id m = j"
    using a(3) by (auto simp: find_Some_iff)
  obtain ms where f: "filter (\<lambda>m. mb_project m = q \<and> mb_id m = j) (tb_members (ss_data s)) = m # ms"
    using find_filter [OF a(3)] by blast
  show ?thesis
    by (rule that [OF a(1,2) m a(4)]) (use r a f m in \<open>auto simp: RelationalQueryOne_ok run_stmt_ok stmt_update_member_def Let_def split: if_splits\<close>)
qed

section \<open>The mask of a role\<close>

lemma scan_masks:
  "\<lbrakk>scan_rows (\<lambda>(role, k) acc. if k < 0 then Inl e else Inr (acc(role \<mapsto> itoa k))) rows acc = Inr masks;
    distinct (map fst rows)\<rbrakk>
   \<Longrightarrow> (\<forall>(r, k) \<in> set rows. 0 \<le> k \<and> masks r = Some (itoa k))
     \<and> (\<forall>r. r \<notin> fst ` set rows \<longrightarrow> masks r = acc r)"
proof (induction rows arbitrary: acc)
  case (Cons row rows)
  obtain r k where row: "row = (r, k)" by force
  with Cons.prems have k: "0 \<le> k"
    and s: "scan_rows (\<lambda>(role, k) acc. if k < 0 then Inl e else Inr (acc(role \<mapsto> itoa k))) rows
              (acc(r \<mapsto> itoa k)) = Inr masks" and r: "r \<notin> fst ` set rows" "distinct (map fst rows)"
    by (auto split: if_splits)
  note IH = Cons.IH [OF s r(2)]
  from IH r(1) have "masks r = Some (itoa k)" by simp
  with IH row k show ?case by auto
qed simp

lemma scan_uint_itoa:
  assumes "0 \<le> k" "in_int64 k"
  shows "scan_uint (itoa k) = Some (word_of_int k)" "sint (word_of_int k :: mask) = k"
proof -
  have "itoa k = show_nat (unat (word_of_int k :: mask))"
    using assms by (simp add: itoa_def in_int64_def unsigned_of_int take_bit_int_eq_self nat_take_bit_eq)
   
  then show "scan_uint (itoa k) = Some (word_of_int k)" by (simp add: scan_uint_show)
  show "sint (word_of_int k :: mask) = k"
    using int64_of_uint64_of [OF assms(2)] by (simp add: int64_of_def uint64_of_def)
qed

text \<open>\<open>bigint\<close> columns hold 64 bit integers.\<close>

definition masks_fit :: "tables \<Rightarrow> bool" where
  "masks_fit d \<longleftrightarrow> (\<forall>r \<in> set (tb_roles d). in_int64 (rp_mask r))
     \<and> (\<forall>m \<in> set (tb_members d). in_int64 (mb_mask m))"

lemma ListRoles_ok:
  assumes "ListRoles uuid p s = (Inr (masks, members), s')" "tables_ok (ss_data s)"
    "uuid (trim_space p) = Some q" "find_role_row (ss_data s) q role = Some x"
  shows "masks role = Some (itoa (rp_mask x))"
proof -
  let ?rows = "map (\<lambda>r. (rp_role r, rp_mask r)) (filter (\<lambda>r. rp_project r = q) (tb_roles (ss_data s)))"
  have scan: "scan_rows (\<lambda>(role, k) acc. if k < 0 then Inl (invalid_mask ''role'') else Inr (acc(role \<mapsto> itoa k)))
      ?rows default_role_masks = Inr masks"
    using assms(1,3) by (auto simp: ListRoles_def eff_bind_Inr ResolveProjectIdentity_ok
        RelationalQueryMany_ok run_stmt_ok stmt_list_role_masks_def find_Some_iff)
  have "distinct (map (\<lambda>r. (rp_project r, rp_role r)) (tb_roles (ss_data s)))"
    using assms(2) by (simp add: tables_ok_def)
  then have "distinct (map fst ?rows)"
    by (auto simp: distinct_map inj_on_def comp_def)
  with scan_masks [OF scan] find_role_row_Some [OF assms(4)] show ?thesis by fastforce
qed

lemma ListRoles_frame: "keeps same_data (ListRoles uuid p)" "keeps same_more (ListRoles uuid p)"
  unfolding ListRoles_def ResolveProjectIdentity_def
  by (auto intro!: keeps_intros query_more query_read_only
      simp: stmt_identity_def stmt_list_role_masks_def stmt_list_members_def)

lemma resolveRoleMask_frame:
  "keeps same_data (resolveRoleMask uuid p role)" "keeps same_more (resolveRoleMask uuid p role)"
  unfolding resolveRoleMask_def ResolveProjectIdentity_def
  by (auto intro!: keeps_intros query_more query_read_only ListRoles_frame
      simp: stmt_identity_def split: option.split)

lemma resolveRoleMask_ok:
  assumes "resolveRoleMask uuid p role s = (Inr k, s')" "tables_ok (ss_data s)" "masks_fit (ss_data s)"
    "uuid (trim_space p) = Some q" "find_role_row (ss_data s) q role = Some x"
  shows "sint k = rp_mask x"
proof -
  obtain i roles t t' where i: "ResolveProjectIdentity p s = (Inr i, t)"
    and l: "ListRoles uuid (fst i) t = (Inr roles, t')"
    and c: "(case fst roles role of
         None \<Rightarrow> eff_throw (app_new ''role_config_missing'' 404
                   ''role permissions not configured for project'')
       | Some raw \<Rightarrow> (case scan_uint raw of
           None \<Rightarrow> eff_throw (app_new CodeInternal 500 ''role permission mask is invalid'')
         | Some m \<Rightarrow> eff_ret m)) t' = (Inr k, s')"
    using assms(1) unfolding resolveRoleMask_def eff_bind_Inr by auto
  have k: "(case fst roles role of None \<Rightarrow> None | Some raw \<Rightarrow> scan_uint raw) = Some k"
    using c by (auto split: option.splits)
  obtain masks members where roles: "roles = (masks, members)" by force
  have "ss_data t = ss_data s" using i by (simp add: ResolveProjectIdentity_ok)
  have "trim_space (trim_space p) = trim_space p" by simp
  with ListRoles_ok [OF l [unfolded roles]] assms(2,4,5) ResolveProjectIdentity_id [OF i]
    \<open>ss_data t = ss_data s\<close> have m: "masks role = Some (itoa (rp_mask x))" by simp
  have "0 \<le> rp_mask x" "in_int64 (rp_mask x)"
    using find_role_row_Some [OF assms(5)] assms(2,3) by (auto simp: tables_ok_def masks_fit_def)
  with m k roles show ?thesis using scan_uint_itoa by auto
qed

section \<open>Member permissions\<close>

abbreviation "redis_works w \<equiv> (\<forall>n. pw_redis_fault w n = None)"

lemma InvalidateResolverUserCache_works:
  "redis_works w \<Longrightarrow> \<exists>w'. InvalidateResolverUserCache h us w = (Inr (), w')"
  by (auto simp: InvalidateResolverUserCache_def eff_ret_def eff_map_err_def eff_case_def
      redis_del_def redis_request_def Let_def)

lemma uniqueStrings_set: "set (uniqueStrings us) = {trim_space u | u. u \<in> set us \<and> trim_space u \<noteq> []}"
  by (auto simp: uniqueStrings_def trim_unique_set_id)

lemma keeps_tables_and_redis_rel [simp]:
  "reflp keeps_tables_and_redis" "transp keeps_tables_and_redis"
  by (auto intro!: reflpI transpI simp: keeps_tables_and_redis_def)

lemma invalidatePermissionScopes_ok:
  assumes run: "invalidatePermissionScopes h invalidator p us w = (Inr x, w')"
    and inv: "\<And>bump tags. invalidator = Some bump \<Longrightarrow> keeps keeps_tables_and_redis (bump tags)"
  shows "ss_data w' = ss_data w"
    "\<lbrakk>h; redis_works w; u \<in> set us; trim_space u \<noteq> []\<rbrakk> \<Longrightarrow> pw_redis w' (rbacKey u) = None"
proof -
  let ?us = "uniqueStrings us"
  obtain r w1 where c: "InvalidateResolverUserCache h ?us w = (r, w1)" by force
  have t: "ss_data w1 = ss_data w" using invalidate_world [OF c] by simp
  let ?tail = "case invalidator of None \<Rightarrow> eff_ret ()
     | Some bump \<Rightarrow> eff_ignore (bump (concat (map (\<lambda>u. PermissionTags u p) ?us)))"
  have "keeps keeps_tables_and_redis ?tail"
  proof (cases invalidator)
    case (Some bump)
    then show ?thesis using keeps_ignore [OF _ _ inv [OF Some]] by simp
  qed (simp add: keeps_ret)
  moreover have "?us = [] \<and> w' = w \<or> ?us \<noteq> [] \<and> ?tail w1 = (Inr x, w')"
    using run c by (auto simp: invalidatePermissionScopes_def Let_def eff_ignore_def eff_case_def
        eff_bind_def eff_ret_def split: if_splits sum.splits)
  ultimately have rest: "?us = [] \<and> w' = w \<or> ?us \<noteq> [] \<and> keeps_tables_and_redis w1 w'"
    by (auto dest: keepsD)
  then have rest: "?us = [] \<and> w' = w \<or> ?us \<noteq> [] \<and> ss_data w' = ss_data w1 \<and> pw_redis w' = pw_redis w1"
    by (simp add: keeps_tables_and_redis_def)
  with t show "ss_data w' = ss_data w" by auto
  assume h: h and works: "redis_works w" and u: "u \<in> set us" "trim_space u \<noteq> []"
  have "trim_space u \<in> set ?us" using u by (auto simp: uniqueStrings_set)
  moreover obtain w2 where "InvalidateResolverUserCache h ?us w = (Inr (), w2)"
    using InvalidateResolverUserCache_works [OF works] by blast
  ultimately show "pw_redis w' (rbacKey u) = None"
    using rest Invalidate_ok(2) [of h ?us w "()" w2 "trim_space u"] h c
    by (auto simp: rbacKey_def)
qed

lemma UpdateMemberPermissions_more: "keeps same_more (UpdateMemberPermissions uuid input)"
  unfolding UpdateMemberPermissions_def ResolveProjectIdentity_def memberByID_def
  by (auto intro!: keeps_intros query_more)

lemma service_member_steps:
  assumes "service_UpdateMemberPermissions uuid hs h invalidator p k req w = (Inr resp, w')"
  obtains role role_mask user w1 w2 where
    "canonicalRole (umr_role req) = Some role" "role \<noteq> RoleOwner"
    "validatePermissionMaskDependencies (umr_mask req) = None"
    "resolveRoleMask uuid p role w = (Inr role_mask, w1)"
    "umr_custom req \<or> umr_mask req = role_mask"
    "WithTx (UpdateMemberPermissions uuid \<lparr>um_project = p, um_member = k, um_role = role,
        um_custom = (umr_custom req \<and> umr_mask req \<noteq> role_mask),
        um_mask = umr_mask req\<rparr>) w1 = (Inr (resp, user), w2)"
    "invalidatePermissionScopes h invalidator p [trim_space user] w2 = (Inr (), w')"
proof -
  have flag: "(if a \<and> b then False else a) = (a \<and> \<not> b)" for a b by auto
  show thesis
    using assms that unfolding service_UpdateMemberPermissions_def flag
    by (auto simp: eff_bind_Inr check_def requireStore_def
        split: if_splits option.splits)
qed

lemma distinct_key: "distinct (map f xs) \<Longrightarrow> x \<in> set xs \<Longrightarrow> y \<in> set xs \<Longrightarrow> f x = f y \<longleftrightarrow> x = y"
  by (auto simp: distinct_map inj_on_def)

lemma tables_ok_member_id:
  "tables_ok d \<Longrightarrow> m \<in> set (tb_members d) \<Longrightarrow> x \<in> set (tb_members d) \<Longrightarrow> mb_id x = mb_id m \<longleftrightarrow> x = m"
  by (auto simp: tables_ok_def dest: distinct_key)

text \<open>What a successful update leaves behind: one member has the new role and mask.\<close>

definition new_member :: "tables \<Rightarrow> string \<Rightarrow> bool \<Rightarrow> mask \<Rightarrow> member_row \<Rightarrow> member_row" where
  "new_member d role custom k m =
     m\<lparr>mb_role := role, mb_custom := custom, mb_mask := sint k, mb_updated := tb_now d\<rparr>"

lemma new_member_simps [simp]:
  "mb_id (new_member d r c k m) = mb_id m" "mb_project (new_member d r c k m) = mb_project m"
  "mb_user (new_member d r c k m) = mb_user m" "mb_role (new_member d r c k m) = r"
  "mb_custom (new_member d r c k m) = c" "mb_mask (new_member d r c k m) = sint k"
  "mb_status (new_member d r c k m) = mb_status m"
  by (simp_all add: new_member_def)

lemma members_synced_update:
  assumes "members_synced d"
    and "\<And>x. find_role_row d (mb_project m') (mb_role m') = Some x \<Longrightarrow> \<not> mb_custom m' \<Longrightarrow> mb_mask m' = rp_mask x"
  shows "members_synced (d\<lparr>tb_members := map (\<lambda>x. if x = m then m' else x) (tb_members d)\<rparr>)"
  using assms by (auto simp: members_synced_def find_role_row_def split: option.splits)

lemma tables_ok_members:
  assumes "tables_ok d"
    and f: "\<And>x. x \<in> set (tb_members d) \<Longrightarrow> mb_id (f x) = mb_id x \<and> mb_project (f x) = mb_project x
      \<and> mb_user (f x) = mb_user x \<and> 0 \<le> mb_mask (f x) \<and> mb_role (f x) \<in> set role_enum"
  shows "tables_ok (d\<lparr>tb_members := map f (tb_members d)\<rparr>)"
proof -
  have "map mb_id (map f (tb_members d)) = map mb_id (tb_members d)"
    "map (\<lambda>m. (mb_project m, mb_user m)) (map f (tb_members d))
       = map (\<lambda>m. (mb_project m, mb_user m)) (tb_members d)"
    using f by auto
  with assms show ?thesis by (simp add: tables_ok_def del: map_map)
qed


section \<open>Role permissions\<close>

definition in_role :: "string \<Rightarrow> string \<Rightarrow> member_row \<Rightarrow> bool" where
  "in_role q role m \<longleftrightarrow> mb_project m = q \<and> mb_role m = role \<and> \<not> mb_custom m"

definition follow_role :: "tables \<Rightarrow> string \<Rightarrow> string \<Rightarrow> int \<Rightarrow> member_row \<Rightarrow> member_row" where
  "follow_role d q role k m =
     (if in_role q role m \<and> mb_mask m \<noteq> k then m\<lparr>mb_mask := k, mb_updated := tb_now d\<rparr> else m)"

lemma follow_role_simps [simp]:
  "mb_id (follow_role d q r k m) = mb_id m" "mb_project (follow_role d q r k m) = mb_project m"
  "mb_user (follow_role d q r k m) = mb_user m" "mb_role (follow_role d q r k m) = mb_role m"
  "mb_custom (follow_role d q r k m) = mb_custom m"
  "mb_mask (follow_role d q r k m) = (if in_role q r m then k else mb_mask m)"
  by (simp_all add: follow_role_def)

definition new_role_row :: "tables \<Rightarrow> string \<Rightarrow> string \<Rightarrow> int \<Rightarrow> string option \<Rightarrow> role_row \<Rightarrow> role_row" where
  "new_role_row d q role k u x =
     (if rp_project x = q \<and> rp_role x = role
      then x\<lparr>rp_mask := k, rp_updated_by := u, rp_updated := tb_now d\<rparr> else x)"

lemma scan_users: "scan_rows (\<lambda>user acc. Inr (acc @ [f user])) rows acc = Inr (acc @ map f rows)"
  by (induction rows arbitrary: acc) auto

lemma stmt_update_role_ok:
  assumes "stmt_update_role uuid p role k by_id d = Inr (row # rows, d')" "uuid p = Some q"
  shows "row = (role, k) \<and> 0 \<le> k \<and> (\<exists>u. d' = d\<lparr>tb_roles := map (new_role_row d q role k u) (tb_roles d)\<rparr>)"
proof -
  let ?hit = "\<exists>x \<in> set (tb_roles d). rp_project x = q \<and> rp_role x = role"
  show ?thesis
    using assms by (cases ?hit) (auto simp: stmt_update_role_def Let_def new_role_row_def [abs_def]
        simp del: bex_simps split: if_splits)
qed

lemma UpdateRolePermissions_ok:
  assumes "UpdateRolePermissions uuid input s = (Inr (resp, users), s')"
  obtains q u where
    "uuid (trim_space (ur_project input)) = Some q" "ur_role input \<in> set role_enum"
    "\<not> equal_fold (ur_role input) RoleOwner" "0 \<le> sint (ur_mask input)"
    "find_role_row (ss_data s) q (ur_role input) \<noteq> None"
    "ss_data s' = (ss_data s)
       \<lparr>tb_roles := map (new_role_row (ss_data s) q (ur_role input) (sint (ur_mask input)) u)
          (tb_roles (ss_data s)),
        tb_members := map (follow_role (ss_data s) q (ur_role input) (sint (ur_mask input)))
          (tb_members (ss_data s))\<rparr>"
    "rr_role resp = ur_role input" "rr_mask resp = ur_mask input"
    "users = uniqueStrings (map (\<lambda>m. trim_space (mb_user m)) (filter (\<lambda>m.
       in_role q (ur_role input) m \<and> mb_mask m \<noteq> sint (ur_mask input)) (tb_members (ss_data s))))"
proof -
  let ?p = "trim_space (ur_project input)" and ?role = "ur_role input" and ?k = "sint (ur_mask input)"
    and ?d = "ss_data s"
  obtain t1 t2 t3 old updated affected customs where
    owner: "\<not> equal_fold ?role RoleOwner"
    and t1: "roleMask uuid ?p ?role (tick s) = (Inr old, t1)"
    and t2: "RelationalQueryOne (stmt_update_role uuid ?p ?role ?k (trim_space (ur_updated_by input)))
          (\<lambda>(role, k). if k < 0 then Inl (invalid_mask ''role'') else Inr (role, word_of_int k :: mask))
          t1 = (Inr updated, t2)"
    and t3: "RelationalQueryMany (stmt_sync_members uuid ?p ?role ?k)
          (\<lambda>user acc. Inr (acc @ [trim_space user])) [] t2 = (Inr affected, t3)"
    and t4: "customMembersCount uuid ?p ?role t3 = (Inr customs, s')"
    and resp: "resp = \<lparr>rr_role = fst updated, rr_mask = snd updated, rr_custom_unaffected = customs\<rparr>"
      "users = uniqueStrings affected"
    using assms by (auto simp: UpdateRolePermissions_def eff_bind_Inr ResolveProjectIdentity_ok
        dest: find_member)
  obtain q where q: "uuid ?p = Some q" "find_role_row ?d q ?role \<noteq> None" "?role \<in> set role_enum"
    and d1: "ss_data t1 = ?d" using t1 by (auto simp: roleMask_ok)
  obtain u where k: "0 \<le> ?k" "updated = (?role, ur_mask input)"
    and d2: "ss_data t2 = ?d\<lparr>tb_roles := map (new_role_row ?d q ?role ?k u) (tb_roles ?d)\<rparr>"
    using t2 q d1 by (auto simp: RelationalQueryOne_ok run_stmt_ok dest!: stmt_update_role_ok)
  have "affected = map (\<lambda>m. trim_space (mb_user m)) (filter (\<lambda>m. in_role q ?role m \<and> mb_mask m \<noteq> ?k) (tb_members ?d))"
    and d3: "ss_data t3 = (ss_data t2)\<lparr>tb_members := map (follow_role ?d q ?role ?k) (tb_members ?d)\<rparr>"
    using t3 q d2 by (auto simp: RelationalQueryMany_ok run_stmt_ok stmt_sync_members_def Let_def
        scan_users in_role_def follow_role_def [abs_def] comp_def conj_assoc)
  moreover have "ss_data s' = ss_data t3"
    using t4 by (auto simp: customMembersCount_def RelationalQueryOne_ok run_stmt_ok stmt_count_custom_def)
  ultimately show thesis
    using that [OF q(1,3) owner k(1) q(2)] resp k(2) d2 by simp
qed

lemma UpdateRolePermissions_more: "keeps same_more (UpdateRolePermissions uuid input)"
  unfolding UpdateRolePermissions_def ResolveProjectIdentity_def roleMask_def customMembersCount_def
  by (auto intro!: keeps_intros query_more)

lemma find_new_role:
  "find_role_row (d\<lparr>tb_roles := map (new_role_row e q role k u) (tb_roles d), tb_members := ms\<rparr>) p r
     = map_option (new_role_row e q role k u) (find_role_row d p r)"
proof -
  have "find (\<lambda>x. rp_project x = p \<and> rp_role x = r) (map (new_role_row e q role k u) xs)
      = map_option (new_role_row e q role k u) (find (\<lambda>x. rp_project x = p \<and> rp_role x = r) xs)" for xs
    by (induction xs) (auto simp: new_role_row_def)
  then show ?thesis by (simp add: find_role_row_def)
qed

lemma service_role_steps:
  assumes "service_UpdateRolePermissions uuid hs h invalidator p role actor req w = (Inr resp, w')"
  obtains users w2 where
    "canonicalRole (urr_role req) \<noteq> None" "validatePermissionMaskDependencies (urr_mask req) = None"
    "WithTx (UpdateRolePermissions uuid \<lparr>ur_project = p, ur_role = role, ur_mask = urr_mask req,
        ur_updated_by = actor\<rparr>) w = (Inr (resp, users), w2)"
    "invalidatePermissionScopes h invalidator p users w2 = (Inr (), w')"
  using assms
  by (auto simp: service_UpdateRolePermissions_def eff_bind_Inr check_def requireStore_def
      split: if_splits option.splits)

text \<open>C8: a successful change of a role's permissions: the role is not the owner's and the mask
  respects the view rule; the role's row has the new mask and no other row's mask changes; every
  member of that role that is not custom has the new mask and no other member changes at all, so
  members keep following their roles; and with Redis answering, the resolver has no cached answer
  left for any user whose mask changed.\<close>

theorem service_UpdateRolePermissions_effect:
  assumes run: "service_UpdateRolePermissions uuid hs h invalidator p role actor req w = (Inr resp, w')"
    and inv: "\<And>bump tags. invalidator = Some bump \<Longrightarrow> keeps keeps_tables_and_redis (bump tags)"
  shows "\<exists>q x. uuid (trim_space p) = Some q \<and> \<not> equal_fold role RoleOwner
    \<and> validatePermissionMaskDependencies (urr_mask req) = None
    \<and> find_role_row (ss_data w') q role = Some x \<and> rp_mask x = sint (urr_mask req) \<and> rr_mask resp = urr_mask req
    \<and> (\<forall>p r. (p, r) \<noteq> (q, role) \<longrightarrow> find_role_row (ss_data w') p r = find_role_row (ss_data w) p r)
    \<and> length (tb_members (ss_data w')) = length (tb_members (ss_data w))
    \<and> (\<forall>(m, m') \<in> set (zip (tb_members (ss_data w)) (tb_members (ss_data w'))).
         (if in_role q role m then mb_mask m' = sint (urr_mask req) \<and> mb_role m' = role \<and> mb_user m' = mb_user m
          else m' = m)
         \<and> (h \<and> redis_works w \<and> trim_space (mb_user m) \<noteq> [] \<and> mb_mask m' \<noteq> mb_mask m
              \<longrightarrow> pw_redis w' (rbacKey (mb_user m)) = None))
    \<and> (members_synced (ss_data w) \<longrightarrow> members_synced (ss_data w'))"
proof -
  let ?k = "sint (urr_mask req)" and ?d = "ss_data w"
  obtain users w2 where view: "validatePermissionMaskDependencies (urr_mask req) = None"
    and tx: "WithTx (UpdateRolePermissions uuid \<lparr>ur_project = p, ur_role = role,
        ur_mask = urr_mask req, ur_updated_by = actor\<rparr>) w = (Inr (resp, users), w2)"
    and scopes: "invalidatePermissionScopes h invalidator p users w2 = (Inr (), w')"
    using service_role_steps [OF run] by metis
  obtain t where t: "UpdateRolePermissions uuid \<lparr>ur_project = p, ur_role = role,
        ur_mask = urr_mask req, ur_updated_by = actor\<rparr> ((tick w)\<lparr>ss_tx := TxOpen\<rparr>) = (Inr (resp, users), t)"
      "ss_data w2 = ss_data t"
    using tx unfolding WithTx_Inr by auto
  obtain q u where q: "uuid (trim_space p) = Some q" "\<not> equal_fold role RoleOwner" "find_role_row ?d q role \<noteq> None"
    and d2: "ss_data w2 = ?d\<lparr>tb_roles := map (new_role_row ?d q role ?k u) (tb_roles ?d),
        tb_members := map (follow_role ?d q role ?k) (tb_members ?d)\<rparr>"
    and resp: "rr_mask resp = urr_mask req"
    and users: "users = uniqueStrings (map (\<lambda>m. trim_space (mb_user m))
        (filter (\<lambda>m. in_role q role m \<and> mb_mask m \<noteq> ?k) (tb_members ?d)))"
    by (rule UpdateRolePermissions_ok [OF t(1)]) (simp add: t(2))
  have d': "ss_data w' = ss_data w2"
    using invalidatePermissionScopes_ok(1) [OF scopes] inv by blast
  have fault: "pw_redis_fault w2 = pw_redis_fault w"
    using keepsD [OF WithTx_more [OF UpdateRolePermissions_more] tx] by (simp add: same_more_world)
  have cache: "pw_redis w' (rbacKey (mb_user m)) = None"
    if "h" "redis_works w" "trim_space (mb_user m) \<noteq> []" "m \<in> set (tb_members ?d)"
      "in_role q role m" "mb_mask m \<noteq> ?k" for m
  proof -
    have "trim_space (mb_user m) \<in> set users"
      using that unfolding users uniqueStrings_set
      by (auto intro!: exI [of _ "trim_space (mb_user m)"] image_eqI [of _ _ m])
    then show ?thesis
      using invalidatePermissionScopes_ok(2) [OF scopes, of "trim_space (mb_user m)"] inv that fault
      by (simp add: rbacKey_def)
  qed
  note find = find_new_role [where d = ?d and e = ?d and q = q and role = role and k = ?k and u = u
      and ms = "map (follow_role ?d q role ?k) (tb_members ?d)"]
  obtain x where x: "find_role_row ?d q role = Some x" using q(3) by auto
  then have row: "find_role_row (ss_data w') q role = Some (new_role_row ?d q role ?k u x)"
      "rp_mask (new_role_row ?d q role ?k u x) = ?k"
    using find_role_row_Some [OF x] by (simp_all add: d' d2 find new_role_row_def)
  have others: "find_role_row (ss_data w') p r = find_role_row ?d p r" if "(p, r) \<noteq> (q, role)" for p r
    using that by (cases "find_role_row ?d p r")
      (auto simp: d' d2 find new_role_row_def dest!: find_role_row_Some)
  have members: "\<forall>(m, m') \<in> set (zip (tb_members ?d) (tb_members (ss_data w'))).
         (if in_role q role m then mb_mask m' = ?k \<and> mb_role m' = role \<and> mb_user m' = mb_user m else m' = m)
         \<and> (h \<and> redis_works w \<and> trim_space (mb_user m) \<noteq> [] \<and> mb_mask m' \<noteq> mb_mask m
              \<longrightarrow> pw_redis w' (rbacKey (mb_user m)) = None)"
    using cache by (auto simp: d' d2 zip_map2 zip_same_conv_map in_role_def) (simp_all add: follow_role_def in_role_def)
  have "members_synced (ss_data w')" if s: "members_synced ?d"
    unfolding members_synced_def
  proof (intro ballI impI)
    fix m' assume "m' \<in> set (tb_members (ss_data w'))" and c: "\<not> mb_custom m'"
    then obtain m where m: "m \<in> set (tb_members ?d)" "m' = follow_role ?d q role ?k m"
      by (auto simp: d' d2)
    with s c have old: "case find_role_row ?d (mb_project m) (mb_role m) of None \<Rightarrow> True
        | Some r \<Rightarrow> mb_mask m = rp_mask r" by (simp add: members_synced_def)
    show "case find_role_row (ss_data w') (mb_project m') (mb_role m') of None \<Rightarrow> True
        | Some r \<Rightarrow> mb_mask m' = rp_mask r"
    proof (cases "(mb_project m, mb_role m) = (q, role)")
      case True
      with row c m show ?thesis by (simp add: in_role_def)
    next
      case False
      with old others m show ?thesis by (auto simp: in_role_def split: option.split)
    qed
  qed
  with q view row resp others members show ?thesis
    by (intro exI [of _ q] exI [of _ "new_role_row ?d q role ?k u x"]) (simp add: d' d2)
qed

end
