(* ===== verification/Team_Invites.thy ===== *)
theory Team_Invites
  imports Team_Laws
begin

text \<open>
  The life of an invite: what creating, cancelling and expiring one does to the invites table, and
  what a batch reports. Statements about success read the tables after the commit; statements
  about failure say that nothing was written.
\<close>

section \<open>Notifying the invitee\<close>

definition notes_only :: "perm_world \<Rightarrow> perm_world \<Rightarrow> bool" where
  "notes_only s t \<longleftrightarrow> stripped (ss_data t) = stripped (ss_data s)"

lemma notes_only_rel [simp]: "reflp notes_only" "transp notes_only"
  by (auto intro!: reflpI transpI simp: notes_only_def)

lemma adds_only_notes: "adds_only P s t \<Longrightarrow> notes_only s t"
  by (auto simp: adds_only_def notes_only_def stripped_def)

lemma same_data_notes: "same_data s t \<Longrightarrow> notes_only s t"
  by (simp add: same_data_def notes_only_def)

lemma notifyInvitee_keeps: "keeps notes_only (notifyInvitee uuid p by_user email role)"
  unfolding notifyInvitee_def
  by (auto intro!: keeps_intros keeps_mono [OF Publish_keeps adds_only_notes]
      keeps_mono [OF query_read_only(2) same_data_notes] simp: stmt_invitee_def)

lemma stripped_eqD:
  "stripped d' = stripped d \<Longrightarrow> d' = d\<lparr>tb_notifications := tb_notifications d'\<rparr>"
  unfolding stripped_def by (cases d; cases d') simp

section \<open>Creating an invite\<close>

definition pending_key :: "invite_row \<Rightarrow> string \<times> string" where
  "pending_key i = (iv_project i, to_lower (iv_email i))"

text \<open>At most one pending invite per project and email.\<close>

definition pending_unique :: "tables \<Rightarrow> bool" where
  "pending_unique d \<longleftrightarrow>
     distinct (map pending_key (filter (\<lambda>i. iv_status i = ''pending'') (tb_invites d)))"

lemma is_pending_key: "is_pending p email i \<longleftrightarrow> iv_status i = ''pending'' \<and> pending_key i = (p, to_lower email)"
  by (auto simp: is_pending_def pending_key_def equal_fold_def)

lemma pending_unique_map:
  assumes "pending_unique d" and "\<And>i. iv_status (f i) = ''pending'' \<Longrightarrow> f i = i"
  shows "distinct (map pending_key (filter (\<lambda>i. iv_status i = ''pending'') (map f (tb_invites d))))"
proof -
  have "map pending_key (filter (\<lambda>i. iv_status i = ''pending'') (map f is))
      = map pending_key (filter (\<lambda>i. iv_status (f i) = ''pending'') is)" for "is"
    using assms(2) by (induction "is") (simp_all, metis)
  moreover have "filter (\<lambda>i. iv_status (f i) = ''pending'') is
      = filter (\<lambda>i. iv_status (f i) = ''pending'') (filter (\<lambda>i. iv_status i = ''pending'') is)" for "is"
    using assms(2) by (induction "is") force+
  ultimately show ?thesis
    using assms(1) unfolding pending_unique_def by (metis distinct_map_filter)
qed

lemma expire_pending: "iv_status (expire_invite d p i) = ''pending'' \<Longrightarrow> expire_invite d p i = i"
  by (auto simp: expire_invite_def split: if_splits)

lemma stmt_create_ok:
  assumes "stmt_create_invite uuid p input k inviter_role new_id d = Inr (row # rows, d')" "uuid p = Some q"
  shows "\<not> (\<exists>i \<in> set (tb_invites d). is_pending q (normalizeEmail (ci_email input)) i)
    \<and> iv_project row = q \<and> iv_email row = normalizeEmail (ci_email input) \<and> iv_role row = ci_role input
    \<and> iv_mask row = k \<and> iv_status row = ''pending'' \<and> iv_expires row = ci_expires input
    \<and> iv_sent row = tb_now d \<and> d' = d\<lparr>tb_invites := tb_invites d @ [row]\<rparr>"
proof -
  let ?dup = "\<exists>i \<in> set (tb_invites d). is_pending q (normalizeEmail (ci_email input)) i"
  show ?thesis
    using assms by (cases ?dup) (auto simp: stmt_create_invite_def Let_def split: if_splits)
qed

lemma expire_ok:
  "expireStalePendingInvites uuid p s = (Inr u, s') \<Longrightarrow> uuid p = Some q \<Longrightarrow>
     ss_data s' = (ss_data s)\<lparr>tb_invites := map (expire_invite (ss_data s) q) (tb_invites (ss_data s))\<rparr>"
  by (auto simp: expireStalePendingInvites_def RelationalExec_ok run_stmt_ok stmt_expire_def)

lemma email_checks_ok:
  "userEmailExists email s = (Inr b, s') \<Longrightarrow> ss_data s' = ss_data s
     \<and> b = (\<exists>u \<in> set (tb_users (ss_data s)). equal_fold (us_email u) (normalizeEmail email))"
  "memberEmailExists uuid p email s = (Inr b, s') \<Longrightarrow> uuid p = Some q \<Longrightarrow> ss_data s' = ss_data s
     \<and> b = (\<exists>m \<in> set (tb_members (ss_data s)). \<exists>u \<in> set (tb_users (ss_data s)). us_id u = mb_user m
          \<and> mb_project m = q \<and> equal_fold (us_email u) (normalizeEmail email))"
  by (auto simp: userEmailExists_def memberEmailExists_def RelationalQueryOne_ok run_stmt_ok
      stmt_is_user_email_def stmt_is_member_email_def)

lemma or_empty_Inr:
  "or_empty action m s = (Inr v, s') \<longleftrightarrow>
     m s = (Inr v, s') \<or> v = [] \<and> (\<exists>e. m s = (Inl e, s') \<and> is_no_rows e)"
  by (auto simp: or_empty_def eff_case_def eff_ret_def eff_throw_def split: sum.splits prod.splits if_splits)

lemma read_frame:
  "keeps same_data (pendingInviteID uuid p email)" "keeps same_data (inviteStatus uuid p email)"
  "keeps same_data (inviterRole uuid p user)"
  unfolding pendingInviteID_def inviteStatus_def inviterRole_def or_empty_def
  by (auto intro!: keeps_intros query_read_only
      simp: stmt_pending_invite_def stmt_invite_status_def stmt_inviter_role_def)

lemma CreateInvite_ok:
  assumes "CreateInvite uuid fmt new_id input s = (Inr resp, s')"
  obtains q x row ns where
    "uuid (trim_space (ci_project input)) = Some q"
    "\<exists>u \<in> set (tb_users (ss_data s)). equal_fold (us_email u) (normalizeEmail (ci_email input))"
    "\<not> (\<exists>m \<in> set (tb_members (ss_data s)). \<exists>u \<in> set (tb_users (ss_data s)). us_id u = mb_user m
          \<and> mb_project m = q \<and> equal_fold (us_email u) (normalizeEmail (ci_email input)))"
    "find_role_row (ss_data s) q (ci_role input) = Some x"
    "\<not> (\<exists>i \<in> set (map (expire_invite (ss_data s) q) (tb_invites (ss_data s))).
          is_pending q (normalizeEmail (ci_email input)) i)"
    "iv_project row = q" "iv_email row = normalizeEmail (ci_email input)" "iv_role row = ci_role input"
    "iv_mask row = sint (word_of_int (rp_mask x) :: mask)" "iv_status row = ''pending''"
    "iv_expires row = ci_expires input" "iv_sent row = tb_now (ss_data s)"
    "ss_data s' = (ss_data s)\<lparr>tb_invites := map (expire_invite (ss_data s) q) (tb_invites (ss_data s)) @ [row],
       tb_notifications := ns\<rparr>"
    "resp = invite_of_row fmt row"
proof -
  let ?p = "trim_space (ci_project input)" and ?email = "normalizeEmail (ci_email input)" and ?d = "ss_data s"
  obtain t1 t2 t3 t4 t5 t6 t7 pending k inviter_role where
    e1: "expireStalePendingInvites uuid ?p (tick s) = (Inr (), t1)"
    and e2: "userEmailExists (ci_email input) t1 = (Inr True, t2)"
    and e3: "memberEmailExists uuid ?p (ci_email input) t2 = (Inr False, t3)"
    and e4: "pendingInviteID uuid ?p (ci_email input) t3 = (Inr pending, t4)"
    and e5: "roleMask uuid ?p (ci_role input) t4 = (Inr k, t5)"
    and e6: "inviterRole uuid ?p (ci_invited_by input) t5 = (Inr inviter_role, t6)"
    and e7: "RelationalQueryOne (stmt_create_invite uuid ?p input (sint k) inviter_role new_id)
          (\<lambda>row. Inr (invite_of_row fmt row)) t6 = (Inr resp, t7)"
    and e8: "notifyInvitee uuid ?p (ci_invited_by input) (ci_email input) (ti_role resp) t7 = (Inr (), s')"
    using assms by (auto simp: CreateInvite_def eff_bind_Inr ResolveProjectIdentity_ok dest: find_member)
  obtain q x where q: "uuid ?p = Some q" and x: "find_role_row (ss_data t4) q (ci_role input) = Some x"
      "k = word_of_int (rp_mask x)" and d5: "ss_data t5 = ss_data t4"
    using e5 by (auto simp: roleMask_ok)
  have d1: "ss_data t1 = ?d\<lparr>tb_invites := map (expire_invite ?d q) (tb_invites ?d)\<rparr>"
    using expire_ok [OF e1 q] by simp
  note c2 = email_checks_ok(1) [OF e2] and c3 = email_checks_ok(2) [OF e3 q]
  have d6: "ss_data t6 = ss_data t1"
    using keepsD [OF read_frame(1) e4] keepsD [OF read_frame(3) e6] c2 c3 d5 by (simp add: same_data_def)
  obtain row rows d7 where st: "stmt_create_invite uuid ?p input (sint k) inviter_role new_id (ss_data t6)
        = Inr (row # rows, d7)" and d7: "ss_data t7 = d7" "resp = invite_of_row fmt row"
    using e7 by (auto simp: RelationalQueryOne_ok run_stmt_ok)
  note row = stmt_create_ok [OF st q]
  have "stripped (ss_data s') = stripped (ss_data t7)"
    using keepsD [OF notifyInvitee_keeps e8] by (simp add: notes_only_def)
  from stripped_eqD [OF this] obtain ns where "ss_data s' = (ss_data t7)\<lparr>tb_notifications := ns\<rparr>" by blast
  then have d': "ss_data s' = ?d\<lparr>tb_invites := map (expire_invite ?d q) (tb_invites ?d) @ [row],
       tb_notifications := ns\<rparr>"
    using row d7(1) d6 d1 by simp
  have x': "find_role_row ?d q (ci_role input) = Some x"
    using x(1) keepsD [OF read_frame(1) e4] c2 c3 d1 by (simp add: same_data_def find_role_row_def)
  show thesis
    by (rule that [OF q _ _ x' _ _ _ _ _ _ _ _ d' d7(2)]) (use c2 c3 d1 d6 row x(2) in simp_all)
qed

lemma service_CreateInvite_steps:
  assumes "service_CreateInvite uuid fmt hs now new_id p actor req w = (Inr resp, w')"
  obtains role t where "canonicalRole (ir_role req) = Some role"
    "CreateInvite uuid fmt new_id \<lparr>ci_project = p, ci_email = normalizeEmail (ir_email req), ci_role = role,
       ci_invited_by = trim_space actor, ci_expires = now + inviteTTL\<rparr> ((tick w)\<lparr>ss_tx := TxOpen\<rparr>)
       = (Inr resp, t)" "ss_data w' = ss_data t"
  using assms by (auto simp: service_CreateInvite_def eff_bind_Inr requireStore_def WithTx_Inr
      split: if_splits option.splits)

lemma normalizeEmail_idem [simp]: "normalizeEmail (normalizeEmail email) = normalizeEmail email"
  unfolding normalizeEmail_def by (simp add: trim_space_to_lower)

text \<open>C15: a successful invite: the email belongs to a user who is no member of the project; exactly
  one row is added, pending, with the canonical role, that role's current mask and an expiry seven
  days ahead; stale pending invites of the project are marked expired and no other row of any table
  but the notifications changes; and there is still at most one pending invite per email.\<close>

theorem service_CreateInvite_effect:
  assumes run: "service_CreateInvite uuid fmt hs now new_id p actor req w = (Inr resp, w')"
    and unique: "pending_unique (ss_data w)"
  shows "\<exists>q role x row ns.
      uuid (trim_space p) = Some q \<and> canonicalRole (ir_role req) = Some role
    \<and> find_role_row (ss_data w) q role = Some x
    \<and> (\<exists>u \<in> set (tb_users (ss_data w)). equal_fold (us_email u) (iv_email row)
         \<and> \<not> (\<exists>m \<in> set (tb_members (ss_data w)). mb_project m = q \<and> mb_user m = us_id u))
    \<and> iv_project row = q \<and> iv_email row = normalizeEmail (ir_email req) \<and> iv_role row = role
    \<and> iv_mask row = sint (word_of_int (rp_mask x) :: mask) \<and> iv_status row = ''pending''
    \<and> iv_expires row = now + 604800 \<and> resp = invite_of_row fmt row
    \<and> ss_data w' = (ss_data w)\<lparr>tb_invites := map (expire_invite (ss_data w) q) (tb_invites (ss_data w)) @ [row],
         tb_notifications := ns\<rparr>
    \<and> pending_unique (ss_data w')"
proof -
  let ?d = "ss_data w"
  obtain role t where role: "canonicalRole (ir_role req) = Some role"
    and c: "CreateInvite uuid fmt new_id \<lparr>ci_project = p, ci_email = normalizeEmail (ir_email req), ci_role = role,
       ci_invited_by = trim_space actor, ci_expires = now + inviteTTL\<rparr> ((tick w)\<lparr>ss_tx := TxOpen\<rparr>)
       = (Inr resp, t)" "ss_data w' = ss_data t"
    using service_CreateInvite_steps [OF run] by metis
  obtain q x row ns where q: "uuid (trim_space p) = Some q"
    and user: "\<exists>u \<in> set (tb_users ?d). equal_fold (us_email u) (normalizeEmail (ir_email req))"
    and member: "\<not> (\<exists>m \<in> set (tb_members ?d). \<exists>u \<in> set (tb_users ?d). us_id u = mb_user m
          \<and> mb_project m = q \<and> equal_fold (us_email u) (normalizeEmail (ir_email req)))"
    and x: "find_role_row ?d q role = Some x"
    and new: "\<not> (\<exists>i \<in> set (map (expire_invite ?d q) (tb_invites ?d)). is_pending q (normalizeEmail (ir_email req)) i)"
    and row: "iv_project row = q" "iv_email row = normalizeEmail (ir_email req)" "iv_role row = role"
      "iv_mask row = sint (word_of_int (rp_mask x) :: mask)" "iv_status row = ''pending''"
      "iv_expires row = now + inviteTTL"
    and d': "ss_data t = ?d\<lparr>tb_invites := map (expire_invite ?d q) (tb_invites ?d) @ [row],
       tb_notifications := ns\<rparr>"
    and resp: "resp = invite_of_row fmt row"
    by (rule CreateInvite_ok [OF c(1)]) simp
  have "distinct (map pending_key (filter (\<lambda>i. iv_status i = ''pending'') (map (expire_invite ?d q) (tb_invites ?d))))"
    using unique expire_pending by (rule pending_unique_map)
  moreover have "pending_key row \<notin> pending_key ` set (filter (\<lambda>i. iv_status i = ''pending'')
      (map (expire_invite ?d q) (tb_invites ?d)))"
    using new row by (auto simp: is_pending_key pending_key_def)
  ultimately have "pending_unique (ss_data w')"
    using row(5) by (simp add: pending_unique_def c(2) d')
  moreover have "\<exists>u \<in> set (tb_users ?d). equal_fold (us_email u) (iv_email row)
         \<and> \<not> (\<exists>m \<in> set (tb_members ?d). mb_project m = q \<and> mb_user m = us_id u)"
    using user member row(2) by metis
  ultimately show ?thesis
    using q role x row d' resp c(2)
    by (intro exI [of _ q] exI [of _ role] exI [of _ x] exI [of _ row] exI [of _ ns])
      (simp add: inviteTTL_def)
qed

section \<open>Cancelling an invite\<close>

text \<open>A successful cancellation: a pending invite for the email existed, and afterwards every one
  of the project's pending invites for that email, and nothing else, is cancelled.\<close>

theorem service_CancelInvite_effect:
  assumes run: "service_CancelInvite uuid parse_address hs p email w = (Inr resp, w')"
  shows "\<exists>q. uuid (trim_space p) = Some q
    \<and> (\<exists>i \<in> set (tb_invites (ss_data w)). is_pending q (normalizeEmail email) i \<and> iv_email i = resp)
    \<and> ss_data w' = (ss_data w)\<lparr>tb_invites := map (cancel_invite q (normalizeEmail email)) (tb_invites (ss_data w))\<rparr>
    \<and> (\<forall>i \<in> set (tb_invites (ss_data w')). \<not> is_pending q (normalizeEmail email) i)"
proof -
  obtain t where c: "CancelInvite uuid p email ((tick w)\<lparr>ss_tx := TxOpen\<rparr>) = (Inr resp, t)" "ss_data w' = ss_data t"
    using run by (auto simp: service_CancelInvite_def eff_bind_Inr requireStore_def WithTx_Inr split: if_splits)
  then obtain s1 s2 status where i: "inviteStatus uuid (trim_space p) email s1 = (Inr status, s2)" "ss_data s1 = ss_data w"
    and q: "RelationalQueryOne (stmt_cancel_invite uuid (trim_space p) (normalizeEmail email)) Inr s2 = (Inr resp, t)"
    by (auto simp: CancelInvite_def eff_bind_Inr ResolveProjectIdentity_ok dest: find_member)
  have "ss_data s2 = ss_data w" using keepsD [OF read_frame(2) i(1)] i(2) by (simp add: same_data_def)
  with q c(2) obtain k where k: "uuid (trim_space p) = Some k"
    and d': "ss_data w' = (ss_data w)\<lparr>tb_invites := map (cancel_invite k (normalizeEmail email)) (tb_invites (ss_data w))\<rparr>"
    and rows: "\<exists>rows. map iv_email (filter (is_pending k (normalizeEmail email)) (tb_invites (ss_data w))) = resp # rows"
    by (auto simp: RelationalQueryOne_ok run_stmt_ok stmt_cancel_invite_def)
  from rows have m: "resp \<in> set (map iv_email (filter (is_pending k (normalizeEmail email)) (tb_invites (ss_data w))))"
    by (metis list.set_intros(1))
  have "\<not> is_pending k e (cancel_invite k e i)" for e i
    by (auto simp: cancel_invite_def is_pending_def)
  with k d' m show ?thesis by auto
qed

section \<open>Failures\<close>

text \<open>An operation whose error leaves the tables as they were, and one that has no error.\<close>

definition fails_clean :: "'a team \<Rightarrow> bool" where
  "fails_clean m \<longleftrightarrow> (\<forall>s e s'. m s = (Inl e, s') \<longrightarrow> ss_data s' = ss_data s)"

definition never_fails :: "'a team \<Rightarrow> bool" where
  "never_fails m \<longleftrightarrow> (\<forall>s e s'. m s \<noteq> (Inl e, s'))"

lemma fails_clean_read: "keeps same_data m \<Longrightarrow> fails_clean m"
  by (auto simp: fails_clean_def same_data_def dest: keepsD)

lemma fails_clean_bind: "keeps same_data m \<Longrightarrow> (\<And>a. fails_clean (f a)) \<Longrightarrow> fails_clean (eff_bind m f)"
  by (fastforce simp: fails_clean_def same_data_def eff_bind_def split: sum.splits prod.splits dest: keepsD)

lemma fails_clean_then: "fails_clean m \<Longrightarrow> (\<And>a. never_fails (f a)) \<Longrightarrow> fails_clean (eff_bind m f)"
  by (fastforce simp: fails_clean_def never_fails_def eff_bind_def split: sum.splits prod.splits)

lemma fails_clean_tx: "fails_clean (eff_map_err g (WithTx fn))"
  by (auto simp: fails_clean_def eff_map_err_def eff_case_def eff_throw_def eff_ret_def
      split: prod.splits sum.splits dest: WithTx_error_data)

lemma never_fails_scopes: "never_fails (eff_bind (invalidatePermissionScopes h invalidator p us) (\<lambda>_. eff_ret r))"
  by (auto simp: never_fails_def invalidatePermissionScopes_def eff_defs Let_def
      split: prod.splits sum.splits option.splits if_splits)

lemma check_read: "keeps same_data (check r)" "keeps same_data (requireStore hs)"
  by (auto simp: check_def requireStore_def keeps_ret keeps_throw keeps_guard split: option.split)

lemma fails_clean_tx_then:
  "(\<And>a. never_fails (f a)) \<Longrightarrow> fails_clean (eff_bind (eff_map_err g (WithTx fn)) f)"
  by (intro fails_clean_then fails_clean_tx)

lemma fails_clean_throw: "fails_clean (eff_throw e)"
  by (simp add: fails_clean_def eff_throw_def)

lemmas clean_intros = fails_clean_tx_then fails_clean_tx fails_clean_throw never_fails_scopes
  fails_clean_bind [OF check_read(1)] fails_clean_bind [OF check_read(2)]
  fails_clean_bind [OF resolveRoleMask_frame(1)] fails_clean_bind [OF keeps_guard [OF same_refl(2)]]

text \<open>An invitation, cancellation or change of permissions that reports an error has written
  nothing.\<close>

theorem team_errors_write_nothing:
  "fails_clean (service_CreateInvite uuid fmt hs now new_id p actor req)
   \<and> fails_clean (service_CancelInvite uuid parse_address hs p email)
   \<and> fails_clean (service_UpdateMemberPermissions uuid hs h invalidator p k member_req)
   \<and> fails_clean (service_UpdateRolePermissions uuid hs h invalidator p role actor role_req)"
  unfolding service_CreateInvite_def service_CancelInvite_def service_UpdateMemberPermissions_def
    service_UpdateRolePermissions_def
  by (intro conjI) (auto intro!: clean_intros split: option.split)

section \<open>Batches\<close>

lemma batch_loop_ok:
  assumes "\<And>i s r s'. step i s = (Inr r, s') \<Longrightarrow> case r of Inl f \<Rightarrow> P f | Inr ok \<Rightarrow> True"
    and "batch_loop step is r s = (Inr r', s')"
  shows "length (br_invited r') + length (br_failed r') = length (br_invited r) + length (br_failed r) + length is
    \<and> ((\<forall>f \<in> set (br_failed r). P f) \<longrightarrow> (\<forall>f \<in> set (br_failed r'). P f)) \<and> br_project r' = br_project r"
  using assms(2)
proof (induction "is" arbitrary: r s)
  case (Cons i "is")
  then obtain x t where x: "step i s = (Inr x, t)" by (auto simp: eff_bind_Inr)
  with assms(1) [OF x] Cons show ?case
    by (cases x) (fastforce simp: eff_bind_Inr)+
qed simp

lemma batch_step_failure:
  assumes "batch_step uuid fmt parse_address now new_id p actor i s = (Inr (Inl f), s')"
  shows "bf_code f \<noteq> CodeInternal \<and> bf_code f \<noteq> CodeDependencyFailure"
  using assms
  by (auto simp: batch_step_def eff_case_def eff_ret_def eff_throw_def Let_def code_defs
      split: if_splits option.splits sum.splits prod.splits)

text \<open>A batch that returns reports every request exactly once, as invited or as failed, tells
  whether some failed, and never reports an internal or dependency failure as a per-item outcome.\<close>

theorem service_BatchInvites_accounts:
  assumes run: "service_BatchInvites uuid fmt parse_address hs now new_id p actor reqs w = (Inr (resp, partial), w')"
  shows "length (br_invited resp) + length (br_failed resp) = length reqs
    \<and> partial = (br_failed resp \<noteq> []) \<and> br_project resp = trim_space p
    \<and> (\<forall>f \<in> set (br_failed resp). bf_code f \<noteq> CodeInternal \<and> bf_code f \<noteq> CodeDependencyFailure)"
proof -
  obtain t t' where loop: "batch_loop (\<lambda>i. batch_step uuid fmt parse_address now (new_id (ir_email i))
       (trim_space p) actor i) reqs \<lparr>br_project = trim_space p, br_invited = [], br_failed = []\<rparr> t = (Inr resp, t')"
    and partial: "partial = (br_failed resp \<noteq> [])"
    using run by (auto simp: service_BatchInvites_def eff_bind_Inr requireStore_def ResolveProjectIdentity_ok
        split: if_splits dest!: find_member)
  have "case r of Inl f \<Rightarrow> bf_code f \<noteq> CodeInternal \<and> bf_code f \<noteq> CodeDependencyFailure | Inr ok \<Rightarrow> True"
    if "batch_step uuid fmt parse_address now (new_id (ir_email i)) (trim_space p) actor i s = (Inr r, s')" for i s r s'
    using that batch_step_failure by (auto split: sum.split)
  from batch_loop_ok [OF this loop] partial show ?thesis by auto
qed

section \<open>A small team\<close>

definition team_world :: perm_world where
  "team_world = sample_world \<lparr>tb_projects = [\<lparr>pj_id = ''p1'', pj_slug = ''alpha'', pj_name = ''Alpha''\<rparr>],
      tb_users = [\<lparr>us_id = ''u1'', us_email = ''ann@example.com'', us_name = ''Ann''\<rparr>,
                  \<lparr>us_id = ''u2'', us_email = ''bob@example.com'', us_name = ''Bob''\<rparr>],
      tb_members = [sample_member ''Editor'' False],
      tb_roles = [sample_role ''Editor'' 3, sample_role ''Viewer'' 1],
      tb_invites = [], tb_muted = [], tb_gates = [], tb_notifications = [], tb_now = 100\<rparr>"

lemmas run_defs = eff_defs RelationalExec_def RelationalQueryOne_def RelationalQueryMany_def run_stmt_def tick_def
  cast_uuid_def cast_role_def role_enum_def Let_def requireStore_def check_def WithTx_def
lemmas team_defs = team_world_def sample_world_def sample_role_def sample_member_def

lemmas sql_defs = stmt_identity_def stmt_list_role_masks_def stmt_list_members_def role_member_of_row_def find_user_def
  stmt_member_def stmt_update_member_def stmt_role_mask_def stmt_update_role_def stmt_sync_members_def stmt_count_custom_def
  stmt_expire_def stmt_is_user_email_def stmt_is_member_email_def stmt_pending_invite_def stmt_inviter_role_def
  stmt_create_invite_def stmt_invitee_def stmt_cancel_invite_def stmt_invite_status_def
lemmas method_defs = resolveRoleMask_def ListRoles_def ResolveProjectIdentity_def memberByID_def roleMask_def
  UpdateMemberPermissions_def UpdateRolePermissions_def customMembersCount_def CreateInvite_def
  expireStalePendingInvites_def userEmailExists_def memberEmailExists_def pendingInviteID_def or_empty_def
  inviterRole_def CancelInvite_def inviteStatus_def

lemma view_rule_1: "validatePermissionMaskDependencies 1 = None"
  by (simp add: validate_mask_bits bit_1_iff)

lemma sample_roles: "canonicalRole ''viewer'' = Some ''Viewer''" "canonicalRole ''editor'' = Some ''Editor''"
  "canonicalRole ''Editor'' = Some ''Editor''"
  by (simp_all add: canonicalRole_def role_of_slug_def trim_literal to_lower_def case_literal role_defs Let_def)


lemma sample_update_member: "\<exists>resp w. service_UpdateMemberPermissions Some True True None ''p1'' ''m1''
   \<lparr>umr_role = ''viewer'', umr_custom = False, umr_mask = 1\<rparr> team_world = (Inr resp, w)"
  by (simp add: service_UpdateMemberPermissions_def method_defs sql_defs run_defs team_defs trim_literal 
   scan_uint_itoa in_int64_def view_rule_1 sample_roles role_defs invalidatePermissionScopes_def InvalidateResolverUserCache_def
   redis_del_def redis_request_def)

lemma sample_update_role: "\<exists>resp w. service_UpdateRolePermissions Some True True None ''p1'' ''Editor'' ''u1''
   \<lparr>urr_role = ''editor'', urr_mask = 1\<rparr> team_world = (Inr resp, w)"
  by (simp add: service_UpdateRolePermissions_def method_defs sql_defs run_defs team_defs trim_literal 
   scan_uint_itoa in_int64_def view_rule_1 sample_roles role_defs invalidatePermissionScopes_def InvalidateResolverUserCache_def
   redis_del_def redis_request_def cast_uuid_opt_def equal_fold_def to_lower_def case_literal)

lemmas invite_defs = sample_roles role_defs cast_uuid_opt_def equal_fold_def to_lower_def case_literal normalizeEmail_def by_sent_desc_def
    notifyInvitee_def Publish_def invite_event_def is_pending_def allowedGates_def stmt_directed_def is_no_rows_def
    cast_source_def source_types_def gate_open_def expire_invite_def

lemma sample_invite: "\<exists>resp w. service_CreateInvite Some (\<lambda>_. []) True 100 ''i1'' ''p1'' ''u1''
   \<lparr>ir_email = ''Bob@example.com'', ir_role = ''viewer''\<rparr> team_world = (Inr resp, w)"
  by (simp add: service_CreateInvite_def method_defs sql_defs run_defs team_defs trim_literal invite_defs)

text \<open>The notification of an invitee is meant never to fail the invite, but it runs in the
  invite's transaction: when its insert fails (here by a fault of the tenth request), PostgreSQL
  aborts the transaction, the commit is refused, and the invite that would have been created is
  lost with an internal error.\<close>

theorem failed_notification_loses_invite:
  "(\<exists>e w. service_CreateInvite Some (\<lambda>_. []) True 100 ''i1'' ''p1'' ''u1''
   \<lparr>ir_email = ''Bob@example.com'', ir_role = ''viewer''\<rparr> (team_world\<lparr>ss_fault := (\<lambda>_. None)(10 \<mapsto> EText ''timeout'')\<rparr>)
     = (Inl e, w) \<and> err_status e = 500 \<and> ss_data w = ss_data team_world)
   \<and> (\<exists>resp w. service_CreateInvite Some (\<lambda>_. []) True 100 ''i1'' ''p1'' ''u1''
   \<lparr>ir_email = ''Bob@example.com'', ir_role = ''viewer''\<rparr> team_world = (Inr resp, w))"
  by (simp add: service_CreateInvite_def method_defs sql_defs run_defs team_defs trim_literal invite_defs abort_tx_def
     mapTeamRepoError_def)
definition invited_world :: perm_world where
  "invited_world = team_world
  \<lparr>ss_data := (ss_data team_world)\<lparr>tb_invites := [\<lparr>iv_id = ''i1'', iv_project = ''p1'', iv_email = ''bob@example.com'',
     iv_role = ''Viewer'', iv_mask = 1, iv_invited_by = ''u1'', iv_inviter_role = ''Owner'', iv_status = ''pending'',
     iv_sent = 100, iv_expires = 200\<rparr>]\<rparr>\<rparr>"

lemma sample_cancel: "\<exists>resp w. service_CancelInvite Some Some True ''p1'' ''Bob@example.com'' invited_world = (Inr resp, w)"
  by (simp add: invited_world_def service_CancelInvite_def method_defs sql_defs run_defs team_defs trim_literal invite_defs isValidEmail_def)

lemma sample_batch: "\<exists>resp w. service_BatchInvites Some (\<lambda>_. []) Some True 100 (\<lambda>_. ''i1'') ''p1'' ''u1''
   [\<lparr>ir_email = ''Bob@example.com'', ir_role = ''boss''\<rparr>] team_world = (Inr (resp, True), w)"
  by (simp add: service_BatchInvites_def method_defs sql_defs run_defs team_defs trim_literal invite_defs isValidEmail_def
     batch_step_def canonicalRole_def role_of_slug_def canonicalRoles_def)

lemma team_world_ok: "tables_ok (ss_data team_world)" "masks_fit (ss_data team_world)" "members_synced (ss_data team_world)"
    "pending_unique (ss_data team_world)"
  by (simp_all add: tables_ok_def masks_fit_def members_synced_def pending_unique_def team_defs role_enum_def
      in_int64_def find_role_row_def)


lemma service_UpdateRolePermissions_effect_witness:
  "\<exists>resp w'. service_UpdateRolePermissions Some True True None ''p1'' ''Editor'' ''u1''
      \<lparr>urr_role = ''editor'', urr_mask = 1\<rparr> team_world = (Inr resp, w') \<and> rr_mask resp = 1"
proof -
  obtain resp w' where run: "service_UpdateRolePermissions Some True True None ''p1'' ''Editor'' ''u1''
      \<lparr>urr_role = ''editor'', urr_mask = 1\<rparr> team_world = (Inr resp, w')"
    using sample_update_role by blast
  from service_UpdateRolePermissions_effect [OF run] run show ?thesis by auto
qed

lemma service_CreateInvite_effect_witness:
  "\<exists>resp w'. service_CreateInvite Some (\<lambda>_. []) True 100 ''i1'' ''p1'' ''u1''
      \<lparr>ir_email = ''Bob@example.com'', ir_role = ''viewer''\<rparr> team_world = (Inr resp, w')
    \<and> pending_unique (ss_data w')"
  using sample_invite service_CreateInvite_effect [OF _ team_world_ok(4)] by metis

lemma service_CancelInvite_effect_witness:
  "\<exists>resp w'. service_CancelInvite Some Some True ''p1'' ''Bob@example.com'' invited_world = (Inr resp, w')
    \<and> (\<forall>i \<in> set (tb_invites (ss_data w')). \<not> is_pending ''p1'' (normalizeEmail ''Bob@example.com'') i)"
proof -
  obtain resp w' where run: "service_CancelInvite Some Some True ''p1'' ''Bob@example.com'' invited_world = (Inr resp, w')"
    using sample_cancel by blast
  from service_CancelInvite_effect [OF run] run show ?thesis by (auto simp: trim_literal)
qed

lemma service_BatchInvites_accounts_witness:
  "\<exists>resp w'. service_BatchInvites Some (\<lambda>_. []) Some True 100 (\<lambda>_. ''i1'') ''p1'' ''u1''
      [\<lparr>ir_email = ''Bob@example.com'', ir_role = ''boss''\<rparr>] team_world = (Inr (resp, True), w')
    \<and> length (br_invited resp) + length (br_failed resp) = 1"
proof -
  obtain resp w' where run: "service_BatchInvites Some (\<lambda>_. []) Some True 100 (\<lambda>_. ''i1'') ''p1'' ''u1''
      [\<lparr>ir_email = ''Bob@example.com'', ir_role = ''boss''\<rparr>] team_world = (Inr (resp, True), w')"
    using sample_batch by blast
  from service_BatchInvites_accounts [OF run] run show ?thesis by auto
qed

lemma validatePermissionMaskDependencies_iff_witness:
  "validatePermissionMaskDependencies (perm DStory AEdit) \<noteq> None
   \<and> (\<exists>d a. and (perm DStory AEdit) (perm d a) \<noteq> 0 \<and> and (perm DStory AEdit) (perm d AView) = 0)"
proof -
  have "validatePermissionMaskDependencies (perm DStory AEdit) \<noteq> None" by code_simp
  with validatePermissionMaskDependencies_iff [of "perm DStory AEdit"] show ?thesis by blast
qed

end
