(* ===== verification/Spec2Isabelle.thy ===== *)
theory Spec2Isabelle
  imports Artifact_Handler Artifact_Runs Auth_Handler Config_Start Middleware_Laws Route_Register Team_Invites
begin

text \<open>
  A verification library for the ProjectBook backend, a Go service with a PostgreSQL store and a Redis. Every
  request passes the global middleware (\<open>internal/core/httpx\<close>), then the policies of its route
  (\<open>internal/core/policy\<close>): authentication, project scope, permissions, rate limits, response caching. The
  typed adapter decodes and validates the body, and a module's handler calls its service and repository
  (\<open>internal/modules/<module>\<close>). Writes invalidate cached permissions and cached responses and notify other
  users. The library follows that order.

  \<^bold>\<open>Foundations.\<close> \<open>Go_Prelude\<close>: strings as byte lists, trimming, case, splitting. \<open>Go_Numbers\<close>: 64-bit integers and
  their decimal texts. \<open>Go_Duration\<close>: \<open>time.ParseDuration\<close>. \<open>Go_Sha256\<close>: the digest of the cache keys, over 32-bit
  words. \<open>Go_Value\<close>: dynamic values and JSON maps as association lists. \<open>App_Error\<close>: \<open>internal/core/errors\<close>, error
  chains as a datatype with \<open>errors.Is\<close> and \<open>errors.As\<close>. \<open>Http\<close>: requests, the response writer as the list of the
  calls made on it, the response envelope and the request context. \<open>Store\<close>: an operation that may fail is a function
  from a state to an error or a value and the new state; a session of \<open>internal/core/storage\<close> has its tables, the
  state of its transaction, and a set of requests that fail, by number, so that statements about errors range over
  every place where the database can fail. \<open>Project_Tables\<close>: the rows the modelled statements read and write.

  \<^bold>\<open>Permissions.\<close> \<open>Rbac\<close> (\<open>internal/core/rbac\<close>) has the masks as 64-bit words. \<open>Permissions\<close>
  (\<open>internal/core/permissions\<close>) has the relational and the Redis-first resolver and the synchronisation at the start,
  over a state of tables, Redis and pending backfills. The lemmas show that the cached resolver answers what the
  tables say as long as no stale entry was written, that a backfill never replaces a newer entry, and that the
  start leaves every derived member mask equal to its role's.

  \<^bold>\<open>Policies.\<close> \<open>Policy_Meta\<close> (\<open>metadata.go\<close>, \<open>validator*.go\<close>) is the registry and the route validator; \<open>Policy_Run\<close>
  the policies and their chain; \<open>Guard\<close> the contract of a policy, a locale interpreted for each of them, and what a
  validated chain lets through. \<open>Ratelimit\<close> and \<open>Policy_Limit\<close> are the fixed-window limiter with its Lua script and
  the policy over any limiter; \<open>Cache_Manager\<close>, \<open>Cache_Laws\<close> and \<open>Policy_Cache\<close> the tagged response cache, the
  invariant of its version counters, and the caching policies. \<open>Module_Routes\<close> has the route tables of the modules,
  and \<open>Route_Laws\<close>, \<open>Route_Check\<close>, \<open>Route_Register\<close> run the validator on them and derive what every registered route
  guarantees.

  \<^bold>\<open>The process.\<close> \<open>Config\<close>, \<open>Config_Lint\<close>, \<open>Config_Laws\<close> and \<open>Config_Start\<close> (\<open>internal/core/config\<close>) are the settings,
  their checks, and what a process that starts can rely on. \<open>Middleware\<close> and \<open>Middleware_Laws\<close> are the global
  middleware and its guarantees, \<open>Adapter\<close> the typed handlers.

  \<^bold>\<open>Modules.\<close> \<open>Team_Repo\<close>, \<open>Team_Service\<close>, \<open>Team_Laws\<close>, \<open>Team_Invites\<close> (\<open>modules/team\<close>): one function per SQL
  statement, per repository method and per request, and the effect of each on tables and caches. \<open>Notify\<close>
  (\<open>core/notify\<close>) is the fan-out of notifications. \<open>Pagination\<close> and \<open>Patchx\<close> are the list cursors and document
  patches; \<open>Artifact_Dto\<close>, \<open>Artifact_Service\<close>, \<open>Artifact_Handler\<close> (\<open>modules/artifacts\<close>) the requests, the life of the
  six kinds of artifact and the handlers, and \<open>Artifact_Laws\<close> the state machine they implement.
  \<open>Auth_Users\<close> and \<open>Account_Laws\<close> (\<open>core/auth\<close>) are the accounts behind the token engine: the user repository, the
  provider the engine calls, and the invariant of the account versions over every sequence of calls.
  \<open>Auth_Dto\<close>, \<open>Auth_Service\<close>, \<open>Auth_Handler\<close> (\<open>modules/auth\<close>) are the requests, the ten workflows over any token engine
  and any mail sender, and the handlers; \<open>Auth_Laws\<close> shows what a client learns from the answers and from the mails.

  \<^bold>\<open>Conventions.\<close> Go's strings are lists of bytes, its maps association lists or functions, its 64-bit integers words
  or integers with a range invariant. Loops are structural recursions. Where the source loops a bounded number of
  times (the retries of a backfill, the 64 rounds of the digest, base64 groups), the bound is the source's own and no fuel
  is added. What is not under \<open>src\<close> is an argument: the text-to-uuid cast, the parsers of URLs, addresses and floats of
  the standard library, the token engine, clocks and random sources. Assumptions on them are premises of the
  theorems that need them and are met by the witnesses.

  \<^bold>\<open>Not modelled.\<close> Concurrency inside one request: a session is one caller's view of the database, and concurrent
  commits are covered only where the source handles them (the backfills of the resolver, the version counters of the
  cache). Panics inside a database callback. The order of rows PostgreSQL may choose where a statement fixes none.
  The command line tools (\<open>cmd/migrate\<close>, \<open>cmd/perftoken\<close>, \<open>devx\<close>, \<open>tools\<close>), which are no part of the running service;
  the clients of mail, telemetry, metrics and MongoDB, which only translate calls to their libraries. The manifest
  names for every part what is left out.
\<close>

end
